(* ===== verification/Py_Prelude.thy ===== *)
theory Py_Prelude
  imports Main "HOL-Library.Word"
begin

text \<open>
  The Python run-time layer shared by every component of the development.

  \<^item> Exceptions are values of type \<open>exn\<close>; a message keeps the fixed head of the text the code
    raises it with.
  \<^item> A piece of code that mutates state and may raise is a value of type \<open>('s, 'a) py\<close>: it maps a
    state to an outcome \<^emph>\<open>and\<close> a state, because in Python the mutations made before an exception
    is raised stay in place.
  \<^item> \<open>m_ret\<close>, \<open>m_raise\<close>, \<open>m_bind\<close>, \<open>m_for\<close>, \<open>m_try\<close> and \<open>m_finally\<close> are the statements of
    that language, with the lemmas (\<open>py_run\<close>, \<open>py_ok\<close>, \<open>py_preserves\<close>) the component proofs use.
  \<^item> \<open>frames_only\<close> style facts are instances of \<open>preserves\<close>: a property of the state that a piece
    of code keeps whether it returns or raises.
\<close>

named_theorems py_run \<open>one-step execution of the statements of the Python layer\<close>
named_theorems py_ok \<open>inversion of successful runs\<close>
named_theorems py_preserves \<open>introduction rules for state invariants\<close>

named_theorems py_no_exit \<open>introduction rules for code that does not exit the interpreter\<close>

section \<open>Exceptions and results\<close>

datatype exn =
    ValueError string
  | RuntimeError string
  | ConnectionError string
  | TimeoutError string
  | TypeError
  | AttributeError
  | NameError
  | KeyError
  | IndexError
  | StructError
  | OverflowError
  | ZeroDivisionError
  | JSONDecodeError
  | DecodeError
  | ZmqAgain
  | OSError int
  | FileExistsError
  | AssertionError
  | StopIteration
  | SystemExit int

type_synonym 'a result = "exn + 'a"

definition r_bind :: "'a result \<Rightarrow> ('a \<Rightarrow> 'b result) \<Rightarrow> 'b result" where
  "r_bind r f = (case r of Inl e \<Rightarrow> Inl e | Inr a \<Rightarrow> f a)"

lemma r_bind_simps [simp]:
  "r_bind (Inl e) f = Inl e"
  "r_bind (Inr a) f = f a"
  by (simp_all add: r_bind_def)

lemma r_bind_ok: "r_bind r f = Inr b \<longleftrightarrow> (\<exists>a. r = Inr a \<and> f a = Inr b)"
  by (cases r) auto

definition r_of_option :: "exn \<Rightarrow> 'a option \<Rightarrow> 'a result" where
  "r_of_option e x = (case x of None \<Rightarrow> Inl e | Some a \<Rightarrow> Inr a)"

lemma r_of_option_simps [simp]:
  "r_of_option e None = Inl e"
  "r_of_option e (Some a) = Inr a"
  by (simp_all add: r_of_option_def)

lemma r_of_option_ok [simp]: "r_of_option e x = Inr a \<longleftrightarrow> x = Some a"
  by (cases x) auto

text \<open>A loop that collects results and stops at the first exception.\<close>

fun r_map :: "('a \<Rightarrow> 'b result) \<Rightarrow> 'a list \<Rightarrow> 'b list result" where
  "r_map f [] = Inr []"
| "r_map f (x # xs) = r_bind (f x) (\<lambda>y. r_bind (r_map f xs) (\<lambda>ys. Inr (y # ys)))"

lemma r_map_ok: "r_map f xs = Inr ys \<longleftrightarrow> list_all2 (\<lambda>x y. f x = Inr y) xs ys"
proof (induction xs arbitrary: ys)
  case Nil
  then show ?case by auto
next
  case (Cons x xs)
  then show ?case by (cases ys) (auto simp: r_bind_ok)
qed

text \<open>A loop that pairs every element with a computed key.\<close>

lemma r_map_tag:
  "r_map (\<lambda>x. r_bind (f x) (\<lambda>k. Inr (k, x))) xs = Inr ys \<Longrightarrow> map snd ys = xs \<and> (\<forall>y \<in> set ys. f (snd y) = Inr (fst y))"
  by (induction xs arbitrary: ys) (fastforce simp: r_bind_ok)+

lemma r_map_ret: "(\<And>x. x \<in> set xs \<Longrightarrow> f x = Inr (g x)) \<Longrightarrow> r_map f xs = Inr (map g xs)"
  by (induction xs) auto

text \<open>A loop that updates a local variable and stops at the first exception.\<close>

fun r_fold :: "('a \<Rightarrow> 'b \<Rightarrow> 'b result) \<Rightarrow> 'a list \<Rightarrow> 'b \<Rightarrow> 'b result" where
  "r_fold f [] acc = Inr acc"
| "r_fold f (x # xs) acc = r_bind (f x acc) (r_fold f xs)"

lemma r_fold_append: "r_fold f (xs @ ys) acc = r_bind (r_fold f xs acc) (r_fold f ys)"
  by (induction xs arbitrary: acc) (auto simp: r_bind_def split: sum.splits)

lemma r_fold_invariant:
  "r_fold f xs acc = Inr b \<Longrightarrow> I acc \<Longrightarrow> (\<And>x a a'. x \<in> set xs \<Longrightarrow> I a \<Longrightarrow> f x a = Inr a' \<Longrightarrow> I a') \<Longrightarrow> I b"
proof (induction xs arbitrary: acc)
  case (Cons x xs)
  then obtain a where "f x acc = Inr a" "r_fold f xs a = Inr b" by (auto simp: r_bind_ok)
  with Cons show ?case by (meson list.set_intros)
qed simp

lemma r_fold_returns: "(\<And>x a. x \<in> set xs \<Longrightarrow> \<exists>b. f x a = Inr b) \<Longrightarrow> \<exists>b. r_fold f xs acc = Inr b"
proof (induction xs arbitrary: acc)
  case (Cons x xs)
  then obtain a where "f x acc = Inr a" by (meson list.set_intros(1))
  with Cons show ?case by simp
qed simp

section \<open>Stateful code\<close>

type_synonym ('s, 'a) py = "'s \<Rightarrow> 'a result \<times> 's"

definition m_ret :: "'a \<Rightarrow> ('s, 'a) py" where
  "m_ret a s = (Inr a, s)"

definition m_raise :: "exn \<Rightarrow> ('s, 'a) py" where
  "m_raise e s = (Inl e, s)"

definition m_lift :: "'a result \<Rightarrow> ('s, 'a) py" where
  "m_lift r s = (r, s)"

definition m_bind :: "('s, 'a) py \<Rightarrow> ('a \<Rightarrow> ('s, 'b) py) \<Rightarrow> ('s, 'b) py" where
  "m_bind m f s = (case m s of (Inl e, t) \<Rightarrow> (Inl e, t) | (Inr a, t) \<Rightarrow> f a t)"

definition m_then :: "('s, 'a) py \<Rightarrow> ('s, 'b) py \<Rightarrow> ('s, 'b) py" where
  "m_then m k = m_bind m (\<lambda>_. k)"

definition m_get :: "('s \<Rightarrow> 'a) \<Rightarrow> ('s, 'a) py" where
  "m_get f s = (Inr (f s), s)"

definition m_modify :: "('s \<Rightarrow> 's) \<Rightarrow> ('s, unit) py" where
  "m_modify f s = (Inr (), f s)"

definition m_when :: "bool \<Rightarrow> ('s, unit) py \<Rightarrow> ('s, unit) py" where
  "m_when b m = (if b then m else m_ret ())"

fun m_for :: "'x list \<Rightarrow> ('x \<Rightarrow> ('s, unit) py) \<Rightarrow> ('s, unit) py" where
  "m_for [] body = m_ret ()"
| "m_for (x # xs) body = m_then (body x) (m_for xs body)"

fun m_map :: "('x \<Rightarrow> ('s, 'y) py) \<Rightarrow> 'x list \<Rightarrow> ('s, 'y list) py" where
  "m_map f [] = m_ret []"
| "m_map f (x # xs) = m_bind (f x) (\<lambda>y. m_bind (m_map f xs) (\<lambda>ys. m_ret (y # ys)))"

text \<open>A loop that updates local variables (the accumulator) and may also act on the state.\<close>

fun m_fold :: "('x \<Rightarrow> 'a \<Rightarrow> ('s, 'a) py) \<Rightarrow> 'x list \<Rightarrow> 'a \<Rightarrow> ('s, 'a) py" where
  "m_fold f [] acc = m_ret acc"
| "m_fold f (x # xs) acc = m_bind (f x acc) (m_fold f xs)"

text \<open>\<open>try: m except: handler\<close>; the handler may re-raise.\<close>

definition m_try :: "('s, 'a) py \<Rightarrow> (exn \<Rightarrow> ('s, 'a) py) \<Rightarrow> ('s, 'a) py" where
  "m_try m h s = (case m s of (Inl e, t) \<Rightarrow> h e t | (Inr a, t) \<Rightarrow> (Inr a, t))"

text \<open>\<open>try: m except Exception as e: handler\<close>: \<open>SystemExit\<close> is not an \<open>Exception\<close> and passes through.\<close>

fun is_exit :: "exn \<Rightarrow> bool" where
  "is_exit (SystemExit c) = True"
| "is_exit _ = False"

definition m_except :: "('s, 'a) py \<Rightarrow> (exn \<Rightarrow> ('s, 'a) py) \<Rightarrow> ('s, 'a) py" where
  "m_except m h = m_try m (\<lambda>e. if is_exit e then m_raise e else h e)"

text \<open>\<open>try: m finally: c\<close>: the clean-up runs on both exits; an exception it raises wins.\<close>

definition m_finally :: "('s, 'a) py \<Rightarrow> ('s, unit) py \<Rightarrow> ('s, 'a) py" where
  "m_finally m c s =
     (case m s of (r, t) \<Rightarrow> (case c t of (Inl e, u) \<Rightarrow> (Inl e, u) | (Inr _, u) \<Rightarrow> (r, u)))"

lemma m_simps [py_run]:
  "m_ret a s = (Inr a, s)"
  "m_raise e s = (Inl e, s)"
  "m_lift r s = (r, s)"
  "m_get f s = (Inr (f s), s)"
  "m_modify g s = (Inr (), g s)"
  by (simp_all add: m_ret_def m_raise_def m_lift_def m_get_def m_modify_def)

lemma m_bind_run [py_run]:
  "m s = (Inr a, t) \<Longrightarrow> m_bind m f s = f a t"
  "m s = (Inl e, t) \<Longrightarrow> m_bind m f s = (Inl e, t)"
  by (simp_all add: m_bind_def)

lemma m_then_run [py_run]:
  "m s = (Inr a, t) \<Longrightarrow> m_then m k s = k t"
  "m s = (Inl e, t) \<Longrightarrow> m_then m k s = (Inl e, t)"
  by (simp_all add: m_then_def m_bind_def)

lemma m_try_run [py_run]:
  "m s = (Inr a, t) \<Longrightarrow> m_try m h s = (Inr a, t)"
  "m s = (Inl e, t) \<Longrightarrow> m_try m h s = h e t"
  by (simp_all add: m_try_def)

lemma m_except_run [py_run]:
  "m s = (Inr a, t) \<Longrightarrow> m_except m h s = (Inr a, t)"
  "m s = (Inl e, t) \<Longrightarrow> \<not> is_exit e \<Longrightarrow> m_except m h s = h e t"
  "m s = (Inl e, t) \<Longrightarrow> is_exit e \<Longrightarrow> m_except m h s = (Inl e, t)"
  by (simp_all add: m_except_def m_try_def m_raise_def)

lemma m_finally_run [py_run]:
  "m s = (r, t) \<Longrightarrow> c t = (Inr (), u) \<Longrightarrow> m_finally m c s = (r, u)"
  by (simp add: m_finally_def)

lemma m_bind_ret [simp]: "m_bind (m_ret a) f = f a"
  by (rule ext) (simp add: m_bind_def m_ret_def)

lemma m_bind_raise [simp]: "m_bind (m_raise e) f = m_raise e"
  by (rule ext) (simp add: m_bind_def m_raise_def)

lemma m_bind_lift [simp]:
  "m_bind (m_lift (Inr a)) f = f a"
  "m_bind (m_lift (Inl e)) f = m_raise e"
  by (rule ext, simp add: m_bind_def m_lift_def m_raise_def)+

lemma m_bind_lift_lift: "m_bind (m_lift a) (\<lambda>x. m_lift (f x)) = m_lift (r_bind a f)"
  by (rule ext, cases a) (simp_all add: m_bind_def m_lift_def m_raise_def)

lemma m_then_ret [simp]: "m_then (m_ret a) k = k"
  by (simp add: m_then_def)

lemma m_then_raise [simp]: "m_then (m_raise e) k = m_raise e"
  by (simp add: m_then_def)

lemma m_bind_assoc: "m_bind (m_bind m f) g = m_bind m (\<lambda>x. m_bind (f x) g)"
  by (rule ext) (simp add: m_bind_def split: prod.split sum.split)

lemma m_then_assoc: "m_then (m_then a b) c = m_then a (m_then b c)"
  by (simp add: m_then_def m_bind_assoc)

lemma m_then_ret_unit [simp]: "m_then m (m_ret ()) = (m :: ('s, unit) py)"
  by (rule ext) (simp add: m_then_def m_bind_def m_ret_def split: prod.split sum.split)

lemma m_for_append: "m_for (xs @ ys) body = m_then (m_for xs body) (m_for ys body)"
  by (induction xs) (simp_all add: m_then_assoc)

lemma m_for_cong: "(\<And>x. x \<in> set xs \<Longrightarrow> f x = g x) \<Longrightarrow> m_for xs f = m_for xs g"
  by (induction xs) auto

lemma m_for_map: "m_for (map h xs) body = m_for xs (\<lambda>x. body (h x))"
  by (induction xs) auto

lemma m_for_concat: "m_for (concat xss) body = m_for xss (\<lambda>xs. m_for xs body)"
  by (induction xss) (auto simp: m_for_append)

subsection \<open>Successful runs\<close>

lemma m_bind_ok [py_ok]:
  "m_bind m f s = (Inr b, u) \<longleftrightarrow> (\<exists>a t. m s = (Inr a, t) \<and> f a t = (Inr b, u))"
  by (auto simp: m_bind_def split: prod.splits sum.splits)

lemma m_then_ok [py_ok]:
  "m_then m k s = (Inr b, u) \<longleftrightarrow> (\<exists>a t. m s = (Inr a, t) \<and> k t = (Inr b, u))"
  by (simp add: m_then_def m_bind_ok)

lemma m_when_ok [py_ok]:
  "m_when c m s = (Inr b, u) \<longleftrightarrow> (if c then m s = (Inr b, u) else u = s)"
  by (auto simp: m_when_def m_ret_def)

lemma m_basic_ok [py_ok]:
  "m_ret a s = (Inr b, u) \<longleftrightarrow> b = a \<and> u = s"
  "m_raise e s = (Inr b, u) \<longleftrightarrow> False"
  "m_lift r s = (Inr b, u) \<longleftrightarrow> r = Inr b \<and> u = s"
  "m_get f s = (Inr b, u) \<longleftrightarrow> b = f s \<and> u = s"
  by (auto simp: m_ret_def m_raise_def m_lift_def m_get_def)

lemma m_modify_ok [py_ok]: "m_modify g s = (Inr b, u) \<longleftrightarrow> u = g s"
  by (auto simp: m_modify_def)

subsection \<open>Invariants kept on every exit\<close>

definition preserves :: "('s \<Rightarrow> bool) \<Rightarrow> ('s, 'a) py \<Rightarrow> bool" where
  "preserves P m \<longleftrightarrow> (\<forall>s. P s \<longrightarrow> P (snd (m s)))"

lemma preservesI: "(\<And>s. P s \<Longrightarrow> P (snd (m s))) \<Longrightarrow> preserves P m"
  by (simp add: preserves_def)

lemma preservesD: "preserves P m \<Longrightarrow> P s \<Longrightarrow> m s = (r, t) \<Longrightarrow> P t"
  by (metis preserves_def snd_conv)

lemma preserves_basic [py_preserves]:
  "preserves P (m_ret a)"
  "preserves P (m_raise e)"
  "preserves P (m_lift r)"
  "preserves P (m_get f)"
  by (simp_all add: preserves_def py_run)

lemma preserves_modify [py_preserves]: "(\<And>s. P s \<Longrightarrow> P (g s)) \<Longrightarrow> preserves P (m_modify g)"
  by (simp add: preserves_def py_run)

lemma preserves_bind [py_preserves]:
  "preserves P m \<Longrightarrow> (\<And>a. preserves P (f a)) \<Longrightarrow> preserves P (m_bind m f)"
  by (fastforce simp: preserves_def m_bind_def split: prod.splits sum.splits)

lemma preserves_then [py_preserves]:
  "preserves P m \<Longrightarrow> preserves P k \<Longrightarrow> preserves P (m_then m k)"
  by (simp add: m_then_def preserves_bind)

lemma preserves_when [py_preserves]: "preserves P m \<Longrightarrow> preserves P (m_when c m)"
  by (simp add: m_when_def preserves_basic)

lemma preserves_for [py_preserves]:
  "(\<And>x. x \<in> set xs \<Longrightarrow> preserves P (body x)) \<Longrightarrow> preserves P (m_for xs body)"
  by (induction xs) (auto intro: py_preserves)

lemma preserves_map [py_preserves]:
  "(\<And>x. x \<in> set xs \<Longrightarrow> preserves P (f x)) \<Longrightarrow> preserves P (m_map f xs)"
  by (induction xs) (auto intro!: py_preserves)

lemma preserves_try [py_preserves]:
  "preserves P m \<Longrightarrow> (\<And>e. preserves P (h e)) \<Longrightarrow> preserves P (m_try m h)"
  by (fastforce simp: preserves_def m_try_def split: prod.splits sum.splits)

lemma preserves_except [py_preserves]:
  "preserves P m \<Longrightarrow> (\<And>e. preserves P (h e)) \<Longrightarrow> preserves P (m_except m h)"
  unfolding m_except_def by (rule preserves_try) (auto intro: preserves_basic)

lemma preserves_finally [py_preserves]:
  "preserves P m \<Longrightarrow> preserves P c \<Longrightarrow> preserves P (m_finally m c)"
  by (fastforce simp: preserves_def m_finally_def split: prod.splits sum.splits)

lemma preserves_if [py_preserves]:
  "preserves P a \<Longrightarrow> preserves P b \<Longrightarrow> preserves P (if c then a else b)"
  by simp

lemma preserves_split [py_preserves]: "(\<And>a b. preserves P (f a b)) \<Longrightarrow> preserves P (case x of (a, b) \<Rightarrow> f a b)"
  by (cases x) simp

lemma preserves_option [py_preserves]:
  "preserves P a \<Longrightarrow> (\<And>x. preserves P (f x)) \<Longrightarrow> preserves P (case y of None \<Rightarrow> a | Some x \<Rightarrow> f x)"
  by (cases y) simp_all

text \<open>What holds of a view of the state on every exit of a sequence, one part of which keeps the view; the first
  argument of \<open>R\<close> tells whether the sequence has raised.\<close>

lemma m_bind_quiet_first:
  assumes "preserves (\<lambda>s. v s = v s0) m" "R True (v s0)" "\<And>a t. v t = v s0 \<Longrightarrow> R (isl (fst (f a t))) (v (snd (f a t)))"
  shows "R (isl (fst (m_bind m f s0))) (v (snd (m_bind m f s0)))"
proof -
  obtain r t where m: "m s0 = (r, t)" by fastforce
  then have "v t = v s0" using preservesD [OF assms(1)] by blast
  with m assms show ?thesis by (cases r) (simp_all add: m_bind_def)
qed

lemma m_bind_quiet_last:
  assumes "R (isl (fst (m s))) (v (snd (m s)))" "\<And>a g. preserves (\<lambda>s. v s = g) (f a)" "\<And>g. R False g \<Longrightarrow> R True g"
  shows "R (isl (fst (m_bind m f s))) (v (snd (m_bind m f s)))"
proof (cases "m s")
  case (Pair r t)
  have "v (snd (f a t)) = v t" for a using assms(2) [of "v t" a] by (simp add: preserves_def)
  with Pair assms(1,3) show ?thesis by (cases r) (simp_all add: m_bind_def, metis (full_types))
qed

subsection \<open>Invariants with a property of the result\<close>

text \<open>\<open>keeps I m Q\<close>: \<open>m\<close> keeps \<open>I\<close> on every exit, and what it returns satisfies \<open>Q\<close>.\<close>

definition keeps :: "('s \<Rightarrow> bool) \<Rightarrow> ('s, 'a) py \<Rightarrow> ('a \<Rightarrow> bool) \<Rightarrow> bool" where
  "keeps I m Q \<longleftrightarrow> (\<forall>s. I s \<longrightarrow> I (snd (m s)) \<and> (\<forall>a t. m s = (Inr a, t) \<longrightarrow> Q a))"

named_theorems py_keeps \<open>introduction rules for invariants with a property of the result\<close>

lemma keepsD: "keeps I m Q \<Longrightarrow> I s \<Longrightarrow> I (snd (m s))"
  by (simp add: keeps_def)

lemma keeps_weaken: "keeps I m Q \<Longrightarrow> (\<And>a. Q a \<Longrightarrow> R a) \<Longrightarrow> keeps I m R"
  unfolding keeps_def by blast

lemma keeps_basic [py_keeps]:
  "Q a \<Longrightarrow> keeps I (m_ret a) Q"
  "keeps I (m_raise e) Q"
  "(\<And>a. r = Inr a \<Longrightarrow> Q a) \<Longrightarrow> keeps I (m_lift r) Q"
  "(\<And>s. Q (f s)) \<Longrightarrow> keeps I (m_get f) Q"
  by (auto simp: keeps_def py_run)

lemma keeps_bind [py_keeps]: "keeps I m R \<Longrightarrow> (\<And>a. R a \<Longrightarrow> keeps I (f a) Q) \<Longrightarrow> keeps I (m_bind m f) Q"
  unfolding keeps_def by (fastforce simp: m_bind_def split: prod.splits sum.splits)

lemma keeps_then [py_keeps]: "keeps I m (\<lambda>_. True) \<Longrightarrow> keeps I k Q \<Longrightarrow> keeps I (m_then m k) Q"
  unfolding m_then_def by (rule keeps_bind) auto

lemma keeps_except [py_keeps]: "keeps I m Q \<Longrightarrow> (\<And>e. keeps I (h e) Q) \<Longrightarrow> keeps I (m_except m h) Q"
  unfolding keeps_def m_except_def by (fastforce simp: m_try_def py_run split: prod.splits sum.splits if_splits)

lemma keeps_for [py_keeps]: "(\<And>x. x \<in> set xs \<Longrightarrow> keeps I (body x) (\<lambda>_. True)) \<Longrightarrow> keeps I (m_for xs body) (\<lambda>_. True)"
  by (induction xs) (auto intro!: py_keeps)

lemma keeps_fold: "(\<And>x a. x \<in> set xs \<Longrightarrow> Q a \<Longrightarrow> keeps I (f x a) Q) \<Longrightarrow> Q a \<Longrightarrow> keeps I (m_fold f xs a) Q"
proof (induction xs arbitrary: a)
  case (Cons x xs)
  then show ?case by (auto intro!: keeps_bind [of I "f x a" Q])
qed (simp add: keeps_basic)

subsection \<open>Code that does not exit the interpreter\<close>

definition no_exit :: "('s, 'a) py \<Rightarrow> bool" where
  "no_exit m \<longleftrightarrow> (\<forall>s e t. m s = (Inl e, t) \<longrightarrow> \<not> is_exit e)"

lemma no_exitD: "no_exit m \<Longrightarrow> m s = (Inl e, t) \<Longrightarrow> \<not> is_exit e"
  unfolding no_exit_def by blast

lemma no_exit_basic [py_no_exit]:
  "no_exit (m_ret a)" "\<not> is_exit e \<Longrightarrow> no_exit (m_raise e)" "no_exit (m_get f)" "no_exit (m_modify g)"
  "(\<And>e. r = Inl e \<Longrightarrow> \<not> is_exit e) \<Longrightarrow> no_exit (m_lift r)"
  by (auto simp: no_exit_def py_run)

lemma no_exit_bind [py_no_exit]: "no_exit m \<Longrightarrow> (\<And>a. no_exit (f a)) \<Longrightarrow> no_exit (m_bind m f)"
  unfolding no_exit_def m_bind_def by (auto split: prod.splits sum.splits)

lemma no_exit_then [py_no_exit]: "no_exit m \<Longrightarrow> no_exit k \<Longrightarrow> no_exit (m_then m k)"
  by (simp add: m_then_def no_exit_bind)

lemma no_exit_fold [py_no_exit]: "(\<And>x a. no_exit (f x a)) \<Longrightarrow> no_exit (m_fold f xs a)"
  by (induction xs arbitrary: a) (auto intro: no_exit_basic no_exit_bind)

lemma no_exit_map [py_no_exit]: "(\<And>x. no_exit (f x)) \<Longrightarrow> no_exit (m_map f xs)"
  by (induction xs) (auto intro!: no_exit_basic no_exit_bind)

lemma no_exit_for [py_no_exit]: "(\<And>x. no_exit (f x)) \<Longrightarrow> no_exit (m_for xs f)"
  by (induction xs) (auto intro!: no_exit_basic no_exit_then)

text \<open>\<open>except Exception\<close> around such code with a handler that returns always returns.\<close>

lemma m_except_returns:
  assumes "no_exit m" and "\<And>e u. \<exists>a t. h e u = (Inr a, t)"
  shows "\<exists>a t. m_except m h s = (Inr a, t)"
proof (cases "m s")
  case (Pair r t)
  show ?thesis
  proof (cases r)
    case (Inl e)
    with Pair assms show ?thesis by (simp add: py_run no_exitD)
  next
    case (Inr a)
    with Pair show ?thesis by (simp add: py_run)
  qed
qed

section \<open>Triples over a view of the state\<close>

text \<open>
  Total-correctness triples: from every ready state whose view satisfies \<open>P\<close> the code returns,
  the state is ready again, and the result and the view satisfy \<open>Q\<close>. The rules compute the
  precondition from the postcondition, so a straight-line sequence is verified by applying them.
\<close>

definition triple ::
  "('s \<Rightarrow> bool) \<Rightarrow> ('s \<Rightarrow> 'g) \<Rightarrow> ('g \<Rightarrow> bool) \<Rightarrow> ('s, 'a) py \<Rightarrow> ('a \<Rightarrow> 'g \<Rightarrow> bool) \<Rightarrow> bool" where
  "triple ready view P m Q \<longleftrightarrow>
     (\<forall>s. ready s \<longrightarrow> P (view s) \<longrightarrow> (\<exists>a t. m s = (Inr a, t) \<and> ready t \<and> Q a (view t)))"

named_theorems wp \<open>rules that compute a precondition\<close>

lemma tripleD:
  "triple ready view P m Q \<Longrightarrow> ready s \<Longrightarrow> P (view s) \<Longrightarrow> \<exists>a t. m s = (Inr a, t) \<and> ready t \<and> Q a (view t)"
  by (simp add: triple_def)

lemma triple_weaken:
  "triple ready view P m Q \<Longrightarrow> (\<And>g. P' g \<Longrightarrow> P g) \<Longrightarrow> triple ready view P' m Q"
  by (simp add: triple_def)

lemma triple_ret [wp]: "triple ready view (Q a) (m_ret a) Q"
  by (simp add: triple_def m_ret_def)

lemma triple_raise [wp]: "triple ready view (\<lambda>_. False) (m_raise e) Q"
  by (simp add: triple_def)

lemma triple_bind [wp]:
  assumes "\<And>a. triple ready view (R a) (f a) Q" "triple ready view P m R"
  shows "triple ready view P (m_bind m f) Q"
  unfolding triple_def
proof (intro allI impI)
  fix s assume "ready s" "P (view s)"
  then obtain a t where "m s = (Inr a, t)" "ready t" "R a (view t)"
    using tripleD [OF assms(2)] by blast
  then show "\<exists>b u. m_bind m f s = (Inr b, u) \<and> ready u \<and> Q b (view u)"
    using tripleD [OF assms(1)] by (auto simp: m_bind_def)
qed

lemma triple_then [wp]:
  assumes "triple ready view R k Q" "triple ready view P m (\<lambda>_. R)"
  shows "triple ready view P (m_then m k) Q"
  unfolding m_then_def by (rule triple_bind) (use assms in auto)

lemma triple_if [wp]:
  "triple ready view P a Q \<Longrightarrow> triple ready view R b Q \<Longrightarrow>
     triple ready view (\<lambda>g. if c then P g else R g) (if c then a else b) Q"
  by (simp add: triple_def)

lemma triple_for:
  "(\<And>x. x \<in> set xs \<Longrightarrow> triple ready view I (body x) (\<lambda>_. I)) \<Longrightarrow> triple ready view I (m_for xs body) (\<lambda>_. I)"
proof (induction xs)
  case Nil
  show ?case using triple_ret [of ready view "\<lambda>_. I" "()"] by simp
next
  case (Cons x xs)
  have "triple ready view I (m_for xs body) (\<lambda>_. I)" using Cons by simp
  moreover have "triple ready view I (body x) (\<lambda>_. I)" using Cons.prems by simp
  ultimately show ?case by (simp add: triple_then)
qed

text \<open>A loop whose body acts on the view as a function acts as the fold of that function.\<close>

lemma triple_for_fold:
  "(\<And>x Q. x \<in> set xs \<Longrightarrow> triple ready view (\<lambda>g. Q (F x g)) (body x) (\<lambda>_. Q)) \<Longrightarrow>
     triple ready view (\<lambda>g. Q () (fold F xs g)) (m_for xs body) Q"
proof (induction xs)
  case Nil
  show ?case using triple_ret [of ready view Q "()"] by simp
next
  case (Cons x xs)
  have "triple ready view (\<lambda>g. Q () (fold F xs g)) (m_for xs body) Q"
    using Cons by simp
  moreover have "triple ready view (\<lambda>g. (\<lambda>h. Q () (fold F xs h)) (F x g)) (body x) (\<lambda>_ h. Q () (fold F xs h))"
    by (rule Cons.prems) simp
  ultimately show ?case by (simp add: triple_then)
qed

section \<open>Triples for the runs that return\<close>

text \<open>The same for partial correctness: what holds of the view when the code returns, whatever the environment.\<close>

definition ptriple :: "('s \<Rightarrow> 'g) \<Rightarrow> ('g \<Rightarrow> bool) \<Rightarrow> ('s, 'a) py \<Rightarrow> ('a \<Rightarrow> 'g \<Rightarrow> bool) \<Rightarrow> bool" where
  "ptriple view P m Q \<longleftrightarrow> (\<forall>s a t. P (view s) \<longrightarrow> m s = (Inr a, t) \<longrightarrow> Q a (view t))"

named_theorems pwp \<open>rules that compute a precondition of a run that returns\<close>

lemma ptripleD: "ptriple view P m Q \<Longrightarrow> P (view s) \<Longrightarrow> m s = (Inr a, t) \<Longrightarrow> Q a (view t)"
  by (simp add: ptriple_def)

lemma ptriple_weaken: "ptriple view P m Q \<Longrightarrow> (\<And>g. P' g \<Longrightarrow> P g) \<Longrightarrow> ptriple view P' m Q"
  unfolding ptriple_def by blast

lemma ptriple_basic [pwp]:
  "ptriple view (Q a) (m_ret a) Q"
  "ptriple view (\<lambda>_. True) (m_raise e) Q"
  "ptriple view (\<lambda>g. \<forall>a. r = Inr a \<longrightarrow> Q a g) (m_lift r) Q"
  by (auto simp: ptriple_def py_run)

lemma ptriple_get: "ptriple view (\<lambda>g. \<forall>a. Q a g) (m_get f) Q"
  by (auto simp: ptriple_def py_run)

lemma ptriple_bind [pwp]:
  "(\<And>a. ptriple view (R a) (f a) Q) \<Longrightarrow> ptriple view P m R \<Longrightarrow> ptriple view P (m_bind m f) Q"
  unfolding ptriple_def m_bind_ok by blast

lemma ptriple_then [pwp]:
  "ptriple view R k Q \<Longrightarrow> ptriple view P m (\<lambda>_. R) \<Longrightarrow> ptriple view P (m_then m k) Q"
  unfolding m_then_def by (rule ptriple_bind)

lemma ptriple_if [pwp]:
  "ptriple view P a Q \<Longrightarrow> ptriple view R b Q \<Longrightarrow> ptriple view (\<lambda>g. if c then P g else R g) (if c then a else b) Q"
  by (simp add: ptriple_def)

lemma ptriple_when [pwp]: "ptriple view P m Q \<Longrightarrow> ptriple view (\<lambda>g. if c then P g else Q () g) (m_when c m) Q"
  by (auto simp: m_when_def ptriple_def py_run)

lemma ptriple_option:
  "ptriple view P a Q \<Longrightarrow> (\<And>x. ptriple view (R x) (f x) Q) \<Longrightarrow>
     ptriple view (\<lambda>g. case y of None \<Rightarrow> P g | Some x \<Rightarrow> R x g) (case y of None \<Rightarrow> a | Some x \<Rightarrow> f x) Q"
  by (cases y) simp_all

lemma ptriple_split [pwp]: "(\<And>a b. ptriple view (P a b) (f a b) Q) \<Longrightarrow> ptriple view (case x of (a, b) \<Rightarrow> P a b) (case x of (a, b) \<Rightarrow> f a b) Q"
  by (cases x) simp

section \<open>Python integers and ranges\<close>

text \<open>\<open>range(n)\<close> for a non-negative bound, and \<open>range(a, b, step)\<close> for a positive step.\<close>

definition py_range :: "nat \<Rightarrow> int list" where
  "py_range n = map int [0..<n]"

function py_range_step :: "int \<Rightarrow> int \<Rightarrow> int \<Rightarrow> int list" where
  "py_range_step a b st = (if 0 < st \<and> a < b then a # py_range_step (a + st) b st else [])"
  by pat_completeness auto
termination
  by (relation "measure (\<lambda>(a, b, st). nat (b - a))") auto

declare py_range_step.simps [simp del]

lemma set_py_range [simp]: "set (py_range n) = {0..<int n}"
  using image_int_atLeastLessThan [of 0 n] by (simp add: py_range_def)

lemma length_py_range [simp]: "length (py_range n) = n"
  by (simp add: py_range_def)

lemma py_range_nth [simp]: "i < n \<Longrightarrow> py_range n ! i = int i"
  by (simp add: py_range_def)

definition clamp :: "int \<Rightarrow> int \<Rightarrow> int \<Rightarrow> int" where
  "clamp lo hi x = max lo (min hi x)"

lemma clamp_bounds: "lo \<le> hi \<Longrightarrow> lo \<le> clamp lo hi x \<and> clamp lo hi x \<le> hi"
  by (simp add: clamp_def)

lemma clamp_id [simp]: "lo \<le> x \<Longrightarrow> x \<le> hi \<Longrightarrow> clamp lo hi x = x"
  by (simp add: clamp_def)

text \<open>Masks: \<open>x & (2^n - 1)\<close> is the remainder modulo \<open>2^n\<close>.\<close>

lemma and_mask_mod:
  fixes x :: int
  shows "and x (2 ^ n - 1) = x mod 2 ^ n"
  by (simp add: take_bit_eq_mask [symmetric] mask_eq_exp_minus_1 [symmetric] take_bit_eq_mod)

text \<open>Reading a low field and the rest out of a packed number.\<close>

lemma field_mod:
  fixes w :: int
  shows "0 \<le> w \<Longrightarrow> w < n \<Longrightarrow> (w + n * x) mod n = w"
  by (simp add: mod_mult_self2)

lemma field_div:
  fixes w :: int
  shows "0 \<le> w \<Longrightarrow> w < n \<Longrightarrow> (w + n * x) div n = x"
  by (simp add: div_mult_self2)

section \<open>Bounded queues\<close>

text \<open>\<open>deque(maxlen=n).append\<close>: the oldest entry leaves a full queue. A queue that starts empty holds the
  last \<open>n\<close> of the values appended to it.\<close>

definition deque_push :: "nat \<Rightarrow> 'a list \<Rightarrow> 'a \<Rightarrow> 'a list" where
  "deque_push n xs x = drop (length xs + 1 - n) (xs @ [x])"

definition last_n :: "nat \<Rightarrow> 'a list \<Rightarrow> 'a list" where
  "last_n n xs = drop (length xs - n) xs"

lemma length_deque_push: "length xs \<le> n \<Longrightarrow> length (deque_push n xs x) = min n (length xs + 1)"
  by (simp add: deque_push_def)

lemma last_n_empty [simp]: "last_n n [] = []"
  by (simp add: last_n_def)

lemma deque_push_last_n: "deque_push n (last_n n xs) x = last_n n (xs @ [x])"
  by (cases "length xs < n") (auto simp: deque_push_def last_n_def Suc_diff_le)

end
