(* ===== verification/Ssp_Wire.thy ===== *)
theory Ssp_Wire
  imports Py_Prelude
begin

text \<open>
  The wire format of \<open>client/ssp_led_control.py\<close>: little-endian unsigned 32-bit words as
  \<open>struct.pack\<close> and \<open>struct.unpack\<close> produce and read them, and the five-word header of a
  request or response packet. The lemmas are the round trips the transaction layer rests on.
\<close>

type_synonym byte = "8 word"
type_synonym bytes = "byte list"

section \<open>Little-endian words\<close>

fun le_bytes :: "nat \<Rightarrow> int \<Rightarrow> bytes" where
  "le_bytes 0 v = []"
| "le_bytes (Suc n) v = word_of_int v # le_bytes n (v div 256)"

fun le_int :: "bytes \<Rightarrow> int" where
  "le_int [] = 0"
| "le_int (b # bs) = uint b + 256 * le_int bs"

definition is_u32 :: "int \<Rightarrow> bool" where
  "is_u32 v \<longleftrightarrow> 0 \<le> v \<and> v < 2 ^ 32"

text \<open>\<open>struct.pack("<nI", ...)\<close>: a value outside the range of an unsigned word raises \<open>struct.error\<close>.\<close>

definition pack_words :: "int list \<Rightarrow> bytes result" where
  "pack_words ws = (if list_all is_u32 ws then Inr (concat (map (le_bytes 4) ws)) else Inl StructError)"

fun chunk_words :: "nat \<Rightarrow> bytes \<Rightarrow> int list" where
  "chunk_words 0 bs = []"
| "chunk_words (Suc n) bs = le_int (take 4 bs) # chunk_words n (drop 4 bs)"

text \<open>\<open>struct.unpack("<nI", data)\<close>: the data must have exactly \<open>4 * n\<close> bytes.\<close>

definition unpack_words :: "nat \<Rightarrow> bytes \<Rightarrow> int list result" where
  "unpack_words n bs = (if length bs = 4 * n then Inr (chunk_words n bs) else Inl StructError)"

lemma length_le_bytes [simp]: "length (le_bytes n v) = n"
  by (induction n arbitrary: v) auto

lemma le_int_bytes: "0 \<le> v \<Longrightarrow> v < 256 ^ n \<Longrightarrow> le_int (le_bytes n v) = v"
proof (induction n arbitrary: v)
  case (Suc n)
  have "v div 256 < 256 ^ n" using Suc.prems by auto
  then have "le_int (le_bytes n (v div 256)) = v div 256"
    using Suc by simp
  moreover have "uint (word_of_int v :: byte) = v mod 256"
    by (simp add: uint_word_of_int take_bit_eq_mod)
  ultimately show ?case by (simp add: mod_mult_div_eq [symmetric] add.commute)
qed simp

lemma le_int_bounds: "0 \<le> le_int bs \<and> le_int bs < 256 ^ length bs"
proof (induction bs)
  case (Cons b bs)
  have "uint b < 256" using uint_lt2p [of b] by simp
  with Cons show ?case by simp
qed simp

lemma le_bytes_int: "le_bytes (length bs) (le_int bs) = bs"
proof (induction bs)
  case (Cons b bs)
  have "uint b < 256" "0 \<le> uint b" using uint_lt2p [of b] by simp_all
  then have "(uint b + 256 * le_int bs) div 256 = le_int bs" by simp
  moreover have z: "(256 :: byte) = 0" by simp
  have "word_of_int (uint b + 256 * le_int bs) = b" by simp (simp only: z mult_zero_left)
  ultimately show ?case using Cons by simp
qed simp

lemma is_u32_le_int: "length bs = 4 \<Longrightarrow> is_u32 (le_int bs)"
  using le_int_bounds [of bs] by (simp add: is_u32_def)

lemma is_u32_uint [simp]: "is_u32 (uint (w :: 32 word))"
  using uint_lt2p [of w] by (simp add: is_u32_def)

lemma length_packed: "length (concat (map (le_bytes 4) ws)) = 4 * length ws"
  by (induction ws) auto

lemma chunk_words_packed:
  "list_all is_u32 ws \<Longrightarrow> chunk_words (length ws) (concat (map (le_bytes 4) ws) @ rest) = ws"
  by (induction ws) (auto simp: is_u32_def le_int_bytes)

lemma chunk_words_u32: "length bs = 4 * n \<Longrightarrow> list_all is_u32 (chunk_words n bs)"
  by (induction n arbitrary: bs) (auto simp: is_u32_le_int)

lemma length_chunk_words [simp]: "length (chunk_words n bs) = n"
  by (induction n arbitrary: bs) auto

lemma packed_chunk_words: "length bs = 4 * n \<Longrightarrow> concat (map (le_bytes 4) (chunk_words n bs)) = bs"
proof (induction n arbitrary: bs)
  case (Suc n)
  have "le_bytes 4 (le_int (take 4 bs)) = take 4 bs"
    using le_bytes_int [of "take 4 bs"] Suc.prems by simp
  with Suc show ?case by (simp add: Suc.IH)
qed simp

text \<open>Packing then unpacking, and unpacking then packing, are the identity.\<close>

lemma unpack_pack: "pack_words ws = Inr bs \<Longrightarrow> unpack_words (length ws) bs = Inr ws"
  using chunk_words_packed [of ws "[]"]
  by (auto simp: pack_words_def unpack_words_def length_packed split: if_splits)

lemma pack_unpack: "unpack_words n bs = Inr ws \<Longrightarrow> pack_words ws = Inr bs"
  by (auto simp: pack_words_def unpack_words_def chunk_words_u32 packed_chunk_words split: if_splits)

section \<open>Packets\<close>

definition HEADER_SIZE :: nat where
  "HEADER_SIZE = 20"

text \<open>
  The request packet of \<open>SSPClient._transaction\<close>: total length, address, command, size 1,
  status 0, then the data words. The payload is packed before the header.
\<close>

definition request_packet :: "int \<Rightarrow> int \<Rightarrow> int list \<Rightarrow> bytes result" where
  "request_packet address command data_words =
     r_bind (if data_words = [] then Inr [] else pack_words data_words) (\<lambda>payload.
     r_bind (pack_words [int (HEADER_SIZE + length payload), address, command, 1, 0]) (\<lambda>header.
     Inr (header @ payload)))"

lemma request_packet_ok:
  assumes "is_u32 address" "is_u32 command" "list_all is_u32 ws" "length ws < 2 ^ 29"
  shows "request_packet address command ws =
    Inr (concat (map (le_bytes 4) ([int (20 + 4 * length ws), address, command, 1, 0] @ ws)))"
  using assms
  by (auto simp: request_packet_def pack_words_def HEADER_SIZE_def length_packed is_u32_def
      simp del: of_nat_add)

lemma request_packet_error:
  "\<not> list_all is_u32 ws \<Longrightarrow> request_packet address command ws = Inl StructError"
  by (auto simp: request_packet_def pack_words_def)

end
