(* ===== verification/Ssp_Regs.thy ===== *)
theory Ssp_Regs
  imports Ssp_Wire
begin

text \<open>
  The register interface of the SSP LED controller (\<open>client/ssp_led_control.py\<close>): the address
  map, the console log, the client object the control sequences are written against, and
  \<open>write_and_log\<close>. The locale \<open>register_client\<close> states what the control sequences rely on:
  a read of a control register returns it, a write latches it and touches no other control
  register, and a read of a status register returns some 32-bit value, which the hardware is free to
  change between any two reads. Its lemmas say what a whole list of writes does; \<open>Ssp_Client\<close> proves
  that \<open>SSPClient\<close> provides it.
\<close>

section \<open>Address map\<close>

definition MODULE_ID :: int where "MODULE_ID = 0x80000024"
definition DP_FPGA_FW_BUILD :: int where "DP_FPGA_FW_BUILD = 0x80000010"
definition CALIB_BUILD :: int where "CALIB_BUILD = 0x80000014"
definition DP_CLOCK_STATUS :: int where "DP_CLOCK_STATUS = 0x80000020"
definition CAL_COUNT :: int where "CAL_COUNT = 0x80000448"
definition PDTS_CMD_CONTROL_1 :: int where "PDTS_CMD_CONTROL_1 = 0x80000464"
definition PDTS_CMD_CONTROL_2 :: int where "PDTS_CMD_CONTROL_2 = 0x80000468"
definition PDTS_CONTROL :: int where "PDTS_CONTROL = 0x800004C0"
definition PDTS_STATUS :: int where "PDTS_STATUS = 0x800004C4"
definition DP_CLOCK_CONTROL :: int where "DP_CLOCK_CONTROL = 0x80000520"
definition PDTS_CMD_DELAY_0 :: int where "PDTS_CMD_DELAY_0 = 0x80000940"
definition BIAS_CONTROL :: int where "BIAS_CONTROL = 0x40000300"
definition MASTER_LOGIC_CONTROL :: int where "MASTER_LOGIC_CONTROL = 0x80000500"
definition MASTER_LOGIC_STATUS :: int where "MASTER_LOGIC_STATUS = 0x80000504"

lemmas address_defs = MODULE_ID_def DP_FPGA_FW_BUILD_def CALIB_BUILD_def DP_CLOCK_STATUS_def
  CAL_COUNT_def PDTS_CMD_CONTROL_1_def PDTS_CMD_CONTROL_2_def PDTS_CONTROL_def PDTS_STATUS_def
  DP_CLOCK_CONTROL_def PDTS_CMD_DELAY_0_def BIAS_CONTROL_def MASTER_LOGIC_CONTROL_def
  MASTER_LOGIC_STATUS_def

definition NON_LATCHED_REGISTERS :: "int set" where
  "NON_LATCHED_REGISTERS = {BIAS_CONTROL}"

text \<open>The registers the hardware updates on its own. Nothing is assumed about their values.\<close>

definition STATUS_REGISTERS :: "int set" where
  "STATUS_REGISTERS = {PDTS_STATUS, MASTER_LOGIC_STATUS, DP_CLOCK_STATUS}"

section \<open>Console and client object\<close>

text \<open>A printed line: its fixed text and the numbers interpolated into it.\<close>

datatype line = Line string "int list"

record console =
  log :: "line list"

definition emit :: "line \<Rightarrow> ('r console_scheme, unit) py" where
  "emit l = m_modify (\<lambda>s. s\<lparr>log := log s @ [l]\<rparr>)"

text \<open>The methods of \<open>SSPClient\<close> that the control sequences call.\<close>

record 's ssp_client =
  c_read :: "int \<Rightarrow> ('s, int) py"
  c_write :: "int \<Rightarrow> int \<Rightarrow> bool \<Rightarrow> ('s, int option) py"

definition write_line :: "int \<Rightarrow> int \<Rightarrow> bool \<Rightarrow> string \<Rightarrow> line" where
  "write_line address value verify label =
     (if verify \<and> address \<notin> NON_LATCHED_REGISTERS
      then Line (''OK '' @ label) [address, value]
      else Line (''SENT '' @ label) [address, value])"

definition write_and_log ::
  "'r console_scheme ssp_client \<Rightarrow> int \<Rightarrow> int \<Rightarrow> bool \<Rightarrow> string \<Rightarrow> ('r console_scheme, unit) py" where
  "write_and_log client address value verify label =
     m_bind (c_write client address value verify) (\<lambda>readback.
     m_then (emit (write_line address value verify label))
       (if readback \<noteq> None \<and> readback \<noteq> Some value
        then m_raise (RuntimeError ''unexpected readback'')
        else m_ret ()))"

section \<open>Lists of writes\<close>

text \<open>A planned write: address, value, whether it is verified, label.\<close>

type_synonym reg_write = "int \<times> int \<times> bool \<times> string"

definition run_writes :: "'r console_scheme ssp_client \<Rightarrow> reg_write list \<Rightarrow> ('r console_scheme, unit) py" where
  "run_writes client ws = m_for ws (\<lambda>(a, v, vf, l). write_and_log client a v vf l)"

definition write_ok :: "reg_write \<Rightarrow> bool" where
  "write_ok w = (case w of (a, v, _, _) \<Rightarrow> is_u32 a \<and> is_u32 v \<and> a \<notin> STATUS_REGISTERS)"

definition apply_writes :: "reg_write list \<Rightarrow> (int \<Rightarrow> int) \<Rightarrow> int \<Rightarrow> int" where
  "apply_writes ws f = fold (\<lambda>(a, v, _, _) g. g(a := v)) ws f"

definition write_lines :: "reg_write list \<Rightarrow> line list" where
  "write_lines ws = map (\<lambda>(a, v, vf, l). write_line a v vf l) ws"

lemma apply_writes_simps [simp]:
  "apply_writes [] f = f"
  "apply_writes ((a, v, vf, l) # ws) f = apply_writes ws (f(a := v))"
  "apply_writes (xs @ ys) f = apply_writes ys (apply_writes xs f)"
  by (simp_all add: apply_writes_def)

lemma apply_writes_other: "a \<notin> fst ` set ws \<Longrightarrow> apply_writes ws f a = f a"
  by (induction ws arbitrary: f) auto

text \<open>The last write to an address decides the register, whatever comes before it.\<close>

lemma apply_writes_last:
  "a \<notin> fst ` set ys \<Longrightarrow> apply_writes (xs @ (a, v, vf, l) # ys) f a = v"
  by (simp add: apply_writes_other)

lemma apply_writes_agree:
  "f a = g a \<Longrightarrow> apply_writes ws f a = apply_writes ws g a"
proof (induction ws arbitrary: f g)
  case (Cons w ws)
  obtain b v vf l where w: "w = (b, v, vf, l)" by (cases w) auto
  have "(f(b := v)) a = (g(b := v)) a" using Cons.prems by simp
  then have "apply_writes ws (f(b := v)) a = apply_writes ws (g(b := v)) a" by (rule Cons.IH)
  then show ?case by (simp add: w)
qed simp

lemma run_writes_append:
  "run_writes client (xs @ ys) = m_then (run_writes client xs) (run_writes client ys)"
  by (simp add: run_writes_def m_for_append)

lemma run_writes_simps:
  "run_writes client [] = m_ret ()"
  "run_writes client ((a, v, vf, l) # ws) =
     m_then (write_and_log client a v vf l) (run_writes client ws)"
  by (simp_all add: run_writes_def)

lemma run_writes_concat:
  "run_writes client (concat (map f xs)) = m_for xs (\<lambda>x. run_writes client (f x))"
  by (induction xs) (simp_all add: run_writes_append run_writes_simps)

section \<open>The register contract\<close>

text \<open>The registers that are not status registers.\<close>

definition control_view :: "(int \<Rightarrow> int) \<Rightarrow> int \<Rightarrow> int" where
  "control_view g a = (if a \<in> STATUS_REGISTERS then 0 else g a)"

lemma control_view_eq:
  "control_view f = control_view g \<longleftrightarrow> (\<forall>b. b \<notin> STATUS_REGISTERS \<longrightarrow> f b = g b)"
  by (auto simp: control_view_def fun_eq_iff)

text \<open>What the sequences observe and leave behind: the control registers and the printed lines.\<close>

definition seen :: "('r console_scheme \<Rightarrow> int \<Rightarrow> int) \<Rightarrow> 'r console_scheme \<Rightarrow> (int \<Rightarrow> int) \<times> line list" where
  "seen regs s = (regs s, log s)"

locale register_client =
  fixes client :: "'r console_scheme ssp_client"
    and regs :: "'r console_scheme \<Rightarrow> int \<Rightarrow> int"
    and ready :: "'r console_scheme \<Rightarrow> bool"
  assumes read_spec: "ready s \<Longrightarrow> is_u32 a \<Longrightarrow> a \<notin> STATUS_REGISTERS \<Longrightarrow>
      \<exists>t. c_read client a s = (Inr (regs s a), t) \<and> ready t \<and> regs t = regs s \<and> log t = log s"
    and status_spec: "ready s \<Longrightarrow> a \<in> STATUS_REGISTERS \<Longrightarrow>
      \<exists>v t. c_read client a s = (Inr v, t) \<and> ready t \<and> regs t = regs s \<and> log t = log s"
    and write_spec: "ready s \<Longrightarrow> is_u32 a \<Longrightarrow> is_u32 v \<Longrightarrow> a \<notin> STATUS_REGISTERS \<Longrightarrow>
      \<exists>t. c_write client a v vf s =
            (Inr (if vf \<and> a \<notin> NON_LATCHED_REGISTERS then Some v else None), t)
        \<and> ready t \<and> log t = log s
        \<and> (\<forall>b. b \<noteq> a \<longrightarrow> regs t b = regs s b)
        \<and> (a \<notin> NON_LATCHED_REGISTERS \<longrightarrow> regs t a = v)"
    and regs_log: "regs (s\<lparr>log := l\<rparr>) = regs s"
    and ready_log: "ready (s\<lparr>log := l\<rparr>) = ready s"
begin

lemma write_and_log_spec:
  assumes "ready s" "is_u32 a" "is_u32 v" "a \<notin> STATUS_REGISTERS"
  shows "\<exists>t. write_and_log client a v vf lbl s = (Inr (), t) \<and> ready t
    \<and> log t = log s @ [write_line a v vf lbl]
    \<and> (\<forall>b. b \<noteq> a \<longrightarrow> regs t b = regs s b)
    \<and> (a \<notin> NON_LATCHED_REGISTERS \<longrightarrow> regs t a = v)"
proof -
  obtain t where t: "c_write client a v vf s =
      (Inr (if vf \<and> a \<notin> NON_LATCHED_REGISTERS then Some v else None), t)"
    "ready t" "log t = log s" "\<forall>b. b \<noteq> a \<longrightarrow> regs t b = regs s b"
    "a \<notin> NON_LATCHED_REGISTERS \<longrightarrow> regs t a = v"
    using write_spec [OF assms, of vf] by blast
  let ?u = "t\<lparr>log := log t @ [write_line a v vf lbl]\<rparr>"
  have "write_and_log client a v vf lbl s = (Inr (), ?u)"
    by (simp add: write_and_log_def emit_def m_bind_def m_then_def m_modify_def m_ret_def t)
  with t show ?thesis by (intro exI [of _ ?u]) (simp add: regs_log ready_log)
qed

lemma run_writes_spec:
  assumes "ready s" "list_all write_ok ws"
  shows "\<exists>t. run_writes client ws s = (Inr (), t) \<and> ready t
    \<and> log t = log s @ write_lines ws
    \<and> (\<forall>a. a \<notin> NON_LATCHED_REGISTERS \<longrightarrow> regs t a = apply_writes ws (regs s) a)"
  using assms
proof (induction ws arbitrary: s)
  case Nil
  then show ?case by (simp add: run_writes_simps m_ret_def write_lines_def)
next
  case (Cons w ws)
  obtain a v vf l where w: "w = (a, v, vf, l)" by (cases w) auto
  obtain t where t: "write_and_log client a v vf l s = (Inr (), t)" "ready t"
      "log t = log s @ [write_line a v vf l]"
      "\<And>b. b \<noteq> a \<Longrightarrow> regs t b = regs s b"
      "a \<notin> NON_LATCHED_REGISTERS \<Longrightarrow> regs t a = v"
    using write_and_log_spec [of s a v vf l] Cons.prems w by (auto simp: write_ok_def)
  have "list_all write_ok ws" using Cons.prems by simp
  then obtain u where u: "run_writes client ws t = (Inr (), u)" "ready u"
      "log u = log t @ write_lines ws"
      "\<forall>b. b \<notin> NON_LATCHED_REGISTERS \<longrightarrow> regs u b = apply_writes ws (regs t) b"
    using Cons.IH t(2) by blast
  have "regs u b = apply_writes (w # ws) (regs s) b" if "b \<notin> NON_LATCHED_REGISTERS" for b
    using u(4) t(4,5) that w apply_writes_agree [of "regs t" b "(regs s)(a := v)" ws]
    by (cases "b = a") auto
  moreover have "run_writes client (w # ws) s = (Inr (), u)"
    using t(1) u(1) by (simp add: w run_writes_simps m_then_def m_bind_def)
  ultimately show ?case using u t(3) w by (auto simp: write_lines_def)
qed

lemma wp_read [wp]:
  "is_u32 a \<Longrightarrow> a \<notin> STATUS_REGISTERS \<Longrightarrow> triple ready (seen regs) (\<lambda>g. Q (fst g a) g) (c_read client a) Q"
  unfolding triple_def seen_def using read_spec by fastforce

lemma wp_status:
  "a \<in> STATUS_REGISTERS \<Longrightarrow> triple ready (seen regs) (\<lambda>g. \<forall>v. Q v g) (c_read client a) Q"
  unfolding triple_def seen_def using status_spec by fastforce

lemma wp_emit [wp]: "triple ready (seen regs) (\<lambda>g. Q () (fst g, snd g @ [l])) (emit l) Q"
  by (simp add: triple_def seen_def emit_def m_modify_def regs_log ready_log)

lemma wp_write [wp]:
  assumes "is_u32 a" "is_u32 v" "a \<notin> STATUS_REGISTERS" "a \<notin> NON_LATCHED_REGISTERS"
  shows "triple ready (seen regs) (\<lambda>g. Q () ((fst g)(a := v), snd g @ [write_line a v vf lbl]))
    (write_and_log client a v vf lbl) Q"
  unfolding triple_def
proof (intro allI impI)
  fix s assume s: "ready s"
    and q: "Q () ((fst (seen regs s))(a := v), snd (seen regs s) @ [write_line a v vf lbl])"
  obtain t where t: "write_and_log client a v vf lbl s = (Inr (), t)" "ready t"
      "\<forall>b. b \<noteq> a \<longrightarrow> regs t b = regs s b" "regs t a = v" "log t = log s @ [write_line a v vf lbl]"
    using write_and_log_spec [OF s assms(1-3)] assms(4) by blast
  have "regs t = (regs s)(a := v)" using t(3,4) by auto
  with t q show "\<exists>b u. write_and_log client a v vf lbl s = (Inr b, u) \<and> ready u \<and> Q b (seen regs u)"
    by (auto simp: seen_def)
qed

end

end
