(* ===== verification/Py_Text.thy ===== *)
theory Py_Text
  imports Py_Prelude
begin

text \<open>
  The string operations of Python that the clients use, on ASCII text: \<open>str.strip\<close>,
  \<open>str.split\<close>, \<open>in\<close>, \<open>int(s)\<close>, \<open>int(s, 0)\<close>, \<open>int(s, 16)\<close>, \<open>str(n)\<close> and the formats
  \<open>{n:08x}\<close> and \<open>{n:04d}\<close>. Each is executable; the round trips at the end (what \<open>str\<close> prints,
  \<open>int\<close> reads back) are what the command lines built by one script and parsed by another rely on.
\<close>

section \<open>Splitting and stripping\<close>

definition is_space :: "char \<Rightarrow> bool" where
  "is_space c \<longleftrightarrow> (let n = (of_char c :: nat) in (9 \<le> n \<and> n \<le> 13) \<or> (28 \<le> n \<and> n \<le> 32))"

definition py_strip :: "string \<Rightarrow> string" where
  "py_strip s = rev (dropWhile is_space (rev (dropWhile is_space s)))"

fun split_on :: "char \<Rightarrow> string \<Rightarrow> string list" where
  "split_on c [] = [[]]"
| "split_on c (x # xs) =
     (if x = c then [] # split_on c xs
      else case split_on c xs of [] \<Rightarrow> [[x]] | y # ys \<Rightarrow> (x # y) # ys)"

definition split_once :: "char \<Rightarrow> string \<Rightarrow> (string \<times> string) option" where
  "split_once c s =
     (if c \<in> set s then Some (takeWhile (\<lambda>x. x \<noteq> c) s, tl (dropWhile (\<lambda>x. x \<noteq> c) s)) else None)"

text \<open>\<open>s.split()\<close>: the maximal runs of non-blank characters.\<close>

function split_ws :: "string \<Rightarrow> string list" where
  "split_ws s =
     (let t = dropWhile is_space s in
      if t = [] then []
      else takeWhile (\<lambda>c. \<not> is_space c) t # split_ws (dropWhile (\<lambda>c. \<not> is_space c) t))"
  by pat_completeness auto
termination
proof (relation "measure length", simp)
  fix s t :: string
  assume t: "t = dropWhile is_space s" and ne: "t \<noteq> []"
  then have "\<not> is_space (hd t)" using hd_dropWhile by metis
  then have "length (dropWhile (\<lambda>c. \<not> is_space c) t) < length t"
    using ne length_dropWhile_le by (cases t) (auto simp: less_Suc_eq_le)
  then show "(dropWhile (\<lambda>c. \<not> is_space c) t, s) \<in> measure length"
    using length_dropWhile_le [of is_space s] t by simp
qed

declare split_ws.simps [simp del]

lemma split_ws_word:
  assumes "s \<noteq> []" "\<And>c. c \<in> set s \<Longrightarrow> \<not> is_space c"
  shows "split_ws s = [s]"
proof -
  have a: "dropWhile is_space s = s" using assms by (cases s) auto
  have b: "takeWhile (\<lambda>c. \<not> is_space c) s = s" and c: "dropWhile (\<lambda>c. \<not> is_space c) s = []"
    using assms by (simp_all add: takeWhile_eq_all_conv dropWhile_eq_Nil_conv)
  have "split_ws s = takeWhile (\<lambda>c. \<not> is_space c) s # split_ws (dropWhile (\<lambda>c. \<not> is_space c) s)"
    by (subst split_ws.simps) (simp only: a Let_def assms(1) if_False)
  then have "split_ws s = s # split_ws []" by (simp only: b c)
  then show ?thesis by (simp add: split_ws.simps [of "[]"])
qed

fun starts_with :: "string \<Rightarrow> string \<Rightarrow> bool" where
  "starts_with [] s = True"
| "starts_with (p # ps) [] = False"
| "starts_with (p # ps) (x # xs) = (p = x \<and> starts_with ps xs)"

fun is_substr :: "string \<Rightarrow> string \<Rightarrow> bool" where
  "is_substr p [] = (p = [])"
| "is_substr p (x # xs) = (starts_with p (x # xs) \<or> is_substr p xs)"

fun join_with :: "string \<Rightarrow> string list \<Rightarrow> string" where
  "join_with sep [] = []"
| "join_with sep [x] = x"
| "join_with sep (x # y # ys) = x @ sep @ join_with sep (y # ys)"

text \<open>\<open>str.lower\<close> on ASCII text.\<close>

definition lower_char :: "char \<Rightarrow> char" where
  "lower_char c = (let n = (of_char c :: nat) in if 65 \<le> n \<and> n \<le> 90 then char_of (n + 32) else c)"

definition py_lower :: "string \<Rightarrow> string" where
  "py_lower s = map lower_char s"

text \<open>\<open>str\<close> of a bool.\<close>

definition bool_str :: "bool \<Rightarrow> string" where
  "bool_str b = (if b then ''True'' else ''False'')"

lemma split_on_nonempty [simp]: "split_on c s \<noteq> []"
  by (induction s) (auto split: list.split)

lemma split_on_no_sep: "x \<in> set (split_on c s) \<Longrightarrow> c \<notin> set x"
proof (induction s arbitrary: x)
  case Nil
  then show ?case by simp
next
  case (Cons a s)
  obtain y ys where y: "split_on c s = y # ys"
    using split_on_nonempty by (metis list.exhaust)
  then have "\<And>z. z \<in> set (y # ys) \<Longrightarrow> c \<notin> set z"
    using Cons.IH by simp
  with Cons.prems y show ?case by (auto split: if_splits)
qed

lemma split_on_id: "c \<notin> set s \<Longrightarrow> split_on c s = [s]"
  by (induction s) auto

lemma split_on_append:
  "c \<notin> set x \<Longrightarrow> split_on c (x @ c # s) = x # split_on c s"
  by (induction x) auto

text \<open>Joining pieces that do not hold the separator and splitting again gives the pieces back.\<close>

lemma split_on_join:
  "xs \<noteq> [] \<Longrightarrow> (\<And>x. x \<in> set xs \<Longrightarrow> c \<notin> set x) \<Longrightarrow> split_on c (join_with [c] xs) = xs"
  by (induction "[c]" xs rule: join_with.induct) (auto simp: split_on_id split_on_append)

lemma py_strip_id: "(\<And>c. c \<in> set s \<Longrightarrow> \<not> is_space c) \<Longrightarrow> py_strip s = s"
proof -
  assume a: "\<And>c. c \<in> set s \<Longrightarrow> \<not> is_space c"
  then have "dropWhile is_space s = s"
    by (cases s) auto
  moreover have "dropWhile is_space (rev s) = rev s"
  proof (cases "rev s")
    case (Cons c cs)
    then have "c \<in> set s" by (metis list.set_intros(1) set_rev)
    with a Cons show ?thesis by simp
  qed simp
  ultimately show ?thesis by (simp add: py_strip_def)
qed

lemma py_strip_newline:
  assumes "\<And>c. c \<in> set s \<Longrightarrow> \<not> is_space c"
  shows "py_strip (s @ [char_of (10 :: nat)]) = s"
proof -
  have nl: "is_space (char_of (10 :: nat))" by (simp add: is_space_def)
  show ?thesis
  proof (cases s)
    case Nil
    with nl show ?thesis by (simp add: py_strip_def)
  next
    case (Cons c cs)
    then have "dropWhile is_space (s @ [char_of (10 :: nat)]) = s @ [char_of (10 :: nat)]"
      using assms by simp
    moreover have "dropWhile is_space (rev s) = rev s"
      using assms by (cases "rev s") (simp, metis dropWhile.simps(2) list.set_intros(1) set_rev)
    ultimately show ?thesis using nl by (simp add: py_strip_def)
  qed
qed

section \<open>Reading integers\<close>

text \<open>The value of a digit in bases up to 36, as the interpreter's digit table has it.\<close>

definition digit_val :: "char \<Rightarrow> nat option" where
  "digit_val c =
     (let n = (of_char c :: nat) in
      if 48 \<le> n \<and> n \<le> 57 then Some (n - 48)
      else if 97 \<le> n \<and> n \<le> 122 then Some (n - 87)
      else if 65 \<le> n \<and> n \<le> 90 then Some (n - 55)
      else None)"

text \<open>
  The digit loop of \<open>int\<close>: single underscores are allowed between digits only. The flag says that
  the previous character was not a digit, so it also rejects the empty string.
\<close>

fun scan_digits :: "nat \<Rightarrow> int \<Rightarrow> bool \<Rightarrow> string \<Rightarrow> int option" where
  "scan_digits base acc us [] = (if us then None else Some acc)"
| "scan_digits base acc us (c # cs) =
     (if c = CHR ''_'' then (if us then None else scan_digits base acc True cs)
      else case digit_val c of
        None \<Rightarrow> None
      | Some d \<Rightarrow> if d < base then scan_digits base (acc * int base + int d) False cs else None)"

definition split_sign :: "string \<Rightarrow> int \<times> string" where
  "split_sign s = (case s of
       [] \<Rightarrow> (1, [])
     | c # cs \<Rightarrow> if c = CHR ''-'' then (-1, cs) else if c = CHR ''+'' then (1, cs) else (1, s))"

definition signed_digits :: "nat \<Rightarrow> int \<times> string \<Rightarrow> int option" where
  "signed_digits base p = map_option (\<lambda>v. fst p * v) (scan_digits base 0 True (snd p))"

text \<open>\<open>int(s)\<close>.\<close>

definition py_int :: "string \<Rightarrow> int option" where
  "py_int s = signed_digits 10 (split_sign (py_strip s))"

text \<open>One underscore is allowed right after a base prefix.\<close>

definition skip_underscore :: "string \<Rightarrow> string" where
  "skip_underscore s = (case s of c # cs \<Rightarrow> if c = CHR ''_'' then cs else s | [] \<Rightarrow> [])"

text \<open>\<open>int(s, 0)\<close>: the base comes from the prefix; a decimal literal has no leading zero unless it is 0.\<close>

definition base0_digits :: "string \<Rightarrow> int option" where
  "base0_digits s = (case s of
       CHR ''0'' # c # cs \<Rightarrow>
         (if c = CHR ''x'' \<or> c = CHR ''X'' then scan_digits 16 0 True (skip_underscore cs)
          else if c = CHR ''o'' \<or> c = CHR ''O'' then scan_digits 8 0 True (skip_underscore cs)
          else if c = CHR ''b'' \<or> c = CHR ''B'' then scan_digits 2 0 True (skip_underscore cs)
          else (case scan_digits 10 0 True s of
              Some v \<Rightarrow> if v = 0 then Some 0 else None
            | None \<Rightarrow> None))
     | _ \<Rightarrow> scan_digits 10 0 True s)"

definition py_int0 :: "string \<Rightarrow> int option" where
  "py_int0 s = (case split_sign (py_strip s) of (sg, ds) \<Rightarrow> map_option (\<lambda>v. sg * v) (base0_digits ds))"

text \<open>\<open>int(s, 16)\<close>: the prefix \<open>0x\<close> is optional.\<close>

definition py_int16 :: "string \<Rightarrow> int option" where
  "py_int16 s = (case split_sign (py_strip s) of (sg, ds) \<Rightarrow>
     map_option (\<lambda>v. sg * v)
       (case ds of
          CHR ''0'' # c # cs \<Rightarrow>
            if c = CHR ''x'' \<or> c = CHR ''X'' then scan_digits 16 0 True (skip_underscore cs)
            else scan_digits 16 0 True ds
        | _ \<Rightarrow> scan_digits 16 0 True ds))"

section \<open>Writing integers\<close>

definition digit_char :: "nat \<Rightarrow> char" where
  "digit_char d = char_of (if d < 10 then 48 + d else 87 + d)"

fun digits_of :: "nat \<Rightarrow> nat \<Rightarrow> string" where
  "digits_of base n =
     (if base < 2 \<or> n < base then [digit_char n]
      else digits_of base (n div base) @ [digit_char (n mod base)])"

declare digits_of.simps [simp del]

text \<open>\<open>str(n)\<close>.\<close>

definition int_to_str :: "int \<Rightarrow> string" where
  "int_to_str n = (if n < 0 then CHR ''-'' # digits_of 10 (nat (- n)) else digits_of 10 (nat n))"

text \<open>\<open>str\<close> of a list of integers.\<close>

definition int_list_str :: "int list \<Rightarrow> string" where
  "int_list_str xs = ''['' @ join_with '', '' (map int_to_str xs) @ '']''"

definition pad_zero :: "nat \<Rightarrow> string \<Rightarrow> string" where
  "pad_zero w s = replicate (w - length s) CHR ''0'' @ s"

text \<open>The formats \<open>{n:0wx}\<close> and \<open>{n:0wd}\<close> of a non-negative integer.\<close>

definition fmt_hex :: "nat \<Rightarrow> int \<Rightarrow> string" where
  "fmt_hex w n = pad_zero w (digits_of 16 (nat n))"

definition fmt_dec :: "nat \<Rightarrow> int \<Rightarrow> string" where
  "fmt_dec w n = pad_zero w (digits_of 10 (nat n))"

subsection \<open>Round trips\<close>

lemma of_char_digit_char: "d < 36 \<Longrightarrow> (of_char (digit_char d) :: nat) = (if d < 10 then 48 + d else 87 + d)"
  by (simp add: digit_char_def)

lemma digit_val_char [simp]: "d < 36 \<Longrightarrow> digit_val (digit_char d) = Some d"
  by (simp add: digit_val_def of_char_digit_char Let_def)

lemma digit_char_not_underscore [simp]: "d < 36 \<Longrightarrow> digit_char d \<noteq> CHR ''_''"
proof
  assume d: "d < 36" and e: "digit_char d = CHR ''_''"
  have "(of_char (digit_char d) :: nat) = of_char CHR ''_''" using e by simp
  then show False using d by (simp add: of_char_digit_char split: if_splits)
qed

lemma digit_char_not_space: "d < 36 \<Longrightarrow> \<not> is_space (digit_char d)"
  by (simp add: is_space_def Let_def of_char_digit_char)

lemma digit_char_neq:
  assumes "d < 36" and "(of_char c :: nat) < 48"
  shows "digit_char d \<noteq> c"
proof
  assume "digit_char d = c"
  with assms show False using of_char_digit_char [of d] by (auto split: if_splits)
qed

lemma set_digits_of:
  "2 \<le> base \<Longrightarrow> c \<in> set (digits_of base n) \<Longrightarrow> \<exists>d < base. c = digit_char d"
proof (induction base n rule: digits_of.induct)
  case (1 base n)
  show ?case
  proof (cases "n < base")
    case True
    with 1 show ?thesis by (auto simp: digits_of.simps [of base n])
  next
    case False
    with 1 consider "c \<in> set (digits_of base (n div base))" | "c = digit_char (n mod base)"
      by (auto simp: digits_of.simps [of base n])
    then show ?thesis
    proof cases
      case 1
      then show ?thesis using "1.IH" "1.prems" False by simp
    next
      case 2
      then show ?thesis using "1.prems" by (intro exI [of _ "n mod base"]) simp
    qed
  qed
qed

lemma digits_of_nonempty [simp]: "digits_of base n \<noteq> []"
  by (subst digits_of.simps) simp

lemma scan_digits_append:
  "scan_digits base acc us xs = Some v \<Longrightarrow> xs \<noteq> [] \<Longrightarrow>
     scan_digits base acc us (xs @ ys) = scan_digits base v False ys"
proof (induction xs arbitrary: acc us)
  case (Cons c cs)
  show ?case
  proof (cases "cs = []")
    case True
    with Cons.prems show ?thesis by (auto split: if_splits option.splits)
  next
    case False
    with Cons show ?thesis by (auto split: if_splits option.splits)
  qed
qed simp

lemma scan_digits_of:
  assumes "2 \<le> base" "base \<le> 36"
  shows "scan_digits base 0 us (digits_of base n) = Some (int n)"
  using assms
proof (induction base n rule: digits_of.induct)
  case (1 base n)
  show ?case
  proof (cases "n < base")
    case True
    with 1 show ?thesis by (simp add: digits_of.simps [of base n])
  next
    case False
    with 1 have "scan_digits base 0 us (digits_of base (n div base)) = Some (int (n div base))"
      by simp
    then have "scan_digits base 0 us (digits_of base n) =
        scan_digits base (int (n div base)) False [digit_char (n mod base)]"
      using False 1(2) by (simp add: digits_of.simps [of base n] scan_digits_append)
    moreover have "n mod base < 36" "n mod base < base"
      using 1(2,3) by (auto intro: less_le_trans [of _ base])
    moreover have "int (n div base) * int base + int (n mod base) = int n"
      by (metis div_mult_mod_eq of_nat_add of_nat_mult)
    ultimately show ?thesis by simp
  qed
qed

lemma scan_zeros:
  "2 \<le> base \<Longrightarrow> w \<noteq> 0 \<Longrightarrow> scan_digits base 0 us (replicate w CHR ''0'') = Some 0"
proof (induction w arbitrary: us)
  case (Suc w)
  have "digit_val CHR ''0'' = Some 0" by (simp add: digit_val_def)
  with Suc show ?case by (cases w) auto
qed simp

lemma scan_pad_digits:
  assumes "2 \<le> base" "base \<le> 36"
  shows "scan_digits base 0 us (pad_zero w (digits_of base n)) = Some (int n)"
proof (cases "w - length (digits_of base n) = 0")
  case True
  then show ?thesis using assms by (simp add: pad_zero_def scan_digits_of)
next
  case False
  have "scan_digits base 0 us (pad_zero w (digits_of base n)) =
      scan_digits base 0 False (digits_of base n)"
    unfolding pad_zero_def
    by (rule scan_digits_append) (use False assms scan_zeros in auto)
  then show ?thesis using assms by (simp add: scan_digits_of)
qed

lemma split_sign_digits:
  assumes "s \<noteq> []" "\<And>c. c \<in> set s \<Longrightarrow> \<exists>d < 36. c = digit_char d"
  shows "split_sign s = (1, s)"
proof -
  obtain c cs where s: "s = c # cs" using assms(1) by (cases s) auto
  then obtain d where d: "d < 36" "c = digit_char d" using assms(2) by auto
  have "c \<noteq> CHR ''-''" "c \<noteq> CHR ''+''"
    using d by (simp_all add: digit_char_neq)
  then show ?thesis by (simp add: split_sign_def s)
qed

lemma strip_digits:
  "(\<And>c. c \<in> set s \<Longrightarrow> \<exists>d < 36. c = digit_char d) \<Longrightarrow> py_strip s = s"
  by (rule py_strip_id) (metis digit_char_not_space)

lemma digits_of_chars:
  "2 \<le> base \<Longrightarrow> base \<le> 36 \<Longrightarrow> c \<in> set (digits_of base n) \<Longrightarrow> \<exists>d < 36. c = digit_char d"
  using set_digits_of by (meson less_le_trans)

text \<open>\<open>int(str(n)) = n\<close> for every integer.\<close>

lemma py_int_str [simp]: "py_int (int_to_str n) = Some n"
proof -
  have chars: "\<And>c. c \<in> set (digits_of 10 m) \<Longrightarrow> \<exists>d < 36. c = digit_char d" for m
    by (rule digits_of_chars [of 10]) simp_all
  show ?thesis
  proof (cases "n < 0")
    case True
    have "py_strip (int_to_str n) = int_to_str n"
    proof (rule py_strip_id)
      fix c assume "c \<in> set (int_to_str n)"
      then have "c = CHR ''-'' \<or> c \<in> set (digits_of 10 (nat (- n)))"
        using True by (auto simp: int_to_str_def)
      then show "\<not> is_space c"
        using chars digit_char_not_space by (auto simp: is_space_def)
    qed
    with True show ?thesis
      by (simp add: py_int_def signed_digits_def int_to_str_def split_sign_def scan_digits_of)
  next
    case False
    then have "py_strip (int_to_str n) = int_to_str n"
      using chars by (simp add: int_to_str_def strip_digits)
    moreover have "split_sign (digits_of 10 (nat n)) = (1, digits_of 10 (nat n))"
      by (rule split_sign_digits) (use chars in auto)
    ultimately show ?thesis using False
      by (simp add: py_int_def signed_digits_def int_to_str_def scan_digits_of)
  qed
qed

lemma int_to_str_no_comma: "CHR '','' \<notin> set (int_to_str n)"
proof
  assume "CHR '','' \<in> set (int_to_str n)"
  then obtain m where "CHR '','' \<in> set (digits_of 10 m)"
    by (auto simp: int_to_str_def split: if_splits)
  then obtain d where "d < 36" "CHR '','' = digit_char d"
    using digits_of_chars [of 10] by auto
  moreover have "(of_char CHR '','' :: nat) < 48" by simp
  ultimately show False using digit_char_neq by metis
qed

lemma int_to_str_not_space: "c \<in> set (int_to_str n) \<Longrightarrow> \<not> is_space c"
proof -
  assume "c \<in> set (int_to_str n)"
  then have "c = CHR ''-'' \<or> (\<exists>m. c \<in> set (digits_of 10 m))"
    by (auto simp: int_to_str_def split: if_splits)
  then show ?thesis
    using digits_of_chars [of 10] digit_char_not_space by (auto simp: is_space_def)
qed

lemma int_to_str_inject [simp]: "int_to_str m = int_to_str n \<longleftrightarrow> m = n"
  by (metis py_int_str option.inject)

lemma py_int_str_newline [simp]: "py_int (int_to_str n @ [char_of (10 :: nat)]) = Some n"
proof -
  have "py_strip (int_to_str n @ [char_of (10 :: nat)]) = py_strip (int_to_str n)"
    using py_strip_newline [of "int_to_str n"] py_strip_id [of "int_to_str n"] int_to_str_not_space by simp
  then show ?thesis using py_int_str [of n] by (simp add: py_int_def)
qed

text \<open>A padded hexadecimal number, with or without its prefix, reads back.\<close>

lemma fmt_hex_not_space:
  "c \<in> set (''0x'' @ fmt_hex w n) \<Longrightarrow> \<not> is_space c"
proof -
  assume c: "c \<in> set (''0x'' @ fmt_hex w n)"
  have zero: "CHR ''0'' = digit_char 0"
    unfolding digit_char_def by (subst of_char_eq_iff [where 'a = nat, symmetric]) simp
  from c have "c = CHR ''0'' \<or> c = CHR ''x'' \<or> c \<in> set (digits_of 16 (nat n))"
    by (auto simp: fmt_hex_def pad_zero_def)
  then show ?thesis
    using digits_of_chars [of 16 c "nat n"] digit_char_not_space by (auto simp: is_space_def)
qed

lemma py_int16_fmt_hex:
  assumes "0 \<le> n"
  shows "py_int16 (''0x'' @ fmt_hex w n) = Some n"
proof -
  have chars: "\<exists>d < 36. c = digit_char d" if "c \<in> set (fmt_hex w n)" for c
  proof -
    have "CHR ''0'' = digit_char 0"
      unfolding digit_char_def by (subst of_char_eq_iff [where 'a = nat, symmetric]) simp
    then have "c = digit_char 0 \<or> c \<in> set (digits_of 16 (nat n))"
      using that by (auto simp: fmt_hex_def pad_zero_def)
    then show ?thesis
      using digits_of_chars [of 16 c "nat n"] by (elim disjE) (rule exI [of _ 0], simp_all)
  qed
  have "\<not> is_space c" if "c \<in> set (''0x'' @ fmt_hex w n)" for c
    using that chars digit_char_not_space by (auto simp: is_space_def)
  then have "py_strip (''0x'' @ fmt_hex w n) = ''0x'' @ fmt_hex w n"
    by (rule py_strip_id)
  moreover have "skip_underscore (fmt_hex w n) = fmt_hex w n"
  proof (cases "fmt_hex w n")
    case (Cons c cs)
    with chars obtain d where "d < 36" "c = digit_char d" by auto
    then show ?thesis by (simp add: skip_underscore_def Cons)
  qed (simp add: skip_underscore_def)
  ultimately show ?thesis using assms
    by (simp add: py_int16_def split_sign_def fmt_hex_def scan_pad_digits)
qed

end
