(* ===== verification/Py_Json.thy ===== *)
theory Py_Json
  imports Py_Text
begin

text \<open>
  Decoded JSON values and the Python operations the clients apply to them: \<open>in\<close>, indexing,
  \<open>dict.get\<close>, \<open>str\<close>. An object is an association list in insertion order with distinct keys, as
  \<open>json.loads\<close> builds it; a float is kept as the text \<open>repr\<close> prints for it.
\<close>

datatype json =
    JNull
  | JBool bool
  | JInt int
  | JFloat string
  | JStr string
  | JList "json list"
  | JObj "(string \<times> json) list"

type_synonym jobject = "(string \<times> json) list"

text \<open>\<open>key in value\<close>: a key of an object, an element of a list, a substring; a scalar is not iterable.\<close>

fun py_in :: "string \<Rightarrow> json \<Rightarrow> bool result" where
  "py_in k (JObj kvs) = Inr (map_of kvs k \<noteq> None)"
| "py_in k (JList xs) = Inr (JStr k \<in> set xs)"
| "py_in k (JStr s) = Inr (is_substr k s)"
| "py_in k _ = Inl TypeError"

text \<open>\<open>value[key]\<close> with a string key.\<close>

fun py_index :: "json \<Rightarrow> string \<Rightarrow> json result" where
  "py_index (JObj kvs) k = (case map_of kvs k of None \<Rightarrow> Inl KeyError | Some v \<Rightarrow> Inr v)"
| "py_index _ k = Inl TypeError"

text \<open>\<open>value.get(key, default)\<close>: only objects have the method.\<close>

fun py_get :: "json \<Rightarrow> string \<Rightarrow> json \<Rightarrow> json result" where
  "py_get (JObj kvs) k d = Inr (case map_of kvs k of None \<Rightarrow> d | Some v \<Rightarrow> v)"
| "py_get _ k d = Inl AttributeError"

text \<open>\<open>int(value)\<close>, with the conversion of a float as a parameter.\<close>

fun json_int :: "(string \<Rightarrow> int result) \<Rightarrow> json \<Rightarrow> int result" where
  "json_int tr (JInt n) = Inr n"
| "json_int tr (JBool b) = Inr (if b then 1 else 0)"
| "json_int tr (JFloat r) = tr r"
| "json_int tr (JStr s) = r_of_option (ValueError ''invalid literal for int()'') (py_int s)"
| "json_int tr _ = Inl TypeError"

section \<open>\<open>str\<close>\<close>

definition escape_char :: "char \<Rightarrow> char \<Rightarrow> string" where
  "escape_char q c =
     (let n = (of_char c :: nat); bs = char_of (92 :: nat) in
      if c = bs \<or> c = q then [bs, c]
      else if n = 10 then [bs, CHR ''n'']
      else if n = 13 then [bs, CHR ''r'']
      else if n = 9 then [bs, CHR ''t'']
      else if n < 32 \<or> n = 127 then bs # CHR ''x'' # fmt_hex 2 (int n)
      else [c])"

definition repr_str :: "string \<Rightarrow> string" where
  "repr_str s =
     (let sq = char_of (39 :: nat); dq = char_of (34 :: nat);
          q = (if sq \<in> set s \<and> dq \<notin> set s then dq else sq)
      in [q] @ concat (map (escape_char q) s) @ [q])"

fun py_repr :: "json \<Rightarrow> string" where
  "py_repr JNull = ''None''"
| "py_repr (JBool b) = (if b then ''True'' else ''False'')"
| "py_repr (JInt n) = int_to_str n"
| "py_repr (JFloat r) = r"
| "py_repr (JStr s) = repr_str s"
| "py_repr (JList xs) = ''['' @ join_with '', '' (map py_repr xs) @ '']''"
| "py_repr (JObj kvs) =
     ''{'' @ join_with '', '' (map (\<lambda>kv. repr_str (fst kv) @ '': '' @ py_repr (snd kv)) kvs) @ ''}''"

definition py_str :: "json \<Rightarrow> string" where
  "py_str v = (case v of JStr s \<Rightarrow> s | _ \<Rightarrow> py_repr v)"

end
