(* ===== verification/Ssp_Config.thy ===== *)
theory Ssp_Config
  imports Py_Json
begin

text \<open>
  The run configuration of \<open>client/ssp_led_control.py\<close>: the dataclass \<open>LEDRunConfig\<close>, the JSON
  loader, the merge with the command line, and \<open>validate_config\<close>.

  An integer field may hold \<open>None\<close> (a JSON \<open>null\<close> puts it there), so the fields are options and a
  comparison with \<open>None\<close> is a \<open>TypeError\<close>. \<open>led_view\<close> is the configuration with the fields read as
  integers, which is how the control sequence uses it.
\<close>

record LEDRunConfig =
  number_channels :: "int option"
  channel_mask :: "int option"
  pulse_mode :: string
  burst_count :: "int option"
  double_pulse_delay_ticks :: "int option"
  pulse1_width_ticks :: "int option"
  pulse2_width_ticks :: "int option"
  pulse_bias_percent_270nm :: "int option"
  pulse_bias_percent_367nm :: "int option"
  module_id :: "int option"
  partition_number :: "int option"
  timing_address :: "int option"
  pdts_sync :: bool

definition default_config :: LEDRunConfig where
  "default_config = \<lparr>number_channels = Some 12, channel_mask = Some 1, pulse_mode = ''single'',
     burst_count = Some 1, double_pulse_delay_ticks = Some 0, pulse1_width_ticks = Some 5,
     pulse2_width_ticks = Some 0, pulse_bias_percent_270nm = Some 4000,
     pulse_bias_percent_367nm = Some 0, module_id = None, partition_number = None,
     timing_address = None, pdts_sync = False\<rparr>"

section \<open>Loading\<close>

text \<open>
  \<open>parse_int\<close>: \<open>None\<close> and integers (a bool is one) pass through, anything else goes through
  \<open>int(str(value), 0)\<close>.
\<close>

definition parse_int :: "json \<Rightarrow> int option result" where
  "parse_int v = (case v of
       JNull \<Rightarrow> Inr None
     | JInt n \<Rightarrow> Inr (Some n)
     | JBool b \<Rightarrow> Inr (Some (if b then 1 else 0))
     | _ \<Rightarrow> r_bind (r_of_option (ValueError ''invalid literal for int()'') (py_int0 (py_str v)))
              (\<lambda>n. Inr (Some n)))"

type_synonym int_setter = "int option \<Rightarrow> LEDRunConfig \<Rightarrow> LEDRunConfig"

text \<open>\<open>setattr(cfg, field_name, value)\<close> for the integer fields of the JSON block.\<close>

definition int_fields :: "(string \<times> int_setter) list" where
  "int_fields =
    [(''number_channels'', \<lambda>v c. c\<lparr>number_channels := v\<rparr>),
     (''channel_mask'', \<lambda>v c. c\<lparr>channel_mask := v\<rparr>),
     (''burst_count'', \<lambda>v c. c\<lparr>burst_count := v\<rparr>),
     (''double_pulse_delay_ticks'', \<lambda>v c. c\<lparr>double_pulse_delay_ticks := v\<rparr>),
     (''pulse1_width_ticks'', \<lambda>v c. c\<lparr>pulse1_width_ticks := v\<rparr>),
     (''pulse2_width_ticks'', \<lambda>v c. c\<lparr>pulse2_width_ticks := v\<rparr>),
     (''pulse_bias_percent_270nm'', \<lambda>v c. c\<lparr>pulse_bias_percent_270nm := v\<rparr>),
     (''pulse_bias_percent_367nm'', \<lambda>v c. c\<lparr>pulse_bias_percent_367nm := v\<rparr>)]"

definition json_field_names :: "string list" where
  "json_field_names =
    [''number_channels'', ''channel_mask'', ''pulse_mode'', ''burst_count'',
     ''double_pulse_delay_ticks'', ''pulse1_width_ticks'', ''pulse2_width_ticks'',
     ''pulse_bias_percent_270nm'', ''pulse_bias_percent_367nm'']"

definition load_field :: "json \<Rightarrow> string \<Rightarrow> LEDRunConfig \<Rightarrow> LEDRunConfig result" where
  "load_field ssp_conf name cfg =
     r_bind (py_in name ssp_conf) (\<lambda>present.
     if \<not> present then Inr cfg
     else r_bind (py_index ssp_conf name) (\<lambda>value.
       if name = ''pulse_mode'' then Inr (cfg\<lparr>pulse_mode := py_str value\<rparr>)
       else case map_of int_fields name of
           None \<Rightarrow> Inr cfg
         | Some setter \<Rightarrow> r_bind (parse_int value) (\<lambda>n. Inr (setter n cfg))))"

fun load_fields :: "json \<Rightarrow> string list \<Rightarrow> LEDRunConfig \<Rightarrow> LEDRunConfig result" where
  "load_fields ssp_conf [] cfg = Inr cfg"
| "load_fields ssp_conf (n # ns) cfg = r_bind (load_field ssp_conf n cfg) (load_fields ssp_conf ns)"

definition load_json_config :: "json \<Rightarrow> LEDRunConfig result" where
  "load_json_config raw =
     r_bind (py_get raw ''ssp_conf'' (JObj [])) (\<lambda>ssp_conf.
     load_fields ssp_conf json_field_names default_config)"

section \<open>Merging with the command line\<close>

record run_args =
  a_config :: "json option"
  a_number_channels :: "int option"
  a_channel_mask :: "int option"
  a_pulse_mode :: "string option"
  a_burst_count :: "int option"
  a_double_pulse_delay_ticks :: "int option"
  a_pulse_width_ticks :: "int option"
  a_pulse1_width_ticks :: "int option"
  a_pulse2_width_ticks :: "int option"
  a_pulse_bias_percent_270nm :: "int option"
  a_pulse_bias_percent_367nm :: "int option"
  a_module_id :: "int option"
  a_pdts_sync :: bool
  a_partition_number :: "int option"
  a_timing_address :: "int option"

definition override :: "'a option \<Rightarrow> 'a option \<Rightarrow> 'a option" where
  "override arg old = (case arg of None \<Rightarrow> old | Some v \<Rightarrow> Some v)"

definition merge_config :: "run_args \<Rightarrow> LEDRunConfig result" where
  "merge_config args =
     r_bind (case a_config args of None \<Rightarrow> Inr default_config | Some raw \<Rightarrow> load_json_config raw) (\<lambda>cfg.
     if a_pulse_width_ticks args \<noteq> None \<and> a_pulse1_width_ticks args \<noteq> None
     then Inl (ValueError ''use only one of --pulse-width-ticks or --pulse1-width-ticks'')
     else
       let pulse1 = (case a_pulse1_width_ticks args of None \<Rightarrow> a_pulse_width_ticks args | Some w \<Rightarrow> Some w)
       in Inr (cfg\<lparr>
          number_channels := override (a_number_channels args) (number_channels cfg),
          channel_mask := override (a_channel_mask args) (channel_mask cfg),
          pulse_mode := (case a_pulse_mode args of None \<Rightarrow> pulse_mode cfg | Some m \<Rightarrow> m),
          burst_count := override (a_burst_count args) (burst_count cfg),
          double_pulse_delay_ticks :=
            override (a_double_pulse_delay_ticks args) (double_pulse_delay_ticks cfg),
          pulse2_width_ticks := override (a_pulse2_width_ticks args) (pulse2_width_ticks cfg),
          pulse_bias_percent_270nm :=
            override (a_pulse_bias_percent_270nm args) (pulse_bias_percent_270nm cfg),
          pulse_bias_percent_367nm :=
            override (a_pulse_bias_percent_367nm args) (pulse_bias_percent_367nm cfg),
          module_id := override (a_module_id args) (module_id cfg),
          partition_number := override (a_partition_number args) (partition_number cfg),
          timing_address := override (a_timing_address args) (timing_address cfg),
          pulse1_width_ticks := override pulse1 (pulse1_width_ticks cfg),
          pdts_sync := a_pdts_sync args\<rparr>))"

section \<open>Validation\<close>

text \<open>\<open>if x < lo or x > hi: raise ValueError(...)\<close>, where comparing \<open>None\<close> raises \<open>TypeError\<close>.\<close>

definition check_range :: "string \<Rightarrow> int \<Rightarrow> int \<Rightarrow> int option \<Rightarrow> unit result" where
  "check_range msg lo hi x = (case x of
       None \<Rightarrow> Inl TypeError
     | Some v \<Rightarrow> if v < lo \<or> v > hi then Inl (ValueError msg) else Inr ())"

definition validate_pdts :: "LEDRunConfig \<Rightarrow> unit result" where
  "validate_pdts cfg =
     (if partition_number cfg = None then Inl (ValueError ''--partition-number is required with --pdts-sync'')
      else if timing_address cfg = None then Inl (ValueError ''--timing-address is required with --pdts-sync'')
      else
        r_bind (check_range ''partition_number must be in 0..3'' 0 3 (partition_number cfg)) (\<lambda>_.
        check_range ''timing_address must be in 0..255'' 0 255 (timing_address cfg)))"

definition validate_config :: "LEDRunConfig \<Rightarrow> unit result" where
  "validate_config cfg =
     (if number_channels cfg \<noteq> Some 5 \<and> number_channels cfg \<noteq> Some 12
      then Inl (ValueError ''number_channels must be 5 or 12'')
      else r_bind (check_range ''channel_mask must be in 0..4095'' 0 4095 (channel_mask cfg)) (\<lambda>_.
      if pulse_mode cfg \<noteq> ''single'' \<and> pulse_mode cfg \<noteq> ''burst''
      then Inl (ValueError ''pulse_mode must be single or burst'') else
      r_bind (check_range ''burst_count must be in 0..10000'' 0 10000 (burst_count cfg)) (\<lambda>_.
      r_bind (check_range ''double_pulse_delay_ticks must be in 0..4095'' 0 4095
                (double_pulse_delay_ticks cfg)) (\<lambda>_.
      r_bind (check_range ''pulse1_width_ticks must be in 0..255'' 0 255 (pulse1_width_ticks cfg)) (\<lambda>_.
      r_bind (check_range ''pulse2_width_ticks must be in 0..255'' 0 255 (pulse2_width_ticks cfg)) (\<lambda>_.
      r_bind (check_range ''pulse_bias_percent_270nm must be in 0..4095'' 0 4095
                (pulse_bias_percent_270nm cfg)) (\<lambda>_.
      r_bind (check_range ''pulse_bias_percent_367nm must be in 0..4095'' 0 4095
                (pulse_bias_percent_367nm cfg)) (\<lambda>_.
      if pdts_sync cfg then validate_pdts cfg else Inr ()))))))))"

section \<open>What validation guarantees\<close>

text \<open>A configuration whose integer fields have been read.\<close>

record led_run =
  nch :: int
  mask :: int
  mode :: string
  burst :: int
  delay :: int
  width1 :: int
  width2 :: int
  bias270 :: int
  bias367 :: int

definition led_view :: "LEDRunConfig \<Rightarrow> led_run result" where
  "led_view cfg =
     (case (number_channels cfg, channel_mask cfg, burst_count cfg, double_pulse_delay_ticks cfg,
            pulse1_width_ticks cfg, pulse2_width_ticks cfg, pulse_bias_percent_270nm cfg,
            pulse_bias_percent_367nm cfg) of
        (Some n, Some m, Some b, Some d, Some w1, Some w2, Some p, Some q) \<Rightarrow>
          Inr \<lparr>nch = n, mask = m, mode = pulse_mode cfg, burst = b, delay = d, width1 = w1,
               width2 = w2, bias270 = p, bias367 = q\<rparr>
      | _ \<Rightarrow> Inl TypeError)"

definition led_valid :: "led_run \<Rightarrow> bool" where
  "led_valid v \<longleftrightarrow> (nch v = 5 \<or> nch v = 12) \<and> 0 \<le> mask v \<and> mask v \<le> 4095
     \<and> (mode v = ''single'' \<or> mode v = ''burst'') \<and> 0 \<le> burst v \<and> burst v \<le> 10000
     \<and> 0 \<le> delay v \<and> delay v \<le> 4095 \<and> 0 \<le> width1 v \<and> width1 v \<le> 255
     \<and> 0 \<le> width2 v \<and> width2 v \<le> 255 \<and> 0 \<le> bias270 v \<and> bias270 v \<le> 4095
     \<and> 0 \<le> bias367 v \<and> bias367 v \<le> 4095"

lemma check_range_ok [simp]:
  "check_range msg lo hi x = Inr u \<longleftrightarrow> (\<exists>v. x = Some v \<and> lo \<le> v \<and> v \<le> hi)"
  by (cases x) (auto simp: check_range_def)

lemma validate_config_iff:
  "validate_config cfg = Inr () \<longleftrightarrow>
     (\<exists>v. led_view cfg = Inr v \<and> led_valid v)
     \<and> (pdts_sync cfg \<longrightarrow> (\<exists>p t. partition_number cfg = Some p \<and> timing_address cfg = Some t
           \<and> 0 \<le> p \<and> p \<le> 3 \<and> 0 \<le> t \<and> t \<le> 255))"
  unfolding validate_config_def validate_pdts_def led_view_def led_valid_def
  by (auto simp: r_bind_ok split: option.splits)

lemma default_config_valid: "validate_config default_config = Inr ()"
  by (simp add: validate_config_def default_config_def check_range_def)

text \<open>An argument on the command line wins over the file, and the file over the default.\<close>

lemma override_simps [simp]: "override None y = y" "override (Some v) y = Some v"
  by (simp_all add: override_def)

definition keeps_run_fields :: "int_setter \<Rightarrow> bool" where
  "keeps_run_fields f \<longleftrightarrow> (\<forall>v c. pdts_sync (f v c) = pdts_sync c \<and> module_id (f v c) = module_id c
     \<and> partition_number (f v c) = partition_number c \<and> timing_address (f v c) = timing_address c)"

lemma setter_frame:
  assumes "map_of int_fields n = Some f"
  shows "pdts_sync (f v c) = pdts_sync c" "module_id (f v c) = module_id c"
    "partition_number (f v c) = partition_number c" "timing_address (f v c) = timing_address c"
proof -
  have "list_all (\<lambda>p. keeps_run_fields (snd p)) int_fields"
    by (simp add: int_fields_def keeps_run_fields_def)
  moreover have "(n, f) \<in> set int_fields" using assms by (rule map_of_SomeD)
  ultimately have "keeps_run_fields f" by (auto simp: list_all_iff)
  then show "pdts_sync (f v c) = pdts_sync c" "module_id (f v c) = module_id c"
    "partition_number (f v c) = partition_number c" "timing_address (f v c) = timing_address c"
    by (auto simp: keeps_run_fields_def)
qed

lemma load_fields_pdts:
  "load_fields ssp ns cfg = Inr cfg' \<Longrightarrow> pdts_sync cfg' = pdts_sync cfg
     \<and> module_id cfg' = module_id cfg \<and> partition_number cfg' = partition_number cfg
     \<and> timing_address cfg' = timing_address cfg"
proof (induction ns arbitrary: cfg)
  case (Cons n ns)
  then obtain c where c: "load_field ssp n cfg = Inr c" and "load_fields ssp ns c = Inr cfg'"
    by (auto simp: r_bind_ok)
  have "pdts_sync c = pdts_sync cfg \<and> module_id c = module_id cfg
      \<and> partition_number c = partition_number cfg \<and> timing_address c = timing_address cfg"
    using c by (auto simp: load_field_def r_bind_ok setter_frame split: if_splits option.splits)
  with Cons.IH [OF \<open>load_fields ssp ns c = Inr cfg'\<close>] show ?case by simp
qed simp

end
