(* ===== verification/Ssp_Control.thy ===== *)
theory Ssp_Control
  imports Ssp_Regs Ssp_Config
begin

unbundle bit_operations_syntax

text \<open>
  The control sequences of \<open>client/ssp_led_control.py\<close>: PDTS synchronisation, register dumps, the
  PDTS register block, the master-logic reset, and configuring and stopping an LED run. They are
  written against an arbitrary client object, as in the code. \<open>time.sleep\<close> has no effect on the
  modelled state. For each writing sequence the theory states the list of writes it performs
  (\<open>configure_plan\<close>, \<open>stop_plan\<close>) and proves that running the code is running that list.
\<close>

section \<open>PDTS synchronisation\<close>

definition locked_nibble :: "int \<Rightarrow> bool" where
  "locked_nibble status \<longleftrightarrow> 0x6 \<le> status AND 0xF \<and> status AND 0xF \<le> 0x8"

definition already_synced :: "int \<Rightarrow> int \<Rightarrow> int \<Rightarrow> int \<Rightarrow> int \<Rightarrow> bool" where
  "already_synced part timing pdts_status pdts_control dp_clock_control \<longleftrightarrow>
     locked_nibble pdts_status
     \<and> drop_bit 16 pdts_control AND 0xFF = timing
     \<and> pdts_control AND 0x3 = part
     \<and> dp_clock_control AND 0xF = 0x1"

text \<open>One pass of the loop body: the status it reads last.\<close>

definition sync_attempt ::
  "'r console_scheme ssp_client \<Rightarrow> int \<Rightarrow> int \<Rightarrow> int \<Rightarrow> ('r console_scheme, int) py" where
  "sync_attempt client part timing attempt =
    (let reset_value = 0x80000000 + part + timing * 0x10000;
         run_value = part + timing * 0x10000 in
     m_then (write_and_log client DP_CLOCK_CONTROL 0x30 True ''pdts internal clock'')
     (m_then (write_and_log client PDTS_CONTROL reset_value True ''pdts reset'')
     (m_bind (c_read client PDTS_STATUS) (\<lambda>st1.
      m_bind (c_read client PDTS_CONTROL) (\<lambda>ct1.
      m_bind (c_read client DP_CLOCK_CONTROL) (\<lambda>ck1.
      m_then (emit (Line ''PDTS after reset:'' [st1, ct1, ck1]))
      (m_then (write_and_log client PDTS_CONTROL run_value True ''pdts run'')
      (m_bind (c_read client PDTS_STATUS) (\<lambda>st2.
       m_bind (c_read client PDTS_CONTROL) (\<lambda>ct2.
       m_then (emit (Line ''PDTS after run release:'' [st2, ct2]))
       (m_then (write_and_log client DP_CLOCK_CONTROL 0x31 True ''pdts external clock'')
       (m_bind (c_read client PDTS_STATUS) (\<lambda>st3.
        m_then (emit (Line ''PDTS attempt'' [attempt + 1, st3])) (m_ret st3))))))))))))))"

text \<open>\<open>for attempt in range(5): ... break ... else: raise\<close>.\<close>

fun sync_attempts ::
  "'r console_scheme ssp_client \<Rightarrow> int \<Rightarrow> int \<Rightarrow> int list \<Rightarrow> ('r console_scheme, unit) py" where
  "sync_attempts client part timing [] = m_raise (RuntimeError ''PDTS sync failed after 5 tries'')"
| "sync_attempts client part timing (attempt # rest) =
     m_bind (sync_attempt client part timing attempt) (\<lambda>pdts_status.
     if locked_nibble pdts_status then m_ret ()
     else sync_attempts client part timing rest)"

fun wait_running :: "'r console_scheme ssp_client \<Rightarrow> nat \<Rightarrow> ('r console_scheme, unit) py" where
  "wait_running client 0 = m_raise (RuntimeError ''PDTS did not reach running state 0x8'')"
| "wait_running client (Suc n) =
     m_bind (c_read client PDTS_STATUS) (\<lambda>pdts_status.
     if pdts_status AND 0xF = 0x8
     then emit (Line ''PDTS running:'' [pdts_status])
     else m_then (emit (Line ''Waiting for PDTS running state'' [pdts_status])) (wait_running client n))"

definition sync_pdts ::
  "'r console_scheme ssp_client \<Rightarrow> int \<Rightarrow> int \<Rightarrow> ('r console_scheme, unit) py" where
  "sync_pdts client part timing =
     m_bind (c_read client PDTS_STATUS) (\<lambda>pdts_status.
     m_bind (c_read client PDTS_CONTROL) (\<lambda>pdts_control.
     m_bind (c_read client DP_CLOCK_CONTROL) (\<lambda>dp_clock_control.
     m_then (emit (Line ''PDTS status before sync:'' [pdts_status, pdts_control, dp_clock_control]))
     (m_then
       (if already_synced part timing pdts_status pdts_control dp_clock_control
        then emit (Line ''PDTS already looks synced; skipping reset'' [])
        else m_then (emit (Line ''Syncing PDTS:'' [part, timing]))
               (sync_attempts client part timing (py_range 5)))
       (wait_running client 3)))))"

section \<open>Dumps, register block, master logic\<close>

definition dump_registers ::
  "'r console_scheme ssp_client \<Rightarrow> (int \<times> string) list \<Rightarrow> string \<Rightarrow> ('r console_scheme, unit) py" where
  "dump_registers client registers heading =
     m_then (emit (Line heading []))
       (m_for registers (\<lambda>(address, label).
          m_bind (c_read client address) (\<lambda>value. emit (Line label [address, value]))))"

definition PDTS_REPORT_REGISTERS :: "(int \<times> string) list" where
  "PDTS_REPORT_REGISTERS =
    [(DP_CLOCK_CONTROL, ''dp_clock_control''), (PDTS_CONTROL, ''pdts_control''),
     (PDTS_STATUS, ''pdts_status''), (PDTS_CMD_CONTROL_1, ''pdts_cmd_control_1''),
     (PDTS_CMD_CONTROL_2, ''pdts_cmd_control_2''), (CAL_COUNT, ''cal_count'')]
    @ map (\<lambda>index. (PDTS_CMD_DELAY_0 + index * 4, ''pdts_cmd_delay_'' @ int_to_str index)) (py_range 16)"

definition INSPECT_REGISTERS :: "(int \<times> string) list" where
  "INSPECT_REGISTERS =
    [(DP_FPGA_FW_BUILD, ''dp_fpga_fw_build''), (CALIB_BUILD, ''calib_build''),
     (DP_CLOCK_STATUS, ''dp_clock_status''), (MASTER_LOGIC_CONTROL, ''master_logic_control''),
     (MASTER_LOGIC_STATUS, ''master_logic_status''), (DP_CLOCK_CONTROL, ''dp_clock_control''),
     (PDTS_CONTROL, ''pdts_control''), (PDTS_STATUS, ''pdts_status''),
     (PDTS_CMD_CONTROL_1, ''pdts_cmd_control_1''), (PDTS_CMD_CONTROL_2, ''pdts_cmd_control_2''),
     (CAL_COUNT, ''cal_count'')]"

definition configure_pdts_register_block ::
  "'r console_scheme ssp_client \<Rightarrow> ('r console_scheme, unit) py" where
  "configure_pdts_register_block client =
     m_then (write_and_log client PDTS_CMD_CONTROL_1 0x000002E7 True ''pdts_cmd_control_1'')
     (m_then
       (m_for (py_range 16) (\<lambda>index.
          write_and_log client (PDTS_CMD_DELAY_0 + index * 4) 0x00030036 True
            (''pdts_cmd_delay_'' @ int_to_str index)))
     (m_then (write_and_log client PDTS_CMD_CONTROL_2 0x80000000 True ''pdts_cmd_control_2'')
       (write_and_log client DP_CLOCK_CONTROL 0x00000011 True ''pulser/dp clock control'')))"

definition pulse_master_logic_reset ::
  "'r console_scheme ssp_client \<Rightarrow> ('r console_scheme, unit) py" where
  "pulse_master_logic_reset client =
     m_bind (c_read client MASTER_LOGIC_CONTROL) (\<lambda>current.
     let cleared = current AND NOT 0x00000101 in
     m_then (emit (Line ''Master logic before pulse:'' [current]))
     (m_then (write_and_log client MASTER_LOGIC_CONTROL cleared True ''master_logic clear reset bits'')
     (m_then (write_and_log client MASTER_LOGIC_CONTROL 0x00000041 True ''master_logic start'')
     (m_bind (c_read client MASTER_LOGIC_STATUS) (\<lambda>status.
      m_bind (c_read client PDTS_STATUS) (\<lambda>pdts_status.
      m_bind (c_read client MASTER_LOGIC_CONTROL) (\<lambda>control.
      emit (Line ''Master logic after pulse:'' [control, status, pdts_status]))))))))"

section \<open>Configuring and stopping a run\<close>

definition base_bias_addr :: "led_run \<Rightarrow> int" where
  "base_bias_addr v = (if nch v = 5 then 0x4000035C else 0x40000340)"

definition base_timing_addr :: "led_run \<Rightarrow> int" where
  "base_timing_addr v = (if nch v = 5 then 0x800003DC else 0x800003C0)"

definition channel_on :: "led_run \<Rightarrow> int \<Rightarrow> bool" where
  "channel_on v counter \<longleftrightarrow> mask v AND push_bit (nat counter) 1 \<noteq> 0"

definition bias_reg_val :: "led_run \<Rightarrow> int \<Rightarrow> int" where
  "bias_reg_val v counter = 0x00040000 + (if counter < 6 then bias270 v else bias367 v div 2)"

definition timing_reg_val :: "led_run \<Rightarrow> int" where
  "timing_reg_val v =
     (if mode v = ''single'' then 0xF0000000 else 0x90000000)
     + width1 v + push_bit 8 (width2 v) + push_bit 16 (delay v)"

text \<open>The body of the channel loop.\<close>

definition configure_channel ::
  "'r console_scheme ssp_client \<Rightarrow> led_run \<Rightarrow> int \<Rightarrow> ('r console_scheme, unit) py" where
  "configure_channel client v counter =
    (let bias_reg_addr = base_bias_addr v + 0x4 * counter;
         timing_reg_addr = base_timing_addr v + 0x4 * counter in
     if channel_on v counter then
       m_then (write_and_log client bias_reg_addr (bias_reg_val v counter) True
                 (''bias_config_'' @ int_to_str counter))
       (m_then
         (m_when (counter = 7 \<and> \<not> channel_on v (counter - 1))
           (write_and_log client (bias_reg_addr - 0x4) (bias_reg_val v counter) True
              ''channel_7_bias_workaround''))
         (write_and_log client timing_reg_addr (timing_reg_val v) True
            (''cal_config_'' @ int_to_str counter)))
     else
       m_then (write_and_log client bias_reg_addr 0 True (''bias_config_'' @ int_to_str counter))
              (write_and_log client timing_reg_addr 0 True (''cal_config_'' @ int_to_str counter)))"

definition configure_pulser ::
  "'r console_scheme ssp_client \<Rightarrow> led_run \<Rightarrow> ('r console_scheme, unit) py" where
  "configure_pulser client v =
     m_then (write_and_log client CAL_COUNT (if mode v = ''single'' then 1 else burst v) True ''cal_count'')
     (m_then (m_for (py_range (nat (nch v))) (configure_channel client v))
       (write_and_log client BIAS_CONTROL 0x00000001 False ''apply_bias''))"

definition configure_run ::
  "'r console_scheme ssp_client \<Rightarrow> LEDRunConfig \<Rightarrow> ('r console_scheme, unit) py" where
  "configure_run client cfg =
     m_then
       (if pdts_sync cfg then
          (case (partition_number cfg, timing_address cfg) of
             (Some p, Some t) \<Rightarrow> sync_pdts client p t
           | _ \<Rightarrow> m_raise TypeError)
        else m_ret ())
     (m_then
       (case module_id cfg of
          None \<Rightarrow> m_ret ()
        | Some m \<Rightarrow> write_and_log client MODULE_ID m True ''module_id'')
     (m_then (configure_pdts_register_block client)
       (m_bind (m_lift (led_view cfg)) (configure_pulser client))))"

definition stop_run :: "'r console_scheme ssp_client \<Rightarrow> ('r console_scheme, unit) py" where
  "stop_run client =
     m_then (m_for (py_range 12) (\<lambda>counter.
        m_then (write_and_log client (0x40000340 + 0x4 * counter) 0 True (''bias_config_'' @ int_to_str counter))
               (write_and_log client (0x800003C0 + 0x4 * counter) 0 True (''cal_config_'' @ int_to_str counter))))
       (write_and_log client BIAS_CONTROL 0x00000001 False ''apply_bias'')"

section \<open>The writes a sequence performs\<close>

definition pdts_block_plan :: "reg_write list" where
  "pdts_block_plan =
     (PDTS_CMD_CONTROL_1, 0x000002E7, True, ''pdts_cmd_control_1'')
     # map (\<lambda>index. (PDTS_CMD_DELAY_0 + index * 4, 0x00030036, True, ''pdts_cmd_delay_'' @ int_to_str index))
         (py_range 16)
     @ [(PDTS_CMD_CONTROL_2, 0x80000000, True, ''pdts_cmd_control_2''),
        (DP_CLOCK_CONTROL, 0x00000011, True, ''pulser/dp clock control'')]"

definition channel_plan :: "led_run \<Rightarrow> int \<Rightarrow> reg_write list" where
  "channel_plan v i =
     (if channel_on v i then
        (base_bias_addr v + 4 * i, bias_reg_val v i, True, ''bias_config_'' @ int_to_str i)
        # (if i = 7 \<and> \<not> channel_on v 6
           then [(base_bias_addr v + 4 * i - 4, bias_reg_val v i, True, ''channel_7_bias_workaround'')]
           else [])
        @ [(base_timing_addr v + 4 * i, timing_reg_val v, True, ''cal_config_'' @ int_to_str i)]
      else
        [(base_bias_addr v + 4 * i, 0, True, ''bias_config_'' @ int_to_str i),
         (base_timing_addr v + 4 * i, 0, True, ''cal_config_'' @ int_to_str i)])"

definition pulser_plan :: "led_run \<Rightarrow> reg_write list" where
  "pulser_plan v =
     (CAL_COUNT, if mode v = ''single'' then 1 else burst v, True, ''cal_count'')
     # concat (map (channel_plan v) (py_range (nat (nch v))))
     @ [(BIAS_CONTROL, 1, False, ''apply_bias'')]"

definition configure_plan :: "int option \<Rightarrow> led_run \<Rightarrow> reg_write list" where
  "configure_plan mid v =
     (case mid of None \<Rightarrow> [] | Some m \<Rightarrow> [(MODULE_ID, m, True, ''module_id'')])
     @ pdts_block_plan @ pulser_plan v"

definition stop_plan :: "reg_write list" where
  "stop_plan =
     concat (map (\<lambda>i. [(0x40000340 + 0x4 * i, 0, True, ''bias_config_'' @ int_to_str i),
                        (0x800003C0 + 0x4 * i, 0, True, ''cal_config_'' @ int_to_str i)]) (py_range 12))
     @ [(BIAS_CONTROL, 1, False, ''apply_bias'')]"

lemma pdts_block_writes: "configure_pdts_register_block client = run_writes client pdts_block_plan"
  by (simp add: configure_pdts_register_block_def pdts_block_plan_def run_writes_def m_for_append
      m_for_map m_then_assoc)

lemma channel_writes: "configure_channel client v i = run_writes client (channel_plan v i)"
  by (cases "i = 7") (simp_all add: configure_channel_def channel_plan_def run_writes_simps m_when_def)

lemma pulser_writes: "configure_pulser client v = run_writes client (pulser_plan v)"
proof -
  have "configure_channel client v = (\<lambda>i. run_writes client (channel_plan v i))"
    by (rule ext) (rule channel_writes)
  then show ?thesis
    by (simp add: configure_pulser_def pulser_plan_def run_writes_simps run_writes_append
        run_writes_concat)
qed

lemma configure_run_writes:
  assumes "\<not> pdts_sync cfg" "led_view cfg = Inr v"
  shows "configure_run client cfg = run_writes client (configure_plan (module_id cfg) v)"
  using assms
  by (cases "module_id cfg")
     (simp_all add: configure_run_def configure_plan_def run_writes_append run_writes_simps
        pdts_block_writes pulser_writes)

lemma configure_run_sync_writes:
  assumes "pdts_sync cfg" "partition_number cfg = Some p" "timing_address cfg = Some t" "led_view cfg = Inr v"
  shows "configure_run client cfg =
    m_then (sync_pdts client p t) (run_writes client (configure_plan (module_id cfg) v))"
  using assms
  by (cases "module_id cfg")
     (simp_all add: configure_run_def configure_plan_def run_writes_append run_writes_simps
        pdts_block_writes pulser_writes)

lemma stop_run_writes: "stop_run client = run_writes client stop_plan"
  by (simp add: stop_run_def stop_plan_def run_writes_append run_writes_simps run_writes_concat)

end
