(* ===== verification/Ssp_Client.thy ===== *)
theory Ssp_Client
  imports Ssp_Regs
begin

text \<open>
  \<open>SSPClient\<close> of \<open>client/ssp_led_control.py\<close>: the TCP socket, \<open>_recv_exact\<close>, \<open>_transaction\<close>,
  \<open>read\<close> and \<open>write\<close>, byte for byte.

  The device at the other end is not part of the repository: it is the parameter \<open>device\<close>, which
  takes a request packet and either answers with bytes or closes the connection. The socket is
  modelled as the operating system delivers it: one \<open>recv\<close> hands over some non-empty prefix of what
  has arrived, and how much is decided by the schedule \<open>sched\<close>; with nothing to deliver it times out,
  or returns no bytes when the peer has closed.

  The locale \<open>ssp_device\<close> is the register behaviour the client expects of a device: requests are
  answered in the documented packet format, control registers keep what was written to them, and
  status registers may hold anything at any time;
  \<open>sublocale ssp_device \<subseteq> register_client\<close> proves that the client then provides the contract the control
  sequences are verified against, and \<open>ref_device\<close> is a device that satisfies it.
\<close>

type_synonym 'd device = "'d \<Rightarrow> bytes \<Rightarrow> ('d \<times> bytes) option"

definition CMD_READ :: int where "CMD_READ = 0x01"
definition CMD_WRITE :: int where "CMD_WRITE = 0x03"

section \<open>The socket\<close>

record 'd ssp_world = console +
  peer :: 'd
  inbuf :: bytes
  peer_closed :: bool
  sched :: "nat list"

definition sock_sendall :: "'d device \<Rightarrow> bytes \<Rightarrow> ('d ssp_world, unit) py" where
  "sock_sendall device packet s =
     (if peer_closed s then (Inl (ConnectionError ''broken pipe''), s)
      else case device (peer s) packet of
          None \<Rightarrow> (Inr (), s\<lparr>peer_closed := True\<rparr>)
        | Some (d, reply) \<Rightarrow> (Inr (), s\<lparr>peer := d, inbuf := inbuf s @ reply\<rparr>))"

definition recv_len :: "nat \<Rightarrow> nat list \<Rightarrow> nat" where
  "recv_len n sch = (case sch of [] \<Rightarrow> n | k # _ \<Rightarrow> max 1 (min n k))"

definition sock_recv :: "nat \<Rightarrow> ('d ssp_world, bytes) py" where
  "sock_recv n s =
     (if inbuf s = []
      then (if peer_closed s then (Inr [], s) else (Inl (TimeoutError ''timed out''), s))
      else (let k = recv_len n (sched s) in
            (Inr (take k (inbuf s)), s\<lparr>inbuf := drop k (inbuf s), sched := tl (sched s)\<rparr>)))"

lemma sock_recv_length:
  "sock_recv n s = (Inr chunk, t) \<Longrightarrow> 0 < n \<Longrightarrow> length chunk \<le> n"
  by (auto simp: sock_recv_def recv_len_def Let_def split: if_splits list.splits)

section \<open>\<open>_recv_exact\<close>\<close>

function recv_loop :: "nat \<Rightarrow> bytes list \<Rightarrow> ('d ssp_world, bytes) py" where
  "recv_loop remaining chunks s =
     (if 0 < remaining then
        (case sock_recv remaining s of
           (Inl e, t) \<Rightarrow> (Inl e, t)
         | (Inr chunk, t) \<Rightarrow>
             (if chunk = [] then (Inl (ConnectionError ''socket closed while receiving response''), t)
              else recv_loop (remaining - length chunk) (chunks @ [chunk]) t))
      else (Inr (concat chunks), s))"
  by pat_completeness auto
termination
  by (relation "measure (\<lambda>(remaining, chunks, s). remaining)") auto

declare recv_loop.simps [simp del]

definition recv_exact :: "nat \<Rightarrow> ('d ssp_world, bytes) py" where
  "recv_exact n = recv_loop n []"

text \<open>
  Whatever the schedule, receiving \<open>size\<close> bytes that have arrived returns exactly those bytes and
  leaves the rest; only the schedule itself is consumed.
\<close>

lemma recv_loop_exact:
  "remaining \<le> length (inbuf s) \<Longrightarrow>
    \<exists>sch. recv_loop remaining chunks s =
      (Inr (concat chunks @ take remaining (inbuf s)), s\<lparr>inbuf := drop remaining (inbuf s), sched := sch\<rparr>)"
proof (induction remaining chunks s rule: recv_loop.induct)
  case (1 remaining chunks s)
  show ?case
  proof (cases "0 < remaining")
    case False
    then show ?thesis
      by (auto simp: recv_loop.simps [of 0 chunks s] intro!: exI [of _ "sched s"])
  next
    case True
    define k where "k = recv_len remaining (sched s)"
    have k: "0 < k" "k \<le> remaining"
      using True by (auto simp: k_def recv_len_def split: list.splits)
    define t where "t = s\<lparr>inbuf := drop k (inbuf s), sched := tl (sched s)\<rparr>"
    have ne: "inbuf s \<noteq> []" using True 1(2) by auto
    have rv: "sock_recv remaining s = (Inr (take k (inbuf s)), t)"
      using ne by (simp add: sock_recv_def k_def t_def Let_def)
    have mk: "min (length (inbuf s)) k = k" using k 1(2) by simp
    have "\<exists>sch. recv_loop (remaining - length (take k (inbuf s))) (chunks @ [take k (inbuf s)]) t =
        (Inr (concat (chunks @ [take k (inbuf s)]) @
                take (remaining - length (take k (inbuf s))) (inbuf t)),
         t\<lparr>inbuf := drop (remaining - length (take k (inbuf s))) (inbuf t), sched := sch\<rparr>)"
      by (rule 1(1) [OF True rv [symmetric]]) (use 1(2) k ne in \<open>auto simp: t_def\<close>)
    then obtain sch where IH: "recv_loop (remaining - k) (chunks @ [take k (inbuf s)]) t =
        (Inr (concat chunks @ take k (inbuf s) @ take (remaining - k) (drop k (inbuf s))),
         s\<lparr>inbuf := drop remaining (inbuf s), sched := sch\<rparr>)"
      using k mk by (auto simp: t_def)
    have "recv_loop remaining chunks s = recv_loop (remaining - k) (chunks @ [take k (inbuf s)]) t"
      using True rv ne k by (simp add: recv_loop.simps [of remaining chunks s] mk)
    moreover have "take k (inbuf s) @ take (remaining - k) (drop k (inbuf s)) = take remaining (inbuf s)"
      using k by (metis le_add_diff_inverse take_add)
    ultimately show ?thesis using IH by auto
  qed
qed

lemma recv_exact_ok:
  "n \<le> length (inbuf s) \<Longrightarrow>
    \<exists>sch. recv_exact n s = (Inr (take n (inbuf s)), s\<lparr>inbuf := drop n (inbuf s), sched := sch\<rparr>)"
  using recv_loop_exact [of n s "[]"] by (simp add: recv_exact_def)

text \<open>With too few bytes the loop ends in an error: closed peers and silent peers are told apart.\<close>

lemma recv_loop_short:
  "length (inbuf s) < remaining \<Longrightarrow>
    fst (recv_loop remaining chunks s) =
      Inl (if peer_closed s then ConnectionError ''socket closed while receiving response''
           else TimeoutError ''timed out'')"
proof (induction remaining chunks s rule: recv_loop.induct)
  case (1 remaining chunks s)
  show ?case
  proof (cases "inbuf s = []")
    case True
    with 1(2) show ?thesis by (simp add: recv_loop.simps [of remaining] sock_recv_def)
  next
    case False
    define k where "k = recv_len remaining (sched s)"
    define t where "t = s\<lparr>inbuf := drop k (inbuf s), sched := tl (sched s)\<rparr>"
    have pos: "0 < remaining" using 1(2) by auto
    then have k: "0 < k" by (auto simp: k_def recv_len_def split: list.splits)
    have rv: "sock_recv remaining s = (Inr (take k (inbuf s)), t)"
      using False by (simp add: sock_recv_def k_def t_def Let_def)
    have "fst (recv_loop (remaining - length (take k (inbuf s))) (chunks @ [take k (inbuf s)]) t) =
        Inl (if peer_closed t then ConnectionError ''socket closed while receiving response''
             else TimeoutError ''timed out'')"
      by (rule 1(1) [OF pos rv [symmetric]]) (use 1(2) k False in \<open>auto simp: t_def\<close>)
    with pos rv k False show ?thesis
      by (simp add: recv_loop.simps [of remaining chunks s] t_def)
  qed
qed

section \<open>\<open>_transaction\<close>, \<open>read\<close> and \<open>write\<close>\<close>

type_synonym reply = "int \<times> int \<times> int \<times> int \<times> int \<times> int list"

definition read_payload :: "int \<Rightarrow> ('d ssp_world, bytes) py" where
  "read_payload payload_len = (if payload_len \<noteq> 0 then recv_exact (nat payload_len) else m_ret [])"

definition transaction :: "'d device \<Rightarrow> int \<Rightarrow> int \<Rightarrow> int list \<Rightarrow> ('d ssp_world, reply) py" where
  "transaction device address command data_words =
     m_bind (m_lift (request_packet address command data_words)) (\<lambda>packet.
     m_then (sock_sendall device packet)
     (m_bind (recv_exact HEADER_SIZE) (\<lambda>header.
      m_bind (m_lift (unpack_words 5 header)) (\<lambda>ws.
      let total_len = ws ! 0; rx_addr = ws ! 1; rx_cmd = ws ! 2; rx_size = ws ! 3; rx_status = ws ! 4 in
      if total_len < int HEADER_SIZE then m_raise (RuntimeError ''invalid response length'')
      else
        let payload_len = total_len - int HEADER_SIZE in
        m_bind (read_payload payload_len) (\<lambda>payload_bytes.
        if payload_len mod 4 \<noteq> 0 then m_raise (RuntimeError ''misaligned payload length'')
        else m_bind (m_lift (if payload_len \<noteq> 0 then unpack_words (nat (payload_len div 4)) payload_bytes
                             else Inr [])) (\<lambda>payload_words.
             m_ret (total_len, rx_addr, rx_cmd, rx_size, rx_status, payload_words)))))))"

definition ssp_read :: "'d device \<Rightarrow> int \<Rightarrow> ('d ssp_world, int) py" where
  "ssp_read device address =
     m_bind (transaction device address CMD_READ []) (\<lambda>(_, rx_addr, _, _, rx_status, payload).
     if rx_addr \<noteq> address then m_raise (RuntimeError ''read response address mismatch'')
     else if rx_status \<noteq> 0 then m_raise (RuntimeError ''read failed'')
     else case payload of
         [] \<Rightarrow> m_raise (RuntimeError ''read response missing payload'')
       | w # _ \<Rightarrow> m_ret w)"

definition ssp_write :: "'d device \<Rightarrow> int \<Rightarrow> int \<Rightarrow> bool \<Rightarrow> ('d ssp_world, int option) py" where
  "ssp_write device address value verify =
     m_bind (transaction device address CMD_WRITE [value]) (\<lambda>(_, rx_addr, _, _, rx_status, _).
     if rx_addr \<noteq> address then m_raise (RuntimeError ''write response address mismatch'')
     else if rx_status \<noteq> 0 then m_raise (RuntimeError ''write failed'')
     else if \<not> verify \<or> address \<in> NON_LATCHED_REGISTERS then m_ret None
     else m_bind (ssp_read device address) (\<lambda>readback.
          if readback \<noteq> value then m_raise (RuntimeError ''readback mismatch'')
          else m_ret (Some readback)))"

definition ssp_client_of :: "'d device \<Rightarrow> 'd ssp_world ssp_client" where
  "ssp_client_of device = \<lparr>c_read = ssp_read device, c_write = ssp_write device\<rparr>"

section \<open>What a transaction does with a well-formed answer\<close>

definition response_words :: "int \<Rightarrow> int \<Rightarrow> int \<Rightarrow> int \<Rightarrow> int list \<Rightarrow> int list" where
  "response_words a cmd sz status ws = [int (20 + 4 * length ws), a, cmd, sz, status] @ ws"

definition response_bytes :: "int \<Rightarrow> int \<Rightarrow> int \<Rightarrow> int \<Rightarrow> int list \<Rightarrow> bytes" where
  "response_bytes a cmd sz status ws = concat (map (le_bytes 4) (response_words a cmd sz status ws))"

definition idle :: "'d ssp_world \<Rightarrow> bool" where
  "idle s \<longleftrightarrow> inbuf s = [] \<and> \<not> peer_closed s"

lemma unpack_response_header:
  assumes "list_all is_u32 ws" "is_u32 a" "is_u32 cmd" "is_u32 sz" "is_u32 st" "length ws < 2 ^ 29"
  shows "unpack_words 5 (take 20 (response_bytes a cmd sz st ws)) =
      Inr [int (20 + 4 * length ws), a, cmd, sz, st]"
    and "drop 20 (response_bytes a cmd sz st ws) = concat (map (le_bytes 4) ws)"
proof -
  let ?h = "[int (20 + 4 * length ws), a, cmd, sz, st]"
  have split: "response_bytes a cmd sz st ws = concat (map (le_bytes 4) ?h) @ concat (map (le_bytes 4) ws)"
    by (simp add: response_bytes_def response_words_def)
  have len: "length (concat (map (le_bytes 4) ?h)) = 20"
    by (simp only: length_packed) simp
  have u: "list_all is_u32 ?h"
    using assms by (auto simp: is_u32_def)
  have five: "length ?h = 5" by simp
  have "unpack_words 5 (concat (map (le_bytes 4) ?h)) = Inr ?h"
    unfolding five [symmetric] by (rule unpack_pack) (use u in \<open>simp add: pack_words_def\<close>)
  then show "unpack_words 5 (take 20 (response_bytes a cmd sz st ws)) = Inr ?h"
    and "drop 20 (response_bytes a cmd sz st ws) = concat (map (le_bytes 4) ws)"
    by (simp_all only: split take_append drop_append len) (simp_all add: len)
qed

lemma transaction_response:
  assumes req: "request_packet address command data = Inr pkt"
    and idle: "idle s"
    and dev: "device (peer s) pkt = Some (d, response_bytes a cmd sz st ws)"
    and u: "list_all is_u32 ws" "is_u32 a" "is_u32 cmd" "is_u32 sz" "is_u32 st"
    and n: "length ws < 2 ^ 29"
  shows "\<exists>sch. transaction device address command data s =
    (Inr (int (20 + 4 * length ws), a, cmd, sz, st, ws), s\<lparr>peer := d, inbuf := [], sched := sch\<rparr>)"
proof -
  let ?r = "response_bytes a cmd sz st ws"
  let ?s1 = "s\<lparr>peer := d, inbuf := ?r\<rparr>"
  have send: "sock_sendall device pkt s = (Inr (), ?s1)"
    using idle dev by (simp add: sock_sendall_def idle_def)
  have len: "length ?r = 20 + 4 * length ws"
    by (simp only: response_bytes_def length_packed) (simp add: response_words_def)
  obtain sch1 where h: "recv_exact HEADER_SIZE ?s1 =
      (Inr (take 20 ?r), s\<lparr>peer := d, inbuf := drop 20 ?r, sched := sch1\<rparr>)"
    using recv_exact_ok [of 20 ?s1] len by (auto simp: HEADER_SIZE_def)
  let ?s2 = "s\<lparr>peer := d, inbuf := concat (map (le_bytes 4) ws), sched := sch1\<rparr>"
  have pl: "\<exists>sch2. read_payload (4 * int (length ws)) ?s2 =
      (Inr (concat (map (le_bytes 4) ws)), s\<lparr>peer := d, inbuf := [], sched := sch2\<rparr>)"
  proof (cases "ws = []")
    case True
    then show ?thesis by (auto simp: read_payload_def m_ret_def)
  next
    case False
    then show ?thesis
      using recv_exact_ok [of "4 * length ws" ?s2]
      by (auto simp: read_payload_def length_packed nat_mult_distrib)
  qed
  then obtain sch2 where p: "read_payload (4 * int (length ws)) ?s2 =
      (Inr (concat (map (le_bytes 4) ws)), s\<lparr>peer := d, inbuf := [], sched := sch2\<rparr>)" by blast
  have up: "(if 4 * int (length ws) \<noteq> 0
      then unpack_words (nat (4 * int (length ws) div 4)) (concat (map (le_bytes 4) ws)) else Inr []) = Inr ws"
    using unpack_pack [of ws "concat (map (le_bytes 4) ws)"] u(1) by (auto simp: pack_words_def)
  show ?thesis
    using send h p up req unpack_response_header [OF u n]
    by (intro exI [of _ sch2])
       (simp add: transaction_def m_bind_def m_then_def m_lift_def m_ret_def HEADER_SIZE_def Let_def)
qed

section \<open>The device contract\<close>

locale ssp_device =
  fixes device :: "'d device"
    and dregs :: "'d \<Rightarrow> int \<Rightarrow> int"
  assumes dev_u32: "is_u32 (dregs d a)"
    and dev_read: "is_u32 a \<Longrightarrow> request_packet a CMD_READ [] = Inr pkt \<Longrightarrow>
      \<exists>d' sz v. device d pkt = Some (d', response_bytes a CMD_READ sz 0 [v])
        \<and> is_u32 sz \<and> is_u32 v \<and> (a \<notin> STATUS_REGISTERS \<longrightarrow> v = dregs d a)
        \<and> (\<forall>b. b \<notin> STATUS_REGISTERS \<longrightarrow> dregs d' b = dregs d b)"
    and dev_write: "is_u32 a \<Longrightarrow> is_u32 v \<Longrightarrow> a \<notin> STATUS_REGISTERS \<Longrightarrow>
      request_packet a CMD_WRITE [v] = Inr pkt \<Longrightarrow>
      \<exists>d' sz. device d pkt = Some (d', response_bytes a CMD_WRITE sz 0 [])
        \<and> is_u32 sz \<and> (\<forall>b. b \<noteq> a \<and> b \<notin> STATUS_REGISTERS \<longrightarrow> dregs d' b = dregs d b)
        \<and> (a \<notin> NON_LATCHED_REGISTERS \<longrightarrow> dregs d' a = v)"
begin

lemma cmd_u32 [simp]: "is_u32 CMD_READ" "is_u32 CMD_WRITE" "is_u32 0"
  by (simp_all add: CMD_READ_def CMD_WRITE_def is_u32_def)

lemma ssp_read_any:
  assumes "idle s" "is_u32 a"
  shows "\<exists>v t. ssp_read device a s = (Inr v, t) \<and> idle t \<and> (a \<notin> STATUS_REGISTERS \<longrightarrow> v = dregs (peer s) a)
    \<and> control_view (dregs (peer t)) = control_view (dregs (peer s)) \<and> log t = log s"
proof -
  obtain pkt where pkt: "request_packet a CMD_READ [] = Inr pkt"
    using request_packet_ok [of a CMD_READ "[]"] assms by simp
  then obtain d sz v where d: "device (peer s) pkt = Some (d, response_bytes a CMD_READ sz 0 [v])"
    "is_u32 sz" "is_u32 v" "a \<notin> STATUS_REGISTERS \<longrightarrow> v = dregs (peer s) a" "control_view (dregs d) = control_view (dregs (peer s))"
    using dev_read [OF assms(2), of pkt "peer s"] by (auto simp: control_view_eq)
  obtain sch where "transaction device a CMD_READ [] s =
      (Inr (24, a, CMD_READ, sz, 0, [v]), s\<lparr>peer := d, inbuf := [], sched := sch\<rparr>)"
    using transaction_response [where device = device and d = d and a = a and cmd = CMD_READ and sz = sz
        and st = 0 and ws = "[v]", OF pkt assms(1) d(1)] assms(2) d(2,3) by auto
  then show ?thesis
    using assms d by (simp add: ssp_read_def m_bind_def m_ret_def idle_def)
qed

lemma ssp_read_ok:
  assumes "idle s" "is_u32 a" "a \<notin> STATUS_REGISTERS"
  shows "\<exists>t. ssp_read device a s = (Inr (dregs (peer s) a), t) \<and> idle t
    \<and> control_view (dregs (peer t)) = control_view (dregs (peer s)) \<and> log t = log s"
  using ssp_read_any [OF assms(1,2)] assms(3) by blast

lemma ssp_write_ok:
  assumes "idle s" "is_u32 a" "is_u32 v" "a \<notin> STATUS_REGISTERS"
  shows "\<exists>t. ssp_write device a v vf s =
      (Inr (if vf \<and> a \<notin> NON_LATCHED_REGISTERS then Some v else None), t)
    \<and> idle t \<and> log t = log s
    \<and> (\<forall>b. b \<noteq> a \<longrightarrow> control_view (dregs (peer t)) b = control_view (dregs (peer s)) b)
    \<and> (a \<notin> NON_LATCHED_REGISTERS \<longrightarrow> control_view (dregs (peer t)) a = v)"
proof -
  obtain pkt where pkt: "request_packet a CMD_WRITE [v] = Inr pkt"
    using request_packet_ok [of a CMD_WRITE "[v]"] assms by simp
  then obtain d sz where dw: "device (peer s) pkt = Some (d, response_bytes a CMD_WRITE sz 0 [])"
    "is_u32 sz" "\<forall>b. b \<noteq> a \<and> b \<notin> STATUS_REGISTERS \<longrightarrow> dregs d b = dregs (peer s) b"
    "a \<notin> NON_LATCHED_REGISTERS \<longrightarrow> dregs d a = v"
    using dev_write [OF assms(2-4), of pkt "peer s"] by blast
  have "\<forall>b. b \<noteq> a \<longrightarrow> control_view (dregs d) b = control_view (dregs (peer s)) b" using dw(3) by (simp add: control_view_def)
  note d = dw(1,2) this dw(4)
  have da: "control_view (dregs d) a = dregs d a" using assms(4) by (simp add: control_view_def)
  obtain sch where tr: "transaction device a CMD_WRITE [v] s =
      (Inr (20, a, CMD_WRITE, sz, 0, []), s\<lparr>peer := d, inbuf := [], sched := sch\<rparr>)"
    using transaction_response [where device = device and d = d and a = a and cmd = CMD_WRITE and sz = sz
        and st = 0 and ws = "[]", OF pkt assms(1) d(1)] assms(2) d(2) by auto
  let ?t = "s\<lparr>peer := d, inbuf := [], sched := sch\<rparr>"
  have idle: "idle ?t" using assms(1) by (simp add: idle_def)
  show ?thesis
  proof (cases "vf \<and> a \<notin> NON_LATCHED_REGISTERS")
    case False
    then show ?thesis
      using tr d da idle by (auto simp: ssp_write_def m_bind_def m_ret_def)
  next
    case True
    obtain u where u: "ssp_read device a ?t = (Inr (dregs d a), u)" "idle u"
      "control_view (dregs (peer u)) = control_view (dregs d)" "log u = log s"
      using ssp_read_ok [OF idle assms(2,4)] by auto
    then show ?thesis
      using tr d da True by (auto simp: ssp_write_def m_bind_def m_ret_def)
  qed
qed

end

sublocale ssp_device \<subseteq> bus: register_client "ssp_client_of device" "\<lambda>s. control_view (dregs (peer s))" idle
proof (unfold_locales, goal_cases)
  case (1 s a)
  then show ?case using ssp_read_ok [of s a] by (simp add: ssp_client_of_def control_view_def)
next
  case (2 s a)
  then have "is_u32 a" by (auto simp: STATUS_REGISTERS_def is_u32_def address_defs)
  with 2 show ?case using ssp_read_any [of s a] by (auto simp: ssp_client_of_def)
next
  case (3 s a v vf)
  then show ?case using ssp_write_ok by (simp add: ssp_client_of_def)
next
  case (4 s l)
  then show ?case by simp
next
  case (5 s l)
  then show ?case by (simp add: idle_def)
qed

section \<open>A reference device\<close>

text \<open>
  A device that decodes request packets and answers them: a register file, and the values its status
  registers will show, one per read (zero when the list has run out).
\<close>

type_synonym ref_state = "(int \<Rightarrow> 32 word) \<times> 32 word list"

definition ref_read :: "ref_state \<Rightarrow> int \<Rightarrow> ref_state \<times> 32 word" where
  "ref_read d a =
     (if a \<in> STATUS_REGISTERS
      then (case snd d of [] \<Rightarrow> (d, 0) | st # rest \<Rightarrow> ((fst d, rest), st))
      else (d, fst d a))"

definition ref_device :: "ref_state device" where
  "ref_device d pkt =
     (if length pkt < 20 then None
      else let h = chunk_words 5 pkt; a = h ! 1; cmd = h ! 2 in
        if cmd = CMD_READ then
          (case ref_read d a of (d', w) \<Rightarrow> Some (d', response_bytes a CMD_READ 1 0 [uint w]))
        else if cmd = CMD_WRITE \<and> length pkt = 24 then
          Some (((fst d)(a := word_of_int (le_int (drop 20 pkt))), snd d), response_bytes a CMD_WRITE 1 0 [])
        else None)"

definition ref_regs :: "ref_state \<Rightarrow> int \<Rightarrow> int" where
  "ref_regs d a = uint (fst d a)"

lemma u32_word_of_int: "is_u32 v \<Longrightarrow> uint (word_of_int v :: 32 word) = v"
  by (simp add: is_u32_def uint_word_of_int take_bit_eq_mod)

lemma ref_device_packet:
  assumes "is_u32 a" "is_u32 cmd" "list_all is_u32 ws" "length ws < 2 ^ 29"
    and "request_packet a cmd ws = Inr pkt"
  shows "length pkt = 20 + 4 * length ws"
    and "chunk_words 5 pkt = [int (20 + 4 * length ws), a, cmd, 1, 0]"
    and "drop 20 pkt = concat (map (le_bytes 4) ws)"
proof -
  let ?h = "[int (20 + 4 * length ws), a, cmd, 1, 0]"
  have pkt: "pkt = concat (map (le_bytes 4) ?h) @ concat (map (le_bytes 4) ws)"
    using assms request_packet_ok [OF assms(1-4)] by simp
  have len: "length (concat (map (le_bytes 4) ?h)) = 20"
    by (simp only: length_packed) simp
  have u: "list_all is_u32 ?h" using assms by (auto simp: is_u32_def)
  show "length pkt = 20 + 4 * length ws"
    using len by (simp add: pkt length_packed)
  show "chunk_words 5 pkt = ?h"
  proof -
    have five: "length ?h = 5" by simp
    show ?thesis
      unfolding pkt five [symmetric] by (rule chunk_words_packed [OF u])
  qed
  show "drop 20 pkt = concat (map (le_bytes 4) ws)"
    by (simp only: pkt drop_append len) (simp add: len)
qed

interpretation ref: ssp_device ref_device ref_regs
proof (unfold_locales, goal_cases)
  case (1 d a)
  then show ?case by (simp add: ref_regs_def)
next
  case (2 a pkt d)
  have "is_u32 CMD_READ" by (simp add: CMD_READ_def is_u32_def)
  note p = ref_device_packet [OF 2(1) this _ _ 2(2)]
  have one: "is_u32 1" by (simp add: is_u32_def)
  have "fst (fst (ref_read d a)) = fst d" "a \<notin> STATUS_REGISTERS \<Longrightarrow> snd (ref_read d a) = fst d a"
    by (auto simp: ref_read_def split: list.splits)
  then show ?case
    using p by - (rule exI [of _ "fst (ref_read d a)"], rule exI [of _ 1],
      rule exI [of _ "uint (snd (ref_read d a))"], simp add: ref_device_def ref_regs_def one case_prod_beta)
next
  case (3 a v pkt d)
  have "is_u32 CMD_WRITE" by (simp add: CMD_WRITE_def is_u32_def)
  note p = ref_device_packet [OF 3(1) this _ _ 3(4)]
  have "le_int (le_bytes 4 v) = v" using 3(2) by (simp add: is_u32_def le_int_bytes)
  then show ?case
    using p 3(2) u32_word_of_int [OF 3(2)]
    by (intro exI [of _ "((fst d)(a := word_of_int v), snd d)"] exI [of _ 1])
      (simp add: ref_device_def ref_regs_def is_u32_def CMD_READ_def CMD_WRITE_def)
qed

end
