(* ===== verification/Ssp_Safety.thy ===== *)
theory Ssp_Safety
  imports Ssp_Control Ssp_Client
begin

unbundle bit_operations_syntax

text \<open>
  What the SSP control sequences achieve on the hardware registers. The facts about the lists of
  writes (values fit a 32-bit word, which register holds what at the end) are combined with the
  register contract \<open>register_client\<close> of the client, so they hold for the byte-level \<open>SSPClient\<close>
  on every device that satisfies \<open>ssp_device\<close>.
\<close>

section \<open>Register values fit their words\<close>

lemma bias_reg_val_u32: "led_valid v \<Longrightarrow> is_u32 (bias_reg_val v i)"
  by (auto simp: led_valid_def bias_reg_val_def is_u32_def)

lemma timing_reg_val_arith:
  "timing_reg_val v = (if mode v = ''single'' then 0xF0000000 else 0x90000000)
     + width1 v + 256 * width2 v + 65536 * delay v"
  by (simp add: timing_reg_val_def push_bit_eq_mult)

lemma timing_reg_val_u32: "led_valid v \<Longrightarrow> is_u32 (timing_reg_val v)"
  by (auto simp: led_valid_def timing_reg_val_arith is_u32_def)

lemma not_status: "a \<notin> STATUS_REGISTERS \<longleftrightarrow> a \<noteq> 0x800004C4 \<and> a \<noteq> 0x80000504 \<and> a \<noteq> 0x80000020"
  by (auto simp: STATUS_REGISTERS_def address_defs)

lemma channel_plan_ok:
  "led_valid v \<Longrightarrow> 0 \<le> i \<Longrightarrow> i < 12 \<Longrightarrow> list_all write_ok (channel_plan v i)"
  using bias_reg_val_u32 [of v i] timing_reg_val_u32 [of v]
  by (auto simp: channel_plan_def write_ok_def base_bias_addr_def base_timing_addr_def is_u32_def not_status)

lemma pdts_block_ok: "list_all write_ok pdts_block_plan"
  by (auto simp: pdts_block_plan_def write_ok_def is_u32_def address_defs list_all_iff not_status)

lemma pulser_plan_ok: "led_valid v \<Longrightarrow> list_all write_ok (pulser_plan v)"
proof -
  assume v: "led_valid v"
  have "\<forall>i \<in> set (py_range (nat (nch v))). list_all write_ok (channel_plan v i)"
    using v by (auto intro!: channel_plan_ok simp: led_valid_def)
  then have "list_all write_ok (concat (map (channel_plan v) (py_range (nat (nch v)))))"
    by (auto simp: list_all_iff)
  moreover have "is_u32 (if mode v = ''single'' then 1 else burst v)"
    using v by (simp add: led_valid_def is_u32_def)
  ultimately show ?thesis
    by (simp add: pulser_plan_def write_ok_def is_u32_def address_defs not_status)
qed

lemma configure_plan_ok:
  "led_valid v \<Longrightarrow> (\<And>m. mid = Some m \<Longrightarrow> is_u32 m) \<Longrightarrow> list_all write_ok (configure_plan mid v)"
  by (auto simp: configure_plan_def pdts_block_ok pulser_plan_ok write_ok_def MODULE_ID_def is_u32_def not_status
      split: option.split)

lemma stop_plan_ok: "list_all write_ok stop_plan"
  by (auto simp: stop_plan_def write_ok_def is_u32_def address_defs list_all_iff not_status)

section \<open>Which register holds what\<close>

lemma channel_plan_addrs:
  "fst ` set (channel_plan v i) \<subseteq>
     {base_bias_addr v + 4 * i, base_timing_addr v + 4 * i} \<union> (if i = 7 then {base_bias_addr v + 24} else {})"
  by (auto simp: channel_plan_def)

lemma base_cases:
  "(base_bias_addr v = 0x4000035C \<and> base_timing_addr v = 0x800003DC) \<or>
   (base_bias_addr v = 0x40000340 \<and> base_timing_addr v = 0x800003C0)"
  by (simp add: base_bias_addr_def base_timing_addr_def)

lemma plan_addrs_other:
  assumes "\<And>i. i \<in> set is \<Longrightarrow> a \<noteq> base_bias_addr v + 4 * i \<and> a \<noteq> base_timing_addr v + 4 * i
      \<and> (i = 7 \<longrightarrow> a \<noteq> base_bias_addr v + 24)"
  shows "apply_writes (concat (map (channel_plan v) is)) f a = f a"
proof (rule apply_writes_other)
  have "a \<notin> fst ` set (channel_plan v i)" if "i \<in> set is" for i
    using assms [OF that] channel_plan_addrs [of v i] by (auto split: if_splits)
  then show "a \<notin> fst ` set (concat (map (channel_plan v) is))"
    by auto
qed

lemma py_range_split: "k < n \<Longrightarrow> py_range n = py_range k @ [int k] @ map int [Suc k..<n]"
proof -
  assume "k < n"
  then have "[0..<n] = [0..<k] @ [k] @ [Suc k..<n]"
    using upt_add_eq_append [of 0 k "n - k"] upt_conv_Cons [of k n] by simp
  then show ?thesis by (simp only: py_range_def map_append) simp
qed

definition bias_final :: "led_run \<Rightarrow> int \<Rightarrow> int" where
  "bias_final v i =
     (if channel_on v i then bias_reg_val v i
      else if i = 6 \<and> nch v = 12 \<and> channel_on v 7 then bias_reg_val v 7
      else 0)"

definition timing_final :: "led_run \<Rightarrow> int \<Rightarrow> int" where
  "timing_final v i = (if channel_on v i then timing_reg_val v else 0)"

lemma timing_register:
  assumes "k < n" "n \<le> 12"
  shows "apply_writes (concat (map (channel_plan v) (py_range n))) f (base_timing_addr v + 4 * int k)
      = timing_final v (int k)"
proof -
  let ?a = "base_timing_addr v + 4 * int k"
  have later: "apply_writes (concat (map (channel_plan v) (map int [Suc k..<n]))) g ?a = g ?a" for g
    using assms base_cases [of v] by (intro plan_addrs_other) auto
  have "apply_writes (channel_plan v (int k)) g ?a = timing_final v (int k)" for g
    using assms base_cases [of v] by (auto simp: channel_plan_def timing_final_def)
  then show ?thesis
    using later by (simp add: py_range_split [OF assms(1)])
qed

lemma bias_register_plain:
  assumes "k < n" "n \<le> 12" "k \<noteq> 6 \<or> n \<le> 7"
  shows "apply_writes (concat (map (channel_plan v) (py_range n))) f (base_bias_addr v + 4 * int k)
      = (if channel_on v (int k) then bias_reg_val v (int k) else 0)"
proof -
  let ?a = "base_bias_addr v + 4 * int k"
  have later: "apply_writes (concat (map (channel_plan v) (map int [Suc k..<n]))) g ?a = g ?a" for g
    using assms base_cases [of v] by (intro plan_addrs_other) auto
  have "apply_writes (channel_plan v (int k)) g ?a =
      (if channel_on v (int k) then bias_reg_val v (int k) else 0)" for g
    using assms base_cases [of v] by (auto simp: channel_plan_def)
  then show ?thesis
    using later by (simp add: py_range_split [OF assms(1)])
qed

lemma bias_register_6:
  assumes "7 < n" "n \<le> 12"
  shows "apply_writes (concat (map (channel_plan v) (py_range n))) f (base_bias_addr v + 24)
      = (if channel_on v 6 then bias_reg_val v 6 else if channel_on v 7 then bias_reg_val v 7 else 0)"
proof -
  let ?a = "base_bias_addr v + 24"
  have later: "apply_writes (concat (map (channel_plan v) (map int [Suc 7..<n]))) g ?a = g ?a" for g
    using assms base_cases [of v] by (intro plan_addrs_other) auto
  have six: "apply_writes (concat (map (channel_plan v) (py_range 7))) g ?a =
      (if channel_on v 6 then bias_reg_val v 6 else 0)" for g
    using bias_register_plain [of 6 7 v g] by simp
  have "apply_writes (channel_plan v 7) g ?a =
      (if channel_on v 7 \<and> \<not> channel_on v 6 then bias_reg_val v 7 else g ?a)" for g
    using base_cases [of v] by (auto simp: channel_plan_def)
  then show ?thesis
    using later six by (simp add: py_range_split [of 7 n] assms)
qed

lemma bias_register:
  assumes "led_valid v" "0 \<le> i" "i < nch v"
  shows "apply_writes (concat (map (channel_plan v) (py_range (nat (nch v))))) f (base_bias_addr v + 4 * i)
      = bias_final v i"
proof -
  obtain k where k: "i = int k" using assms(2) nonneg_int_cases by blast
  consider "nch v = 5" | "nch v = 12" using assms(1) by (auto simp: led_valid_def)
  then show ?thesis
  proof cases
    case 1
    then show ?thesis
      using assms k bias_register_plain [of k 5 v f] by (simp add: bias_final_def)
  next
    case 2
    then show ?thesis
      using assms k bias_register_plain [of k 12 v f] bias_register_6 [of 12 v f]
      by (cases "k = 6") (simp_all add: bias_final_def)
  qed
qed

lemma channel_addr_ranges:
  assumes "led_valid v" "0 \<le> i" "i < nch v"
  shows "base_bias_addr v + 4 * i \<notin> {BIAS_CONTROL, CAL_COUNT, PDTS_CONTROL, DP_CLOCK_CONTROL}"
    and "base_timing_addr v + 4 * i \<notin> {BIAS_CONTROL, CAL_COUNT, PDTS_CONTROL, DP_CLOCK_CONTROL}"
    and "base_bias_addr v + 4 * i \<notin> STATUS_REGISTERS" "base_timing_addr v + 4 * i \<notin> STATUS_REGISTERS"
  using assms base_cases [of v] by (auto simp: led_valid_def address_defs not_status)

lemma configure_plan_registers:
  assumes "led_valid v" "0 \<le> i" "i < nch v"
  shows "apply_writes (configure_plan mid v) f (base_bias_addr v + 4 * i) = bias_final v i"
    and "apply_writes (configure_plan mid v) f (base_timing_addr v + 4 * i) = timing_final v i"
proof -
  obtain k where k: "i = int k" using assms(2) nonneg_int_cases by blast
  then have "k < nat (nch v)" "nat (nch v) \<le> 12" using assms by (auto simp: led_valid_def)
  then show "apply_writes (configure_plan mid v) f (base_timing_addr v + 4 * i) = timing_final v i"
    using channel_addr_ranges [OF assms] k
    by (simp add: configure_plan_def pulser_plan_def timing_register)
  show "apply_writes (configure_plan mid v) f (base_bias_addr v + 4 * i) = bias_final v i"
    using channel_addr_ranges [OF assms]
    by (simp add: configure_plan_def pulser_plan_def bias_register [OF assms])
qed

lemma configure_plan_cal_count:
  assumes "led_valid v"
  shows "apply_writes (configure_plan mid v) f CAL_COUNT = (if mode v = ''single'' then 1 else burst v)"
proof -
  have "apply_writes (concat (map (channel_plan v) (py_range (nat (nch v))))) g CAL_COUNT = g CAL_COUNT" for g
    using assms base_cases [of v]
    by (intro plan_addrs_other) (auto simp: led_valid_def address_defs)
  then show ?thesis
    by (simp add: configure_plan_def pulser_plan_def address_defs)
qed

lemma stop_plan_registers:
  assumes "a \<in> (\<lambda>i. 0x40000340 + 4 * i) ` {0..<12} \<union> (\<lambda>i. 0x800003C0 + 4 * i) ` {0..<12 :: int}"
  shows "apply_writes stop_plan f a = 0"
proof -
  have zero: "apply_writes ws g a = 0"
    if "a \<in> fst ` set ws" "\<And>w. w \<in> set ws \<Longrightarrow> fst (snd w) = 0" for ws g
    using that
  proof (induction ws arbitrary: g)
    case (Cons w ws)
    obtain b c vf l where w: "w = (b, c, vf, l)" by (cases w) auto
    with Cons.prems have "c = 0" by force
    show ?case
    proof (cases "a \<in> fst ` set ws")
      case True
      then show ?thesis using Cons w by simp
    next
      case False
      then have "b = a" using Cons.prems w by auto
      then show ?thesis using False w \<open>c = 0\<close> by (simp add: apply_writes_other)
    qed
  qed simp
  have "a \<noteq> BIAS_CONTROL" using assms by (auto simp: address_defs)
  moreover have "apply_writes (concat (map (\<lambda>i. [(0x40000340 + 0x4 * i, 0, True, ''bias_config_'' @ int_to_str i),
      (0x800003C0 + 0x4 * i, 0, True, ''cal_config_'' @ int_to_str i)]) (py_range 12))) f a = 0"
    by (rule zero) (use assms in \<open>force+\<close>)
  ultimately show ?thesis by (simp add: stop_plan_def)
qed

section \<open>Synchronising with PDTS\<close>

lemma wait_running_last_status:
  "wait_running client n s = (Inr (), t) \<Longrightarrow>
     \<exists>u status w. c_read client PDTS_STATUS u = (Inr status, w) \<and> status AND 0xF = 0x8
       \<and> t = w\<lparr>log := log w @ [Line ''PDTS running:'' [status]]\<rparr>"
proof (induction n arbitrary: s)
  case (Suc n)
  then obtain status w where r: "c_read client PDTS_STATUS s = (Inr status, w)"
    by (auto simp: py_ok)
  with Suc show ?case
    by (cases "status AND 0xF = 0x8") (auto simp: py_ok emit_def)
qed (simp add: py_ok)

lemma pdts_addresses_u32:
  "is_u32 PDTS_STATUS" "is_u32 PDTS_CONTROL" "is_u32 DP_CLOCK_CONTROL"
  "is_u32 MASTER_LOGIC_CONTROL" "is_u32 MASTER_LOGIC_STATUS"
  by (simp_all add: is_u32_def address_defs)

lemma pdts_latched:
  "PDTS_CONTROL \<notin> NON_LATCHED_REGISTERS" "DP_CLOCK_CONTROL \<notin> NON_LATCHED_REGISTERS"
  "MASTER_LOGIC_CONTROL \<notin> NON_LATCHED_REGISTERS"
  by (simp_all add: address_defs NON_LATCHED_REGISTERS_def)

lemma pdts_status_registers:
  "PDTS_STATUS \<in> STATUS_REGISTERS" "MASTER_LOGIC_STATUS \<in> STATUS_REGISTERS"
  by (simp_all add: STATUS_REGISTERS_def)

lemma pdts_control_registers:
  "PDTS_CONTROL \<notin> STATUS_REGISTERS" "DP_CLOCK_CONTROL \<notin> STATUS_REGISTERS"
  "MASTER_LOGIC_CONTROL \<notin> STATUS_REGISTERS" "CAL_COUNT \<notin> STATUS_REGISTERS"
  by (simp_all add: address_defs STATUS_REGISTERS_def)

lemmas pdts_access = pdts_addresses_u32 pdts_latched pdts_control_registers

lemma pdts_distinct [simp]:
  "PDTS_CONTROL \<noteq> DP_CLOCK_CONTROL" "DP_CLOCK_CONTROL \<noteq> PDTS_CONTROL"
  by (simp_all add: address_defs)

definition after_attempt :: "int \<Rightarrow> int \<Rightarrow> (int \<Rightarrow> int) \<Rightarrow> int \<Rightarrow> int" where
  "after_attempt part timing g =
     g(DP_CLOCK_CONTROL := 0x31, PDTS_CONTROL := part + timing * 0x10000)"

lemma after_attempt_idem [simp]:
  "after_attempt part timing (after_attempt part timing g) = after_attempt part timing g"
  by (auto simp: after_attempt_def)

text \<open>The numbers printed by the lines with a given text, in order.\<close>

primrec labelled :: "string \<Rightarrow> line list \<Rightarrow> int list list" where
  "labelled lbl [] = []"
| "labelled lbl (l # ls) = (case l of Line t vs \<Rightarrow> if t = lbl then [vs] else []) @ labelled lbl ls"

lemma labelled_append [simp]: "labelled lbl (xs @ ys) = labelled lbl xs @ labelled lbl ys"
  by (induction xs) simp_all

abbreviation "gave_up \<equiv> RuntimeError ''PDTS sync failed after 5 tries''"
abbreviation "not_running \<equiv> RuntimeError ''PDTS did not reach running state 0x8''"

abbreviation "attempt_lbl \<equiv> ''PDTS attempt''"
abbreviation "running_lbl \<equiv> ''PDTS running:''"
abbreviation "waiting_lbl \<equiv> ''Waiting for PDTS running state''"

text \<open>The lines of one attempt that reads the status three times.\<close>

definition attempt_lines :: "int \<Rightarrow> int \<Rightarrow> int \<Rightarrow> int \<Rightarrow> int \<Rightarrow> int \<Rightarrow> line list" where
  "attempt_lines part timing k st1 st2 st3 =
     [write_line DP_CLOCK_CONTROL 0x30 True ''pdts internal clock'',
      write_line PDTS_CONTROL (0x80000000 + part + timing * 0x10000) True ''pdts reset'',
      Line ''PDTS after reset:'' [st1, 0x80000000 + part + timing * 0x10000, 0x30],
      write_line PDTS_CONTROL (part + timing * 0x10000) True ''pdts run'',
      Line ''PDTS after run release:'' [st2, part + timing * 0x10000],
      write_line DP_CLOCK_CONTROL 0x31 True ''pdts external clock'',
      Line ''PDTS attempt'' [k + 1, st3]]"

lemma attempt_lines_labelled:
  "labelled attempt_lbl (attempt_lines part timing k st1 st2 st3) = [[k + 1, st3]]"
  "labelled running_lbl (attempt_lines part timing k st1 st2 st3) = []"
  "labelled waiting_lbl (attempt_lines part timing k st1 st2 st3) = []"
  by (simp_all add: attempt_lines_def write_line_def)

text \<open>The attempts of the loop over \<open>ks\<close>: each prints its number, and the first locked status ends it.\<close>

fun attempts_done :: "int list \<Rightarrow> int list list \<Rightarrow> unit result \<Rightarrow> bool" where
  "attempts_done [] tries r \<longleftrightarrow> tries = [] \<and> r = Inl gave_up"
| "attempts_done (k # ks) [] r \<longleftrightarrow> False"
| "attempts_done (k # ks) (a # tries) r \<longleftrightarrow> hd a = k + 1 \<and>
     (if locked_nibble (a ! 1) then tries = [] \<and> r = Inr () else attempts_done ks tries r)"

lemma attempts_done_numbers:
  "attempts_done ks tries r \<Longrightarrow>
     map hd tries = map (\<lambda>k. k + 1) (take (length tries) ks) \<and> length tries \<le> length ks"
  by (induction ks tries r rule: attempts_done.induct) (auto split: if_splits)

lemma attempts_done_unlocked:
  "attempts_done ks tries r \<Longrightarrow> \<forall>a \<in> set (butlast tries). \<not> locked_nibble (a ! 1)"
  by (induction ks tries r rule: attempts_done.induct) (auto split: if_splits)

lemma attempts_done_result:
  "attempts_done (k # ks) tries r \<Longrightarrow> tries \<noteq> []
     \<and> (if locked_nibble (last tries ! 1) then r = Inr () else r = Inl gave_up \<and> length tries = Suc (length ks))"
proof (induction ks arbitrary: k tries)
  case Nil
  then show ?case by (cases tries) (simp_all split: if_splits)
next
  case (Cons k' ks)
  then obtain a rest where tries: "tries = a # rest" by (cases tries) simp_all
  show ?case
  proof (cases "locked_nibble (a ! 1)")
    case True
    then show ?thesis using Cons.prems by (simp add: tries)
  next
    case False
    then have "attempts_done (k' # ks) rest r" using Cons.prems by (simp add: tries)
    from Cons.IH [OF this] show ?thesis by (simp add: tries)
  qed
qed

text \<open>What the printed lines of a whole synchronisation say about its result.\<close>

definition sync_trace :: "unit result \<Rightarrow> line list \<Rightarrow> bool" where
  "sync_trace r ls \<longleftrightarrow>
     (let tries = labelled attempt_lbl ls; waits = labelled waiting_lbl ls; runs = labelled running_lbl ls in
        map hd tries = map int [1..<Suc (length tries)] \<and> length tries \<le> 5
      \<and> (\<forall>a \<in> set (butlast tries). \<not> locked_nibble (a ! 1))
      \<and> (r = Inl gave_up \<longleftrightarrow> length tries = 5 \<and> \<not> locked_nibble (last tries ! 1))
      \<and> length waits \<le> 3 \<and> (\<forall>w \<in> set waits. hd w AND 0xF \<noteq> 0x8)
      \<and> (r = Inl not_running \<longleftrightarrow> length waits = 3)
      \<and> (r = Inr () \<longleftrightarrow> (\<exists>status. runs = [[status]] \<and> status AND 0xF = 0x8))
      \<and> r \<in> {Inr (), Inl gave_up, Inl not_running})"

context register_client
begin

lemmas sync_wp = wp wp_status [OF pdts_status_registers(1)] wp_status [OF pdts_status_registers(2)]

lemma sync_attempt_wp:
  assumes "0 \<le> part" "part \<le> 3" "0 \<le> timing" "timing \<le> 255"
  shows "triple ready (seen regs) (\<lambda>g. \<forall>st1 st2 st3. Q st3 (after_attempt part timing (fst g),
      snd g @ attempt_lines part timing k st1 st2 st3)) (sync_attempt client part timing k) Q"
proof -
  have u: "is_u32 0x30" "is_u32 0x31" "is_u32 (0x80000000 + part + timing * 0x10000)"
      "is_u32 (part + timing * 0x10000)"
    using assms by (simp_all add: is_u32_def)
  show ?thesis
    unfolding sync_attempt_def Let_def
    by (rule triple_weaken, (rule sync_wp pdts_access u)+)
       (simp add: after_attempt_def attempt_lines_def fun_upd_twist)
qed

lemma sync_attempt_run:
  assumes "0 \<le> part" "part \<le> 3" "0 \<le> timing" "timing \<le> 255" "ready s"
  shows "\<exists>t st1 st2 st3. sync_attempt client part timing k s = (Inr st3, t) \<and> ready t
    \<and> regs t = after_attempt part timing (regs s)
    \<and> log t = log s @ attempt_lines part timing k st1 st2 st3"
  using tripleD [OF sync_attempt_wp [OF assms(1-4), where k = k
      and Q = "\<lambda>a g. \<exists>st1 st2. fst g = after_attempt part timing (regs s)
        \<and> snd g = log s @ attempt_lines part timing k st1 st2 a"] assms(5)]
  by (auto simp: seen_def)

lemma sync_attempts_run:
  assumes "0 \<le> part" "part \<le> 3" "0 \<le> timing" "timing \<le> 255" "ready s"
  shows "\<exists>r t ls. sync_attempts client part timing ks s = (r, t) \<and> ready t \<and> log t = log s @ ls
    \<and> regs t = (if ks = [] then regs s else after_attempt part timing (regs s))
    \<and> attempts_done ks (labelled attempt_lbl ls) r
    \<and> labelled running_lbl ls = [] \<and> labelled waiting_lbl ls = []"
  using assms(5)
proof (induction ks arbitrary: s)
  case Nil
  then show ?case by (simp add: m_raise_def)
next
  case (Cons k ks)
  obtain t st1 st2 st3 where t: "sync_attempt client part timing k s = (Inr st3, t)" "ready t"
      "regs t = after_attempt part timing (regs s)"
      "log t = log s @ attempt_lines part timing k st1 st2 st3"
    using sync_attempt_run [OF assms(1-4) Cons.prems, of k] by blast
  show ?case
  proof (cases "locked_nibble st3")
    case True
    then show ?thesis
      using t by (simp add: m_bind_def m_ret_def attempt_lines_labelled)
  next
    case False
    obtain r u ls where u: "sync_attempts client part timing ks t = (r, u)" "ready u" "log u = log t @ ls"
        "regs u = (if ks = [] then regs t else after_attempt part timing (regs t))"
        "attempts_done ks (labelled attempt_lbl ls) r" "labelled running_lbl ls = []" "labelled waiting_lbl ls = []"
      using Cons.IH [OF t(2)] by blast
    have "sync_attempts client part timing (k # ks) s = (r, u)"
      using t(1) u(1) False by (simp add: m_bind_def)
    then show ?thesis
      using t u False
      by (intro exI [of _ r] exI [of _ u] exI [of _ "attempt_lines part timing k st1 st2 st3 @ ls"])
         (simp add: attempt_lines_labelled)
  qed
qed

lemma wait_running_run:
  assumes "ready s"
  shows "\<exists>r t ls. wait_running client n s = (r, t) \<and> ready t \<and> regs t = regs s \<and> log t = log s @ ls
    \<and> labelled attempt_lbl ls = [] \<and> (\<forall>w \<in> set (labelled waiting_lbl ls). hd w AND 0xF \<noteq> 0x8)
    \<and> ((r = Inr () \<and> length (labelled waiting_lbl ls) < n
          \<and> (\<exists>status. labelled running_lbl ls = [[status]] \<and> status AND 0xF = 0x8))
       \<or> (r = Inl not_running \<and> length (labelled waiting_lbl ls) = n \<and> labelled running_lbl ls = []))"
  using assms
proof (induction n arbitrary: s)
  case 0
  then show ?case by (simp add: m_raise_def)
next
  case (Suc n)
  obtain st t where t: "c_read client PDTS_STATUS s = (Inr st, t)" "ready t" "regs t = regs s" "log t = log s"
    using status_spec [OF Suc.prems pdts_status_registers(1)] by blast
  show ?case
  proof (cases "st AND 0xF = 0x8")
    case True
    then show ?thesis
      using t by (simp add: m_bind_def emit_def m_modify_def regs_log ready_log)
  next
    case False
    let ?w = "Line ''Waiting for PDTS running state'' [st]"
    let ?t = "t\<lparr>log := log t @ [?w]\<rparr>"
    have "ready ?t" using t(2) by (simp add: ready_log)
    then obtain r u ls where u: "wait_running client n ?t = (r, u)" "ready u" "regs u = regs t"
        "log u = log s @ [?w] @ ls" "labelled attempt_lbl ls = []"
        "\<forall>w \<in> set (labelled waiting_lbl ls). hd w AND 0xF \<noteq> 0x8"
        "(r = Inr () \<and> length (labelled waiting_lbl ls) < n
            \<and> (\<exists>status. labelled running_lbl ls = [[status]] \<and> status AND 0xF = 0x8))
         \<or> (r = Inl not_running \<and> length (labelled waiting_lbl ls) = n \<and> labelled running_lbl ls = [])"
      using Suc.IH [of ?t] t(4) by (auto simp: regs_log)
    have "wait_running client (Suc n) s = (r, u)"
      using t(1) u(1) False by (simp add: m_bind_def m_then_def emit_def m_modify_def)
    then show ?thesis
      using t u False by (intro exI [of _ r] exI [of _ u] exI [of _ "?w # ls"]) simp
  qed
qed

lemma sync_pdts_run:
  assumes "0 \<le> part" "part \<le> 3" "0 \<le> timing" "timing \<le> 255" "ready s"
  shows "\<exists>r t ls. sync_pdts client part timing s = (r, t) \<and> ready t \<and> log t = log s @ ls \<and> sync_trace r ls
    \<and> (regs t = after_attempt part timing (regs s)
       \<or> regs t = regs s \<and> (\<exists>st. already_synced part timing st (regs s PDTS_CONTROL) (regs s DP_CLOCK_CONTROL)))"
proof -
  let ?pc = "regs s PDTS_CONTROL" and ?dc = "regs s DP_CLOCK_CONTROL"
  obtain st s1 where s1: "c_read client PDTS_STATUS s = (Inr st, s1)" "ready s1" "regs s1 = regs s" "log s1 = log s"
    using status_spec [OF assms(5) pdts_status_registers(1)] by blast
  obtain s2 where s2: "c_read client PDTS_CONTROL s1 = (Inr ?pc, s2)" "ready s2" "regs s2 = regs s" "log s2 = log s"
    using read_spec [OF s1(2) pdts_access(2) pdts_control_registers(1)] s1(3,4) by auto
  obtain s3 where s3: "c_read client DP_CLOCK_CONTROL s2 = (Inr ?dc, s3)" "ready s3" "regs s3 = regs s" "log s3 = log s"
    using read_spec [OF s2(2) pdts_access(3) pdts_control_registers(2)] s2(3,4) by auto
  let ?b = "Line ''PDTS status before sync:'' [st, ?pc, ?dc]"
  show ?thesis
  proof (cases "already_synced part timing st ?pc ?dc")
    case True
    let ?k = "Line ''PDTS already looks synced; skipping reset'' []"
    let ?s4 = "s3\<lparr>log := log s3 @ [?b, ?k]\<rparr>"
    have "ready ?s4" using s3(2) by (simp add: ready_log)
    from wait_running_run [OF this, of 3] obtain r t ls where t: "wait_running client 3 ?s4 = (r, t)" "ready t"
        "regs t = regs s" "log t = log s @ [?b, ?k] @ ls" "labelled attempt_lbl ls = []"
        "\<forall>w \<in> set (labelled waiting_lbl ls). hd w AND 0xF \<noteq> 0x8"
        "(r = Inr () \<and> length (labelled waiting_lbl ls) < 3
            \<and> (\<exists>status. labelled running_lbl ls = [[status]] \<and> status AND 0xF = 0x8))
         \<or> (r = Inl not_running \<and> length (labelled waiting_lbl ls) = 3 \<and> labelled running_lbl ls = [])"
      using s3 by (auto simp: regs_log)
    have "sync_pdts client part timing s = (r, t)"
      using s1(1) s2(1) s3(1) t(1) True
      by (simp add: sync_pdts_def m_then_def m_bind_def emit_def m_modify_def)
    moreover have "sync_trace r ([?b, ?k] @ ls)"
      using t(5-7) by (auto simp: sync_trace_def)
    ultimately show ?thesis
      using t True by (intro exI [of _ r] exI [of _ t] exI [of _ "[?b, ?k] @ ls"]) auto
  next
    case False
    let ?k = "Line ''Syncing PDTS:'' [part, timing]"
    let ?s4 = "s3\<lparr>log := log s3 @ [?b, ?k]\<rparr>"
    have r5: "py_range 5 = [0, 1, 2, 3, 4]" by (simp add: py_range_def eval_nat_numeral)
    have "ready ?s4" using s3(2) by (simp add: ready_log)
    from sync_attempts_run [OF assms(1-4) this, of "py_range 5"]
    obtain q u ls where u: "sync_attempts client part timing (py_range 5) ?s4 = (q, u)" "ready u"
        "log u = log s @ [?b, ?k] @ ls" "regs u = after_attempt part timing (regs s)"
        "attempts_done (py_range 5) (labelled attempt_lbl ls) q"
        "labelled running_lbl ls = []" "labelled waiting_lbl ls = []"
      using s3 by (auto simp: regs_log r5)
    have run: "sync_pdts client part timing s = (case q of Inl e \<Rightarrow> (Inl e, u) | Inr _ \<Rightarrow> wait_running client 3 u)"
      using s1(1) s2(1) s3(1) u(1) False
      by (simp add: sync_pdts_def m_then_def m_bind_def emit_def m_modify_def split: sum.split)
    let ?n = "length (labelled attempt_lbl ls)"
    have len: "?n \<le> 5" and hds: "map hd (labelled attempt_lbl ls) = map (\<lambda>k. k + 1) (take ?n (py_range 5))"
      using attempts_done_numbers [OF u(5)] by (simp_all add: r5)
    have "map int [1..<Suc ?n] = map (\<lambda>k. k + 1) (take ?n (py_range 5))"
      using len by (intro nth_equalityI) (auto simp: py_range_def simp del: upt_Suc)
    with hds have tr: "map hd (labelled attempt_lbl ls) = map int [1..<Suc ?n]" by simp
    note un = attempts_done_unlocked [OF u(5)]
    have res: "labelled attempt_lbl ls \<noteq> []"
      "if locked_nibble (last (labelled attempt_lbl ls) ! 1) then q = Inr () else q = Inl gave_up \<and> ?n = 5"
      using attempts_done_result [of 0 "[1, 2, 3, 4]" "labelled attempt_lbl ls" q] u(5) by (auto simp only: r5) simp_all
    show ?thesis
    proof (cases "locked_nibble (last (labelled attempt_lbl ls) ! 1)")
      case lock: True
      then have q: "q = Inr ()" using res(2) by simp
      obtain r t ms where t: "wait_running client 3 u = (r, t)" "ready t"
          "regs t = regs u" "log t = log u @ ms" "labelled attempt_lbl ms = []"
          "\<forall>w \<in> set (labelled waiting_lbl ms). hd w AND 0xF \<noteq> 0x8"
          "(r = Inr () \<and> length (labelled waiting_lbl ms) < 3
              \<and> (\<exists>status. labelled running_lbl ms = [[status]] \<and> status AND 0xF = 0x8))
           \<or> (r = Inl not_running \<and> length (labelled waiting_lbl ms) = 3 \<and> labelled running_lbl ms = [])"
        using wait_running_run [OF u(2), of 3] by blast
      have "sync_trace r ([?b, ?k] @ ls @ ms)"
        using t(5-7) tr len un lock u(6,7) by (auto simp: sync_trace_def simp del: upt_Suc)
      then show ?thesis
        using run q t u by (intro exI [of _ r] exI [of _ t] exI [of _ "[?b, ?k] @ ls @ ms"]) auto
    next
      case lock: False
      then have q: "q = Inl gave_up" using res(2) by simp
      have "sync_trace (Inl gave_up) ([?b, ?k] @ ls)"
        using tr len un res lock u(6,7) by (auto simp: sync_trace_def simp del: upt_Suc)
      then show ?thesis
        using run q u by (intro exI [of _ q] exI [of _ u] exI [of _ "[?b, ?k] @ ls"]) auto
    qed
  qed
qed

lemma master_logic_wp:
  assumes "\<And>a. is_u32 (g0 a)"
  shows "triple ready (seen regs) (\<lambda>g. fst g = g0) (pulse_master_logic_reset client)
    (\<lambda>_ g. fst g = g0(MASTER_LOGIC_CONTROL := 0x41))"
proof -
  let ?c = "g0 MASTER_LOGIC_CONTROL AND NOT 0x101"
  have "0 \<le> ?c" using assms [of MASTER_LOGIC_CONTROL] by (simp add: is_u32_def)
  moreover have "?c \<le> g0 MASTER_LOGIC_CONTROL"
    using assms [of MASTER_LOGIC_CONTROL] by (intro AND_upper1) (simp add: is_u32_def)
  ultimately have u: "is_u32 ?c" using assms [of MASTER_LOGIC_CONTROL] by (simp add: is_u32_def)
  have u41: "is_u32 0x41" by (simp add: is_u32_def)
  have body: "triple ready (seen regs) (\<lambda>g. fst g = g0)
    (m_then (emit (Line ''Master logic before pulse:'' [g0 MASTER_LOGIC_CONTROL]))
     (m_then (write_and_log client MASTER_LOGIC_CONTROL ?c True ''master_logic clear reset bits'')
     (m_then (write_and_log client MASTER_LOGIC_CONTROL 0x41 True ''master_logic start'')
     (m_bind (c_read client MASTER_LOGIC_STATUS) (\<lambda>status.
      m_bind (c_read client PDTS_STATUS) (\<lambda>pdts_status.
      m_bind (c_read client MASTER_LOGIC_CONTROL) (\<lambda>control.
      emit (Line ''Master logic after pulse:'' [control, status, pdts_status]))))))))
    (\<lambda>_ g. fst g = g0(MASTER_LOGIC_CONTROL := 0x41))"
    by (rule triple_weaken, (rule sync_wp pdts_access u u41)+) simp
  show ?thesis
    unfolding pulse_master_logic_reset_def Let_def triple_def
    using read_spec [OF _ pdts_access(4) pdts_control_registers(3)] tripleD [OF body]
    by (fastforce simp: m_bind_def seen_def)
qed

end

section \<open>Lifting to the byte-level client\<close>

context ssp_device
begin

lemma dev_channel_registers:
  assumes "led_valid v" "0 \<le> i" "i < nch v"
  shows "control_view (dregs d) (base_bias_addr v + 4 * i) = dregs d (base_bias_addr v + 4 * i)"
    and "control_view (dregs d) (base_timing_addr v + 4 * i) = dregs d (base_timing_addr v + 4 * i)"
    and "base_bias_addr v + 4 * i \<notin> NON_LATCHED_REGISTERS" "base_timing_addr v + 4 * i \<notin> NON_LATCHED_REGISTERS"
  using channel_addr_ranges [OF assms] by (auto simp: control_view_def NON_LATCHED_REGISTERS_def)

lemma dev_configure_writes:
  assumes "idle s" "led_valid v" "\<And>m. mid = Some m \<Longrightarrow> is_u32 m"
  shows "\<exists>t. run_writes (ssp_client_of device) (configure_plan mid v) s = (Inr (), t) \<and> idle t
    \<and> dregs (peer t) CAL_COUNT = (if mode v = ''single'' then 1 else burst v)
    \<and> (\<forall>i. 0 \<le> i \<and> i < nch v \<longrightarrow>
          dregs (peer t) (base_bias_addr v + 4 * i) = bias_final v i
        \<and> dregs (peer t) (base_timing_addr v + 4 * i) = timing_final v i)"
proof -
  obtain t where t: "run_writes (ssp_client_of device) (configure_plan mid v) s = (Inr (), t)" "idle t"
      "\<forall>a. a \<notin> NON_LATCHED_REGISTERS \<longrightarrow>
        control_view (dregs (peer t)) a = apply_writes (configure_plan mid v) (control_view (dregs (peer s))) a"
    using bus.run_writes_spec [OF assms(1) configure_plan_ok [OF assms(2)]] assms(3) by blast
  have c: "CAL_COUNT \<notin> NON_LATCHED_REGISTERS" "CAL_COUNT \<notin> STATUS_REGISTERS"
    by (simp_all add: NON_LATCHED_REGISTERS_def address_defs not_status)
  have "dregs (peer t) CAL_COUNT = control_view (dregs (peer t)) CAL_COUNT"
    using c(2) by (simp add: control_view_def)
  then have "dregs (peer t) CAL_COUNT = (if mode v = ''single'' then 1 else burst v)"
    using t(3) c(1) configure_plan_cal_count [OF assms(2)] by simp
  moreover have "dregs (peer t) (base_bias_addr v + 4 * i) = bias_final v i"
      "dregs (peer t) (base_timing_addr v + 4 * i) = timing_final v i" if "0 \<le> i" "i < nch v" for i
    using t(3) dev_channel_registers(1,2) [OF assms(2) that, of "peer t"]
      dev_channel_registers(3,4) [OF assms(2) that] configure_plan_registers [OF assms(2) that]
    by (metis (no_types))+
  ultimately show ?thesis using t by blast
qed

lemma dev_sync:
  assumes "idle s" "0 \<le> part" "part \<le> 3" "0 \<le> timing" "timing \<le> 255"
  shows "\<exists>r t ls. sync_pdts (ssp_client_of device) part timing s = (r, t) \<and> idle t \<and> log t = log s @ ls
    \<and> sync_trace r ls
    \<and> dregs (peer t) PDTS_CONTROL AND 0x3 = part
    \<and> drop_bit 16 (dregs (peer t) PDTS_CONTROL) AND 0xFF = timing
    \<and> dregs (peer t) DP_CLOCK_CONTROL AND 0xF = 0x1
    \<and> (\<forall>a. a \<notin> STATUS_REGISTERS \<union> {PDTS_CONTROL, DP_CLOCK_CONTROL} \<longrightarrow> dregs (peer t) a = dregs (peer s) a)"
proof -
  have m: "part + timing * 65536 AND 3 = part"
    using and_mask_mod [of "part + timing * 65536" 2] assms by (simp add: mod_add_eq [symmetric])
  have d: "drop_bit 16 (part + timing * 65536) = timing"
    using assms by (simp add: drop_bit_eq_div)
  have w: "timing AND 255 = timing"
    using and_mask_mod [of timing 8] assms by simp
  obtain r t ls where t: "sync_pdts (ssp_client_of device) part timing s = (r, t)" "idle t" "log t = log s @ ls"
      "sync_trace r ls"
      "control_view (dregs (peer t)) = after_attempt part timing (control_view (dregs (peer s)))
       \<or> control_view (dregs (peer t)) = control_view (dregs (peer s))
         \<and> (\<exists>st. already_synced part timing st (control_view (dregs (peer s)) PDTS_CONTROL)
                  (control_view (dregs (peer s)) DP_CLOCK_CONTROL))"
    using bus.sync_pdts_run [OF assms(2-5,1)] by blast
  have cv: "a \<notin> STATUS_REGISTERS \<Longrightarrow> dregs p a = control_view (dregs p) a" for p a
    by (simp add: control_view_def)
  have "dregs (peer t) a = dregs (peer s) a"
    if "a \<notin> STATUS_REGISTERS \<union> {PDTS_CONTROL, DP_CLOCK_CONTROL}" for a
    using t(5) that cv by (auto simp: after_attempt_def)
  moreover have "dregs (peer t) PDTS_CONTROL AND 0x3 = part"
      "drop_bit 16 (dregs (peer t) PDTS_CONTROL) AND 0xFF = timing" "dregs (peer t) DP_CLOCK_CONTROL AND 0xF = 0x1"
    unfolding cv [OF pdts_control_registers(1)] cv [OF pdts_control_registers(2)]
    using t(5) by (auto simp: already_synced_def after_attempt_def m d w)
  ultimately show ?thesis using t(1-4) by blast
qed

lemma dev_configure_run:
  assumes "idle s" "validate_config cfg = Inr ()" and "\<And>m. module_id cfg = Some m \<Longrightarrow> is_u32 m"
  shows "\<exists>v r t. led_view cfg = Inr v \<and> configure_run (ssp_client_of device) cfg s = (r, t) \<and> idle t
    \<and> (r = Inr () \<longrightarrow> dregs (peer t) CAL_COUNT = (if mode v = ''single'' then 1 else burst v)
        \<and> (\<forall>i. 0 \<le> i \<and> i < nch v \<longrightarrow>
              dregs (peer t) (base_bias_addr v + 4 * i) = bias_final v i
            \<and> dregs (peer t) (base_timing_addr v + 4 * i) = timing_final v i))
    \<and> (r \<noteq> Inr () \<longrightarrow> pdts_sync cfg \<and> r \<in> {Inl gave_up, Inl not_running}
        \<and> (\<forall>i. 0 \<le> i \<and> i < nch v \<longrightarrow>
              dregs (peer t) (base_bias_addr v + 4 * i) = dregs (peer s) (base_bias_addr v + 4 * i)
            \<and> dregs (peer t) (base_timing_addr v + 4 * i) = dregs (peer s) (base_timing_addr v + 4 * i)))"
proof -
  obtain v where v: "led_view cfg = Inr v" "led_valid v"
    using assms(2) by (auto simp: validate_config_iff)
  show ?thesis
  proof (cases "pdts_sync cfg")
    case False
    then show ?thesis
      using dev_configure_writes [OF assms(1) v(2) assms(3)] v(1)
      by (simp add: configure_run_writes [OF False v(1)])
  next
    case True
    then obtain p q where pq: "partition_number cfg = Some p" "timing_address cfg = Some q"
        "0 \<le> p" "p \<le> 3" "0 \<le> q" "q \<le> 255"
      using assms(2) by (auto simp: validate_config_iff)
    note run = configure_run_sync_writes [OF True pq(1,2) v(1), of "ssp_client_of device"]
    obtain r u ls where u: "sync_pdts (ssp_client_of device) p q s = (r, u)" "idle u" "sync_trace r ls"
        "\<forall>a. a \<notin> STATUS_REGISTERS \<union> {PDTS_CONTROL, DP_CLOCK_CONTROL} \<longrightarrow> dregs (peer u) a = dregs (peer s) a"
      using dev_sync [OF assms(1) pq(3-6)] by blast
    show ?thesis
    proof (cases "r = Inr ()")
      case ok: True
      then show ?thesis
        using dev_configure_writes [OF u(2) v(2) assms(3)] v(1) u(1)
        by (simp add: run m_then_def m_bind_def) fastforce
    next
      case bad: False
      have "r \<in> {Inl gave_up, Inl not_running}" using u(3) bad by (auto simp: sync_trace_def Let_def)
      moreover have "configure_run (ssp_client_of device) cfg s = (r, u)"
        using bad u(1) by (auto simp: run m_then_def m_bind_def split: sum.split)
      ultimately show ?thesis
        using u(2,4) v True bad channel_addr_ranges [OF v(2)] by (intro exI [of _ v] exI [of _ r] exI [of _ u]) auto
    qed
  qed
qed

lemma dev_stop_run:
  assumes "idle s"
  shows "\<exists>t. stop_run (ssp_client_of device) s = (Inr (), t) \<and> idle t
    \<and> (\<forall>v i. led_valid v \<and> 0 \<le> i \<and> i < nch v \<longrightarrow>
          dregs (peer t) (base_bias_addr v + 4 * i) = 0 \<and> dregs (peer t) (base_timing_addr v + 4 * i) = 0)"
proof -
  obtain t where t: "run_writes (ssp_client_of device) stop_plan s = (Inr (), t)" "idle t"
      "\<forall>a. a \<notin> NON_LATCHED_REGISTERS \<longrightarrow>
        control_view (dregs (peer t)) a = apply_writes stop_plan (control_view (dregs (peer s))) a"
    using bus.run_writes_spec [OF assms stop_plan_ok] by blast
  have "dregs (peer t) (base_bias_addr v + 4 * i) = 0 \<and> dregs (peer t) (base_timing_addr v + 4 * i) = 0"
    if v: "led_valid v" "0 \<le> i" "i < nch v" for v i
  proof -
    let ?j = "if nch v = 5 then i + 7 else i"
    have j: "?j \<in> {0..<12}" using v by (auto simp: led_valid_def)
    have a: "base_bias_addr v + 4 * i = 0x40000340 + 4 * ?j" "base_timing_addr v + 4 * i = 0x800003C0 + 4 * ?j"
      by (auto simp: base_bias_addr_def base_timing_addr_def)
    have "apply_writes stop_plan f (base_bias_addr v + 4 * i) = 0"
      "apply_writes stop_plan f (base_timing_addr v + 4 * i) = 0" for f
      using j by (auto simp only: a intro!: stop_plan_registers)
    then show ?thesis using t(3) dev_channel_registers(1,2) [OF v, of "peer t"] dev_channel_registers(3,4) [OF v]
      by (metis (no_types))
  qed
  with t show ?thesis by (intro exI [of _ t]) (auto simp: stop_run_writes)
qed

end

section \<open>Properties\<close>

text \<open>An idle connection to the reference device with register file \<open>m\<close>; its status registers show
  \<open>sts\<close>, one value per read.\<close>

definition idle_world :: "(int \<Rightarrow> 32 word) \<Rightarrow> 32 word list \<Rightarrow> ref_state ssp_world" where
  "idle_world m sts = \<lparr>log = [], peer = (m, sts), inbuf = [], peer_closed = False, sched = [1, 3, 7]\<rparr>"

lemma idle_idle_world [simp]: "idle (idle_world m sts)" "peer (idle_world m sts) = (m, sts)" "log (idle_world m sts) = []"
  by (simp_all add: idle_world_def idle_def)

text \<open>C1: on any device that keeps the register protocol, configuring a validated run whose module id
  (if it has one) fits 32 bits ends with the connection idle in one of two ways. Either it returns, and then
  every channel's bias and timing register holds the value the configuration prescribes: the packed
  value for an enabled channel, zero for a disabled one, and the channel-7 bias on the otherwise disabled
  channel 6 when the workaround applies. Or the configuration asked for PDTS synchronisation and that
  raised one of its two errors; then no bias or timing register has been touched.\<close>

theorem configure_run_registers:
  assumes "ssp_device device dregs" "idle s" "validate_config cfg = Inr ()"
    and "\<And>m. module_id cfg = Some m \<Longrightarrow> is_u32 m"
  shows "\<exists>v r t. led_view cfg = Inr v \<and> configure_run (ssp_client_of device) cfg s = (r, t) \<and> idle t
    \<and> (r = Inr () \<longrightarrow> dregs (peer t) CAL_COUNT = (if mode v = ''single'' then 1 else burst v)
        \<and> (\<forall>i. 0 \<le> i \<and> i < nch v \<longrightarrow>
              dregs (peer t) (base_bias_addr v + 4 * i) = bias_final v i
            \<and> dregs (peer t) (base_timing_addr v + 4 * i) = timing_final v i))
    \<and> (r \<noteq> Inr () \<longrightarrow> pdts_sync cfg \<and> r \<in> {Inl gave_up, Inl not_running}
        \<and> (\<forall>i. 0 \<le> i \<and> i < nch v \<longrightarrow>
              dregs (peer t) (base_bias_addr v + 4 * i) = dregs (peer s) (base_bias_addr v + 4 * i)
            \<and> dregs (peer t) (base_timing_addr v + 4 * i) = dregs (peer s) (base_timing_addr v + 4 * i)))"
  using assms(2-4) by (rule ssp_device.dev_configure_run [OF assms(1)])

theorem configure_run_registers_witness:
  "\<exists>v t. led_view default_config = Inr v
    \<and> configure_run (ssp_client_of ref_device) default_config (idle_world (\<lambda>_. 7) []) = (Inr (), t)
    \<and> ref_regs (peer t) (base_bias_addr v + 4 * 0) = bias_final v 0"
proof -
  have p: "\<not> pdts_sync default_config" "module_id default_config = None"
    by (simp_all add: default_config_def)
  obtain v r t where vt: "led_view default_config = Inr v"
      "configure_run (ssp_client_of ref_device) default_config (idle_world (\<lambda>_. 7) []) = (r, t)"
      "r = Inr () \<longrightarrow> (\<forall>i. 0 \<le> i \<and> i < nch v \<longrightarrow> ref_regs (peer t) (base_bias_addr v + 4 * i) = bias_final v i)"
      "r \<noteq> Inr () \<longrightarrow> pdts_sync default_config"
    using configure_run_registers [OF ref.ssp_device_axioms idle_idle_world(1) [of "\<lambda>_. 7" "[]"]
        default_config_valid] p(2)
    by fastforce
  have "nch v = 12" using vt(1) by (auto simp: led_view_def default_config_def)
  then show ?thesis using vt p(1) by (intro exI [of _ v] exI [of _ t]) auto
qed

text \<open>C2: stopping a run returns and leaves every bias and timing register that any valid
  configuration (5 or 12 channels) can have set at zero.\<close>

theorem stop_run_clears:
  assumes "ssp_device device dregs" "idle s"
  shows "\<exists>t. stop_run (ssp_client_of device) s = (Inr (), t) \<and> idle t
    \<and> (\<forall>v i. led_valid v \<and> 0 \<le> i \<and> i < nch v \<longrightarrow>
          dregs (peer t) (base_bias_addr v + 4 * i) = 0 \<and> dregs (peer t) (base_timing_addr v + 4 * i) = 0)"
  by (rule ssp_device.dev_stop_run [OF assms])

theorem stop_run_clears_witness:
  "\<exists>t. stop_run (ssp_client_of ref_device) (idle_world (\<lambda>_. 0x40FFF) []) = (Inr (), t)
    \<and> ref_regs (peer t) 0x40000358 = 0"
proof -
  define v :: led_run where "v = \<lparr>nch = 12, mask = 1, mode = ''single'', burst = 1, delay = 0, width1 = 5,
     width2 = 0, bias270 = 4000, bias367 = 0\<rparr>"
  have v: "led_valid v" "nch v = 12" "base_bias_addr v = 0x40000340"
    by (simp_all add: v_def led_valid_def base_bias_addr_def)
  show ?thesis
    using stop_run_clears [OF ref.ssp_device_axioms idle_idle_world(1) [of "\<lambda>_. 0x40FFF" "[]"]] v
    by (auto dest!: spec [of _ v] spec [of _ 6])
qed

text \<open>C3: \<open>_recv_exact\<close> does not depend on how the network splits the stream: it returns exactly the
  requested bytes when they have arrived, and otherwise tells a closed peer from a silent one.\<close>

theorem recv_exact_schedule_free:
  "fst (recv_exact n (s\<lparr>sched := sch\<rparr>)) =
     (if n \<le> length (inbuf s) then Inr (take n (inbuf s))
      else Inl (if peer_closed s then ConnectionError ''socket closed while receiving response''
                else TimeoutError ''timed out''))"
proof (cases "n \<le> length (inbuf s)")
  case True
  then show ?thesis using recv_exact_ok [of n "s\<lparr>sched := sch\<rparr>"] by auto
next
  case False
  then show ?thesis
    using recv_loop_short [of "s\<lparr>sched := sch\<rparr>" n "[]"] by (simp add: recv_exact_def)
qed

text \<open>C4: a verified write to a latched register returns only when a read-back over the same
  connection produced exactly the written value, whatever the device does.\<close>

theorem verified_write_read_back:
  assumes "ssp_write device a v True s = (Inr r, t)" "a \<notin> NON_LATCHED_REGISTERS"
  shows "r = Some v \<and> (\<exists>u. ssp_read device a u = (Inr v, t))"
  using assms by (auto simp: ssp_write_def py_ok split: if_splits prod.splits)

theorem verified_write_read_back_witness:
  "\<exists>r t. ssp_write ref_device CAL_COUNT 3 True (idle_world (\<lambda>_. 7) []) = (Inr r, t)
     \<and> r = Some 3 \<and> (\<exists>u. ssp_read ref_device CAL_COUNT u = (Inr 3, t))"
proof -
  have u: "is_u32 CAL_COUNT" "is_u32 3" "CAL_COUNT \<notin> NON_LATCHED_REGISTERS" "CAL_COUNT \<notin> STATUS_REGISTERS"
    by (simp_all add: is_u32_def address_defs NON_LATCHED_REGISTERS_def not_status)
  obtain r t where "ssp_write ref_device CAL_COUNT 3 True (idle_world (\<lambda>_. 7) []) = (Inr r, t)"
    using ref.ssp_write_ok [OF idle_idle_world(1) u(1,2,4)] by blast
  with verified_write_read_back [OF this u(3)] show ?thesis by blast
qed

text \<open>C5: for a validated run the three tick counts and the mode tag are packed into disjoint fields
  of the timing word, so the device can read each of them back, and the word fits 32 bits.\<close>

theorem timing_word_fields:
  assumes "led_valid v"
  shows "timing_reg_val v AND 0xFF = width1 v
    \<and> drop_bit 8 (timing_reg_val v) AND 0xFF = width2 v
    \<and> drop_bit 16 (timing_reg_val v) AND 0xFFF = delay v
    \<and> drop_bit 28 (timing_reg_val v) = (if mode v = ''single'' then 0xF else 0x9)
    \<and> is_u32 (timing_reg_val v)"
proof -
  define m :: int where "m = (if mode v = ''single'' then 0xF else 0x9)"
  have b: "0 \<le> width1 v" "width1 v < 256" "0 \<le> width2 v" "width2 v < 256" "0 \<le> delay v" "delay v < 4096"
    using assms by (auto simp: led_valid_def)
  have val: "timing_reg_val v = width1 v + 256 * (width2 v + 256 * (delay v + 4096 * m))"
    by (simp add: timing_reg_val_arith m_def)
  have p: "(2 :: int) ^ 8 = 256" "(2 :: int) ^ 12 = 4096" by simp_all
  have d8: "timing_reg_val v div 2 ^ 8 = width2 v + 256 * (delay v + 4096 * m)"
    unfolding val p by (rule field_div [OF b(1,2)])
  have "timing_reg_val v div 2 ^ 16 = timing_reg_val v div 2 ^ 8 div 2 ^ 8"
    using div_mult2_eq' [of "timing_reg_val v" "2 ^ 8" "2 ^ 8"] by simp
  also have "\<dots> = delay v + 4096 * m"
    unfolding d8 unfolding p by (rule field_div [OF b(3,4)])
  finally have d16: "timing_reg_val v div 2 ^ 16 = delay v + 4096 * m" .
  have "timing_reg_val v div 2 ^ 28 = timing_reg_val v div 2 ^ 16 div 2 ^ 12"
    using div_mult2_eq' [of "timing_reg_val v" "2 ^ 16" "2 ^ 12"] by simp
  also have "\<dots> = m"
    unfolding d16 unfolding p by (rule field_div [OF b(5,6)])
  finally have d28: "timing_reg_val v div 2 ^ 28 = m" .
  have "timing_reg_val v mod 2 ^ 8 = width1 v"
    unfolding val p by (rule field_mod [OF b(1,2)])
  moreover have "timing_reg_val v div 2 ^ 8 mod 2 ^ 8 = width2 v"
    unfolding d8 unfolding p by (rule field_mod [OF b(3,4)])
  moreover have "timing_reg_val v div 2 ^ 16 mod 2 ^ 12 = delay v"
    unfolding d16 unfolding p by (rule field_mod [OF b(5,6)])
  moreover note d28
  ultimately show ?thesis
    using and_mask_mod [of _ 8] and_mask_mod [of _ 12] timing_reg_val_u32 [OF assms]
    by (simp add: drop_bit_eq_div m_def)
qed

definition burst_run :: led_run where
  "burst_run = \<lparr>nch = 12, mask = 0xC0, mode = ''burst'', burst = 10, delay = 4095, width1 = 255,
     width2 = 17, bias270 = 4095, bias367 = 300\<rparr>"

theorem timing_word_fields_witness:
  "led_valid burst_run \<and> drop_bit 16 (timing_reg_val burst_run) AND 0xFFF = 4095"
proof -
  have "led_valid burst_run" by (simp add: burst_run_def led_valid_def)
  with timing_word_fields [OF this] show ?thesis by (simp add: burst_run_def)
qed

text \<open>\<open>sync_pdts\<close> returns only right after it has read the running state 0x8 from the PDTS status
  register, whatever the device does.\<close>

theorem sync_pdts_returns_running:
  assumes "sync_pdts client part timing s = (Inr (), t)"
  shows "\<exists>u status w. c_read client PDTS_STATUS u = (Inr status, w) \<and> status AND 0xF = 0x8
    \<and> t = w\<lparr>log := log w @ [Line ''PDTS running:'' [status]]\<rparr>"
proof -
  obtain u where "wait_running client 3 u = (Inr (), t)"
    using assms unfolding sync_pdts_def by (auto simp only: py_ok)
  then show ?thesis by (rule wait_running_last_status)
qed

text \<open>C6: on any device that keeps the register protocol, whatever its status registers show,
  \<open>sync_pdts\<close> ends with the connection idle and the control registers carrying the requested partition
  and timing address with the external clock selected, both when the reset sequence ran and when it was
  skipped; no other control register has changed. It returns exactly when it has printed a running status
  (nibble 8), and otherwise raises one of its two errors.\<close>

theorem sync_pdts_programs_endpoint:
  assumes "ssp_device device dregs" "idle s" "0 \<le> part" "part \<le> 3" "0 \<le> timing" "timing \<le> 255"
  shows "\<exists>r t. sync_pdts (ssp_client_of device) part timing s = (r, t) \<and> idle t
    \<and> dregs (peer t) PDTS_CONTROL AND 0x3 = part
    \<and> drop_bit 16 (dregs (peer t) PDTS_CONTROL) AND 0xFF = timing
    \<and> dregs (peer t) DP_CLOCK_CONTROL AND 0xF = 0x1
    \<and> (\<forall>a. a \<notin> STATUS_REGISTERS \<union> {PDTS_CONTROL, DP_CLOCK_CONTROL} \<longrightarrow> dregs (peer t) a = dregs (peer s) a)
    \<and> (r = Inr () \<longleftrightarrow> (\<exists>status. labelled ''PDTS running:'' (drop (length (log s)) (log t)) = [[status]]
          \<and> status AND 0xF = 0x8))
    \<and> (r \<noteq> Inr () \<longrightarrow> r = Inl (RuntimeError ''PDTS sync failed after 5 tries'')
          \<or> r = Inl (RuntimeError ''PDTS did not reach running state 0x8''))"
proof -
  obtain r t ls where t: "sync_pdts (ssp_client_of device) part timing s = (r, t)" "idle t" "log t = log s @ ls"
    "sync_trace r ls" "dregs (peer t) PDTS_CONTROL AND 0x3 = part"
    "drop_bit 16 (dregs (peer t) PDTS_CONTROL) AND 0xFF = timing" "dregs (peer t) DP_CLOCK_CONTROL AND 0xF = 0x1"
    "\<forall>a. a \<notin> STATUS_REGISTERS \<union> {PDTS_CONTROL, DP_CLOCK_CONTROL} \<longrightarrow> dregs (peer t) a = dregs (peer s) a"
    using ssp_device.dev_sync [OF assms] by blast
  have "drop (length (log s)) (log t) = ls" using t(3) by simp
  with t(4) show ?thesis
    using t(1,2,5-8) by (intro exI [of _ r] exI [of _ t]) (auto simp: sync_trace_def Let_def)
qed

text \<open>The endpoint is unlocked before the synchronisation, unlocked after the first attempt and
  running after the second.\<close>

definition locking_status :: "32 word list" where
  "locking_status = [0, 0, 0, 3, 0, 0, 0x8, 0x8]"

theorem sync_pdts_programs_endpoint_witness:
  "\<exists>r t. sync_pdts (ssp_client_of ref_device) 2 0x31 (idle_world (\<lambda>_. 0) locking_status) = (r, t)
    \<and> ref_regs (peer t) PDTS_CONTROL AND 0x3 = 2"
  using sync_pdts_programs_endpoint [OF ref.ssp_device_axioms idle_idle_world(1) [of "\<lambda>_. 0" locking_status], of 2 "0x31"]
  by auto

text \<open>C7: on any device that keeps the register protocol, whatever its status registers show,
  \<open>sync_pdts\<close> makes at most five reset attempts, numbered from 1 and printed with the status each of them
  saw; every attempt but the last saw an unlocked endpoint. It raises the give-up error exactly when there
  were five and the fifth was unlocked too, and the other error exactly when three polls in a row
  (all of them of a status other than running) followed.\<close>

theorem sync_pdts_bounded_retries:
  assumes "ssp_device device dregs" "idle s" "0 \<le> part" "part \<le> 3" "0 \<le> timing" "timing \<le> 255"
  shows "\<exists>r t tries waits. sync_pdts (ssp_client_of device) part timing s = (r, t) \<and> idle t
    \<and> tries = labelled ''PDTS attempt'' (drop (length (log s)) (log t))
    \<and> waits = labelled ''Waiting for PDTS running state'' (drop (length (log s)) (log t))
    \<and> map hd tries = map int [1..<Suc (length tries)] \<and> length tries \<le> 5
    \<and> (\<forall>a \<in> set (butlast tries). \<not> locked_nibble (a ! 1))
    \<and> (r = Inl (RuntimeError ''PDTS sync failed after 5 tries'')
        \<longleftrightarrow> length tries = 5 \<and> \<not> locked_nibble (last tries ! 1))
    \<and> length waits \<le> 3 \<and> (\<forall>w \<in> set waits. hd w AND 0xF \<noteq> 0x8)
    \<and> (r = Inl (RuntimeError ''PDTS did not reach running state 0x8'') \<longleftrightarrow> length waits = 3)"
proof -
  obtain r t ls where t: "sync_pdts (ssp_client_of device) part timing s = (r, t)" "idle t" "log t = log s @ ls"
    "sync_trace r ls"
    using ssp_device.dev_sync [OF assms] by blast
  have "drop (length (log s)) (log t) = ls" using t(3) by simp
  with t(4) show ?thesis
    using t(1,2) by (simp add: sync_trace_def Let_def)
qed

theorem sync_pdts_bounded_retries_witness:
  "\<exists>r t. sync_pdts (ssp_client_of ref_device) 0 0 (idle_world (\<lambda>_. 0) locking_status) = (r, t)
    \<and> length (labelled ''PDTS attempt'' (log t)) \<le> 5"
  using sync_pdts_bounded_retries [OF ref.ssp_device_axioms idle_idle_world(1) [of "\<lambda>_. 0" locking_status], of 0 0]
  by auto

text \<open>\<open>validate_config\<close> does not look at the module id. A validated configuration whose module
  id does not fit an unsigned 32-bit word passes validation and then fails inside \<open>struct.pack\<close>, before
  anything is sent.\<close>

theorem module_id_not_validated:
  assumes "validate_config cfg = Inr ()" "module_id cfg = Some m" "\<not> is_u32 m" "\<not> pdts_sync cfg"
  shows "configure_run (ssp_client_of device) cfg s = (Inl StructError, s)"
  using assms
  by (simp add: configure_run_def write_and_log_def ssp_client_of_def ssp_write_def transaction_def
      request_packet_error m_then_def m_bind_def m_lift_def m_raise_def)

theorem module_id_not_validated_witness:
  "validate_config (default_config\<lparr>module_id := Some (2 ^ 32)\<rparr>) = Inr ()
   \<and> configure_run (ssp_client_of ref_device) (default_config\<lparr>module_id := Some (2 ^ 32)\<rparr>)
        (idle_world (\<lambda>_. 0) []) = (Inl StructError, idle_world (\<lambda>_. 0) [])"
proof -
  let ?cfg = "default_config\<lparr>module_id := Some (2 ^ 32)\<rparr>"
  have "validate_config ?cfg = Inr ()"
    by (simp add: validate_config_def default_config_def check_range_def)
  moreover have "\<not> is_u32 (2 ^ 32)" by (simp add: is_u32_def)
  ultimately show ?thesis
    using module_id_not_validated [of ?cfg "2 ^ 32"] by (simp add: default_config_def)
qed

end
