(* ===== verification/Ssp_Main.thy ===== *)
theory Ssp_Main
  imports Ssp_Control
begin

text \<open>
  The command line of \<open>client/ssp_led_control.py\<close>: the SSH tunnel context manager, the connection
  discipline of every sub-command, and \<open>main\<close>. Starting and polling the \<open>ssh\<close> process and opening
  the socket are operations of the environment, given by the record \<open>ssp_env\<close>; the arguments are
  those \<open>argparse\<close> produces.
\<close>

record 's ssp_env =
  e_popen :: "string list \<Rightarrow> ('s, unit) py"
  e_before_deadline :: "('s, bool) py"
  e_poll :: "('s, int option) py"
  e_terminate :: "('s, unit) py"
  e_wait_2s :: "('s, bool) py" \<comment> \<open>False when the wait times out\<close>
  e_kill :: "('s, unit) py"
  e_connect :: "string \<Rightarrow> int \<Rightarrow> ('s, unit) py"
  e_close :: "('s, unit) py"
  e_client :: "'s ssp_client"

datatype ssp_command =
    CmdRun run_args
  | CmdStop
  | CmdPdtsSyncReport int int
  | CmdInspect
  | CmdMasterLogicResetReport

record ssp_args =
  s_host :: string
  s_port :: int
  s_ssh_tunnel :: string \<comment> \<open>empty when the option is absent\<close>
  s_ssh_tunnel_remote_host :: string
  s_ssh_tunnel_remote_port :: "int option"
  s_command :: ssp_command

section \<open>The SSH tunnel\<close>

definition tunnel_command :: "string \<Rightarrow> int \<Rightarrow> string \<Rightarrow> int \<Rightarrow> string list" where
  "tunnel_command jump_host local_port remote_host remote_port =
     [''ssh'', ''-N'', ''-o'', ''ExitOnForwardFailure=yes'', ''-L'',
      int_to_str local_port @ '':'' @ remote_host @ '':'' @ int_to_str remote_port, jump_host]"

text \<open>
  The polling loop of \<open>__enter__\<close>. Every pass sleeps for at least 0.1 s and the deadline is 5 s
  away, so it makes at most 50 passes.
\<close>

fun tunnel_wait :: "'s ssp_env \<Rightarrow> nat \<Rightarrow> ('s, unit) py" where
  "tunnel_wait env 0 = m_ret ()"
| "tunnel_wait env (Suc n) =
     m_bind (e_before_deadline env) (\<lambda>more.
     if \<not> more then m_ret ()
     else m_bind (e_poll env) (\<lambda>status.
       if status \<noteq> None then m_raise (RuntimeError ''failed to start SSH tunnel'')
       else tunnel_wait env n))"

definition tunnel_enter :: "'r console_scheme ssp_env \<Rightarrow> string list \<Rightarrow> ('r console_scheme, unit) py" where
  "tunnel_enter env cmd =
     m_then (e_popen env cmd)
     (m_then (tunnel_wait env 50) (emit (Line ''SSH tunnel ready:'' [])))"

definition tunnel_exit :: "'s ssp_env \<Rightarrow> ('s, unit) py" where
  "tunnel_exit env =
     m_then (e_terminate env)
     (m_bind (e_wait_2s env) (\<lambda>ended.
      if ended then m_ret ()
      else m_then (e_kill env)
        (m_bind (e_wait_2s env) (\<lambda>ended2.
         if ended2 then m_ret () else m_raise (TimeoutError ''wait'')))))"

section \<open>Sub-commands\<close>

definition with_client ::
  "'r console_scheme ssp_env \<Rightarrow> ssp_args \<Rightarrow> ('r console_scheme, unit) py \<Rightarrow> ('r console_scheme, unit) py" where
  "with_client env args body =
     m_then (emit (Line ''Connecting to'' [s_port args]))
     (m_then (e_connect env (s_host args) (s_port args))
       (m_finally body (e_close env)))"

definition with_tunnel ::
  "'r console_scheme ssp_env \<Rightarrow> ssp_args \<Rightarrow> ('r console_scheme, unit) py \<Rightarrow> ('r console_scheme, unit) py" where
  "with_tunnel env args body =
    (if s_ssh_tunnel args \<noteq> []
     then
       let remote_port = (case s_ssh_tunnel_remote_port args of
             Some p \<Rightarrow> (if p = 0 then s_port args else p) | None \<Rightarrow> s_port args) in
       m_then (tunnel_enter env (tunnel_command (s_ssh_tunnel args) (s_port args)
                 (s_ssh_tunnel_remote_host args) remote_port))
         (m_finally (with_client env args body) (tunnel_exit env))
     else with_client env args body)"

definition run_command :: "'r console_scheme ssp_env \<Rightarrow> ssp_args \<Rightarrow> ('r console_scheme, unit) py" where
  "run_command env args =
    (let client = e_client env in
     case s_command args of
       CmdRun ra \<Rightarrow>
         m_bind (m_lift (merge_config ra)) (\<lambda>cfg.
         m_then (m_lift (validate_config cfg))
         (m_then (with_tunnel env args (configure_run client cfg))
           (emit (Line ''SSP LED run configured and started'' []))))
     | CmdStop \<Rightarrow>
         m_then (with_tunnel env args (stop_run client)) (emit (Line ''SSP LED run stopped'' []))
     | CmdPdtsSyncReport part timing \<Rightarrow>
         m_then (with_tunnel env args
           (m_then (dump_registers client PDTS_REPORT_REGISTERS ''PDTS register dump before sync:'')
           (m_then (sync_pdts client part timing)
           (m_then (configure_pdts_register_block client)
             (dump_registers client PDTS_REPORT_REGISTERS ''PDTS register dump after sync:'')))))
           (emit (Line ''PDTS sync/report completed'' []))
     | CmdInspect \<Rightarrow>
         m_then (with_tunnel env args (dump_registers client INSPECT_REGISTERS ''SSP inspect dump:''))
           (emit (Line ''SSP inspect completed'' []))
     | CmdMasterLogicResetReport \<Rightarrow>
         m_then (with_tunnel env args
           (m_then (dump_registers client INSPECT_REGISTERS ''Before master logic reset:'')
           (m_then (pulse_master_logic_reset client)
             (dump_registers client INSPECT_REGISTERS ''After master logic reset:''))))
           (emit (Line ''Master logic reset/report completed'' [])))"

text \<open>\<open>main\<close>: 0 when the command completes, 1 when it raises (the error goes to standard error).\<close>

definition ssp_main :: "'r console_scheme ssp_env \<Rightarrow> ssp_args \<Rightarrow> ('r console_scheme, int) py" where
  "ssp_main env args =
     m_except (m_then (run_command env args) (m_ret 0)) (\<lambda>_. m_ret 1)"

section \<open>Exit codes and the order of checks\<close>

lemma ssp_main_total:
  "ssp_main env args s = (case run_command env args s of
       (Inr u, t) \<Rightarrow> (Inr 0, t)
     | (Inl e, t) \<Rightarrow> if is_exit e then (Inl e, t) else (Inr 1, t))"
  by (cases "run_command env args s"; cases "fst (run_command env args s)")
     (auto simp: ssp_main_def m_except_def m_try_def m_then_def m_bind_def m_ret_def m_raise_def)

lemma run_rejected:
  assumes "s_command args = CmdRun ra"
    and "merge_config ra = Inl e \<or> (\<exists>cfg. merge_config ra = Inr cfg \<and> validate_config cfg = Inl e)"
  shows "run_command env args s = (Inl e, s)"
  using assms by (auto simp: run_command_def m_then_def m_bind_def m_lift_def m_raise_def)

lemma with_client_closes:
  assumes "e_connect env (s_host args) (s_port args) (s\<lparr>log := log s @ [Line ''Connecting to'' [s_port args]]\<rparr>)
      = (Inr (), t)"
    and "body t = (r, u)" and "e_close env u = (Inr (), w)"
  shows "with_client env args body s = (r, w)"
  using assms
  by (simp add: with_client_def emit_def m_then_def m_bind_def m_modify_def m_finally_def)

end
