(* ===== verification/Afe_Align.thy ===== *)
theory Afe_Align
  imports Py_Text "HOL-Library.Sublist"
begin

text \<open>
  \<open>client/align_all_afes.py\<close> (and its copy under \<open>utils/\<close>): the alignment of the front-end
  deserialisers. The script drives the hardware through the \<open>devmem\<close> program only; running it is the
  operation \<open>subproc\<close> of the environment. For every AFE it scans the 512 delay taps, keeps the longest
  window of identical frame-clock words, parks the tap in its middle and then hunts the bit slip.

  The locale \<open>frontend\<close> is the behaviour of the front-end registers the script relies on; inside it the
  whole procedure is proved to choose the middle of the first longest window and the first matching bit
  slip. \<open>ref_board\<close> is a board behind a \<open>devmem\<close> program that satisfies it.
\<close>

section \<open>Address map\<close>

definition FRONTEND_CTRL :: int where "FRONTEND_CTRL = 0x88000000"
definition FRONTEND_TRIGGER :: int where "FRONTEND_TRIGGER = 0x88000008"
definition AFE_TAP_BASE :: int where "AFE_TAP_BASE = 0x8800000C"
definition AFE_BITSLIP_BASE :: int where "AFE_BITSLIP_BASE = 0x88000020"
definition SPY_FCLK_AFE0 :: int where "SPY_FCLK_AFE0 = 0x90008000"
definition SPY_STRIDE :: int where "SPY_STRIDE = 0x00009000"
definition TRIG_MAGIC :: int where "TRIG_MAGIC = 0xBABA"
definition WANT_PATTERN :: int where "WANT_PATTERN = 0x00FF00FF"

lemmas frontend_addrs = FRONTEND_CTRL_def FRONTEND_TRIGGER_def AFE_TAP_BASE_def AFE_BITSLIP_BASE_def
  SPY_FCLK_AFE0_def SPY_STRIDE_def TRIG_MAGIC_def WANT_PATTERN_def

definition tap_addr :: "int \<Rightarrow> int" where "tap_addr afe = AFE_TAP_BASE + 4 * afe"
definition bitslip_addr :: "int \<Rightarrow> int" where "bitslip_addr afe = AFE_BITSLIP_BASE + 4 * afe"
definition spy_addr :: "int \<Rightarrow> int" where "spy_addr afe = SPY_FCLK_AFE0 + SPY_STRIDE * afe"

section \<open>Register access through \<open>devmem\<close>\<close>

text \<open>The environment: the path of the \<open>devmem\<close> program and how running a command behaves
  (return code, standard output, standard error).\<close>

record 's devmem_env =
  devmem :: string
  subproc :: "string list \<Rightarrow> ('s, int \<times> string \<times> string) py"

definition run :: "'s devmem_env \<Rightarrow> string list \<Rightarrow> ('s, string) py" where
  "run env args =
     m_bind (subproc env args) (\<lambda>(returncode, out, err).
     if returncode \<noteq> 0 then m_raise (RuntimeError ''failed'') else m_ret (py_strip out))"

definition parse_word :: "string \<Rightarrow> int result" where
  "parse_word out = (case split_ws out of
       [] \<Rightarrow> Inl IndexError
     | w # _ \<Rightarrow> r_of_option (ValueError ''invalid literal for int() with base 16'') (py_int16 w))"

definition read32 :: "'s devmem_env \<Rightarrow> int \<Rightarrow> ('s, int) py" where
  "read32 env addr =
     m_bind (run env [devmem env, ''0x'' @ fmt_hex 8 addr, ''32'']) (\<lambda>out. m_lift (parse_word out))"

definition write32 :: "'s devmem_env \<Rightarrow> int \<Rightarrow> int \<Rightarrow> ('s, unit) py" where
  "write32 env addr value =
     m_bind (run env [devmem env, ''0x'' @ fmt_hex 8 addr, ''32'', ''0x'' @ fmt_hex 0 value]) (\<lambda>_. m_ret ())"

definition trigger_spy :: "'s devmem_env \<Rightarrow> ('s, unit) py" where
  "trigger_spy env = write32 env FRONTEND_TRIGGER TRIG_MAGIC"

definition read_fclk :: "'s devmem_env \<Rightarrow> int \<Rightarrow> ('s, int) py" where
  "read_fclk env afe = m_then (trigger_spy env) (read32 env (spy_addr afe))"

section \<open>The window scan\<close>

text \<open>The local variables of the scan: \<open>longest = (len, start, end, word)\<close> and the current run.\<close>

record scan =
  longest :: "int \<times> int \<times> int \<times> int"
  curr_word :: int
  curr_len :: int
  start :: int

definition scan_init :: "int \<Rightarrow> scan" where
  "scan_init base = \<lparr>longest = (1, 0, 0, base), curr_word = base, curr_len = 1, start = 0\<rparr>"

definition close_run :: "int \<Rightarrow> scan \<Rightarrow> int \<times> int \<times> int \<times> int" where
  "close_run last_tap sc =
     (if curr_len sc > fst (longest sc) then (curr_len sc, start sc, last_tap, curr_word sc) else longest sc)"

definition scan_step :: "int \<Rightarrow> int \<Rightarrow> scan \<Rightarrow> scan" where
  "scan_step i val sc =
     (if val = curr_word sc then sc\<lparr>curr_len := curr_len sc + 1\<rparr>
      else \<lparr>longest = close_run (i - 1) sc, curr_word = val, curr_len = 1, start = i\<rparr>)"

definition scan_taps :: "'s devmem_env \<Rightarrow> int \<Rightarrow> int \<Rightarrow> ('s, scan) py" where
  "scan_taps env afe base =
     m_fold (\<lambda>i sc.
        m_then (write32 env (tap_addr afe) i)
          (m_bind (read_fclk env afe) (\<lambda>val. m_ret (scan_step i val sc))))
       (tl (py_range 512)) (scan_init base)"

text \<open>\<open>for j in range(16)\<close> with \<open>break\<close> on the wanted pattern.\<close>

fun bitslip_hunt :: "'s devmem_env \<Rightarrow> int \<Rightarrow> int list \<Rightarrow> ('s, int option) py" where
  "bitslip_hunt env afe [] = m_ret None"
| "bitslip_hunt env afe (j # js) =
     m_then (write32 env (bitslip_addr afe) j)
       (m_bind (read_fclk env afe) (\<lambda>val.
          if val = WANT_PATTERN then m_ret (Some j) else bitslip_hunt env afe js))"

definition align_one_afe :: "'s devmem_env \<Rightarrow> int \<Rightarrow> ('s, int \<times> int option) py" where
  "align_one_afe env afe =
     m_then (write32 env FRONTEND_CTRL 0x1)
     (m_then (write32 env FRONTEND_CTRL 0x2)
     (m_then (write32 env FRONTEND_CTRL 0x0)
     (m_then (write32 env (tap_addr afe) 0x0)
     (m_bind (read_fclk env afe) (\<lambda>base.
      m_bind (scan_taps env afe base) (\<lambda>sc.
      let (L, a, b, word) = close_run 511 sc; mid = a + (b - a) div 2 in
      m_then (write32 env (tap_addr afe) mid)
      (m_then (write32 env FRONTEND_CTRL 0x4)
      (m_then (write32 env FRONTEND_CTRL 0x0)
      (m_bind (bitslip_hunt env afe (py_range 16)) (\<lambda>found.
       m_ret (mid, found)))))))))))"

text \<open>\<open>main\<close>: an AFE whose access fails is skipped; the results of the others are kept.\<close>

definition align_probe :: "'s devmem_env \<Rightarrow> int \<Rightarrow> ('s, (int \<times> int \<times> int option) list) py" where
  "align_probe env afe =
     m_except (m_then (read32 env (tap_addr afe))
              (m_bind (align_one_afe env afe) (\<lambda>(mid, bs). m_ret [(afe, mid, bs)])))
       (\<lambda>_. m_ret [])"

definition align_main :: "'s devmem_env \<Rightarrow> ('s, (int \<times> int \<times> int option) list) py" where
  "align_main env = m_bind (m_map (align_probe env) (py_range 5)) (\<lambda>rs. m_ret (concat rs))"

section \<open>The scan finds the first longest window\<close>

definition const_run :: "(int \<Rightarrow> int) \<Rightarrow> int \<Rightarrow> int \<Rightarrow> int \<Rightarrow> bool" where
  "const_run v x y w \<longleftrightarrow> (\<forall>k. x \<le> k \<and> k \<le> y \<longrightarrow> v k = w)"

text \<open>The first longest window of identical values among the taps \<open>0..n\<close>.\<close>

definition best_window :: "(int \<Rightarrow> int) \<Rightarrow> int \<Rightarrow> int \<times> int \<times> int \<times> int \<Rightarrow> bool" where
  "best_window v n win = (case win of (L, a, b, w) \<Rightarrow>
     0 \<le> a \<and> a \<le> b \<and> b \<le> n \<and> L = b - a + 1 \<and> const_run v a b w
     \<and> (\<forall>x y u. 0 \<le> x \<and> x \<le> y \<and> y \<le> n \<and> const_run v x y u \<longrightarrow> y - x + 1 \<le> L)
     \<and> (\<forall>x u. 0 \<le> x \<and> x < a \<longrightarrow> \<not> const_run v x (x + L - 1) u))"

definition scan_inv :: "(int \<Rightarrow> int) \<Rightarrow> int \<Rightarrow> scan \<Rightarrow> bool" where
  "scan_inv v i sc \<longleftrightarrow>
     0 \<le> start sc \<and> start sc \<le> i \<and> curr_len sc = i - start sc + 1
     \<and> const_run v (start sc) i (curr_word sc)
     \<and> (0 < start sc \<longrightarrow> v (start sc - 1) \<noteq> curr_word sc)
     \<and> (case longest sc of (L, a, b, w) \<Rightarrow>
          0 \<le> a \<and> a \<le> b \<and> b \<le> i \<and> L = b - a + 1 \<and> const_run v a b w
          \<and> (\<forall>x y u. 0 \<le> x \<and> x \<le> y \<and> y \<le> start sc - 1 \<and> const_run v x y u \<longrightarrow> y - x + 1 \<le> L)
          \<and> (\<forall>x u. 0 \<le> x \<and> x < a \<longrightarrow> \<not> const_run v x (x + L - 1) u))"

lemma const_runD: "const_run v x y w \<Longrightarrow> x \<le> k \<Longrightarrow> k \<le> y \<Longrightarrow> v k = w"
  by (simp add: const_run_def)

lemma const_run_sub: "const_run v x y w \<Longrightarrow> x \<le> x' \<Longrightarrow> y' \<le> y \<Longrightarrow> const_run v x' y' w"
  by (simp add: const_run_def)

lemma scan_inv_init: "scan_inv v 0 (scan_init (v 0))"
  by (auto simp: scan_inv_def scan_init_def const_run_def)

lemma best_window_mid:
  "best_window v 511 (L, a, b, w) \<Longrightarrow> 0 \<le> a + (b - a) div 2 \<and> a + (b - a) div 2 < 512"
  unfolding best_window_def prod.case by linarith

text \<open>Closing the current run at tap \<open>i\<close> gives the best window of the taps up to \<open>i\<close>.\<close>

lemma close_run_best:
  assumes inv: "scan_inv v i sc"
  shows "best_window v i (close_run i sc)"
proof -
  obtain L a b w where l: "longest sc = (L, a, b, w)" by (cases "longest sc") auto
  let ?s = "start sc" and ?c = "curr_word sc" and ?n = "curr_len sc"
  have s: "0 \<le> ?s" "?s \<le> i" "?n = i - ?s + 1" "const_run v ?s i ?c" "0 < ?s \<Longrightarrow> v (?s - 1) \<noteq> ?c"
    and w: "0 \<le> a" "a \<le> b" "b \<le> i" "L = b - a + 1" "const_run v a b w"
    and mx: "\<And>x y u. 0 \<le> x \<Longrightarrow> x \<le> y \<Longrightarrow> y \<le> ?s - 1 \<Longrightarrow> const_run v x y u \<Longrightarrow> y - x + 1 \<le> L"
    and fst_min: "\<And>x u. 0 \<le> x \<Longrightarrow> x < a \<Longrightarrow> \<not> const_run v x (x + L - 1) u"
    using inv [unfolded scan_inv_def l prod.case] by blast+
  have within: "?s \<le> x" if "0 \<le> x" "x \<le> y" "?s \<le> y" "y \<le> i" "const_run v x y u" for x y u
  proof (rule ccontr)
    assume "\<not> ?s \<le> x"
    then have "v (?s - 1) = u" "v ?s = u" "0 < ?s" using that by (simp_all add: const_run_def)
    moreover have "v ?s = ?c" using s(2,4) by (simp add: const_run_def)
    ultimately show False using s(5) by simp
  qed
  have bound: "y - x + 1 \<le> max L ?n" if "0 \<le> x" "x \<le> y" "y \<le> i" "const_run v x y u" for x y u
    using mx [OF that(1,2) _ that(4)] within [OF that(1,2) _ that(3,4)] that(3) s(3)
    by (cases "y < ?s") auto
  show ?thesis
  proof (cases "?n > L")
    case True
    have "\<not> const_run v x (x + ?n - 1) u" if x: "0 \<le> x" "x < ?s" for x u
    proof
      assume c: "const_run v x (x + ?n - 1) u"
      show False
      proof (cases "x + ?n - 1 < ?s")
        case True
        then show False using mx [OF x(1) _ _ c] s True \<open>?n > L\<close> by simp
      next
        case False
        then show False using within [OF x(1) _ _ _ c] x s by simp
      qed
    qed
    with True s bound l show ?thesis
      by (auto simp: best_window_def close_run_def)
  next
    case False
    with w bound fst_min l show ?thesis
      by (auto simp: best_window_def close_run_def)
  qed
qed

lemma scan_inv_step:
  assumes inv: "scan_inv v (i - 1) sc" and i: "0 < i"
  shows "scan_inv v i (scan_step i (v i) sc)"
proof (cases "v i = curr_word sc")
  case True
  obtain L a b w c n st where sc: "sc = \<lparr>longest = (L, a, b, w), curr_word = c, curr_len = n, start = st\<rparr>"
    by (cases sc) auto
  have run: "const_run v st i c"
    unfolding const_run_def
  proof (intro allI impI)
    fix k assume k: "st \<le> k \<and> k \<le> i"
    have "const_run v st (i - 1) c" using inv by (simp add: scan_inv_def sc)
    with k True show "v k = c" by (cases "k = i") (simp_all add: const_run_def sc)
  qed
  have e: "scan_step i (v i) sc = \<lparr>longest = (L, a, b, w), curr_word = c, curr_len = n + 1, start = st\<rparr>"
    using True by (simp add: scan_step_def sc)
  show ?thesis
    unfolding e scan_inv_def scan.simps prod.case
    using inv [unfolded sc scan_inv_def scan.simps prod.case] run
    by (elim conjE, intro conjI) (assumption | linarith)+
next
  case False
  obtain L a b w where c: "close_run (i - 1) sc = (L, a, b, w)" by (cases "close_run (i - 1) sc") auto
  have b: "best_window v (i - 1) (L, a, b, w)" using close_run_best [OF inv] c by simp
  have w: "v (i - 1) = curr_word sc"
    using inv by (simp add: scan_inv_def const_run_def)
  have e: "scan_step i (v i) sc = \<lparr>longest = (L, a, b, w), curr_word = v i, curr_len = 1, start = i\<rparr>"
    using False by (simp add: scan_step_def c)
  have "const_run v i i (v i)" by (auto simp: const_run_def)
  then show ?thesis
    using b [unfolded best_window_def prod.case] False i w
    unfolding scan_inv_def e scan.simps prod.case
    by (elim conjE, intro conjI) (assumption | linarith | (simp; fail))+
qed

section \<open>The front-end registers\<close>

text \<open>
  What the procedure relies on: every access succeeds and keeps the board responsive; the tap and slip
  registers hold what is written to them; the trigger copies the frame-clock word of every AFE, which
  depends on its tap and slip, to the spy buffer; VTC and reset release (values 4 and 0 of the control
  register) keep taps and slips. Nothing is promised about taps and slips across the resets.
\<close>

locale frontend =
  fixes env :: "'s devmem_env"
    and up :: "'s \<Rightarrow> bool"
    and tap :: "'s \<Rightarrow> int \<Rightarrow> int"
    and slip :: "'s \<Rightarrow> int \<Rightarrow> int"
    and spy :: "'s \<Rightarrow> int \<Rightarrow> int"
    and fclk :: "int \<Rightarrow> int \<Rightarrow> int \<Rightarrow> int"
  assumes reset: "up s \<Longrightarrow> v \<in> {1, 2} \<Longrightarrow> \<exists>t. write32 env FRONTEND_CTRL v s = (Inr (), t) \<and> up t"
    and control: "up s \<Longrightarrow> v \<in> {0, 4} \<Longrightarrow>
      \<exists>t. write32 env FRONTEND_CTRL v s = (Inr (), t) \<and> up t \<and> tap t = tap s \<and> slip t = slip s"
    and set_tap: "up s \<Longrightarrow> 0 \<le> afe \<Longrightarrow> afe < 5 \<Longrightarrow> 0 \<le> v \<Longrightarrow> v < 512 \<Longrightarrow>
      \<exists>t. write32 env (tap_addr afe) v s = (Inr (), t) \<and> up t \<and> tap t = (tap s)(afe := v) \<and> slip t = slip s"
    and set_slip: "up s \<Longrightarrow> 0 \<le> afe \<Longrightarrow> afe < 5 \<Longrightarrow> 0 \<le> v \<Longrightarrow> v < 16 \<Longrightarrow>
      \<exists>t. write32 env (bitslip_addr afe) v s = (Inr (), t) \<and> up t \<and> tap t = tap s \<and> slip t = (slip s)(afe := v)"
    and snapshot: "up s \<Longrightarrow>
      \<exists>t. trigger_spy env s = (Inr (), t) \<and> up t \<and> tap t = tap s \<and> slip t = slip s
        \<and> (\<forall>afe. spy t afe = fclk afe (tap s afe) (slip s afe))"
    and read_spy: "up s \<Longrightarrow> 0 \<le> afe \<Longrightarrow> afe < 5 \<Longrightarrow> read32 env (spy_addr afe) s = (Inr (spy s afe), s)"
    and probe: "up s \<Longrightarrow> 0 \<le> afe \<Longrightarrow> afe < 5 \<Longrightarrow> \<exists>x. read32 env (tap_addr afe) s = (Inr x, s)"
begin

lemma read_fclk_run:
  assumes "up s" "0 \<le> afe" "afe < 5"
  shows "\<exists>t. read_fclk env afe s = (Inr (fclk afe (tap s afe) (slip s afe)), t)
           \<and> up t \<and> tap t = tap s \<and> slip t = slip s"
proof -
  obtain t where t: "trigger_spy env s = (Inr (), t)" "up t" "tap t = tap s" "slip t = slip s"
    "spy t afe = fclk afe (tap s afe) (slip s afe)" using snapshot [OF assms(1)] by blast
  then have "read_fclk env afe s = (Inr (fclk afe (tap s afe) (slip s afe)), t)"
    using read_spy [OF t(2) assms(2,3)] by (simp add: read_fclk_def py_run)
  with t show ?thesis by blast
qed

text \<open>Scanning the taps \<open>m..511\<close> extends the invariant from tap \<open>m - 1\<close> to tap 511.\<close>

lemma scan_run:
  assumes "0 \<le> afe" "afe < 5"
  shows "up s \<Longrightarrow> slip s afe = sl \<Longrightarrow> 0 < m \<Longrightarrow> m + length is = 512 \<Longrightarrow> is = map int [m..<512]
     \<Longrightarrow> scan_inv (\<lambda>t. fclk afe t sl) (int m - 1) sc \<Longrightarrow>
     \<exists>sc' t. m_fold (\<lambda>i sc. m_then (write32 env (tap_addr afe) i)
          (m_bind (read_fclk env afe) (\<lambda>val. m_ret (scan_step i val sc)))) is sc s = (Inr sc', t)
       \<and> up t \<and> slip t afe = sl \<and> scan_inv (\<lambda>t. fclk afe t sl) 511 sc'"
proof (induction "is" arbitrary: m s sc)
  case Nil
  then show ?case by (auto simp: py_run)
next
  case (Cons i js)
  have m: "m < 512" using Cons.prems(4) by simp
  then have i: "i = int m" and js: "js = map int [Suc m..<512]"
    using Cons.prems(5) by (simp_all add: upt_conv_Cons)
  obtain t where t: "write32 env (tap_addr afe) i s = (Inr (), t)" "up t"
      "tap t = (tap s)(afe := i)" "slip t = slip s"
    using set_tap [OF Cons.prems(1) assms, of i] m i by auto
  obtain u where u: "read_fclk env afe t = (Inr (fclk afe i sl), u)" "up u" "slip u afe = sl"
    using read_fclk_run [OF t(2) assms] t Cons.prems(2) by auto
  have "scan_inv (\<lambda>t. fclk afe t sl) (int (Suc m) - 1) (scan_step i (fclk afe i sl) sc)"
    using scan_inv_step [OF Cons.prems(6)] Cons.prems(3) i by simp
  from Cons.IH [OF u(2,3) _ _ js this] Cons.prems(4) show ?case
    by (simp add: py_run t u)
qed

lemma hunt_run:
  assumes "0 \<le> afe" "afe < 5"
  shows "up s \<Longrightarrow> tap s afe = m \<Longrightarrow> (\<And>j. j \<in> set js \<Longrightarrow> 0 \<le> j \<and> j < 16) \<Longrightarrow>
     \<exists>t. bitslip_hunt env afe js s = (Inr (find (\<lambda>j. fclk afe m j = WANT_PATTERN) js), t)
       \<and> up t \<and> tap t afe = m
       \<and> (\<forall>j. find (\<lambda>j. fclk afe m j = WANT_PATTERN) js = Some j \<longrightarrow> slip t afe = j)"
proof (induction js arbitrary: s)
  case Nil
  then show ?case by (auto simp: py_run)
next
  case (Cons j js)
  obtain t where t: "write32 env (bitslip_addr afe) j s = (Inr (), t)" "up t"
      "tap t = tap s" "slip t = (slip s)(afe := j)"
    using set_slip [OF Cons.prems(1) assms, of j] Cons.prems(3) by auto
  obtain u where u: "read_fclk env afe t = (Inr (fclk afe m j), u)" "up u" "tap u afe = m" "slip u afe = j"
    using read_fclk_run [OF t(2) assms] t Cons.prems(2) by auto
  show ?case
  proof (cases "fclk afe m j = WANT_PATTERN")
    case True
    then show ?thesis using t u by (auto simp: py_run)
  next
    case False
    with Cons.IH [OF u(2,3)] Cons.prems(3) show ?thesis by (simp add: py_run t u)
  qed
qed

text \<open>One AFE: the outcome of the alignment in terms of the frame-clock words alone.\<close>

lemma align_one_run:
  assumes s: "up s" and afe: "0 \<le> afe" "afe < 5"
  shows "\<exists>t sl L a b w. align_one_afe env afe s =
             (Inr (a + (b - a) div 2, find (\<lambda>j. fclk afe (a + (b - a) div 2) j = WANT_PATTERN) (py_range 16)), t)
           \<and> up t \<and> best_window (\<lambda>tp. fclk afe tp sl) 511 (L, a, b, w)
           \<and> tap t afe = a + (b - a) div 2
           \<and> (\<forall>j. find (\<lambda>j. fclk afe (a + (b - a) div 2) j = WANT_PATTERN) (py_range 16) = Some j
                \<longrightarrow> slip t afe = j)"
proof -
  obtain s1 where s1: "write32 env FRONTEND_CTRL 1 s = (Inr (), s1)" "up s1"
    using reset [OF s, of 1] by auto
  obtain s2 where s2: "write32 env FRONTEND_CTRL 2 s1 = (Inr (), s2)" "up s2"
    using reset [OF s1(2), of 2] by auto
  obtain s3 where s3: "write32 env FRONTEND_CTRL 0 s2 = (Inr (), s3)" "up s3"
    using control [OF s2(2), of 0] by auto
  obtain s4 where s4: "write32 env (tap_addr afe) 0 s3 = (Inr (), s4)" "up s4" "tap s4 afe = 0"
    using set_tap [OF s3(2) afe, of 0] by auto
  define sl where "sl = slip s4 afe"
  obtain s5 where s5: "read_fclk env afe s4 = (Inr (fclk afe 0 sl), s5)" "up s5" "slip s5 afe = sl"
    using read_fclk_run [OF s4(2) afe] s4(3) by (auto simp: sl_def)
  have rng: "tl (py_range 512) = map int [1..<512]"
    unfolding py_range_def map_tl [symmetric] by (simp only: tl_upt One_nat_def)
  have "scan_inv (\<lambda>tp. fclk afe tp sl) (int 1 - 1) (scan_init (fclk afe 0 sl))"
    using scan_inv_init [of "\<lambda>tp. fclk afe tp sl"] by simp
  then have "\<exists>sc t. scan_taps env afe (fclk afe 0 sl) s5 = (Inr sc, t) \<and> up t \<and> slip t afe = sl
      \<and> scan_inv (\<lambda>tp. fclk afe tp sl) 511 sc"
    unfolding scan_taps_def rng
    by (rule scan_run [OF afe s5(2,3) _ _ refl, rotated 2]) (simp_all only: length_map length_upt)
  then obtain sc s6 where s6: "scan_taps env afe (fclk afe 0 sl) s5 = (Inr sc, s6)" "up s6"
      "scan_inv (\<lambda>tp. fclk afe tp sl) 511 sc" by blast
  obtain L a b w where win: "close_run 511 sc = (L, a, b, w)" by (cases "close_run 511 sc") auto
  have best: "best_window (\<lambda>tp. fclk afe tp sl) 511 (L, a, b, w)"
    using close_run_best [OF s6(3)] win by simp
  define mid where "mid = a + (b - a) div 2"
  have mid: "0 \<le> mid" "mid < 512" using best_window_mid [OF best] by (simp_all add: mid_def)
  obtain s7 where s7: "write32 env (tap_addr afe) mid s6 = (Inr (), s7)" "up s7" "tap s7 afe = mid"
    using set_tap [OF s6(2) afe mid] by auto
  obtain s8 where s8: "write32 env FRONTEND_CTRL 4 s7 = (Inr (), s8)" "up s8" "tap s8 = tap s7"
    using control [OF s7(2), of 4] by auto
  obtain s9 where s9: "write32 env FRONTEND_CTRL 0 s8 = (Inr (), s9)" "up s9" "tap s9 afe = mid"
    using control [OF s8(2), of 0] s8(3) s7(3) by auto
  obtain t where t: "bitslip_hunt env afe (py_range 16) s9 =
        (Inr (find (\<lambda>j. fclk afe mid j = WANT_PATTERN) (py_range 16)), t)" "up t" "tap t afe = mid"
      "\<And>j. find (\<lambda>j. fclk afe mid j = WANT_PATTERN) (py_range 16) = Some j \<Longrightarrow> slip t afe = j"
    using hunt_run [OF afe s9(2,3), of "py_range 16"] by auto
  have "align_one_afe env afe s = (Inr (mid, find (\<lambda>j. fclk afe mid j = WANT_PATTERN) (py_range 16)), t)"
    by (simp add: align_one_afe_def py_run s1 s2 s3 s4 s5 s6 win s7 s8 s9 t(1) mid_def [symmetric])
  then show ?thesis using t best unfolding mid_def by blast
qed

text \<open>On a board that answers, no AFE is skipped.\<close>

lemma align_map_run:
  "up s \<Longrightarrow> (\<And>a. a \<in> set afes \<Longrightarrow> 0 \<le> a \<and> a < 5) \<Longrightarrow>
     \<exists>rs t. m_map (align_probe env) afes s = (Inr rs, t) \<and> up t
       \<and> map fst (concat rs) = afes \<and> (\<forall>(a, mid, bs) \<in> set (concat rs). 0 \<le> mid \<and> mid < 512)"
proof (induction afes arbitrary: s)
  case Nil
  then show ?case by (simp add: py_run)
next
  case (Cons a afes)
  have a: "0 \<le> a" "a < 5" using Cons.prems(2) [of a] by simp_all
  obtain x where x: "read32 env (tap_addr a) s = (Inr x, s)" using probe [OF Cons.prems(1) a] by blast
  obtain t sl L x y w bs where t: "align_one_afe env a s = (Inr (x + (y - x) div 2, bs), t)" "up t"
      and w: "best_window (\<lambda>tp. fclk a tp sl) 511 (L, x, y, w)"
    using align_one_run [OF Cons.prems(1) a] by blast
  define mid where "mid = x + (y - x) div 2"
  have mid: "0 \<le> mid" "mid < 512" using best_window_mid [OF w] by (simp_all add: mid_def)
  have p: "align_probe env a s = (Inr [(a, mid, bs)], t)"
    by (simp add: align_probe_def py_run x t(1) mid_def)
  have "\<exists>rs u. m_map (align_probe env) afes t = (Inr rs, u) \<and> up u \<and> map fst (concat rs) = afes
      \<and> (\<forall>(a, mid, bs) \<in> set (concat rs). 0 \<le> mid \<and> mid < 512)"
    by (rule Cons.IH [OF t(2)]) (simp add: Cons.prems(2))
  then obtain rs u where "m_map (align_probe env) afes t = (Inr rs, u)" "up u" "map fst (concat rs) = afes"
      "\<forall>(a, mid, bs) \<in> set (concat rs). 0 \<le> mid \<and> mid < 512" by blast
  with p mid show ?case by (auto simp: py_run)
qed

end

section \<open>A reference board\<close>

text \<open>
  A board behind a \<open>devmem\<close> program: the registers of five AFEs, reset values 0, and the frame-clock
  word of an AFE given by a function \<open>eye\<close> of its tap and slip.
\<close>

record board =
  b_tap :: "int \<Rightarrow> int"
  b_slip :: "int \<Rightarrow> int"
  b_spy :: "int \<Rightarrow> int"

definition afe_at :: "(int \<Rightarrow> int) \<Rightarrow> int \<Rightarrow> int option" where
  "afe_at addr_of addr = find (\<lambda>a. addr_of a = addr) (py_range 5)"

definition board_read :: "int \<Rightarrow> board \<Rightarrow> int option" where
  "board_read addr b =
     (case afe_at tap_addr addr of Some a \<Rightarrow> Some (b_tap b a)
      | None \<Rightarrow> (case afe_at spy_addr addr of Some a \<Rightarrow> Some (b_spy b a) | None \<Rightarrow> None))"

definition board_write :: "(int \<Rightarrow> int \<Rightarrow> int \<Rightarrow> nat) \<Rightarrow> int \<Rightarrow> int \<Rightarrow> board \<Rightarrow> board" where
  "board_write eye addr v b =
     (if addr = FRONTEND_CTRL then
        (if v = 1 \<or> v = 2 then b\<lparr>b_tap := (\<lambda>_. 0), b_slip := (\<lambda>_. 0)\<rparr> else b)
      else if addr = FRONTEND_TRIGGER then
        (if v = TRIG_MAGIC then b\<lparr>b_spy := (\<lambda>a. int (eye a (b_tap b a) (b_slip b a)))\<rparr> else b)
      else case afe_at tap_addr addr of Some a \<Rightarrow> b\<lparr>b_tap := (b_tap b)(a := v)\<rparr>
      | None \<Rightarrow> (case afe_at bitslip_addr addr of
            Some a \<Rightarrow> b\<lparr>b_slip := (b_slip b)(a := v)\<rparr> | None \<Rightarrow> b))"

definition ref_subproc :: "(int \<Rightarrow> int \<Rightarrow> int \<Rightarrow> nat) \<Rightarrow> string list \<Rightarrow> (board, int \<times> string \<times> string) py" where
  "ref_subproc eye args b = (case args of
       [p, a, w] \<Rightarrow> (case Option.bind (py_int16 a) (\<lambda>addr. board_read addr b) of
           Some v \<Rightarrow> (Inr (0, (''0x'' @ fmt_hex 8 v) @ [char_of (10 :: nat)], ''''), b)
         | None \<Rightarrow> (Inr (1, '''', ''Bus error''), b))
     | [p, a, w, v] \<Rightarrow> (case (py_int16 a, py_int16 v) of
           (Some addr, Some value) \<Rightarrow> (Inr (0, '''', ''''), board_write eye addr value b)
         | _ \<Rightarrow> (Inr (1, '''', ''usage''), b))
     | _ \<Rightarrow> (Inr (1, '''', ''usage''), b))"

definition ref_devmem :: "(int \<Rightarrow> int \<Rightarrow> int \<Rightarrow> nat) \<Rightarrow> board devmem_env" where
  "ref_devmem eye = \<lparr>devmem = ''/sbin/devmem'', subproc = ref_subproc eye\<rparr>"

definition board_up :: "board \<Rightarrow> bool" where
  "board_up b \<longleftrightarrow> (\<forall>a. 0 \<le> b_spy b a) \<and> (\<forall>a. 0 \<le> b_tap b a)"

lemma afe_at_hit:
  assumes "\<And>x y. addr_of x = addr_of y \<Longrightarrow> x = y" "0 \<le> a" "a < 5"
  shows "afe_at addr_of (addr_of a) = Some a"
proof -
  have "afe_at addr_of (addr_of a) \<noteq> None"
    using assms(2,3) by (auto simp: afe_at_def find_None_iff)
  then obtain x where x: "afe_at addr_of (addr_of a) = Some x" by blast
  then have "addr_of x = addr_of a" by (auto simp: afe_at_def find_Some_iff)
  with x assms(1) show ?thesis by blast
qed

lemma afe_at_miss: "(\<And>a. 0 \<le> a \<Longrightarrow> a < 5 \<Longrightarrow> addr_of a \<noteq> addr) \<Longrightarrow> afe_at addr_of addr = None"
  by (auto simp: afe_at_def find_None_iff)

lemma devmem_write:
  assumes "0 \<le> addr" "0 \<le> v"
  shows "write32 (ref_devmem eye) addr v b = (Inr (), board_write eye addr v b)"
  using py_int16_fmt_hex [OF assms(1), of 8] py_int16_fmt_hex [OF assms(2), of 0]
  by (simp add: write32_def run_def m_bind_def m_ret_def ref_devmem_def ref_subproc_def)

lemma devmem_read:
  assumes "0 \<le> addr" "board_read addr b = Some v" "0 \<le> v"
  shows "read32 (ref_devmem eye) addr b = (Inr v, b)"
proof -
  have "py_strip ((''0x'' @ fmt_hex 8 v) @ [char_of (10 :: nat)]) = ''0x'' @ fmt_hex 8 v"
    by (rule py_strip_newline) (rule fmt_hex_not_space)
  moreover have "split_ws (''0x'' @ fmt_hex 8 v) = [''0x'' @ fmt_hex 8 v]"
    by (rule split_ws_word) (simp, rule fmt_hex_not_space)
  ultimately have "parse_word (py_strip ((''0x'' @ fmt_hex 8 v) @ [char_of (10 :: nat)])) = Inr v"
    using py_int16_fmt_hex [OF assms(3), of 8] by (simp only: parse_word_def list.case r_of_option_simps)
  then show ?thesis
    using py_int16_fmt_hex [OF assms(1), of 8] assms(2)
    by (simp add: read32_def run_def m_bind_def m_ret_def m_lift_def ref_devmem_def ref_subproc_def)
qed

lemma board_addrs:
  assumes "0 \<le> a" "a < 5"
  shows "afe_at tap_addr (tap_addr a) = Some a" "afe_at bitslip_addr (bitslip_addr a) = Some a"
    "afe_at spy_addr (spy_addr a) = Some a"
    "afe_at tap_addr (bitslip_addr a) = None" "afe_at tap_addr (spy_addr a) = None"
    "0 \<le> tap_addr a" "0 \<le> bitslip_addr a" "0 \<le> spy_addr a"
    "tap_addr a \<noteq> FRONTEND_CTRL" "tap_addr a \<noteq> FRONTEND_TRIGGER"
    "bitslip_addr a \<noteq> FRONTEND_CTRL" "bitslip_addr a \<noteq> FRONTEND_TRIGGER"
proof -
  show "afe_at tap_addr (tap_addr a) = Some a"
    by (rule afe_at_hit [OF _ assms]) (simp add: tap_addr_def)
  show "afe_at bitslip_addr (bitslip_addr a) = Some a"
    by (rule afe_at_hit [OF _ assms]) (simp add: bitslip_addr_def)
  show "afe_at spy_addr (spy_addr a) = Some a"
    by (rule afe_at_hit [OF _ assms]) (simp add: spy_addr_def SPY_STRIDE_def)
qed (use assms in \<open>auto intro!: afe_at_miss simp: tap_addr_def bitslip_addr_def spy_addr_def frontend_addrs\<close>)

interpretation ref_fe: frontend "ref_devmem eye" board_up b_tap b_slip b_spy "\<lambda>a t s. int (eye a t s)" for eye
proof (unfold_locales, goal_cases)
  case (1 s v)
  then show ?case by (subst devmem_write) (auto simp: frontend_addrs board_write_def board_up_def)
next
  case (2 s v)
  then show ?case by (subst devmem_write) (auto simp: frontend_addrs board_write_def board_up_def)
next
  case (3 s afe v)
  then show ?case by (simp add: devmem_write board_addrs board_write_def board_up_def)
next
  case (4 s afe v)
  then show ?case by (simp add: devmem_write board_addrs board_write_def board_up_def)
next
  case (5 s)
  then show ?case
    unfolding trigger_spy_def
    by (subst devmem_write) (auto simp: frontend_addrs board_write_def board_up_def)
next
  case (6 s afe)
  then show ?case by (intro devmem_read) (simp_all add: board_addrs board_read_def board_up_def)
next
  case (7 s afe)
  then show ?case
    by (intro exI [of _ "b_tap s afe"] devmem_read) (simp_all add: board_addrs board_read_def board_up_def)
qed

section \<open>Properties\<close>

text \<open>C8: On every front end whose registers behave as the locale \<open>frontend\<close> says, aligning an AFE
  returns: for some bit slip \<open>sl\<close> in force during the scan, the chosen tap is the middle of the first
  longest window of taps \<open>0..511\<close> over which the frame-clock word is constant, the tap register is left
  there, and the reported bit slip is the first of \<open>0..15\<close> that shows the wanted pattern at that tap
  (and stays programmed), or none when no slip shows it.\<close>

theorem align_one_afe_outcome:
  assumes "frontend env up tap slip spy fclk" and "up s" and "0 \<le> afe" and "afe < 5"
  shows "\<exists>t sl L a b w. align_one_afe env afe s =
             (Inr (a + (b - a) div 2, find (\<lambda>j. fclk afe (a + (b - a) div 2) j = WANT_PATTERN) (py_range 16)), t)
           \<and> up t \<and> best_window (\<lambda>tp. fclk afe tp sl) 511 (L, a, b, w)
           \<and> tap t afe = a + (b - a) div 2
           \<and> (\<forall>j. find (\<lambda>j. fclk afe (a + (b - a) div 2) j = WANT_PATTERN) (py_range 16) = Some j
                \<longrightarrow> slip t afe = j)"
  by (rule frontend.align_one_run [OF assms])

definition example_eye :: "int \<Rightarrow> int \<Rightarrow> int \<Rightarrow> nat" where
  "example_eye afe tp sl =
     (if 100 \<le> tp \<and> tp < 300 then (if sl = 3 then nat WANT_PATTERN else 0x0FF00FF0) else nat tp mod 7)"

definition example_board :: board where
  "example_board = \<lparr>b_tap = (\<lambda>_. 0), b_slip = (\<lambda>_. 0), b_spy = (\<lambda>_. 0)\<rparr>"

theorem align_one_afe_outcome_witness:
  "\<exists>t sl L a b w. align_one_afe (ref_devmem example_eye) 2 example_board =
             (Inr (a + (b - a) div 2,
                find (\<lambda>j. int (example_eye 2 (a + (b - a) div 2) j) = WANT_PATTERN) (py_range 16)), t)
           \<and> board_up t \<and> best_window (\<lambda>tp. int (example_eye 2 tp sl)) 511 (L, a, b, w)
           \<and> b_tap t 2 = a + (b - a) div 2
           \<and> (\<forall>j. find (\<lambda>j. int (example_eye 2 (a + (b - a) div 2) j) = WANT_PATTERN) (py_range 16) = Some j
                \<longrightarrow> b_slip t 2 = j)"
  by (rule align_one_afe_outcome [OF ref_fe.frontend_axioms]) (simp_all add: board_up_def example_board_def)

text \<open>On such a front end no AFE is skipped: the summary lists the five AFEs in order, each with a
  tap of the delay line.\<close>

theorem align_main_covers:
  assumes "frontend env up tap slip spy fclk" and "up s"
  shows "\<exists>rs t. align_main env s = (Inr rs, t) \<and> map fst rs = py_range 5
           \<and> (\<forall>(a, mid, bs) \<in> set rs. 0 \<le> mid \<and> mid < 512)"
proof -
  have "\<exists>rs t. m_map (align_probe env) (py_range 5) s = (Inr rs, t) \<and> up t
       \<and> map fst (concat rs) = py_range 5 \<and> (\<forall>(a, mid, bs) \<in> set (concat rs). 0 \<le> mid \<and> mid < 512)"
    by (rule frontend.align_map_run [OF assms]) simp
  then obtain rs t where r: "m_map (align_probe env) (py_range 5) s = (Inr rs, t)"
      "map fst (concat rs) = py_range 5" "\<forall>(a, mid, bs) \<in> set (concat rs). 0 \<le> mid \<and> mid < 512" by blast
  then have "align_main env s = (Inr (concat rs), t)" by (simp add: align_main_def py_run)
  with r show ?thesis by blast
qed

theorem align_main_covers_witness:
  "\<exists>rs t. align_main (ref_devmem example_eye) example_board = (Inr rs, t) \<and> map fst rs = py_range 5
     \<and> (\<forall>(a, mid, bs) \<in> set rs. 0 \<le> mid \<and> mid < 512)"
  by (rule align_main_covers [OF ref_fe.frontend_axioms]) (simp add: board_up_def example_board_def)

lemma run_no_exit: "(\<And>args. no_exit (subproc env args)) \<Longrightarrow> no_exit (run env args)"
  by (auto simp: run_def intro!: py_no_exit)

lemma register_access_no_exit:
  assumes "\<And>args. no_exit (subproc env args)"
  shows "no_exit (read32 env addr)" "no_exit (write32 env addr v)" "no_exit (read_fclk env afe)"
proof -
  have p: "\<not> is_exit e" if "parse_word out = Inl e" for out e
    using that by (auto simp: parse_word_def r_of_option_def split: list.splits option.splits)
  show r: "no_exit (read32 env addr)" for addr
    unfolding read32_def by (intro py_no_exit run_no_exit assms) (use p in auto)
  show w: "no_exit (write32 env addr v)" for addr v
    unfolding write32_def by (intro py_no_exit run_no_exit assms)
  show "no_exit (read_fclk env afe)"
    unfolding read_fclk_def trigger_spy_def by (intro py_no_exit r w)
qed

lemma bitslip_hunt_no_exit:
  "(\<And>args. no_exit (subproc env args)) \<Longrightarrow> no_exit (bitslip_hunt env afe js)"
  by (induction js) (auto intro!: py_no_exit register_access_no_exit)

lemma align_one_no_exit:
  assumes "\<And>args. no_exit (subproc env args)"
  shows "no_exit (align_one_afe env afe)"
  unfolding align_one_afe_def scan_taps_def Let_def
  by (auto intro!: py_no_exit register_access_no_exit bitslip_hunt_no_exit assms split: prod.split)

lemma align_probe_result:
  assumes "\<And>args. no_exit (subproc env args)"
  shows "\<exists>r t. align_probe env afe s = (Inr r, t) \<and> (r = [] \<or> map fst r = [afe])"
proof -
  let ?m = "m_then (read32 env (tap_addr afe))
              (m_bind (align_one_afe env afe) (\<lambda>(mid, bs). m_ret [(afe, mid, bs)]))"
  have "no_exit ?m"
    by (auto intro!: py_no_exit register_access_no_exit align_one_no_exit assms split: prod.split)
  then show ?thesis
    unfolding align_probe_def
    by (cases "?m s"; cases "fst (?m s)")
       (auto simp: py_run no_exitD, auto simp: py_ok split: prod.splits)
qed

lemma align_map_subseq:
  assumes "\<And>args. no_exit (subproc env args)"
  shows "\<exists>rs t. m_map (align_probe env) afes s = (Inr rs, t) \<and> subseq (map fst (concat rs)) afes"
proof (induction afes arbitrary: s)
  case (Cons a afes)
  have "\<exists>r t. align_probe env a s = (Inr r, t) \<and> (r = [] \<or> map fst r = [a])"
    by (rule align_probe_result) (rule assms)
  then obtain r t where r: "align_probe env a s = (Inr r, t)" "r = [] \<or> map fst r = [a]"
    by (elim exE conjE) (rule that)
  obtain rs u where "m_map (align_probe env) afes t = (Inr rs, u)" "subseq (map fst (concat rs)) afes"
    using Cons.IH [of t] by (elim exE conjE) (rule that)
  moreover from this(2) r(2) have "subseq (map fst (r @ concat rs)) (a # afes)"
    by (elim disjE) (simp_all add: subseq_Cons2 list_emb_Cons)
  ultimately show ?case using r(1) by (simp add: py_run)
qed (simp add: py_run)

text \<open>An AFE whose register accesses fail is skipped without disturbing the others: whatever the
  \<open>devmem\<close> program does (as long as running it does not terminate the interpreter), \<open>main\<close> returns, and
  the summary lists a subsequence of the AFEs \<open>0..4\<close> in order, none of them twice.\<close>

theorem align_main_skips_failures:
  assumes "\<And>args. no_exit (subproc env args)"
  shows "\<exists>rs t. align_main env s = (Inr rs, t) \<and> subseq (map fst rs) (py_range 5)
           \<and> distinct (map fst rs)"
proof -
  obtain rs t where r: "m_map (align_probe env) (py_range 5) s = (Inr rs, t)"
      "subseq (map fst (concat rs)) (py_range 5)"
    using align_map_subseq [of env "py_range 5" s, OF assms] by (elim exE conjE) (rule that)
  have "distinct (py_range 5)" by (simp add: py_range_def distinct_map)
  with r(2) have "distinct (map fst (concat rs))" by (metis distinct_nthsI subseq_conv_nths)
  with r show ?thesis by (auto simp: align_main_def py_run)
qed

text \<open>A \<open>devmem\<close> program that always fails: nothing is aligned.\<close>

definition broken_devmem :: "unit devmem_env" where
  "broken_devmem = \<lparr>devmem = ''/sbin/devmem'', subproc = (\<lambda>args. m_ret (1, '''', ''Bus error''))\<rparr>"

theorem align_main_skips_failures_witness:
  "\<exists>rs t. align_main broken_devmem () = (Inr rs, t) \<and> subseq (map fst rs) (py_range 5) \<and> distinct (map fst rs)"
  by (rule align_main_skips_failures) (simp add: broken_devmem_def py_no_exit)

end
