(* ===== verification/Gpio_Board.thy ===== *)
theory Gpio_Board
  imports Py_Text
begin

text \<open>
  \<open>client/ps_mio_spi_gpio_board.py\<close>: the on-board helper that takes the PS MIO pins of the SPI
  mezzanines as GPIO lines. It works on two kernel interfaces through files only: the GPIO sysfs
  directory and the device-tree overlay directory. The file operations, the \<open>dtc\<close> run, \<open>sleep\<close> and
  \<open>print\<close> are the operations of the environment record \<open>fs_env\<close>.

  The locale \<open>gpio_kernel\<close> is the documented behaviour of the two kernel interfaces on a view of the
  state (which lines are exported, with direction and value, and whether the overlay is applied); the
  client lemmas are proved in it, and \<open>ref_kernel\<close> is a kernel that satisfies it.
\<close>

section \<open>Constants\<close>

definition GPIO_SYSFS :: string where "GPIO_SYSFS = ''/sys/class/gpio''"
definition OVERLAY_ROOT :: string where "OVERLAY_ROOT = ''/sys/kernel/config/device-tree/overlays''"
definition OVERLAY_NAME :: string where "OVERLAY_NAME = ''daphne_psspi_test''"
definition DT_BASE :: string where "DT_BASE = ''/sys/firmware/devicetree/base''"
definition TMP_DTS :: string where "TMP_DTS = ''/tmp/daphne_psspi_disable.dtso''"
definition TMP_DTBO :: string where "TMP_DTBO = ''/tmp/daphne_psspi_disable.dtbo''"

definition MEZZ_PINS :: "(string \<times> (string \<times> int) list) list" where
  "MEZZ_PINS =
    [(''MEZ0'', [(''CS'', 38), (''SCLK'', 39), (''SDO'', 40), (''SDI'', 50)]),
     (''MEZ1'', [(''CS'', 41), (''SCLK'', 42), (''SDO'', 43), (''SDI'', 61)]),
     (''MEZ2'', [(''CS'', 62), (''SCLK'', 63), (''SDO'', 73), (''SDI'', 74)]),
     (''MEZ3'', [(''CS'', 69), (''SCLK'', 68), (''SDO'', 67), (''SDI'', 57)]),
     (''MEZ4'', [(''CS'', 65), (''SCLK'', 64), (''SDO'', 46), (''SDI'', 45)])]"

definition OUTPUT_ROLES :: "string list" where "OUTPUT_ROLES = [''CS'', ''SCLK'', ''SDO'']"
definition INPUT_ROLES :: "string list" where "INPUT_ROLES = [''SDI'']"

definition CONFLICT_NODES :: "string list" where
  "CONFLICT_NODES =
    [''/axi/ethernet@ff0c0000'', ''/axi/usb@ff9d0000'', ''/axi/usb@ff9d0000/usb@fe200000'',
     ''/axi/usb@ff9e0000'', ''/axi/usb@ff9e0000/usb@fe300000'']"

definition EBUSY :: int where "EBUSY = 16"
definition EINVAL :: int where "EINVAL = 22"
definition nl :: char where "nl = char_of (10 :: nat)"
definition dq :: char where "dq = char_of (34 :: nat)"

section \<open>The environment\<close>

record 's fs_env =
  geteuid :: "('s, int) py"
  path_exists :: "string \<Rightarrow> ('s, bool) py"
  write_text :: "string \<Rightarrow> string \<Rightarrow> ('s, unit) py"
  read_text :: "string \<Rightarrow> ('s, string) py"
  copy_bytes :: "string \<Rightarrow> string \<Rightarrow> ('s, unit) py"
  mkdir :: "string \<Rightarrow> ('s, unit) py"
  rmdir :: "string \<Rightarrow> ('s, unit) py"
  run_check :: "string list \<Rightarrow> ('s, unit) py"
  sleep_ms :: "string \<Rightarrow> ('s, unit) py"
  print_line :: "string \<Rightarrow> ('s, unit) py"
  strerror :: "int \<Rightarrow> string"

definition path_join :: "string \<Rightarrow> string \<Rightarrow> string" where
  "path_join p q = p @ ''/'' @ q"

definition ensure_root :: "'s fs_env \<Rightarrow> ('s, unit) py" where
  "ensure_root env = m_bind (geteuid env) (\<lambda>uid. if uid \<noteq> 0 then m_raise (SystemExit 1) else m_ret ())"

definition selected_mezzes :: "string list option \<Rightarrow> string list" where
  "selected_mezzes names = (case names of
       None \<Rightarrow> map fst MEZZ_PINS
     | Some ns \<Rightarrow> if ns = [] then map fst MEZZ_PINS else ns)"

section \<open>The device-tree overlay\<close>

definition overlay_fragment :: "nat \<times> string \<Rightarrow> string list" where
  "overlay_fragment p = (case p of (index, node_path) \<Rightarrow>
     [''    fragment@'' @ int_to_str (int index) @ '' {'',
      ''        target-path = '' @ [dq] @ node_path @ [dq] @ '';'',
      ''        __overlay__ {'',
      ''            status = '' @ [dq] @ ''disabled'' @ [dq] @ '';'',
      ''        };'',
      ''    };'',
      ''''])"

definition overlay_source :: string where
  "overlay_source =
     join_with [nl]
       ([''/dts-v1/;'', ''/plugin/;'', '''', ''/ {'']
        @ concat (map overlay_fragment (enumerate 0 CONFLICT_NODES)) @ [''};'', ''''])"

definition overlay_dir :: string where
  "overlay_dir = path_join OVERLAY_ROOT OVERLAY_NAME"

definition overlay_active :: "'s fs_env \<Rightarrow> ('s, bool) py" where
  "overlay_active env = path_exists env overlay_dir"

definition compile_overlay :: "'s fs_env \<Rightarrow> ('s, unit) py" where
  "compile_overlay env =
     m_then (write_text env TMP_DTS overlay_source)
       (run_check env [''dtc'', ''-@'', ''-I'', ''dts'', ''-O'', ''dtb'', ''-o'', TMP_DTBO, TMP_DTS])"

text \<open>The handler removes the directory again, ignores an \<open>OSError\<close> of that, and re-raises.\<close>

fun is_oserror :: "exn \<Rightarrow> bool" where
  "is_oserror (OSError n) = True"
| "is_oserror _ = False"

definition apply_overlay :: "'s fs_env \<Rightarrow> ('s, unit) py" where
  "apply_overlay env =
     m_bind (overlay_active env) (\<lambda>active.
     if active then m_ret ()
     else
       m_then (compile_overlay env)
       (m_then (mkdir env overlay_dir)
         (m_except (copy_bytes env TMP_DTBO (path_join overlay_dir ''dtbo''))
           (\<lambda>e. m_then
              (m_try (rmdir env overlay_dir) (\<lambda>e2. if is_oserror e2 then m_ret () else m_raise e2))
              (m_raise e)))))"

definition remove_overlay :: "'s fs_env \<Rightarrow> ('s, unit) py" where
  "remove_overlay env =
     m_bind (overlay_active env) (\<lambda>active. if \<not> active then m_ret () else rmdir env overlay_dir)"

section \<open>GPIO lines\<close>

definition gpio_path :: "int \<Rightarrow> string" where
  "gpio_path line = path_join GPIO_SYSFS (''gpio'' @ int_to_str line)"

definition export_gpio :: "'s fs_env \<Rightarrow> int \<Rightarrow> ('s, unit) py" where
  "export_gpio env line =
     m_try (write_text env (path_join GPIO_SYSFS ''export'') (int_to_str line @ [nl]))
       (\<lambda>e. case e of OSError n \<Rightarrow> if n \<noteq> EBUSY then m_raise e else m_ret () | _ \<Rightarrow> m_raise e)"

definition unexport_gpio :: "'s fs_env \<Rightarrow> int \<Rightarrow> ('s, unit) py" where
  "unexport_gpio env line =
     m_bind (path_exists env (gpio_path line)) (\<lambda>there.
     if \<not> there then m_ret ()
     else m_try (write_text env (path_join GPIO_SYSFS ''unexport'') (int_to_str line @ [nl]))
       (\<lambda>e. case e of OSError n \<Rightarrow> if n \<noteq> EINVAL then m_raise e else m_ret () | _ \<Rightarrow> m_raise e))"

definition set_direction :: "'s fs_env \<Rightarrow> int \<Rightarrow> string \<Rightarrow> ('s, unit) py" where
  "set_direction env line direction =
     write_text env (path_join (gpio_path line) ''direction'') (direction @ [nl])"

definition set_value :: "'s fs_env \<Rightarrow> int \<Rightarrow> int \<Rightarrow> ('s, unit) py" where
  "set_value env line value =
     write_text env (path_join (gpio_path line) ''value'') (int_to_str value @ [nl])"

definition read_value :: "'s fs_env \<Rightarrow> int \<Rightarrow> ('s, string) py" where
  "read_value env line =
     m_bind (read_text env (path_join (gpio_path line) ''value'')) (\<lambda>t. m_ret (py_strip t))"

definition read_direction :: "'s fs_env \<Rightarrow> int \<Rightarrow> ('s, string) py" where
  "read_direction env line =
     m_bind (read_text env (path_join (gpio_path line) ''direction'')) (\<lambda>t. m_ret (py_strip t))"

definition dict_index :: "('k \<times> 'v) list \<Rightarrow> 'k \<Rightarrow> ('s, 'v) py" where
  "dict_index d k = m_lift (r_of_option KeyError (map_of d k))"

definition claim_mezz :: "'s fs_env \<Rightarrow> string \<Rightarrow> ('s, unit) py" where
  "claim_mezz env mezz =
     m_bind (dict_index MEZZ_PINS mezz) (\<lambda>pins.
     m_then
       (m_for OUTPUT_ROLES (\<lambda>role. m_bind (dict_index pins role) (\<lambda>line.
          m_then (export_gpio env line)
            (m_then (set_direction env line ''out'') (set_value env line 0)))))
       (m_for INPUT_ROLES (\<lambda>role. m_bind (dict_index pins role) (\<lambda>line.
          m_then (export_gpio env line) (set_direction env line ''in'')))))"

definition release_mezz :: "'s fs_env \<Rightarrow> string \<Rightarrow> ('s, unit) py" where
  "release_mezz env mezz =
     m_bind (dict_index MEZZ_PINS mezz) (\<lambda>pins. m_for (map snd pins) (unexport_gpio env))"

definition pulse_line :: "'s fs_env \<Rightarrow> int \<Rightarrow> int \<Rightarrow> string \<Rightarrow> ('s, unit) py" where
  "pulse_line env line count delay =
     m_then (set_value env line 0)
       (m_for (py_range (nat count)) (\<lambda>_.
          m_then (set_value env line 1)
          (m_then (sleep_ms env delay)
          (m_then (set_value env line 0) (sleep_ms env delay)))))"

section \<open>Status\<close>

definition read_dt_string :: "'s fs_env \<Rightarrow> string \<Rightarrow> string \<Rightarrow> ('s, string) py" where
  "read_dt_string env node_path prop =
     (let path = path_join (path_join DT_BASE (dropWhile (\<lambda>c. c = CHR ''/'') node_path)) prop in
      m_bind (path_exists env path) (\<lambda>there.
      if \<not> there then m_ret ''<missing>''
      else m_bind (read_text env path) (\<lambda>raw. m_ret (takeWhile (\<lambda>c. c \<noteq> char_of (0 :: nat)) raw))))"

definition rjust :: "nat \<Rightarrow> string \<Rightarrow> string" where
  "rjust w s = replicate (w - length s) CHR '' '' @ s"

definition line_status :: "'s fs_env \<Rightarrow> int \<Rightarrow> ('s, string) py" where
  "line_status env line =
     m_bind (path_exists env (gpio_path line)) (\<lambda>there.
     if there then
       m_try (m_bind (read_direction env line) (\<lambda>direction.
              m_bind (read_value env line) (\<lambda>value.
              m_ret (''exported direction='' @ direction @ '' value='' @ value))))
         (\<lambda>e. case e of OSError n \<Rightarrow> m_ret (''exported unreadable errno='' @ int_to_str n @ '' ('' @ strerror env n @ '')'') | _ \<Rightarrow> m_raise e)
     else m_ret ''not-exported'')"

definition print_status :: "'s fs_env \<Rightarrow> string list \<Rightarrow> ('s, unit) py" where
  "print_status env mezzes =
     m_bind (overlay_active env) (\<lambda>active.
     m_then (print_line env (''overlay_active='' @ bool_str active))
     (m_then
       (m_for CONFLICT_NODES (\<lambda>node_path. m_bind (read_dt_string env node_path ''status'') (\<lambda>st.
          print_line env (node_path @ '': status='' @ st))))
       (m_for mezzes (\<lambda>mezz.
          m_then (print_line env (''['' @ mezz @ '']''))
          (m_bind (dict_index MEZZ_PINS mezz) (\<lambda>pins.
           m_for pins (\<lambda>(role, line). m_bind (line_status env line) (\<lambda>state.
             print_line env (''  '' @ rjust 4 role @ '' gpio'' @ int_to_str line @ '': '' @ state)))))))))"

section \<open>Commands\<close>

record smoke_args =
  sm_mezz :: "string list option"
  pulse_role :: "string list"
  pulse_count :: int
  pulse_delay_ms :: string
  keep_lines :: bool
  keep_overlay :: bool

datatype gpio_command =
    ApplyOverlay
  | RemoveOverlay "string list option"
  | Status "string list option"
  | Smoketest smoke_args


text \<open>The \<open>choices\<close> of the parser.\<close>

definition mezz_choice :: "string list option \<Rightarrow> bool" where
  "mezz_choice ns = (case ns of None \<Rightarrow> True | Some xs \<Rightarrow> list_all (\<lambda>n. map_of MEZZ_PINS n \<noteq> None) xs)"

definition parser_admits :: "gpio_command \<Rightarrow> bool" where
  "parser_admits cmd = (case cmd of
       ApplyOverlay \<Rightarrow> True
     | RemoveOverlay ns \<Rightarrow> mezz_choice ns
     | Status ns \<Rightarrow> mezz_choice ns
     | Smoketest a \<Rightarrow> mezz_choice (sm_mezz a) \<and> list_all (\<lambda>r. r \<in> set OUTPUT_ROLES) (pulse_role a))"

definition do_apply_overlay :: "'s fs_env \<Rightarrow> ('s, int) py" where
  "do_apply_overlay env =
     m_then (apply_overlay env) (m_then (print_status env (map fst MEZZ_PINS)) (m_ret 0))"

definition do_remove_overlay :: "'s fs_env \<Rightarrow> string list option \<Rightarrow> ('s, int) py" where
  "do_remove_overlay env mezz =
     m_then (m_for (selected_mezzes mezz) (release_mezz env))
     (m_then (remove_overlay env)
     (m_then (print_status env (selected_mezzes mezz)) (m_ret 0)))"

definition do_status :: "'s fs_env \<Rightarrow> string list option \<Rightarrow> ('s, int) py" where
  "do_status env mezz = m_then (print_status env (selected_mezzes mezz)) (m_ret 0)"

definition do_smoketest :: "'s fs_env \<Rightarrow> smoke_args \<Rightarrow> ('s, int) py" where
  "do_smoketest env args =
     (let mezzes = selected_mezzes (sm_mezz args) in
      m_then (apply_overlay env)
      (m_then (m_for mezzes (claim_mezz env))
      (m_then (m_for mezzes (\<lambda>mezz. m_bind (dict_index MEZZ_PINS mezz) (\<lambda>pins.
          m_for (pulse_role args) (\<lambda>role. m_bind (dict_index pins role) (\<lambda>line.
            pulse_line env line (pulse_count args) (pulse_delay_ms args))))))
      (m_then (print_status env mezzes)
      (m_then (m_when (\<not> keep_lines args) (m_for mezzes (release_mezz env)))
      (m_then (m_when (\<not> keep_overlay args) (remove_overlay env))
      (m_ret 0)))))))"

definition gpio_main :: "'s fs_env \<Rightarrow> gpio_command \<Rightarrow> ('s, int) py" where
  "gpio_main env cmd =
     m_then (ensure_root env)
       (case cmd of
          ApplyOverlay \<Rightarrow> do_apply_overlay env
        | RemoveOverlay mezz \<Rightarrow> do_remove_overlay env mezz
        | Status mezz \<Rightarrow> do_status env mezz
        | Smoketest args \<Rightarrow> do_smoketest env args)"

section \<open>The pins of the mezzanines\<close>

definition ALL_LINES :: "int list" where
  "ALL_LINES = map snd (concat (map snd MEZZ_PINS))"

definition mezz_lines :: "string \<Rightarrow> int set" where
  "mezz_lines m = (case map_of MEZZ_PINS m of None \<Rightarrow> {} | Some pins \<Rightarrow> snd ` set pins)"

definition lines_of :: "string list \<Rightarrow> int set" where
  "lines_of mezzes = (\<Union>m \<in> set mezzes. mezz_lines m)"

lemma all_lines_distinct: "distinct ALL_LINES"
  by (simp add: ALL_LINES_def MEZZ_PINS_def)

lemma mezz_pins_shape:
  assumes "map_of MEZZ_PINS m = Some pins"
  obtains a b c d where "pins = [(''CS'', a), (''SCLK'', b), (''SDO'', c), (''SDI'', d)]"
    "distinct [a, b, c, d]" "set [a, b, c, d] \<subseteq> set ALL_LINES"
  using assms by (auto simp: MEZZ_PINS_def ALL_LINES_def split: if_splits)

lemma mezz_pin_line: "map_of MEZZ_PINS m = Some pins \<Longrightarrow> (r, n) \<in> set pins \<Longrightarrow> n \<in> set ALL_LINES"
  unfolding ALL_LINES_def by (drule map_of_SomeD) force

section \<open>What the kernel interfaces promise\<close>

datatype gline = In | Out int

text \<open>
  The view of the state: the exported lines and whether the overlay is applied. Exporting a free line
  leaves its direction open; a busy line answers \<open>EBUSY\<close>; direction \<open>out\<close> drives the line low; a value
  can be written to an output only.
\<close>

type_synonym gview = "(int \<Rightarrow> gline option) \<times> bool"

text \<open>The effect of claiming and of releasing a mezzanine on the view.\<close>

definition claim_view :: "string \<Rightarrow> gview \<Rightarrow> gview" where
  "claim_view m g = (case map_of MEZZ_PINS m of
       None \<Rightarrow> g
     | Some pins \<Rightarrow> (fold (\<lambda>(role, n) l. l(n \<mapsto> (if role \<in> set OUTPUT_ROLES then Out 0 else In))) pins (fst g), snd g))"

definition release_view :: "string \<Rightarrow> gview \<Rightarrow> gview" where
  "release_view m g = (case map_of MEZZ_PINS m of
       None \<Rightarrow> g
     | Some pins \<Rightarrow> fold (\<lambda>n h. ((fst h)(n := None), snd h)) (map snd pins) g)"

text \<open>The state a claimed line is left in: outputs driven low, the input line an input.\<close>

definition claimed :: "int \<Rightarrow> gline" where
  "claimed n =
     (if n \<in> set (map snd (filter (\<lambda>p. fst p \<in> set OUTPUT_ROLES) (concat (map snd MEZZ_PINS)))) then Out 0 else In)"

lemma claimed_pins:
  "list_all (\<lambda>mp. list_all (\<lambda>p. claimed (snd p) = (if fst p \<in> set OUTPUT_ROLES then Out 0 else In)) (snd mp)) MEZZ_PINS"
  by (simp add: MEZZ_PINS_def claimed_def OUTPUT_ROLES_def)

lemma claimed_pin:
  "map_of MEZZ_PINS m = Some pins \<Longrightarrow> (r, n) \<in> set pins \<Longrightarrow>
     claimed n = (if r \<in> set OUTPUT_ROLES then Out 0 else In)"
  using claimed_pins by (fastforce simp: list_all_iff dest: map_of_SomeD)

lemma claimed_output:
  assumes "map_of MEZZ_PINS m = Some pins" "r \<in> set OUTPUT_ROLES"
  shows "\<exists>n. map_of pins r = Some n \<and> claimed n = Out 0"
proof -
  obtain a b c d where "pins = [(''CS'', a), (''SCLK'', b), (''SDO'', c), (''SDI'', d)]"
    using mezz_pins_shape [OF assms(1)] .
  then obtain n where n: "map_of pins r = Some n" using assms(2) by (auto simp: OUTPUT_ROLES_def)
  then show ?thesis using claimed_pin [OF assms(1), of r n] assms(2) by (simp add: map_of_SomeD)
qed

lemma fold_pins:
  "(\<And>r n. (r, n) \<in> set pins \<Longrightarrow> F r = c n) \<Longrightarrow>
     fold (\<lambda>(role, n) l. l(n \<mapsto> F role)) pins l = (\<lambda>n. if n \<in> snd ` set pins then Some (c n) else l n)"
proof (induction pins arbitrary: l)
  case (Cons p pins)
  obtain r n where p: "p = (r, n)" by (cases p)
  have e: "F r = c n" using Cons.prems p by simp
  have IH: "fold (\<lambda>(role, n) l. l(n \<mapsto> F role)) pins l' =
      (\<lambda>n. if n \<in> snd ` set pins then Some (c n) else l' n)" for l'
    by (rule Cons.IH) (simp add: Cons.prems)
  show ?case unfolding p fold.simps o_apply prod.case IH e by (rule ext) auto
qed simp

lemma claim_view_eq:
  assumes "map_of MEZZ_PINS m \<noteq> None"
  shows "claim_view m g = ((\<lambda>n. if n \<in> mezz_lines m then Some (claimed n) else fst g n), snd g)"
proof -
  obtain pins where m: "map_of MEZZ_PINS m = Some pins" using assms by blast
  have "fold (\<lambda>(role, n) l. l(n \<mapsto> (if role \<in> set OUTPUT_ROLES then Out 0 else In))) pins (fst g) =
      (\<lambda>n. if n \<in> snd ` set pins then Some (claimed n) else fst g n)"
    by (rule fold_pins) (use claimed_pin [OF m] in simp)
  with m show ?thesis by (simp add: claim_view_def mezz_lines_def)
qed

lemma release_view_eq:
  assumes "map_of MEZZ_PINS m \<noteq> None"
  shows "release_view m g = ((\<lambda>n. if n \<in> mezz_lines m then None else fst g n), snd g)"
proof -
  obtain pins where m: "map_of MEZZ_PINS m = Some pins" using assms by blast
  have "fold (\<lambda>n h. ((fst h)(n := None), snd h)) ns g = ((\<lambda>n. if n \<in> set ns then None else fst g n), snd g)" for ns
    by (induction ns arbitrary: g) (auto simp: fun_eq_iff)
  with m show ?thesis by (simp add: release_view_def mezz_lines_def)
qed

lemma fold_claim:
  "list_all (\<lambda>m. map_of MEZZ_PINS m \<noteq> None) ms \<Longrightarrow>
     fold claim_view ms g = ((\<lambda>n. if n \<in> lines_of ms then Some (claimed n) else fst g n), snd g)"
  by (induction ms arbitrary: g) (auto simp: claim_view_eq lines_of_def fun_eq_iff)

lemma fold_release:
  "list_all (\<lambda>m. map_of MEZZ_PINS m \<noteq> None) ms \<Longrightarrow>
     fold release_view ms g = ((\<lambda>n. if n \<in> lines_of ms then None else fst g n), snd g)"
  by (induction ms arbitrary: g) (auto simp: release_view_eq lines_of_def fun_eq_iff)

locale gpio_kernel =
  fixes env :: "'s fs_env" and ready :: "'s \<Rightarrow> bool" and view :: "'s \<Rightarrow> gview"
  assumes k_export_free: "ready s \<Longrightarrow> n \<in> set ALL_LINES \<Longrightarrow> fst (view s) n = None \<Longrightarrow>
      \<exists>t x. write_text env (path_join GPIO_SYSFS ''export'') (int_to_str n @ [nl]) s = (Inr (), t) \<and> ready t
        \<and> view t = ((fst (view s))(n \<mapsto> x), snd (view s))"
    and k_export_busy: "ready s \<Longrightarrow> n \<in> set ALL_LINES \<Longrightarrow> fst (view s) n \<noteq> None \<Longrightarrow>
      write_text env (path_join GPIO_SYSFS ''export'') (int_to_str n @ [nl]) s = (Inl (OSError EBUSY), s)"
    and k_exists: "ready s \<Longrightarrow> n \<in> set ALL_LINES \<Longrightarrow>
      path_exists env (gpio_path n) s = (Inr (fst (view s) n \<noteq> None), s)"
    and k_unexport: "ready s \<Longrightarrow> n \<in> set ALL_LINES \<Longrightarrow> fst (view s) n \<noteq> None \<Longrightarrow>
      \<exists>t. write_text env (path_join GPIO_SYSFS ''unexport'') (int_to_str n @ [nl]) s = (Inr (), t) \<and> ready t
        \<and> view t = ((fst (view s))(n := None), snd (view s))"
    and k_out: "ready s \<Longrightarrow> n \<in> set ALL_LINES \<Longrightarrow> fst (view s) n \<noteq> None \<Longrightarrow>
      \<exists>t. write_text env (path_join (gpio_path n) ''direction'') (''out'' @ [nl]) s = (Inr (), t) \<and> ready t
        \<and> view t = ((fst (view s))(n \<mapsto> Out 0), snd (view s))"
    and k_in: "ready s \<Longrightarrow> n \<in> set ALL_LINES \<Longrightarrow> fst (view s) n \<noteq> None \<Longrightarrow>
      \<exists>t. write_text env (path_join (gpio_path n) ''direction'') (''in'' @ [nl]) s = (Inr (), t) \<and> ready t
        \<and> view t = ((fst (view s))(n \<mapsto> In), snd (view s))"
    and k_value: "ready s \<Longrightarrow> n \<in> set ALL_LINES \<Longrightarrow> fst (view s) n = Some (Out w) \<Longrightarrow> v = 0 \<or> v = 1 \<Longrightarrow>
      \<exists>t. write_text env (path_join (gpio_path n) ''value'') (int_to_str v @ [nl]) s = (Inr (), t) \<and> ready t
        \<and> view t = ((fst (view s))(n \<mapsto> Out v), snd (view s))"
    and k_attr: "ready s \<Longrightarrow> n \<in> set ALL_LINES \<Longrightarrow> fst (view s) n \<noteq> None \<Longrightarrow>
      att = ''direction'' \<or> att = ''value'' \<Longrightarrow>
      \<exists>x. read_text env (path_join (gpio_path n) att) s = (Inr x, s)"
    and k_overlay: "ready s \<Longrightarrow> path_exists env overlay_dir s = (Inr (snd (view s)), s)"
    and k_dts: "ready s \<Longrightarrow> \<exists>t. write_text env TMP_DTS x s = (Inr (), t) \<and> ready t \<and> view t = view s"
    and k_dtc: "ready s \<Longrightarrow> \<exists>t. run_check env cmd s = (Inr (), t) \<and> ready t \<and> view t = view s"
    and k_mkdir: "ready s \<Longrightarrow> \<not> snd (view s) \<Longrightarrow>
      \<exists>t. mkdir env overlay_dir s = (Inr (), t) \<and> ready t \<and> view t = (fst (view s), True)"
    and k_dtbo: "ready s \<Longrightarrow> snd (view s) \<Longrightarrow>
      \<exists>t. copy_bytes env TMP_DTBO (path_join overlay_dir ''dtbo'') s = (Inr (), t) \<and> ready t \<and> view t = view s"
    and k_rmdir: "ready s \<Longrightarrow> snd (view s) \<Longrightarrow>
      \<exists>t. rmdir env overlay_dir s = (Inr (), t) \<and> ready t \<and> view t = (fst (view s), False)"
    and k_sleep: "ready s \<Longrightarrow> \<exists>t. sleep_ms env d s = (Inr (), t) \<and> ready t \<and> view t = view s"
    and k_print: "ready s \<Longrightarrow> \<exists>t. print_line env l s = (Inr (), t) \<and> ready t \<and> view t = view s"
    and k_dt: "ready s \<Longrightarrow> \<exists>x. read_dt_string env node_path ''status'' s = (Inr x, s)"
begin

abbreviation tr :: "(gview \<Rightarrow> bool) \<Rightarrow> ('s, 'a) py \<Rightarrow> ('a \<Rightarrow> gview \<Rightarrow> bool) \<Rightarrow> bool" where
  "tr \<equiv> triple ready view"

lemma tr_stable: "(\<And>s. ready s \<Longrightarrow> \<exists>a t. m s = (Inr a, t) \<and> ready t \<and> view t = view s) \<Longrightarrow> tr Q m (\<lambda>_. Q)"
  unfolding triple_def by metis

lemma wp_export [wp]:
  assumes "n \<in> set ALL_LINES"
  shows "tr (\<lambda>g. \<forall>x. Q () ((fst g)(n \<mapsto> x), snd g)) (export_gpio env n) Q"
  unfolding triple_def
proof (intro allI impI)
  fix s assume s: "ready s" and q: "\<forall>x. Q () ((fst (view s))(n \<mapsto> x), snd (view s))"
  show "\<exists>a t. export_gpio env n s = (Inr a, t) \<and> ready t \<and> Q a (view t)"
  proof (cases "fst (view s) n")
    case None
    obtain t x where "write_text env (path_join GPIO_SYSFS ''export'') (int_to_str n @ [nl]) s = (Inr (), t)"
      "ready t" "view t = ((fst (view s))(n \<mapsto> x), snd (view s))"
      using k_export_free [OF s assms None] by blast
    with q show ?thesis by (simp add: export_gpio_def py_run)
  next
    case (Some x)
    then have "export_gpio env n s = (Inr (), s)"
      using k_export_busy [OF s assms] by (simp add: export_gpio_def py_run)
    moreover have "((fst (view s))(n \<mapsto> x), snd (view s)) = view s"
      using Some by (simp add: map_upd_triv)
    ultimately show ?thesis using q s by metis
  qed
qed

lemma wp_unexport [wp]:
  assumes "n \<in> set ALL_LINES"
  shows "tr (\<lambda>g. Q () ((fst g)(n := None), snd g)) (unexport_gpio env n) Q"
  unfolding triple_def
proof (intro allI impI)
  fix s assume s: "ready s" and q: "Q () ((fst (view s))(n := None), snd (view s))"
  show "\<exists>a t. unexport_gpio env n s = (Inr a, t) \<and> ready t \<and> Q a (view t)"
  proof (cases "fst (view s) n")
    case None
    then have "unexport_gpio env n s = (Inr (), s)"
      using k_exists [OF s assms] by (simp add: unexport_gpio_def m_bind_def m_ret_def)
    moreover have "((fst (view s))(n := None), snd (view s)) = view s"
      using None by (simp add: fun_upd_idem)
    ultimately show ?thesis using s q by metis
  next
    case (Some x)
    then obtain t where "write_text env (path_join GPIO_SYSFS ''unexport'') (int_to_str n @ [nl]) s = (Inr (), t)"
      "ready t" "view t = ((fst (view s))(n := None), snd (view s))"
      using k_unexport [OF s assms] by auto
    with q Some show ?thesis by (simp add: unexport_gpio_def k_exists [OF s assms] py_run)
  qed
qed

lemma wp_direction [wp]:
  "n \<in> set ALL_LINES \<Longrightarrow>
     tr (\<lambda>g. fst g n \<noteq> None \<and> Q () ((fst g)(n \<mapsto> Out 0), snd g)) (set_direction env n ''out'') Q"
  "n \<in> set ALL_LINES \<Longrightarrow>
     tr (\<lambda>g. fst g n \<noteq> None \<and> Q () ((fst g)(n \<mapsto> In), snd g)) (set_direction env n ''in'') Q"
  unfolding triple_def set_direction_def by (metis k_out, metis k_in)

lemma wp_value [wp]:
  "n \<in> set ALL_LINES \<Longrightarrow> v = 0 \<or> v = 1 \<Longrightarrow>
     tr (\<lambda>g. (\<exists>w. fst g n = Some (Out w)) \<and> Q () ((fst g)(n \<mapsto> Out v), snd g)) (set_value env n v) Q"
  unfolding triple_def set_value_def by (metis k_value)

lemma wp_quiet [wp]: "tr (Q ()) (sleep_ms env d) Q" "tr (Q ()) (print_line env l) Q"
  unfolding triple_def by (metis k_sleep, metis k_print)

subsection \<open>The operations as functions on the view\<close>

lemma wp_read_status [wp]: "n \<in> set ALL_LINES \<Longrightarrow> tr Q (line_status env n) (\<lambda>_. Q)"
proof (rule tr_stable)
  fix s assume n: "n \<in> set ALL_LINES" and s: "ready s"
  have "\<exists>x. line_status env n s = (Inr x, s)"
  proof (cases "fst (view s) n")
    case None
    then show ?thesis
      using k_exists [OF s n] by (simp add: line_status_def m_bind_def m_ret_def)
  next
    case (Some l)
    obtain x where x: "read_text env (path_join (gpio_path n) ''direction'') s = (Inr x, s)"
      using k_attr [OF s n, of "''direction''"] Some by auto
    obtain y where y: "read_text env (path_join (gpio_path n) ''value'') s = (Inr y, s)"
      using k_attr [OF s n, of "''value''"] Some by auto
    show ?thesis
      using k_exists [OF s n] Some x y
      by (simp add: line_status_def m_bind_def m_ret_def m_try_def read_direction_def read_value_def)
  qed
  with s show "\<exists>a t. line_status env n s = (Inr a, t) \<and> ready t \<and> view t = view s" by blast
qed

lemma wp_dict [wp]: "map_of d k = Some v \<Longrightarrow> tr (Q v) (dict_index d k) Q"
  by (simp add: dict_index_def triple_def m_lift_def)

lemma wp_status:
  assumes "list_all (\<lambda>m. map_of MEZZ_PINS m \<noteq> None) mezzes"
  shows "tr Q (print_status env mezzes) (\<lambda>_. Q)"
proof -
  have pins: "tr Q (m_for pins (\<lambda>(role, line). m_bind (line_status env line) (\<lambda>state.
      print_line env (''  '' @ rjust 4 role @ '' gpio'' @ int_to_str line @ '': '' @ state)))) (\<lambda>_. Q)"
    if m: "map_of MEZZ_PINS m = Some pins" for m pins
  proof (rule triple_for)
    fix p assume p: "p \<in> set pins"
    obtain role line where e: "p = (role, line)" by (cases p)
    have "line \<in> set ALL_LINES" using mezz_pin_line [OF m] p e by simp
    then show "tr Q (case p of (role, line) \<Rightarrow> m_bind (line_status env line) (\<lambda>state.
        print_line env (''  '' @ rjust 4 role @ '' gpio'' @ int_to_str line @ '': '' @ state))) (\<lambda>_. Q)"
      unfolding e prod.case by (intro triple_bind [where R = "\<lambda>_. Q"] wp_quiet wp_read_status)
  qed
  have "tr Q (m_for mezzes (\<lambda>mezz. m_then (print_line env (''['' @ mezz @ '']''))
          (m_bind (dict_index MEZZ_PINS mezz) (\<lambda>pins.
           m_for pins (\<lambda>(role, line). m_bind (line_status env line) (\<lambda>state.
             print_line env (''  '' @ rjust 4 role @ '' gpio'' @ int_to_str line @ '': '' @ state)))))))
        (\<lambda>_. Q)"
  proof (rule triple_for, rule triple_then)
    fix m assume "m \<in> set mezzes"
    then obtain pins where m: "map_of MEZZ_PINS m = Some pins" using assms by (auto simp: list_all_iff)
    show "tr Q (m_bind (dict_index MEZZ_PINS m) (\<lambda>pins.
           m_for pins (\<lambda>(role, line). m_bind (line_status env line) (\<lambda>state.
             print_line env (''  '' @ rjust 4 role @ '' gpio'' @ int_to_str line @ '': '' @ state)))))
        (\<lambda>_. Q)"
      using pins [OF m] m by (simp add: dict_index_def)
  qed (rule wp_quiet)
  moreover have "tr Q (m_for CONFLICT_NODES (\<lambda>node_path. m_bind (read_dt_string env node_path ''status'')
      (\<lambda>st. print_line env (node_path @ '': status='' @ st)))) (\<lambda>_. Q)"
  proof (rule triple_for, rule triple_bind [where R = "\<lambda>_. Q"])
    show "tr Q (read_dt_string env np ''status'') (\<lambda>_. Q)" for np
      by (rule tr_stable) (use k_dt in blast)
  qed (rule wp_quiet)
  moreover have "tr Q (overlay_active env) (\<lambda>_. Q)"
    unfolding overlay_active_def by (rule tr_stable) (use k_overlay in blast)
  ultimately show ?thesis
    unfolding print_status_def by (intro triple_bind [where R = "\<lambda>_. Q"] triple_then [where R = Q] wp_quiet)
qed

lemma wp_apply_overlay: "tr (\<lambda>g. Q () (fst g, True)) (apply_overlay env) Q"
  unfolding triple_def
proof (intro allI impI)
  fix s assume s: "ready s" and q: "Q () (fst (view s), True)"
  show "\<exists>a t. apply_overlay env s = (Inr a, t) \<and> ready t \<and> Q a (view t)"
  proof (cases "snd (view s)")
    case True
    then have "apply_overlay env s = (Inr (), s)"
      using k_overlay [OF s] by (simp add: apply_overlay_def overlay_active_def m_bind_def m_ret_def)
    with True q s show ?thesis by (metis prod.collapse)
  next
    case False
    obtain t where t: "write_text env TMP_DTS overlay_source s = (Inr (), t)" "ready t" "view t = view s"
      using k_dts [OF s] by blast
    obtain u where u: "run_check env [''dtc'', ''-@'', ''-I'', ''dts'', ''-O'', ''dtb'', ''-o'', TMP_DTBO, TMP_DTS] t
        = (Inr (), u)" "ready u" "view u = view t" using k_dtc [OF t(2)] by blast
    obtain w where w: "mkdir env overlay_dir u = (Inr (), w)" "ready w" "view w = (fst (view u), True)"
      using k_mkdir [OF u(2)] False t(3) u(3) by metis
    then obtain x where x: "copy_bytes env TMP_DTBO (path_join overlay_dir ''dtbo'') w = (Inr (), x)"
        "ready x" "view x = view w" using k_dtbo [OF w(2)] by (metis snd_conv)
    have "apply_overlay env s = (Inr (), x)"
      using False k_overlay [OF s]
      by (simp add: apply_overlay_def overlay_active_def compile_overlay_def m_then_def m_bind_def
          m_except_def m_try_def t u w x)
    with x w u t q show ?thesis by (metis)
  qed
qed

lemma wp_remove_overlay: "tr (\<lambda>g. Q () (fst g, False)) (remove_overlay env) Q"
  unfolding triple_def
proof (intro allI impI)
  fix s assume s: "ready s" and q: "Q () (fst (view s), False)"
  show "\<exists>a t. remove_overlay env s = (Inr a, t) \<and> ready t \<and> Q a (view t)"
  proof (cases "snd (view s)")
    case True
    then obtain t where "rmdir env overlay_dir s = (Inr (), t)" "ready t" "view t = (fst (view s), False)"
      using k_rmdir [OF s] by blast
    with True q show ?thesis
      using k_overlay [OF s] by (simp add: remove_overlay_def overlay_active_def m_bind_def)
  next
    case False
    then have "remove_overlay env s = (Inr (), s)"
      using k_overlay [OF s] by (simp add: remove_overlay_def overlay_active_def m_bind_def m_ret_def)
    with False q s show ?thesis by (metis prod.collapse)
  qed
qed

lemma wp_claim:
  assumes m: "map_of MEZZ_PINS m = Some pins"
  shows "tr (\<lambda>g. Q () (claim_view m g)) (claim_mezz env m) Q"
proof -
  obtain a b c d where p: "pins = [(''CS'', a), (''SCLK'', b), (''SDO'', c), (''SDI'', d)]"
    and dist: "distinct [a, b, c, d]" and lines: "set [a, b, c, d] \<subseteq> set ALL_LINES"
    using mezz_pins_shape [OF m] .
  have out: "tr (\<lambda>g. R () ((fst g)(n \<mapsto> Out 0), snd g))
      (m_then (export_gpio env n) (m_then (set_direction env n ''out'') (set_value env n 0))) R"
    if n: "n \<in> set ALL_LINES" for n R
    by (rule triple_weaken, (rule triple_then wp_direction wp_value wp_export n disjI1 refl)+) simp
  have inp: "tr (\<lambda>g. R () ((fst g)(n \<mapsto> In), snd g))
      (m_then (export_gpio env n) (set_direction env n ''in'')) R" if n: "n \<in> set ALL_LINES" for n R
    by (rule triple_weaken, (rule triple_then wp_direction wp_export n)+) simp
  have code: "claim_mezz env m =
      m_then (m_then (m_then (export_gpio env a) (m_then (set_direction env a ''out'') (set_value env a 0)))
        (m_then (m_then (export_gpio env b) (m_then (set_direction env b ''out'') (set_value env b 0)))
          (m_then (export_gpio env c) (m_then (set_direction env c ''out'') (set_value env c 0)))))
        (m_then (export_gpio env d) (set_direction env d ''in''))"
    by (simp add: claim_mezz_def dict_index_def m p OUTPUT_ROLES_def INPUT_ROLES_def)
  have eff: "claim_view m g = ((fst g)(a \<mapsto> Out 0, b \<mapsto> Out 0, c \<mapsto> Out 0, d \<mapsto> In), snd g)" for g
    by (simp add: claim_view_def m p OUTPUT_ROLES_def)
  show ?thesis
    unfolding code eff
    using lines by (auto intro!: triple_weaken [OF triple_then [OF inp triple_then [OF triple_then [OF out out] out]]])
qed

lemma wp_release:
  assumes m: "map_of MEZZ_PINS m = Some pins"
  shows "tr (\<lambda>g. Q () (release_view m g)) (release_mezz env m) Q"
proof -
  have "tr (\<lambda>g. Q () (fold (\<lambda>n h. ((fst h)(n := None), snd h)) (map snd pins) g))
      (m_for (map snd pins) (unexport_gpio env)) Q"
    by (rule triple_for_fold, rule wp_unexport) (use mezz_pin_line [OF m] in auto)
  then show ?thesis by (simp add: release_mezz_def dict_index_def release_view_def m)
qed

text \<open>A pulse train ends where it started.\<close>

lemma pulse_keeps:
  assumes n: "n \<in> set ALL_LINES" and g: "fst g n = Some (Out 0)"
  shows "tr (\<lambda>h. h = g) (pulse_line env n count delay) (\<lambda>_ h. h = g)"
proof -
  have upd: "((fst g)(n \<mapsto> Out 0), snd g) = g" using g by (simp add: map_upd_triv)
  have one: "tr (\<lambda>h. h = g) (m_then (set_value env n 1) (m_then (sleep_ms env delay)
        (m_then (set_value env n 0) (sleep_ms env delay)))) (\<lambda>_ h. h = g)"
    by (rule triple_weaken, (rule triple_then wp_value wp_quiet n disjI1 disjI2 refl)+) (use g upd in auto)
  have "tr (\<lambda>h. h = g) (set_value env n 0) (\<lambda>_ h. h = g)"
    by (rule triple_weaken, rule wp_value [OF n]) (use g upd in auto)
  then show ?thesis
    unfolding pulse_line_def by (rule triple_then [rotated]) (rule triple_for, rule one)
qed

lemma pulses_keep:
  assumes "list_all (\<lambda>m. map_of MEZZ_PINS m \<noteq> None) mezzes" "list_all (\<lambda>r. r \<in> set OUTPUT_ROLES) roles"
    and g: "\<And>n. n \<in> lines_of mezzes \<Longrightarrow> fst g n = Some (claimed n)"
  shows "tr (\<lambda>h. h = g) (m_for mezzes (\<lambda>mezz. m_bind (dict_index MEZZ_PINS mezz) (\<lambda>pins.
          m_for roles (\<lambda>role. m_bind (dict_index pins role) (\<lambda>line.
            pulse_line env line count delay))))) (\<lambda>_ h. h = g)"
proof (rule triple_for)
  fix m assume m: "m \<in> set mezzes"
  then obtain pins where pins: "map_of MEZZ_PINS m = Some pins" using assms(1) by (auto simp: list_all_iff)
  have "tr (\<lambda>h. h = g) (m_for roles (\<lambda>role. m_bind (dict_index pins role) (\<lambda>line.
      pulse_line env line count delay))) (\<lambda>_ h. h = g)"
  proof (rule triple_for)
    fix r assume "r \<in> set roles"
    then have r: "r \<in> set OUTPUT_ROLES" using assms(2) by (auto simp: list_all_iff)
    then obtain n where n: "map_of pins r = Some n" "claimed n = Out 0"
      using claimed_output [OF pins] by blast
    have "n \<in> set ALL_LINES" using mezz_pin_line [OF pins] n(1) by (auto dest: map_of_SomeD)
    moreover have "n \<in> lines_of mezzes"
      using m pins map_of_SomeD [OF n(1)] by (force simp: lines_of_def mezz_lines_def)
    ultimately have "tr (\<lambda>h. h = g) (pulse_line env n count delay) (\<lambda>_ h. h = g)"
      using pulse_keeps g n(2) by simp
    then show "tr (\<lambda>h. h = g) (m_bind (dict_index pins r) (\<lambda>line. pulse_line env line count delay)) (\<lambda>_ h. h = g)"
      by (simp add: dict_index_def n(1))
  qed
  then show "tr (\<lambda>h. h = g) (m_bind (dict_index MEZZ_PINS m) (\<lambda>pins.
          m_for roles (\<lambda>role. m_bind (dict_index pins role) (\<lambda>line.
            pulse_line env line count delay)))) (\<lambda>_ h. h = g)"
    by (simp add: dict_index_def pins)
qed

lemma smoketest_run:
  assumes s: "ready s" and adm: "parser_admits (Smoketest args)"
  defines "mezzes \<equiv> selected_mezzes (sm_mezz args)"
  shows "\<exists>t. do_smoketest env args s = (Inr 0, t) \<and> ready t
     \<and> view t = ((\<lambda>n. if n \<in> lines_of mezzes
                       then (if keep_lines args then Some (claimed n) else None)
                       else fst (view s) n), keep_overlay args)"
proof -
  have ok: "list_all (\<lambda>m. map_of MEZZ_PINS m \<noteq> None) mezzes"
    using adm by (auto simp: mezzes_def parser_admits_def mezz_choice_def selected_mezzes_def
        list_all_iff map_of_eq_None_iff split: option.splits)
  then have ok': "map_of MEZZ_PINS m \<noteq> None" if "m \<in> set mezzes" for m
    using that by (auto simp: list_all_iff)
  define g where "g = fold claim_view mezzes (fst (view s), True)"
  have gl: "g = ((\<lambda>n. if n \<in> lines_of mezzes then Some (claimed n) else fst (view s) n), True)"
    unfolding g_def fold_claim [OF ok] fst_conv snd_conv by (rule refl)
  let ?Q = "\<lambda>x h. x = 0 \<and> h = (if keep_lines args then fst g else fst (fold release_view mezzes g), keep_overlay args)"
  have claims: "tr (\<lambda>h. R () (fold claim_view mezzes h)) (m_for mezzes (claim_mezz env)) R" for R
  proof (rule triple_for_fold)
    fix m Q assume "m \<in> set mezzes"
    then obtain pins where "map_of MEZZ_PINS m = Some pins" using ok' by blast
    then show "tr (\<lambda>h. Q (claim_view m h)) (claim_mezz env m) (\<lambda>_. Q)" by (rule wp_claim)
  qed
  have rels: "tr (\<lambda>h. R () (fold release_view mezzes h)) (m_for mezzes (release_mezz env)) R" for R
  proof (rule triple_for_fold)
    fix m Q assume "m \<in> set mezzes"
    then obtain pins where "map_of MEZZ_PINS m = Some pins" using ok' by blast
    then show "tr (\<lambda>h. Q (release_view m h)) (release_mezz env m) (\<lambda>_. Q)" by (rule wp_release)
  qed
  have pulses: "tr (\<lambda>h. h = g) (m_for mezzes (\<lambda>mezz. m_bind (dict_index MEZZ_PINS mezz) (\<lambda>pins.
          m_for (pulse_role args) (\<lambda>role. m_bind (dict_index pins role) (\<lambda>line.
            pulse_line env line (pulse_count args) (pulse_delay_ms args)))))) (\<lambda>_ h. h = g)"
    by (rule pulses_keep [OF ok]) (use adm gl in \<open>auto simp: parser_admits_def\<close>)
  have tail: "tr (\<lambda>h. h = g) (m_then (m_when (\<not> keep_lines args) (m_for mezzes (release_mezz env)))
      (m_then (m_when (\<not> keep_overlay args) (remove_overlay env)) (m_ret 0))) ?Q"
    unfolding m_when_def
    by (rule triple_weaken, (rule triple_then triple_if triple_ret wp_remove_overlay rels)+)
       (auto simp: gl fold_release [OF ok])
  have run: "tr (\<lambda>h. h = view s) (do_smoketest env args) ?Q"
    unfolding do_smoketest_def Let_def mezzes_def [symmetric]
    by (rule triple_weaken, rule triple_then [OF triple_then [OF triple_then [OF triple_then
          [OF tail wp_status [OF ok]] pulses] claims] wp_apply_overlay]) (simp add: g_def)
  obtain t where "do_smoketest env args s = (Inr 0, t)" "ready t"
    "view t = (if keep_lines args then fst g else fst (fold release_view mezzes g), keep_overlay args)"
    using tripleD [OF run s refl] by blast
  then show ?thesis using fold_release [OF ok, of g] by (auto simp: gl)
qed

lemma remove_run:
  assumes s: "ready s" and adm: "parser_admits (RemoveOverlay ns)"
  shows "\<exists>t. do_remove_overlay env ns s = (Inr 0, t) \<and> ready t
     \<and> view t = ((\<lambda>n. if n \<in> lines_of (selected_mezzes ns) then None else fst (view s) n), False)"
proof -
  have ok: "list_all (\<lambda>m. map_of MEZZ_PINS m \<noteq> None) (selected_mezzes ns)"
    using adm by (auto simp: parser_admits_def mezz_choice_def selected_mezzes_def
        list_all_iff map_of_eq_None_iff split: option.splits)
  have rels: "tr (\<lambda>h. R () (fold release_view (selected_mezzes ns) h))
      (m_for (selected_mezzes ns) (release_mezz env)) R" for R
  proof (rule triple_for_fold)
    fix m Q assume "m \<in> set (selected_mezzes ns)"
    then obtain pins where "map_of MEZZ_PINS m = Some pins" using ok by (auto simp: list_all_iff)
    then show "tr (\<lambda>h. Q (release_view m h)) (release_mezz env m) (\<lambda>_. Q)" by (rule wp_release)
  qed
  let ?Q = "\<lambda>x h. x = 0 \<and> h = (fst (fold release_view (selected_mezzes ns) (view s)), False)"
  have run: "tr (\<lambda>h. h = view s) (do_remove_overlay env ns) ?Q"
    unfolding do_remove_overlay_def
    by (rule triple_weaken, rule triple_then [OF triple_then [OF triple_then
          [OF triple_ret wp_status [OF ok]] wp_remove_overlay] rels]) simp
  show ?thesis using tripleD [OF run s refl] fold_release [OF ok, of "view s"] by auto
qed

end

section \<open>A reference kernel\<close>

record kernel =
  k_lines :: "int \<Rightarrow> gline option"
  k_ov :: bool
  k_out :: "string list"

definition line_of_path :: "string \<Rightarrow> string \<Rightarrow> int option" where
  "line_of_path att p = find (\<lambda>n. path_join (gpio_path n) att = p) ALL_LINES"

definition kernel_write :: "string \<Rightarrow> string \<Rightarrow> (kernel, unit) py" where
  "kernel_write p x k =
     (if p = path_join GPIO_SYSFS ''export'' then
        (case py_int x of None \<Rightarrow> (Inl (OSError EINVAL), k)
         | Some n \<Rightarrow> if k_lines k n \<noteq> None then (Inl (OSError EBUSY), k)
                     else (Inr (), k\<lparr>k_lines := (k_lines k)(n \<mapsto> In)\<rparr>))
      else if p = path_join GPIO_SYSFS ''unexport'' then
        (case py_int x of None \<Rightarrow> (Inl (OSError EINVAL), k)
         | Some n \<Rightarrow> if k_lines k n = None then (Inl (OSError EINVAL), k)
                     else (Inr (), k\<lparr>k_lines := (k_lines k)(n := None)\<rparr>))
      else case line_of_path ''direction'' p of
        Some n \<Rightarrow> if k_lines k n = None then (Inl (OSError 2), k)
                   else if py_strip x = ''out'' then (Inr (), k\<lparr>k_lines := (k_lines k)(n \<mapsto> Out 0)\<rparr>)
                   else if py_strip x = ''in'' then (Inr (), k\<lparr>k_lines := (k_lines k)(n \<mapsto> In)\<rparr>)
                   else (Inl (OSError EINVAL), k)
      | None \<Rightarrow> (case line_of_path ''value'' p of
          Some n \<Rightarrow> (case (k_lines k n, py_int x) of
              (Some (Out w), Some v) \<Rightarrow> (Inr (), k\<lparr>k_lines := (k_lines k)(n \<mapsto> Out v)\<rparr>)
            | (None, _) \<Rightarrow> (Inl (OSError 2), k)
            | _ \<Rightarrow> (Inl (OSError 1), k))
        | None \<Rightarrow> (Inr (), k)))"

definition kernel_read :: "string \<Rightarrow> (kernel, string) py" where
  "kernel_read p k =
     (case line_of_path ''direction'' p of
        Some n \<Rightarrow> (case k_lines k n of None \<Rightarrow> (Inl (OSError 2), k)
                   | Some In \<Rightarrow> (Inr (''in'' @ [nl]), k) | Some (Out v) \<Rightarrow> (Inr (''out'' @ [nl]), k))
      | None \<Rightarrow> (case line_of_path ''value'' p of
          Some n \<Rightarrow> (case k_lines k n of None \<Rightarrow> (Inl (OSError 2), k)
                   | Some In \<Rightarrow> (Inr (''1'' @ [nl]), k) | Some (Out v) \<Rightarrow> (Inr (int_to_str v @ [nl]), k))
        | None \<Rightarrow> (Inr ''disabled'', k)))"

definition kernel_exists :: "string \<Rightarrow> (kernel, bool) py" where
  "kernel_exists p k =
     (if p = overlay_dir then (Inr (k_ov k), k)
      else (Inr (\<exists>n \<in> set ALL_LINES. gpio_path n = p \<and> k_lines k n \<noteq> None), k))"

definition ref_kernel :: "kernel fs_env" where
  "ref_kernel = \<lparr>geteuid = m_ret 0, path_exists = kernel_exists, write_text = kernel_write,
     read_text = kernel_read, copy_bytes = (\<lambda>a b. m_ret ()),
     mkdir = (\<lambda>p. m_modify (k_ov_update (\<lambda>_. True))), rmdir = (\<lambda>p. m_modify (k_ov_update (\<lambda>_. False))),
     run_check = (\<lambda>c. m_ret ()), sleep_ms = (\<lambda>d. m_ret ()),
     print_line = (\<lambda>l. m_modify (k_out_update (\<lambda>ls. ls @ [l]))), strerror = (\<lambda>n. ''error'')\<rparr>"

lemma gpio_path_inject [simp]: "gpio_path m = gpio_path n \<longleftrightarrow> m = n"
  by (simp add: gpio_path_def path_join_def)

lemma line_of_path_hit: "n \<in> set ALL_LINES \<Longrightarrow> line_of_path att (path_join (gpio_path n) att) = Some n"
proof -
  assume n: "n \<in> set ALL_LINES"
  then have "line_of_path att (path_join (gpio_path n) att) \<noteq> None"
    by (auto simp: line_of_path_def find_None_iff)
  then show ?thesis by (auto simp: line_of_path_def find_Some_iff path_join_def)
qed

lemma path_last: "att \<noteq> [] \<Longrightarrow> last (path_join p att) = last att"
  by (simp add: path_join_def)

lemma line_of_path_miss:
  "att \<noteq> [] \<Longrightarrow> last p \<noteq> last att \<Longrightarrow> line_of_path att p = None"
  by (auto simp: line_of_path_def find_None_iff path_last)

lemma attr_path_neq:
  "att = ''direction'' \<or> att = ''value'' \<Longrightarrow> b = ''export'' \<or> b = ''unexport'' \<Longrightarrow>
     path_join (gpio_path n) att \<noteq> path_join GPIO_SYSFS b"
  using path_last [of att "gpio_path n"] path_last [of b GPIO_SYSFS] by auto

lemma gpio_path_not_overlay: "gpio_path n \<noteq> overlay_dir"
  by (simp add: gpio_path_def overlay_dir_def path_join_def GPIO_SYSFS_def OVERLAY_ROOT_def)

lemma direction_text [simp]: "py_strip (''out'' @ [nl]) = ''out''" "py_strip (''in'' @ [nl]) = ''in''"
  by (simp_all add: py_strip_def is_space_def nl_def)

interpretation ref_gpio: gpio_kernel ref_kernel "\<lambda>k. True" "\<lambda>k. (k_lines k, k_ov k)"
proof (unfold_locales, goal_cases)
  case (1 s n)
  then show ?case by (auto simp: ref_kernel_def kernel_write_def nl_def)
next
  case (2 s n)
  then show ?case by (auto simp: ref_kernel_def kernel_write_def nl_def)
next
  case (3 s n)
  then show ?case by (auto simp: ref_kernel_def kernel_exists_def gpio_path_not_overlay)
next
  case (4 s n)
  then show ?case by (auto simp: ref_kernel_def kernel_write_def nl_def path_join_def)
next
  case (5 s n)
  then show ?case
    by (auto simp: ref_kernel_def kernel_write_def attr_path_neq line_of_path_hit simp del: append.simps)
next
  case (6 s n)
  then show ?case
    by (auto simp: ref_kernel_def kernel_write_def attr_path_neq line_of_path_hit simp del: append.simps)
next
  case (7 s n w v)
  have "line_of_path ''direction'' (path_join (gpio_path n) ''value'') = None"
    by (rule line_of_path_miss) (simp_all add: path_last)
  with 7 show ?case by (auto simp: ref_kernel_def kernel_write_def attr_path_neq line_of_path_hit nl_def)
next
  case (8 s n att)
  have "line_of_path ''direction'' (path_join (gpio_path n) ''value'') = None"
    by (rule line_of_path_miss) (simp_all add: path_last)
  with 8 show ?case by (auto simp: ref_kernel_def kernel_read_def line_of_path_hit split: gline.split)
next
  case (9 s)
  show ?case by (simp add: ref_kernel_def kernel_exists_def)
next
  case (10 s x)
  have "line_of_path ''direction'' TMP_DTS = None" "line_of_path ''value'' TMP_DTS = None"
    by (rule line_of_path_miss; simp add: TMP_DTS_def)+
  then show ?case
    by (simp add: ref_kernel_def kernel_write_def) (simp add: TMP_DTS_def path_join_def GPIO_SYSFS_def)
next
  case (17 s node_path)
  let ?p = "path_join (path_join DT_BASE (dropWhile (\<lambda>c. c = CHR ''/'') node_path)) ''status''"
  have l: "last ?p = CHR ''s''" by (simp add: path_last)
  have "line_of_path ''direction'' ?p = None" "line_of_path ''value'' ?p = None"
    using l by (auto intro!: line_of_path_miss)
  then have r: "read_text ref_kernel ?p s = (Inr ''disabled'', s)"
    by (simp add: ref_kernel_def kernel_read_def)
  have "\<exists>b. kernel_exists p s = (Inr b, s)" for p by (simp add: kernel_exists_def)
  then obtain b where "path_exists ref_kernel ?p s = (Inr b, s)" by (auto simp: ref_kernel_def)
  with r show ?case by (cases b) (simp_all add: read_dt_string_def Let_def m_bind_def m_ret_def)
qed (auto simp: ref_kernel_def py_run)

section \<open>Properties\<close>



definition example_kernel :: kernel where
  "example_kernel = \<lparr>k_lines = [38 \<mapsto> In, 99 \<mapsto> Out 1], k_ov = True, k_out = []\<rparr>"


text \<open>\<open>remove-overlay\<close> returns 0, releases every line of the selected mezzanines whether or not it
  was exported, keeps every other line and leaves the overlay removed.\<close>

theorem remove_overlay_outcome:
  assumes "gpio_kernel env ready view" and "ready s" and "parser_admits (RemoveOverlay ns)"
  shows "\<exists>t. do_remove_overlay env ns s = (Inr 0, t) \<and> ready t
     \<and> view t = ((\<lambda>n. if n \<in> lines_of (selected_mezzes ns) then None else fst (view s) n), False)"
  by (rule gpio_kernel.remove_run [OF assms])

theorem remove_overlay_outcome_witness:
  "\<exists>t. do_remove_overlay ref_kernel None example_kernel = (Inr 0, t) \<and> True
     \<and> (k_lines t, k_ov t) = ((\<lambda>n. if n \<in> lines_of (selected_mezzes None) then None
          else fst (k_lines example_kernel, k_ov example_kernel) n), False)"
  by (rule remove_overlay_outcome [OF ref_gpio.gpio_kernel_axioms])
     (simp_all add: parser_admits_def mezz_choice_def)

text \<open>A failed overlay load is rolled back: when the overlay is not applied and writing the blob
  raises an exception, the overlay directory is removed again and the exception is the one the caller
  sees, also when removing the directory fails with an \<open>OSError\<close> of its own.\<close>

theorem apply_overlay_rolls_back:
  assumes "path_exists env overlay_dir s = (Inr False, s1)"
    and "compile_overlay env s1 = (Inr (), s2)"
    and "mkdir env overlay_dir s2 = (Inr (), s3)"
    and "copy_bytes env TMP_DTBO (path_join overlay_dir ''dtbo'') s3 = (Inl e, s4)" and "\<not> is_exit e"
    and "rmdir env overlay_dir s4 = (r, s5)" and "r = Inr () \<or> r = Inl (OSError n)"
  shows "apply_overlay env s = (Inl e, s5)"
  using assms
  by (auto simp: apply_overlay_def overlay_active_def m_bind_def m_then_def m_except_def m_try_def
      m_ret_def m_raise_def)

definition failing_kernel :: "kernel fs_env" where
  "failing_kernel = ref_kernel\<lparr>copy_bytes := (\<lambda>a b. m_raise (OSError EINVAL))\<rparr>"

theorem apply_overlay_rolls_back_witness:
  "apply_overlay failing_kernel (example_kernel\<lparr>k_ov := False\<rparr>) =
     (Inl (OSError EINVAL), example_kernel\<lparr>k_ov := False\<rparr>)"
proof (rule apply_overlay_rolls_back)
  show "path_exists failing_kernel overlay_dir (example_kernel\<lparr>k_ov := False\<rparr>) =
      (Inr False, example_kernel\<lparr>k_ov := False\<rparr>)"
    by (simp add: failing_kernel_def ref_kernel_def kernel_exists_def)
  have "line_of_path ''direction'' TMP_DTS = None" "line_of_path ''value'' TMP_DTS = None"
    by (rule line_of_path_miss; simp add: TMP_DTS_def)+
  moreover have "TMP_DTS \<noteq> path_join GPIO_SYSFS x" for x
    by (simp add: TMP_DTS_def path_join_def GPIO_SYSFS_def)
  ultimately show "compile_overlay failing_kernel (example_kernel\<lparr>k_ov := False\<rparr>) =
      (Inr (), example_kernel\<lparr>k_ov := False\<rparr>)"
    by (simp add: compile_overlay_def failing_kernel_def ref_kernel_def kernel_write_def py_run)
  show "mkdir failing_kernel overlay_dir (example_kernel\<lparr>k_ov := False\<rparr>) =
      (Inr (), example_kernel\<lparr>k_ov := True\<rparr>)"
    by (simp add: failing_kernel_def ref_kernel_def py_run)
  show "copy_bytes failing_kernel TMP_DTBO (path_join overlay_dir ''dtbo'') (example_kernel\<lparr>k_ov := True\<rparr>) =
      (Inl (OSError EINVAL), example_kernel\<lparr>k_ov := True\<rparr>)"
    by (simp add: failing_kernel_def py_run)
  show "rmdir failing_kernel overlay_dir (example_kernel\<lparr>k_ov := True\<rparr>) =
      (Inr (), example_kernel\<lparr>k_ov := False\<rparr>)"
    by (simp add: failing_kernel_def ref_kernel_def py_run)
qed simp_all

end
