(* ===== verification/Shell_Quote.thy ===== *)
theory Shell_Quote
  imports Py_Text
begin

text \<open>
  \<open>shlex.quote\<close>, as the clients use it to build remote command lines, against the word splitting of
  the POSIX shell that reads them. \<open>sh_lex\<close> is the part of the shell's lexer that the command lines
  need: blanks, single and double quotes, backslashes and control operators; a character the shell
  would expand outside quotes makes it return \<open>None\<close>. Every quoted string is one literal word.
\<close>

definition sq :: char where "sq = CHR 0x27"
definition dquote :: char where "dquote = CHR 0x22"
definition bslash :: char where "bslash = CHR 0x5C"

lemmas shell_char_defs = sq_def dquote_def bslash_def

section \<open>\<open>shlex.quote\<close>\<close>

text \<open>The complement of \<open>[^\w@%+=:,./-]\<close> in ASCII mode.\<close>

definition safe_char :: "char \<Rightarrow> bool" where
  "safe_char c =
     (let n = (of_char c :: nat) in
      (48 \<le> n \<and> n \<le> 57) \<or> (65 \<le> n \<and> n \<le> 90) \<or> (97 \<le> n \<and> n \<le> 122)
      \<or> c \<in> set ''_@%+=:,./-'')"

definition esc_sq :: "char \<Rightarrow> string" where
  "esc_sq c = (if c = sq then [sq, dquote, sq, dquote, sq] else [c])"

definition shell_quote :: "string \<Rightarrow> string" where
  "shell_quote s =
     (if s = [] then [sq, sq]
      else if list_all safe_char s then s
      else [sq] @ concat (map esc_sq s) @ [sq])"

section \<open>The shell's view\<close>

datatype mode = Plain | InSq | InDq
datatype tok = Word string | Op char

definition blank :: "char \<Rightarrow> bool" where
  "blank c \<longleftrightarrow> c = CHR '' '' \<or> (of_char c :: nat) = 9"

definition sh_op :: "char \<Rightarrow> bool" where
  "sh_op c \<longleftrightarrow> c \<in> set ''&|;<>()'' \<or> (of_char c :: nat) = 10"

definition sh_expands :: "char \<Rightarrow> bool" where
  "sh_expands c \<longleftrightarrow> c \<in> set ''$*?[]#~!{}^'' \<or> (of_char c :: nat) = 96"

fun word_of :: "string option \<Rightarrow> string" where
  "word_of None = []"
| "word_of (Some w) = w"

fun flush :: "string option \<Rightarrow> tok list" where
  "flush None = []"
| "flush (Some w) = [Word w]"

fun sh_lex :: "mode \<Rightarrow> string option \<Rightarrow> string \<Rightarrow> tok list option" where
  "sh_lex Plain cur [] = Some (flush cur)"
| "sh_lex InSq cur [] = None"
| "sh_lex InDq cur [] = None"
| "sh_lex Plain cur (c # cs) =
    (if blank c then map_option (\<lambda>ts. flush cur @ ts) (sh_lex Plain None cs)
     else if c = sq then sh_lex InSq (Some (word_of cur)) cs
     else if c = dquote then sh_lex InDq (Some (word_of cur)) cs
     else if c = bslash then
       (case cs of [] \<Rightarrow> None | d # ds \<Rightarrow> sh_lex Plain (Some (word_of cur @ [d])) ds)
     else if sh_op c then map_option (\<lambda>ts. flush cur @ Op c # ts) (sh_lex Plain None cs)
     else if sh_expands c then None
     else sh_lex Plain (Some (word_of cur @ [c])) cs)"
| "sh_lex InSq cur (c # cs) =
    (if c = sq then sh_lex Plain cur cs else sh_lex InSq (Some (word_of cur @ [c])) cs)"
| "sh_lex InDq cur (c # cs) =
    (if c = dquote then sh_lex Plain cur cs
     else if c = bslash \<or> c = CHR ''$'' \<or> (of_char c :: nat) = 96 then None
     else sh_lex InDq (Some (word_of cur @ [c])) cs)"

definition sh_tokens :: "string \<Rightarrow> tok list option" where
  "sh_tokens s = sh_lex Plain None s"

section \<open>Quoted words\<close>

lemma special_chars [simp]:
  "dquote \<noteq> sq" "sq \<noteq> dquote" "bslash \<noteq> sq" "bslash \<noteq> dquote" "sq \<noteq> bslash" "dquote \<noteq> bslash"
  "\<not> blank sq" "\<not> blank dquote" "\<not> blank bslash" "sq \<noteq> CHR ''$''" "(of_char sq :: nat) \<noteq> 96"
  by (simp_all add: shell_char_defs blank_def)

lemma safe_char_plain:
  "safe_char c \<Longrightarrow> \<not> blank c \<and> c \<noteq> sq \<and> c \<noteq> dquote \<and> c \<noteq> bslash \<and> \<not> sh_op c \<and> \<not> sh_expands c"
  by (auto simp: safe_char_def blank_def sh_op_def sh_expands_def Let_def shell_char_defs)

lemma lex_safe:
  "list_all safe_char s \<Longrightarrow> s \<noteq> [] \<Longrightarrow>
     sh_lex Plain cur (s @ r) = sh_lex Plain (Some (word_of cur @ s)) r"
proof (induction s arbitrary: cur)
  case (Cons c s)
  then have "sh_lex Plain cur ((c # s) @ r) = sh_lex Plain (Some (word_of cur @ [c])) (s @ r)"
    using safe_char_plain [of c] by simp
  then show ?case using Cons by (cases "s = []") simp_all
qed simp

lemma lex_quoted_body:
  "sh_lex InSq (Some w) (concat (map esc_sq s) @ sq # r) = sh_lex Plain (Some (w @ s)) r"
  by (induction s arbitrary: w) (auto simp: esc_sq_def)

lemma lex_quote:
  "sh_lex Plain cur (shell_quote s @ r) = sh_lex Plain (Some (word_of cur @ s)) r"
  using lex_safe [of s cur r] lex_quoted_body [of "word_of cur" s r]
  by (auto simp: shell_quote_def)

lemma lex_blank:
  "sh_lex Plain (Some w) (CHR '' '' # r) = map_option ((#) (Word w)) (sh_lex Plain None r)"
  by (cases "sh_lex Plain None r") (simp_all add: blank_def)

text \<open>Quoted words joined by blanks are exactly those words.\<close>

lemma lex_quoted_words:
  "sh_lex Plain None (join_with '' '' (map shell_quote ws)) = Some (map Word ws)"
proof (induction ws)
  case (Cons w ws)
  show ?case
  proof (cases ws)
    case Nil
    then show ?thesis using lex_quote [of None w "[]"] by simp
  next
    case (Cons v vs)
    then have "join_with '' '' (map shell_quote (w # ws)) =
        shell_quote w @ CHR '' '' # join_with '' '' (map shell_quote ws)" by simp
    then show ?thesis using Cons.IH by (simp add: lex_quote lex_blank del: sh_lex.simps)
  qed
qed simp

end
