(* ===== verification/Gpio_Remote.thy ===== *)
theory Gpio_Remote
  imports Shell_Quote
begin

text \<open>
  \<open>client/ps_mio_spi_gpio_remote.py\<close>: the laptop-side wrapper that copies the on-board helper to the
  board and runs it there over \<open>ssh\<close>. Running a program and asking for the password are operations of
  the environment. The theorems say what the remote shell makes of the command line.
\<close>

record 's remote_env =
  call :: "string list \<Rightarrow> ('s, int) py"
  getpass :: "('s, string) py"
  script_dir :: string

record remote_args =
  r_host :: string
  r_remote_repo :: string
  r_no_sync :: bool
  r_sudo_password :: "string option"
  r_remote_args :: "string list"

text \<open>The defaults of the parser; the password default is the environment variable.\<close>

definition remote_defaults :: "string option \<Rightarrow> remote_args" where
  "remote_defaults daphne_sudo_password = \<lparr>r_host = ''daphne-13'',
     r_remote_repo = ''/home/petalinux/daphne-server'', r_no_sync = False,
     r_sudo_password = daphne_sudo_password, r_remote_args = []\<rparr>"

definition local_board_script :: "'s remote_env \<Rightarrow> string" where
  "local_board_script env = script_dir env @ ''/ps_mio_spi_gpio_board.py''"

definition remote_repo_expr :: "string \<Rightarrow> string" where
  "remote_repo_expr remote_repo =
     (if remote_repo = ''~'' then ''$HOME''
      else if starts_with ''~/'' remote_repo then ''$HOME/'' @ drop 2 remote_repo
      else shell_quote remote_repo)"

definition rstrip_slash :: "string \<Rightarrow> string" where
  "rstrip_slash s = rev (dropWhile (\<lambda>c. c = CHR ''/'') (rev s))"

definition sync_board_script :: "'s remote_env \<Rightarrow> string \<Rightarrow> string \<Rightarrow> ('s, int) py" where
  "sync_board_script env host remote_repo =
     call env [''scp'', ''-q'', local_board_script env,
       host @ '':'' @ rstrip_slash remote_repo @ ''/client/ps_mio_spi_gpio_board.py'']"

definition helper :: string where "helper = ''client/ps_mio_spi_gpio_board.py''"

definition inner_command :: "string \<Rightarrow> string list \<Rightarrow> string" where
  "inner_command remote_repo remote_args =
     join_with '' '' ([''cd'', remote_repo_expr remote_repo, ''&&'', ''python3'', shell_quote helper]
       @ map shell_quote remote_args)"

definition remote_command :: "string \<Rightarrow> string list \<Rightarrow> string \<Rightarrow> string" where
  "remote_command remote_repo remote_args sudo_password =
     join_with '' ''
       [''printf'', ''%s'' @ [bslash, bslash] @ ''n'', shell_quote sudo_password, ''|'', ''sudo'', ''-S'',
        ''sh'', ''-lc'', shell_quote (inner_command remote_repo remote_args)]"

definition pass_args :: "string list \<Rightarrow> string list" where
  "pass_args ra =
     (let r = (if ra = [] then [''status''] else ra) in
      if r \<noteq> [] \<and> hd r = ''--'' then tl r else r)"

definition remote_main :: "'s remote_env \<Rightarrow> remote_args \<Rightarrow> ('s, int) py" where
  "remote_main env args =
     (let remote_args = pass_args (r_remote_args args) in
      m_bind (case r_sudo_password args of
          Some (c # cs) \<Rightarrow> m_ret (c # cs)
        | _ \<Rightarrow> getpass env) (\<lambda>sudo_password.
      m_bind (if r_no_sync args then m_ret 0
              else sync_board_script env (r_host args) (r_remote_repo args)) (\<lambda>rc.
      if rc \<noteq> 0 then m_ret rc
      else call env [''ssh'', ''-o'', ''ClearAllForwardings=yes'', r_host args,
             remote_command (r_remote_repo args) remote_args sudo_password])))"

section \<open>What the shells read\<close>

lemma join_cons: "xs \<noteq> [] \<Longrightarrow> join_with sep (x # xs) = x @ sep @ join_with sep xs"
  by (cases xs) simp_all

lemma lex_word_cons:
  "list_all safe_char w \<Longrightarrow> w \<noteq> [] \<Longrightarrow> ws \<noteq> [] \<Longrightarrow>
     sh_lex Plain None (join_with '' '' (w # ws)) =
       map_option ((#) (Word w)) (sh_lex Plain None (join_with '' '' ws))"
  using lex_safe [of w None "'' '' @ join_with '' '' ws"] lex_blank
  by (simp add: join_cons del: sh_lex.simps)

lemma lex_quote_cons:
  "ws \<noteq> [] \<Longrightarrow>
     sh_lex Plain None (join_with '' '' (shell_quote w # ws)) =
       map_option ((#) (Word w)) (sh_lex Plain None (join_with '' '' ws))"
  using lex_quote [of None w "'' '' @ join_with '' '' ws"] lex_blank
  by (simp add: join_cons del: sh_lex.simps)

lemma lex_op_cons:
  "sh_lex Plain None (join_with '' '' ([CHR ''|''] # w # ws)) =
     map_option ((#) (Op CHR ''|'')) (sh_lex Plain None (join_with '' '' (w # ws)))"
  by (cases "sh_lex Plain None (join_with '' '' (w # ws))")
     (simp_all add: join_cons blank_def shell_char_defs sh_op_def)

lemma lex_and_cons:
  "sh_lex Plain None (join_with '' '' (''&&'' # w # ws)) =
     map_option (\<lambda>ts. Op CHR ''&'' # Op CHR ''&'' # ts) (sh_lex Plain None (join_with '' '' (w # ws)))"
  by (cases "sh_lex Plain None (join_with '' '' (w # ws))")
     (simp_all add: join_cons blank_def shell_char_defs sh_op_def)

lemma lex_printf_format:
  "ws \<noteq> [] \<Longrightarrow>
     sh_lex Plain None (join_with '' '' ((''%s'' @ [bslash, bslash] @ ''n'') # ws)) =
       map_option ((#) (Word (''%s'' @ [bslash] @ ''n''))) (sh_lex Plain None (join_with '' '' ws))"
  by (cases "sh_lex Plain None (join_with '' '' ws)")
     (simp_all add: join_cons blank_def shell_char_defs sh_op_def sh_expands_def)

lemma safe_literals [simp]:
  "list_all safe_char ''printf''" "list_all safe_char ''sudo''" "list_all safe_char ''-S''"
  "list_all safe_char ''sh''" "list_all safe_char ''-lc''" "list_all safe_char ''cd''"
  "list_all safe_char ''python3''"
  by (simp_all add: safe_char_def)

text \<open>C13: Whatever the sudo password and the helper's arguments contain, the remote login shell reads
  the command line as one pipeline of literal words: the password is the single argument of \<open>printf\<close>
  after the format \<open>%s\n\<close>, and the script passed to \<open>sh -lc\<close> is one word.\<close>

theorem remote_command_words:
  "sh_tokens (remote_command repo args pw) =
     Some [Word ''printf'', Word (''%s'' @ [bslash] @ ''n''), Word pw, Op CHR ''|'', Word ''sudo'', Word ''-S'',
           Word ''sh'', Word ''-lc'', Word (inner_command repo args)]"
proof -
  have last: "sh_lex Plain None (join_with '' '' [shell_quote x]) = Some [Word x]" for x
    using lex_quoted_words [of "[x]"] by simp
  show ?thesis
    unfolding sh_tokens_def remote_command_def
    by (simp only: lex_word_cons lex_printf_format lex_quote_cons lex_op_cons last safe_literals
        list.distinct not_Cons_self2 simp_thms option.map)
qed

text \<open>The script that \<open>sh -lc\<close> then reads changes to the configured checkout and runs the helper
  with exactly the given arguments, each a literal word, when the checkout is not written with a
  leading tilde.\<close>

theorem inner_command_words:
  assumes "repo \<noteq> ''~''" and "\<not> starts_with ''~/'' repo"
  shows "sh_tokens (inner_command repo args) =
     Some ([Word ''cd'', Word repo, Op CHR ''&'', Op CHR ''&'', Word ''python3'', Word helper] @ map Word args)"
proof -
  have "sh_lex Plain None (join_with '' '' (shell_quote helper # map shell_quote args)) =
      Some (Word helper # map Word args)"
    using lex_quoted_words [of "helper # args"] by (simp only: list.map)
  then show ?thesis
    unfolding sh_tokens_def inner_command_def remote_repo_expr_def append.simps
    by (simp only: assms if_False lex_word_cons lex_quote_cons lex_and_cons safe_literals
        list.distinct not_Cons_self2 simp_thms option.map)
qed

theorem inner_command_words_witness:
  "sh_tokens (inner_command ''/home/my board'' [''smoketest'', ''a; rm -rf b'']) =
     Some ([Word ''cd'', Word ''/home/my board'', Op CHR ''&'', Op CHR ''&'', Word ''python3'', Word helper]
       @ map Word [''smoketest'', ''a; rm -rf b''])"
  by (rule inner_command_words) simp_all

text \<open>A checkout written with a leading tilde is not quoted: its blanks split it into several words,
  so \<open>cd\<close> gets two arguments, and an operator in it ends the command. (The expansion of \<open>$HOME\<close> itself
  is replaced here by the directory \<open>/root\<close> it stands for.)\<close>

theorem tilde_repo_not_quoted:
  "remote_repo_expr ''~/my repo;reboot'' = ''$HOME'' @ ''/my repo;reboot'' \<and>
   sh_tokens (''cd '' @ ''/root'' @ drop 5 (remote_repo_expr ''~/my repo;reboot'')) =
     Some [Word ''cd'', Word ''/root/my'', Word ''repo'', Op CHR '';'', Word ''reboot'']"
  by (simp add: remote_repo_expr_def sh_tokens_def blank_def sh_op_def sh_expands_def shell_char_defs)

end
