(* ===== verification/V2_Rpc.thy ===== *)
theory V2_Rpc
  imports Py_Text
begin

unbundle bit_operations_syntax

text \<open>
  The EnvelopeV2 transport that the control clients share: the message \<open>ControlEnvelopeV2\<close> of
  \<open>srcs/protobuf/daphneV3_high_level_confs.proto\<close>, the identifiers of a request (\<open>next_ids\<close>) and one
  request/response exchange (\<open>v2_rpc\<close> of \<open>client/hdmezz_control_v2.py\<close>).

  Serialisation is the protobuf run time's and the socket is ZeroMQ's: both are parameters. A payload
  is a value of type \<open>'p\<close>, a serialised envelope a value of type \<open>'w\<close>; \<open>blen\<close> is the number of bytes,
  which \<open>ParseFromString\<close> returns. A malformed buffer raises \<open>DecodeError\<close>.

  The locale \<open>fifo_link\<close> is the behaviour of a DEALER socket connected to a server that answers every
  request: replies come back in order. From it: an exchange on an idle link returns the server's
  answer, and an exchange on a link that still holds an old reply fails and leaves the link in the same
  condition, so that every later exchange (\<open>v2_exchanges\<close> makes a sequence of them) fails as well.
\<close>

section \<open>Messages and codecs\<close>

record 'p ControlEnvelopeV2 =
  version :: int
  dir :: int
  etype :: int
  payload :: 'p
  task_id :: int
  msg_id :: int
  correl_id :: int
  route :: string
  timestamp_ns :: int

definition DIR_REQUEST :: int where "DIR_REQUEST = 0"
definition DIR_RESPONSE :: int where "DIR_RESPONSE = 1"

record ('w, 'm) codec =
  ser :: "'m \<Rightarrow> 'w"
  par :: "'w \<Rightarrow> 'm option"
  blen :: "'w \<Rightarrow> nat"

definition ParseFromString :: "('w, 'm) codec \<Rightarrow> 'w \<Rightarrow> ('m \<times> nat) result" where
  "ParseFromString c w = (case par c w of None \<Rightarrow> Inl DecodeError | Some m \<Rightarrow> Inr (m, blen c w))"

section \<open>The socket\<close>

record ('s, 'w) zsock =
  z_timeout :: "int \<Rightarrow> ('s, unit) py"
  z_send :: "'w \<Rightarrow> ('s, unit) py"
  z_recv :: "('s, 'w list) py"
  z_close :: "('s, unit) py"
  time_ns :: "('s, int) py"
  randrange :: "int \<Rightarrow> ('s, int) py"

text \<open>\<open>z_recv\<close> is the loop \<open>frames = [sock.recv()]; while RCVMORE: frames.append(sock.recv())\<close>, which
  collects the frames of one message; ZeroMQ delivers a multipart message as a whole.\<close>

definition id_mask :: int where "id_mask = 2 ^ 63 - 1"

definition next_ids :: "('s, 'w) zsock \<Rightarrow> ('s, int \<times> int) py" where
  "next_ids zs =
     m_bind (time_ns zs) (\<lambda>now_ns.
     m_bind (randrange zs 65536) (\<lambda>r1.
     m_bind (randrange zs 65536) (\<lambda>r2.
     m_ret ((push_bit 16 now_ns XOR r1) AND id_mask, (push_bit 1 now_ns XOR r2) AND id_mask))))"

definition request_envelope :: "int \<Rightarrow> 'p \<Rightarrow> string \<Rightarrow> int \<times> int \<Rightarrow> int \<Rightarrow> 'p ControlEnvelopeV2" where
  "request_envelope req_type body rt ids ts =
     \<lparr>version = 2, dir = DIR_REQUEST, etype = req_type, payload = body, task_id = fst ids, msg_id = snd ids,
      correl_id = 0, route = rt, timestamp_ns = ts\<rparr>"

definition check_reply ::
  "('p, 'm) codec \<Rightarrow> int \<Rightarrow> int \<Rightarrow> 'p ControlEnvelopeV2 \<times> nat \<Rightarrow> 'm result" where
  "check_reply respc resp_type mid reply = (case reply of (rep, n) \<Rightarrow>
     if n = 0 then Inl (RuntimeError ''Failed to parse ControlEnvelopeV2 reply'')
     else if etype rep \<noteq> resp_type then Inl (RuntimeError ''Unexpected response type'')
     else if correl_id rep \<noteq> 0 \<and> correl_id rep \<noteq> mid then Inl (RuntimeError ''Correlation mismatch'')
     else r_bind (ParseFromString respc (payload rep)) (\<lambda>(resp, k).
       if k = 0 then Inl (RuntimeError ''Failed to parse response payload'') else Inr resp))"

definition v2_rpc ::
  "('s, 'w) zsock \<Rightarrow> ('w, 'p ControlEnvelopeV2) codec \<Rightarrow> int \<Rightarrow> 'p \<Rightarrow> int \<Rightarrow> ('p, 'm) codec \<Rightarrow> string \<Rightarrow> int \<Rightarrow>
   ('s, 'm) py" where
  "v2_rpc zs envc req_type body resp_type respc rt timeout_ms =
     m_bind (next_ids zs) (\<lambda>ids.
     m_bind (time_ns zs) (\<lambda>ts.
     let env = request_envelope req_type body rt ids ts in
     m_then (z_timeout zs timeout_ms)
     (m_then (z_send zs (ser envc env))
     (m_bind (z_recv zs) (\<lambda>frames.
      m_bind (m_lift (ParseFromString envc (last frames))) (\<lambda>reply.
      m_lift (check_reply respc resp_type (msg_id env) reply)))))))"

section \<open>Identifiers\<close>

lemma and_id_mask: "x AND id_mask = x mod 2 ^ 63"
  unfolding id_mask_def by (rule and_mask_mod)

lemma id_range: "0 \<le> x AND id_mask" "x AND id_mask < 2 ^ 63"
  by (simp_all add: and_id_mask)

text \<open>The identifier of a message carries the clock above the bits of the random part.\<close>

lemma xor_high:
  fixes r :: int
  assumes "0 \<le> r" "r < 2 ^ k" "k \<le> 63"
  shows "((push_bit 1 t XOR r) AND id_mask) div 2 ^ k = (push_bit 1 t div 2 ^ k) mod 2 ^ (63 - k)"
proof -
  have "drop_bit k ((push_bit 1 t XOR r) AND id_mask) = take_bit (63 - k) (drop_bit k (push_bit 1 t XOR r))"
    unfolding and_id_mask take_bit_eq_mod [symmetric]
    using assms(3) by (simp add: drop_bit_take_bit)
  also have "drop_bit k (push_bit 1 t XOR r) = drop_bit k (push_bit 1 t) XOR drop_bit k r"
    by (simp add: drop_bit_xor)
  also have "drop_bit k r = 0"
    using assms(1,2) by (simp add: drop_bit_eq_div)
  finally show ?thesis by (simp add: drop_bit_eq_div take_bit_eq_mod)
qed

lemma clock_in_id:
  fixes r :: int
  assumes "0 \<le> r \<and> r < 2 ^ 16" and "0 \<le> t \<and> t < 2 ^ 62"
  shows "((push_bit 1 t XOR r) AND id_mask) div 2 ^ 16 = t div 2 ^ 15"
proof -
  have "((push_bit 1 t XOR r) AND id_mask) div 2 ^ 16 = (push_bit 1 t div 2 ^ 16) mod 2 ^ (63 - 16)"
    by (rule xor_high) (use assms in auto)
  moreover have "push_bit 1 t div 2 ^ 16 = t div 2 ^ 15"
    by (simp add: push_bit_eq_mult)
  moreover have "0 \<le> t div 2 ^ 15" "t div 2 ^ 15 < 2 ^ 47" using assms(2) by auto
  ultimately show ?thesis by simp
qed

section \<open>A sequence of exchanges\<close>

text \<open>The message id that an exchange started now would use.\<close>

definition drawn_id :: "('s, 'w) zsock \<Rightarrow> 's \<Rightarrow> int" where
  "drawn_id zs s = (case next_ids zs s of (Inr ids, _) \<Rightarrow> snd ids | (Inl _, _) \<Rightarrow> 0)"

text \<open>Exchanges one after the other on the same socket, as a program that reports a failed exchange and
  goes on makes them: for each the message id and the result.\<close>

type_synonym ('p, 'm) v2_request = "int \<times> 'p \<times> int \<times> ('p, 'm) codec \<times> string \<times> int"

primrec v2_exchanges ::
  "('s, 'w) zsock \<Rightarrow> ('w, 'p ControlEnvelopeV2) codec \<Rightarrow> ('p, 'm) v2_request list \<Rightarrow> 's \<Rightarrow>
   (int \<times> 'm result) list \<times> 's" where
  "v2_exchanges zs envc [] s = ([], s)"
| "v2_exchanges zs envc (q # qs) s =
     (case q of (req_type, body, resp_type, respc, rt, k) \<Rightarrow>
      case v2_rpc zs envc req_type body resp_type respc rt k s of (r, t) \<Rightarrow>
      case v2_exchanges zs envc qs t of (rs, u) \<Rightarrow> ((drawn_id zs s, r) # rs, u))"

section \<open>A link that answers in order\<close>

locale fifo_link =
  fixes zs :: "('s, 'w) zsock"
    and envc :: "('w, 'p ControlEnvelopeV2) codec"
    and pending :: "'s \<Rightarrow> 'p ControlEnvelopeV2 list"
    and answer :: "int \<Rightarrow> 'p \<Rightarrow> 'p"
    and reply_to :: "'p ControlEnvelopeV2 \<Rightarrow> 'p ControlEnvelopeV2"
  assumes l_time: "\<exists>x t. time_ns zs s = (Inr x, t) \<and> pending t = pending s"
    and l_rand: "\<exists>x t. randrange zs n s = (Inr x, t) \<and> pending t = pending s"
    and l_timeout: "\<exists>t. z_timeout zs k s = (Inr (), t) \<and> pending t = pending s"
    and l_send: "\<exists>t. z_send zs (ser envc env) s = (Inr (), t) \<and> pending t = pending s @ [reply_to env]"
    and l_recv: "pending s = r # rs \<Longrightarrow>
      \<exists>fs t. z_recv zs s = (Inr (fs @ [ser envc r]), t) \<and> pending t = rs"
    and l_codec: "par envc (ser envc e) = Some e" "version e \<noteq> 0 \<Longrightarrow> blen envc (ser envc e) \<noteq> 0"
    and l_reply: "etype (reply_to env) = etype env + 1" "correl_id (reply_to env) = msg_id env"
      "version (reply_to env) = 2" "payload (reply_to env) = answer (etype env) (payload env)"
begin

lemma exchange:
  assumes "pending s @ [reply_to env] = r # rs" "version r = 2"
  shows "\<exists>fs t u n. z_send zs (ser envc env) s = (Inr (), t) \<and> z_recv zs t = (Inr (fs @ [ser envc r]), u)
     \<and> pending u = rs \<and> ParseFromString envc (ser envc r) = Inr (r, n) \<and> n \<noteq> 0"
proof -
  obtain t where t: "z_send zs (ser envc env) s = (Inr (), t)" "pending t = pending s @ [reply_to env]"
    using l_send by blast
  moreover obtain fs u where "z_recv zs t = (Inr (fs @ [ser envc r]), u)" "pending u = rs"
    using l_recv [of t r rs] t(2) assms(1) by auto
  moreover have "ParseFromString envc (ser envc r) = Inr (r, blen envc (ser envc r))"
    by (simp add: ParseFromString_def l_codec)
  moreover have "blen envc (ser envc r) \<noteq> 0" using assms(2) by (intro l_codec(2)) simp
  ultimately show ?thesis by blast
qed

text \<open>One exchange, whatever is pending: the first reply in line is checked against this request.\<close>

lemma rpc_run:
  assumes "\<And>env. version env = 2 \<Longrightarrow> \<exists>rs. pending s @ [reply_to env] = r env # rs \<and> version (r env) = 2"
  shows "\<exists>ids ts n u. let env = request_envelope req_type body rt ids ts in
     v2_rpc zs envc req_type body resp_type respc rt k s =
       (check_reply respc resp_type (msg_id env) (r env, n), u) \<and> n \<noteq> 0
     \<and> pending u = tl (pending s @ [reply_to env]) \<and> (\<exists>t. next_ids zs s = (Inr ids, t))"
proof -
  obtain a s1 where s1: "time_ns zs s = (Inr a, s1)" "pending s1 = pending s" using l_time by blast
  obtain b s2 where s2: "randrange zs 65536 s1 = (Inr b, s2)" "pending s2 = pending s"
    using l_rand [of 65536 s1] s1 by auto
  obtain c s3 where s3: "randrange zs 65536 s2 = (Inr c, s3)" "pending s3 = pending s"
    using l_rand [of 65536 s2] s2 by auto
  define ids where "ids = ((push_bit 16 a XOR b) AND id_mask, (push_bit 1 a XOR c) AND id_mask)"
  have ids: "next_ids zs s = (Inr ids, s3)"
    by (simp add: next_ids_def py_run s1 s2 s3 ids_def)
  obtain ts s4 where s4: "time_ns zs s3 = (Inr ts, s4)" "pending s4 = pending s"
    using l_time [of s3] s3 by auto
  obtain s5 where s5: "z_timeout zs k s4 = (Inr (), s5)" "pending s5 = pending s"
    using l_timeout [of k s4] s4 by auto
  define env where "env = request_envelope req_type body rt ids ts"
  have "version env = 2" by (simp add: env_def request_envelope_def)
  then obtain rs where rs: "pending s5 @ [reply_to env] = r env # rs" "version (r env) = 2"
    using assms s5(2) by auto
  obtain fs t u n where e: "z_send zs (ser envc env) s5 = (Inr (), t)" "z_recv zs t = (Inr (fs @ [ser envc (r env)]), u)"
      "pending u = rs" "ParseFromString envc (ser envc (r env)) = Inr (r env, n)" "n \<noteq> 0"
    using exchange [OF rs] by blast
  have "v2_rpc zs envc req_type body resp_type respc rt k s =
      (check_reply respc resp_type (msg_id env) (r env, n), u)"
    by (simp add: v2_rpc_def py_run ids s4 s5 env_def [symmetric] e(1,2,4))
  moreover have "pending u = tl (pending s @ [reply_to env])"
    using rs(1) e(3) s5(2) by simp
  ultimately show ?thesis using e(5) ids unfolding Let_def env_def [symmetric]
    by (intro exI [of _ ids] exI [of _ ts] exI [of _ n] exI [of _ u]) (simp add: env_def)
qed

text \<open>On an idle link the exchange returns what the server answered.\<close>

lemma rpc_idle:
  assumes "pending s = []" and "par respc (answer req_type body) = Some m"
  shows "\<exists>u. v2_rpc zs envc req_type body (req_type + 1) respc rt k s =
       (if blen respc (answer req_type body) = 0
        then Inl (RuntimeError ''Failed to parse response payload'') else Inr m, u) \<and> pending u = []"
proof -
  have "\<exists>rs. pending s @ [reply_to env] = reply_to env # rs \<and> version (reply_to env) = 2" for env
    using assms(1) by (simp add: l_reply)
  from rpc_run [where r = reply_to, OF this] obtain ids ts n u where
    "v2_rpc zs envc req_type body (req_type + 1) respc rt k s =
       (check_reply respc (req_type + 1) (msg_id (request_envelope req_type body rt ids ts))
          (reply_to (request_envelope req_type body rt ids ts), n), u)" "n \<noteq> 0"
    "pending u = tl (pending s @ [reply_to (request_envelope req_type body rt ids ts)])"
    unfolding Let_def by blast
  then show ?thesis
    using assms by (auto simp: check_reply_def l_reply request_envelope_def ParseFromString_def)
qed

text \<open>With one old reply still in line the exchange fails and leaves the new reply in line.\<close>

lemma rpc_stale:
  assumes "pending s = [old]" and "version old = 2" and "correl_id old \<noteq> 0" and "drawn_id zs s \<noteq> correl_id old"
  shows "\<exists>msg env u. v2_rpc zs envc req_type body resp_type respc rt k s = (Inl (RuntimeError msg), u)
     \<and> pending u = [reply_to env] \<and> etype env = req_type \<and> payload env = body \<and> msg_id env = drawn_id zs s"
proof -
  have "\<exists>rs. pending s @ [reply_to env] = old # rs \<and> version old = 2" for env
    using assms(1,2) by simp
  from rpc_run [where r = "\<lambda>_. old", OF this] obtain ids ts n u t where e:
    "v2_rpc zs envc req_type body resp_type respc rt k s =
       (check_reply respc resp_type (msg_id (request_envelope req_type body rt ids ts)) (old, n), u)" "n \<noteq> 0"
    "pending u = tl (pending s @ [reply_to (request_envelope req_type body rt ids ts)])"
    "next_ids zs s = (Inr ids, t)"
    unfolding Let_def by blast
  have d: "drawn_id zs s = snd ids" using e(4) by (simp add: drawn_id_def)
  then have "correl_id old \<noteq> msg_id (request_envelope req_type body rt ids ts)"
    using assms(4) by (simp add: request_envelope_def)
  then have "\<exists>msg. check_reply respc resp_type (msg_id (request_envelope req_type body rt ids ts)) (old, n)
      = Inl (RuntimeError msg)"
    using e(2) assms(3) by (auto simp: check_reply_def)
  with e(1,3) assms(1) d show ?thesis
    by (auto intro!: exI [of _ "request_envelope req_type body rt ids ts"] simp: request_envelope_def)
qed

text \<open>The new reply meets the conditions on the old one again, so the next exchange fails too.\<close>

lemma exchanges_stale:
  assumes "pending s = [old]" "version old = 2" "v2_exchanges zs envc reqs s = (rs, u)"
    and "distinct (correl_id old # map fst rs)" "0 \<notin> set (correl_id old # map fst rs)"
  shows "length rs = length reqs \<and> list_all (\<lambda>r. \<exists>msg. snd r = Inl (RuntimeError msg)) rs
    \<and> (\<exists>new. pending u = [new] \<and> correl_id new = last (correl_id old # map fst rs)
        \<and> (reqs \<noteq> [] \<longrightarrow> etype new = fst (last reqs) + 1
            \<and> payload new = answer (fst (last reqs)) (fst (snd (last reqs)))))"
  using assms
proof (induction reqs arbitrary: s old rs)
  case Nil
  then show ?case by simp
next
  case (Cons q qs)
  obtain req_type body resp_type respc rt k where q: "q = (req_type, body, resp_type, respc, rt, k)"
    by (cases q) auto
  obtain r t where rt: "v2_rpc zs envc req_type body resp_type respc rt k s = (r, t)" by fastforce
  obtain rs' where rs: "v2_exchanges zs envc qs t = (rs', u)" "rs = (drawn_id zs s, r) # rs'"
    using Cons.prems(3) rt by (auto simp: q split: prod.splits)
  have "correl_id old \<noteq> 0" "drawn_id zs s \<noteq> correl_id old" using Cons.prems(4,5) rs(2) by auto
  from rpc_stale [OF Cons.prems(1,2) this, of req_type body resp_type respc rt k] rt
  obtain msg env where e: "r = Inl (RuntimeError msg)" "pending t = [reply_to env]" "etype env = req_type"
      "payload env = body" "msg_id env = drawn_id zs s"
    by auto
  have "distinct (correl_id (reply_to env) # map fst rs')" "0 \<notin> set (correl_id (reply_to env) # map fst rs')"
    using Cons.prems(4,5) rs(2) e(5) by (auto simp: l_reply)
  from Cons.IH [OF e(2) l_reply(3) rs(1) this] obtain new where IH: "length rs' = length qs"
      "list_all (\<lambda>r. \<exists>msg. snd r = Inl (RuntimeError msg)) rs'" "pending u = [new]"
      "correl_id new = last (correl_id (reply_to env) # map fst rs')"
      "qs \<noteq> [] \<longrightarrow> etype new = fst (last qs) + 1 \<and> payload new = answer (fst (last qs)) (fst (snd (last qs)))"
    by blast
  have "qs = [] \<Longrightarrow> new = reply_to env" using rs(1) e(2) IH(3) by auto
  then have "etype new = fst (last (q # qs)) + 1
      \<and> payload new = answer (fst (last (q # qs))) (fst (snd (last (q # qs))))"
    using IH(5) e(3,4) by (cases "qs = []") (auto simp: q l_reply)
  with IH(1-4) e(1,5) rs(2) show ?case
    by (intro conjI exI [of _ new]) (simp_all add: l_reply del: last.simps, simp)
qed

end

section \<open>A reference link\<close>

text \<open>A server with an answer function behind a lossless link; a frame is the envelope itself.\<close>

record 'p link =
  l_pending :: "'p ControlEnvelopeV2 list"
  l_clock :: int

definition ref_envc :: "('p ControlEnvelopeV2, 'p ControlEnvelopeV2) codec" where
  "ref_envc = \<lparr>ser = (\<lambda>e. e), par = Some, blen = (\<lambda>e. if version e = 0 then 0 else 2)\<rparr>"

definition ref_reply :: "(int \<Rightarrow> 'p \<Rightarrow> 'p) \<Rightarrow> 'p ControlEnvelopeV2 \<Rightarrow> 'p ControlEnvelopeV2" where
  "ref_reply ans env = \<lparr>version = 2, dir = DIR_RESPONSE, etype = etype env + 1,
     payload = ans (etype env) (payload env), task_id = task_id env, msg_id = msg_id env + 1,
     correl_id = msg_id env, route = route env, timestamp_ns = timestamp_ns env\<rparr>"

definition ref_zsock :: "(int \<Rightarrow> 'p \<Rightarrow> 'p) \<Rightarrow> ('p link, 'p ControlEnvelopeV2) zsock" where
  "ref_zsock ans = \<lparr>z_timeout = (\<lambda>k. m_ret ()),
     z_send = (\<lambda>env. m_modify (l_pending_update (\<lambda>q. q @ [ref_reply ans env]))),
     z_recv = (\<lambda>s. case l_pending s of [] \<Rightarrow> (Inl ZmqAgain, s)
                 | r # rs \<Rightarrow> (Inr [r], s\<lparr>l_pending := rs\<rparr>)),
     z_close = m_ret (),
     time_ns = (\<lambda>s. (Inr (l_clock s), s\<lparr>l_clock := l_clock s + 1000\<rparr>)),
     randrange = (\<lambda>n. m_ret (n div 3))\<rparr>"

interpretation ref_link: fifo_link "ref_zsock ans" ref_envc l_pending ans "ref_reply ans" for ans
  by unfold_locales (auto simp: ref_zsock_def ref_envc_def ref_reply_def py_run)

section \<open>Properties\<close>

text \<open>C10: On a link with no reply outstanding, an exchange returns exactly the message the server
  answered with, and the link is idle again; the only answer that is turned into an error is one that
  serialises to no bytes at all.\<close>

theorem v2_rpc_returns_answer:
  assumes "fifo_link zs envc pending answer reply_to" and "pending s = []"
    and "par respc (answer req_type body) = Some m"
  shows "\<exists>u. v2_rpc zs envc req_type body (req_type + 1) respc rt k s =
       (if blen respc (answer req_type body) = 0
        then Inl (RuntimeError ''Failed to parse response payload'') else Inr m, u) \<and> pending u = []"
  by (rule fifo_link.rpc_idle [OF assms])

definition ref_intc :: "(int, int) codec" where
  "ref_intc = \<lparr>ser = (\<lambda>x. x), par = Some, blen = (\<lambda>x. if x = 0 then 0 else 1)\<rparr>"

theorem v2_rpc_returns_answer_witness:
  "\<exists>u. v2_rpc (ref_zsock (\<lambda>ty b. b + 1)) ref_envc 408 5 (408 + 1) ref_intc ''mezz/0'' 5000
        \<lparr>l_pending = [], l_clock = 1700000000000000000\<rparr> =
     (if blen ref_intc (5 + 1) = 0 then Inl (RuntimeError ''Failed to parse response payload'') else Inr 6, u)
     \<and> l_pending u = []"
  by (rule v2_rpc_returns_answer [OF ref_link.fifo_link_axioms]) (simp_all add: ref_intc_def)

text \<open>C11: A link that still holds the reply to an earlier, timed-out request never recovers: however
  many further exchanges are made on it, each of them raises although the server answers it, as long as
  the message ids drawn are non-zero and differ from each other and from the one the old reply answers.
  Afterwards the link again holds exactly one reply, the server's answer to the last request.\<close>

theorem v2_rpc_stale_reply_persists:
  assumes "fifo_link zs envc pending answer reply_to" and "pending s = [old]" and "version old = 2"
    and "v2_exchanges zs envc reqs s = (rs, u)"
    and "distinct (correl_id old # map fst rs)" and "0 \<notin> set (correl_id old # map fst rs)"
  shows "length rs = length reqs \<and> list_all (\<lambda>r. \<exists>msg. snd r = Inl (RuntimeError msg)) rs
    \<and> (\<exists>new. pending u = [new] \<and> correl_id new = last (correl_id old # map fst rs)
        \<and> (reqs \<noteq> [] \<longrightarrow> etype new = fst (last reqs) + 1
            \<and> payload new = answer (fst (last reqs)) (fst (snd (last reqs)))))"
  by (rule fifo_link.exchanges_stale [OF assms])

definition stale_reply :: "int ControlEnvelopeV2" where
  "stale_reply = \<lparr>version = 2, dir = DIR_RESPONSE, etype = 409, payload = 6, task_id = 1, msg_id = 2,
     correl_id = 3, route = ''mezz/0'', timestamp_ns = 0\<rparr>"

definition stale_run :: "(int \<times> int result) list \<times> int link" where
  "stale_run = v2_exchanges (ref_zsock (\<lambda>ty b. b + 1)) ref_envc
     [(408, 5, 409, ref_intc, ''mezz/0'', 5000), (408, 5, 409, ref_intc, ''mezz/0'', 5000),
      (410, 7, 411, ref_intc, ''mezz/0'', 5000)]
     \<lparr>l_pending = [stale_reply], l_clock = 1700000000000000000\<rparr>"

lemma stale_run_ids: "distinct (3 # map fst (fst stale_run))" "0 \<notin> set (3 # map fst (fst stale_run))"
  by code_simp+

theorem v2_rpc_stale_reply_persists_witness:
  "length (fst stale_run) = 3 \<and> list_all (\<lambda>r. \<exists>msg. snd r = Inl (RuntimeError msg)) (fst stale_run)
    \<and> (\<exists>new. l_pending (snd stale_run) = [new] \<and> etype new = 411 \<and> payload new = 8)"
  using v2_rpc_stale_reply_persists [OF ref_link.fifo_link_axioms [of "\<lambda>ty b. b + 1"] _ _ , of
      "\<lparr>l_pending = [stale_reply], l_clock = 1700000000000000000\<rparr>" stale_reply
      "[(408, 5, 409, ref_intc, ''mezz/0'', 5000), (408, 5, 409, ref_intc, ''mezz/0'', 5000),
        (410, 7, 411, ref_intc, ''mezz/0'', 5000)]" "fst stale_run" "snd stale_run"] stale_run_ids
  by (auto simp: stale_run_def stale_reply_def)

text \<open>Message ids stay in 63 bits and identify the message: two requests made at clock readings
  whose bits above the random part differ get different message ids, whatever the random numbers.\<close>

theorem message_ids_distinct:
  assumes "time_ns zs s = (Inr t, s1)" "randrange zs 65536 s1 = (Inr a, s2)" "randrange zs 65536 s2 = (Inr r, s3)"
    and "time_ns zs s' = (Inr t', s1')" "randrange zs 65536 s1' = (Inr a', s2')"
      "randrange zs 65536 s2' = (Inr r', s3')"
    and "0 \<le> r \<and> r < 2 ^ 16" "0 \<le> r' \<and> r' < 2 ^ 16"
    and "0 \<le> t \<and> t < 2 ^ 62" "0 \<le> t' \<and> t' < 2 ^ 62" and "t div 2 ^ 15 \<noteq> t' div 2 ^ 15"
  shows "\<exists>ids ids'. next_ids zs s = (Inr ids, s3) \<and> next_ids zs s' = (Inr ids', s3')
     \<and> snd ids \<noteq> snd ids' \<and> (\<forall>x \<in> {fst ids, snd ids, fst ids', snd ids'}. 0 \<le> x \<and> x < 2 ^ 63)"
proof -
  let ?m = "\<lambda>t r. (push_bit 1 t XOR r) AND id_mask"
  have "next_ids zs s = (Inr ((push_bit 16 t XOR a) AND id_mask, ?m t r), s3)"
    "next_ids zs s' = (Inr ((push_bit 16 t' XOR a') AND id_mask, ?m t' r'), s3')"
    using assms(1-6) by (simp_all add: next_ids_def m_bind_def m_ret_def)
  moreover have "?m t r \<noteq> ?m t' r'"
    using clock_in_id [of r t] clock_in_id [of r' t'] assms(7-) by auto
  ultimately show ?thesis using id_range by auto
qed

definition two_sources :: "(bool, unit) zsock" where
  "two_sources = \<lparr>z_timeout = (\<lambda>k. m_ret ()), z_send = (\<lambda>w. m_ret ()), z_recv = m_ret [], z_close = m_ret (),
     time_ns = m_get (\<lambda>b. if b then 1700000000000000000 else 1700000000001000000),
     randrange = (\<lambda>n. m_get (\<lambda>b. if b then 17 else 40000))\<rparr>"

theorem message_ids_distinct_witness:
  "\<exists>ids ids'. next_ids two_sources True = (Inr ids, True) \<and> next_ids two_sources False = (Inr ids', False)
     \<and> snd ids \<noteq> snd ids' \<and> (\<forall>x \<in> {fst ids, snd ids, fst ids', snd ids'}. 0 \<le> x \<and> x < 2 ^ 63)"
  by (rule message_ids_distinct [where t = 1700000000000000000 and t' = 1700000000001000000
        and a = 17 and r = 17 and a' = 40000 and r' = 40000
        and ?s1.0 = True and ?s2.0 = True and s1' = False and s2' = False])
     (simp_all add: two_sources_def m_get_def)

end
