(* ===== verification/Py_Float.thy ===== *)
theory Py_Float
  imports Py_Text
begin

text \<open>
  Python floats. The clients only pass floating-point numbers through, print them and apply a few
  operations to them; IEEE arithmetic is a parameter, the record \<open>'f float_ops\<close>. \<open>f_lit\<close> is the value
  of a source literal, \<open>f_parse\<close> is \<open>float(s)\<close>, \<open>f_round\<close> is \<open>int(round(x))\<close> (which raises on NaN and
  infinities), \<open>f_trunc\<close> is \<open>int(x)\<close>, \<open>f_fix n\<close> the format \<open>{x:.nf}\<close>.
\<close>

record 'f float_ops =
  f_lit :: "string \<Rightarrow> 'f"
  f_parse :: "string \<Rightarrow> 'f option"
  f_str :: "'f \<Rightarrow> string"
  f_fix :: "nat \<Rightarrow> 'f \<Rightarrow> string"
  f_round :: "'f \<Rightarrow> int result"
  f_trunc :: "'f \<Rightarrow> int result"
  f_of_int :: "int \<Rightarrow> 'f"
  f_add :: "'f \<Rightarrow> 'f \<Rightarrow> 'f"
  f_mul :: "'f \<Rightarrow> 'f \<Rightarrow> 'f"
  f_div :: "'f \<Rightarrow> 'f \<Rightarrow> 'f"
  f_abs :: "'f \<Rightarrow> 'f"
  f_less :: "'f \<Rightarrow> 'f \<Rightarrow> bool"

text \<open>\<open>max([x] + xs)\<close>: the first of the largest elements.\<close>

definition f_max :: "'f float_ops \<Rightarrow> 'f \<Rightarrow> 'f list \<Rightarrow> 'f" where
  "f_max F x xs = foldl (\<lambda>m v. if f_less F m v then v else m) x xs"

text \<open>A concrete instance for examples: integers as floats.\<close>

definition int_floats :: "int float_ops" where
  "int_floats = \<lparr>f_lit = (\<lambda>s. case py_int (takeWhile (\<lambda>c. c \<noteq> CHR ''.'') s) of Some n \<Rightarrow> n | None \<Rightarrow> 0),
     f_parse = py_int, f_str = int_to_str, f_fix = (\<lambda>n x. int_to_str x), f_round = Inr, f_trunc = Inr, f_of_int = (\<lambda>x. x),
     f_add = (+), f_mul = (*), f_div = (div), f_abs = abs, f_less = (<)\<rparr>"

definition tick :: char where "tick = CHR 0x27"

text \<open>A text between single quotes, as the status lines print messages.\<close>

definition quoted_msg :: "string \<Rightarrow> string" where
  "quoted_msg m = [tick] @ m @ [tick]"

end
