(* ===== verification/Hdmezz.thy ===== *)
theory Hdmezz
  imports V2_Rpc Py_Float
begin

text \<open>
  \<open>client/hdmezz_control_v2.py\<close>: the HD mezzanine client. The messages are those of
  \<open>srcs/protobuf/daphneV3_low_level_confs.proto\<close>; every client method is one \<open>v2_rpc\<close>. \<open>hd_main\<close> is the
  command line; the second half is the control panel's logic: the state of the widgets of an AFE panel
  and what each button handler does to it. Qt's painting and layout are not modelled; a spin box keeps
  the value \<open>qt_spin\<close> makes of the one it is given (range and decimals).
\<close>

section \<open>Messages\<close>

datatype 'f hd_request =
    SetBlockEnable int bool
  | ConfigureBlock int 'f 'f 'f 'f 'f 'f
  | ReadBlockConfig int
  | SetPowerStates int bool bool
  | ReadStatus int
  | ClearAlertFlag int

record base_resp =
  success :: bool
  message :: string
  afeBlock :: int

record enable_resp = base_resp +
  enable :: bool

record 'f config_resp = base_resp +
  r_shunt_5V :: 'f
  r_shunt_3V3 :: 'f
  max_current_5V_scale :: 'f
  max_current_3V3_scale :: 'f
  max_current_5V_shutdown :: 'f
  max_current_3V3_shutdown :: 'f

record 'f config_read_resp = "'f config_resp" +
  max_power_5V :: 'f
  max_power_3V3 :: 'f
  current_lsb_5V :: 'f
  current_lsb_3V3 :: 'f
  shunt_cal_5V :: int
  shunt_cal_3V3 :: int

record power_resp = base_resp +
  power5V :: bool
  power3V3 :: bool

record 'f status_resp = power_resp +
  measured_voltage5V :: 'f
  measured_voltage3V3 :: 'f
  measured_current5V :: 'f
  measured_current3V3 :: 'f
  measured_power5V :: 'f
  measured_power3V3 :: 'f
  alert_5V :: bool
  alert_3V3 :: bool

definition MT2_SET_HDMEZZ_BLOCK_ENABLE_REQ :: int where "MT2_SET_HDMEZZ_BLOCK_ENABLE_REQ = 400"
definition MT2_SET_HDMEZZ_BLOCK_ENABLE_RESP :: int where "MT2_SET_HDMEZZ_BLOCK_ENABLE_RESP = 401"
definition MT2_CONFIGURE_HDMEZZ_BLOCK_REQ :: int where "MT2_CONFIGURE_HDMEZZ_BLOCK_REQ = 402"
definition MT2_CONFIGURE_HDMEZZ_BLOCK_RESP :: int where "MT2_CONFIGURE_HDMEZZ_BLOCK_RESP = 403"
definition MT2_READ_HDMEZZ_BLOCK_CONFIG_REQ :: int where "MT2_READ_HDMEZZ_BLOCK_CONFIG_REQ = 404"
definition MT2_READ_HDMEZZ_BLOCK_CONFIG_RESP :: int where "MT2_READ_HDMEZZ_BLOCK_CONFIG_RESP = 405"
definition MT2_SET_HDMEZZ_POWER_STATES_REQ :: int where "MT2_SET_HDMEZZ_POWER_STATES_REQ = 406"
definition MT2_SET_HDMEZZ_POWER_STATES_RESP :: int where "MT2_SET_HDMEZZ_POWER_STATES_RESP = 407"
definition MT2_READ_HDMEZZ_STATUS_REQ :: int where "MT2_READ_HDMEZZ_STATUS_REQ = 408"
definition MT2_READ_HDMEZZ_STATUS_RESP :: int where "MT2_READ_HDMEZZ_STATUS_RESP = 409"
definition MT2_CLEAR_HDMEZZ_ALERT_FLAG_REQ :: int where "MT2_CLEAR_HDMEZZ_ALERT_FLAG_REQ = 410"
definition MT2_CLEAR_HDMEZZ_ALERT_FLAG_RESP :: int where "MT2_CLEAR_HDMEZZ_ALERT_FLAG_RESP = 411"

lemmas hd_types =
  MT2_SET_HDMEZZ_BLOCK_ENABLE_REQ_def MT2_SET_HDMEZZ_BLOCK_ENABLE_RESP_def
  MT2_CONFIGURE_HDMEZZ_BLOCK_REQ_def MT2_CONFIGURE_HDMEZZ_BLOCK_RESP_def
  MT2_READ_HDMEZZ_BLOCK_CONFIG_REQ_def MT2_READ_HDMEZZ_BLOCK_CONFIG_RESP_def
  MT2_SET_HDMEZZ_POWER_STATES_REQ_def MT2_SET_HDMEZZ_POWER_STATES_RESP_def
  MT2_READ_HDMEZZ_STATUS_REQ_def MT2_READ_HDMEZZ_STATUS_RESP_def
  MT2_CLEAR_HDMEZZ_ALERT_FLAG_REQ_def MT2_CLEAR_HDMEZZ_ALERT_FLAG_RESP_def

section \<open>The client object\<close>

text \<open>The attributes of \<open>HDMezzClient\<close>, the codecs of its messages, and printing.\<close>

record ('s, 'w, 'p, 'f) hd_client =
  c_sock :: "('s, 'w) zsock"
  c_envc :: "('w, 'p ControlEnvelopeV2) codec"
  c_ser :: "'f hd_request \<Rightarrow> 'p"
  c_enable :: "('p, enable_resp) codec"
  c_config :: "('p, 'f config_resp) codec"
  c_readcfg :: "('p, 'f config_read_resp) codec"
  c_power :: "('p, power_resp) codec"
  c_status :: "('p, 'f status_resp) codec"
  c_clear :: "('p, base_resp) codec"
  c_route :: string
  c_timeout_ms :: int
  c_floats :: "'f float_ops"
  c_print :: "string \<Rightarrow> ('s, unit) py"
  c_exc_str :: "exn \<Rightarrow> string"

definition hd_rpc ::
  "('s, 'w, 'p, 'f) hd_client \<Rightarrow> int \<Rightarrow> 'f hd_request \<Rightarrow> int \<Rightarrow> ('p, 'm) codec \<Rightarrow> ('s, 'm) py" where
  "hd_rpc c req_type req resp_type respc =
     v2_rpc (c_sock c) (c_envc c) req_type (c_ser c req) resp_type respc (c_route c) (c_timeout_ms c)"

definition set_block_enable :: "('s, 'w, 'p, 'f) hd_client \<Rightarrow> int \<Rightarrow> bool \<Rightarrow> ('s, enable_resp) py" where
  "set_block_enable c afe en =
     hd_rpc c MT2_SET_HDMEZZ_BLOCK_ENABLE_REQ (SetBlockEnable afe en) MT2_SET_HDMEZZ_BLOCK_ENABLE_RESP (c_enable c)"

definition configure_block ::
  "('s, 'w, 'p, 'f) hd_client \<Rightarrow> int \<Rightarrow> 'f \<Rightarrow> 'f \<Rightarrow> 'f \<Rightarrow> 'f \<Rightarrow> 'f \<Rightarrow> 'f \<Rightarrow> ('s, 'f config_resp) py" where
  "configure_block c afe r5 r3 i5s i3s i5x i3x =
     hd_rpc c MT2_CONFIGURE_HDMEZZ_BLOCK_REQ (ConfigureBlock afe r5 r3 i5s i3s i5x i3x)
       MT2_CONFIGURE_HDMEZZ_BLOCK_RESP (c_config c)"

definition read_block_config :: "('s, 'w, 'p, 'f) hd_client \<Rightarrow> int \<Rightarrow> ('s, 'f config_read_resp) py" where
  "read_block_config c afe =
     hd_rpc c MT2_READ_HDMEZZ_BLOCK_CONFIG_REQ (ReadBlockConfig afe) MT2_READ_HDMEZZ_BLOCK_CONFIG_RESP (c_readcfg c)"

definition set_power_states :: "('s, 'w, 'p, 'f) hd_client \<Rightarrow> int \<Rightarrow> bool \<Rightarrow> bool \<Rightarrow> ('s, power_resp) py" where
  "set_power_states c afe p5 p3 =
     hd_rpc c MT2_SET_HDMEZZ_POWER_STATES_REQ (SetPowerStates afe p5 p3) MT2_SET_HDMEZZ_POWER_STATES_RESP (c_power c)"

definition read_status :: "('s, 'w, 'p, 'f) hd_client \<Rightarrow> int \<Rightarrow> ('s, 'f status_resp) py" where
  "read_status c afe =
     hd_rpc c MT2_READ_HDMEZZ_STATUS_REQ (ReadStatus afe) MT2_READ_HDMEZZ_STATUS_RESP (c_status c)"

definition clear_alert_flag :: "('s, 'w, 'p, 'f) hd_client \<Rightarrow> int \<Rightarrow> ('s, base_resp) py" where
  "clear_alert_flag c afe =
     hd_rpc c MT2_CLEAR_HDMEZZ_ALERT_FLAG_REQ (ClearAlertFlag afe) MT2_CLEAR_HDMEZZ_ALERT_FLAG_RESP (c_clear c)"

definition hd_close :: "('s, 'w, 'p, 'f) hd_client \<Rightarrow> ('s, unit) py" where
  "hd_close c = z_close (c_sock c)"

section \<open>The command line\<close>

definition bit :: "bool \<Rightarrow> string" where "bit b = (if b then ''1'' else ''0'')"

definition base_line :: "('b) base_resp_scheme \<Rightarrow> string" where
  "base_line r = ''success='' @ bool_str (success r) @ '' afe='' @ int_to_str (afeBlock r)"

definition msg_part :: "('b) base_resp_scheme \<Rightarrow> string" where
  "msg_part r = '' message='' @ [tick] @ message r @ [tick]"

definition config_lines :: "'f float_ops \<Rightarrow> ('f, 'b) config_resp_scheme \<Rightarrow> string list" where
  "config_lines F r =
     [base_line r @ msg_part r,
      ''r_shunt_5V='' @ f_str F (r_shunt_5V r) @ '' ohm'',
      ''r_shunt_3V3='' @ f_str F (r_shunt_3V3 r) @ '' ohm'',
      ''max_current_5V_scale='' @ f_str F (max_current_5V_scale r) @ '' A'',
      ''max_current_3V3_scale='' @ f_str F (max_current_3V3_scale r) @ '' A'',
      ''max_current_5V_shutdown='' @ f_str F (max_current_5V_shutdown r) @ '' A'',
      ''max_current_3V3_shutdown='' @ f_str F (max_current_3V3_shutdown r) @ '' A'']"

text \<open>\<open>hasattr(resp, "max_power_5V")\<close> holds for the read response only.\<close>

definition config_read_lines :: "'f float_ops \<Rightarrow> 'f config_read_resp \<Rightarrow> string list" where
  "config_read_lines F r = config_lines F r @
     [''max_power_5V='' @ f_str F (max_power_5V r) @ '' W'',
      ''max_power_3V3='' @ f_str F (max_power_3V3 r) @ '' W'',
      ''current_lsb_5V='' @ f_str F (current_lsb_5V r) @ '' A/LSB'',
      ''current_lsb_3V3='' @ f_str F (current_lsb_3V3 r) @ '' A/LSB'',
      ''shunt_cal_5V='' @ int_to_str (shunt_cal_5V r),
      ''shunt_cal_3V3='' @ int_to_str (shunt_cal_3V3 r)]"

definition status_lines :: "'f float_ops \<Rightarrow> 'f status_resp \<Rightarrow> string list" where
  "status_lines F r =
     [base_line r @ msg_part r,
      ''power_5V='' @ bit (power5V r), ''power_3V3='' @ bit (power3V3 r),
      ''alert_5V='' @ bit (alert_5V r), ''alert_3V3='' @ bit (alert_3V3 r),
      ''measured_voltage_5V='' @ f_fix F 6 (measured_voltage5V r) @ '' V'',
      ''measured_voltage_3V3='' @ f_fix F 6 (measured_voltage3V3 r) @ '' V'',
      ''measured_current_5V='' @ f_fix F 6 (measured_current5V r) @ '' mA'',
      ''measured_current_3V3='' @ f_fix F 6 (measured_current3V3 r) @ '' mA'',
      ''measured_power_5V='' @ f_fix F 6 (measured_power5V r) @ '' mW'',
      ''measured_power_3V3='' @ f_fix F 6 (measured_power3V3 r) @ '' mW'']"

text \<open>The sub-commands with their arguments as the parser delivers them; the choices \<open>0\<close> and \<open>1\<close> of a
  switch are its truth value.\<close>

datatype 'f hd_command =
    CmdSetBlockEnable int bool
  | CmdConfigureBlock int 'f 'f 'f 'f 'f 'f
  | CmdReadBlockConfig int
  | CmdSetPowerStates int bool bool
  | CmdReadStatus int
  | CmdClearAlertFlag int

definition DEFAULT_R_SHUNT_5V :: "'f float_ops \<Rightarrow> 'f" where "DEFAULT_R_SHUNT_5V F = f_lit F ''36e-3''"
definition DEFAULT_R_SHUNT_3V3 :: "'f float_ops \<Rightarrow> 'f" where "DEFAULT_R_SHUNT_3V3 F = f_lit F ''0.3''"
definition DEFAULT_MAX_CURRENT_5V_SCALE :: "'f float_ops \<Rightarrow> 'f" where "DEFAULT_MAX_CURRENT_5V_SCALE F = f_lit F ''200e-3''"
definition DEFAULT_MAX_CURRENT_3V3_SCALE :: "'f float_ops \<Rightarrow> 'f" where "DEFAULT_MAX_CURRENT_3V3_SCALE F = f_lit F ''200e-3''"
definition DEFAULT_MAX_CURRENT_5V_SHUTDOWN :: "'f float_ops \<Rightarrow> 'f" where "DEFAULT_MAX_CURRENT_5V_SHUTDOWN F = f_lit F ''120e-3''"
definition DEFAULT_MAX_CURRENT_3V3_SHUTDOWN :: "'f float_ops \<Rightarrow> 'f" where "DEFAULT_MAX_CURRENT_3V3_SHUTDOWN F = f_lit F ''10e-3''"

definition configure_defaults :: "'f float_ops \<Rightarrow> int \<Rightarrow> 'f hd_command" where
  "configure_defaults F afe = CmdConfigureBlock afe (DEFAULT_R_SHUNT_5V F) (DEFAULT_R_SHUNT_3V3 F)
     (DEFAULT_MAX_CURRENT_5V_SCALE F) (DEFAULT_MAX_CURRENT_3V3_SCALE F)
     (DEFAULT_MAX_CURRENT_5V_SHUTDOWN F) (DEFAULT_MAX_CURRENT_3V3_SHUTDOWN F)"

definition exit_code :: "('b) base_resp_scheme \<Rightarrow> int" where
  "exit_code r = (if success r then 0 else 2)"

definition report :: "('s, 'w, 'p, 'f) hd_client \<Rightarrow> string list \<Rightarrow> ('b) base_resp_scheme \<Rightarrow> ('s, int) py" where
  "report c ls r = m_then (m_for ls (c_print c)) (m_ret (exit_code r))"

definition hd_command_body :: "('s, 'w, 'p, 'f) hd_client \<Rightarrow> 'f hd_command \<Rightarrow> ('s, int) py" where
  "hd_command_body c cmd = (case cmd of
       CmdSetBlockEnable afe en \<Rightarrow>
         m_bind (set_block_enable c afe en) (\<lambda>r.
           report c [base_line r @ '' enable='' @ bit (enable r) @ msg_part r] r)
     | CmdConfigureBlock afe r5 r3 i5s i3s i5x i3x \<Rightarrow>
         m_bind (configure_block c afe r5 r3 i5s i3s i5x i3x) (\<lambda>r. report c (config_lines (c_floats c) r) r)
     | CmdReadBlockConfig afe \<Rightarrow>
         m_bind (read_block_config c afe) (\<lambda>r. report c (config_read_lines (c_floats c) r) r)
     | CmdSetPowerStates afe p5 p3 \<Rightarrow>
         m_bind (set_power_states c afe p5 p3) (\<lambda>r.
           report c [base_line r @ '' power5V='' @ bit (power5V r) @ '' power3V3='' @ bit (power3V3 r) @ msg_part r] r)
     | CmdReadStatus afe \<Rightarrow>
         m_bind (read_status c afe) (\<lambda>r. report c (status_lines (c_floats c) r) r)
     | CmdClearAlertFlag afe \<Rightarrow>
         m_bind (clear_alert_flag c afe) (\<lambda>r. report c [base_line r @ msg_part r] r))"

text \<open>The \<open>try/except/finally\<close> of \<open>main\<close>; a timeout of the socket is \<open>zmq.Again\<close>.\<close>

definition hd_main :: "('s, 'w, 'p, 'f) hd_client \<Rightarrow> 'f hd_command \<Rightarrow> ('s, int) py" where
  "hd_main c cmd =
     m_finally
       (m_except (hd_command_body c cmd) (\<lambda>e.
          if e = ZmqAgain then m_then (c_print c ''[timeout] no reply'') (m_ret 2)
          else m_then (c_print c (''[error] '' @ c_exc_str c e)) (m_ret 2)))
       (hd_close c)"

end
