(* ===== verification/Hdmezz_Panel.thy ===== *)
theory Hdmezz_Panel
  imports Hdmezz
begin

text \<open>
  The control window of \<open>client/hdmezz_control_v2.py\<close> (\<open>run_visual\<close>): the state of the widgets of the
  five AFE panels and the handlers of the buttons and of the refresh timer. A handler runs on the pair
  of the window state and the state of the link. Painting, layout and the event loop are Qt's.

  \<open>window_ok\<close> is the invariant of the window: five panels, trend graphs that hold at most 90 points and
  the same number in both series, a log of at most 500 lines. Every handler keeps it, leaves the busy
  cursor as it found it and returns, whatever the server does.
\<close>

section \<open>Widgets\<close>

record 'f panel =
  p_afe :: int
  enable_check :: bool
  power_5v :: bool
  power_3v3 :: bool
  power_5v_lamp :: bool
  power_3v3_lamp :: bool
  alert_5v_lamp :: bool
  alert_3v3_lamp :: bool
  knobs :: "'f \<times> 'f \<times> 'f \<times> 'f \<times> 'f \<times> 'f"
  displays :: "string list"
  voltage_graph :: "'f list \<times> 'f list"
  current_graph :: "'f list \<times> 'f list"
  power_graph :: "'f list \<times> 'f list"
  scale_labels :: "string list"

record 'f window =
  panels :: "'f panel list"
  log :: "string list"
  cursor_depth :: int
  auto_refresh :: bool
  refresh_interval :: int
  timer :: "int option"

type_synonym ('f, 's) wstate = "'f window \<times> 's"

record ('s, 'f) gui_env =
  qt_spin :: "'f \<Rightarrow> 'f"
  qt_time :: "'s \<Rightarrow> string"

definition on_link :: "('s, 'a) py \<Rightarrow> (('f, 's) wstate, 'a) py" where
  "on_link m ws = (case m (snd ws) of (r, t) \<Rightarrow> (r, (fst ws, t)))"

definition on_window :: "('f window \<Rightarrow> 'f window) \<Rightarrow> (('f, 's) wstate, unit) py" where
  "on_window f = m_modify (\<lambda>ws. (f (fst ws), snd ws))"

definition at_panel :: "nat \<Rightarrow> ('f panel \<Rightarrow> 'f panel) \<Rightarrow> (('f, 's) wstate, unit) py" where
  "at_panel i f = on_window (\<lambda>w. w\<lparr>panels := (panels w)[i := f (panels w ! i)]\<rparr>)"

text \<open>\<open>TrendGraph\<close>: a \<open>deque(maxlen=90)\<close> per series and the label of the scale.\<close>

definition history_len :: nat where "history_len = 90"

definition deque_append :: "'f list \<Rightarrow> 'f \<Rightarrow> 'f list" where
  "deque_append xs x = deque_push history_len xs x"

definition append_values :: "'f list \<times> 'f list \<Rightarrow> 'f \<Rightarrow> 'f \<Rightarrow> 'f list \<times> 'f list" where
  "append_values g x y = (deque_append (fst g) x, deque_append (snd g) y)"

definition scale_label :: "'f float_ops \<Rightarrow> string \<Rightarrow> 'f list \<times> 'f list \<Rightarrow> string" where
  "scale_label F unit g =
     ''Y max: '' @ f_fix F 3 (f_max F (f_lit F ''1.0'') (map (f_abs F) (fst g @ snd g))) @ '' '' @ unit
     @ ''   X: '' @ int_to_str (int history_len) @ '' samples''"

text \<open>\<open>QPlainTextEdit.setMaximumBlockCount(500)\<close> drops the oldest lines.\<close>

definition append_log :: "('s, 'f) gui_env \<Rightarrow> string \<Rightarrow> (('f, 's) wstate, unit) py" where
  "append_log gui line =
     m_bind (m_get (\<lambda>ws. qt_time gui (snd ws))) (\<lambda>ts.
     on_window (\<lambda>w. w\<lparr>log := drop (length (log w) + 1 - 500) (log w @ [ts @ ''  '' @ line])\<rparr>))"

definition prefix_afe :: "nat \<Rightarrow> string \<Rightarrow> string" where
  "prefix_afe i s = ''[AFE '' @ int_to_str (int i) @ ''] '' @ s"

section \<open>Handlers\<close>

definition set_cursor :: "int \<Rightarrow> (('f, 's) wstate, unit) py" where
  "set_cursor d = on_window (\<lambda>w. w\<lparr>cursor_depth := cursor_depth w + d\<rparr>)"

definition panel_run ::
  "('s, 'w, 'p, 'f) hd_client \<Rightarrow> ('s, 'f) gui_env \<Rightarrow> nat \<Rightarrow> string \<Rightarrow> ('s, ('b) base_resp_scheme) py \<Rightarrow>
   (('f, 's) wstate, ('b) base_resp_scheme option) py" where
  "panel_run c gui i label fn =
     m_then (set_cursor 1)
       (m_finally
         (m_except
           (m_bind (on_link fn) (\<lambda>resp.
            m_then (append_log gui (prefix_afe i (label @ '': success='' @ bool_str (success resp) @ msg_part resp)))
              (m_ret (Some resp))))
           (\<lambda>e. m_then (append_log gui (prefix_afe i (label @ '': ERROR '' @ c_exc_str c e))) (m_ret None)))
         (set_cursor (-1)))"

definition apply_enable :: "('s, 'w, 'p, 'f) hd_client \<Rightarrow> ('s, 'f) gui_env \<Rightarrow> nat \<Rightarrow> (('f, 's) wstate, unit) py" where
  "apply_enable c gui i =
     m_bind (m_get (\<lambda>ws. enable_check (panels (fst ws) ! i))) (\<lambda>checked.
     m_bind (panel_run c gui i ''SET_BLOCK_ENABLE'' (set_block_enable c (int i) checked)) (\<lambda>r. case r of
       None \<Rightarrow> m_ret () | Some resp \<Rightarrow> at_panel i (\<lambda>p. p\<lparr>enable_check := enable resp\<rparr>)))"

definition panel_configure :: "('s, 'w, 'p, 'f) hd_client \<Rightarrow> ('s, 'f) gui_env \<Rightarrow> nat \<Rightarrow> (('f, 's) wstate, unit) py" where
  "panel_configure c gui i =
     m_bind (m_get (\<lambda>ws. knobs (panels (fst ws) ! i))) (\<lambda>(r5, r3, i5s, i3s, i5x, i3x).
     m_then (panel_run c gui i ''CONFIGURE_BLOCK'' (configure_block c (int i) r5 r3 i5s i3s i5x i3x)) (m_ret ()))"

definition read_config :: "('s, 'w, 'p, 'f) hd_client \<Rightarrow> ('s, 'f) gui_env \<Rightarrow> nat \<Rightarrow> (('f, 's) wstate, unit) py" where
  "read_config c gui i =
     m_bind (panel_run c gui i ''READ_BLOCK_CONFIG'' (read_block_config c (int i))) (\<lambda>r. case r of
       None \<Rightarrow> m_ret ()
     | Some resp \<Rightarrow>
         m_then (at_panel i (\<lambda>p. p\<lparr>knobs := (qt_spin gui (r_shunt_5V resp), qt_spin gui (r_shunt_3V3 resp),
             qt_spin gui (max_current_5V_scale resp), qt_spin gui (max_current_3V3_scale resp),
             qt_spin gui (max_current_5V_shutdown resp), qt_spin gui (max_current_3V3_shutdown resp))\<rparr>))
           (append_log gui (prefix_afe i (''CONFIG values: r5='' @ f_fix (c_floats c) 6 (r_shunt_5V resp)
              @ '' r3='' @ f_fix (c_floats c) 6 (r_shunt_3V3 resp)
              @ '' i5s='' @ f_fix (c_floats c) 6 (max_current_5V_scale resp)
              @ '' i3s='' @ f_fix (c_floats c) 6 (max_current_3V3_scale resp)))))"

definition apply_power :: "('s, 'w, 'p, 'f) hd_client \<Rightarrow> ('s, 'f) gui_env \<Rightarrow> nat \<Rightarrow> (('f, 's) wstate, unit) py" where
  "apply_power c gui i =
     m_bind (m_get (\<lambda>ws. (power_5v (panels (fst ws) ! i), power_3v3 (panels (fst ws) ! i)))) (\<lambda>(p5, p3).
     m_then (panel_run c gui i ''SET_POWER_STATES'' (set_power_states c (int i) p5 p3)) (m_ret ()))"

definition read_status_silent ::
  "('s, 'w, 'p, 'f) hd_client \<Rightarrow> ('s, 'f) gui_env \<Rightarrow> nat \<Rightarrow> (('f, 's) wstate, 'f status_resp option) py" where
  "read_status_silent c gui i =
     m_then (set_cursor 1)
       (m_finally
         (m_except (m_bind (on_link (read_status c (int i))) (\<lambda>resp. m_ret (Some resp)))
           (\<lambda>e. m_then (append_log gui (prefix_afe i (''AUTO_REFRESH: ERROR '' @ c_exc_str c e))) (m_ret None)))
         (set_cursor (-1)))"

definition show_status :: "'f float_ops \<Rightarrow> 'f status_resp \<Rightarrow> 'f panel \<Rightarrow> 'f panel" where
  "show_status F r p =
     (let vg = append_values (voltage_graph p) (measured_voltage5V r) (measured_voltage3V3 r);
          cg = append_values (current_graph p) (measured_current5V r) (measured_current3V3 r);
          pg = append_values (power_graph p) (measured_power5V r) (measured_power3V3 r)
      in p\<lparr>power_5v := power5V r, power_3v3 := power3V3 r, power_5v_lamp := power5V r, power_3v3_lamp := power3V3 r,
           alert_5v_lamp := alert_5V r, alert_3v3_lamp := alert_3V3 r,
           displays := map (f_fix F 3) [measured_voltage5V r, measured_voltage3V3 r, measured_current5V r,
             measured_current3V3 r, measured_power5V r, measured_power3V3 r],
           voltage_graph := vg, current_graph := cg, power_graph := pg,
           scale_labels := [scale_label F ''V'' vg, scale_label F ''mA'' cg, scale_label F ''mW'' pg]\<rparr>)"

definition status_log :: "'f float_ops \<Rightarrow> 'f status_resp \<Rightarrow> string" where
  "status_log F r = ''STATUS: V5='' @ f_fix F 4 (measured_voltage5V r) @ '' V V3='' @ f_fix F 4 (measured_voltage3V3 r)
     @ '' V I5='' @ f_fix F 4 (measured_current5V r) @ '' mA I3='' @ f_fix F 4 (measured_current3V3 r)
     @ '' mA P5='' @ f_fix F 4 (measured_power5V r) @ '' mW P3='' @ f_fix F 4 (measured_power3V3 r)
     @ '' mW PW5='' @ bit (power5V r) @ '' PW3='' @ bit (power3V3 r)
     @ '' AL5='' @ bit (alert_5V r) @ '' AL3='' @ bit (alert_3V3 r)"

definition panel_read_status ::
  "('s, 'w, 'p, 'f) hd_client \<Rightarrow> ('s, 'f) gui_env \<Rightarrow> nat \<Rightarrow> bool \<Rightarrow> (('f, 's) wstate, unit) py" where
  "panel_read_status c gui i log_result =
     m_bind (if log_result then panel_run c gui i ''READ_STATUS'' (read_status c (int i)) else read_status_silent c gui i)
       (\<lambda>r. case r of
          None \<Rightarrow> m_ret ()
        | Some resp \<Rightarrow>
            m_then (at_panel i (show_status (c_floats c) resp))
              (m_when log_result (append_log gui (prefix_afe i (status_log (c_floats c) resp)))))"

definition clear_alerts :: "('s, 'w, 'p, 'f) hd_client \<Rightarrow> ('s, 'f) gui_env \<Rightarrow> nat \<Rightarrow> (('f, 's) wstate, unit) py" where
  "clear_alerts c gui i =
     m_bind (panel_run c gui i ''CLEAR_ALERT_FLAG'' (clear_alert_flag c (int i))) (\<lambda>r. case r of
       None \<Rightarrow> m_ret () | Some resp \<Rightarrow> panel_read_status c gui i True)"

definition refresh_all_now :: "('s, 'w, 'p, 'f) hd_client \<Rightarrow> ('s, 'f) gui_env \<Rightarrow> (('f, 's) wstate, unit) py" where
  "refresh_all_now c gui = m_for [0..<5] (\<lambda>i. panel_read_status c gui i False)"

definition auto_refresh_tick :: "('s, 'w, 'p, 'f) hd_client \<Rightarrow> ('s, 'f) gui_env \<Rightarrow> (('f, 's) wstate, unit) py" where
  "auto_refresh_tick c gui =
     m_bind (m_get (\<lambda>ws. auto_refresh (fst ws))) (\<lambda>on. if \<not> on then m_ret () else refresh_all_now c gui)"

definition toggle_auto_refresh :: "bool \<Rightarrow> (('f, 's) wstate, unit) py" where
  "toggle_auto_refresh enabled =
     on_window (\<lambda>w. w\<lparr>timer := (if enabled then Some (refresh_interval w) else None)\<rparr>)"

definition update_refresh_interval :: "int \<Rightarrow> (('f, 's) wstate, unit) py" where
  "update_refresh_interval interval_ms =
     on_window (\<lambda>w. w\<lparr>timer := (case timer w of None \<Rightarrow> None | Some _ \<Rightarrow> Some interval_ms)\<rparr>)"

definition initial_panel :: "'f float_ops \<Rightarrow> ('f \<Rightarrow> 'f) \<Rightarrow> int \<Rightarrow> 'f panel" where
  "initial_panel F spin afe = \<lparr>p_afe = afe, enable_check = False, power_5v = False, power_3v3 = False,
     power_5v_lamp = False, power_3v3_lamp = False, alert_5v_lamp = False, alert_3v3_lamp = False,
     knobs = (spin (DEFAULT_R_SHUNT_5V F), spin (DEFAULT_R_SHUNT_3V3 F), spin (DEFAULT_MAX_CURRENT_5V_SCALE F),
       spin (DEFAULT_MAX_CURRENT_3V3_SCALE F), spin (DEFAULT_MAX_CURRENT_5V_SHUTDOWN F),
       spin (DEFAULT_MAX_CURRENT_3V3_SHUTDOWN F)),
     displays = replicate 6 ''0.000'', voltage_graph = ([], []), current_graph = ([], []), power_graph = ([], []),
     scale_labels = [''Y max: 0.000 V   X: newest at right'', ''Y max: 0.000 mA   X: newest at right'',
       ''Y max: 0.000 mW   X: newest at right'']\<rparr>"

definition initial_window :: "'f float_ops \<Rightarrow> ('f \<Rightarrow> 'f) \<Rightarrow> 'f window" where
  "initial_window F spin = \<lparr>panels = map (initial_panel F spin) (py_range 5), log = [], cursor_depth = 0,
     auto_refresh = False, refresh_interval = 1000, timer = None\<rparr>"

section \<open>Events\<close>

text \<open>What can happen to the window: the user clicks a button or edits a widget, the timer fires.\<close>

datatype 'f event =
    ClickEnable nat
  | ClickConfigure nat
  | ClickReadConfig nat
  | ClickPower nat
  | ClickReadStatus nat
  | ClickClear nat
  | ClickRefresh
  | TimerFires
  | EditEnable nat bool
  | EditPower nat bool bool
  | EditKnobs nat 'f 'f 'f 'f 'f 'f
  | EditAuto bool
  | EditInterval int

fun handle :: "('s, 'w, 'p, 'f) hd_client \<Rightarrow> ('s, 'f) gui_env \<Rightarrow> 'f event \<Rightarrow> (('f, 's) wstate, unit) py" where
  "handle c gui (ClickEnable i) = apply_enable c gui i"
| "handle c gui (ClickConfigure i) = panel_configure c gui i"
| "handle c gui (ClickReadConfig i) = read_config c gui i"
| "handle c gui (ClickPower i) = apply_power c gui i"
| "handle c gui (ClickReadStatus i) = panel_read_status c gui i True"
| "handle c gui (ClickClear i) = clear_alerts c gui i"
| "handle c gui ClickRefresh = refresh_all_now c gui"
| "handle c gui TimerFires = auto_refresh_tick c gui"
| "handle c gui (EditEnable i b) = at_panel i (\<lambda>p. p\<lparr>enable_check := b\<rparr>)"
| "handle c gui (EditPower i b b') = at_panel i (\<lambda>p. p\<lparr>power_5v := b, power_3v3 := b'\<rparr>)"
| "handle c gui (EditKnobs i a b d e f g) = at_panel i (\<lambda>p. p\<lparr>knobs := (qt_spin gui a, qt_spin gui b,
     qt_spin gui d, qt_spin gui e, qt_spin gui f, qt_spin gui g)\<rparr>)"
| "handle c gui (EditAuto b) =
     m_then (on_window (\<lambda>w. w\<lparr>auto_refresh := b\<rparr>)) (toggle_auto_refresh b)"
| "handle c gui (EditInterval n) =
     m_then (on_window (\<lambda>w. w\<lparr>refresh_interval := n\<rparr>)) (update_refresh_interval n)"

text \<open>The states of window and link that can be reached; between two events the link may change
  (the server answers, connections come and go).\<close>

inductive reached :: "('s, 'w, 'p, 'f) hd_client \<Rightarrow> ('s, 'f) gui_env \<Rightarrow> ('f, 's) wstate \<Rightarrow> bool"
  for c :: "('s, 'w, 'p, 'f) hd_client" and gui :: "('s, 'f) gui_env" where
  start: "reached c gui (initial_window (c_floats c) (qt_spin gui), s)"
| event: "reached c gui ws \<Longrightarrow> reached c gui (snd (handle c gui ev ws))"
| link_changes: "reached c gui (w, s) \<Longrightarrow> reached c gui (w, s')"

section \<open>The window invariant\<close>

definition graph_ok :: "'f list \<times> 'f list \<Rightarrow> bool" where
  "graph_ok g \<longleftrightarrow> length (fst g) = length (snd g) \<and> length (fst g) \<le> history_len"

definition panel_ok :: "'f panel \<Rightarrow> bool" where
  "panel_ok p \<longleftrightarrow> graph_ok (voltage_graph p) \<and> graph_ok (current_graph p) \<and> graph_ok (power_graph p)
     \<and> length (displays p) = 6"

definition window_ok :: "int \<Rightarrow> 'f window \<Rightarrow> bool" where
  "window_ok d w \<longleftrightarrow> map p_afe (panels w) = py_range 5 \<and> list_all panel_ok (panels w) \<and> length (log w) \<le> 500
     \<and> cursor_depth w = d \<and> timer w = (if auto_refresh w then Some (refresh_interval w) else None)"

abbreviation keeps :: "int \<Rightarrow> (('f, 's) wstate, 'a) py \<Rightarrow> bool" where
  "keeps d m \<equiv> preserves (\<lambda>ws. window_ok d (fst ws)) m"

lemma deque_append_length: "length xs \<le> history_len \<Longrightarrow> length (deque_append xs x) = min history_len (length xs + 1)"
  by (simp add: deque_append_def length_deque_push)

lemma append_values_ok: "graph_ok g \<Longrightarrow> graph_ok (append_values g x y)"
  by (simp add: graph_ok_def append_values_def deque_append_length)

lemma show_status_ok: "panel_ok p \<Longrightarrow> panel_ok (show_status F r p) \<and> p_afe (show_status F r p) = p_afe p"
  by (simp add: show_status_def panel_ok_def Let_def append_values_ok)

lemma keeps_window: "(\<And>w. window_ok d w \<Longrightarrow> window_ok d (f w)) \<Longrightarrow> keeps d (on_window f)"
  unfolding on_window_def by (rule preserves_modify) simp

lemma window_ok_panel:
  assumes "window_ok d w" and f: "\<And>p. panel_ok p \<Longrightarrow> panel_ok (f p) \<and> p_afe (f p) = p_afe p"
  shows "window_ok d (w\<lparr>panels := (panels w)[i := f (panels w ! i)]\<rparr>)"
proof (cases "i < length (panels w)")
  case True
  have ok: "panel_ok (panels w ! i)" using assms(1) True by (simp add: window_ok_def list_all_length)
  have "map p_afe ((panels w)[i := f (panels w ! i)]) = map p_afe (panels w)"
    using True f [OF ok] by (simp add: map_update list_update_same_conv)
  moreover have "list_all panel_ok ((panels w)[i := f (panels w ! i)])"
    using assms(1) True f [OF ok] by (simp add: window_ok_def list_all_length nth_list_update)
  ultimately show ?thesis using assms(1) by (simp add: window_ok_def)
qed (use assms(1) in \<open>simp add: list_update_beyond\<close>)

lemma keeps_panel: "(\<And>p. panel_ok p \<Longrightarrow> panel_ok (f p) \<and> p_afe (f p) = p_afe p) \<Longrightarrow> keeps d (at_panel i f)"
  unfolding at_panel_def by (rule keeps_window) (rule window_ok_panel)

lemma keeps_log: "keeps d (append_log gui line)"
  unfolding append_log_def
  by (intro preserves_bind preserves_basic keeps_window) (auto simp: window_ok_def)

lemma keeps_link: "keeps d (on_link m)"
  by (auto simp: preserves_def on_link_def split: prod.splits)

text \<open>The busy cursor is pushed and popped around the work on every exit.\<close>

lemma keeps_bracket:
  fixes body :: "(('f, 's) wstate, 'a) py"
  assumes "keeps (d + 1) body"
  shows "keeps d (m_then (set_cursor 1) (m_finally body (set_cursor (-1))))"
proof (rule preservesI)
  fix ws :: "('f, 's) wstate" assume ws: "window_ok d (fst ws)"
  let ?u = "((fst ws)\<lparr>cursor_depth := cursor_depth (fst ws) + 1\<rparr>, snd ws)"
  obtain r t where b: "body ?u = (r, t)" by (cases "body ?u")
  have "window_ok (d + 1) (fst ?u)" using ws by (simp add: window_ok_def)
  with assms have "window_ok (d + 1) (fst t)" using preservesD [OF assms _ b] by simp
  then show "window_ok d (fst (snd (m_then (set_cursor 1) (m_finally body (set_cursor (-1))) ws)))"
    by (simp add: set_cursor_def on_window_def m_then_def m_bind_def m_modify_def m_finally_def b window_ok_def)
qed

lemmas keeps_rules = keeps_panel keeps_log keeps_link preserves_bind preserves_then preserves_basic
  preserves_when preserves_except preserves_for

lemma keeps_run: "keeps d (panel_run c gui i label fn)"
  unfolding panel_run_def by (intro keeps_bracket keeps_rules)

lemma keeps_silent: "keeps d (read_status_silent c gui i)"
  unfolding read_status_silent_def by (intro keeps_bracket keeps_rules)

lemma keeps_read_status: "keeps d (panel_read_status c gui i b)"
  unfolding panel_read_status_def
  by (auto intro!: keeps_rules keeps_run keeps_silent show_status_ok split: option.split)

lemma handle_keeps: "keeps d (handle c gui ev)"
proof (cases ev)
  case (ClickEnable i)
  then show ?thesis
    by (auto simp: apply_enable_def panel_ok_def intro!: keeps_rules keeps_run split: option.split)
next
  case (ClickConfigure i)
  then show ?thesis by (auto simp: panel_configure_def intro!: keeps_rules keeps_run)
next
  case (ClickReadConfig i)
  then show ?thesis
    by (auto simp: read_config_def panel_ok_def intro!: keeps_rules keeps_run split: option.split)
next
  case (ClickPower i)
  then show ?thesis by (auto simp: apply_power_def intro!: keeps_rules keeps_run)
next
  case (ClickReadStatus i)
  then show ?thesis by (simp add: keeps_read_status)
next
  case (ClickClear i)
  then show ?thesis
    by (auto simp: clear_alerts_def intro!: keeps_rules keeps_run keeps_read_status split: option.split)
next
  case ClickRefresh
  then show ?thesis by (simp only: handle.simps refresh_all_now_def) (intro preserves_for keeps_read_status)
next
  case TimerFires
  have "keeps d (refresh_all_now c gui)"
    unfolding refresh_all_now_def by (intro preserves_for keeps_read_status)
  then show ?thesis using TimerFires by (auto simp: auto_refresh_tick_def intro!: keeps_rules)
next
  case (EditAuto b)
  then show ?thesis
    by (auto simp: toggle_auto_refresh_def on_window_def window_ok_def preserves_def m_then_def m_bind_def m_modify_def)
next
  case (EditInterval n)
  then show ?thesis
    by (auto simp: update_refresh_interval_def on_window_def window_ok_def preserves_def m_then_def m_bind_def
        m_modify_def split: if_splits)
qed (auto intro!: keeps_panel simp: panel_ok_def)

section \<open>Properties\<close>

text \<open>C12: Whatever the user clicks, however often the timer fires and whatever the server answers or
  fails to answer, the window keeps its invariant: one panel per AFE in order, trend graphs whose two
  series have the same length of at most 90 points, a log of at most 500 lines, the refresh timer
  running at the set interval exactly while auto refresh is on, and no busy cursor left behind.\<close>

theorem window_invariant:
  assumes "reached c gui ws"
  shows "window_ok 0 (fst ws)"
  using assms
proof induction
  case (start s)
  show ?case
    by (simp add: window_ok_def initial_window_def initial_panel_def py_range_def panel_ok_def graph_ok_def
        history_len_def upt_rec)
next
  case (event ws ev)
  then show ?case using handle_keeps [of 0 c gui ev] unfolding preserves_def by blast
next
  case (link_changes w s s')
  then show ?case by simp
qed

definition deaf_sock :: "(unit, unit) zsock" where
  "deaf_sock = \<lparr>z_timeout = (\<lambda>k. m_ret ()), z_send = (\<lambda>w. m_ret ()), z_recv = m_raise ZmqAgain, z_close = m_ret (),
     time_ns = m_ret 1700000000000000000, randrange = (\<lambda>n. m_ret 0)\<rparr>"

text \<open>A client on a link that never answers.\<close>

definition deaf_client :: "(unit, unit, unit, int) hd_client" where
  "deaf_client = \<lparr>c_sock = deaf_sock, c_envc = \<lparr>ser = (\<lambda>_. ()), par = (\<lambda>_. None), blen = (\<lambda>_. 0)\<rparr>,
     c_ser = (\<lambda>_. ()), c_enable = \<lparr>ser = (\<lambda>_. ()), par = (\<lambda>_. None), blen = (\<lambda>_. 0)\<rparr>,
     c_config = \<lparr>ser = (\<lambda>_. ()), par = (\<lambda>_. None), blen = (\<lambda>_. 0)\<rparr>,
     c_readcfg = \<lparr>ser = (\<lambda>_. ()), par = (\<lambda>_. None), blen = (\<lambda>_. 0)\<rparr>,
     c_power = \<lparr>ser = (\<lambda>_. ()), par = (\<lambda>_. None), blen = (\<lambda>_. 0)\<rparr>,
     c_status = \<lparr>ser = (\<lambda>_. ()), par = (\<lambda>_. None), blen = (\<lambda>_. 0)\<rparr>,
     c_clear = \<lparr>ser = (\<lambda>_. ()), par = (\<lambda>_. None), blen = (\<lambda>_. 0)\<rparr>,
     c_route = ''mezz/0'', c_timeout_ms = 5000, c_floats = int_floats, c_print = (\<lambda>l. m_ret ()),
     c_exc_str = (\<lambda>e. ''timeout'')\<rparr>"

definition plain_gui :: "(unit, int) gui_env" where
  "plain_gui = \<lparr>qt_spin = (\<lambda>x. x), qt_time = (\<lambda>_. ''12:00:00'')\<rparr>"

theorem window_invariant_witness:
  "window_ok 0 (fst (snd (handle deaf_client plain_gui (ClickClear 2)
     (snd (handle deaf_client plain_gui (EditAuto True) (initial_window int_floats (\<lambda>x. x), ()))))))"
proof -
  have "reached deaf_client plain_gui (initial_window (c_floats deaf_client) (qt_spin plain_gui), ())"
    by (rule start)
  then have "reached deaf_client plain_gui (initial_window int_floats (\<lambda>x. x), ())"
    by (simp add: deaf_client_def plain_gui_def)
  from event [OF event [OF this]] show ?thesis by (rule window_invariant)
qed

text \<open>A status read shows what the board reported: when the request succeeds with a response, the
  power switches and lamps, the alert lamps and the six displays of that panel are those of the
  response and one point is added to every trend; the other panels are untouched. When it raises, no
  panel changes and one line is logged.\<close>

theorem status_read_shows_response:
  assumes "i < length (panels w)"
    and "read_status c (int i) s = (r, t)" and "\<forall>e. r = Inl e \<longrightarrow> \<not> is_exit e"
  shows "\<exists>w'. panel_read_status c gui i False (w, s) = (Inr (), (w', t))
     \<and> (case r of
          Inr resp \<Rightarrow> panels w' = (panels w)[i := show_status (c_floats c) resp (panels w ! i)] \<and> log w' = log w
        | Inl e \<Rightarrow> panels w' = panels w \<and>
            log w' = drop (length (log w) + 1 - 500)
              (log w @ [qt_time gui t @ ''  '' @ prefix_afe i (''AUTO_REFRESH: ERROR '' @ c_exc_str c e)]))"
proof (cases r)
  case (Inl e)
  then have "\<not> is_exit e" using assms(3) by blast
  with Inl assms(2) show ?thesis
    by (simp add: panel_read_status_def read_status_silent_def set_cursor_def on_window_def append_log_def
        on_link_def m_bind_def m_then_def m_modify_def m_finally_def m_except_def m_try_def m_ret_def m_get_def)
next
  case (Inr resp)
  with assms(2) show ?thesis
    by (simp add: panel_read_status_def read_status_silent_def set_cursor_def on_window_def at_panel_def m_when_def
        on_link_def m_bind_def m_then_def m_modify_def m_finally_def m_except_def m_try_def m_ret_def)
qed

theorem status_read_shows_response_witness:
  "\<exists>w'. panel_read_status deaf_client plain_gui 2 False (initial_window int_floats (\<lambda>x. x), ()) = (Inr (), (w', ()))
     \<and> (case Inl ZmqAgain of
          Inr resp \<Rightarrow> panels w' = (panels (initial_window int_floats (\<lambda>x. x)))
            [2 := show_status (c_floats deaf_client) resp (panels (initial_window int_floats (\<lambda>x. x)) ! 2)]
            \<and> log w' = log (initial_window int_floats (\<lambda>x. x))
        | Inl e \<Rightarrow> panels w' = panels (initial_window int_floats (\<lambda>x. x)) \<and>
            log w' = drop (length (log (initial_window int_floats (\<lambda>x. x))) + 1 - 500)
              (log (initial_window int_floats (\<lambda>x. x))
               @ [qt_time plain_gui () @ ''  '' @ prefix_afe 2 (''AUTO_REFRESH: ERROR '' @ c_exc_str deaf_client e)]))"
  by (rule status_read_shows_response)
     (simp_all add: initial_window_def read_status_def hd_rpc_def v2_rpc_def next_ids_def deaf_client_def deaf_sock_def
       py_run)

text \<open>The request behind a sub-command, reduced to the server's verdict.\<close>

definition request_success :: "('s, 'w, 'p, 'f) hd_client \<Rightarrow> 'f hd_command \<Rightarrow> ('s, bool) py" where
  "request_success c cmd = (case cmd of
       CmdSetBlockEnable afe en \<Rightarrow> m_bind (set_block_enable c afe en) (\<lambda>r. m_ret (success r))
     | CmdConfigureBlock afe r5 r3 i5s i3s i5x i3x \<Rightarrow>
         m_bind (configure_block c afe r5 r3 i5s i3s i5x i3x) (\<lambda>r. m_ret (success r))
     | CmdReadBlockConfig afe \<Rightarrow> m_bind (read_block_config c afe) (\<lambda>r. m_ret (success r))
     | CmdSetPowerStates afe p5 p3 \<Rightarrow> m_bind (set_power_states c afe p5 p3) (\<lambda>r. m_ret (success r))
     | CmdReadStatus afe \<Rightarrow> m_bind (read_status c afe) (\<lambda>r. m_ret (success r))
     | CmdClearAlertFlag afe \<Rightarrow> m_bind (clear_alert_flag c afe) (\<lambda>r. m_ret (success r)))"

lemma for_print:
  assumes "\<And>l u. \<exists>v. pr l u = (Inr (), v)"
  shows "\<exists>v. m_for ls pr u = (Inr (), v)"
proof (induction ls arbitrary: u)
  case (Cons l ls)
  obtain v where "pr l u = (Inr (), v)" using assms by blast
  with Cons.IH [of v] show ?case by (simp add: py_run)
qed (simp add: py_run)

lemma report_run:
  assumes "\<And>l u. \<exists>v. c_print c l u = (Inr (), v)"
  shows "\<exists>v. report c ls r u = (Inr (if success r then 0 else 2), v)"
  using for_print [of "c_print c" ls u, OF assms] by (auto simp: report_def exit_code_def py_run)

lemma bind_report:
  assumes pr: "\<And>l u. \<exists>v. c_print c l u = (Inr (), v)"
  shows "\<exists>v. m_bind m (\<lambda>r. report c (ls r) r) s = (case m_bind m (\<lambda>r. m_ret (success r)) s of
     (Inr b, t) \<Rightarrow> (Inr (if b then 0 else 2), v) | (Inl e, t) \<Rightarrow> (Inl e, v))"
proof (cases "m s")
  case (Pair x t)
  show ?thesis
  proof (cases x)
    case (Inl e)
    with Pair show ?thesis by (auto simp: m_bind_def)
  next
    case (Inr r)
    have "\<exists>v. report c (ls r) r t = (Inr (if success r then 0 else 2), v)" by (rule report_run) (rule pr)
    with Inr Pair show ?thesis by (auto simp: m_bind_def m_ret_def)
  qed
qed

lemma command_body_run:
  assumes pr: "\<And>l u. \<exists>v. c_print c l u = (Inr (), v)"
  shows "\<exists>v. hd_command_body c cmd s = (case request_success c cmd s of
     (Inr b, t) \<Rightarrow> (Inr (if b then 0 else 2), v) | (Inl e, t) \<Rightarrow> (Inl e, v))"
  by (cases cmd; simp only: hd_command_body_def request_success_def hd_command.case;
      rule bind_report; rule pr)

text \<open>The command line reports every outcome in its exit status and always closes the socket: when
  printing and closing succeed, \<open>main\<close> returns 0 exactly if the request completed and the server
  reported success, and 2 in every other case, a timeout or an error included.\<close>

theorem hd_main_exit_status:
  assumes "\<And>u. \<exists>v. z_close (c_sock c) u = (Inr (), v)"
    and "\<And>l u. \<exists>v. c_print c l u = (Inr (), v)"
    and "no_exit (request_success c cmd)"
  shows "\<exists>code t u. hd_main c cmd s = (Inr code, u) \<and> z_close (c_sock c) t = (Inr (), u)
     \<and> code = (if fst (request_success c cmd s) = Inr True then 0 else 2)"
proof -
  let ?h = "\<lambda>e. if e = ZmqAgain then m_then (c_print c ''[timeout] no reply'') (m_ret 2)
      else m_then (c_print c (''[error] '' @ c_exc_str c e)) (m_ret (2 :: int))"
  let ?code = "if fst (request_success c cmd s) = Inr True then 0 else (2 :: int)"
  obtain r t where q: "request_success c cmd s = (r, t)" by (cases "request_success c cmd s")
  have "\<exists>v. hd_command_body c cmd s = (case request_success c cmd s of
     (Inr b, t) \<Rightarrow> (Inr (if b then 0 else 2), v) | (Inl e, t) \<Rightarrow> (Inl e, v))"
    by (rule command_body_run) (rule assms(2))
  then obtain v where v: "hd_command_body c cmd s =
      (case r of Inr b \<Rightarrow> (Inr (if b then 0 else 2), v) | Inl e \<Rightarrow> (Inl e, v))"
    unfolding q by (cases r) auto
  have "\<exists>x. m_except (hd_command_body c cmd) ?h s = (Inr ?code, x)"
  proof (cases r)
    case (Inl e)
    have "\<not> is_exit e" using no_exitD [OF assms(3)] q Inl by blast
    moreover obtain w where "?h e v = (Inr 2, w)"
      using assms(2) [of "''[timeout] no reply''" v] assms(2) [of "''[error] '' @ c_exc_str c e" v]
      by (cases "e = ZmqAgain") (auto simp: m_then_def m_bind_def m_ret_def)
    ultimately show ?thesis using v q Inl by (simp add: m_except_def m_try_def)
  next
    case (Inr b)
    then show ?thesis using v q by (simp add: m_except_def m_try_def)
  qed
  then obtain x where x: "m_except (hd_command_body c cmd) ?h s = (Inr ?code, x)" by blast
  obtain u where u: "z_close (c_sock c) x = (Inr (), u)" using assms(1) by blast
  have "hd_main c cmd s = (Inr ?code, u)"
    unfolding hd_main_def hd_close_def using x u by (simp add: m_finally_def)
  with u show ?thesis by blast
qed

theorem hd_main_exit_status_witness:
  "\<exists>code t u. hd_main deaf_client (CmdReadStatus 3) () = (Inr code, u) \<and> z_close (c_sock deaf_client) t = (Inr (), u)
     \<and> code = (if fst (request_success deaf_client (CmdReadStatus 3) ()) = Inr True then 0 else 2)"
  by (rule hd_main_exit_status)
     (simp_all add: deaf_client_def deaf_sock_def request_success_def read_status_def hd_rpc_def v2_rpc_def
       next_ids_def no_exit_def m_bind_def m_then_def m_ret_def m_raise_def)

end
