(* ===== verification/Afe_Function.thy ===== *)
theory Afe_Function
  imports V2_Rpc
begin

unbundle bit_operations_syntax

text \<open>
  The tables of \<open>client/client_dictionaries.py\<close> and the two clients that set an AFE function:
  \<open>client/afe_function_v2.py\<close> over EnvelopeV2 and \<open>client/protobuf_configure_afeFunction.py\<close> over the
  legacy envelope. Both check the value against the table; the theorems say what each check accepts and
  in which order the writes go out.
\<close>

section \<open>Tables\<close>

definition lpf_dict :: "(int \<times> int) list" where
  "lpf_dict = [(10, 4), (15, 0), (20, 2), (30, 3)]"

definition pga_clamp_level_dict :: "(string \<times> int) list" where
  "pga_clamp_level_dict = [(''-2 dBFS'', 0), (''0 dBFS'', 2), (''-2 dBFS_lowpower'', 4), (''0 dBFS_lowpower'', 6)]"

definition pga_gain_control_dict :: "(string \<times> int) list" where
  "pga_gain_control_dict = [(''24 dB'', 0), (''30 dB'', 1)]"

definition lna_gain_control_dict :: "(string \<times> int) list" where
  "lna_gain_control_dict = [(''18 dB'', 0), (''24 dB'', 1), (''12 dB'', 2)]"

definition lna_input_clamp_dict :: "(string \<times> int) list" where
  "lna_input_clamp_dict = [(''auto'', 0), (''1.5 Vpp'', 1), (''1.15 Vpp'', 2), (''0.6 Vpp'', 3)]"

definition available_afe_functions :: "(string \<times> int list) list" where
  "available_afe_functions =
    [(''SOFTWARE_RESET'', [0, 1]),
     (''REGISTER_READOUT_ENABLE'', [0, 1]),
     (''ADC_COMPLETE_PDN'', [0, 1]),
     (''LVDS_OUTPUT_DISABLE'', [0, 1]),
     (''ADC_PDN_CH'', [0, 255]),
     (''PARTIAL_PDN'', [0, 1]),
     (''LOW_FREQUENCY_NOISE_SUPPRESSION'', [0, 1]),
     (''EXT_REF'', [0, 1]),
     (''LVDS_OUTPUT_RATE_2X'', [0, 1]),
     (''SINGLE-ENDED_CLK_MODE'', [0, 1]),
     (''POWER-DOWN_LDVS'', [0, 1]),
     (''AVERAGING_ENABLE'', [0, 1]),
     (''LOW_LATENCY'', [0, 1]),
     (''TEST_PATTERN_MODES'', [0, 7]),
     (''INVERT_CHANNELS'', [0, 255]),
     (''CHANNEL_OFFSET_SUBSTRACTION_ENABLE'', [0, 1]),
     (''DIGITAL_GAIN_ENABLE'', [0, 1]),
     (''SERIALIZED_DATA_RATE'', [0, 3]),
     (''ENABLE_EXTERNAL_REFERENCE_MODE'', [0, 1]),
     (''ADC_RESOLUTION_RESET'', [0, 1]),
     (''ADC_OUTPUT_FORMAT'', [0, 1]),
     (''LSB_MSB_FIRST'', [0, 1]),
     (''CUSTOM_PATTERN'', [0, 16383]),
     (''SYNC_PATTERN'', [0, 1]),
     (''OFFSET_CH1'', [0, 1023]),
     (''DIGITAL_GAIN_CH1'', [0, 31]),
     (''OFFSET_CH2'', [0, 1023]),
     (''DIGITAL_GAIN_CH2'', [0, 31]),
     (''OFFSET_CH3'', [0, 1023]),
     (''DIGITAL_GAIN_CH3'', [0, 31]),
     (''OFFSET_CH4'', [0, 1023]),
     (''DIGITAL_GAIN_CH4'', [0, 31]),
     (''DIGITAL_HPF_FILTER_ENABLE_CH1-4'', [0, 1]),
     (''DIGITAL_HPF_FILTER_K_CH1-4'', [2, 10]),
     (''OFFSET_CH8'', [0, 1023]),
     (''DIGITAL_GAIN_CH8'', [0, 31]),
     (''OFFSET_CH7'', [0, 1023]),
     (''DIGITAL_GAIN_CH7'', [0, 31]),
     (''OFFSET_CH6'', [0, 1023]),
     (''DIGITAL_GAIN_CH6'', [0, 31]),
     (''OFFSET_CH5'', [0, 1023]),
     (''DIGITAL_GAIN_CH5'', [0, 31]),
     (''DIGITAL_HPF_FILTER_ENABLE_CH5-8'', [0, 1]),
     (''DIGITAL_HPF_FILTER_K_CH5-8'', [2, 10]),
     (''DITHER'', [0, 1]),
     (''PGA_CLAMP_-6dB'', [0, 1]),
     (''LPF_PROGRAMMABILITY'', [0, 2, 3, 4]),
     (''PGA_INTEGRATOR_DISABLE'', [0, 1]),
     (''PGA_CLAMP_LEVEL'', [0, 7]),
     (''PGA_GAIN_CONTROL'', [0, 1]),
     (''ACTIVE_TERMINATION_INDIVIDUAL_RESISTOR_CNTL'', [0, 31]),
     (''ACTIVE_TERMINATION_INDIVIDUAL_RESISTOR_ENABLE'', [0, 1]),
     (''PRESET_ACTIVE_TERMINATIONS'', [0, 3]),
     (''ACTIVE_TERMINATION_ENABLE'', [0, 1]),
     (''LNA_INPUT_CLAMP_SETTING'', [0, 3]),
     (''LNA_INTEGRATOR_DISABLE'', [0, 1]),
     (''LNA_GAIN'', [0, 3]),
     (''LNA_INDIVIDUAL_CH_CNTL'', [0, 1]),
     (''PDN_CH'', [0, 255]),
     (''LOW_POWER'', [0, 1]),
     (''MED_POWER'', [0, 1]),
     (''PDN_VCAT_PGA'', [0, 1]),
     (''PDN_LNA'', [0, 1]),
     (''VCA_PARTIAL_PDN'', [0, 1]),
     (''VCA_COMPLETE_PDN'', [0, 1]),
     (''CW_SUM_AMP_GAIN_CNTL'', [0, 1, 2, 4, 8, 16]),
     (''CW_16X_CLK_SEL'', [0, 1]),
     (''CW_1X_CLK_SEL'', [0, 1]),
     (''CW_TGC_SEL'', [0, 1]),
     (''CW_SUM_AMP_ENABLE'', [0, 1]),
     (''CW_CLK_MODE_SEL'', [0, 3]),
     (''CH1_CW_MIXER_PHASE'', [0, 15]),
     (''CH2_CW_MIXER_PHASE'', [0, 15]),
     (''CH3_CW_MIXER_PHASE'', [0, 15]),
     (''CH4_CW_MIXER_PHASE'', [0, 15]),
     (''CH5_CW_MIXER_PHASE'', [0, 15]),
     (''CH6_CW_MIXER_PHASE'', [0, 15]),
     (''CH7_CW_MIXER_PHASE'', [0, 15]),
     (''CH8_CW_MIXER_PHASE'', [0, 15]),
     (''CH1_LNA_GAIN_CNTL'', [0, 3]),
     (''CH2_LNA_GAIN_CNTL'', [0, 3]),
     (''CH3_LNA_GAIN_CNTL'', [0, 3]),
     (''CH4_LNA_GAIN_CNTL'', [0, 3]),
     (''CH5_LNA_GAIN_CNTL'', [0, 3]),
     (''CH6_LNA_GAIN_CNTL'', [0, 3]),
     (''CH7_LNA_GAIN_CNTL'', [0, 3]),
     (''CH8_LNA_GAIN_CNTL'', [0, 3]),
     (''HPF_LNA'', [0, 3]),
     (''DIG_TGC_ATT_GAIN'', [0, 7]),
     (''DIG_TGC_ATT'', [0, 1]),
     (''CW_SUM_AMP_PDN'', [0, 1]),
     (''PGA_TEST_MODE'', [0, 1])]"

section \<open>Checking a value\<close>

definition validate_value :: "string \<Rightarrow> int \<Rightarrow> unit result" where
  "validate_value func value =
     r_bind (r_of_option KeyError (map_of available_afe_functions func)) (\<lambda>valid_range.
     if length valid_range = 2 then
       (let lo = valid_range ! 0; hi = valid_range ! 1 in
        if lo = 0 \<and> hi = 1 then
          (if value \<notin> {0, 1} then Inl (ValueError ''Invalid value'') else Inr ())
        else if value < lo \<or> value > hi then Inl (ValueError ''Invalid value'') else Inr ())
     else if value \<notin> set valid_range then Inl (ValueError ''Invalid value'') else Inr ())"

text \<open>The check of \<open>protobuf_configure_afeFunction.py\<close>, with its conjunction.\<close>

definition legacy_validate :: "string \<Rightarrow> int \<Rightarrow> unit result" where
  "legacy_validate afe_function value =
     r_bind (r_of_option KeyError (map_of available_afe_functions afe_function)) (\<lambda>valid_range.
     if length valid_range = 2 then
       (if valid_range ! 0 = 0 \<and> valid_range ! 1 = 1 then
          (if value \<notin> {0, 1} then Inl (ValueError ''Invalid value'') else Inr ())
        else if value \<le> valid_range ! 0 \<and> value \<ge> valid_range ! 1 then Inl (ValueError ''Invalid value'')
        else Inr ())
     else if value \<notin> set valid_range then Inl (ValueError ''Invalid value'') else Inr ())"

section \<open>Setting a function over EnvelopeV2\<close>

definition MT2_WRITE_AFE_FUNCTION_REQ :: int where "MT2_WRITE_AFE_FUNCTION_REQ = 260"
definition MT2_WRITE_AFE_FUNCTION_RESP :: int where "MT2_WRITE_AFE_FUNCTION_RESP = 261"

record afe_function =
  af_afeBlock :: int
  af_function :: string
  af_configValue :: int

record afe_function_resp =
  afr_success :: bool
  afr_message :: string
  afr_function :: string
  afr_configValue :: int

record ('s, 'w, 'p) af_env =
  af_sock :: "('s, 'w) zsock"
  af_envc :: "('w, 'p ControlEnvelopeV2) codec"
  af_reqc :: "('p, afe_function) codec"
  af_respc :: "('p, afe_function_resp) codec"
  af_print :: "string \<Rightarrow> ('s, unit) py"

record af_args =
  a_route :: string
  a_afeFunction :: string
  a_afeNumber :: "int option"
  a_all :: bool
  a_value :: int

definition af_next_ids :: "('s, 'w) zsock \<Rightarrow> ('s, int \<times> int) py" where
  "af_next_ids zs =
     m_bind (time_ns zs) (\<lambda>now_ns.
     m_ret ((push_bit 16 now_ns XOR 0xBEEF) AND id_mask, (push_bit 1 now_ns XOR 0x1234) AND id_mask))"

definition send_v2 :: "('s, 'w, 'p) af_env \<Rightarrow> string \<Rightarrow> afe_function \<Rightarrow> ('s, 'p ControlEnvelopeV2) py" where
  "send_v2 env rt req =
     m_bind (af_next_ids (af_sock env)) (\<lambda>ids.
     m_bind (time_ns (af_sock env)) (\<lambda>ts.
     m_then (z_send (af_sock env) (ser (af_envc env)
         (request_envelope MT2_WRITE_AFE_FUNCTION_REQ (ser (af_reqc env) req) rt ids ts)))
     (m_bind (z_recv (af_sock env)) (\<lambda>frames.
      m_bind (m_lift (ParseFromString (af_envc env) (last frames))) (\<lambda>(rep, n). m_ret rep)))))"

definition write_one :: "('s, 'w, 'p) af_env \<Rightarrow> af_args \<Rightarrow> int \<Rightarrow> ('s, unit) py" where
  "write_one env args afe =
     m_bind (send_v2 env (a_route args)
         \<lparr>af_afeBlock = afe, af_function = a_afeFunction args, af_configValue = a_value args\<rparr>) (\<lambda>rep.
     if etype rep \<noteq> MT2_WRITE_AFE_FUNCTION_RESP then
       af_print env (''[error] unexpected reply type '' @ int_to_str (etype rep) @ '' for AFE'' @ int_to_str afe)
     else
       m_bind (m_lift (ParseFromString (af_respc env) (payload rep))) (\<lambda>(out, n).
       af_print env ((if afr_success out then ''[OK]'' else ''[FAIL]'') @ '' AFE'' @ int_to_str afe @ '' ''
         @ afr_function out @ ''='' @ int_to_str (afr_configValue out) @ '' :: '' @ afr_message out)))"

definition af_targets :: "af_args \<Rightarrow> int list result" where
  "af_targets args =
     (if a_all args then Inr (py_range 5)
      else case a_afeNumber args of None \<Rightarrow> Inl (SystemExit 2) | Some n \<Rightarrow> Inr [n])"

definition afe_function_main :: "('s, 'w, 'p) af_env \<Rightarrow> af_args \<Rightarrow> ('s, int) py" where
  "afe_function_main env args =
     m_then (m_lift (validate_value (a_afeFunction args) (a_value args)))
     (m_bind (m_lift (af_targets args)) (\<lambda>targets.
      m_then (m_for targets (write_one env args))
      (m_then (z_close (af_sock env)) (m_ret 0))))"

section \<open>What the checks accept\<close>

definition admitted :: "int list \<Rightarrow> int \<Rightarrow> bool" where
  "admitted r v = (if length r = 2 then r ! 0 \<le> v \<and> v \<le> r ! 1 else v \<in> set r)"

lemma table_ranges:
  "list_all (\<lambda>p. list_all (\<lambda>x. 0 \<le> x \<and> x \<le> 0x3FFF) (snd p)
     \<and> (length (snd p) = 2 \<longrightarrow> snd p ! 0 < snd p ! 1)) available_afe_functions"
  by (simp add: available_afe_functions_def)

lemma table_entry:
  assumes "map_of available_afe_functions f = Some r"
  shows "x \<in> set r \<Longrightarrow> 0 \<le> x \<and> x \<le> 0x3FFF" "length r = 2 \<Longrightarrow> r ! 0 < r ! 1"
  using table_ranges map_of_SomeD [OF assms] by (auto simp: list_all_iff)

lemma check_accepts:
  assumes "map_of available_afe_functions func = Some r"
  shows "validate_value func v = (if admitted r v then Inr () else Inl (ValueError ''Invalid value''))
     \<and> (admitted r v \<longrightarrow> 0 \<le> v \<and> v \<le> 0x3FFF)"
proof (cases "length r = 2")
  case True
  then obtain lo hi where r: "r = [lo, hi]" by (auto simp: length_Suc_conv numeral_2_eq_2)
  then show ?thesis
    using assms table_entry(1) [OF assms, of lo] table_entry(1) [OF assms, of hi] table_entry(2) [OF assms]
    by (auto simp: validate_value_def admitted_def Let_def)
next
  case False
  then show ?thesis using assms table_entry(1) [OF assms, of v] by (auto simp: validate_value_def admitted_def)
qed

text \<open>The value check of the EnvelopeV2 client accepts exactly the values of the table, for every
  function: the two-element entries are inclusive ranges, the longer ones enumerations. An accepted
  value is between 0 and \<open>0x3FFF\<close>, so it fits the request field.\<close>

theorem validate_value_accepts:
  assumes "map_of available_afe_functions func = Some r"
  shows "validate_value func v = (if admitted r v then Inr () else Inl (ValueError ''Invalid value''))
     \<and> (admitted r v \<longrightarrow> 0 \<le> v \<and> v \<le> 0x3FFF)"
  using check_accepts [OF assms] .

theorem validate_value_accepts_witness:
  "validate_value ''DIGITAL_GAIN_CH1'' 32 = Inl (ValueError ''Invalid value'')
   \<and> validate_value ''DIGITAL_GAIN_CH1'' 31 = Inr ()"
  using validate_value_accepts [of "''DIGITAL_GAIN_CH1''" "[0, 31]" 32]
    validate_value_accepts [of "''DIGITAL_GAIN_CH1''" "[0, 31]" 31]
  by (simp add: available_afe_functions_def admitted_def)

text \<open>The check of the legacy client does not check ranges: for every function whose entry is a
  two-element range other than \<open>[0, 1]\<close> it accepts every integer.\<close>

theorem legacy_validate_ignores_ranges:
  assumes "map_of available_afe_functions func = Some [lo, hi]" and "(lo, hi) \<noteq> (0, 1)"
  shows "legacy_validate func v = Inr ()"
proof -
  have "lo < hi" using table_entry(2) [OF assms(1)] by simp
  then show ?thesis using assms by (auto simp: legacy_validate_def)
qed

theorem legacy_validate_ignores_ranges_witness: "legacy_validate ''DIGITAL_GAIN_CH1'' 1000000 = Inr ()"
  by (rule legacy_validate_ignores_ranges [where lo = 0 and hi = 31])
     (simp_all add: available_afe_functions_def)

section \<open>The order of the writes\<close>

text \<open>The frame of the request for one AFE, whatever its identifiers and time stamp.\<close>

definition frame_for :: "('s, 'w, 'p) af_env \<Rightarrow> af_args \<Rightarrow> int \<Rightarrow> 'w \<Rightarrow> bool" where
  "frame_for env args afe w \<longleftrightarrow> (\<exists>ids ts. w = ser (af_envc env) (request_envelope MT2_WRITE_AFE_FUNCTION_REQ
     (ser (af_reqc env) \<lparr>af_afeBlock = afe, af_function = a_afeFunction args, af_configValue = a_value args\<rparr>)
     (a_route args) ids ts))"

text \<open>
  A link on which every operation succeeds and only sending changes the list of sent frames; nothing is
  promised about the replies except that they decode.
\<close>

locale answering_link =
  fixes env :: "('s, 'w, 'p) af_env" and sent :: "'s \<Rightarrow> 'w list"
  assumes a_time: "\<exists>x t. time_ns (af_sock env) s = (Inr x, t) \<and> sent t = sent s"
    and a_send: "\<exists>t. z_send (af_sock env) w s = (Inr (), t) \<and> sent t = sent s @ [w]"
    and a_recv: "\<exists>fs rep n t. z_recv (af_sock env) s = (Inr fs, t) \<and> sent t = sent s
        \<and> ParseFromString (af_envc env) (last fs) = Inr (rep, n)
        \<and> (\<exists>out k. ParseFromString (af_respc env) (payload rep) = Inr (out, k))"
    and a_close: "\<exists>t. z_close (af_sock env) s = (Inr (), t) \<and> sent t = sent s"
    and a_print: "\<exists>t. af_print env l s = (Inr (), t) \<and> sent t = sent s"
begin

lemma write_one_run: "\<exists>w t. write_one env args afe s = (Inr (), t) \<and> sent t = sent s @ [w] \<and> frame_for env args afe w"
proof -
  let ?req = "\<lparr>af_afeBlock = afe, af_function = a_afeFunction args, af_configValue = a_value args\<rparr>"
  obtain x s1 where s1: "time_ns (af_sock env) s = (Inr x, s1)" "sent s1 = sent s" using a_time by blast
  define ids where "ids = ((push_bit 16 x XOR 0xBEEF) AND id_mask, (push_bit 1 x XOR 0x1234) AND id_mask)"
  have i: "af_next_ids (af_sock env) s = (Inr ids, s1)" by (simp add: af_next_ids_def py_run s1 ids_def)
  obtain ts s2 where s2: "time_ns (af_sock env) s1 = (Inr ts, s2)" "sent s2 = sent s" using a_time [of s1] s1 by auto
  define w where "w = ser (af_envc env)
    (request_envelope MT2_WRITE_AFE_FUNCTION_REQ (ser (af_reqc env) ?req) (a_route args) ids ts)"
  obtain s3 where s3: "z_send (af_sock env) w s2 = (Inr (), s3)" "sent s3 = sent s @ [w]"
    using a_send [of w s2] s2 by auto
  obtain fs rep n s4 out k where s4: "z_recv (af_sock env) s3 = (Inr fs, s4)" "sent s4 = sent s @ [w]"
      "ParseFromString (af_envc env) (last fs) = Inr (rep, n)"
      "ParseFromString (af_respc env) (payload rep) = Inr (out, k)"
    using a_recv [of s3] s3 by auto
  have rep: "send_v2 env (a_route args) ?req s = (Inr rep, s4)"
    by (simp add: send_v2_def py_run i s2 s3 s4(1,3) w_def [symmetric])
  have "frame_for env args afe w" unfolding frame_for_def w_def by blast
  moreover have "\<exists>t. write_one env args afe s = (Inr (), t) \<and> sent t = sent s4"
  proof (cases "etype rep = MT2_WRITE_AFE_FUNCTION_RESP")
    case True
    then show ?thesis using a_print by (simp add: write_one_def py_run rep s4(4))
  next
    case False
    then show ?thesis using a_print by (simp add: write_one_def py_run rep)
  qed
  ultimately show ?thesis using s4(2) by auto
qed

lemma writes_run:
  "\<exists>ws t. m_for afes (write_one env args) s = (Inr (), t) \<and> sent t = sent s @ ws \<and> list_all2 (frame_for env args) afes ws"
proof (induction afes arbitrary: s)
  case (Cons a afes)
  obtain w t where t: "write_one env args a s = (Inr (), t)" "sent t = sent s @ [w]" "frame_for env args a w"
    using write_one_run by blast
  obtain ws u where "m_for afes (write_one env args) t = (Inr (), u)" "sent u = sent t @ ws"
      "list_all2 (frame_for env args) afes ws"
    using Cons.IH by blast
  with t show ?case by (auto simp: py_run intro!: exI [of _ "w # ws"])
qed (simp add: py_run)

end

text \<open>The EnvelopeV2 client writes the function to every selected AFE, in order and exactly once
  each, whatever the replies say: a reply of the wrong type or a reported failure for one AFE does not
  stop the writes to the next. A value outside the table is refused before anything is sent.\<close>

theorem afe_function_main_writes:
  assumes "answering_link env sent" and "map_of available_afe_functions (a_afeFunction args) = Some r"
    and "af_targets args = Inr targets"
  shows "if admitted r (a_value args) then
       \<exists>ws t. afe_function_main env args s = (Inr 0, t) \<and> sent t = sent s @ ws
         \<and> list_all2 (frame_for env args) targets ws
     else afe_function_main env args s = (Inl (ValueError ''Invalid value''), s)"
proof -
  have v: "validate_value (a_afeFunction args) (a_value args) =
      (if admitted r (a_value args) then Inr () else Inl (ValueError ''Invalid value''))"
    using check_accepts [OF assms(2)] by blast
  obtain ws t where w: "m_for targets (write_one env args) s = (Inr (), t)" "sent t = sent s @ ws"
      "list_all2 (frame_for env args) targets ws"
    using answering_link.writes_run [OF assms(1)] by blast
  obtain u where "z_close (af_sock env) t = (Inr (), u)" "sent u = sent t"
    using answering_link.a_close [OF assms(1)] by blast
  with w v assms(3) show ?thesis
    by (auto simp: afe_function_main_def m_then_def m_bind_def m_lift_def m_ret_def m_raise_def)
qed

definition ref_af :: "(afe_function ControlEnvelopeV2 list, afe_function ControlEnvelopeV2, afe_function) af_env" where
  "ref_af = \<lparr>af_sock = \<lparr>z_timeout = (\<lambda>k. m_ret ()), z_send = (\<lambda>w. m_modify (\<lambda>l. l @ [w])),
       z_recv = m_ret [request_envelope 999 \<lparr>af_afeBlock = 0, af_function = '''', af_configValue = 0\<rparr> '''' (0, 0) 0],
       z_close = m_ret (), time_ns = m_ret 1700000000000000000, randrange = (\<lambda>n. m_ret 0)\<rparr>,
     af_envc = \<lparr>ser = (\<lambda>e. e), par = Some, blen = (\<lambda>_. 1)\<rparr>, af_reqc = \<lparr>ser = (\<lambda>e. e), par = Some, blen = (\<lambda>_. 1)\<rparr>,
     af_respc = \<lparr>ser = (\<lambda>r. \<lparr>af_afeBlock = 0, af_function = afr_function r, af_configValue = afr_configValue r\<rparr>),
       par = (\<lambda>p. Some \<lparr>afr_success = True, afr_message = '''', afr_function = af_function p, afr_configValue = af_configValue p\<rparr>),
       blen = (\<lambda>_. 1)\<rparr>,
     af_print = (\<lambda>l. m_ret ())\<rparr>"

interpretation ref_af: answering_link ref_af "\<lambda>l. l"
  by unfold_locales (auto simp: ref_af_def py_run ParseFromString_def)

definition example_af :: af_args where
  "example_af = \<lparr>a_route = ''mezz/0'', a_afeFunction = ''LNA_GAIN'', a_afeNumber = None, a_all = True, a_value = 2\<rparr>"

theorem afe_function_main_writes_witness:
  "if admitted [0, 3] (a_value example_af) then
       \<exists>ws t. afe_function_main ref_af example_af [] = (Inr 0, t) \<and> t = [] @ ws
         \<and> list_all2 (frame_for ref_af example_af) (py_range 5) ws
     else afe_function_main ref_af example_af [] = (Inl (ValueError ''Invalid value''), [])"
  by (rule afe_function_main_writes [OF ref_af.answering_link_axioms])
     (simp_all add: example_af_def available_afe_functions_def af_targets_def)

end
