(* ===== verification/Legacy_Scripts.thy ===== *)
theory Legacy_Scripts
  imports Afe_Function Py_Float
begin

text \<open>
  The scripts over the deprecated \<open>ControlEnvelope\<close>: \<open>protobuf_configure_vgain.py\<close>,
  \<open>protobuf_configure_offset.py\<close>, \<open>protobuf_configure_vbias_trim.py\<close> and the rest of
  \<open>protobuf_configure_afeFunction.py\<close>. Each is a top-level script, modelled as one function of its parsed
  arguments. The names of the generated message classes are those of
  \<open>srcs/protobuf/daphneV3_low_level_confs.proto\<close>; using another name raises \<open>AttributeError\<close>, and a value
  outside a \<open>uint32\<close> field raises \<open>ValueError\<close> on assignment.
\<close>

section \<open>Message classes\<close>

definition low_messages :: "string list" where
  "low_messages =
    [''cmd_writeAFEReg'', ''cmd_writeAFEReg_response'', ''cmd_writeAFEVGAIN'',
     ''cmd_writeAFEVGAIN_response'', ''cmd_writeAFEAttenuation'', ''cmd_writeAFEAttenuation_response'',
     ''cmd_writeAFEBiasSet'', ''cmd_writeAFEBiasSet_response'', ''cmd_writeTRIM_allChannels'',
     ''cmd_writeTRIM_allChannels_response'', ''cmd_writeTrim_allAFE'',
     ''cmd_writeTrim_allAFE_response'', ''cmd_writeTrim_singleChannel'',
     ''cmd_writeTrim_singleChannel_response'', ''cmd_writeOFFSET_allChannels'',
     ''cmd_writeOFFSET_allChannels_response'', ''cmd_writeOFFSET_allAFE'',
     ''cmd_writeOFFSET_allAFE_response'', ''cmd_writeOFFSET_singleChannel'',
     ''cmd_writeOFFSET_singleChannel_response'', ''cmd_writeVbiasControl'',
     ''cmd_writeVbiasControl_response'', ''cmd_readAFEReg'', ''cmd_readAFEReg_response'',
     ''cmd_readAFEVgain'', ''cmd_readAFEVgain_response'', ''cmd_readAFEBiasSet'',
     ''cmd_readAFEBiasSet_response'', ''cmd_readTrim_allChannels'',
     ''cmd_readTrim_allChannels_response'', ''cmd_readTrim_allAFE'', ''cmd_readTrim_allAFE_response'',
     ''cmd_readTrim_singleChannel'', ''cmd_readTrim_singleChannel_response'',
     ''cmd_readOffset_allChannels'', ''cmd_readOffset_allChannels_response'', ''cmd_readOffset_allAFE'',
     ''cmd_readOffset_allAFE_response'', ''cmd_readOffset_singleChannel'',
     ''cmd_readOffset_singleChannel_response'', ''cmd_readVbiasControl'',
     ''cmd_readVbiasControl_response'', ''cmd_readCurrentMonitor'', ''cmd_readCurrentMonitor_response'',
     ''cmd_readBiasVoltageMonitor'', ''cmd_readBiasVoltageMonitor_response'',
     ''cmd_setHDMezzBlockEnable'', ''cmd_setHDMezzBlockEnable_response'', ''cmd_configureHDMezzBlock'',
     ''cmd_configureHDMezzBlock_response'', ''cmd_readHDMezzBlockConfig'',
     ''cmd_readHDMezzBlockConfig_response'', ''cmd_setHDMezzPowerStates'',
     ''cmd_setHDMezzPowerStates_response'', ''cmd_readHDMezzStatus'', ''cmd_readHDMezzStatus_response'',
     ''cmd_clearHDMezzAlertFlag'', ''cmd_clearHDMezzAlertFlag_response'', ''cmd_setAFEReset'',
     ''cmd_setAFEReset_response'', ''cmd_doAFEReset'', ''cmd_doAFEReset_response'',
     ''cmd_setAFEPowerState'', ''cmd_setAFEPowerState_response'', ''cmd_alignAFEs'',
     ''cmd_alignAFEs_response'', ''cmd_writeAFEFunction'', ''cmd_writeAFEFunction_response'',
     ''cmd_doSoftwareTrigger'', ''cmd_doSoftwareTrigger_response'', ''Status'']"

definition pb_attr :: "string \<Rightarrow> unit result" where
  "pb_attr name = (if name \<in> set low_messages then Inr () else Inl AttributeError)"

definition u32 :: "int \<Rightarrow> int result" where
  "u32 v = (if 0 \<le> v \<and> v < 2 ^ 32 then Inr v else Inl (ValueError ''Value out of range''))"

datatype low_request =
    WriteAFEVGAIN int int
  | WriteOFFSETSingleChannel int int bool
  | WriteVbiasControl int bool
  | WriteAFEBiasSet int int
  | WriteTrimSingleChannel int int bool
  | WriteAFEFunction int string int
  | DoAFEReset
  | SetAFEPowerState bool
  | AlignAFEs
  | DoSoftwareTrigger

record legacy_resp =
  lr_success :: bool
  lr_message :: string

record 'p ControlEnvelope =
  l_type :: int
  l_payload :: 'p

definition WRITE_AFE_VGAIN :: int where "WRITE_AFE_VGAIN = 4"
definition WRITE_AFE_BIAS_SET :: int where "WRITE_AFE_BIAS_SET = 5"
definition WRITE_TRIM_CH :: int where "WRITE_TRIM_CH = 8"
definition WRITE_OFFSET_CH :: int where "WRITE_OFFSET_CH = 11"
definition WRITE_VBIAS_CONTROL :: int where "WRITE_VBIAS_CONTROL = 12"
definition DO_AFE_RESET :: int where "DO_AFE_RESET = 26"
definition SET_AFE_POWERSTATE :: int where "SET_AFE_POWERSTATE = 27"
definition ALIGN_AFE :: int where "ALIGN_AFE = 30"
definition WRITE_AFE_FUNCTION :: int where "WRITE_AFE_FUNCTION = 31"
definition DO_SOFTWARE_TRIGGER :: int where "DO_SOFTWARE_TRIGGER = 32"

record ('s, 'w, 'p) legacy_env =
  le_sock :: "('s, 'w) zsock"
  le_envc :: "('w, 'p ControlEnvelope) codec"
  le_ser :: "low_request \<Rightarrow> 'p"
  le_respc :: "('p, legacy_resp) codec"
  le_print :: "string \<Rightarrow> ('s, unit) py"

section \<open>One request\<close>

definition send_envelope_and_get_reply :: "('s, 'w, 'p) legacy_env \<Rightarrow> 'p ControlEnvelope \<Rightarrow> ('s, 'w) py" where
  "send_envelope_and_get_reply env envelope =
     m_then (z_send (le_sock env) (ser (le_envc env) envelope))
       (m_bind (z_recv (le_sock env)) (\<lambda>frames. m_ret (last frames)))"

definition legacy_frame :: "('s, 'w, 'p) legacy_env \<Rightarrow> int \<Rightarrow> low_request \<Rightarrow> 'w" where
  "legacy_frame env ty req = ser (le_envc env) \<lparr>l_type = ty, l_payload = le_ser env req\<rparr>"

definition print_response :: "('s, 'w, 'p) legacy_env \<Rightarrow> legacy_resp \<Rightarrow> ('s, unit) py" where
  "print_response env response =
     m_then (le_print env (''Success: '' @ (if lr_success response then ''True'' else ''False'')))
       (le_print env (''Message: '' @ lr_message response))"

text \<open>Send a request and, when the reply has its type, decode the named response class and print it.\<close>

definition legacy_request :: "('s, 'w, 'p) legacy_env \<Rightarrow> int \<Rightarrow> low_request \<Rightarrow> string \<Rightarrow> ('s, unit) py" where
  "legacy_request env ty req resp_class =
     m_bind (send_envelope_and_get_reply env \<lparr>l_type = ty, l_payload = le_ser env req\<rparr>) (\<lambda>response_bytes.
     m_bind (m_lift (ParseFromString (le_envc env) response_bytes)) (\<lambda>(reply, n).
     if l_type reply = ty then
       m_then (m_lift (pb_attr resp_class))
       (m_bind (m_lift (ParseFromString (le_respc env) (l_payload reply))) (\<lambda>(response, k).
        print_response env response))
     else m_ret ()))"

section \<open>The scripts\<close>

definition vgain_script :: "('s, 'w, 'p) legacy_env \<Rightarrow> int \<Rightarrow> int \<Rightarrow> bool \<Rightarrow> ('s, unit) py" where
  "vgain_script env afe vgain_value configure_all =
     (let afe_blocks = (if configure_all then py_range 5 else [afe]) in
      m_then (m_for afe_blocks (\<lambda>afe.
          m_bind (m_lift (u32 vgain_value)) (\<lambda>v.
          legacy_request env WRITE_AFE_VGAIN (WriteAFEVGAIN afe v) ''cmd_writeAFEVgain_response'')))
        (z_close (le_sock env)))"

definition offset_script :: "('s, 'w, 'p) legacy_env \<Rightarrow> int \<Rightarrow> int \<Rightarrow> bool \<Rightarrow> ('s, unit) py" where
  "offset_script env channel offset_value configure_all =
     (let channels = (if configure_all then py_range 40 else [channel]) in
      m_then (m_for channels (\<lambda>channel.
          m_bind (m_lift (u32 offset_value)) (\<lambda>v.
          legacy_request env WRITE_OFFSET_CH (WriteOFFSETSingleChannel channel v False)
            ''cmd_writeOFFSET_singleChannel_response'')))
        (z_close (le_sock env)))"

definition biasVolts2DAC :: "'f float_ops \<Rightarrow> 'f list \<Rightarrow> int list result" where
  "biasVolts2DAC F volts =
     r_map (\<lambda>v. f_trunc F (f_mul F (f_mul F (f_div F (f_lit F ''26.1'') (f_add F (f_lit F ''26.1'') (f_lit F ''1000'')))
       (f_lit F ''1000.0'')) v)) volts"

definition biasControlVolts2DAC :: "'f float_ops \<Rightarrow> 'f \<Rightarrow> 'f" where
  "biasControlVolts2DAC F volts =
     f_mul F (f_mul F (f_div F (f_lit F ''1.0'') (f_lit F ''74.0'')) volts) (f_lit F ''1000.0'')"

record 'f vbias_args =
  v_channel :: int
  v_bias :: 'f
  v_bias_control :: 'f
  v_trim :: int
  v_set_as_DAC :: bool

text \<open>The DAC codes; with \<open>-set_as_DAC\<close> the two variables are never assigned.\<close>

definition vbias_codes :: "'f float_ops \<Rightarrow> 'f vbias_args \<Rightarrow> (int list option \<times> int option) result" where
  "vbias_codes F args =
     (let afeNumber = nat (v_channel args div 8);
          biasAFE_Volts = (replicate 5 (f_lit F ''0.0''))[afeNumber := v_bias args] in
      if \<not> v_set_as_DAC args then
        r_bind (biasVolts2DAC F biasAFE_Volts) (\<lambda>ds.
        r_bind (f_trunc F (biasControlVolts2DAC F (v_bias_control args))) (\<lambda>c. Inr (Some ds, Some c)))
      else Inr (None, None))"

definition vbias_trim_script ::
  "('s, 'w, 'p) legacy_env \<Rightarrow> 'f float_ops \<Rightarrow> 'f vbias_args \<Rightarrow> ('s, unit) py" where
  "vbias_trim_script env F args =
     (let channel = v_channel args; afeNumber = channel div 8 in
      m_bind (m_lift (vbias_codes F args)) (\<lambda>(biasAFE_DAC, biasControlDAC).
      m_bind (m_lift (r_bind (r_of_option NameError biasControlDAC) u32)) (\<lambda>bc.
      m_then (legacy_request env WRITE_VBIAS_CONTROL (WriteVbiasControl bc True) ''cmd_writeVbiasControl_response'')
      (m_bind (m_lift (r_bind (r_of_option NameError biasAFE_DAC) (\<lambda>ds. u32 (ds ! nat afeNumber)))) (\<lambda>b.
      m_then (legacy_request env WRITE_AFE_BIAS_SET (WriteAFEBiasSet afeNumber b) ''cmd_writeAFEBiasSet_response'')
      (m_bind (m_lift (u32 (v_trim args))) (\<lambda>tr.
      m_then (legacy_request env WRITE_TRIM_CH (WriteTrimSingleChannel channel tr False)
          ''cmd_writeTrim_singleChannel_response'')
        (z_close (le_sock env)))))))))"

definition afe_function_script :: "('s, 'w, 'p) legacy_env \<Rightarrow> string \<Rightarrow> int \<Rightarrow> int \<Rightarrow> ('s, unit) py" where
  "afe_function_script env afe_function afe_number value =
     m_then (m_lift (legacy_validate afe_function value))
     (m_bind (m_lift (u32 value)) (\<lambda>v.
      m_then (legacy_request env WRITE_AFE_FUNCTION (WriteAFEFunction afe_number afe_function v)
          ''cmd_writeAFEFunction_response'')
        (z_close (le_sock env))))"

section \<open>A link that answers\<close>

text \<open>Every operation succeeds, only sending changes the list of sent frames, and the reply to a frame has
  the type of the last request and decodes.\<close>

locale legacy_link =
  fixes env :: "('s, 'w, 'p) legacy_env" and sent :: "'s \<Rightarrow> 'w list"
  assumes b_send: "\<exists>t. z_send (le_sock env) w s = (Inr (), t) \<and> sent t = sent s @ [w]"
    and b_recv: "sent s = ws @ [legacy_frame env ty req] \<Longrightarrow>
      \<exists>fs reply n t. z_recv (le_sock env) s = (Inr fs, t) \<and> sent t = sent s
        \<and> ParseFromString (le_envc env) (last fs) = Inr (reply, n) \<and> l_type reply = ty
        \<and> (\<exists>out k. ParseFromString (le_respc env) (l_payload reply) = Inr (out, k))"
    and b_close: "\<exists>t. z_close (le_sock env) s = (Inr (), t) \<and> sent t = sent s"
    and b_print: "\<exists>t. le_print env l s = (Inr (), t) \<and> sent t = sent s"
begin

lemma print_run: "\<exists>t. print_response env out s = (Inr (), t) \<and> sent t = sent s"
proof -
  obtain t where t: "le_print env (''Success: '' @ (if lr_success out then ''True'' else ''False'')) s = (Inr (), t)"
      "sent t = sent s" using b_print by blast
  obtain u where u: "le_print env (''Message: '' @ lr_message out) t = (Inr (), u)" "sent u = sent t"
    using b_print by blast
  have "print_response env out s = (Inr (), u)"
    unfolding print_response_def m_then_def m_bind_def by (simp only: t(1) u(1) prod.case sum.case)
  with t(2) u(2) show ?thesis by simp
qed

lemma request_run:
  "\<exists>t. legacy_request env ty req cls s = (pb_attr cls, t) \<and> sent t = sent s @ [legacy_frame env ty req]"
proof -
  obtain s1 where s1: "z_send (le_sock env) (legacy_frame env ty req) s = (Inr (), s1)"
      "sent s1 = sent s @ [legacy_frame env ty req]" using b_send by blast
  obtain fs reply n s2 out k where s2: "z_recv (le_sock env) s1 = (Inr fs, s2)" "sent s2 = sent s1"
      "ParseFromString (le_envc env) (last fs) = Inr (reply, n)" "l_type reply = ty"
      "ParseFromString (le_respc env) (l_payload reply) = Inr (out, k)"
    using b_recv [OF s1(2)] by blast
  obtain s4 where s4: "print_response env out s2 = (Inr (), s4)" "sent s4 = sent s2"
    using print_run by blast
  have x: "send_envelope_and_get_reply env \<lparr>l_type = ty, l_payload = le_ser env req\<rparr> s = (Inr (last fs), s2)"
    by (simp add: send_envelope_and_get_reply_def py_run s1(1) [unfolded legacy_frame_def] s2(1))
  show ?thesis
  proof (cases "cls \<in> set low_messages")
    case True
    then have "legacy_request env ty req cls s = (Inr (), s4)"
      by (simp add: legacy_request_def py_run x s2(3,4,5) pb_attr_def s4)
    with True s1 s2 s4 show ?thesis by (simp add: pb_attr_def)
  next
    case False
    then have "legacy_request env ty req cls s = (Inl AttributeError, s2)"
      by (simp add: legacy_request_def py_run x s2(3,4) pb_attr_def)
    with False s1 s2 show ?thesis by (simp add: pb_attr_def)
  qed
qed

lemma request_ok:
  assumes "pb_attr cls = Inr ()"
  shows "\<exists>t. legacy_request env ty req cls s = (Inr (), t) \<and> sent t = sent s @ [legacy_frame env ty req]"
  using request_run [of ty req cls s] assms by simp

lemma request_no_class:
  assumes "pb_attr cls = Inl AttributeError"
  shows "\<exists>t. legacy_request env ty req cls s = (Inl AttributeError, t) \<and> sent t = sent s @ [legacy_frame env ty req]"
  using request_run [of ty req cls s] assms by simp

lemma requests_run:
  assumes "pb_attr cls = Inr ()"
  shows "\<exists>t. m_for xs (\<lambda>x. legacy_request env ty (f x) cls) s = (Inr (), t)
     \<and> sent t = sent s @ map (\<lambda>x. legacy_frame env ty (f x)) xs"
proof (induction xs arbitrary: s)
  case (Cons x xs)
  obtain t where t: "legacy_request env ty (f x) cls s = (Inr (), t)" "sent t = sent s @ [legacy_frame env ty (f x)]"
    using request_ok [OF assms] by blast
  obtain u where "m_for xs (\<lambda>x. legacy_request env ty (f x) cls) t = (Inr (), u)"
      "sent u = sent t @ map (\<lambda>x. legacy_frame env ty (f x)) xs" using Cons.IH by blast
  with t show ?case by (simp add: py_run)
qed (simp add: py_run)

end

section \<open>Properties\<close>

lemma response_classes:
  "pb_attr ''cmd_writeOFFSET_singleChannel_response'' = Inr ()" "pb_attr ''cmd_writeVbiasControl_response'' = Inr ()"
  "pb_attr ''cmd_writeAFEBiasSet_response'' = Inr ()" "pb_attr ''cmd_writeTrim_singleChannel_response'' = Inr ()"
  "pb_attr ''cmd_writeAFEVgain_response'' = Inl AttributeError"
  by (simp_all add: pb_attr_def low_messages_def)

text \<open>The offset script with \<open>-configure_all\<close> sends the same offset to all forty channels in order, one
  request each, and a value that does not fit the field is refused before anything is sent.\<close>

theorem offset_script_all_channels:
  assumes "legacy_link env sent"
  shows "if 0 \<le> v \<and> v < 2 ^ 32 then
       \<exists>t. offset_script env ch v True s = (Inr (), t)
         \<and> sent t = sent s @ map (\<lambda>c. legacy_frame env WRITE_OFFSET_CH (WriteOFFSETSingleChannel c v False)) (py_range 40)
     else offset_script env ch v True s = (Inl (ValueError ''Value out of range''), s)"
proof (cases "0 \<le> v \<and> v < 2 ^ 32")
  case True
  obtain t where t: "m_for (py_range 40) (\<lambda>c. legacy_request env WRITE_OFFSET_CH (WriteOFFSETSingleChannel c v False)
        ''cmd_writeOFFSET_singleChannel_response'') s = (Inr (), t)"
      "sent t = sent s @ map (\<lambda>c. legacy_frame env WRITE_OFFSET_CH (WriteOFFSETSingleChannel c v False)) (py_range 40)"
    using legacy_link.requests_run [OF assms response_classes(1), of "py_range 40" WRITE_OFFSET_CH
        "\<lambda>c. WriteOFFSETSingleChannel c v False" s] by (elim exE conjE) (rule that)
  obtain u where "z_close (le_sock env) t = (Inr (), u)" "sent u = sent t"
    using legacy_link.b_close [OF assms] by blast
  with t True show ?thesis by (simp add: offset_script_def u32_def py_run)
next
  case False
  obtain xs where "py_range 40 = 0 # xs" by (simp add: py_range_def upt_rec)
  with False show ?thesis
    by (auto simp: offset_script_def u32_def m_then_def m_bind_def m_lift_def)
qed

text \<open>The gain script fails after its first request: when the server answers with the matching type,
  the script looks up a response class that the message definitions do not have and raises
  \<open>AttributeError\<close>, so with \<open>-configure_all\<close> only AFE 0 is written.\<close>

theorem vgain_script_stops_after_first:
  assumes "legacy_link env sent" and "0 \<le> v \<and> v < 2 ^ 32"
  shows "\<exists>t. vgain_script env afe v True s = (Inl AttributeError, t)
     \<and> sent t = sent s @ [legacy_frame env WRITE_AFE_VGAIN (WriteAFEVGAIN 0 v)]"
proof -
  obtain t where "legacy_request env WRITE_AFE_VGAIN (WriteAFEVGAIN 0 v) ''cmd_writeAFEVgain_response'' s
      = (Inl AttributeError, t)" "sent t = sent s @ [legacy_frame env WRITE_AFE_VGAIN (WriteAFEVGAIN 0 v)]"
    using legacy_link.request_no_class [OF assms(1) response_classes(5), of WRITE_AFE_VGAIN "WriteAFEVGAIN 0 v" s]
    by (elim exE conjE) (rule that)
  with assms(2) show ?thesis
    by (simp add: vgain_script_def u32_def py_range_def upt_rec m_then_def m_bind_def)
qed

text \<open>The bias script writes the bias control, then the bias of the channel's AFE, then the trim of
  the channel, each exactly once, when the computed codes fit; with \<open>-set_as_DAC\<close> it raises
  \<open>NameError\<close> before anything is sent, whatever the values.\<close>

theorem vbias_trim_script_order:
  assumes "legacy_link env sent" and "0 \<le> v_channel args \<and> v_channel args < 40"
    and "biasVolts2DAC F ((replicate 5 (f_lit F ''0.0''))[nat (v_channel args div 8) := v_bias args]) = Inr ds"
    and "f_trunc F (biasControlVolts2DAC F (v_bias_control args)) = Inr c"
    and "u32 c = Inr c" and "u32 (ds ! nat (v_channel args div 8)) = Inr b" and "u32 (v_trim args) = Inr tr"
  shows "if v_set_as_DAC args then vbias_trim_script env F args s = (Inl NameError, s)
     else \<exists>t. vbias_trim_script env F args s = (Inr (), t)
       \<and> sent t = sent s @ [legacy_frame env WRITE_VBIAS_CONTROL (WriteVbiasControl c True),
           legacy_frame env WRITE_AFE_BIAS_SET (WriteAFEBiasSet (v_channel args div 8) b),
           legacy_frame env WRITE_TRIM_CH (WriteTrimSingleChannel (v_channel args) tr False)]"
proof (cases "v_set_as_DAC args")
  case True
  then show ?thesis by (simp add: vbias_trim_script_def vbias_codes_def Let_def m_raise_def)
next
  case False
  obtain s1 where s1: "legacy_request env WRITE_VBIAS_CONTROL (WriteVbiasControl c True)
        ''cmd_writeVbiasControl_response'' s = (Inr (), s1)"
      "sent s1 = sent s @ [legacy_frame env WRITE_VBIAS_CONTROL (WriteVbiasControl c True)]"
    using legacy_link.request_ok [OF assms(1) response_classes(2), of WRITE_VBIAS_CONTROL "WriteVbiasControl c True" s]
    by (elim exE conjE) (rule that)
  obtain s2 where s2: "legacy_request env WRITE_AFE_BIAS_SET (WriteAFEBiasSet (v_channel args div 8) b)
        ''cmd_writeAFEBiasSet_response'' s1 = (Inr (), s2)"
      "sent s2 = sent s1 @ [legacy_frame env WRITE_AFE_BIAS_SET (WriteAFEBiasSet (v_channel args div 8) b)]"
    using legacy_link.request_ok [OF assms(1) response_classes(3), of WRITE_AFE_BIAS_SET "WriteAFEBiasSet (v_channel args div 8) b" s1]
    by (elim exE conjE) (rule that)
  obtain s3 where s3: "legacy_request env WRITE_TRIM_CH (WriteTrimSingleChannel (v_channel args) tr False)
        ''cmd_writeTrim_singleChannel_response'' s2 = (Inr (), s3)"
      "sent s3 = sent s2 @ [legacy_frame env WRITE_TRIM_CH (WriteTrimSingleChannel (v_channel args) tr False)]"
    using legacy_link.request_ok [OF assms(1) response_classes(4), of WRITE_TRIM_CH "WriteTrimSingleChannel (v_channel args) tr False" s2]
    by (elim exE conjE) (rule that)
  obtain s4 where s4: "z_close (le_sock env) s3 = (Inr (), s4)" "sent s4 = sent s3"
    using legacy_link.b_close [OF assms(1)] by blast
  have "vbias_codes F args = Inr (Some ds, Some c)"
    using False assms(3,4) by (simp add: vbias_codes_def)
  then have "vbias_trim_script env F args s = (Inr (), s4)"
    using assms(5-7) by (simp add: vbias_trim_script_def Let_def m_lift_def m_then_def m_bind_def s1(1) s2(1) s3(1) s4(1))
  with False s1 s2 s3 s4 show ?thesis by simp
qed

section \<open>A reference server\<close>

definition ref_legacy :: "(low_request ControlEnvelope list, low_request ControlEnvelope, low_request) legacy_env" where
  "ref_legacy = \<lparr>le_sock = \<lparr>z_timeout = (\<lambda>k. m_ret ()), z_send = (\<lambda>w. m_modify (\<lambda>l. l @ [w])),
       z_recv = m_get (\<lambda>l. [last l]), z_close = m_ret (), time_ns = m_ret 0, randrange = (\<lambda>n. m_ret 0)\<rparr>,
     le_envc = \<lparr>ser = (\<lambda>e. e), par = Some, blen = (\<lambda>_. 1)\<rparr>, le_ser = (\<lambda>r. r),
     le_respc = \<lparr>ser = (\<lambda>r. WriteVbiasControl 0 True), par = (\<lambda>p. Some \<lparr>lr_success = True, lr_message = ''ok''\<rparr>),
       blen = (\<lambda>_. 1)\<rparr>,
     le_print = (\<lambda>l. m_ret ())\<rparr>"

interpretation ref_legacy: legacy_link ref_legacy "\<lambda>l. l"
  by unfold_locales (auto simp: ref_legacy_def legacy_frame_def py_run ParseFromString_def)

theorem offset_script_all_channels_witness:
  "if 0 \<le> (2275 :: int) \<and> (2275 :: int) < 2 ^ 32 then
       \<exists>t. offset_script ref_legacy 0 2275 True [] = (Inr (), t)
         \<and> t = [] @ map (\<lambda>c. legacy_frame ref_legacy WRITE_OFFSET_CH (WriteOFFSETSingleChannel c 2275 False)) (py_range 40)
     else offset_script ref_legacy 0 2275 True [] = (Inl (ValueError ''Value out of range''), [])"
  by (rule offset_script_all_channels [OF ref_legacy.legacy_link_axioms])

theorem vgain_script_stops_after_first_witness:
  "\<exists>t. vgain_script ref_legacy 3 1600 True [] = (Inl AttributeError, t)
     \<and> t = [] @ [legacy_frame ref_legacy WRITE_AFE_VGAIN (WriteAFEVGAIN 0 1600)]"
  by (rule vgain_script_stops_after_first [OF ref_legacy.legacy_link_axioms]) simp

definition example_vbias :: "int vbias_args" where
  "example_vbias = \<lparr>v_channel = 12, v_bias = 40, v_bias_control = 60, v_trim = 1000, v_set_as_DAC = False\<rparr>"

theorem vbias_trim_script_order_witness:
  "if v_set_as_DAC example_vbias then vbias_trim_script ref_legacy int_floats example_vbias [] = (Inl NameError, [])
     else \<exists>t. vbias_trim_script ref_legacy int_floats example_vbias [] = (Inr (), t)
       \<and> t = [] @ [legacy_frame ref_legacy WRITE_VBIAS_CONTROL (WriteVbiasControl 0 True),
           legacy_frame ref_legacy WRITE_AFE_BIAS_SET (WriteAFEBiasSet (v_channel example_vbias div 8) 0),
           legacy_frame ref_legacy WRITE_TRIM_CH (WriteTrimSingleChannel (v_channel example_vbias) 1000 False)]"
  by (rule vbias_trim_script_order [OF ref_legacy.legacy_link_axioms, where ds = "[0, 0, 0, 0, 0]"])
     (simp_all add: example_vbias_def int_floats_def biasVolts2DAC_def biasControlVolts2DAC_def u32_def
       py_int_def signed_digits_def split_sign_def py_strip_def is_space_def digit_val_def numeral_eq_Suc)

end
