(* ===== verification/Scan_Runtime.thy ===== *)
theory Scan_Runtime
  imports Py_Json
begin

text \<open>
  \<open>client/dynamic_range_led/scan_runtime.py\<close>: the helpers of the LED scan scripts. They turn channel
  expressions and ranges into lists, build the command lines of the sub-programs (LED run and stop, bias
  monitor, front-end read-back, acquisition), run them with their output logged to a file, and extract
  the front-end snapshot from the read-back. Running a program, writing a file, the JSON parser and
  printer and \<open>expanduser\<close> are environment.
\<close>

section \<open>Channel expressions and ranges\<close>

definition int_of :: "string \<Rightarrow> int result" where
  "int_of s = r_of_option (ValueError ''invalid literal for int()'') (py_int s)"

definition parse_token :: "string \<Rightarrow> int list result" where
  "parse_token raw =
     (let token = py_strip raw in
      if token = [] then Inr []
      else case split_once CHR ''-'' token of
        Some (a_str, b_str) \<Rightarrow>
          r_bind (int_of a_str) (\<lambda>a. r_bind (int_of b_str) (\<lambda>b.
            Inr (py_range_step (min a b) (max a b + 1) 1)))
      | None \<Rightarrow> r_bind (int_of token) (\<lambda>n. Inr [n]))"

definition parse_channels :: "string \<Rightarrow> int list result" where
  "parse_channels expr =
     r_bind (r_map parse_token (split_on CHR '','' expr)) (\<lambda>outs. Inr (sort (remdups (concat outs))))"

definition inclusive_range :: "int \<Rightarrow> int \<Rightarrow> int \<Rightarrow> int list result" where
  "inclusive_range start stop step =
     (if step \<le> 0 then Inl (ValueError ''step must be > 0'')
      else let values = py_range_step start (stop + 1) step in
        Inr (if values = [] \<or> last values \<noteq> stop then values @ [stop] else values))"

section \<open>Running programs\<close>

record 's scan_env =
  run_prog :: "string list \<Rightarrow> ('s, int \<times> string \<times> string) py"
  write_file :: "string \<Rightarrow> string \<Rightarrow> ('s, unit) py"
  loads :: "string \<Rightarrow> json option"
  dumps :: "json \<Rightarrow> string"
  exc_str :: "exn \<Rightarrow> string"
  expanduser :: "string \<Rightarrow> string"
  client_dir :: string
  daphne_root :: string

definition lf :: string where "lf = [char_of (10 :: nat)]"

definition combine_output :: "string \<Rightarrow> string \<Rightarrow> string" where
  "combine_output out err = (if err \<noteq> [] then out @ (if out \<noteq> [] then lf else []) @ err else out)"

definition run_cmd :: "'s scan_env \<Rightarrow> string list \<Rightarrow> string \<Rightarrow> bool \<Rightarrow> ('s, int \<times> string) py" where
  "run_cmd env cmd log_path dry_run =
     (if dry_run then
        (let text = join_with '' '' cmd @ lf in
         m_then (write_file env log_path text) (m_ret (0, py_strip text)))
      else
        m_bind (run_prog env cmd) (\<lambda>(returncode, out, err).
        let combined = combine_output out err in
        m_then (write_file env log_path combined) (m_ret (returncode, py_strip combined))))"

section \<open>The front-end snapshot\<close>

definition fe_marker :: string where "fe_marker = ''=== FE STATE SNAPSHOT (read-only) ===''"

text \<open>The text after the last occurrence of a marker (\<open>rfind\<close> and slicing).\<close>

fun after_last :: "string \<Rightarrow> string \<Rightarrow> string option" where
  "after_last m [] = (if m = [] then Some [] else None)"
| "after_last m (c # cs) =
     (case after_last m cs of
        Some r \<Rightarrow> Some r
      | None \<Rightarrow> if starts_with m (c # cs) then Some (drop (length m) (c # cs)) else None)"

definition extract_fe_state_json :: "'s scan_env \<Rightarrow> string \<Rightarrow> json result" where
  "extract_fe_state_json env output =
     (case after_last fe_marker output of
        None \<Rightarrow> Inl (ValueError ''FE state readback did not contain snapshot marker'')
      | Some rest \<Rightarrow>
          let json_text = py_strip rest in
          if json_text = [] then Inl (ValueError ''FE state readback did not contain JSON payload'')
          else r_of_option JSONDecodeError (loads env json_text))"

definition readback_command :: "'s scan_env \<Rightarrow> string \<Rightarrow> string \<Rightarrow> int \<Rightarrow> string \<Rightarrow> int \<Rightarrow> string list" where
  "readback_command env python_exe host port route timeout_ms =
     [python_exe, client_dir env @ ''/read_fe_state_v2.py'', ''--host'', host, ''--port'', int_to_str port,
      ''--route'', route, ''--timeout'', int_to_str timeout_ms]"

definition run_fe_state_readback ::
  "'s scan_env \<Rightarrow> string \<Rightarrow> string \<Rightarrow> int \<Rightarrow> string \<Rightarrow> int \<Rightarrow> string \<Rightarrow> string \<Rightarrow> bool \<Rightarrow> ('s, jobject) py" where
  "run_fe_state_readback env python_exe host port route timeout_ms log_path json_path dry_run =
     (let cmd = readback_command env python_exe host port route timeout_ms;
          jcmd = JList (map JStr cmd) in
      if dry_run then
        m_then (write_file env log_path (join_with '' '' cmd @ lf))
          (m_ret [(''command'', jcmd), (''dry_run'', JBool True), (''json_path'', JStr json_path)])
      else
        m_bind (run_prog env cmd) (\<lambda>(returncode, out, err).
        let combined = combine_output out err;
            payload = [(''command'', jcmd), (''returncode'', JInt returncode), (''json_path'', JStr json_path)] in
        m_then (write_file env log_path combined)
          (if returncode = 0 then
             m_except
               (m_bind (m_lift (extract_fe_state_json env combined)) (\<lambda>config.
                m_then (write_file env json_path (dumps env config @ lf))
                  (m_ret (payload @ [(''config'', config)]))))
               (\<lambda>e. m_ret (payload @ [(''parse_error'', JStr (exc_str env e))]))
           else m_ret payload)))"

section \<open>Command lines\<close>

definition resolve_led_biases :: "string \<Rightarrow> int \<Rightarrow> int \<Rightarrow> int \<Rightarrow> (string \<times> int) list" where
  "resolve_led_biases scan_wavelength intensity fixed_bias_270nm fixed_bias_367nm =
     [(''pulse_bias_percent_270nm'', if scan_wavelength = ''270'' then intensity else fixed_bias_270nm),
      (''pulse_bias_percent_367nm'', if scan_wavelength = ''367'' then intensity else fixed_bias_367nm)]"

record led_link =
  led_host :: string
  led_port :: int
  led_ssh_tunnel :: string
  led_ssh_tunnel_remote_host :: string
  led_ssh_tunnel_remote_port :: int
  led_timeout_s :: string

record led_settings =
  led_channel_mask :: int
  led_number_channels :: int
  led_pulse_width_ticks :: int
  led_intensity_270nm :: int
  led_intensity_367nm :: int

definition default_led_client_path :: "'s scan_env \<Rightarrow> string \<Rightarrow> string" where
  "default_led_client_path env name = client_dir env @ ''/'' @ name"

definition default_led_config_path :: "'s scan_env \<Rightarrow> string" where
  "default_led_config_path env = daphne_root env @ ''/configs/led_run_defaults.json''"

definition tunnel_args :: "led_link \<Rightarrow> string list" where
  "tunnel_args l =
     (if led_ssh_tunnel l \<noteq> [] then
        [''--ssh-tunnel'', led_ssh_tunnel l, ''--ssh-tunnel-remote-host'', led_ssh_tunnel_remote_host l,
         ''--ssh-tunnel-remote-port'', int_to_str (led_ssh_tunnel_remote_port l)]
      else [])"

definition led_command :: "'s scan_env \<Rightarrow> string \<Rightarrow> string \<Rightarrow> led_link \<Rightarrow> led_settings \<Rightarrow> string list" where
  "led_command env led_client led_config l st =
     [expanduser env (if led_client \<noteq> [] then led_client else default_led_client_path env ''ssp_led_run''),
      ''--config'', expanduser env led_config, ''--host'', led_host l, ''--port'', int_to_str (led_port l),
      ''--timeout'', led_timeout_s l,
      ''--channel-mask'', int_to_str (led_channel_mask st),
      ''--number-channels'', int_to_str (led_number_channels st),
      ''--pulse-width-ticks'', int_to_str (led_pulse_width_ticks st),
      ''--pulse-bias-percent-270nm'', int_to_str (led_intensity_270nm st),
      ''--pulse-bias-percent-367nm'', int_to_str (led_intensity_367nm st)] @ tunnel_args l"

definition led_stop_command :: "'s scan_env \<Rightarrow> string \<Rightarrow> led_link \<Rightarrow> string list" where
  "led_stop_command env led_stop_client l =
     [expanduser env (if led_stop_client \<noteq> [] then led_stop_client else default_led_client_path env ''ssp_led_stop''),
      ''--host'', led_host l, ''--port'', int_to_str (led_port l), ''--timeout'', led_timeout_s l] @ tunnel_args l"

definition run_and_report :: "'s scan_env \<Rightarrow> string list \<Rightarrow> string \<Rightarrow> bool \<Rightarrow> ('s, jobject) py" where
  "run_and_report env cmd log_path dry_run =
     m_bind (run_cmd env cmd log_path dry_run) (\<lambda>(rc, output).
     m_ret [(''command'', JList (map JStr cmd)), (''returncode'', JInt rc), (''output'', JStr output)])"

definition run_led ::
  "'s scan_env \<Rightarrow> string \<Rightarrow> string \<Rightarrow> led_link \<Rightarrow> led_settings \<Rightarrow> string \<Rightarrow> bool \<Rightarrow> ('s, jobject) py" where
  "run_led env led_client led_config l st log_path dry_run =
     run_and_report env (led_command env led_client led_config l st) log_path dry_run"

definition run_led_stop :: "'s scan_env \<Rightarrow> string \<Rightarrow> led_link \<Rightarrow> string \<Rightarrow> bool \<Rightarrow> ('s, jobject) py" where
  "run_led_stop env led_stop_client l log_path dry_run =
     run_and_report env (led_stop_command env led_stop_client l) log_path dry_run"

definition infer_tunnel_board :: "int \<Rightarrow> string" where
  "infer_tunnel_board port =
     (case map_of [(40113, ''daphne-13''), (40114, ''daphne-14''), (40115, ''daphne-15'')] port of
        Some b \<Rightarrow> b | None \<Rightarrow> '''')"

definition bias_command :: "'s scan_env \<Rightarrow> string \<Rightarrow> string \<Rightarrow> string \<Rightarrow> int \<Rightarrow> int \<Rightarrow> int \<Rightarrow> string list" where
  "bias_command env python_exe board host port afe timeout_ms =
     (if board \<noteq> [] then
        [daphne_root env @ ''/utils/run_client_via_tunnel.sh'', board, client_dir env @ ''/vbias_monitor_once.py'',
         ''--afe'', int_to_str afe, ''--timeout'', int_to_str timeout_ms]
      else
        [python_exe, client_dir env @ ''/vbias_monitor_once.py'', ''--ip'', host, ''--port'', int_to_str port,
         ''--afe'', int_to_str afe, ''--timeout'', int_to_str timeout_ms])"

definition run_bias_monitor ::
  "'s scan_env \<Rightarrow> string \<Rightarrow> string \<Rightarrow> string \<Rightarrow> int \<Rightarrow> int \<Rightarrow> int \<Rightarrow> string \<Rightarrow> bool \<Rightarrow> ('s, jobject) py" where
  "run_bias_monitor env python_exe board host port afe timeout_ms log_path dry_run =
     (let cmd = bias_command env python_exe board host port afe timeout_ms in
      m_bind (run_cmd env cmd log_path dry_run) (\<lambda>(rc, output).
      m_ret ([(''afe'', JInt afe), (''command'', JList (map JStr cmd)), (''returncode'', JInt rc), (''output'', JStr output)]
        @ (if board \<noteq> [] then [(''board'', JStr board)] else []))))"

record acquire_args =
  aq_host :: string
  aq_port :: int
  aq_route :: string
  aq_raw_dir :: string
  aq_channels :: "int list"
  aq_waveforms :: int
  aq_waveform_len :: int
  aq_timeout_ms :: int
  aq_software_trigger :: bool

definition acquire_command :: "'s scan_env \<Rightarrow> string \<Rightarrow> acquire_args \<Rightarrow> string list" where
  "acquire_command env python_exe a =
     [python_exe, client_dir env @ ''/protobuf_acquire_list_channels.py'', ''-ip'', aq_host a, ''-port'', int_to_str (aq_port a),
      ''--route'', aq_route a, ''--osc_mode'', ''-foldername'', aq_raw_dir a,
      ''-channel_list'', join_with '','' (map int_to_str (aq_channels a)), ''-N'', int_to_str (aq_waveforms a),
      ''-L'', int_to_str (aq_waveform_len a), ''--timeout_ms'', int_to_str (aq_timeout_ms a)]
     @ (if aq_software_trigger a then [''-software_trigger''] else [])"

definition run_acquire ::
  "'s scan_env \<Rightarrow> string \<Rightarrow> acquire_args \<Rightarrow> string \<Rightarrow> bool \<Rightarrow> ('s, int \<times> string list) py" where
  "run_acquire env python_exe a log_path dry_run =
     (let cmd = acquire_command env python_exe a in
      if dry_run then m_then (write_file env log_path (join_with '' '' cmd @ lf)) (m_ret (0, cmd))
      else
        m_bind (run_prog env cmd) (\<lambda>(returncode, out, err).
        m_then (write_file env log_path (combine_output out err)) (m_ret (returncode, cmd))))"

section \<open>Channel expressions denote sets of channels\<close>

text \<open>The tokens a user writes, the text of a token and the channels it stands for.\<close>

datatype chan_token = One int | Span int int

fun show_token :: "chan_token \<Rightarrow> string" where
  "show_token (One n) = int_to_str n"
| "show_token (Span a b) = int_to_str a @ ''-'' @ int_to_str b"

fun token_chans :: "chan_token \<Rightarrow> int set" where
  "token_chans (One n) = {n}"
| "token_chans (Span a b) = {min a b..max a b}"

fun token_ok :: "chan_token \<Rightarrow> bool" where
  "token_ok (One n) \<longleftrightarrow> 0 \<le> n"
| "token_ok (Span a b) \<longleftrightarrow> 0 \<le> a \<and> 0 \<le> b"

lemma int_to_str_no_minus: "0 \<le> n \<Longrightarrow> CHR ''-'' \<notin> set (int_to_str n)"
proof
  assume "0 \<le> n" and "CHR ''-'' \<in> set (int_to_str n)"
  then obtain d where "d < 36" "CHR ''-'' = digit_char d"
    using digits_of_chars [of 10] by (auto simp: int_to_str_def)
  moreover have "(of_char CHR ''-'' :: nat) < 48" by simp
  ultimately show False using digit_char_neq by metis
qed

lemma int_to_str_nonempty [simp]: "int_to_str n \<noteq> []"
  by (simp add: int_to_str_def)

lemma split_once_append: "c \<notin> set a \<Longrightarrow> split_once c (a @ c # b) = Some (a, b)"
  by (simp add: split_once_def takeWhile_append dropWhile_append)

lemma show_token_not_space: "c \<in> set (show_token t) \<Longrightarrow> \<not> is_space c"
  by (cases t) (auto simp: is_space_def dest: int_to_str_not_space)

lemma show_token_no_comma: "CHR '','' \<notin> set (show_token t)"
  using int_to_str_no_comma by (cases t) auto

lemma set_py_range_step_1: "set (py_range_step a b 1) = {a..<b}"
  by (induction a b "1 :: int" rule: py_range_step.induct) (subst py_range_step.simps, auto)

lemma parse_token_show:
  assumes "token_ok t"
  shows "\<exists>cs. parse_token (show_token t) = Inr cs \<and> set cs = token_chans t"
proof -
  have strip: "py_strip (show_token t) = show_token t"
    by (rule py_strip_id) (rule show_token_not_space)
  show ?thesis
  proof (cases t)
    case (One n)
    with assms have "split_once CHR ''-'' (int_to_str n) = None"
      using int_to_str_no_minus by (simp add: split_once_def)
    with One strip show ?thesis by (simp add: parse_token_def int_of_def)
  next
    case (Span a b)
    with assms have "split_once CHR ''-'' (int_to_str a @ CHR ''-'' # int_to_str b) = Some (int_to_str a, int_to_str b)"
      using int_to_str_no_minus by (simp add: split_once_append)
    with Span strip show ?thesis
      by (auto simp: parse_token_def int_of_def set_py_range_step_1)
  qed
qed

lemma r_map_parse_show:
  "list_all token_ok ts \<Longrightarrow>
     \<exists>css. r_map parse_token (map show_token ts) = Inr css \<and> set (concat css) = (\<Union>t \<in> set ts. token_chans t)"
proof (induction ts)
  case (Cons t ts)
  then obtain css where "r_map parse_token (map show_token ts) = Inr css"
    "set (concat css) = (\<Union>t \<in> set ts. token_chans t)" by auto
  moreover obtain cs where "parse_token (show_token t) = Inr cs" "set cs = token_chans t"
    using Cons.prems parse_token_show by auto
  ultimately show ?case by auto
qed simp

lemma sort_remdups_set: "set xs = S \<Longrightarrow> sort (remdups xs) = sorted_list_of_set (S :: int set)"
  by (metis sorted_list_of_set_sort_remdups)

text \<open>C14: A comma-separated list of channels and channel ranges, in any order, with overlaps and with
  ranges written backwards, parses to the increasing list of exactly the channels it names.\<close>

theorem parse_channels_denotes:
  assumes "ts \<noteq> []" and "list_all token_ok ts"
  shows "parse_channels (join_with '','' (map show_token ts)) =
    Inr (sorted_list_of_set (\<Union>t \<in> set ts. token_chans t))"
proof -
  have "split_on CHR '','' (join_with '','' (map show_token ts)) = map show_token ts"
    by (rule split_on_join) (use assms(1) show_token_no_comma in auto)
  then show ?thesis
    using r_map_parse_show [OF assms(2)] sort_remdups_set by (auto simp: parse_channels_def)
qed

theorem parse_channels_denotes_witness:
  "parse_channels (join_with '','' (map show_token [Span 7 5, One 2, Span 6 8])) = Inr [2, 5, 6, 7, 8]"
proof -
  have "parse_channels (join_with '','' (map show_token [Span 7 5, One 2, Span 6 8])) =
      Inr (sorted_list_of_set (\<Union>t \<in> set [Span 7 5, One 2, Span 6 8]. token_chans t))"
    by (rule parse_channels_denotes) simp_all
  moreover have "(\<Union>t \<in> set [Span 7 5, One 2, Span 6 8]. token_chans t) = {2, 5, 6, 7, 8}"
    by auto
  moreover have "sorted_list_of_set {2, 5, 6, 7, 8 :: int} = [2, 5, 6, 7, 8]" by simp
  ultimately show ?thesis by (simp only:)
qed

section \<open>Scan ranges\<close>

lemma py_range_step_hd: "0 < st \<Longrightarrow> a < b \<Longrightarrow> hd (py_range_step a b st) = a \<and> py_range_step a b st \<noteq> []"
  by (subst (1 2) py_range_step.simps) simp

lemma py_range_step_nth:
  "i < length (py_range_step a b st) \<Longrightarrow> py_range_step a b st ! i = a + int i * st \<and> a + int i * st < b"
proof (induction a b st arbitrary: i rule: py_range_step.induct)
  case (1 a b st)
  show ?case
  proof (cases "0 < st \<and> a < b")
    case True
    then have e: "py_range_step a b st = a # py_range_step (a + st) b st"
      by (subst py_range_step.simps) simp
    show ?thesis
    proof (cases i)
      case 0
      with e True show ?thesis by simp
    next
      case (Suc j)
      with 1 True e have "py_range_step (a + st) b st ! j = a + st + int j * st \<and> a + st + int j * st < b"
        by simp
      with Suc e show ?thesis by (simp add: algebra_simps)
    qed
  next
    case False
    with 1(2) show ?thesis by (subst (asm) py_range_step.simps) auto
  qed
qed

lemma py_range_step_last:
  "0 < st \<Longrightarrow> a < b \<Longrightarrow> b - st \<le> last (py_range_step a b st)"
proof (induction a b st rule: py_range_step.induct)
  case (1 a b st)
  then have e: "py_range_step a b st = a # py_range_step (a + st) b st"
    by (subst py_range_step.simps) simp
  show ?case
  proof (cases "a + st < b")
    case True
    with 1 e py_range_step_hd [of st "a + st" b] show ?thesis by simp
  next
    case False
    then have "py_range_step (a + st) b st = []" by (subst py_range_step.simps) simp
    with e False show ?thesis by simp
  qed
qed

text \<open>A scan over an increasing range visits the first value and the last value, in strictly
  increasing order, in steps of the requested size, of which only the last may be shorter.\<close>

theorem inclusive_range_steps:
  assumes "0 < step" and "start \<le> stop"
  shows "\<exists>vs. inclusive_range start stop step = Inr vs \<and> vs \<noteq> [] \<and> hd vs = start \<and> last vs = stop \<and>
    (\<forall>i. Suc i < length vs \<longrightarrow>
       0 < vs ! Suc i - vs ! i \<and> vs ! Suc i - vs ! i \<le> step \<and>
       (Suc (Suc i) < length vs \<longrightarrow> vs ! Suc i - vs ! i = step))"
proof -
  define xs where "xs = py_range_step start (stop + 1) step"
  have hd: "hd xs = start" and ne: "xs \<noteq> []"
    using py_range_step_hd [of step start "stop + 1"] assms by (simp_all add: xs_def)
  have nth: "xs ! i = start + int i * step \<and> xs ! i \<le> stop" if "i < length xs" for i
    using py_range_step_nth that by (fastforce simp: xs_def)
  have gap: "xs ! Suc i - xs ! i = step" if "Suc i < length xs" for i
    using nth [of i] nth [of "Suc i"] that by (simp add: algebra_simps)
  have last: "stop + 1 - step \<le> last xs" "last xs \<le> stop"
    using py_range_step_last [of step start "stop + 1"] assms nth [of "length xs - 1"] ne
    by (simp_all add: xs_def last_conv_nth)
  show ?thesis
  proof (cases "last xs = stop")
    case True
    with hd ne gap assms show ?thesis
      by (intro exI [of _ xs]) (auto simp: inclusive_range_def xs_def [symmetric] Let_def)
  next
    case False
    have "0 < (xs @ [stop]) ! Suc i - (xs @ [stop]) ! i \<and> (xs @ [stop]) ! Suc i - (xs @ [stop]) ! i \<le> step \<and>
        (Suc (Suc i) < length (xs @ [stop]) \<longrightarrow> (xs @ [stop]) ! Suc i - (xs @ [stop]) ! i = step)"
      if i: "Suc i < length (xs @ [stop])" for i
    proof (cases "Suc i < length xs")
      case True
      then show ?thesis using gap assms by (simp add: nth_append)
    next
      case edge: False
      with i have "i = length xs - 1" "i < length xs" by auto
      then have "xs ! i = last xs" using ne by (simp add: last_conv_nth)
      then show ?thesis using edge i last False by (simp add: nth_append)
    qed
    with False hd ne assms show ?thesis
      by (intro exI [of _ "xs @ [stop]"]) (auto simp: inclusive_range_def xs_def [symmetric] Let_def)
  qed
qed

theorem inclusive_range_steps_witness:
  "inclusive_range 10 17 3 = Inr [10, 13, 16, 17] \<and>
   (\<exists>vs. inclusive_range 10 17 3 = Inr vs \<and> vs \<noteq> [] \<and> hd vs = 10 \<and> last vs = 17 \<and>
    (\<forall>i. Suc i < length vs \<longrightarrow>
       0 < vs ! Suc i - vs ! i \<and> vs ! Suc i - vs ! i \<le> 3 \<and>
       (Suc (Suc i) < length vs \<longrightarrow> vs ! Suc i - vs ! i = 3)))"
  using inclusive_range_steps [of 3 10 17] by (simp add: inclusive_range_def py_range_step.simps)

section \<open>The read-back\<close>

lemma m_except_cases:
  "m_except m h s = (r, u) \<Longrightarrow>
     (\<exists>a. m s = (Inr a, u) \<and> r = Inr a) \<or> (\<exists>e. m s = (Inl e, u) \<and> r = Inl e) \<or>
     (\<exists>e t. m s = (Inl e, t) \<and> h e t = (r, u))"
  by (auto simp: m_except_def m_try_def m_raise_def split: prod.splits sum.splits if_splits)

text \<open>A read-back reports a front-end configuration only when the read-back program was really run,
  exited with status 0, and the text after the last marker of its output decodes to that configuration,
  which has then also been written to the snapshot file; otherwise the report has no configuration.\<close>

theorem readback_config_sound:
  assumes "run_fe_state_readback env py host port route timeout log_path json_path dry_run s = (Inr payload, u)"
    and "map_of payload ''config'' = Some c"
  shows "\<not> dry_run \<and>
    (\<exists>out err t1 t2 rest. run_prog env (readback_command env py host port route timeout) s = (Inr (0, out, err), t1) \<and>
      write_file env log_path (combine_output out err) t1 = (Inr (), t2) \<and>
      after_last fe_marker (combine_output out err) = Some rest \<and> loads env (py_strip rest) = Some c \<and>
      write_file env json_path (dumps env c @ lf) t2 = (Inr (), u))"
proof -
  have dry: "\<not> dry_run"
    using assms by (auto simp: run_fe_state_readback_def py_ok Let_def)
  with assms(1) obtain code out err t1 t2 where
    prog: "run_prog env (readback_command env py host port route timeout) s = (Inr (code, out, err), t1)" and
    log: "write_file env log_path (combine_output out err) t1 = (Inr (), t2)" and
    rest: "(if code = 0 then
             m_except
               (m_bind (m_lift (extract_fe_state_json env (combine_output out err))) (\<lambda>config.
                m_then (write_file env json_path (dumps env config @ lf))
                  (m_ret ([(''command'', JList (map JStr (readback_command env py host port route timeout))),
                     (''returncode'', JInt code), (''json_path'', JStr json_path)] @ [(''config'', config)]))))
               (\<lambda>e. m_ret ([(''command'', JList (map JStr (readback_command env py host port route timeout))),
                     (''returncode'', JInt code), (''json_path'', JStr json_path)] @ [(''parse_error'', JStr (exc_str env e))]))
           else m_ret [(''command'', JList (map JStr (readback_command env py host port route timeout))),
                     (''returncode'', JInt code), (''json_path'', JStr json_path)]) t2 = (Inr payload, u)"
    by (auto simp: run_fe_state_readback_def py_ok Let_def)
  have code: "code = 0"
    using rest assms(2) by (auto simp: py_ok split: if_splits)
  from rest code have body: "extract_fe_state_json env (combine_output out err) = Inr c \<and>
      write_file env json_path (dumps env c @ lf) t2 = (Inr (), u)"
    using assms(2) by (auto simp: py_ok m_ret_def dest!: m_except_cases split: if_splits)
  then have "\<exists>r. after_last fe_marker (combine_output out err) = Some r \<and> loads env (py_strip r) = Some c"
    by (auto simp: extract_fe_state_json_def Let_def split: option.splits if_splits)
  with dry prog log body code show ?thesis by blast
qed

text \<open>A scripted environment: the read-back program prints the marker and an object, files are a map.\<close>

definition scripted_env :: "string \<Rightarrow> (string \<rightharpoonup> string) scan_env" where
  "scripted_env err =
     \<lparr>run_prog = (\<lambda>cmd. m_ret (0, fe_marker @ lf @ ''{}'', err)),
      write_file = (\<lambda>p txt. m_modify (\<lambda>fs. fs(p \<mapsto> txt))),
      loads = (\<lambda>t. if t = ''{}'' then Some (JObj []) else None), dumps = (\<lambda>j. ''{}''), exc_str = (\<lambda>e. ''error''),
      expanduser = (\<lambda>p. p), client_dir = ''client'', daphne_root = ''.''\<rparr>"

theorem readback_config_sound_witness:
  "\<exists>payload u rest. run_fe_state_readback (scripted_env []) ''python3'' ''h'' 40001 ''mezz/0'' 3000 ''l'' ''j'' False Map.empty
      = (Inr payload, u) \<and> map_of payload ''config'' = Some (JObj []) \<and>
    after_last fe_marker (fe_marker @ lf @ ''{}'') = Some rest \<and> py_strip rest = ''{}''"
proof -
  let ?p = "[(''command'', JList (map JStr (readback_command (scripted_env []) ''python3'' ''h'' 40001 ''mezz/0'' 3000))),
     (''returncode'', JInt 0), (''json_path'', JStr ''j''), (''config'', JObj [])]"
  let ?u = "[''l'' \<mapsto> fe_marker @ lf @ ''{}'', ''j'' \<mapsto> ''{}'' @ lf]"
  have rest: "after_last fe_marker (fe_marker @ lf @ ''{}'') = Some (lf @ ''{}'')" and strip: "py_strip (lf @ ''{}'') = ''{}''"
    by (simp_all add: fe_marker_def lf_def py_strip_def is_space_def)
  have run: "run_fe_state_readback (scripted_env []) ''python3'' ''h'' 40001 ''mezz/0'' 3000 ''l'' ''j'' False Map.empty = (Inr ?p, ?u)"
    using rest strip
    by (simp add: run_fe_state_readback_def scripted_env_def py_run combine_output_def extract_fe_state_json_def Let_def)
  have "map_of ?p ''config'' = Some (JObj [])" by simp
  from readback_config_sound [OF run this] run this rest strip show ?thesis by blast
qed

end
