(* ===== verification/Acquire.thy ===== *)
theory Acquire
  imports Legacy_Scripts Scan_Runtime
begin

text \<open>
  \<open>client/waveparse.py\<close> and \<open>client/protobuf_acquire_list_channels.py\<close>: reading waveforms from the spy
  buffers in the three modes of the script (one request per waveform, one request for all, and a stream of
  chunks) and writing each channel's samples, truncated to sixteen bits, to its own file.

  Sample words are \<open>32 word\<close>s, files are byte lists, and numpy's \<open>tofile\<close> on a little-endian machine writes the
  low byte first. The socket, the two protobuf envelopes and the files are parameters. The receive loop
  of the stream has no bound in the code: the model takes fuel and returns \<open>None\<close> when it is used up. The
  progress bar, the debug printouts and the details of error messages are left out.
\<close>

section \<open>Arrays\<close>

text \<open>Consecutive pieces of a length, as \<open>reshape\<close> cuts them.\<close>

fun rows :: "nat \<Rightarrow> nat \<Rightarrow> 'a list \<Rightarrow> 'a list list" where
  "rows 0 w xs = []"
| "rows (Suc n) w xs = take w xs # rows n w (drop w xs)"

text \<open>\<open>a.reshape((n, k, w))\<close>, with its size check.\<close>

definition reshape3 :: "nat \<Rightarrow> nat \<Rightarrow> nat \<Rightarrow> 'a list \<Rightarrow> 'a list list list result" where
  "reshape3 n k w xs =
     (if length xs = n * k * w then Inr (map (rows k w) (rows n (k * w) xs))
      else Inl (ValueError ''cannot reshape array''))"

definition le_bytes :: "16 word \<Rightarrow> 8 word list" where
  "le_bytes x = [ucast x, ucast (drop_bit 8 x)]"

text \<open>\<open>a.astype(np.uint16).tofile(f)\<close>.\<close>

definition u16_bytes :: "32 word list \<Rightarrow> 8 word list" where
  "u16_bytes xs = concat (map (\<lambda>x. le_bytes (ucast x)) xs)"

section \<open>Messages\<close>

record dump_req =
  dq_channelList :: "int list"
  dq_numberOfSamples :: int
  dq_numberOfWaveforms :: int
  dq_softwareTrigger :: bool

record dump_resp =
  dr_success :: bool
  dr_channelList :: "int list"
  dr_numberOfSamples :: nat
  dr_numberOfWaveforms :: nat
  dr_data :: "32 word list"
  dr_message :: string

record chunk_req =
  cq_channelList :: "int list"
  cq_numberOfSamples :: int
  cq_numberOfWaveforms :: int
  cq_softwareTrigger :: bool
  cq_requestID :: string
  cq_chunkSize :: int

record chunk_resp =
  ck_success :: bool
  ck_isFinal :: bool
  ck_waveformCount :: nat
  ck_data :: "32 word list"
  ck_message :: string

definition MT2_DUMP_SPYBUFFER_REQ :: int where "MT2_DUMP_SPYBUFFER_REQ = 256"
definition MT2_DUMP_SPYBUFFER_RESP :: int where "MT2_DUMP_SPYBUFFER_RESP = 257"
definition MT2_DUMP_SPYBUFFER_CHUNK_REQ :: int where "MT2_DUMP_SPYBUFFER_CHUNK_REQ = 300"
definition MT2_DUMP_SPYBUFFER_CHUNK_RESP :: int where "MT2_DUMP_SPYBUFFER_CHUNK_RESP = 301"
definition DUMP_SPYBUFFER :: int where "DUMP_SPYBUFFER = 29"
definition DUMP_SPYBUFFER_CHUNK :: int where "DUMP_SPYBUFFER_CHUNK = 100"

text \<open>\<open>waveparse.parse_dump_response\<close>: shape \<open>(W, K, N)\<close>; extra words at the end are ignored.\<close>

definition dump_waveforms :: "dump_resp \<Rightarrow> nat" where
  "dump_waveforms resp = (if dr_numberOfWaveforms resp \<noteq> 0 then dr_numberOfWaveforms resp else 1)"

definition parse_dump_response :: "dump_resp \<Rightarrow> 32 word list list list result" where
  "parse_dump_response resp =
     (let k = length (dr_channelList resp); n = dr_numberOfSamples resp; w = dump_waveforms resp; expected = w * k * n in
      if length (dr_data resp) < expected then Inl (ValueError ''Payload too short'')
      else reshape3 w k n (take expected (dr_data resp)))"

section \<open>Environment and arguments\<close>

record ('s, 'w, 'p) aq_env =
  aq_sock :: "('s, 'w) zsock"
  aq_envc2 :: "('w, 'p ControlEnvelopeV2) codec"
  aq_envc1 :: "('w, 'p ControlEnvelope) codec"
  ser_dump :: "dump_req \<Rightarrow> 'p"
  dumpc :: "('p, dump_resp) codec"
  ser_chunk :: "chunk_req \<Rightarrow> 'p"
  chunkc :: "('p, chunk_resp) codec"
  open_dat :: "bool \<Rightarrow> int \<Rightarrow> ('s, unit) py"
  write_dat :: "int \<Rightarrow> 8 word list \<Rightarrow> ('s, unit) py"
  close_dat :: "int \<Rightarrow> ('s, unit) py"
  set_hwm :: "int \<Rightarrow> ('s, unit) py"
  mk_folder :: "('s, unit) py"
  uuid4 :: "('s, string) py"
  aq_print :: "string \<Rightarrow> ('s, unit) py"
  system :: "string \<Rightarrow> ('s, int) py"
  path_exists :: "string \<Rightarrow> ('s, bool) py"
  remove_file :: "string \<Rightarrow> ('s, unit) py"

record aq_args =
  ar_foldername :: string
  ar_channel_list :: "string list"
  ar_N :: int
  ar_L :: int
  ar_software_trigger :: bool
  ar_append_data :: bool
  ar_route :: string
  ar_v2 :: bool
  ar_legacy_only :: bool
  ar_osc_mode :: bool
  ar_legacy :: bool
  ar_chunk :: int
  ar_net_buffer_mb :: int
  ar_compress :: bool
  ar_compression_format :: string
  ar_compression_level :: int

definition compute_credit :: "int \<Rightarrow> int \<Rightarrow> int \<Rightarrow> int \<Rightarrow> int" where
  "compute_credit numberOfSamples chunkWaveform nChannels budget_mb =
     (let chunk_bytes = max 1 (numberOfSamples * chunkWaveform * nChannels * 4);
          credit = (budget_mb * 1024 * 1024) div chunk_bytes in
      min (max credit 32) 4096)"

definition parse_part :: "string \<Rightarrow> int list result" where
  "parse_part raw =
     (let part = py_strip raw in
      if part = [] then Inr []
      else r_bind (int_of part) (\<lambda>val.
        if val < 0 \<or> val > 39 then Inl (ValueError ''Channel out of range 0-39'') else Inr [val]))"

definition acquire_channels :: "string list \<Rightarrow> int list result" where
  "acquire_channels tokens =
     r_bind (r_map parse_part (concat (map (split_on CHR '','') tokens))) (\<lambda>outs. Inr (concat outs))"

section \<open>Requests\<close>

text \<open>The progress texts of the three modes.\<close>

definition osc_text :: "aq_args \<Rightarrow> int list \<Rightarrow> string" where
  "osc_text args chs = ''Osc-mode: requesting '' @ int_to_str (ar_N args) @ '' triggers (1 wf per channel per request), L='' @
     int_to_str (ar_L args) @ '', channels='' @ int_list_str chs @ '', SW_TRG='' @ bool_str (ar_software_trigger args) @
     '', V2='' @ bool_str (ar_v2 args)"

definition legacy_text :: "aq_args \<Rightarrow> int list \<Rightarrow> string" where
  "legacy_text args chs = ''Requesting '' @ int_to_str (ar_N args) @ '' waveforms (L='' @ int_to_str (ar_L args) @ '') on channels '' @
     int_list_str chs @ ''; SW_TRG='' @ bool_str (ar_software_trigger args) @ '' V2='' @ bool_str (ar_v2 args \<and> \<not> ar_legacy_only args)"

definition stream_text :: "aq_args \<Rightarrow> chunk_req \<Rightarrow> string" where
  "stream_text args creq = ''Streaming id='' @ cq_requestID creq @ '' N='' @ int_to_str (ar_N args) @ '' L='' @ int_to_str (ar_L args) @
     '' chunk='' @ int_to_str (cq_chunkSize creq) @ '' channels='' @ int_list_str (cq_channelList creq) @
     '' SW_TRG='' @ bool_str (ar_software_trigger args) @ '' V2='' @ bool_str (ar_v2 args \<and> \<not> ar_legacy args)"

definition acq_send :: "('s, 'w, 'p) aq_env \<Rightarrow> 'w \<Rightarrow> ('s, 'w) py" where
  "acq_send env w =
     m_then (z_send (aq_sock env) w) (m_bind (z_recv (aq_sock env)) (\<lambda>frames. m_ret (last frames)))"

definition v2_envelope :: "('s, 'w, 'p) aq_env \<Rightarrow> int \<Rightarrow> 'p \<Rightarrow> string \<Rightarrow> ('s, 'p ControlEnvelopeV2) py" where
  "v2_envelope env ty body rt =
     m_bind (next_ids (aq_sock env)) (\<lambda>ids.
     m_bind (time_ns (aq_sock env)) (\<lambda>ts.
     m_ret (request_envelope ty body rt ids ts)))"

definition v2_request ::
  "('s, 'w, 'p) aq_env \<Rightarrow> int \<Rightarrow> 'p \<Rightarrow> string \<Rightarrow> ('s, 'p ControlEnvelopeV2 \<times> 'p ControlEnvelopeV2) py" where
  "v2_request env mtype_req body rt =
     m_bind (v2_envelope env mtype_req body rt) (\<lambda>e.
     m_bind (acq_send env (ser (aq_envc2 env) e)) (\<lambda>reply_bytes.
     m_bind (m_lift (ParseFromString (aq_envc2 env) reply_bytes)) (\<lambda>(rep, n).
     if dir rep \<noteq> DIR_RESPONSE then m_raise (RuntimeError ''Unexpected dir'')
     else if correl_id rep \<noteq> msg_id e then m_raise (RuntimeError ''Correlation mismatch'')
     else m_ret (e, rep))))"

text \<open>Opening a file per channel: 'wb' truncates, 'ab' keeps.\<close>

definition open_files :: "('s, 'w, 'p) aq_env \<Rightarrow> aq_args \<Rightarrow> int list \<Rightarrow> ('s, unit) py" where
  "open_files env args chs = m_for chs (open_dat env (ar_append_data args))"

text \<open>Closing them; exceptions of \<open>close\<close> are swallowed.\<close>

definition close_files :: "('s, 'w, 'p) aq_env \<Rightarrow> int list \<Rightarrow> ('s, unit) py" where
  "close_files env chs = m_for (remdups chs) (\<lambda>ch. m_except (close_dat env ch) (\<lambda>e. m_ret ()))"

section \<open>One waveform per request\<close>

definition dump_request :: "int list \<Rightarrow> int \<Rightarrow> int \<Rightarrow> bool \<Rightarrow> dump_req result" where
  "dump_request chs waveforms samples trigger =
     r_bind (u32 waveforms) (\<lambda>waveforms. r_bind (u32 samples) (\<lambda>samples.
     Inr \<lparr>dq_channelList = chs, dq_numberOfSamples = samples, dq_numberOfWaveforms = waveforms, dq_softwareTrigger = trigger\<rparr>))"

definition osc_response :: "('s, 'w, 'p) aq_env \<Rightarrow> aq_args \<Rightarrow> 'p \<Rightarrow> ('s, dump_resp) py" where
  "osc_response env args body =
     m_bind
       (if ar_v2 args then
          m_bind (v2_request env MT2_DUMP_SPYBUFFER_REQ body (ar_route args)) (\<lambda>(e, rep).
          if etype rep \<noteq> MT2_DUMP_SPYBUFFER_RESP then m_raise (RuntimeError ''Unexpected V2 response type'')
          else m_ret (payload rep))
        else
          m_bind (acq_send env (ser (aq_envc1 env) \<lparr>l_type = DUMP_SPYBUFFER, l_payload = body\<rparr>)) (\<lambda>resp_bytes.
          m_bind (m_lift (ParseFromString (aq_envc1 env) resp_bytes)) (\<lambda>(rep, n).
          if l_type rep \<noteq> DUMP_SPYBUFFER then m_raise (RuntimeError ''Unexpected V1 response type'')
          else m_ret (l_payload rep)))) (\<lambda>body.
     m_bind (m_lift (ParseFromString (dumpc env) body)) (\<lambda>(resp, n). m_ret resp))"

definition write_waveform :: "('s, 'w, 'p) aq_env \<Rightarrow> int list \<Rightarrow> 32 word list list \<Rightarrow> ('s, unit) py" where
  "write_waveform env chs y0 =
     m_for (enumerate 0 chs) (\<lambda>(idx, ch).
       if idx < length y0 then write_dat env ch (u16_bytes (y0 ! idx)) else m_raise IndexError)"

definition osc_waveform :: "('s, 'w, 'p) aq_env \<Rightarrow> aq_args \<Rightarrow> int list \<Rightarrow> 'p \<Rightarrow> ('s, unit) py" where
  "osc_waveform env args chs body =
     m_bind (osc_response env args body) (\<lambda>resp.
     if \<not> dr_success resp then m_raise (RuntimeError (''Server error: '' @ dr_message resp))
     else m_bind (m_lift (parse_dump_response resp)) (\<lambda>y. write_waveform env chs (hd y)))"

definition osc_acquire :: "('s, 'w, 'p) aq_env \<Rightarrow> aq_args \<Rightarrow> int list \<Rightarrow> ('s, unit) py" where
  "osc_acquire env args chs =
     m_bind (m_lift (dump_request chs 1 (ar_L args) (ar_software_trigger args))) (\<lambda>req.
     m_then (aq_print env (osc_text args chs))
     (m_then (open_files env args chs)
     (m_finally (m_for (py_range (nat (ar_N args))) (\<lambda>i. osc_waveform env args chs (ser_dump env req)))
        (close_files env chs))))"

section \<open>All waveforms in one request\<close>

text \<open>\<open>y[:, idx, :]\<close>: the rows of one channel, one waveform after the other.\<close>

definition column :: "nat \<Rightarrow> 32 word list list list \<Rightarrow> 32 word list" where
  "column idx y = concat (map (\<lambda>wf. wf ! idx) y)"

definition legacy_acquire :: "('s, 'w, 'p) aq_env \<Rightarrow> aq_args \<Rightarrow> int list \<Rightarrow> ('s, unit) py" where
  "legacy_acquire env args chs =
     m_bind (m_lift (dump_request chs (ar_N args) (ar_L args) (ar_software_trigger args))) (\<lambda>req.
     m_bind
       (if ar_v2 args \<and> \<not> ar_legacy_only args then
          m_bind (v2_envelope env MT2_DUMP_SPYBUFFER_REQ (ser_dump env req) (ar_route args)) (\<lambda>e.
          m_then (aq_print env (legacy_text args chs))
          (m_bind (acq_send env (ser (aq_envc2 env) e)) (\<lambda>resp_bytes.
           m_bind (m_lift (ParseFromString (aq_envc2 env) resp_bytes)) (\<lambda>(rep, n).
           if etype rep \<noteq> MT2_DUMP_SPYBUFFER_RESP then m_raise AssertionError else m_ret (payload rep)))))
        else
          m_then (aq_print env (legacy_text args chs))
          (m_bind (acq_send env (ser (aq_envc1 env) \<lparr>l_type = DUMP_SPYBUFFER, l_payload = ser_dump env req\<rparr>)) (\<lambda>resp_bytes.
           m_bind (m_lift (ParseFromString (aq_envc1 env) resp_bytes)) (\<lambda>(rep, n).
           if l_type rep \<noteq> DUMP_SPYBUFFER then m_raise AssertionError else m_ret (l_payload rep))))) (\<lambda>body.
     m_bind (m_lift (ParseFromString (dumpc env) body)) (\<lambda>(resp, n).
     case reshape3 (nat (ar_N args)) (length chs) (nat (ar_L args)) (dr_data resp) of
       Inl e \<Rightarrow> m_raise (RuntimeError ''Data size not compatible'')
     | Inr y \<Rightarrow>
         m_for (enumerate 0 chs) (\<lambda>(idx, ch).
           m_then (open_dat env (ar_append_data args) ch)
             (m_finally (write_dat env ch (u16_bytes (column idx y))) (close_dat env ch))))))"

section \<open>Streaming\<close>

definition chunk_request :: "aq_args \<Rightarrow> int list \<Rightarrow> chunk_req result" where
  "chunk_request args chs =
     r_bind (u32 (ar_N args)) (\<lambda>n. r_bind (u32 (ar_L args)) (\<lambda>l. r_bind (u32 (max 1 (min (ar_chunk args) (ar_N args)))) (\<lambda>chunk.
     Inr \<lparr>cq_channelList = chs, cq_numberOfSamples = l, cq_numberOfWaveforms = n, cq_softwareTrigger = ar_software_trigger args,
        cq_requestID = [], cq_chunkSize = chunk\<rparr>)))"

text \<open>\<open>stream_envelope\<close> decodes every reply as a legacy \<open>ControlEnvelope\<close>, whichever envelope was sent.\<close>

definition next_chunk_envelope :: "('s, 'w, 'p) aq_env \<Rightarrow> ('s, 'p ControlEnvelope) py" where
  "next_chunk_envelope env =
     m_bind (m_try (z_recv (aq_sock env)) (\<lambda>e. if e = ZmqAgain then m_raise (TimeoutError ''Timed out waiting for chunk reply from server'')
        else m_raise e)) (\<lambda>frames.
     m_bind (m_lift (ParseFromString (aq_envc1 env) (last frames))) (\<lambda>(e, n). m_ret e))"

definition streaming_v2 :: "aq_args \<Rightarrow> bool" where
  "streaming_v2 args \<longleftrightarrow> ar_v2 args \<and> \<not> ar_legacy args"

definition expected_chunk_type :: "aq_args \<Rightarrow> int" where
  "expected_chunk_type args = (if streaming_v2 args then MT2_DUMP_SPYBUFFER_CHUNK_RESP else DUMP_SPYBUFFER_CHUNK)"

definition write_chunk :: "('s, 'w, 'p) aq_env \<Rightarrow> aq_args \<Rightarrow> int list \<Rightarrow> chunk_resp \<Rightarrow> ('s, nat) py" where
  "write_chunk env args chs chunk =
     (if ck_data chunk = [] then m_ret 0
      else case reshape3 (ck_waveformCount chunk) (length chs) (nat (ar_L args)) (ck_data chunk) of
        Inl e \<Rightarrow> m_raise (RuntimeError ''Chunk data size not compatible'')
      | Inr y \<Rightarrow>
          m_then (m_for (enumerate 0 chs) (\<lambda>(idx, ch). write_dat env ch (u16_bytes (column idx y))))
            (m_ret (ck_waveformCount chunk)))"

fun stream_loop :: "('s, 'w, 'p) aq_env \<Rightarrow> aq_args \<Rightarrow> int list \<Rightarrow> nat \<Rightarrow> nat \<Rightarrow> ('s, nat option) py" where
  "stream_loop env args chs 0 wf_written = m_ret None"
| "stream_loop env args chs (Suc fuel) wf_written =
     m_bind (next_chunk_envelope env) (\<lambda>resp_env.
     if l_type resp_env \<noteq> expected_chunk_type args then stream_loop env args chs fuel wf_written
     else
       m_bind (m_lift (ParseFromString (chunkc env) (l_payload resp_env))) (\<lambda>(chunk, n).
       if \<not> ck_success chunk then
         m_then (aq_print env (''Server error: '' @ ck_message chunk)) (m_ret (Some wf_written))
       else
         m_bind (write_chunk env args chs chunk) (\<lambda>k.
         if ck_isFinal chunk then m_ret (Some (wf_written + k))
         else stream_loop env args chs fuel (wf_written + k))))"

definition stream_acquire :: "('s, 'w, 'p) aq_env \<Rightarrow> aq_args \<Rightarrow> int list \<Rightarrow> nat \<Rightarrow> ('s, nat option) py" where
  "stream_acquire env args chs fuel =
     m_bind (m_lift (chunk_request args chs)) (\<lambda>creq0.
     m_bind (uuid4 env) (\<lambda>rid.
     let creq = creq0\<lparr>cq_requestID := rid\<rparr> in
     m_bind
       (if streaming_v2 args then
          m_bind (v2_envelope env MT2_DUMP_SPYBUFFER_CHUNK_REQ (ser_chunk env creq) (ar_route args)) (\<lambda>e.
          m_ret (ser (aq_envc2 env) e))
        else m_ret (ser (aq_envc1 env) \<lparr>l_type = DUMP_SPYBUFFER_CHUNK, l_payload = ser_chunk env creq\<rparr>)) (\<lambda>frame.
     m_then (aq_print env (stream_text args creq))
     (m_then (open_files env args chs)
     (m_finally (m_then (z_send (aq_sock env) frame) (stream_loop env args chs fuel 0)) (close_files env chs))))))"

section \<open>Compression and the script\<close>

text \<open>\<open>os.path.join\<close> with a relative second part.\<close>

definition os_path_join :: "string \<Rightarrow> string \<Rightarrow> string" where
  "os_path_join folder name = (if folder = [] \<or> last folder = CHR ''/'' then folder @ name else folder @ ''/'' @ name)"

definition dat_name :: "aq_args \<Rightarrow> int \<Rightarrow> string" where
  "dat_name args ch = os_path_join (ar_foldername args) (''channel_'' @ int_to_str ch @ ''.dat'')"

definition compress_files :: "('s, 'w, 'p) aq_env \<Rightarrow> aq_args \<Rightarrow> int list \<Rightarrow> ('s, unit) py" where
  "compress_files env args chs =
     (let filename_list = map (dat_name args) chs;
          filenames = concat (map (\<lambda>f. '' '' @ f) filename_list);
          filename_c = os_path_join (ar_foldername args) ''compressed_channels'';
          fmt = ar_compression_format args in
      m_bind (system env (fmt @ '' --help'')) (\<lambda>rc.
      if rc \<noteq> 0 then
        m_then (aq_print env (fmt @ '' is not installed. Please install it to use '' @ fmt @ '' compression.'')) (m_raise (SystemExit 1))
      else if fmt = ''7z'' then
        m_bind (system env (''7z a -mx='' @ int_to_str (ar_compression_level args) @ '' '' @ filename_c @ ''.7z '' @ filenames @ '' -y'')) (\<lambda>_.
        m_bind (path_exists env (filename_c @ ''.7z'')) (\<lambda>ok. m_when ok (m_for filename_list (remove_file env))))
      else if fmt = ''tar'' then
        m_bind (system env (''tar -czvf '' @ filename_c @ ''.tar.gz '' @ filenames)) (\<lambda>_.
        m_bind (path_exists env (filename_c @ ''.tar.gz'')) (\<lambda>ok. m_when ok (m_for filename_list (remove_file env))))
      else m_ret ()))"

definition acquire_script :: "('s, 'w, 'p) aq_env \<Rightarrow> aq_args \<Rightarrow> nat \<Rightarrow> ('s, unit option) py" where
  "acquire_script env args fuel =
     m_bind (m_lift (acquire_channels (ar_channel_list args))) (\<lambda>chs.
     m_then (m_when (\<not> (ar_legacy args \<or> ar_legacy_only args))
        (set_hwm env (compute_credit (ar_L args) (min (ar_chunk args) (ar_N args)) (int (length chs)) (ar_net_buffer_mb args))))
     (m_then (mk_folder env)
     (if ar_osc_mode args then m_then (osc_acquire env args chs) (m_raise (SystemExit 0))
      else if ar_legacy args \<or> ar_legacy_only args then m_then (legacy_acquire env args chs) (m_raise (SystemExit 0))
      else
        m_bind (stream_acquire env args chs fuel) (\<lambda>r.
        case r of
          None \<Rightarrow> m_ret None
        | Some written \<Rightarrow> m_then (m_when (ar_compress args) (compress_files env args chs)) (m_ret (Some ()))))))"

section \<open>Arrays: shapes\<close>

text \<open>A block of waveforms for \<open>k\<close> channels of \<open>n\<close> samples, and the flat array the server sends for it.\<close>

definition shaped :: "nat \<Rightarrow> nat \<Rightarrow> 'a list list list \<Rightarrow> bool" where
  "shaped k n y \<longleftrightarrow> list_all (\<lambda>wv. length wv = k \<and> list_all (\<lambda>x. length x = n) wv) y"

definition flat :: "'a list list list \<Rightarrow> 'a list" where
  "flat y = concat (map concat y)"

lemma shaped_append [simp]: "shaped k n (y @ z) \<longleftrightarrow> shaped k n y \<and> shaped k n z"
  by (simp add: shaped_def)

lemma shaped_concat: "list_all (shaped k n) ys \<Longrightarrow> shaped k n (concat ys)"
  by (induction ys) (auto simp: shaped_def)

lemma length_concat_uniform: "list_all (\<lambda>x. length x = n) xs \<Longrightarrow> length (concat xs) = length xs * n"
  by (induction xs) auto

lemma rows_concat: "list_all (\<lambda>x. length x = n) xs \<Longrightarrow> rows (length xs) n (concat xs) = xs"
  by (induction xs) auto

lemma shaped_rows: "shaped k n y \<Longrightarrow> list_all (\<lambda>x. length x = k * n) (map concat y)"
  by (auto simp: shaped_def list_all_iff length_concat_uniform)

lemma length_flat: "shaped k n y \<Longrightarrow> length (flat y) = length y * k * n"
  using length_concat_uniform [OF shaped_rows] by (simp add: flat_def mult.assoc)

text \<open>Reshaping the flat array gives the block back.\<close>

lemma reshape_flat: assumes "shaped k n y" shows "reshape3 (length y) k n (flat y) = Inr y"
proof -
  have "rows (length y) (k * n) (flat y) = map concat y"
    using rows_concat [OF shaped_rows [OF assms]] by (simp add: flat_def)
  moreover have "map (rows k n) (map concat y) = y"
    using assms by (auto simp: shaped_def list_all_iff rows_concat intro!: map_idI)
  ultimately show ?thesis by (simp add: reshape3_def length_flat [OF assms] del: map_map)
qed

lemma column_append [simp]: "column i (y @ z) = column i y @ column i z"
  by (simp add: column_def)

lemma u16_bytes_append [simp]: "u16_bytes (xs @ ys) = u16_bytes xs @ u16_bytes ys"
  by (simp add: u16_bytes_def)

lemma flat_empty_column:
  "shaped k n y \<Longrightarrow> flat y = [] \<Longrightarrow> i < k \<Longrightarrow> column i y = []"
  by (auto simp: shaped_def flat_def column_def list_all_iff)

section \<open>Files: one column per channel\<close>

text \<open>Updating the entry of each channel in turn, with the channel's position in the list.\<close>

fun upd_channel :: "(nat \<Rightarrow> 'b \<Rightarrow> 'b) \<Rightarrow> nat \<times> int \<Rightarrow> (int \<Rightarrow> 'b) \<Rightarrow> int \<Rightarrow> 'b" where
  "upd_channel g (i, ch) c x = (if x = ch then g i (c ch) else c x)"

definition each_channel :: "int list \<Rightarrow> (nat \<Rightarrow> 'b \<Rightarrow> 'b) \<Rightarrow> (int \<Rightarrow> 'b) \<Rightarrow> int \<Rightarrow> 'b" where
  "each_channel chs g c = fold (upd_channel g) (enumerate 0 chs) c"

lemma fold_each:
  "distinct chs \<Longrightarrow> (\<forall>i < length chs. fold (upd_channel g) (enumerate n chs) c (chs ! i) = g (n + i) (c (chs ! i)))
     \<and> (\<forall>x. x \<notin> set chs \<longrightarrow> fold (upd_channel g) (enumerate n chs) c x = c x)"
proof (induction chs arbitrary: n c)
  case (Cons ch chs)
  show ?case
  proof (intro conjI allI impI)
    fix i assume "i < length (ch # chs)"
    then show "fold (upd_channel g) (enumerate n (ch # chs)) c ((ch # chs) ! i) = g (n + i) (c ((ch # chs) ! i))"
      using Cons by (cases i) auto
  qed (use Cons in auto)
qed simp

text \<open>A loop over the channels that acts on one file at a time.\<close>

lemma fold_view:
  "(\<And>i ch g. H (i, ch) g = (upd_channel f (i, ch) (fst g), snd g)) \<Longrightarrow> fold H ps g = (fold (upd_channel f) ps (fst g), snd g)"
  by (induction ps arbitrary: g) auto

lemma each_channel_nth: "distinct chs \<Longrightarrow> i < length chs \<Longrightarrow> each_channel chs g c (chs ! i) = g i (c (chs ! i))"
  using fold_each [of chs g 0 c] by (simp add: each_channel_def)

lemma each_channel_other: "distinct chs \<Longrightarrow> x \<notin> set chs \<Longrightarrow> each_channel chs g c x = c x"
  using fold_each [of chs g 0 c] by (simp add: each_channel_def)

lemma each_channel_eqI:
  assumes "distinct chs" "\<And>i. i < length chs \<Longrightarrow> d (chs ! i) = g i (c (chs ! i))" "\<And>x. x \<notin> set chs \<Longrightarrow> d x = c x"
  shows "d = each_channel chs g c"
proof
  fix x show "d x = each_channel chs g c x"
    using assms by (cases "x \<in> set chs") (auto simp: in_set_conv_nth each_channel_nth each_channel_other)
qed

lemma each_channel_comp:
  assumes "distinct chs" shows "each_channel chs h (each_channel chs g c) = each_channel chs (\<lambda>i. h i \<circ> g i) c"
  using assms by (intro each_channel_eqI) (auto simp: each_channel_nth each_channel_other)

lemma each_channel_cong:
  assumes "\<And>i x. i < length chs \<Longrightarrow> g i x = h i x" shows "each_channel chs g c = each_channel chs h c"
  unfolding each_channel_def by (rule fold_cong) (use assms in \<open>auto simp: in_set_enumerate_eq fun_eq_iff\<close>)

text \<open>The files after an acquisition: the samples of each channel, one waveform after the other.\<close>

definition stored :: "bool \<Rightarrow> int list \<Rightarrow> 32 word list list list \<Rightarrow> (int \<Rightarrow> 8 word list) \<Rightarrow> int \<Rightarrow> 8 word list" where
  "stored ap chs y = each_channel chs (\<lambda>i old. (if ap then old else []) @ u16_bytes (column i y))"

text \<open>A stream of chunks for a list of blocks: the last chunk is marked final.\<close>

definition chunk_of :: "bool \<Rightarrow> 32 word list list list \<Rightarrow> chunk_resp" where
  "chunk_of final y = \<lparr>ck_success = True, ck_isFinal = final, ck_waveformCount = length y, ck_data = flat y, ck_message = []\<rparr>"

fun stream_of :: "32 word list list list list \<Rightarrow> chunk_resp list" where
  "stream_of [] = []"
| "stream_of [y] = [chunk_of True y]"
| "stream_of (y # z # ys) = chunk_of False y # stream_of (z # ys)"

definition carries_chunk :: "('s, 'w, 'p) aq_env \<Rightarrow> 'w \<Rightarrow> chunk_resp \<Rightarrow> bool" where
  "carries_chunk env w c \<longleftrightarrow>
     (\<exists>p. par (aq_envc1 env) w = Some \<lparr>l_type = DUMP_SPYBUFFER_CHUNK, l_payload = p\<rparr> \<and> par (chunkc env) p = Some c)"

definition carries_dump :: "('s, 'w, 'p) aq_env \<Rightarrow> 'w \<Rightarrow> 32 word list \<Rightarrow> bool" where
  "carries_dump env w d \<longleftrightarrow>
     (\<exists>p r. par (aq_envc1 env) w = Some \<lparr>l_type = DUMP_SPYBUFFER, l_payload = p\<rparr> \<and> par (dumpc env) p = Some r \<and> dr_data r = d)"

text \<open>A \<open>with\<close> block whose write and close both succeed is their sequence.\<close>

lemma m_finally_write:
  assumes "\<And>s. \<exists>t. m s = (Inr (), t) \<and> P s t" "\<And>s. \<exists>t. c s = (Inr (), t) \<and> Q s t"
  shows "m_finally m c = m_then m c"
proof
  fix s
  obtain t u where "m s = (Inr (), t)" "c t = (Inr (), u)" using assms by meson
  then show "m_finally m c s = m_then m c s" by (simp add: py_run)
qed

text \<open>
  Files and a socket: opening, writing and closing a file act on that file only; a request puts the frames
  the server sends for it into the inbox, and receiving from an empty inbox runs into the time-out.
\<close>

locale spool =
  fixes env :: "('s, 'w, 'p) aq_env" and files :: "'s \<Rightarrow> int \<Rightarrow> 8 word list"
    and inbox :: "'s \<Rightarrow> 'w list" and served :: "'w \<Rightarrow> 'w list"
  assumes f_time: "\<exists>x t. time_ns (aq_sock env) s = (Inr x, t) \<and> files t = files s \<and> inbox t = inbox s"
    and f_rand: "\<exists>x t. randrange (aq_sock env) n s = (Inr x, t) \<and> files t = files s \<and> inbox t = inbox s"
    and f_uuid: "\<exists>x t. uuid4 env s = (Inr x, t) \<and> files t = files s \<and> inbox t = inbox s"
    and f_hwm: "\<exists>t. set_hwm env n s = (Inr (), t) \<and> files t = files s \<and> inbox t = inbox s"
    and f_folder: "\<exists>t. mk_folder env s = (Inr (), t) \<and> files t = files s \<and> inbox t = inbox s"
    and f_print: "\<exists>t. aq_print env l s = (Inr (), t) \<and> files t = files s \<and> inbox t = inbox s"
    and f_open: "\<exists>t. open_dat env ap ch s = (Inr (), t) \<and> files t = (files s)(ch := if ap then files s ch else []) \<and> inbox t = inbox s"
    and f_write: "\<exists>t. write_dat env ch bs s = (Inr (), t) \<and> files t = (files s)(ch := files s ch @ bs) \<and> inbox t = inbox s"
    and f_close: "\<exists>t. close_dat env ch s = (Inr (), t) \<and> files t = files s \<and> inbox t = inbox s"
    and f_send: "\<exists>t. z_send (aq_sock env) w s = (Inr (), t) \<and> files t = files s \<and> inbox t = inbox s @ served w"
    and f_recv: "inbox s = w # ws \<Longrightarrow> \<exists>fs t. z_recv (aq_sock env) s = (Inr (fs @ [w]), t) \<and> files t = files s \<and> inbox t = ws"
    and f_silent: "inbox s = [] \<Longrightarrow> \<exists>t. z_recv (aq_sock env) s = (Inl ZmqAgain, t) \<and> files t = files s \<and> inbox t = []"
begin

abbreviation spool_view :: "'s \<Rightarrow> (int \<Rightarrow> 8 word list) \<times> 'w list" where
  "spool_view s \<equiv> (files s, inbox s)"

abbreviation F :: "((int \<Rightarrow> 8 word list) \<times> 'w list \<Rightarrow> bool) \<Rightarrow> ('s, 'a) py \<Rightarrow> ('a \<Rightarrow> (int \<Rightarrow> 8 word list) \<times> 'w list \<Rightarrow> bool) \<Rightarrow> bool" where
  "F \<equiv> triple (\<lambda>_. True) spool_view"

lemma quiet_t [wp]:
  "F (\<lambda>g. \<forall>x. Q x g) (time_ns (aq_sock env)) Q"
  "F (\<lambda>g. \<forall>x. Q x g) (randrange (aq_sock env) n) Q"
  "F (\<lambda>g. \<forall>x. R x g) (uuid4 env) R"
  unfolding triple_def using f_time f_rand f_uuid by (metis (no_types, lifting))+

lemma acts_t [wp]:
  "F (\<lambda>g. Q () g) (aq_print env l) Q"
  "F (\<lambda>g. Q () g) (close_dat env ch) Q"
  "F (\<lambda>g. Q () ((fst g)(ch := if ap then fst g ch else []), snd g)) (open_dat env ap ch) Q"
  "F (\<lambda>g. Q () ((fst g)(ch := fst g ch @ bs), snd g)) (write_dat env ch bs) Q"
  "F (\<lambda>g. Q () (fst g, snd g @ served w)) (z_send (aq_sock env) w) Q"
  unfolding triple_def using f_print f_close f_open f_write f_send by (metis (no_types, lifting) fst_conv snd_conv)+

lemma channels_t:
  assumes "\<And>P i ch. F (\<lambda>g. P ((fst g)(ch := f i (fst g ch)), snd g)) (body (i, ch)) (\<lambda>_. P)"
  shows "F (\<lambda>g. Q () (each_channel chs f (fst g), snd g)) (m_for (enumerate 0 chs) body) Q"
proof -
  let ?H = "\<lambda>x g. (upd_channel f x (fst g), snd g)"
  have upd: "upd_channel f (i, ch) c = c(ch := f i (c ch))" for i ch c by (simp add: fun_eq_iff)
  have "F (\<lambda>g. Q () (fold ?H (enumerate 0 chs) g)) (m_for (enumerate 0 chs) body) Q"
    by (rule triple_for_fold) (use assms in \<open>simp add: upd split_paired_all del: upd_channel.simps\<close>)
  then show ?thesis by (simp add: each_channel_def fold_view [where H = ?H])
qed

lemma writes_t [wp]:
  "F (\<lambda>g. Q () (each_channel chs (\<lambda>i old. old @ f i) (fst g), snd g)) (m_for (enumerate 0 chs) (\<lambda>(i, ch). write_dat env ch (f i))) Q"
  by (rule channels_t) (auto intro: acts_t)

lemma stores_t [wp]:
  "F (\<lambda>g. Q () (each_channel chs (\<lambda>i old. (if ap then old else []) @ f i) (fst g), snd g))
     (m_for (enumerate 0 chs) (\<lambda>(i, ch). m_then (open_dat env ap ch) (m_finally (write_dat env ch (f i)) (close_dat env ch)))) Q"
proof (rule channels_t)
  fix P :: "(int \<Rightarrow> 8 word list) \<times> 'w list \<Rightarrow> bool" and i ch
  show "F (\<lambda>g. P ((fst g)(ch := (if ap then fst g ch else []) @ f i), snd g))
      ((\<lambda>(i, ch). m_then (open_dat env ap ch) (m_finally (write_dat env ch (f i)) (close_dat env ch))) (i, ch)) (\<lambda>_. P)"
    unfolding m_finally_write [OF f_write f_close] split_conv
    by (rule triple_weaken, (rule wp)+) simp
qed

lemma opens_t [wp]:
  "F (\<lambda>g. Q () (each_channel chs (\<lambda>i old. if ar_append_data args then old else []) (fst g), snd g)) (open_files env args chs) Q"
proof -
  have "m_for chs (open_dat env ap) = m_for (enumerate 0 chs) (\<lambda>(i, ch). open_dat env ap ch)" for ap
    using m_for_map [of snd "enumerate 0 chs" "open_dat env ap"] by (simp add: case_prod_unfold)
  moreover have "F (\<lambda>g. Q () (each_channel chs (\<lambda>i old. if ar_append_data args then old else []) (fst g), snd g))
      (m_for (enumerate 0 chs) (\<lambda>(i, ch). open_dat env (ar_append_data args) ch)) Q"
    by (rule channels_t) (simp only: split_conv, rule acts_t)
  ultimately show ?thesis by (simp add: open_files_def)
qed

lemma closes: "\<exists>t. close_files env chs s = (Inr (), t) \<and> files t = files s \<and> inbox t = inbox s"
proof -
  have "\<exists>t. m_for xs (\<lambda>ch. m_except (close_dat env ch) (\<lambda>e. m_ret ())) s = (Inr (), t) \<and> files t = files s \<and> inbox t = inbox s" for xs
  proof (induction xs arbitrary: s)
    case (Cons x xs)
    obtain t where "close_dat env x s = (Inr (), t)" "files t = files s" "inbox t = inbox s" using f_close by blast
    with Cons [of t] show ?case by (simp add: py_run)
  qed (simp add: py_run)
  then show ?thesis by (simp add: close_files_def)
qed

lemma receive:
  assumes "inbox s = w # ws" "par (aq_envc1 env) w = Some e"
  shows "\<exists>t. next_chunk_envelope env s = (Inr e, t) \<and> files t = files s \<and> inbox t = ws"
  using f_recv [OF assms(1)] assms(2) by (auto simp: next_chunk_envelope_def py_run ParseFromString_def)

lemma receive_nothing:
  assumes "inbox s = []"
  shows "\<exists>t. next_chunk_envelope env s = (Inl (TimeoutError ''Timed out waiting for chunk reply from server''), t) \<and> files t = files s \<and> inbox t = []"
  using f_silent [OF assms] by (auto simp: next_chunk_envelope_def py_run)

text \<open>A chunk adds the columns of its waveforms to the files.\<close>

lemma chunk_written:
  assumes "shaped (length chs) (nat (ar_L args)) y"
  shows "\<exists>k t. write_chunk env args chs (chunk_of final y) s = (Inr k, t) \<and>
    files t = each_channel chs (\<lambda>i old. old @ u16_bytes (column i y)) (files s) \<and> inbox t = inbox s"
proof (cases "flat y = []")
  case True
  have "each_channel chs (\<lambda>i old. old @ u16_bytes (column i y)) c = each_channel chs (\<lambda>i old. old) c" for c
    by (rule each_channel_cong) (use flat_empty_column [OF assms True] in \<open>simp add: u16_bytes_def\<close>)
  moreover have "each_channel chs (\<lambda>i old. old) c = c" for c :: "int \<Rightarrow> 8 word list"
    unfolding each_channel_def by (rule fold_invariant [where Q = "\<lambda>_. True" and P = "\<lambda>d. d = c"]) auto
  ultimately show ?thesis using True by (simp add: write_chunk_def chunk_of_def py_run)
next
  case False
  have "F (\<lambda>g. g = spool_view s) (write_chunk env args chs (chunk_of final y))
      (\<lambda>_ g. g = (each_channel chs (\<lambda>i old. old @ u16_bytes (column i y)) (files s), inbox s))"
    unfolding write_chunk_def using False
    by (simp add: chunk_of_def reshape_flat [OF assms]) (rule triple_weaken, (rule wp)+, simp)
  from tripleD [OF this TrueI refl] show ?thesis by auto
qed

lemma loop_chunks:
  assumes "distinct chs" "\<not> streaming_v2 args"
  shows "list_all (shaped (length chs) (nat (ar_L args))) ys \<Longrightarrow> ys \<noteq> [] \<Longrightarrow> list_all2 (carries_chunk env) (inbox s) (stream_of ys) \<Longrightarrow>
    length ys \<le> fuel \<Longrightarrow> \<exists>n t. stream_loop env args chs fuel m s = (Inr (Some n), t) \<and>
      files t = each_channel chs (\<lambda>i old. old @ u16_bytes (column i (concat ys))) (files s)"
proof (induction ys arbitrary: s fuel m rule: stream_of.induct)
  case (2 y)
  then obtain w p f where w: "inbox s = [w]" "par (aq_envc1 env) w = Some \<lparr>l_type = DUMP_SPYBUFFER_CHUNK, l_payload = p\<rparr>"
    "par (chunkc env) p = Some (chunk_of True y)" "fuel = Suc f"
    by (cases fuel) (auto simp: list_all2_Cons2 carries_chunk_def)
  obtain s1 where s1: "next_chunk_envelope env s = (Inr \<lparr>l_type = DUMP_SPYBUFFER_CHUNK, l_payload = p\<rparr>, s1)" "files s1 = files s"
    using receive [OF w(1,2)] by blast
  obtain k s2 where s2: "write_chunk env args chs (chunk_of True y) s1 = (Inr k, s2)"
    "files s2 = each_channel chs (\<lambda>i old. old @ u16_bytes (column i y)) (files s1)"
    using chunk_written [of chs args y True s1] 2 by auto
  show ?case using s1 s2 w(3,4) assms(2) by (simp add: py_run expected_chunk_type_def ParseFromString_def) (simp add: chunk_of_def py_run)
next
  case (3 y z ys)
  then obtain w ws f where c: "carries_chunk env w (chunk_of False y)"
    and w: "inbox s = w # ws" "fuel = Suc f" "list_all2 (carries_chunk env) ws (stream_of (z # ys))"
    by (cases fuel) (auto simp: list_all2_Cons2)
  obtain p where p: "par (aq_envc1 env) w = Some \<lparr>l_type = DUMP_SPYBUFFER_CHUNK, l_payload = p\<rparr>"
    "par (chunkc env) p = Some (chunk_of False y)" using c by (auto simp: carries_chunk_def)
  obtain s1 where s1: "next_chunk_envelope env s = (Inr \<lparr>l_type = DUMP_SPYBUFFER_CHUNK, l_payload = p\<rparr>, s1)" "files s1 = files s" "inbox s1 = ws"
    using receive [OF w(1) p(1)] by blast
  obtain k s2 where s2: "write_chunk env args chs (chunk_of False y) s1 = (Inr k, s2)"
    "files s2 = each_channel chs (\<lambda>i old. old @ u16_bytes (column i y)) (files s1)" "inbox s2 = ws"
    using chunk_written [of chs args y False s1] 3(2) s1(3) by auto
  obtain n t where t: "stream_loop env args chs f (m + k) s2 = (Inr (Some n), t)"
    "files t = each_channel chs (\<lambda>i old. old @ u16_bytes (column i (concat (z # ys)))) (files s2)"
    using 3(1) [of s2 f "m + k"] 3(2,5) w(2,3) s2(3) by auto
  have "stream_loop env args chs fuel m s = (Inr (Some n), t)"
    using s1(1) s2(1) t(1) w(2) p(2) assms(2) by (simp add: py_run expected_chunk_type_def ParseFromString_def) (simp add: chunk_of_def)
  then show ?case using t(2) s2(2) s1(2) by (simp add: each_channel_comp [OF assms(1)] comp_def)
qed simp

text \<open>Frames of another type are skipped until the receive times out.\<close>

lemma loop_skips:
  assumes "\<forall>w \<in> set (inbox s). \<exists>e. par (aq_envc1 env) w = Some e \<and> l_type e \<noteq> expected_chunk_type args" "length (inbox s) < fuel"
  shows "\<exists>t. stream_loop env args chs fuel m s = (Inl (TimeoutError ''Timed out waiting for chunk reply from server''), t) \<and> files t = files s"
  using assms
proof (induction "inbox s" arbitrary: s fuel)
  case Nil
  then obtain f where "fuel = Suc f" by (cases fuel) auto
  then show ?case using receive_nothing [of s] Nil(1) by (auto simp: py_run)
next
  case (Cons w ws)
  obtain f where f: "fuel = Suc f" using Cons.prems(2) by (cases fuel) auto
  obtain e where e: "par (aq_envc1 env) w = Some e" "l_type e \<noteq> expected_chunk_type args"
    using Cons.prems(1) Cons.hyps(2) by (metis list.set_intros(1))
  obtain s1 where s1: "next_chunk_envelope env s = (Inr e, s1)" "files s1 = files s" "inbox s1 = ws"
    using receive [OF Cons.hyps(2) [symmetric] e(1)] by blast
  have "length (inbox s1) < f" using Cons.prems(2) f s1(3) unfolding Cons.hyps(2) [symmetric] by simp
  moreover have "\<forall>w \<in> set (inbox s1). \<exists>e. par (aq_envc1 env) w = Some e \<and> l_type e \<noteq> expected_chunk_type args"
    using Cons.prems(1) s1(3) unfolding Cons.hyps(2) [symmetric] by simp
  ultimately obtain t where "stream_loop env args chs f m s1 = (Inl (TimeoutError ''Timed out waiting for chunk reply from server''), t)" "files t = files s1"
    using Cons.hyps(1) [of s1 f] s1(3) by blast
  then show ?case using f e(2) s1 by (simp add: py_run)
qed

text \<open>The request is sent, the files are opened before and closed after, however the loop ends.\<close>

lemma v2_envelope_t [wp]: "F (\<lambda>g. \<forall>ids ts. Q (request_envelope ty body rt ids ts) g) (v2_envelope env ty body rt) Q"
  unfolding v2_envelope_def next_ids_def by (rule triple_weaken, (rule wp)+) auto

definition chunk_frame :: "aq_args \<Rightarrow> int list \<Rightarrow> 'w \<Rightarrow> bool" where
  "chunk_frame args chs w \<longleftrightarrow>
     (if streaming_v2 args then \<exists>e. etype e = MT2_DUMP_SPYBUFFER_CHUNK_REQ \<and> w = ser (aq_envc2 env) e
      else \<exists>body. w = ser (aq_envc1 env) \<lparr>l_type = DUMP_SPYBUFFER_CHUNK, l_payload = body\<rparr>)"

lemma chunk_frame_request:
  "streaming_v2 args \<Longrightarrow> chunk_frame args chs (ser (aq_envc2 env) (request_envelope MT2_DUMP_SPYBUFFER_CHUNK_REQ body rt ids ts))"
  "\<not> streaming_v2 args \<Longrightarrow> chunk_frame args chs (ser (aq_envc1 env) \<lparr>l_type = DUMP_SPYBUFFER_CHUNK, l_payload = body\<rparr>)"
  unfolding chunk_frame_def by (auto simp: request_envelope_def intro: exI [of _ "request_envelope MT2_DUMP_SPYBUFFER_CHUNK_REQ body rt ids ts"])

lemma stream_frame:
  assumes "u32 (ar_N args) = Inr (ar_N args)" "u32 (ar_L args) = Inr (ar_L args)"
  shows "\<exists>w s1. chunk_frame args chs w \<and> inbox s1 = inbox s @ served w \<and>
     files s1 = each_channel chs (\<lambda>i old. if ar_append_data args then old else []) (files s) \<and>
     (\<forall>r t. stream_loop env args chs fuel 0 s1 = (r, t) \<longrightarrow> (\<exists>u. stream_acquire env args chs fuel s = (r, u) \<and> files u = files t))"
proof -
  have "u32 (max 1 (min (ar_chunk args) (ar_N args))) = Inr (max 1 (min (ar_chunk args) (ar_N args)))"
    using assms(1) by (auto simp: u32_def split: if_splits)
  then obtain creq0 where creq0: "chunk_request args chs = Inr creq0"
    using assms by (simp add: chunk_request_def)
  define pre where "pre = m_bind (uuid4 env) (\<lambda>rid. let creq = creq0\<lparr>cq_requestID := rid\<rparr> in
     m_bind
       (if streaming_v2 args then
          m_bind (v2_envelope env MT2_DUMP_SPYBUFFER_CHUNK_REQ (ser_chunk env creq) (ar_route args)) (\<lambda>e.
          m_ret (ser (aq_envc2 env) e))
        else m_ret (ser (aq_envc1 env) \<lparr>l_type = DUMP_SPYBUFFER_CHUNK, l_payload = ser_chunk env creq\<rparr>)) (\<lambda>frame.
     m_then (aq_print env (stream_text args creq)) (m_then (open_files env args chs) (m_ret frame))))"
  have "F (\<lambda>g. g = spool_view s) pre (\<lambda>w g. chunk_frame args chs w \<and>
      g = (each_channel chs (\<lambda>i old. if ar_append_data args then old else []) (files s), inbox s))"
    unfolding pre_def Let_def
    by (rule triple_weaken, (rule wp)+) (auto simp: chunk_frame_request)
  from tripleD [OF this TrueI refl] obtain w s0 where
    s0: "pre s = (Inr w, s0)" "chunk_frame args chs w" "inbox s0 = inbox s"
      "files s0 = each_channel chs (\<lambda>i old. if ar_append_data args then old else []) (files s)" by auto
  obtain s1 where s1: "z_send (aq_sock env) w s0 = (Inr (), s1)" "files s1 = files s0" "inbox s1 = inbox s0 @ served w"
    using f_send by blast
  have split: "stream_acquire env args chs fuel =
      m_bind pre (\<lambda>w. m_finally (m_then (z_send (aq_sock env) w) (stream_loop env args chs fuel 0)) (close_files env chs))"
    by (simp add: stream_acquire_def creq0 pre_def m_bind_assoc m_then_def Let_def)
  have "\<exists>u. stream_acquire env args chs fuel s = (r, u) \<and> files u = files t" if "stream_loop env args chs fuel 0 s1 = (r, t)" for r t
    using closes [of chs t] that s1(1) s0(1) by (auto simp: split py_run)
  then show ?thesis using s0 s1 by (intro exI [of _ w] exI [of _ s1]) simp
qed

lemma stream_stores:
  assumes "distinct chs" "\<not> streaming_v2 args" "inbox s = []"
    and "u32 (ar_N args) = Inr (ar_N args)" "u32 (ar_L args) = Inr (ar_L args)"
    and "list_all (shaped (length chs) (nat (ar_L args))) ys" "ys \<noteq> []" "length ys \<le> fuel"
    and "\<And>body. list_all2 (carries_chunk env) (served (ser (aq_envc1 env) \<lparr>l_type = DUMP_SPYBUFFER_CHUNK, l_payload = body\<rparr>)) (stream_of ys)"
  shows "\<exists>n t. stream_acquire env args chs fuel s = (Inr (Some n), t) \<and> files t = stored (ar_append_data args) chs (concat ys) (files s)"
proof -
  from stream_frame [OF assms(4,5), of chs s fuel] obtain w s1 where
    w: "chunk_frame args chs w" "inbox s1 = inbox s @ served w"
      "files s1 = each_channel chs (\<lambda>i old. if ar_append_data args then old else []) (files s)"
    and run: "\<And>r t. stream_loop env args chs fuel 0 s1 = (r, t) \<Longrightarrow> \<exists>u. stream_acquire env args chs fuel s = (r, u) \<and> files u = files t"
    by blast
  have "list_all2 (carries_chunk env) (inbox s1) (stream_of ys)"
    using w(1,2) assms(2,3,9) by (auto simp: chunk_frame_def)
  from loop_chunks [OF assms(1,2,6,7) this assms(8)] obtain n t where
    t: "stream_loop env args chs fuel 0 s1 = (Inr (Some n), t)"
      "files t = each_channel chs (\<lambda>i old. old @ u16_bytes (column i (concat ys))) (files s1)" by blast
  from t(2) have "files t = stored (ar_append_data args) chs (concat ys) (files s)"
    by (simp add: w(3) each_channel_comp [OF assms(1)] comp_def stored_def)
  with run [OF t(1)] show ?thesis by auto
qed

lemma legacy_stores:
  assumes "\<not> ar_v2 args \<or> ar_legacy_only args" "inbox s = []"
    and "u32 (ar_N args) = Inr (ar_N args)" "u32 (ar_L args) = Inr (ar_L args)"
    and "shaped (length chs) (nat (ar_L args)) y" "length y = nat (ar_N args)"
    and "\<And>body. \<exists>w. served (ser (aq_envc1 env) \<lparr>l_type = DUMP_SPYBUFFER, l_payload = body\<rparr>) = [w] \<and> carries_dump env w (flat y)"
  shows "\<exists>t. legacy_acquire env args chs s = (Inr (), t) \<and> files t = stored (ar_append_data args) chs y (files s)"
proof -
  obtain req where req: "dump_request chs (ar_N args) (ar_L args) (ar_software_trigger args) = Inr req"
    using assms(3,4) by (simp add: dump_request_def)
  let ?q = "ser (aq_envc1 env) \<lparr>l_type = DUMP_SPYBUFFER, l_payload = ser_dump env req\<rparr>"
  obtain w p r where w: "served ?q = [w]" "par (aq_envc1 env) w = Some \<lparr>l_type = DUMP_SPYBUFFER, l_payload = p\<rparr>"
    "par (dumpc env) p = Some r" "dr_data r = flat y"
    using assms(7) [of "ser_dump env req"] unfolding carries_dump_def by blast
  obtain s1 where s1: "aq_print env (legacy_text args chs) s = (Inr (), s1)" "files s1 = files s" "inbox s1 = []"
    using f_print [of "legacy_text args chs" s] assms(2) by auto
  obtain s2 where s2: "z_send (aq_sock env) ?q s1 = (Inr (), s2)" "files s2 = files s" "inbox s2 = [w]"
    using f_send [of ?q s1] s1 w(1) by auto
  obtain fs s3 where s3: "z_recv (aq_sock env) s2 = (Inr (fs @ [w]), s3)" "files s3 = files s"
    using f_recv [OF s2(3)] s2(2) by auto
  have shape: "reshape3 (nat (ar_N args)) (length chs) (nat (ar_L args)) (flat y) = Inr y"
    using reshape_flat [OF assms(5)] assms(6) by simp
  have "F (\<lambda>g. g = spool_view s3)
      (m_for (enumerate 0 chs) (\<lambda>(idx, ch). m_then (open_dat env (ar_append_data args) ch)
             (m_finally (write_dat env ch (u16_bytes (column idx y))) (close_dat env ch))))
      (\<lambda>_ g. fst g = stored (ar_append_data args) chs y (files s))"
    by (rule triple_weaken, rule stores_t) (simp add: stored_def s3(2))
  from tripleD [OF this TrueI refl] obtain t where
    "m_for (enumerate 0 chs) (\<lambda>(idx, ch). m_then (open_dat env (ar_append_data args) ch)
             (m_finally (write_dat env ch (u16_bytes (column idx y))) (close_dat env ch))) s3 = (Inr (), t)"
    "files t = stored (ar_append_data args) chs y (files s)" by auto
  then show ?thesis
    using assms(1) s1(1) s2(1) s3(1)
    by (auto simp: legacy_acquire_def req acq_send_def py_run ParseFromString_def w shape)
qed

lemma v2_times_out:
  assumes "streaming_v2 args" "inbox s = []"
    and "u32 (ar_N args) = Inr (ar_N args)" "u32 (ar_L args) = Inr (ar_L args)"
    and "\<And>e. \<forall>w \<in> set (served (ser (aq_envc2 env) e)). \<exists>rep. w = ser (aq_envc2 env) rep \<and> version rep = 2"
    and "\<And>rep. \<exists>e. par (aq_envc1 env) (ser (aq_envc2 env) rep) = Some e \<and> l_type e = version rep"
    and "\<And>e. length (served (ser (aq_envc2 env) e)) < fuel"
  shows "\<exists>t. stream_acquire env args chs fuel s = (Inl (TimeoutError ''Timed out waiting for chunk reply from server''), t) \<and>
    files t = each_channel chs (\<lambda>i old. if ar_append_data args then old else []) (files s)"
proof -
  from stream_frame [OF assms(3,4), of chs s fuel] obtain w s1 where
    w: "chunk_frame args chs w" "inbox s1 = inbox s @ served w"
      "files s1 = each_channel chs (\<lambda>i old. if ar_append_data args then old else []) (files s)"
    and run: "\<And>r t. stream_loop env args chs fuel 0 s1 = (r, t) \<Longrightarrow> \<exists>u. stream_acquire env args chs fuel s = (r, u) \<and> files u = files t"
    by blast
  obtain e where e: "w = ser (aq_envc2 env) e" using w(1) assms(1) by (auto simp: chunk_frame_def)
  have "\<forall>w \<in> set (inbox s1). \<exists>e. par (aq_envc1 env) w = Some e \<and> l_type e \<noteq> expected_chunk_type args"
  proof
    fix v assume "v \<in> set (inbox s1)"
    then obtain rep where rep: "v = ser (aq_envc2 env) rep" "version rep = 2"
      using assms(5) [of e] w(2) assms(2) e by auto
    obtain e1 where "par (aq_envc1 env) v = Some e1" "l_type e1 = version rep" using assms(6) rep(1) by blast
    then show "\<exists>e. par (aq_envc1 env) v = Some e \<and> l_type e \<noteq> expected_chunk_type args"
      using rep(2) by (simp add: expected_chunk_type_def MT2_DUMP_SPYBUFFER_CHUNK_RESP_def DUMP_SPYBUFFER_CHUNK_def)
  qed
  moreover have "length (inbox s1) < fuel" using assms(2,7) w(2) e by simp
  ultimately obtain t where "stream_loop env args chs fuel 0 s1 = (Inl (TimeoutError ''Timed out waiting for chunk reply from server''), t)"
    and t: "files t = files s1" using loop_skips by blast
  from run [OF this(1)] show ?thesis using t w(3) by auto
qed

text \<open>The script with its default modes is the stream.\<close>

lemma script_streams:
  assumes "acquire_channels (ar_channel_list args) = Inr chs" "\<not> ar_osc_mode args" "\<not> ar_legacy args" "\<not> ar_legacy_only args"
  shows "\<exists>s1. files s1 = files s \<and> inbox s1 = inbox s \<and>
    (\<forall>e t. stream_acquire env args chs fuel s1 = (Inl e, t) \<longrightarrow> acquire_script env args fuel s = (Inl e, t))"
proof -
  let ?n = "compute_credit (ar_L args) (min (ar_chunk args) (ar_N args)) (int (length chs)) (ar_net_buffer_mb args)"
  obtain s0 where s0: "set_hwm env ?n s = (Inr (), s0)" "files s0 = files s" "inbox s0 = inbox s" using f_hwm by blast
  obtain s1 where s1: "mk_folder env s0 = (Inr (), s1)" "files s1 = files s0" "inbox s1 = inbox s0" using f_folder by blast
  show ?thesis using s0 s1 assms by (intro exI [of _ s1]) (simp add: acquire_script_def m_when_def py_run)
qed

end

section \<open>Properties\<close>

text \<open>C22: The two acquisition modes of the legacy envelope are equivalent: when the server delivers the same
  waveforms in one reply and cut into chunks, both modes return, with the same files: each listed channel's
  file holds its samples of every waveform in order (after its old content when appending), and no other file
  changes. As many rounds of the receive loop as there are chunks are enough.\<close>

theorem acquire_modes_agree:
  assumes "spool env files inbox served" and "inbox s = []"
    and "distinct chs" and "\<not> ar_v2 args"
    and "u32 (ar_N args) = Inr (ar_N args)" "u32 (ar_L args) = Inr (ar_L args)"
    and "list_all (shaped (length chs) (nat (ar_L args))) ys" "ys \<noteq> []" "length (concat ys) = nat (ar_N args)"
    and "\<And>body. list_all2 (carries_chunk env) (served (ser (aq_envc1 env) \<lparr>l_type = DUMP_SPYBUFFER_CHUNK, l_payload = body\<rparr>)) (stream_of ys)"
    and "\<And>body. \<exists>w. served (ser (aq_envc1 env) \<lparr>l_type = DUMP_SPYBUFFER, l_payload = body\<rparr>) = [w] \<and> carries_dump env w (flat (concat ys))"
    and "length ys \<le> fuel"
  shows "\<exists>n t u. stream_acquire env args chs fuel s = (Inr (Some n), t) \<and> legacy_acquire env args chs s = (Inr (), u) \<and>
    files t = files u \<and>
    (\<forall>i < length chs. files t (chs ! i) = (if ar_append_data args then files s (chs ! i) else []) @ u16_bytes (column i (concat ys))) \<and>
    (\<forall>ch. ch \<notin> set chs \<longrightarrow> files t ch = files s ch)"
proof -
  obtain n t where "stream_acquire env args chs fuel s = (Inr (Some n), t)" "files t = stored (ar_append_data args) chs (concat ys) (files s)"
    using spool.stream_stores [OF assms(1) assms(3) _ assms(2,5,6,7,8,12,10)] assms(4) by (auto simp: streaming_v2_def)
  moreover obtain u where "legacy_acquire env args chs s = (Inr (), u)" "files u = stored (ar_append_data args) chs (concat ys) (files s)"
    using spool.legacy_stores [OF assms(1) _ assms(2,5,6) shaped_concat [OF assms(7)] assms(9,11)] assms(4) by auto
  ultimately show ?thesis
    using assms(3) by (intro exI [of _ n] exI [of _ t] exI [of _ u]) (simp add: stored_def each_channel_nth each_channel_other)
qed

text \<open>C23: The default mode of the acquisition script, a stream in EnvelopeV2, never stores a waveform. The
  replies are decoded as legacy envelopes, whose type field is the version field of an EnvelopeV2: it reads 2,
  which is no chunk type, so every chunk is skipped and the script ends in a time-out, with the files of
  the listed channels truncated when it was not appending.\<close>

theorem v2_stream_times_out:
  assumes "spool env files inbox served" and "inbox s = []"
    and "acquire_channels (ar_channel_list args) = Inr chs" and "distinct chs"
    and "ar_v2 args" "\<not> ar_osc_mode args" "\<not> ar_legacy args" "\<not> ar_legacy_only args"
    and "u32 (ar_N args) = Inr (ar_N args)" "u32 (ar_L args) = Inr (ar_L args)"
    and "\<And>e. \<forall>w \<in> set (served (ser (aq_envc2 env) e)). \<exists>rep. w = ser (aq_envc2 env) rep \<and> version rep = 2"
    and "\<And>rep. \<exists>e. par (aq_envc1 env) (ser (aq_envc2 env) rep) = Some e \<and> l_type e = version rep"
    and "\<And>e. length (served (ser (aq_envc2 env) e)) < fuel"
  shows "\<exists>t. acquire_script env args fuel s = (Inl (TimeoutError ''Timed out waiting for chunk reply from server''), t) \<and>
    (\<forall>ch. files t ch = (if ch \<in> set chs \<and> \<not> ar_append_data args then [] else files s ch))"
proof -
  have v2: "streaming_v2 args" using assms(5,7) by (simp add: streaming_v2_def)
  from spool.script_streams [OF assms(1,3,6,7,8)] obtain s1 where
    s1: "files s1 = files s" "inbox s1 = []"
      "\<And>e t. stream_acquire env args chs fuel s1 = (Inl e, t) \<Longrightarrow> acquire_script env args fuel s = (Inl e, t)"
    using assms(2) by metis
  from spool.v2_times_out [OF assms(1) v2 s1(2) assms(9,10,11,12,13), of chs] obtain t where
    t: "stream_acquire env args chs fuel s1 = (Inl (TimeoutError ''Timed out waiting for chunk reply from server''), t)"
      "files t = each_channel chs (\<lambda>i old. if ar_append_data args then old else []) (files s)"
    unfolding s1(1) by (elim exE conjE) (rule that)
  have "files t ch = (if ch \<in> set chs \<and> \<not> ar_append_data args then [] else files s ch)" for ch
    unfolding t(2) using assms(4) by (cases "ch \<in> set chs") (auto simp: in_set_conv_nth each_channel_nth each_channel_other)
  with s1(3) [OF t(1)] show ?thesis by blast
qed

section \<open>A server with two waveforms\<close>

datatype aq_body = DumpQ dump_req | ChunkQ chunk_req | DumpR dump_resp | ChunkR chunk_resp | NoBody

datatype aq_frame = FrameV1 "aq_body ControlEnvelope" | FrameV2 "aq_body ControlEnvelopeV2"

definition ref_served :: "32 word list list list list \<Rightarrow> aq_frame \<Rightarrow> aq_frame list" where
  "ref_served ys w = (case w of
     FrameV1 e \<Rightarrow>
       if l_type e = DUMP_SPYBUFFER then
         [FrameV1 \<lparr>l_type = DUMP_SPYBUFFER, l_payload = DumpR \<lparr>dr_success = True, dr_channelList = [], dr_numberOfSamples = 0,
            dr_numberOfWaveforms = 0, dr_data = flat (concat ys), dr_message = []\<rparr>\<rparr>]
       else map (\<lambda>c. FrameV1 \<lparr>l_type = DUMP_SPYBUFFER_CHUNK, l_payload = ChunkR c\<rparr>) (stream_of ys)
   | FrameV2 e \<Rightarrow>
       map (\<lambda>c. FrameV2 \<lparr>version = 2, dir = DIR_RESPONSE, etype = MT2_DUMP_SPYBUFFER_CHUNK_RESP, payload = ChunkR c, task_id = task_id e,
            msg_id = 0, correl_id = msg_id e, route = route e, timestamp_ns = 0\<rparr>) (stream_of ys))"

definition ref_aq :: "32 word list list list list \<Rightarrow> ((int \<Rightarrow> 8 word list) \<times> aq_frame list, aq_frame, aq_body) aq_env" where
  "ref_aq ys = \<lparr>
     aq_sock = \<lparr>z_timeout = \<lambda>n. m_ret (), z_send = \<lambda>w. m_modify (\<lambda>(c, q). (c, q @ ref_served ys w)),
       z_recv = (\<lambda>(c, q). case q of [] \<Rightarrow> (Inl ZmqAgain, (c, [])) | w # ws \<Rightarrow> (Inr [w], (c, ws))),
       z_close = m_ret (), time_ns = m_ret 7, randrange = \<lambda>n. m_ret 0\<rparr>,
     aq_envc2 = \<lparr>ser = FrameV2, par = \<lambda>w. case w of FrameV2 e \<Rightarrow> Some e | FrameV1 e \<Rightarrow> None, blen = \<lambda>w. 1\<rparr>,
     aq_envc1 = \<lparr>ser = FrameV1,
       par = \<lambda>w. case w of FrameV1 e \<Rightarrow> Some e | FrameV2 e \<Rightarrow> Some \<lparr>l_type = version e, l_payload = NoBody\<rparr>, blen = \<lambda>w. 1\<rparr>,
     ser_dump = DumpQ, dumpc = \<lparr>ser = DumpR, par = \<lambda>p. case p of DumpR r \<Rightarrow> Some r | _ \<Rightarrow> None, blen = \<lambda>p. 1\<rparr>,
     ser_chunk = ChunkQ, chunkc = \<lparr>ser = ChunkR, par = \<lambda>p. case p of ChunkR r \<Rightarrow> Some r | _ \<Rightarrow> None, blen = \<lambda>p. 1\<rparr>,
     open_dat = \<lambda>ap ch. m_modify (\<lambda>(c, q). (c(ch := if ap then c ch else []), q)),
     write_dat = \<lambda>ch bs. m_modify (\<lambda>(c, q). (c(ch := c ch @ bs), q)),
     close_dat = \<lambda>ch. m_ret (), set_hwm = \<lambda>n. m_ret (), mk_folder = m_ret (), uuid4 = m_ret ''id'', aq_print = \<lambda>l. m_ret (),
     system = \<lambda>c. m_ret 0, path_exists = \<lambda>f. m_ret True, remove_file = \<lambda>f. m_ret ()\<rparr>"

interpretation ref_spool: spool "ref_aq ys" fst snd "ref_served ys"
  for ys
  by unfold_locales (auto simp: ref_aq_def py_run split: prod.split)

definition test_aq :: aq_args where
  "test_aq = \<lparr>ar_foldername = ''out'', ar_channel_list = [''3,5''], ar_N = 2, ar_L = 1, ar_software_trigger = False,
     ar_append_data = False, ar_route = ''mezz/0'', ar_v2 = True, ar_legacy_only = False, ar_osc_mode = False, ar_legacy = False,
     ar_chunk = 1, ar_net_buffer_mb = 128, ar_compress = False, ar_compression_format = ''tar'', ar_compression_level = 1\<rparr>"

lemma ref_carries:
  "list_all2 (carries_chunk (ref_aq ys)) (ref_served ys (ser (aq_envc1 (ref_aq ys)) \<lparr>l_type = DUMP_SPYBUFFER_CHUNK, l_payload = body\<rparr>)) (stream_of ys)"
  "\<exists>w. ref_served ys (ser (aq_envc1 (ref_aq ys)) \<lparr>l_type = DUMP_SPYBUFFER, l_payload = body\<rparr>) = [w] \<and> carries_dump (ref_aq ys) w (flat (concat ys))"
  by (auto simp: ref_served_def ref_aq_def carries_chunk_def carries_dump_def DUMP_SPYBUFFER_def DUMP_SPYBUFFER_CHUNK_def list_all2_conv_all_nth)

theorem acquire_modes_agree_witness:
  "\<exists>n t u. stream_acquire (ref_aq [[[[1], [2]]], [[[3], [258]]]]) (test_aq\<lparr>ar_v2 := False\<rparr>) [3, 5] 2 (\<lambda>_. [], []) = (Inr (Some n), t) \<and>
     legacy_acquire (ref_aq [[[[1], [2]]], [[[3], [258]]]]) (test_aq\<lparr>ar_v2 := False\<rparr>) [3, 5] (\<lambda>_. [], []) = (Inr (), u) \<and>
     fst t = fst u \<and> fst t 3 = [1, 0, 3, 0] \<and> fst t 5 = [2, 0, 2, 1]"
proof -
  have all_less_two: "(\<forall>i < Suc (Suc 0). P i) \<longleftrightarrow> P 0 \<and> P 1" for P :: "nat \<Rightarrow> bool" by (auto simp: less_Suc_eq)
  have byte: "(258 :: 8 word) = 2" by simp
  from acquire_modes_agree [OF ref_spool.spool_axioms [of "[[[[1], [2]]], [[[3], [258]]]]"], where s = "(\<lambda>_. [], [])" and chs = "[3, 5]"
      and args = "test_aq\<lparr>ar_v2 := False\<rparr>" and ys = "[[[[1], [2]]], [[[3], [258]]]]" and fuel = 2,
      OF _ _ _ _ _ _ _ _ ref_carries]
  show ?thesis
    by (simp add: test_aq_def u32_def shaped_def all_less_two column_def u16_bytes_def le_bytes_def byte) blast
qed

theorem v2_stream_times_out_witness:
  "\<exists>t. acquire_script (ref_aq [[[[1], [2]]], [[[3], [258]]]]) test_aq 3 (\<lambda>_. [9], []) =
      (Inl (TimeoutError ''Timed out waiting for chunk reply from server''), t) \<and> fst t 3 = [] \<and> fst t 5 = [] \<and> fst t 7 = [9]"
proof -
  have chs: "acquire_channels (ar_channel_list test_aq) = Inr [3, 5]" by code_simp
  show ?thesis
    using v2_stream_times_out [OF ref_spool.spool_axioms [of "[[[[1], [2]]], [[[3], [258]]]]"], where s = "(\<lambda>_. [9], [])" and args = test_aq
      and chs = "[3, 5]" and fuel = 3, OF _ chs]
    by (auto simp: test_aq_def u32_def ref_aq_def ref_served_def)
qed

end
