(* ===== verification/Led_Charge.thy ===== *)
theory Led_Charge
  imports Acquire Py_Json "HOL-Library.Multiset" "HOL-Library.AList" "HOL-Library.Char_ord" "HOL-Library.List_Lexorder"
begin

unbundle bit_operations_syntax

text \<open>
  \<open>client/led_charge.py\<close>: loading the waveforms of a channel, the charge windows (calibration, re-anchoring,
  their file format), the charges in a window, the summaries of a charge distribution and the monitor that
  keeps the last charges of every channel.

  Samples are integers; a two-dimensional array is its row length with its rows. Floating-point numbers
  and numpy's reductions are the parameter \<open>'f np_ops\<close>. The text form of JSON is a parameter too; \<open>tr\<close> is
  \<open>int\<close> of a float literal. Dictionaries are association lists in insertion order.
\<close>

section \<open>Numbers\<close>

record 'f np_ops =
  np_lit :: "string \<Rightarrow> 'f"
  np_int :: "int \<Rightarrow> 'f"
  np_add :: "'f \<Rightarrow> 'f \<Rightarrow> 'f"
  np_sub :: "'f \<Rightarrow> 'f \<Rightarrow> 'f"
  np_mul :: "'f \<Rightarrow> 'f \<Rightarrow> 'f"
  np_div :: "'f \<Rightarrow> 'f \<Rightarrow> 'f"
  np_abs :: "'f \<Rightarrow> 'f"
  np_hypot :: "'f \<Rightarrow> 'f \<Rightarrow> 'f"
  np_less :: "'f \<Rightarrow> 'f \<Rightarrow> bool"
  np_le :: "'f \<Rightarrow> 'f \<Rightarrow> bool"
  np_eq :: "'f \<Rightarrow> 'f \<Rightarrow> bool"
  np_neg :: "'f \<Rightarrow> 'f"
  np_repr :: "'f \<Rightarrow> string"
  np_parse :: "string \<Rightarrow> 'f option"
  np_isfinite :: "'f \<Rightarrow> bool"
  np_maximum :: "'f \<Rightarrow> 'f \<Rightarrow> 'f"
  np_mean :: "'f list \<Rightarrow> 'f"
  np_sum :: "'f list \<Rightarrow> 'f"
  np_std :: "'f list \<Rightarrow> 'f"
  np_median :: "'f list \<Rightarrow> 'f"
  np_quantile :: "'f list \<Rightarrow> 'f \<Rightarrow> 'f"
  np_percentile :: "'f list \<Rightarrow> int \<Rightarrow> 'f"
  np_amin :: "'f list \<Rightarrow> 'f"
  np_amax :: "'f list \<Rightarrow> 'f"
  np_argmax :: "'f list \<Rightarrow> nat"
  np_linspace :: "'f \<Rightarrow> 'f \<Rightarrow> nat \<Rightarrow> 'f list"
  np_histogram :: "'f list \<Rightarrow> nat \<Rightarrow> ('f \<times> 'f) option \<Rightarrow> int list \<times> 'f list"
  np_hist_edges :: "'f list \<Rightarrow> 'f list \<Rightarrow> int list"

text \<open>\<open>max(a, b)\<close> and \<open>min(a, b)\<close> of Python: the first argument unless the second is strictly better.\<close>

definition py_max :: "'f np_ops \<Rightarrow> 'f \<Rightarrow> 'f \<Rightarrow> 'f" where
  "py_max F a b = (if np_less F a b then b else a)"

definition py_min :: "'f np_ops \<Rightarrow> 'f \<Rightarrow> 'f \<Rightarrow> 'f" where
  "py_min F a b = (if np_less F b a then b else a)"

section \<open>Waveform files\<close>

text \<open>\<open>np.fromfile(path, dtype=np.uint16)\<close> on a little-endian machine; an odd byte at the end is ignored.\<close>

fun u16_words :: "8 word list \<Rightarrow> 16 word list" where
  "u16_words (lo # hi # bs) = (ucast lo OR push_bit 8 (ucast hi)) # u16_words bs"
| "u16_words bs = []"

record waves =
  w_len :: nat
  w_rows :: "int list list"

definition sample_value :: "string \<Rightarrow> (16 word \<Rightarrow> int) result" where
  "sample_value interp =
     (if interp = ''signed'' then Inr sint
      else if interp = ''unsigned'' then Inr uint
      else Inl (ValueError ''Unsupported interp mode''))"

definition load_channel_waves :: "8 word list \<Rightarrow> nat \<Rightarrow> int \<Rightarrow> string \<Rightarrow> waves result" where
  "load_channel_waves bytes n_samples max_waves interp =
     (let raw = u16_words bytes in
      if n_samples = 0 then Inl ZeroDivisionError
      else if length raw mod n_samples \<noteq> 0 then Inl (ValueError ''size is not divisible by L'')
      else
        let n_total = length raw div n_samples;
            n_use = (if max_waves \<le> 0 then n_total else min n_total (nat max_waves)) in
        r_bind (sample_value interp) (\<lambda>val.
        Inr \<lparr>w_len = n_samples, w_rows = rows n_use n_samples (map val (take (n_use * n_samples) raw))\<rparr>))"

section \<open>Charge windows\<close>

record ChargeWindow =
  channel :: int
  baseline_start :: int
  baseline_stop :: int
  search_start :: int
  search_stop :: int
  onset_index :: int
  peak_index :: int
  integrate_start :: int
  integrate_stop :: int

definition as_dict :: "ChargeWindow \<Rightarrow> json" where
  "as_dict w = JObj
     [(''channel'', JInt (channel w)), (''baseline_start'', JInt (baseline_start w)), (''baseline_stop'', JInt (baseline_stop w)),
      (''search_start'', JInt (search_start w)), (''search_stop'', JInt (search_stop w)), (''onset_index'', JInt (onset_index w)),
      (''peak_index'', JInt (peak_index w)), (''integrate_start'', JInt (integrate_start w)), (''integrate_stop'', JInt (integrate_stop w))]"

definition normalize_bounds :: "int \<Rightarrow> int option \<Rightarrow> int option \<Rightarrow> int \<times> int" where
  "normalize_bounds n_samples first stop =
     (let lo = (case first of None \<Rightarrow> 0 | Some x \<Rightarrow> max 0 (min n_samples x));
          hi = (case stop of None \<Rightarrow> n_samples | Some x \<Rightarrow> max 0 (min n_samples x)) in
      if hi < lo then (hi, lo) else (lo, hi))"

definition slice :: "int \<times> int \<Rightarrow> 'a list \<Rightarrow> 'a list" where
  "slice b xs = take (nat (snd b - fst b)) (drop (nat (fst b)) xs)"

definition compute_baseline :: "'f np_ops \<Rightarrow> waves \<Rightarrow> int \<Rightarrow> int \<Rightarrow> 'f list result" where
  "compute_baseline F wv first stop =
     (let b = normalize_bounds (int (w_len wv)) (Some first) (Some stop) in
      if snd b \<le> fst b then Inl (ValueError ''Invalid baseline window'')
      else Inr (map (\<lambda>row. np_mean F (map (np_int F) (slice b row))) (w_rows wv)))"

definition compute_charge :: "'f np_ops \<Rightarrow> waves \<Rightarrow> int \<Rightarrow> int \<Rightarrow> int \<Rightarrow> int \<Rightarrow> bool \<Rightarrow> 'f list result" where
  "compute_charge F wv i_start i_stop b_start b_stop clip_negative =
     (let b = normalize_bounds (int (w_len wv)) (Some i_start) (Some i_stop) in
      r_bind (compute_baseline F wv b_start b_stop) (\<lambda>base.
      Inr (map2 (\<lambda>row base.
        let seg = map (\<lambda>x. np_sub F (np_int F x) base) (slice b row);
            seg = (if clip_negative then map (\<lambda>x. np_maximum F x (np_lit F ''0.0'')) seg else seg) in
        np_sum F seg) (w_rows wv) base)))"

definition pedestal_window_for_charge :: "ChargeWindow \<Rightarrow> int \<Rightarrow> int option \<Rightarrow> (int \<times> int) result" where
  "pedestal_window_for_charge w n_samples window_len =
     (let use_len = (case window_len of Some n \<Rightarrow> n | None \<Rightarrow> integrate_stop w - integrate_start w) in
      if use_len \<le> 0 then Inl (ValueError ''window_len must be > 0'')
      else
        let ped_start = max (baseline_start w) (baseline_stop w - use_len);
            ped_stop = min n_samples (ped_start + use_len) in
        if ped_stop \<le> ped_start then Inl (ValueError ''Invalid pedestal window'') else Inr (ped_start, ped_stop))"

definition reanchor_charge_window :: "ChargeWindow \<Rightarrow> int \<Rightarrow> string \<Rightarrow> int \<Rightarrow> int \<Rightarrow> ChargeWindow result" where
  "reanchor_charge_window w n_samples anchor pre_samples post_samples =
     (let pre = max 0 pre_samples; post = max 1 post_samples; anchor_mode = py_lower (py_strip anchor) in
      r_bind
        (if anchor_mode = ''peak'' then Inr (peak_index w)
         else if anchor_mode = ''onset'' then Inr (onset_index w)
         else Inl (ValueError ''Unsupported charge window anchor'')) (\<lambda>anchor_index.
      let first = max 0 (min n_samples (anchor_index - pre));
          stop = max (first + 1) (min n_samples (anchor_index + post)) in
      Inr (w\<lparr>integrate_start := first, integrate_stop := stop\<rparr>)))"

section \<open>Calibration\<close>

text \<open>\<open>waves.mean(axis=0)\<close>.\<close>

definition mean_waveform :: "'f np_ops \<Rightarrow> waves \<Rightarrow> 'f list" where
  "mean_waveform F wv = map (\<lambda>i. np_mean F (map (\<lambda>row. np_int F (row ! i)) (w_rows wv))) [0..<w_len wv]"

record 'f calib =
  ca_baseline_start :: int
  ca_baseline_stop :: int
  ca_search_start :: int
  ca_search_stop :: int
  ca_onset_fraction :: 'f
  ca_integrate_offset :: int
  ca_integrate_len :: int

text \<open>\<open>np.flatnonzero(signal >= threshold)\<close> and \<open>np.diff(signal, prepend=signal[0])\<close>.\<close>

definition flat_above :: "'f np_ops \<Rightarrow> 'f \<Rightarrow> 'f list \<Rightarrow> nat list" where
  "flat_above F threshold xs = filter (\<lambda>i. np_le F threshold (xs ! i)) [0..<length xs]"

definition diff_prepended :: "'f np_ops \<Rightarrow> 'f list \<Rightarrow> 'f list" where
  "diff_prepended F xs = map2 (np_sub F) xs (hd xs # xs)"

definition onset_of :: "'f np_ops \<Rightarrow> 'f \<Rightarrow> 'f list \<Rightarrow> nat" where
  "onset_of F threshold signal =
     (let above = flat_above F threshold signal in
      if above \<noteq> [] then hd above else np_argmax F (diff_prepended F signal))"

definition calibrate_window_from_mean :: "'f np_ops \<Rightarrow> 'f list \<Rightarrow> int \<Rightarrow> 'f calib \<Rightarrow> ChargeWindow result" where
  "calibrate_window_from_mean F mean_wf ch ca =
     (let n = int (length mean_wf);
          (b_lo, b_hi) = normalize_bounds n (Some (ca_baseline_start ca)) (Some (ca_baseline_stop ca));
          (s_lo, s_hi) = normalize_bounds n (Some (ca_search_start ca)) (Some (ca_search_stop ca)) in
      if b_hi \<le> b_lo then Inl (ValueError ''Invalid baseline window'')
      else if s_hi \<le> s_lo then Inl (ValueError ''Invalid search window'')
      else if ca_integrate_len ca \<le> 0 then Inl (ValueError ''integrate_len must be > 0'')
      else
        let base = np_mean F (slice (b_lo, b_hi) mean_wf);
            signal = map (\<lambda>x. np_sub F x base) (slice (s_lo, s_hi) mean_wf);
            peak_rel = np_argmax F signal;
            amplitude = signal ! peak_rel in
        if np_le F amplitude (np_lit F ''0.0'') then Inl (ValueError ''no positive LED signal found in calibration window'')
        else
          let frac = py_min F (py_max F (ca_onset_fraction ca) (np_lit F ''0.01'')) (np_lit F ''0.95'');
              threshold = np_mul F amplitude frac;
              onset = s_lo + int (onset_of F threshold signal);
              i_start = max 0 (min n (onset + ca_integrate_offset ca));
              i_stop = max (i_start + 1) (min n (i_start + ca_integrate_len ca)) in
          Inr \<lparr>channel = ch, baseline_start = b_lo, baseline_stop = b_hi, search_start = s_lo, search_stop = s_hi,
            onset_index = onset, peak_index = s_lo + int peak_rel, integrate_start = i_start, integrate_stop = i_stop\<rparr>)"

text \<open>\<open>np.fromfile\<close> of the file of a channel is the argument \<open>fromfile\<close>.\<close>

definition calibrate_windows_from_folder ::
  "'f np_ops \<Rightarrow> (int \<Rightarrow> 8 word list result) \<Rightarrow> int list \<Rightarrow> nat \<Rightarrow> 'f calib \<Rightarrow> int \<Rightarrow> string \<Rightarrow> (int \<times> ChargeWindow) list result" where
  "calibrate_windows_from_folder F fromfile channels n_samples ca max_waves interp =
     r_fold (\<lambda>ch out.
       r_bind (fromfile ch) (\<lambda>bytes.
       r_bind (load_channel_waves bytes n_samples max_waves interp) (\<lambda>wv.
       r_bind (calibrate_window_from_mean F (mean_waveform F wv) ch ca) (\<lambda>w.
       Inr (AList.update ch w out))))) channels []"

section \<open>The file of windows\<close>

text \<open>\<open>json.dumps(..., sort_keys=True)\<close> writes the members of every object in the order of their keys.\<close>

fun sort_keys :: "json \<Rightarrow> json" where
  "sort_keys (JObj kvs) = JObj (sort_key fst (map (\<lambda>kv. (fst kv, sort_keys (snd kv))) kvs))"
| "sort_keys (JList xs) = JList (map sort_keys xs)"
| "sort_keys v = v"

definition windows_payload :: "(int \<times> ChargeWindow) list \<Rightarrow> jobject \<Rightarrow> json" where
  "windows_payload windows metadata =
     JObj [(''metadata'', JObj metadata), (''windows'', JObj (map (\<lambda>(ch, w). (int_to_str ch, as_dict w)) (sort_key fst windows)))]"

definition save_charge_windows :: "(json \<Rightarrow> string) \<Rightarrow> (int \<times> ChargeWindow) list \<Rightarrow> jobject \<Rightarrow> string" where
  "save_charge_windows to_text windows metadata = to_text (sort_keys (windows_payload windows metadata)) @ [char_of (10 :: nat)]"

definition load_window :: "(string \<Rightarrow> int result) \<Rightarrow> string \<Rightarrow> json \<Rightarrow> ChargeWindow result" where
  "load_window tr key v =
     (let req = (\<lambda>k. r_bind (py_index v k) (json_int tr));
          opt = (\<lambda>k d. r_bind (py_index v d) (\<lambda>dv. r_bind (py_get v k dv) (json_int tr))) in
      r_bind (r_bind (py_get v ''channel'' (JStr key)) (json_int tr)) (\<lambda>ch.
      r_bind (req ''baseline_start'') (\<lambda>b0. r_bind (req ''baseline_stop'') (\<lambda>b1.
      r_bind (opt ''search_start'' ''integrate_start'') (\<lambda>s0. r_bind (opt ''search_stop'' ''integrate_stop'') (\<lambda>s1.
      r_bind (opt ''onset_index'' ''integrate_start'') (\<lambda>onset. r_bind (opt ''peak_index'' ''integrate_start'') (\<lambda>peak.
      r_bind (req ''integrate_start'') (\<lambda>i0. r_bind (req ''integrate_stop'') (\<lambda>i1.
      Inr \<lparr>channel = ch, baseline_start = b0, baseline_stop = b1, search_start = s0, search_stop = s1,
        onset_index = onset, peak_index = peak, integrate_start = i0, integrate_stop = i1\<rparr>))))))))))"

text \<open>\<open>value.items()\<close>: only objects have the method.\<close>

fun py_items :: "json \<Rightarrow> (string \<times> json) list result" where
  "py_items (JObj kvs) = Inr kvs"
| "py_items _ = Inl AttributeError"

definition load_charge_windows :: "(string \<Rightarrow> int result) \<Rightarrow> (string \<Rightarrow> json option) \<Rightarrow> string \<Rightarrow> (int \<times> ChargeWindow) list result" where
  "load_charge_windows tr of_text text =
     r_bind (r_of_option JSONDecodeError (of_text text)) (\<lambda>raw.
     r_bind (py_get raw ''windows'' raw) (\<lambda>windows_raw.
     r_bind (py_items windows_raw) (\<lambda>items.
     r_fold (\<lambda>(key, v) out. r_bind (load_window tr key v) (\<lambda>w. Inr (AList.update (channel w) w out))) items [])))"

section \<open>Summaries\<close>

definition histogram_payload :: "'f np_ops \<Rightarrow> 'f list \<Rightarrow> int \<Rightarrow> 'f list \<times> 'f list \<times> 'f list" where
  "histogram_payload F arr bins =
     (if arr = [] then ([], [], [])
      else
        let lo = np_amin F arr; hi = np_amax F arr in
        if \<not> np_isfinite F lo \<or> \<not> np_isfinite F hi then ([], [], [])
        else
          let hi = (if np_le F hi lo then np_add F lo (np_lit F ''1.0'') else hi);
              (counts, edges) = np_histogram F arr (nat (max 8 bins)) (Some (lo, hi)) in
          (map2 (\<lambda>a b. np_mul F (np_lit F ''0.5'') (np_add F a b)) (butlast edges) (tl edges), edges, map (np_int F) counts))"

text \<open>\<open>np.cumsum\<close>.\<close>

fun cumsum_from :: "'f np_ops \<Rightarrow> 'f \<Rightarrow> 'f list \<Rightarrow> 'f list" where
  "cumsum_from F acc [] = []"
| "cumsum_from F acc (x # xs) = (let y = np_add F acc x in y # cumsum_from F y xs)"

definition cumsum :: "'f np_ops \<Rightarrow> 'f list \<Rightarrow> 'f list" where
  "cumsum F xs = (case xs of [] \<Rightarrow> [] | x # ys \<Rightarrow> x # cumsum_from F x ys)"

definition otsu_threshold :: "'f np_ops \<Rightarrow> 'f list \<Rightarrow> int \<Rightarrow> 'f" where
  "otsu_threshold F arr bins =
     (let (hist, edges) = np_histogram F arr (nat (max 8 bins)) None;
          counts = map (np_int F) hist;
          mids = map2 (\<lambda>a b. np_mul F (np_lit F ''0.5'') (np_add F a b)) (butlast edges) (tl edges);
          weighted = map2 (np_mul F) counts mids;
          one = np_lit F ''1.0'';
          weight1 = cumsum F counts;
          weight2 = rev (cumsum F (rev counts));
          mean1 = map2 (\<lambda>m w. np_div F m (np_maximum F w one)) (cumsum F weighted) weight1;
          mean2 = rev (map2 (\<lambda>m w. np_div F m (np_maximum F w one)) (cumsum F (rev weighted)) (rev weight2));
          inter_class = map2 (np_mul F) (map2 (np_mul F) (butlast weight1) (tl weight2))
            (map2 (\<lambda>a b. let d = np_sub F a b in np_mul F d d) (butlast mean1) (tl mean2)) in
      if inter_class = [] then mids ! 0 else mids ! np_argmax F inter_class)"

record 'f summary =
  sm_n_waveforms :: nat
  sm_threshold_charge :: "'f option"
  sm_signal_fraction :: "'f option"
  sm_balance_error :: "'f option"
  sm_pedestal_mean :: "'f option"
  sm_pedestal_sigma :: "'f option"
  sm_signal_mean :: "'f option"
  sm_snr_estimate :: "'f option"
  sm_two_cluster_split :: bool

definition no_summary :: "nat \<Rightarrow> 'f summary" where
  "no_summary n = \<lparr>sm_n_waveforms = n, sm_threshold_charge = None, sm_signal_fraction = None, sm_balance_error = None,
     sm_pedestal_mean = None, sm_pedestal_sigma = None, sm_signal_mean = None, sm_snr_estimate = None, sm_two_cluster_split = False\<rparr>"

text \<open>The smoothed histogram the code computes here is not used by it.\<close>

definition summarize_charge_distribution :: "'f np_ops \<Rightarrow> 'f list \<Rightarrow> int \<Rightarrow> 'f \<Rightarrow> 'f summary" where
  "summarize_charge_distribution F arr bins target =
     (if arr = [] then no_summary 0
      else case histogram_payload F arr bins of (centers, _, _) \<Rightarrow>
      if centers = [] then no_summary (length arr)
      else
        let threshold = otsu_threshold F arr bins;
            left = filter (\<lambda>x. np_le F x threshold) arr;
            right = filter (\<lambda>x. np_less F threshold x) arr;
            fraction = np_div F (np_int F (int (length right))) (np_int F (int (length arr)));
            summary = (no_summary (length arr))\<lparr>sm_threshold_charge := Some threshold, sm_signal_fraction := Some fraction,
              sm_balance_error := Some (np_abs F (np_sub F fraction target))\<rparr> in
        if 3 \<le> length left \<and> 3 \<le> length right then
          let ped = np_mean F left; sig = np_mean F right; denom = np_hypot F (np_std F left) (np_std F right) in
          summary\<lparr>sm_pedestal_mean := Some ped, sm_signal_mean := Some sig,
            sm_snr_estimate := Some (if np_less F (np_lit F ''0'') denom then np_div F (np_sub F sig ped) denom else np_lit F ''nan''),
            sm_two_cluster_split := True\<rparr>
        else summary\<lparr>sm_pedestal_mean := Some (np_mean F arr)\<rparr>)"

definition summarize_charge_vs_pedestal :: "'f np_ops \<Rightarrow> 'f list \<Rightarrow> 'f list \<Rightarrow> 'f \<Rightarrow> 'f \<Rightarrow> 'f \<Rightarrow> 'f summary" where
  "summarize_charge_vs_pedestal F signal pedestal target threshold_sigma threshold_quantile =
     (if signal = [] \<or> pedestal = [] then no_summary (length signal)
      else
        let ped_median = np_median F pedestal;
            ped_mean = np_mean F pedestal;
            ped_mad = np_median F (map (\<lambda>x. np_abs F (np_sub F x ped_median)) pedestal);
            ped_sigma = py_max F (np_lit F ''1e-12'') (np_mul F (np_lit F ''1.4826'') ped_mad);
            q_hi = np_quantile F pedestal (py_min F (py_max F threshold_quantile (np_lit F ''0.5'')) (np_lit F ''0.9999''));
            threshold = py_max F (np_add F ped_median (np_mul F threshold_sigma ped_sigma)) q_hi;
            selected = filter (\<lambda>x. np_less F threshold x) signal;
            fraction = np_mean F (map (\<lambda>x. np_int F (if np_less F threshold x then 1 else 0)) signal);
            summary = (no_summary (length signal))\<lparr>sm_threshold_charge := Some threshold, sm_signal_fraction := Some fraction,
              sm_balance_error := Some (np_abs F (np_sub F fraction target)), sm_pedestal_mean := Some ped_mean,
              sm_pedestal_sigma := Some ped_sigma\<rparr> in
        if selected = [] then summary
        else
          let sig = np_mean F selected; denom = np_hypot F ped_sigma (np_std F selected) in
          summary\<lparr>sm_signal_mean := Some sig,
            sm_snr_estimate := (if np_less F (np_lit F ''0'') denom then Some (np_div F (np_sub F sig ped_mean) denom) else None)\<rparr>)"

section \<open>The monitor\<close>

record 'f monitor =
  mo_channels :: "int list"
  mo_n_samples :: nat
  mo_windows :: "int \<rightharpoonup> ChargeWindow"
  mo_history :: nat
  mo_hist_bins :: nat
  mo_clip_negative :: bool
  mo_series :: "int \<rightharpoonup> 'f list"

definition FixedWindowChargeMonitor ::
  "int list \<Rightarrow> nat \<Rightarrow> (int \<rightharpoonup> ChargeWindow) \<Rightarrow> int \<Rightarrow> int \<Rightarrow> bool \<Rightarrow> 'f monitor result" where
  "FixedWindowChargeMonitor channels n_samples windows history hist_bins clip_negative =
     (if filter (\<lambda>ch. windows ch = None) channels \<noteq> [] then Inl (ValueError ''Missing charge windows for channels'')
      else Inr \<lparr>mo_channels = channels, mo_n_samples = n_samples, mo_windows = windows, mo_history = nat (max 16 history),
        mo_hist_bins = nat (max 8 hist_bins), mo_clip_negative = clip_negative,
        mo_series = (\<lambda>ch. if ch \<in> set channels then Some [] else None)\<rparr>)"

definition channel_charge :: "'f np_ops \<Rightarrow> 'f monitor \<Rightarrow> waves \<Rightarrow> nat \<Rightarrow> int \<Rightarrow> 'f result" where
  "channel_charge F m yk idx ch =
     r_bind (r_of_option KeyError (mo_windows m ch)) (\<lambda>win.
     r_bind (compute_charge F \<lparr>w_len = w_len yk, w_rows = [w_rows yk ! idx]\<rparr> (integrate_start win) (integrate_stop win)
        (baseline_start win) (baseline_stop win) (mo_clip_negative m)) (\<lambda>charges. Inr (hd charges)))"

definition append_charge :: "int \<Rightarrow> 'f \<Rightarrow> 'f monitor \<Rightarrow> 'f monitor" where
  "append_charge ch q m = m\<lparr>mo_series := (mo_series m)(ch := map_option (\<lambda>xs. deque_push (mo_history m) xs q) (mo_series m ch))\<rparr>"

text \<open>\<open>update\<close>: a charge that cannot be computed raises after the channels before it were recorded. The result
  is the latest charge of every channel; the windows the code adds to it are those of the monitor.\<close>

definition monitor_update :: "'f np_ops \<Rightarrow> waves \<Rightarrow> ('f monitor, (int \<times> 'f) list) py" where
  "monitor_update F yk =
     m_bind (m_get (\<lambda>m. (mo_channels m, mo_n_samples m))) (\<lambda>(chs, n).
     if length (w_rows yk) \<noteq> length chs \<or> w_len yk \<noteq> n then m_raise (ValueError ''Invalid waveform frame shape'')
     else m_fold (\<lambda>(idx, ch) out.
       m_bind (m_get (\<lambda>m. channel_charge F m yk idx ch)) (\<lambda>r.
       m_bind (m_lift r) (\<lambda>q.
       m_then (m_modify (append_charge ch q)) (m_ret (AList.update ch q out))))) (enumerate 0 chs) [])"

definition history_for_channel :: "'f monitor \<Rightarrow> int \<Rightarrow> 'f list result" where
  "history_for_channel m ch = r_of_option KeyError (mo_series m ch)"

definition histogram_series :: "'f np_ops \<Rightarrow> 'f monitor \<Rightarrow> (int \<times> 'f list \<times> 'f list) list result" where
  "histogram_series F m =
     r_bind (r_map (history_for_channel m) (mo_channels m)) (\<lambda>hists.
     let non_empty = filter (\<lambda>xs. xs \<noteq> []) hists in
     if non_empty = [] then Inr []
     else
       let combined = concat non_empty; lo = np_amin F combined; hi = np_amax F combined;
           hi = (if np_le F hi lo then np_add F lo (np_lit F ''1.0'') else hi);
           edges = np_linspace F lo hi (mo_hist_bins m + 1);
           centers = map2 (\<lambda>a b. np_mul F (np_lit F ''0.5'') (np_add F a b)) (butlast edges) (tl edges) in
       Inr (foldl (\<lambda>out (ch, xs). if xs = [] then out
            else AList.update ch (centers, map (np_int F) (np_hist_edges F xs edges)) out) [] (zip (mo_channels m) hists)))"

section \<open>Waveform files: reading back what was written\<close>

lemma word_halves: "ucast (ucast x :: 8 word) OR push_bit 8 (ucast (ucast (drop_bit 8 x) :: 8 word)) = (x :: 16 word)"
  by (rule bit_word_eqI) (auto simp: bit_or_iff bit_ucast_iff bit_push_bit_iff bit_drop_bit_eq dest: bit_imp_le_length)

lemma u16_words_bytes: "u16_words (u16_bytes xs) = map ucast xs"
  by (induction xs) (simp_all add: u16_bytes_def le_bytes_def word_halves)

lemma length_column: "shaped k n y \<Longrightarrow> i < k \<Longrightarrow> length (column i y) = length y * n"
  by (induction y) (auto simp: shaped_def column_def list_all_iff)

lemma rows_column:
  "shaped k n y \<Longrightarrow> i < k \<Longrightarrow> m \<le> length y \<Longrightarrow> rows m n (map f (column i y)) = map (\<lambda>wv. map f (wv ! i)) (take m y)"
proof (induction y arbitrary: m)
  case (Cons wv y)
  then have "length (wv ! i) = n" by (simp add: shaped_def list_all_iff)
  with Cons show ?case by (cases m) (auto simp: shaped_def column_def)
qed (simp add: column_def)

lemma rows_take: "rows m n (take (m * n) xs) = rows m n xs"
proof (induction m arbitrary: xs)
  case (Suc m)
  have "drop n (take (n + m * n) xs) = take (m * n) (drop n xs)" by (simp add: take_drop add.commute)
  then show ?case using Suc [of "drop n xs"] by (simp add: min_def)
qed simp

text \<open>The file of a channel loads back as the rows of the channel, truncated to sixteen bits.\<close>

lemma load_stored:
  assumes "shaped k n y" "i < k" "0 < n" "sample_value interp = Inr val"
  shows "load_channel_waves (u16_bytes (column i y)) n max_waves interp =
    Inr \<lparr>w_len = n, w_rows = map (\<lambda>wv. map (\<lambda>x. val (ucast x)) (wv ! i))
      (if max_waves \<le> 0 then y else take (nat max_waves) y)\<rparr>"
proof -
  have len: "length (column i y) = length y * n" using assms(1,2) by (rule length_column)
  have rw: "rows m n (map val (take (m * n) (map ucast (column i y)))) = map (\<lambda>wv. map (\<lambda>x. val (ucast x)) (wv ! i)) (take m y)"
    if "m \<le> length y" for m
    using rows_column [OF assms(1,2) that, of "\<lambda>x. val (ucast x)"] rows_take [of m n "map (\<lambda>x. val (ucast x)) (column i y)"]
    by (simp add: take_map comp_def)
  show ?thesis
    using rw [of "length y"] rw [of "min (length y) (nat max_waves)"] assms(3)
    by (auto simp: load_channel_waves_def u16_words_bytes len assms(4) take_map comp_def simp flip: take_take)
qed

section \<open>The file of windows: reading back what was written\<close>

lemma sort_key_map: "sort_key f (map g xs) = map g (sort_key (\<lambda>x. f (g x)) xs)"
proof -
  have "insort_key f (g x) (map g ys) = map g (insort_key (\<lambda>x. f (g x)) x ys)" for x ys
    by (induction ys) auto
  then show ?thesis by (induction xs) auto
qed

lemma mset_keys_sort: "mset (map fst (sort_key f xs)) = mset (map fst xs)"
  by (metis mset_map mset_sort)

lemma distinct_keys_sort: "distinct (map fst (sort_key f xs)) = distinct (map fst xs)"
  by (rule mset_eq_imp_distinct_iff) (rule mset_keys_sort)

lemma map_of_sorted: "distinct (map fst xs) \<Longrightarrow> map_of (sort_key f xs) = map_of xs"
  by (subst map_of_inject_set) (simp_all add: distinct_keys_sort)

lemma lookup_sorted:
  assumes "distinct (map fst kvs)"
  shows "map_of (sort_key f (map (\<lambda>kv. (fst kv, g (snd kv))) kvs)) k = map_option g (map_of kvs k)"
proof -
  have "map_of (map (\<lambda>kv. (fst kv, g (snd kv))) kvs) k = map_option g (map_of kvs k)" for kvs
    by (induction kvs) auto
  moreover have "distinct (map fst (map (\<lambda>kv. (fst kv, g (snd kv))) kvs))" using assms by (simp add: comp_def)
  ultimately show ?thesis by (simp add: map_of_sorted)
qed

lemma sorted_get:
  "distinct (map fst kvs) \<Longrightarrow> py_get (sort_keys (JObj kvs)) k d = Inr (case map_of kvs k of None \<Rightarrow> d | Some v \<Rightarrow> sort_keys v)"
  by (simp add: lookup_sorted split: option.split)

lemma sorted_member:
  assumes "distinct (map fst kvs)" "\<forall>kv \<in> set kvs. sort_keys (snd kv) = snd kv"
  shows "py_get (sort_keys (JObj kvs)) k d = py_get (JObj kvs) k d" "py_index (sort_keys (JObj kvs)) k = py_index (JObj kvs) k"
proof -
  have "map_option sort_keys (map_of kvs k) = map_of kvs k"
    using assms(2) by (cases "map_of kvs k") (force dest: map_of_SomeD)+
  then show "py_get (sort_keys (JObj kvs)) k d = py_get (JObj kvs) k d" "py_index (sort_keys (JObj kvs)) k = py_index (JObj kvs) k"
    by (simp_all add: lookup_sorted [OF assms(1)])
qed

lemma load_window_as_dict: "load_window tr key (sort_keys (as_dict w)) = Inr w"
proof -
  have "py_get (sort_keys (as_dict w)) k d = py_get (as_dict w) k d" for k d
    unfolding as_dict_def by (rule sorted_member) simp_all
  moreover have "py_index (sort_keys (as_dict w)) k = py_index (as_dict w) k" for k
    unfolding as_dict_def by (rule sorted_member) simp_all
  moreover have "load_window tr key (as_dict w) = Inr w" unfolding load_window_def Let_def by (simp add: as_dict_def)
  ultimately show ?thesis unfolding load_window_def Let_def by simp
qed

text \<open>Entering distinct keys one after the other.\<close>

lemma map_of_updates: "map_of (fold (\<lambda>(k, v). AList.update k v) xs acc) = map_of acc ++ map_of (rev xs)"
  by (induction xs arbitrary: acc) (auto simp: update_conv' fun_eq_iff map_add_def split: option.split)

lemma map_of_rev: "distinct (map fst xs) \<Longrightarrow> map_of (rev xs) = map_of xs"
  by (subst map_of_inject_set) (simp_all flip: rev_map)

lemma fold_windows:
  assumes "\<forall>x \<in> set ws. channel (snd x) = fst x"
  shows "r_fold (\<lambda>(key, v) out. r_bind (load_window tr key v) (\<lambda>w. Inr (AList.update (channel w) w out)))
      (map (\<lambda>(ch, w). (int_to_str ch, sort_keys (as_dict w))) ws) acc = Inr (fold (\<lambda>(k, v). AList.update k v) ws acc)"
  using assms
proof (induction ws arbitrary: acc)
  case (Cons x ws)
  then show ?case by (cases x) (simp add: load_window_as_dict del: sort_keys.simps)
qed simp

section \<open>Windows and charges\<close>

lemma normalize_bounds_range:
  "0 \<le> n \<Longrightarrow> 0 \<le> fst (normalize_bounds n a b) \<and> fst (normalize_bounds n a b) \<le> snd (normalize_bounds n a b) \<and> snd (normalize_bounds n a b) \<le> n"
  by (auto simp: normalize_bounds_def Let_def split: option.split)

lemma length_slice: "0 \<le> fst b \<Longrightarrow> fst b \<le> snd b \<Longrightarrow> snd b \<le> int (length xs) \<Longrightarrow> length (slice b xs) = nat (snd b - fst b)"
  by (simp add: slice_def)

text \<open>What is used of \<open>np.argmax\<close>: it returns an index of a non-empty array.\<close>

definition argmax_in_range :: "'f np_ops \<Rightarrow> bool" where
  "argmax_in_range F \<longleftrightarrow> (\<forall>xs. xs \<noteq> [] \<longrightarrow> np_argmax F xs < length xs)"

lemma onset_in_range: assumes "argmax_in_range F" "xs \<noteq> []" shows "onset_of F th xs < length xs"
proof (cases "flat_above F th xs = []")
  case True
  have "diff_prepended F xs \<noteq> []" using assms(2) by (cases xs) (auto simp: diff_prepended_def)
  then have "np_argmax F (diff_prepended F xs) < length (diff_prepended F xs)" using assms(1) by (simp add: argmax_in_range_def)
  then show ?thesis using True by (simp add: onset_of_def diff_prepended_def)
next
  case False
  then have "hd (flat_above F th xs) \<in> set (flat_above F th xs)" by simp
  then show ?thesis using False by (auto simp: onset_of_def flat_above_def simp del: list.set_sel(1))
qed

text \<open>A window with its parts inside a waveform of \<open>n\<close> samples, the onset and the peak inside the search range.\<close>

definition window_fits :: "int \<Rightarrow> ChargeWindow \<Rightarrow> bool" where
  "window_fits n w \<longleftrightarrow> 0 \<le> baseline_start w \<and> baseline_start w < baseline_stop w \<and> baseline_stop w \<le> n \<and>
     0 \<le> search_start w \<and> search_start w \<le> onset_index w \<and> onset_index w < search_stop w \<and> search_stop w \<le> n \<and>
     search_start w \<le> peak_index w \<and> peak_index w < search_stop w \<and>
     0 \<le> integrate_start w \<and> integrate_start w < integrate_stop w"

lemma calibrated_window:
  assumes "argmax_in_range F" "calibrate_window_from_mean F mean_wf ch ca = Inr w"
  shows "channel w = ch \<and> window_fits (int (length mean_wf)) w \<and> integrate_stop w \<le> integrate_start w + ca_integrate_len ca \<and>
    (if onset_index w + ca_integrate_offset ca < int (length mean_wf)
     then integrate_start w = max 0 (onset_index w + ca_integrate_offset ca) \<and> integrate_stop w \<le> int (length mean_wf)
     else integrate_start w = int (length mean_wf) \<and> integrate_stop w = int (length mean_wf) + 1)"
proof -
  let ?n = "int (length mean_wf)"
  obtain b_lo b_hi where b: "normalize_bounds ?n (Some (ca_baseline_start ca)) (Some (ca_baseline_stop ca)) = (b_lo, b_hi)" by force
  obtain s_lo s_hi where s: "normalize_bounds ?n (Some (ca_search_start ca)) (Some (ca_search_stop ca)) = (s_lo, s_hi)" by force
  have rb: "0 \<le> b_lo" "b_hi \<le> ?n" and rs: "0 \<le> s_lo" "s_hi \<le> ?n"
    using normalize_bounds_range [of ?n "Some (ca_baseline_start ca)" "Some (ca_baseline_stop ca)"]
      normalize_bounds_range [of ?n "Some (ca_search_start ca)" "Some (ca_search_stop ca)"] b s by auto
  define signal where "signal = map (\<lambda>x. np_sub F x (np_mean F (slice (b_lo, b_hi) mean_wf))) (slice (s_lo, s_hi) mean_wf)"
  have ok: "b_lo < b_hi" "s_lo < s_hi" "0 < ca_integrate_len ca"
    using assms(2) by (auto simp: calibrate_window_from_mean_def Let_def b s split: if_splits)
  obtain th where w: "w = (let onset = s_lo + int (onset_of F th signal); i_start = max 0 (min ?n (onset + ca_integrate_offset ca)) in
      \<lparr>channel = ch, baseline_start = b_lo, baseline_stop = b_hi, search_start = s_lo, search_stop = s_hi, onset_index = onset,
       peak_index = s_lo + int (np_argmax F signal), integrate_start = i_start,
       integrate_stop = max (i_start + 1) (min ?n (i_start + ca_integrate_len ca))\<rparr>)"
    using assms(2) ok by (auto simp: calibrate_window_from_mean_def Let_def b s signal_def split: if_splits)
  have len: "length signal = nat (s_hi - s_lo)" using rs ok(2) by (simp add: signal_def length_slice)
  then have "signal \<noteq> []" using ok(2) by auto
  then have "onset_of F th signal < nat (s_hi - s_lo)" "np_argmax F signal < nat (s_hi - s_lo)"
    using onset_in_range [OF assms(1), of signal th] assms(1) len by (auto simp: argmax_in_range_def)
  then have ranges: "0 \<le> baseline_start w \<and> baseline_start w < baseline_stop w \<and> baseline_stop w \<le> ?n \<and>
      0 \<le> search_start w \<and> search_start w \<le> onset_index w \<and> onset_index w < search_stop w \<and> search_stop w \<le> ?n \<and>
      search_start w \<le> peak_index w \<and> peak_index w < search_stop w" and ch: "channel w = ch"
    using rb rs ok by (simp_all add: w Let_def) auto
  have start: "integrate_start w = max 0 (min ?n (onset_index w + ca_integrate_offset ca))"
    and stop: "integrate_stop w = max (integrate_start w + 1) (min ?n (integrate_start w + ca_integrate_len ca))"
    by (simp_all add: w Let_def)
  have "0 \<le> integrate_start w" by (simp add: start)
  moreover have "integrate_start w < integrate_stop w" unfolding stop by (simp add: less_max_iff_disj)
  ultimately have fits: "window_fits ?n w" using ranges by (simp add: window_fits_def)
  have "integrate_stop w \<le> integrate_start w + ca_integrate_len ca" using ok(3) by (simp add: stop)
  moreover have "0 < ?n" using ranges by linarith
  then have "integrate_stop w \<le> ?n" if "onset_index w + ca_integrate_offset ca < ?n"
    unfolding stop start using that by linarith
  moreover have "integrate_start w = max 0 (onset_index w + ca_integrate_offset ca)"
    if "onset_index w + ca_integrate_offset ca < ?n" using that by (simp add: start)
  moreover have "integrate_start w = ?n" "integrate_stop w = ?n + 1"
    if "\<not> onset_index w + ca_integrate_offset ca < ?n" using that ok(3) by (simp_all add: start stop)
  ultimately show ?thesis using fits ch by (cases "onset_index w + ca_integrate_offset ca < ?n") auto
qed

section \<open>The monitor keeps the last charges\<close>

lemma channel_charge_series [simp]: "channel_charge F (m\<lparr>mo_series := x\<rparr>) yk i ch = channel_charge F m yk i ch"
  by (simp add: channel_charge_def)

abbreviation push_charges :: "nat \<Rightarrow> (nat \<Rightarrow> 'f) \<Rightarrow> nat \<Rightarrow> 'f list option \<Rightarrow> 'f list option" where
  "push_charges h q i \<equiv> map_option (\<lambda>xs. deque_push h xs (q i))"

lemma append_charge_upd: "append_charge ch (q i) m = m\<lparr>mo_series := upd_channel (push_charges (mo_history m) q) (i, ch) (mo_series m)\<rparr>"
  by (simp add: append_charge_def fun_upd_def [abs_def] fun_eq_iff)

lemma update_loop:
  "(\<forall>i < length chs. channel_charge F m yk (n + i) (chs ! i) = Inr (q (n + i))) \<Longrightarrow>
   \<exists>out'. m_fold (\<lambda>(idx, ch) out.
       m_bind (m_get (\<lambda>m. channel_charge F m yk idx ch)) (\<lambda>r.
       m_bind (m_lift r) (\<lambda>q.
       m_then (m_modify (append_charge ch q)) (m_ret (AList.update ch q out))))) (enumerate n chs) out m
     = (Inr out', m\<lparr>mo_series := fold (upd_channel (push_charges (mo_history m) q)) (enumerate n chs) (mo_series m)\<rparr>)"
proof (induction chs arbitrary: n out m)
  case (Cons ch chs)
  have "channel_charge F m yk n ch = Inr (q n)" using Cons.prems by (auto dest: spec [of _ 0])
  moreover have "\<forall>i < length chs. channel_charge F (append_charge ch (q n) m) yk (Suc n + i) (chs ! i) = Inr (q (Suc n + i))"
    using Cons.prems by (auto simp: append_charge_def dest: spec [of _ "Suc _"])
  from Cons.IH [OF this, of "AList.update ch (q n) out"] show ?case
    using calculation by (simp add: py_run append_charge_upd del: upd_channel.simps)
qed (simp add: py_run)

lemma monitor_update_run:
  assumes "length (w_rows yk) = length (mo_channels m)" "w_len yk = mo_n_samples m"
    and "\<forall>i < length (mo_channels m). channel_charge F m yk i (mo_channels m ! i) = Inr (q i)"
  shows "\<exists>out. monitor_update F yk m = (Inr out, m\<lparr>mo_series := each_channel (mo_channels m) (push_charges (mo_history m) q) (mo_series m)\<rparr>)"
  using update_loop [of "mo_channels m" F m yk 0 q "[]"] assms by (simp add: monitor_update_def py_run each_channel_def)

text \<open>A frame the monitor can process, with the charges of its channels.\<close>

definition frame_charges :: "'f np_ops \<Rightarrow> 'f monitor \<Rightarrow> waves \<Rightarrow> (nat \<Rightarrow> 'f) \<Rightarrow> bool" where
  "frame_charges F m yk q \<longleftrightarrow> length (w_rows yk) = length (mo_channels m) \<and> w_len yk = mo_n_samples m \<and>
     (\<forall>i < length (mo_channels m). channel_charge F m yk i (mo_channels m ! i) = Inr (q i))"

lemma monitor_keeps:
  assumes "distinct (mo_channels m)" "\<forall>yk \<in> set yks. frame_charges F m yk (q yk)"
    and "\<forall>i < length (mo_channels m). mo_series m (mo_channels m ! i) = Some (last_n (mo_history m) (past i))"
  shows "\<exists>m'. m_for yks (\<lambda>yk. m_bind (monitor_update F yk) (\<lambda>_. m_ret ())) m = (Inr (), m') \<and>
    (\<forall>i < length (mo_channels m). mo_series m' (mo_channels m ! i) = Some (last_n (mo_history m) (past i @ map (\<lambda>yk. q yk i) yks)))"
  using assms
proof (induction yks arbitrary: m past)
  case (Cons yk yks)
  let ?m = "m\<lparr>mo_series := each_channel (mo_channels m) (push_charges (mo_history m) (q yk)) (mo_series m)\<rparr>"
  obtain out where run: "monitor_update F yk m = (Inr out, ?m)"
    using monitor_update_run [of yk m F "q yk"] Cons.prems(2) unfolding frame_charges_def by auto
  have "\<forall>y \<in> set yks. frame_charges F ?m y (q y)" using Cons.prems(2) by (simp add: frame_charges_def)
  moreover have "\<forall>i < length (mo_channels ?m). mo_series ?m (mo_channels ?m ! i) = Some (last_n (mo_history ?m) (past i @ [q yk i]))"
    using Cons.prems(1,3) by (simp add: each_channel_nth deque_push_last_n)
  ultimately show ?case using Cons.IH [of ?m "\<lambda>i. past i @ [q yk i]"] Cons.prems(1) run by (simp add: py_run)
qed (simp add: py_run)

section \<open>Properties\<close>

text \<open>C25: Saved charge windows load back: from the text that \<open>save_charge_windows\<close> writes, \<open>load_charge_windows\<close>
  builds a dictionary with the same window for every channel and no other, provided every window is stored
  under its own channel and the JSON library decodes the text it has written.\<close>

theorem charge_windows_round_trip:
  assumes "distinct (map fst windows)" and "\<forall>x \<in> set windows. channel (snd x) = fst x"
    and "of_text (to_text (sort_keys (windows_payload windows metadata)) @ [char_of (10 :: nat)]) = Some (sort_keys (windows_payload windows metadata))"
  shows "\<exists>out. load_charge_windows tr of_text (save_charge_windows to_text windows metadata) = Inr out \<and> map_of out = map_of windows"
proof -
  let ?qs = "sort_key (\<lambda>x. int_to_str (fst x)) (sort_key fst windows)"
  have "py_get (sort_keys (windows_payload windows metadata)) ''windows'' d =
      Inr (sort_keys (JObj (map (\<lambda>(ch, w). (int_to_str ch, as_dict w)) (sort_key fst windows))))" for d
    unfolding windows_payload_def by (subst sorted_get) (simp_all del: sort_keys.simps)
  moreover have "sort_keys (JObj (map (\<lambda>(ch, w). (int_to_str ch, as_dict w)) (sort_key fst windows))) =
      JObj (map (\<lambda>(ch, w). (int_to_str ch, sort_keys (as_dict w))) ?qs)"
    by (simp add: sort_key_map comp_def case_prod_unfold)
  moreover have "\<forall>x \<in> set ?qs. channel (snd x) = fst x" using assms(2) by simp
  note fold_windows [OF this, of tr "[]"]
  ultimately have "load_charge_windows tr of_text (save_charge_windows to_text windows metadata) =
      Inr (fold (\<lambda>(k, v). AList.update k v) ?qs [])"
    by (simp add: load_charge_windows_def save_charge_windows_def assms(3) del: sort_keys.simps)
  moreover have "map_of (fold (\<lambda>(k, v). AList.update k v) ?qs []) = map_of windows"
    using assms(1) by (simp add: map_of_updates map_of_rev map_of_sorted distinct_keys_sort)
  ultimately show ?thesis by blast
qed

text \<open>C26: The ranges of a calibrated charge window: the baseline range is a non-empty range of samples of the
  waveform, onset and peak lie in the search range, which lies in the waveform too, and the integration range has at
  most the requested length. When the onset plus the offset lies before the end of the waveform, integration starts there
  (at 0 when it is negative) and ends inside the waveform; otherwise the window is accepted all the same, with
  integration starting at the end of the waveform, where there is no sample.\<close>

theorem calibrated_window_fits:
  assumes "argmax_in_range F" and "calibrate_window_from_mean F mean_wf ch ca = Inr w"
  shows "channel w = ch \<and> window_fits (int (length mean_wf)) w \<and> integrate_stop w \<le> integrate_start w + ca_integrate_len ca \<and>
    (if onset_index w + ca_integrate_offset ca < int (length mean_wf)
     then integrate_start w = max 0 (onset_index w + ca_integrate_offset ca) \<and> integrate_stop w \<le> int (length mean_wf)
     else integrate_start w = int (length mean_wf) \<and> integrate_stop w = int (length mean_wf) + 1)"
  by (rule calibrated_window [OF assms])

text \<open>C27: The charge monitor processes every frame of the right shape and then holds, for every channel, the
  charges of the last \<open>max(16, history)\<close> frames in order.\<close>

theorem monitor_history_last:
  assumes "FixedWindowChargeMonitor chs n_samples windows history bins clip = Inr m" and "distinct chs"
    and "\<forall>yk \<in> set yks. frame_charges F m yk (q yk)"
  shows "\<exists>m'. m_for yks (\<lambda>yk. m_bind (monitor_update F yk) (\<lambda>_. m_ret ())) m = (Inr (), m') \<and>
    (\<forall>i < length chs. history_for_channel m' (chs ! i) = Inr (last_n (nat (max 16 history)) (map (\<lambda>yk. q yk i) yks)))"
proof -
  have m: "mo_channels m = chs" "mo_history m = nat (max 16 history)" "mo_series m = (\<lambda>ch. if ch \<in> set chs then Some [] else None)"
    using assms(1) by (auto simp: FixedWindowChargeMonitor_def split: if_splits)
  show ?thesis
    using monitor_keeps [of m yks F q "\<lambda>i. []"] assms(2,3) by (auto simp: m history_for_channel_def)
qed

section \<open>Integers as numbers\<close>

fun first_max :: "int list \<Rightarrow> nat" where
  "first_max [] = 0"
| "first_max [x] = 0"
| "first_max (x # y # ys) = (let i = first_max (y # ys) in if x < (y # ys) ! i then Suc i else 0)"

definition int_np :: "int np_ops" where
  "int_np = \<lparr>np_lit = (\<lambda>s. 0), np_int = (\<lambda>x. x), np_add = (+), np_sub = (-), np_mul = (*), np_div = (div), np_abs = abs,
     np_hypot = (\<lambda>a b. a + b), np_less = (<), np_le = (\<le>), np_eq = (=), np_neg = uminus, np_repr = int_to_str, np_parse = py_int, np_isfinite = (\<lambda>x. True), np_maximum = max,
     np_mean = (\<lambda>xs. sum_list xs div int (length xs)), np_sum = sum_list, np_std = (\<lambda>xs. 0), np_median = (\<lambda>xs. 0),
     np_quantile = (\<lambda>xs q. 0), np_percentile = (\<lambda>xs p. 0), np_amin = (\<lambda>xs. Min (set xs)), np_amax = (\<lambda>xs. Max (set xs)), np_argmax = first_max,
     np_linspace = (\<lambda>a b n. map int [0..<n]), np_histogram = (\<lambda>xs n r. ([], [])), np_hist_edges = (\<lambda>xs es. [])\<rparr>"

lemma first_max_range: "xs \<noteq> [] \<Longrightarrow> first_max xs < length xs"
  by (induction xs rule: first_max.induct) (auto simp: Let_def)

lemma int_np_argmax: "argmax_in_range int_np"
  by (simp add: argmax_in_range_def int_np_def first_max_range)

definition test_calib :: "int calib" where
  "test_calib = \<lparr>ca_baseline_start = 0, ca_baseline_stop = 3, ca_search_start = 3, ca_search_stop = 8, ca_onset_fraction = 1,
     ca_integrate_offset = -1, ca_integrate_len = 4\<rparr>"

definition test_window :: ChargeWindow where
  "test_window = \<lparr>channel = 5, baseline_start = 0, baseline_stop = 3, search_start = 3, search_stop = 8, onset_index = 3,
     peak_index = 5, integrate_start = 2, integrate_stop = 6\<rparr>"

theorem charge_windows_round_trip_witness:
  "\<exists>out. load_charge_windows (\<lambda>r. Inl (ValueError r)) (\<lambda>t. Some (sort_keys (windows_payload [(5, test_window), (12, test_window\<lparr>channel := 12\<rparr>)] [])))
     (save_charge_windows py_repr [(5, test_window), (12, test_window\<lparr>channel := 12\<rparr>)] []) = Inr out \<and>
     map_of out = [5 \<mapsto> test_window, 12 \<mapsto> test_window\<lparr>channel := 12\<rparr>]"
  using charge_windows_round_trip [of "[(5, test_window), (12, test_window\<lparr>channel := 12\<rparr>)]"
      "\<lambda>t. Some (sort_keys (windows_payload [(5, test_window), (12, test_window\<lparr>channel := 12\<rparr>)] []))" py_repr "[]" "\<lambda>r. Inl (ValueError r)"]
  by (simp add: test_window_def fun_upd_twist del: sort_keys.simps)

theorem calibrated_window_fits_witness:
  "channel test_window = 5 \<and> window_fits 8 test_window \<and> integrate_stop test_window \<le> integrate_start test_window + 4
    \<and> integrate_stop test_window \<le> 8"
proof -
  have "calibrate_window_from_mean int_np [1, 1, 1, 2, 5, 9, 4, 2] 5 test_calib = Inr test_window" by code_simp
  from calibrated_window_fits [OF int_np_argmax this] show ?thesis by (simp add: test_calib_def test_window_def)
qed

theorem monitor_history_last_witness:
  "\<exists>m m'. FixedWindowChargeMonitor [5] 8 [5 \<mapsto> test_window] 0 20 False = Inr m \<and>
     m_for [\<lparr>w_len = 8, w_rows = [[1, 1, 1, 2, 5, 9, 4, 2]]\<rparr>, \<lparr>w_len = 8, w_rows = [[0, 0, 0, 1, 1, 1, 1, 1]]\<rparr>]
       (\<lambda>yk. m_bind (monitor_update int_np yk) (\<lambda>_. m_ret ())) m = (Inr (), m') \<and> history_for_channel m' 5 = Inr [13, 3]"
proof -
  let ?q = "\<lambda>yk i. if w_rows yk = [[1, 1, 1, 2, 5, 9, 4, 2]] then 13 else 3 :: int"
  obtain m :: "int monitor" where m: "FixedWindowChargeMonitor [5] 8 [5 \<mapsto> test_window] 0 20 False = Inr m"
    by (simp add: FixedWindowChargeMonitor_def)
  have "\<forall>yk \<in> set [\<lparr>w_len = 8, w_rows = [[1, 1, 1, 2, 5, 9, 4, 2]]\<rparr>, \<lparr>w_len = 8, w_rows = [[0, 0, 0, 1, 1, 1, 1, 1]]\<rparr>]. frame_charges int_np m yk (?q yk)"
    using m by (auto simp: FixedWindowChargeMonitor_def frame_charges_def channel_charge_def test_window_def compute_charge_def
        compute_baseline_def normalize_bounds_def slice_def int_np_def)
  from monitor_history_last [OF m _ this] show ?thesis using m by (auto simp: last_n_def)
qed

end
