(* ===== verification/Led_Scan.thy ===== *)
theory Led_Scan
  imports Led_Charge
begin

text \<open>
  \<open>client/dynamic_range_led/scan_led_intensity_charge.py\<close>: the scan over LED intensities. After an optional
  read-back of the front end it calibrates the charge windows on a bright run (or loads them), then starts
  the LED, reads the bias monitors, acquires and analyses at every intensity, stops the LED and writes the
  summaries.

  Sub-programs run through the helpers of \<open>Scan_Runtime\<close>; directories, clock, plots and CSV files are
  environment. Reading a file does not change the state. A metadata dictionary is the object it is when it
  is written; floats in dictionaries are kept as the text \<open>repr\<close> prints.
\<close>

section \<open>Environment and arguments\<close>

record ('s, 'f) sc_env =
  sc_rt :: "'s scan_env"
  sc_np :: "'f np_ops"
  sc_python :: string
  utc_now_iso :: "('s, string) py"
  mkdir :: "string \<Rightarrow> ('s, unit) py"
  sleep_s :: "'f \<Rightarrow> ('s, unit) py"
  read_dat :: "'s \<Rightarrow> string \<Rightarrow> 8 word list result"
  read_text :: "'s \<Rightarrow> string \<Rightarrow> string result"
  float_int :: "string \<Rightarrow> int result"
  save_csv :: "string \<Rightarrow> string list \<Rightarrow> json list \<Rightarrow> ('s, unit) py"
  save_plot :: "string \<Rightarrow> ('s, unit) py"
  print_err :: "string \<Rightarrow> ('s, unit) py"
  resolve_path :: "string \<Rightarrow> string"

record 'f sa =
  sa_output_dir :: string
  sa_channels :: string
  sa_host :: string
  sa_port :: int
  sa_route :: string
  sa_waveforms :: int
  sa_calibration_waveforms :: int
  sa_waveform_len :: int
  sa_timeout_ms :: int
  sa_software_trigger :: bool
  sa_scan_wavelength :: string
  sa_intensity_start :: int
  sa_intensity_stop :: int
  sa_intensity_step :: int
  sa_calibration_intensity :: int
  sa_target_signal_fraction :: 'f
  sa_led_client :: string
  sa_led_stop_client :: string
  sa_led_config :: string
  sa_link :: led_link
  sa_led_channel_mask :: int
  sa_led_number_channels :: int
  sa_pulse_width_ticks :: int
  sa_fixed_bias_270nm :: int
  sa_fixed_bias_367nm :: int
  sa_settle_s :: 'f
  sa_bias_monitor_afes :: string
  sa_bias_monitor_board :: string
  sa_bias_monitor_timeout_ms :: int
  sa_charge_windows_json :: string
  sa_calib :: "'f calib"
  sa_charge_window_anchor :: string
  sa_charge_pre_samples :: int
  sa_charge_post_samples :: int
  sa_charge_clip_negative :: bool
  sa_charge_hist_bins :: int
  sa_interp :: string
  sa_skip_fe_readback :: bool
  sa_dry_run :: bool

definition sub_path :: "string \<Rightarrow> string \<Rightarrow> string" where
  "sub_path p name = p @ ''/'' @ name"

text \<open>The file of a channel in a folder, and \<open>f"intensity_{n:04d}"\<close>.\<close>

definition channel_dat :: "string \<Rightarrow> int \<Rightarrow> string" where
  "channel_dat folder ch = sub_path folder (''channel_'' @ int_to_str ch @ ''.dat'')"

definition fmt_04d :: "int \<Rightarrow> string" where
  "fmt_04d n = (if n < 0 then ''-'' @ fmt_dec 3 (- n) else fmt_dec 4 n)"

definition jfloat :: "'f np_ops \<Rightarrow> 'f \<Rightarrow> json" where
  "jfloat F x = JFloat (np_repr F x)"

definition jopt :: "'f np_ops \<Rightarrow> 'f option \<Rightarrow> json" where
  "jopt F x = (case x of None \<Rightarrow> JNull | Some v \<Rightarrow> jfloat F v)"

section \<open>Analysing a folder\<close>

text \<open>\<open>xs[i]\<close> and \<open>xs[a:b]\<close> of Python: negative positions count from the end.\<close>

definition py_nth :: "'a list \<Rightarrow> int \<Rightarrow> 'a result" where
  "py_nth xs i =
     (let j = (if i < 0 then i + int (length xs) else i) in
      if 0 \<le> j \<and> j < int (length xs) then Inr (xs ! nat j) else Inl IndexError)"

definition py_slice :: "'a list \<Rightarrow> int \<Rightarrow> int \<Rightarrow> 'a list" where
  "py_slice xs a b =
     (let n = int (length xs); pos = (\<lambda>i. clamp 0 n (if i < 0 then i + n else i)) in
      take (nat (pos b - pos a)) (drop (nat (pos a)) xs))"

definition summary_json :: "'f np_ops \<Rightarrow> 'f summary \<Rightarrow> json" where
  "summary_json F m = JObj
     [(''n_waveforms'', JInt (int (sm_n_waveforms m))), (''threshold_charge'', jopt F (sm_threshold_charge m)),
      (''signal_fraction'', jopt F (sm_signal_fraction m)), (''balance_error'', jopt F (sm_balance_error m)),
      (''pedestal_mean'', jopt F (sm_pedestal_mean m)), (''pedestal_sigma'', jopt F (sm_pedestal_sigma m)),
      (''signal_mean'', jopt F (sm_signal_mean m)), (''snr_estimate'', jopt F (sm_snr_estimate m)),
      (''threshold_source'', JStr ''pedestal_ref'')]"

record 'f channel_analysis =
  an_window :: ChargeWindow
  an_metrics :: "'f summary"
  an_json :: json

definition analyze_channel ::
  "'f np_ops \<Rightarrow> waves \<Rightarrow> ChargeWindow \<Rightarrow> int \<Rightarrow> int \<Rightarrow> bool \<Rightarrow> 'f \<Rightarrow> 'f channel_analysis result" where
  "analyze_channel F wv win ch n_samples clip target =
     r_bind (compute_charge F wv (integrate_start win) (integrate_stop win) (baseline_start win) (baseline_stop win) clip) (\<lambda>charges.
     r_bind (pedestal_window_for_charge win n_samples None) (\<lambda>(ped_start, ped_stop).
     r_bind (compute_charge F wv ped_start ped_stop (baseline_start win) (baseline_stop win) clip) (\<lambda>pedestal.
     let metrics = summarize_charge_vs_pedestal F charges pedestal target (np_lit F ''4.0'') (np_lit F ''0.995'');
         mean_wf = mean_waveform F wv in
     r_bind (py_nth mean_wf (peak_index win)) (\<lambda>peak_value.
     r_bind (py_nth mean_wf (onset_index win)) (\<lambda>onset_value.
     if charges = [] then Inl (ValueError ''zero-size array to reduction operation minimum'')
     else Inr \<lparr>an_window = win, an_metrics = metrics, an_json = JObj
       [(''channel'', JInt ch), (''n_waveforms'', JInt (int (length (w_rows wv)))),
        (''baseline_mean'', jfloat F (np_mean F (py_slice mean_wf (baseline_start win) (baseline_stop win)))),
        (''mean_peak_value'', jfloat F peak_value), (''mean_onset_value'', jfloat F onset_value),
        (''integrate_start'', JInt (integrate_start win)), (''integrate_stop'', JInt (integrate_stop win)),
        (''peak_index'', JInt (peak_index win)), (''onset_index'', JInt (onset_index win)),
        (''pedestal_integrate_start'', JInt ped_start), (''pedestal_integrate_stop'', JInt ped_stop),
        (''charge_min'', jfloat F (np_amin F charges)), (''charge_max'', jfloat F (np_amax F charges)),
        (''charge_p50'', jfloat F (np_percentile F charges 50)), (''charge_p90'', jfloat F (np_percentile F charges 90)),
        (''charge_mean'', jfloat F (np_mean F charges)), (''charge_std'', jfloat F (np_std F charges)),
        (''pedestal_charge_p50'', jfloat F (np_percentile F pedestal 50)), (''pedestal_charge_std'', jfloat F (np_std F pedestal)),
        (''charges'', JList (map (jfloat F) charges)), (''pedestal_charges'', JList (map (jfloat F) pedestal)),
        (''metrics'', summary_json F metrics)]\<rparr>)))))"

definition analyze_raw_dir ::
  "'f np_ops \<Rightarrow> (string \<Rightarrow> 8 word list result) \<Rightarrow> string \<Rightarrow> int list \<Rightarrow> nat \<Rightarrow> (int \<times> ChargeWindow) list \<Rightarrow> string \<Rightarrow> int \<Rightarrow> bool \<Rightarrow> 'f \<Rightarrow>
   (int \<times> 'f channel_analysis) list result" where
  "analyze_raw_dir F fromfile raw_dir channels n_samples windows interp max_waves clip target =
     r_fold (\<lambda>ch out.
       r_bind (fromfile (channel_dat raw_dir ch)) (\<lambda>bytes.
       r_bind (load_channel_waves bytes n_samples max_waves interp) (\<lambda>wv.
       r_bind (r_of_option KeyError (map_of windows ch)) (\<lambda>win.
       r_bind (analyze_channel F wv win ch (int n_samples) clip target) (\<lambda>a.
       Inr (AList.update ch a out)))))) channels []"

section \<open>Choosing the best point of a channel\<close>

text \<open>\<open>float(value)\<close> of a decoded value.\<close>

fun json_float :: "'f np_ops \<Rightarrow> json \<Rightarrow> 'f result" where
  "json_float F (JFloat r) = Inr (np_lit F r)"
| "json_float F (JInt n) = Inr (np_int F n)"
| "json_float F (JBool b) = Inr (np_int F (if b then 1 else 0))"
| "json_float F (JStr s) = r_of_option (ValueError ''could not convert string to float'') (np_parse F s)"
| "json_float F _ = Inl TypeError"

definition row_field :: "jobject \<Rightarrow> string \<Rightarrow> json" where
  "row_field row k = (case map_of row k of Some v \<Rightarrow> v | None \<Rightarrow> JNull)"

definition best_key :: "'f np_ops \<Rightarrow> jobject \<Rightarrow> ('f \<times> 'f) result" where
  "best_key F row =
     r_bind (json_float F (case map_of row ''balance_error'' of Some v \<Rightarrow> v | None \<Rightarrow> JFloat ''1e9'')) (\<lambda>err.
     r_bind (json_float F (if row_field row ''snr_estimate'' \<noteq> JNull then row_field row ''snr_estimate'' else JFloat ''-1e9'')) (\<lambda>snr.
     Inr (err, np_neg F snr)))"

text \<open>The order of tuples, and \<open>min\<close> with a key: the first row whose key is not above another's.\<close>

definition key_less :: "'f np_ops \<Rightarrow> 'f \<times> 'f \<Rightarrow> 'f \<times> 'f \<Rightarrow> bool" where
  "key_less F a b = (if np_eq F (fst a) (fst b) then np_less F (snd a) (snd b) else np_less F (fst a) (fst b))"

definition min_row :: "'f np_ops \<Rightarrow> (('f \<times> 'f) \<times> jobject) \<Rightarrow> (('f \<times> 'f) \<times> jobject) list \<Rightarrow> ('f \<times> 'f) \<times> jobject" where
  "min_row F x xs = foldl (\<lambda>best row. if key_less F (fst row) (fst best) then row else best) x xs"

definition best_of :: "'f np_ops \<Rightarrow> jobject list \<Rightarrow> jobject option result" where
  "best_of F rs =
     r_bind (r_map (\<lambda>row. r_bind (best_key F row) (\<lambda>k. Inr (k, row))) (filter (\<lambda>row. row_field row ''signal_fraction'' \<noteq> JNull) rs)) (\<lambda>keyed.
     Inr (case keyed of [] \<Rightarrow> None | x # xs \<Rightarrow> Some (snd (min_row F x xs))))"

definition row_channel :: "(string \<Rightarrow> int result) \<Rightarrow> jobject \<Rightarrow> int result" where
  "row_channel tr row = r_bind (r_of_option KeyError (map_of row ''channel'')) (json_int tr)"

definition choose_best_by_channel :: "'f np_ops \<Rightarrow> (string \<Rightarrow> int result) \<Rightarrow> jobject list \<Rightarrow> jobject list result" where
  "choose_best_by_channel F tr point_rows =
     r_bind (r_map (\<lambda>row. r_bind (row_channel tr row) (\<lambda>ch. Inr (ch, row))) point_rows) (\<lambda>tagged.
     let channels = sort (remdups (map fst tagged)) in
     r_bind (r_map (\<lambda>ch. best_of F (map snd (filter (\<lambda>x. fst x = ch) tagged))) channels) (\<lambda>bests.
     Inr (concat (map (\<lambda>b. case b of None \<Rightarrow> [] | Some row \<Rightarrow> [row]) bests))))"

section \<open>The scan\<close>

definition write_json :: "('s, 'f) sc_env \<Rightarrow> string \<Rightarrow> json \<Rightarrow> ('s, unit) py" where
  "write_json env path v = write_file (sc_rt env) path (dumps (sc_rt env) v @ lf)"

definition led_start :: "('s, 'f) sc_env \<Rightarrow> 'f sa \<Rightarrow> int \<Rightarrow> string \<Rightarrow> ('s, jobject) py" where
  "led_start env args intensity folder =
     (let biases = resolve_led_biases (sa_scan_wavelength args) intensity (sa_fixed_bias_270nm args) (sa_fixed_bias_367nm args) in
      run_led (sc_rt env) (sa_led_client args) (sa_led_config args) (sa_link args)
        \<lparr>led_channel_mask = sa_led_channel_mask args, led_number_channels = sa_led_number_channels args,
         led_pulse_width_ticks = sa_pulse_width_ticks args,
         led_intensity_270nm = the (map_of biases ''pulse_bias_percent_270nm''),
         led_intensity_367nm = the (map_of biases ''pulse_bias_percent_367nm'')\<rparr>
        (sub_path folder ''led.log'') (sa_dry_run args))"

definition biases_json :: "'f sa \<Rightarrow> int \<Rightarrow> json" where
  "biases_json args intensity =
     JObj (map (\<lambda>kv. (fst kv, JInt (snd kv)))
       (resolve_led_biases (sa_scan_wavelength args) intensity (sa_fixed_bias_270nm args) (sa_fixed_bias_367nm args)))"

text \<open>\<open>info["returncode"]\<close> of the report of a program.\<close>

definition info_rc :: "jobject \<Rightarrow> int result" where
  "info_rc info = r_bind (r_of_option KeyError (map_of info ''returncode'')) (\<lambda>v. case v of JInt n \<Rightarrow> Inr n | _ \<Rightarrow> Inl TypeError)"

definition monitor_board :: "'f sa \<Rightarrow> string" where
  "monitor_board args = (if sa_bias_monitor_board args \<noteq> [] then sa_bias_monitor_board args else infer_tunnel_board (sa_port args))"

definition bias_readings :: "('s, 'f) sc_env \<Rightarrow> 'f sa \<Rightarrow> int list \<Rightarrow> string \<Rightarrow> ('s, json list) py" where
  "bias_readings env args afe_list folder =
     m_map (\<lambda>afe. m_bind (run_bias_monitor (sc_rt env) (sc_python env) (monitor_board args) (sa_host args) (sa_port args) afe
         (sa_bias_monitor_timeout_ms args) (sub_path folder (''bias_monitor_afe'' @ int_to_str afe @ ''.log'')) (sa_dry_run args))
       (\<lambda>info. m_ret (JObj info))) afe_list"

definition acquire_point :: "('s, 'f) sc_env \<Rightarrow> 'f sa \<Rightarrow> int list \<Rightarrow> int \<Rightarrow> string \<Rightarrow> string \<Rightarrow> ('s, int \<times> string list) py" where
  "acquire_point env args chs waveforms raw_dir folder =
     run_acquire (sc_rt env) (sc_python env)
       \<lparr>aq_host = sa_host args, aq_port = sa_port args, aq_route = sa_route args, aq_raw_dir = raw_dir, aq_channels = chs,
        aq_waveforms = waveforms, aq_waveform_len = sa_waveform_len args, aq_timeout_ms = sa_timeout_ms args,
        aq_software_trigger = sa_software_trigger args\<rparr> (sub_path folder ''acquire.log'') (sa_dry_run args)"

definition settle :: "('s, 'f) sc_env \<Rightarrow> 'f sa \<Rightarrow> ('s, unit) py" where
  "settle env args = m_when (\<not> sa_dry_run args \<and> np_less (sc_np env) (np_lit (sc_np env) ''0'') (sa_settle_s args)) (sleep_s env (sa_settle_s args))"

definition point_meta :: "'f sa \<Rightarrow> string \<Rightarrow> string \<Rightarrow> string \<Rightarrow> int \<Rightarrow> json list \<Rightarrow> string \<Rightarrow> jobject \<Rightarrow> json" where
  "point_meta args out_dir created kind intensity monitors status rest = JObj
     ([(''created_utc'', JStr created), (''type'', JStr kind), (''intensity'', JInt intensity),
       (''scan_wavelength'', JStr (sa_scan_wavelength args)),
       (''fe_state_readback_json'', JStr (sub_path out_dir ''fe_state_readback.json'')),
       (''bias_monitor'', JList monitors), (''status'', JStr status)] @ rest)"

definition led_fields :: "'f sa \<Rightarrow> int \<Rightarrow> jobject \<Rightarrow> int \<Rightarrow> jobject" where
  "led_fields args intensity info rc =
     [(''led_biases'', biases_json args intensity), (''led_start'', JObj info), (''led_returncode'', JInt rc)]"

text \<open>\<open>{ch: reanchor_charge_window(windows[ch], ...) for ch in channels}\<close>.\<close>

definition reanchor_all :: "'f sa \<Rightarrow> int list \<Rightarrow> (int \<times> ChargeWindow) list \<Rightarrow> (int \<times> ChargeWindow) list result" where
  "reanchor_all args chs windows =
     r_fold (\<lambda>ch out.
       r_bind (r_of_option KeyError (map_of windows ch)) (\<lambda>w.
       r_bind (reanchor_charge_window w (sa_waveform_len args) (sa_charge_window_anchor args) (sa_charge_pre_samples args) (sa_charge_post_samples args)) (\<lambda>w'.
       Inr (AList.update ch w' out)))) chs []"

definition window_fields :: "string list" where
  "window_fields = [''channel'', ''baseline_start'', ''baseline_stop'', ''search_start'', ''search_stop'', ''onset_index'', ''peak_index'',
     ''integrate_start'', ''integrate_stop'']"

text \<open>Finding the windows in the calibration data and storing them.\<close>

definition store_windows :: "('s, 'f) sc_env \<Rightarrow> 'f sa \<Rightarrow> int list \<Rightarrow> string \<Rightarrow> string \<Rightarrow> ('s, (int \<times> ChargeWindow) list) py" where
  "store_windows env args chs cal_dir cal_raw =
     m_bind (m_get (\<lambda>s. r_bind (calibrate_windows_from_folder (sc_np env) (\<lambda>ch. read_dat env s (channel_dat cal_raw ch)) chs
        (nat (sa_waveform_len args)) (sa_calib args) (sa_calibration_waveforms args) (sa_interp args)) (reanchor_all args chs))) (\<lambda>r.
     m_bind (m_lift r) (\<lambda>windows.
     m_bind (utc_now_iso env) (\<lambda>now.
     m_then (write_file (sc_rt env) (sub_path cal_dir ''charge_windows.json'')
        (save_charge_windows (dumps (sc_rt env)) windows
           [(''created_utc'', JStr now), (''source'', JStr cal_raw), (''led_biases'', biases_json args (sa_calibration_intensity args))]))
     (m_bind (m_lift (r_map (\<lambda>ch. r_of_option KeyError (map_option as_dict (map_of windows ch))) chs)) (\<lambda>csv_rows.
      m_then (save_csv env (sub_path cal_dir ''charge_windows_summary.csv'') window_fields csv_rows)
     (m_then (save_plot env (sub_path cal_dir ''calibration_persistence_windows.png''))
     (m_ret windows)))))))"

text \<open>The calibration; \<open>None\<close> is \<open>return 1\<close>.\<close>

definition calibration_run ::
  "('s, 'f) sc_env \<Rightarrow> 'f sa \<Rightarrow> int list \<Rightarrow> int list \<Rightarrow> string \<Rightarrow> ('s, (int \<times> ChargeWindow) list option) py" where
  "calibration_run env args chs afe_list out_dir =
     (let cal_dir = sub_path out_dir ''calibration''; cal_raw = sub_path cal_dir ''raw''; intensity = sa_calibration_intensity args;
          save = (\<lambda>created monitors status rest.
            write_json env (sub_path cal_dir ''metadata.json'') (point_meta args out_dir created ''calibration'' intensity monitors status rest)) in
      m_then (mkdir env cal_dir) (m_then (mkdir env cal_raw)
      (m_bind (utc_now_iso env) (\<lambda>created.
       m_bind (led_start env args intensity cal_dir) (\<lambda>led_info.
       m_bind (m_lift (info_rc led_info)) (\<lambda>rc.
       let led = led_fields args intensity led_info rc in
       if rc \<noteq> 0 then
         m_then (save created [] ''led_failed'' led)
           (m_then (print_err env ''Calibration LED command failed'') (m_ret None))
       else
         m_then (settle env args)
         (m_bind (bias_readings env args afe_list cal_dir) (\<lambda>monitors.
          m_bind (acquire_point env args chs (sa_calibration_waveforms args) cal_raw cal_dir) (\<lambda>(rc_acq, _).
          let acq = led @ [(''acquire_returncode'', JInt rc_acq)] in
          if rc_acq \<noteq> 0 then
            m_then (save created monitors ''acquire_failed'' acq)
              (m_then (print_err env ''Calibration acquire failed'') (m_ret None))
          else if sa_dry_run args then m_then (save created monitors ''dry_run'' acq) (m_ret (Some []))
          else
            m_bind (store_windows env args chs cal_dir cal_raw) (\<lambda>windows.
            m_then (save created monitors ''calibrated'' (acq @ [(''charge_windows_json'', JStr (sub_path cal_dir ''charge_windows.json''))]))
              (m_ret (Some windows))))))))))))"

definition load_windows :: "('s, 'f) sc_env \<Rightarrow> 'f sa \<Rightarrow> int list \<Rightarrow> ('s, (int \<times> ChargeWindow) list) py" where
  "load_windows env args chs =
     m_bind (m_get (\<lambda>s. r_bind (read_text env s (sa_charge_windows_json args)) (\<lambda>text.
        r_bind (load_charge_windows (float_int env) (loads (sc_rt env)) text) (reanchor_all args chs)))) m_lift"

text \<open>One row of the summary.\<close>

definition point_row :: "'f np_ops \<Rightarrow> 'f sa \<Rightarrow> int \<Rightarrow> string \<Rightarrow> int \<Rightarrow> 'f channel_analysis \<Rightarrow> jobject" where
  "point_row F args intensity point_dir ch a =
     [(''channel'', JInt ch), (''intensity'', JInt intensity), (''scan_wavelength'', JStr (sa_scan_wavelength args)),
      (''signal_fraction'', jopt F (sm_signal_fraction (an_metrics a))), (''balance_error'', jopt F (sm_balance_error (an_metrics a))),
      (''snr_estimate'', jopt F (sm_snr_estimate (an_metrics a))), (''threshold_charge'', jopt F (sm_threshold_charge (an_metrics a))),
      (''integrate_start'', JInt (integrate_start (an_window a))), (''integrate_stop'', JInt (integrate_stop (an_window a))),
      (''peak_index'', JInt (peak_index (an_window a))), (''onset_index'', JInt (onset_index (an_window a))),
      (''output_dir'', JStr point_dir)]"

definition summary_fields :: "string list" where
  "summary_fields = [''channel'', ''intensity'', ''scan_wavelength'', ''signal_fraction'', ''balance_error'', ''snr_estimate'',
     ''threshold_charge'', ''integrate_start'', ''integrate_stop'', ''peak_index'', ''onset_index'', ''output_dir'']"

definition analyse_point ::
  "('s, 'f) sc_env \<Rightarrow> 'f sa \<Rightarrow> int list \<Rightarrow> (int \<times> ChargeWindow) list \<Rightarrow> int \<Rightarrow> string \<Rightarrow> string \<Rightarrow> (string \<Rightarrow> jobject \<Rightarrow> ('s, unit) py) \<Rightarrow>
   ('s, jobject list) py" where
  "analyse_point env args chs windows intensity point_dir raw_dir save =
     m_bind (m_get (\<lambda>s. analyze_raw_dir (sc_np env) (read_dat env s) raw_dir chs (nat (sa_waveform_len args)) windows (sa_interp args)
        (sa_waveforms args) (sa_charge_clip_negative args) (sa_target_signal_fraction args))) (\<lambda>r.
     m_bind (m_lift r) (\<lambda>analysis.
     m_bind (utc_now_iso env) (\<lambda>now.
     m_then (write_json env (sub_path point_dir ''analysis.json'') (JObj
        [(''created_utc'', JStr now), (''intensity'', JInt intensity), (''scan_wavelength'', JStr (sa_scan_wavelength args)),
         (''led_biases'', biases_json args intensity),
         (''analysis'', JObj (map (\<lambda>(ch, a). (int_to_str ch, an_json a)) analysis))]))
     (m_then (save ''analyzed'' [(''analysis_json'', JStr (sub_path point_dir ''analysis.json'')), (''channels'', JList (map JInt chs))])
     (m_then (save_plot env (sub_path point_dir ''charge_histograms.png''))
     (m_lift (r_map (\<lambda>ch. r_bind (r_of_option KeyError (map_of analysis ch)) (\<lambda>a.
        Inr (point_row (sc_np env) args intensity point_dir ch a))) chs)))))))"

definition scan_point ::
  "('s, 'f) sc_env \<Rightarrow> 'f sa \<Rightarrow> int list \<Rightarrow> int list \<Rightarrow> string \<Rightarrow> (int \<times> ChargeWindow) list \<Rightarrow> int \<Rightarrow> ('s, jobject list) py" where
  "scan_point env args chs afe_list out_dir windows intensity =
     (let point_dir = sub_path (sub_path out_dir ''points'') (''intensity_'' @ fmt_04d intensity); raw_dir = sub_path point_dir ''raw'';
          save = (\<lambda>created monitors status rest.
            write_json env (sub_path point_dir ''metadata.json'') (point_meta args out_dir created ''scan_point'' intensity monitors status rest)) in
      m_then (mkdir env point_dir) (m_then (mkdir env raw_dir)
      (m_bind (utc_now_iso env) (\<lambda>created.
       m_bind (led_start env args intensity point_dir) (\<lambda>led_info.
       m_bind (m_lift (info_rc led_info)) (\<lambda>rc.
       let led = led_fields args intensity led_info rc in
       if rc \<noteq> 0 then m_then (save created [] ''led_failed'' led) (m_ret [])
       else
         m_then (settle env args)
         (m_bind (bias_readings env args afe_list point_dir) (\<lambda>monitors.
          m_bind (acquire_point env args chs (sa_waveforms args) raw_dir point_dir) (\<lambda>(rc_acq, cmd).
          let acq = led @ [(''acquire_returncode'', JInt rc_acq), (''acquire_command'', JList (map JStr cmd))] in
          if rc_acq \<noteq> 0 then m_then (save created monitors ''acquire_failed'' acq) (m_ret [])
          else if sa_dry_run args then m_then (save created monitors ''dry_run'' acq) (m_ret [])
          else analyse_point env args chs windows intensity point_dir raw_dir
            (\<lambda>status rest. save created monitors status (acq @ rest)))))))))))"

definition scan_manifest :: "'f np_ops \<Rightarrow> 'f sa \<Rightarrow> int list \<Rightarrow> int list \<Rightarrow> int list \<Rightarrow> string \<Rightarrow> json \<Rightarrow> json" where
  "scan_manifest F args chs afe_list intensities created fe = JObj
     [(''created_utc'', JStr created), (''host'', JStr (sa_host args)), (''port'', JInt (sa_port args)), (''route'', JStr (sa_route args)),
      (''channels'', JList (map JInt chs)), (''waveforms'', JInt (sa_waveforms args)),
      (''calibration_waveforms'', JInt (sa_calibration_waveforms args)), (''waveform_len'', JInt (sa_waveform_len args)),
      (''intensity_values'', JList (map JInt intensities)), (''scan_wavelength'', JStr (sa_scan_wavelength args)),
      (''calibration_intensity'', JInt (sa_calibration_intensity args)),
      (''target_signal_fraction'', jfloat F (sa_target_signal_fraction args)),
      (''pulse_width_ticks'', JInt (sa_pulse_width_ticks args)), (''led_channel_mask'', JInt (sa_led_channel_mask args)),
      (''led_ssh_tunnel'', JStr (led_ssh_tunnel (sa_link args))),
      (''led_ssh_tunnel_remote_host'', JStr (led_ssh_tunnel_remote_host (sa_link args))),
      (''led_ssh_tunnel_remote_port'', JInt (led_ssh_tunnel_remote_port (sa_link args))),
      (''bias_monitor_afes'', JList (map JInt afe_list)), (''bias_monitor_board'', JStr (monitor_board args)),
      (''bias_monitor_timeout_ms'', JInt (sa_bias_monitor_timeout_ms args)),
      (''charge_window_anchor'', JStr (sa_charge_window_anchor args)), (''charge_pre_samples'', JInt (sa_charge_pre_samples args)),
      (''charge_post_samples'', JInt (sa_charge_post_samples args)),
      (''charge_window_len_legacy'', JInt (ca_integrate_len (sa_calib args))),
      (''charge_window_offset_legacy'', JInt (ca_integrate_offset (sa_calib args))),
      (''charge_baseline_start'', JInt (ca_baseline_start (sa_calib args))), (''charge_baseline_stop'', JInt (ca_baseline_stop (sa_calib args))),
      (''charge_search_start'', JInt (ca_search_start (sa_calib args))), (''charge_search_stop'', JInt (ca_search_stop (sa_calib args))),
      (''dry_run'', JBool (sa_dry_run args)), (''fe_state_readback'', fe)]"

definition read_back :: "('s, 'f) sc_env \<Rightarrow> 'f sa \<Rightarrow> string \<Rightarrow> ('s, json) py" where
  "read_back env args out_dir =
     (if sa_skip_fe_readback args then m_ret (JObj [(''skipped'', JBool True)])
      else m_bind (run_fe_state_readback (sc_rt env) (sc_python env) (sa_host args) (sa_port args) (sa_route args) (sa_timeout_ms args)
          (sub_path out_dir ''fe_state_readback.log'') (sub_path out_dir ''fe_state_readback.json'') (sa_dry_run args))
        (\<lambda>info. m_ret (JObj info)))"

definition charge_windows :: "('s, 'f) sc_env \<Rightarrow> 'f sa \<Rightarrow> int list \<Rightarrow> int list \<Rightarrow> string \<Rightarrow> ('s, (int \<times> ChargeWindow) list option) py" where
  "charge_windows env args chs afe_list out_dir =
     (if sa_charge_windows_json args \<noteq> [] then m_bind (load_windows env args chs) (\<lambda>w. m_ret (Some w))
      else calibration_run env args chs afe_list out_dir)"

definition write_summaries :: "('s, 'f) sc_env \<Rightarrow> string \<Rightarrow> jobject list \<Rightarrow> ('s, unit) py" where
  "write_summaries env out_dir point_rows =
     m_when (point_rows \<noteq> [])
       (m_then (save_csv env (sub_path out_dir ''summary_by_point.csv'') summary_fields (map JObj point_rows))
         (m_bind (m_lift (choose_best_by_channel (sc_np env) (float_int env) point_rows)) (\<lambda>best_rows.
          save_csv env (sub_path out_dir ''best_by_channel.csv'') summary_fields (map JObj best_rows))))"

definition scan_points ::
  "('s, 'f) sc_env \<Rightarrow> 'f sa \<Rightarrow> int list \<Rightarrow> int list \<Rightarrow> int list \<Rightarrow> string \<Rightarrow> (int \<times> ChargeWindow) list \<Rightarrow> ('s, int) py" where
  "scan_points env args chs afe_list intensities out_dir windows =
     m_bind (m_map (scan_point env args chs afe_list out_dir windows) intensities) (\<lambda>point_rows.
     m_bind (run_led_stop (sc_rt env) (sa_led_stop_client args) (sa_link args) (sub_path out_dir ''led_stop.log'') (sa_dry_run args)) (\<lambda>_.
     m_then (write_summaries env out_dir (concat point_rows)) (m_ret 0)))"

definition scan_main :: "('s, 'f) sc_env \<Rightarrow> 'f sa \<Rightarrow> ('s, int) py" where
  "scan_main env args =
     m_bind (m_lift (parse_channels (sa_channels args))) (\<lambda>chs.
     m_bind (m_lift (parse_channels (sa_bias_monitor_afes args))) (\<lambda>afe_list.
     m_bind (m_lift (inclusive_range (sa_intensity_start args) (sa_intensity_stop args) (sa_intensity_step args))) (\<lambda>intensities.
     let out_dir = resolve_path env (sa_output_dir args) in
     m_then (mkdir env out_dir) (m_then (mkdir env (sub_path out_dir ''points''))
     (m_bind (utc_now_iso env) (\<lambda>created.
      m_bind (read_back env args out_dir) (\<lambda>fe.
      m_then (write_json env (sub_path out_dir ''scan_manifest.json'') (scan_manifest (sc_np env) args chs afe_list intensities created fe))
      (m_bind (charge_windows env args chs afe_list out_dir) (\<lambda>r.
       case r of
         None \<Rightarrow> m_ret 1
       | Some windows \<Rightarrow> scan_points env args chs afe_list intensities out_dir windows))))))))) "

section \<open>The programs a scan runs\<close>

definition led_at :: "('s, 'f) sc_env \<Rightarrow> 'f sa \<Rightarrow> int \<Rightarrow> string list" where
  "led_at env args intensity = led_command (sc_rt env) (sa_led_client args) (sa_led_config args) (sa_link args)
     \<lparr>led_channel_mask = sa_led_channel_mask args, led_number_channels = sa_led_number_channels args,
      led_pulse_width_ticks = sa_pulse_width_ticks args,
      led_intensity_270nm = (if sa_scan_wavelength args = ''270'' then intensity else sa_fixed_bias_270nm args),
      led_intensity_367nm = (if sa_scan_wavelength args = ''367'' then intensity else sa_fixed_bias_367nm args)\<rparr>"

definition monitor_commands :: "('s, 'f) sc_env \<Rightarrow> 'f sa \<Rightarrow> int list \<Rightarrow> string list list" where
  "monitor_commands env args afe_list =
     map (\<lambda>afe. bias_command (sc_rt env) (sc_python env) (monitor_board args) (sa_host args) (sa_port args) afe (sa_bias_monitor_timeout_ms args)) afe_list"

definition acquire_at :: "('s, 'f) sc_env \<Rightarrow> 'f sa \<Rightarrow> int list \<Rightarrow> int \<Rightarrow> string \<Rightarrow> string list" where
  "acquire_at env args chs waveforms raw_dir = acquire_command (sc_rt env) (sc_python env)
     \<lparr>aq_host = sa_host args, aq_port = sa_port args, aq_route = sa_route args, aq_raw_dir = raw_dir, aq_channels = chs,
      aq_waveforms = waveforms, aq_waveform_len = sa_waveform_len args, aq_timeout_ms = sa_timeout_ms args,
      aq_software_trigger = sa_software_trigger args\<rparr>"

definition stop_command :: "('s, 'f) sc_env \<Rightarrow> 'f sa \<Rightarrow> string list" where
  "stop_command env args = led_stop_command (sc_rt env) (sa_led_stop_client args) (sa_link args)"

text \<open>The programs of one point: the LED is started at the intensity, then, unless that failed, the bias monitors are
  read and the acquisition runs.\<close>

definition point_run :: "('s, 'f) sc_env \<Rightarrow> 'f sa \<Rightarrow> int list \<Rightarrow> int list \<Rightarrow> int \<Rightarrow> int \<Rightarrow> string list list \<Rightarrow> bool" where
  "point_run env args chs afe_list waveforms intensity cmds \<longleftrightarrow>
     cmds = [led_at env args intensity] \<or>
     (\<exists>raw_dir. cmds = led_at env args intensity # monitor_commands env args afe_list @ [acquire_at env args chs waveforms raw_dir])"

definition unless_dry :: "'f sa \<Rightarrow> 'c list \<Rightarrow> 'c list" where
  "unless_dry args cs = (if sa_dry_run args then [] else cs)"

text \<open>The read-back before the scan.\<close>

definition rb_commands :: "('s, 'f) sc_env \<Rightarrow> 'f sa \<Rightarrow> string list list" where
  "rb_commands env args = (if sa_skip_fe_readback args then []
     else [readback_command (sc_rt env) (sc_python env) (sa_host args) (sa_port args) (sa_route args) (sa_timeout_ms args)])"

text \<open>A log of the programs that were run: only running a program adds to it.\<close>

locale program_log =
  fixes env :: "('s, 'f) sc_env" and runs :: "'s \<Rightarrow> string list list"
  assumes p_run: "run_prog (sc_rt env) cmd s = (Inr x, t) \<Longrightarrow> runs t = runs s @ [cmd]"
    and p_quiet: "runs (snd (write_file (sc_rt env) p txt s)) = runs s" "runs (snd (utc_now_iso env s)) = runs s"
      "runs (snd (mkdir env p s)) = runs s" "runs (snd (sleep_s env d s)) = runs s" "runs (snd (save_csv env p ks rs s)) = runs s"
      "runs (snd (save_plot env p s)) = runs s" "runs (snd (print_err env p s)) = runs s"
begin

abbreviation P :: "(string list list \<Rightarrow> bool) \<Rightarrow> ('s, 'a) py \<Rightarrow> ('a \<Rightarrow> string list list \<Rightarrow> bool) \<Rightarrow> bool" where
  "P \<equiv> ptriple runs"

lemma quiet_p [pwp]:
  "P (\<lambda>g. Q () g) (write_file (sc_rt env) p txt) Q" "P (\<lambda>g. \<forall>x. R x g) (utc_now_iso env) R"
  "P (\<lambda>g. Q () g) (mkdir env p) Q" "P (\<lambda>g. Q () g) (sleep_s env d) Q" "P (\<lambda>g. Q () g) (save_csv env p ks rs) Q"
  "P (\<lambda>g. Q () g) (save_plot env p) Q" "P (\<lambda>g. Q () g) (print_err env p) Q"
  unfolding ptriple_def using p_quiet by (metis old.unit.exhaust snd_conv)+

lemma run_prog_p [pwp]: "P (\<lambda>g. \<forall>x. Q x (g @ [cmd])) (run_prog (sc_rt env) cmd) Q"
  unfolding ptriple_def using p_run by metis

lemma run_cmd_p [pwp]: "P (\<lambda>g. \<forall>x. Q x (g @ (if dry then [] else [cmd]))) (run_cmd (sc_rt env) cmd log dry) Q"
  unfolding run_cmd_def Let_def by (rule ptriple_weaken, (rule pwp)+) auto

lemma run_and_report_p [pwp]: "P (\<lambda>g. \<forall>x. Q x (g @ (if dry then [] else [cmd]))) (run_and_report (sc_rt env) cmd log dry) Q"
  unfolding run_and_report_def by (rule ptriple_weaken, (rule pwp)+) auto

lemma led_start_p [pwp]:
  "P (\<lambda>g. \<forall>x. Q x (g @ unless_dry args [led_at env args intensity])) (led_start env args intensity folder) Q"
  unfolding led_start_def Let_def run_led_def
  by (rule ptriple_weaken, (rule pwp)+) (auto simp: led_at_def resolve_led_biases_def unless_dry_def)

lemma stop_p [pwp]:
  "P (\<lambda>g. \<forall>x. Q x (g @ unless_dry args [stop_command env args])) (run_led_stop (sc_rt env) (sa_led_stop_client args) (sa_link args) log (sa_dry_run args)) Q"
  unfolding run_led_stop_def by (rule ptriple_weaken, (rule pwp)+) (simp add: stop_command_def unless_dry_def)

lemma run_bias_monitor_p [pwp]:
  "P (\<lambda>g. \<forall>x. Q x (g @ (if dry then [] else [bias_command (sc_rt env) py board host port afe tm])))
     (run_bias_monitor (sc_rt env) py board host port afe tm log dry) Q"
  unfolding run_bias_monitor_def Let_def by (rule ptriple_weaken, (rule pwp)+) auto

lemma bias_p [pwp]:
  "P (\<lambda>g. \<forall>x. Q x (g @ unless_dry args (monitor_commands env args afe_list))) (bias_readings env args afe_list folder) Q"
  unfolding bias_readings_def monitor_commands_def
proof (induction afe_list arbitrary: Q)
  case Nil
  show ?case by (rule ptriple_weaken, simp, (rule pwp)+) (simp add: unless_dry_def)
next
  case (Cons afe afe_list)
  show ?case unfolding m_map.simps
    by (rule ptriple_weaken, (rule pwp Cons)+) (auto simp: unless_dry_def)
qed

lemma acquire_p [pwp]:
  "P (\<lambda>g. \<forall>x. Q x (g @ unless_dry args [acquire_at env args chs waveforms raw_dir])) (acquire_point env args chs waveforms raw_dir folder) Q"
  unfolding acquire_point_def run_acquire_def Let_def
  by (rule ptriple_weaken, (rule pwp)+) (auto simp: acquire_at_def unless_dry_def)

lemma settle_p [pwp]: "P (\<lambda>g. Q () g) (settle env args) Q"
  unfolding settle_def by (rule ptriple_weaken, (rule pwp)+) auto

lemma write_json_p [pwp]: "P (\<lambda>g. Q () g) (write_json env p v) Q"
  unfolding write_json_def by (rule quiet_p)

lemma store_windows_p [pwp]: "P (\<lambda>g. \<forall>x. Q x g) (store_windows env args chs cal_dir cal_raw) Q"
  unfolding store_windows_def by (rule ptriple_weaken, (rule pwp ptriple_get)+) auto

lemma load_windows_p [pwp]: "P (\<lambda>g. \<forall>x. Q x g) (load_windows env args chs) Q"
  unfolding load_windows_def by (rule ptriple_weaken, (rule pwp ptriple_get)+) auto

lemma analyse_p [pwp]:
  assumes "\<And>st rest Q. P (\<lambda>g. Q () g) (save st rest) Q"
  shows "P (\<lambda>g. \<forall>x. Q x g) (analyse_point env args chs windows intensity point_dir raw_dir save) Q"
  unfolding analyse_point_def by (rule ptriple_weaken, (rule assms pwp ptriple_get)+) auto

lemma scan_point_p [pwp]:
  assumes "\<not> sa_dry_run args"
  shows "P (\<lambda>g. \<forall>x cs. point_run env args chs afe_list (sa_waveforms args) intensity cs \<longrightarrow> Q x (g @ cs))
     (scan_point env args chs afe_list out_dir windows intensity) Q"
  unfolding scan_point_def Let_def
  by (rule ptriple_weaken, (rule pwp)+) (use assms in \<open>auto simp: unless_dry_def point_run_def\<close>)

lemma calibration_p [pwp]:
  assumes "\<not> sa_dry_run args"
  shows "P (\<lambda>g. \<forall>x cs. point_run env args chs afe_list (sa_calibration_waveforms args) (sa_calibration_intensity args) cs \<longrightarrow> Q x (g @ cs))
     (calibration_run env args chs afe_list out_dir) Q"
  unfolding calibration_run_def Let_def
  by (rule ptriple_weaken, (rule pwp)+) (use assms in \<open>auto simp: unless_dry_def point_run_def\<close>)

lemma points_p:
  assumes "\<not> sa_dry_run args"
  shows "P (\<lambda>g. \<forall>x pts. list_all2 (point_run env args chs afe_list (sa_waveforms args)) intensities pts \<longrightarrow> Q x (g @ concat pts))
     (m_map (scan_point env args chs afe_list out_dir windows) intensities) Q"
proof (induction intensities arbitrary: Q)
  case Nil
  show ?case by (rule ptriple_weaken, simp, rule pwp) simp
next
  case (Cons i rest)
  have step: "(\<forall>x pts. list_all2 R (i # rest) pts \<longrightarrow> Q x (g @ concat pts)) \<Longrightarrow> R i cs \<Longrightarrow> list_all2 R rest pts \<Longrightarrow> Q x (g @ cs @ concat pts)"
    for R g cs pts and Q :: "jobject list list \<Rightarrow> string list list \<Rightarrow> bool" and x
    by (drule spec2 [of _ x "cs # pts"]) simp
  show ?case unfolding m_map.simps
    by (rule ptriple_weaken, (rule Cons scan_point_p [OF assms] pwp)+) (auto intro: step)
qed

lemma except_p [pwp]: "P A m Q \<Longrightarrow> (\<And>s. runs (snd (m s)) = runs s) \<Longrightarrow> (\<And>e. P (B e) (h e) Q) \<Longrightarrow> P (\<lambda>g. A g \<and> (\<forall>e. B e g)) (m_except m h) Q"
  unfolding ptriple_def m_except_def m_try_def
  by (auto simp: py_run split: prod.splits sum.splits if_splits) (metis snd_conv)+

lemma read_back_p [pwp]:
  "P (\<lambda>g. \<forall>x. Q x (g @ unless_dry args (rb_commands env args))) (read_back env args out_dir) Q"
proof -
  have quiet: "runs (snd (m_bind (m_lift r) (\<lambda>config. m_then (write_file (sc_rt env) jp (body config)) (m_ret (out config)))  s)) = runs s"
    for r jp body s and out :: "json \<Rightarrow> jobject"
    by (cases r) (simp_all add: m_then_def m_bind_def py_run p_quiet split: prod.split sum.split, metis p_quiet(1) snd_conv)
  show ?thesis
    unfolding read_back_def run_fe_state_readback_def Let_def
    by (rule ptriple_weaken, (rule quiet pwp)+) (auto simp: unless_dry_def rb_commands_def)
qed

lemma windows_p [pwp]:
  assumes "\<not> sa_dry_run args"
  shows "P (\<lambda>g. \<forall>x cs. (if sa_charge_windows_json args \<noteq> [] then x \<noteq> None \<and> cs = []
        else point_run env args chs afe_list (sa_calibration_waveforms args) (sa_calibration_intensity args) cs) \<longrightarrow> Q x (g @ cs))
     (charge_windows env args chs afe_list out_dir) Q"
  unfolding charge_windows_def
  by (rule ptriple_weaken, (rule calibration_p [OF assms] pwp)+) auto

lemma summaries_p [pwp]: "P (\<lambda>g. Q () g) (write_summaries env out_dir point_rows) Q"
  unfolding write_summaries_def by (rule ptriple_weaken, (rule pwp)+) auto

lemma scan_points_p:
  assumes "\<not> sa_dry_run args"
  shows "P (\<lambda>g. \<forall>pts. list_all2 (point_run env args chs afe_list (sa_waveforms args)) intensities pts \<longrightarrow> Q 0 (g @ concat pts @ [stop_command env args]))
     (scan_points env args chs afe_list intensities out_dir windows) Q"
  unfolding scan_points_def
  by (rule ptriple_weaken, (rule points_p [OF assms] pwp)+) (use assms in \<open>auto simp: unless_dry_def\<close>)

text \<open>The programs of a scan that returns: it returns 0 after the points and the stop, 1 after the calibration.\<close>

lemma scan_main_p:
  assumes "\<not> sa_dry_run args" "parse_channels (sa_channels args) = Inr chs" "parse_channels (sa_bias_monitor_afes args) = Inr afe_list"
    and "inclusive_range (sa_intensity_start args) (sa_intensity_stop args) (sa_intensity_step args) = Inr intensities"
  shows "P (\<lambda>g. g = g0) (scan_main env args) (\<lambda>rc g. \<exists>cal.
     (if sa_charge_windows_json args \<noteq> [] then cal = [] \<and> rc = 0
      else point_run env args chs afe_list (sa_calibration_waveforms args) (sa_calibration_intensity args) cal) \<and>
     (rc = 0 \<and> (\<exists>pts. list_all2 (point_run env args chs afe_list (sa_waveforms args)) intensities pts \<and>
          g = g0 @ rb_commands env args @ cal @ concat pts @ [stop_command env args])
      \<or> rc = 1 \<and> g = g0 @ rb_commands env args @ cal))"
  unfolding scan_main_def assms(2-4) m_bind_lift Let_def
  by (rule ptriple_weaken, (rule windows_p [OF assms(1)] ptriple_option scan_points_p [OF assms(1)] pwp)+)
     (use assms(1) in \<open>force simp: unless_dry_def split: option.splits if_splits\<close>)

text \<open>Without a program run the log stays as it is, on every exit.\<close>

lemma quiet_keeps [py_preserves]:
  "preserves (\<lambda>s. runs s = g) (write_file (sc_rt env) p t)" "preserves (\<lambda>s. runs s = g) (utc_now_iso env)"
  "preserves (\<lambda>s. runs s = g) (mkdir env p)" "preserves (\<lambda>s. runs s = g) (sleep_s env d)" "preserves (\<lambda>s. runs s = g) (save_csv env p ks rs)"
  "preserves (\<lambda>s. runs s = g) (save_plot env p)" "preserves (\<lambda>s. runs s = g) (print_err env p)"
  by (simp_all add: preserves_def p_quiet)

lemma dry_run_keeps [py_preserves]:
  "preserves (\<lambda>s. runs s = g) (run_cmd (sc_rt env) cmd log True)"
  "preserves (\<lambda>s. runs s = g) (run_acquire (sc_rt env) py a log True)"
  "preserves (\<lambda>s. runs s = g) (run_fe_state_readback (sc_rt env) py host port rt tm log jp True)"
  by (auto simp: run_cmd_def run_acquire_def run_fe_state_readback_def Let_def intro!: py_preserves)

lemma dry_point_keeps [py_preserves]:
  assumes "sa_dry_run args"
  shows "preserves (\<lambda>s. runs s = g) (scan_point env args chs afe_list out_dir windows intensity)"
    and "preserves (\<lambda>s. runs s = g) (calibration_run env args chs afe_list out_dir)"
  using assms
  by (auto simp: scan_point_def calibration_run_def Let_def led_start_def run_led_def run_and_report_def settle_def write_json_def
      bias_readings_def run_bias_monitor_def acquire_point_def intro!: py_preserves)

lemma dry_main_keeps:
  assumes "sa_dry_run args"
  shows "preserves (\<lambda>s. runs s = g) (scan_main env args)"
proof -
  have "preserves (\<lambda>s. runs s = g) (scan_points env args chs afe_list intensities out_dir windows)" for chs afe_list intensities out_dir windows
    unfolding scan_points_def write_summaries_def run_led_stop_def run_and_report_def eqTrueI [OF assms]
    by (intro py_preserves assms)
  moreover have "preserves (\<lambda>s. runs s = g) (charge_windows env args chs afe_list out_dir)" for chs afe_list out_dir
    unfolding charge_windows_def load_windows_def by (intro py_preserves assms)
  moreover have "preserves (\<lambda>s. runs s = g) (read_back env args out_dir)" for out_dir
    unfolding read_back_def eqTrueI [OF assms] by (intro py_preserves)
  ultimately show ?thesis
    unfolding scan_main_def write_json_def Let_def by (intro py_preserves)
qed

end

section \<open>The best point of a channel\<close>

text \<open>The order of the numbers that are not NaN.\<close>

locale float_order =
  fixes F :: "'f np_ops" and num :: "'f \<Rightarrow> bool"
  assumes less_irrefl: "num a \<Longrightarrow> \<not> np_less F a a"
    and less_trans: "num a \<Longrightarrow> num b \<Longrightarrow> num c \<Longrightarrow> np_less F a b \<Longrightarrow> np_less F b c \<Longrightarrow> np_less F a c"
    and eq_iff: "num a \<Longrightarrow> num b \<Longrightarrow> np_eq F a b \<longleftrightarrow> \<not> np_less F a b \<and> \<not> np_less F b a"
    and eq_trans: "num a \<Longrightarrow> num b \<Longrightarrow> num c \<Longrightarrow> np_eq F a b \<Longrightarrow> np_eq F b c \<Longrightarrow> np_eq F a c"
begin

definition num_key :: "'f \<times> 'f \<Rightarrow> bool" where
  "num_key k \<longleftrightarrow> num (fst k) \<and> num (snd k)"

lemma key_irrefl: "num_key a \<Longrightarrow> \<not> key_less F a a"
  by (simp add: key_less_def num_key_def less_irrefl)

lemma less_eq_trans:
  "num a \<Longrightarrow> num b \<Longrightarrow> num c \<Longrightarrow> np_less F a b \<Longrightarrow> np_eq F b c \<Longrightarrow> np_less F a c"
  "num a \<Longrightarrow> num b \<Longrightarrow> num c \<Longrightarrow> np_eq F a b \<Longrightarrow> np_less F b c \<Longrightarrow> np_less F a c"
  by (metis eq_iff eq_trans less_trans)+

lemma key_trans: "num_key a \<Longrightarrow> num_key b \<Longrightarrow> num_key c \<Longrightarrow> key_less F a b \<Longrightarrow> key_less F b c \<Longrightarrow> key_less F a c"
  unfolding key_less_def num_key_def by (metis eq_iff eq_trans less_trans less_eq_trans)

lemma min_row_least:
  "(\<forall>y \<in> set (x # xs). num_key (fst y)) \<Longrightarrow>
     min_row F x xs \<in> set (x # xs) \<and> (\<forall>y \<in> set (x # xs). \<not> key_less F (fst y) (fst (min_row F x xs)))"
proof (induction xs rule: rev_induct)
  case Nil
  then show ?case by (simp add: min_row_def key_irrefl)
next
  case (snoc y xs)
  let ?m = "min_row F x xs"
  have IH: "?m \<in> set (x # xs)" "\<forall>z \<in> set (x # xs). \<not> key_less F (fst z) (fst ?m)" using snoc by auto
  have num: "num_key (fst y)" "num_key (fst ?m)" "\<forall>z \<in> set (x # xs). num_key (fst z)" using snoc.prems IH(1) by auto
  have step: "min_row F x (xs @ [y]) = (if key_less F (fst y) (fst ?m) then y else ?m)" by (simp add: min_row_def)
  show ?case
  proof (cases "key_less F (fst y) (fst ?m)")
    case True
    then have "\<forall>z \<in> set (x # xs). \<not> key_less F (fst z) (fst y)" using IH(2) num key_trans by blast
    with True show ?thesis using key_irrefl num(1) by (auto simp: step)
  next
    case False
    then show ?thesis using IH by (auto simp: step)
  qed
qed

text \<open>The rows that have a signal fraction are the candidates; the best has no candidate below it.\<close>

lemma best_of_least:
  assumes "best_of F rs = Inr (Some row)" and "\<And>r k. r \<in> set rs \<Longrightarrow> best_key F r = Inr k \<Longrightarrow> num_key k"
  shows "row \<in> set rs \<and> row_field row ''signal_fraction'' \<noteq> JNull \<and> (\<exists>k. best_key F row = Inr k \<and>
    (\<forall>r \<in> set rs. row_field r ''signal_fraction'' \<noteq> JNull \<longrightarrow> (\<exists>k'. best_key F r = Inr k' \<and> \<not> key_less F k' k)))"
proof -
  let ?cs = "filter (\<lambda>row. row_field row ''signal_fraction'' \<noteq> JNull) rs"
  obtain keyed where keyed: "r_map (\<lambda>r. r_bind (best_key F r) (\<lambda>k. Inr (k, r))) ?cs = Inr keyed"
    and row: "(case keyed of [] \<Rightarrow> None | x # xs \<Rightarrow> Some (snd (min_row F x xs))) = Some row"
    using assms(1) by (auto simp: best_of_def r_bind_ok)
  obtain x xs where x: "keyed = x # xs" "row = snd (min_row F x xs)" using row by (cases keyed) auto
  have cs: "set ?cs = snd ` set keyed" using r_map_tag [OF keyed] by (metis set_map)
  then have kr: "\<forall>y \<in> set keyed. snd y \<in> set ?cs \<and> best_key F (snd y) = Inr (fst y)"
    using r_map_tag [OF keyed] by blast
  have all: "\<exists>y \<in> set keyed. snd y = r" if "r \<in> set ?cs" for r using that unfolding cs by blast
  have "\<forall>y \<in> set (x # xs). num_key (fst y)"
  proof
    fix y assume "y \<in> set (x # xs)"
    then have "snd y \<in> set rs" "best_key F (snd y) = Inr (fst y)" using kr x(1) by auto
    then show "num_key (fst y)" by (rule assms(2))
  qed
  from min_row_least [OF this] have m: "min_row F x xs \<in> set keyed" "\<forall>y \<in> set keyed. \<not> key_less F (fst y) (fst (min_row F x xs))"
    by (simp_all add: x(1))
  have "\<exists>k'. best_key F r = Inr k' \<and> \<not> key_less F k' (fst (min_row F x xs))" if "r \<in> set ?cs" for r
    using all [OF that] kr m(2) by blast
  then show ?thesis using kr m(1) x(2) by auto
qed

lemma best_of_some:
  "best_of F rs = Inr b \<Longrightarrow> b = None \<longleftrightarrow> (\<forall>r \<in> set rs. row_field r ''signal_fraction'' = JNull)"
proof -
  assume "best_of F rs = Inr b"
  then obtain keyed where keyed: "r_map (\<lambda>r. r_bind (best_key F r) (\<lambda>k. Inr (k, r))) (filter (\<lambda>row. row_field row ''signal_fraction'' \<noteq> JNull) rs) = Inr keyed"
    and b: "b = (case keyed of [] \<Rightarrow> None | x # xs \<Rightarrow> Some (snd (min_row F x xs)))"
    by (auto simp: best_of_def r_bind_ok)
  have "b = None \<longleftrightarrow> keyed = []" by (simp add: b split: list.split)
  also have "\<dots> \<longleftrightarrow> filter (\<lambda>row. row_field row ''signal_fraction'' \<noteq> JNull) rs = []"
    using r_map_tag [OF keyed] by (metis Nil_is_map_conv)
  finally show ?thesis by (simp add: filter_empty_conv)
qed

end

section \<open>Properties\<close>

text \<open>C28: A scan that returns has run exactly these programs: the read-back unless it is skipped, one calibration run
  (none with a file of windows), and, when it returns 0, one point per intensity in the order of the range followed
  by the LED stop as the last program of all. It returns 1 only out of the calibration, and then it has started the
  LED and has not stopped it.\<close>

theorem scan_programs:
  assumes "program_log env runs" and "\<not> sa_dry_run args"
    and "parse_channels (sa_channels args) = Inr chs" "parse_channels (sa_bias_monitor_afes args) = Inr afe_list"
    and "inclusive_range (sa_intensity_start args) (sa_intensity_stop args) (sa_intensity_step args) = Inr intensities"
    and "scan_main env args s = (Inr rc, t)"
  shows "\<exists>cal.
     (if sa_charge_windows_json args \<noteq> [] then cal = [] \<and> rc = 0
      else point_run env args chs afe_list (sa_calibration_waveforms args) (sa_calibration_intensity args) cal) \<and>
     (rc = 0 \<and> (\<exists>pts. list_all2 (point_run env args chs afe_list (sa_waveforms args)) intensities pts \<and>
          runs t = runs s @ rb_commands env args @ cal @ concat pts @ [stop_command env args])
      \<or> rc = 1 \<and> runs t = runs s @ rb_commands env args @ cal)"
  using ptripleD [OF program_log.scan_main_p [OF assms(1-5), of "runs s"] refl assms(6)] .

text \<open>A dry run of the scan runs no program, neither LED nor acquisition, whether it returns or raises.\<close>

theorem scan_dry_run_inert:
  assumes "program_log env runs" and "sa_dry_run args"
  shows "runs (snd (scan_main env args s)) = runs s"
  using program_log.dry_main_keeps [OF assms, of "runs s"] by (simp add: preserves_def)

lemma present_results:
  assumes "list_all2 (\<lambda>c b. g c = Inr b) cs bs" and "\<And>c row. g c = Inr (Some row) \<Longrightarrow> key row = Inr c"
  shows "map key (concat (map (\<lambda>b. case b of None \<Rightarrow> [] | Some row \<Rightarrow> [row]) bs)) = map Inr (filter (\<lambda>c. g c \<noteq> Inr None) cs)
    \<and> set (concat (map (\<lambda>b. case b of None \<Rightarrow> [] | Some row \<Rightarrow> [row]) bs)) = {row. \<exists>c \<in> set cs. g c = Inr (Some row)}"
  using assms(1)
proof (induction rule: list_all2_induct)
  case (Cons c cs b bs)
  then show ?case using assms(2) by (cases b) auto
qed simp

text \<open>The best rows of a scan: there is one row for exactly the channels that have a row with a signal fraction,
  in increasing order of the channels; each is a row of its channel, and no row of that channel with a signal fraction
  has a smaller balance error, or the same balance error and a larger signal-to-noise ratio.\<close>

theorem best_rows_least:
  assumes "float_order F num" and "choose_best_by_channel F tr point_rows = Inr best"
    and "\<And>r k. r \<in> set point_rows \<Longrightarrow> best_key F r = Inr k \<Longrightarrow> num (fst k) \<and> num (snd k)"
  shows "\<exists>chs. sorted_wrt (<) chs \<and> map (row_channel tr) best = map Inr chs \<and>
    set chs = {ch. \<exists>r \<in> set point_rows. row_channel tr r = Inr ch \<and> row_field r ''signal_fraction'' \<noteq> JNull} \<and>
    (\<forall>row \<in> set best. row \<in> set point_rows \<and> (\<forall>r \<in> set point_rows.
       row_channel tr r = row_channel tr row \<longrightarrow> row_field r ''signal_fraction'' \<noteq> JNull \<longrightarrow>
       (\<exists>k k'. best_key F row = Inr k \<and> best_key F r = Inr k' \<and> \<not> key_less F k' k)))"
proof -
  obtain tagged bests where
    tagged: "r_map (\<lambda>row. r_bind (row_channel tr row) (\<lambda>ch. Inr (ch, row))) point_rows = Inr tagged" and
    bests: "list_all2 (\<lambda>ch b. best_of F (map snd (filter (\<lambda>x. fst x = ch) tagged)) = Inr b) (sort (remdups (map fst tagged))) bests" and
    best: "best = concat (map (\<lambda>b. case b of None \<Rightarrow> [] | Some row \<Rightarrow> [row]) bests)"
    using assms(2) by (auto simp: choose_best_by_channel_def r_bind_ok r_map_ok Let_def)
  define rows_at where "rows_at ch = map snd (filter (\<lambda>x. fst x = ch) tagged)" for ch
  have t: "map snd tagged = point_rows" "\<And>x. x \<in> set tagged \<Longrightarrow> row_channel tr (snd x) = Inr (fst x)"
    using r_map_tag [OF tagged] by auto
  have rows: "set (rows_at ch) = {r \<in> set point_rows. row_channel tr r = Inr ch}" for ch
    using t(2) by (force simp: rows_at_def t(1) [symmetric])
  let ?cs = "filter (\<lambda>ch. best_of F (rows_at ch) \<noteq> Inr None) (sort (remdups (map fst tagged)))"
  have least: "row \<in> set (rows_at ch) \<and> row_field row ''signal_fraction'' \<noteq> JNull \<and> (\<exists>k. best_key F row = Inr k \<and>
    (\<forall>r \<in> set (rows_at ch). row_field r ''signal_fraction'' \<noteq> JNull \<longrightarrow> (\<exists>k'. best_key F r = Inr k' \<and> \<not> key_less F k' k)))"
    if "best_of F (rows_at ch) = Inr (Some row)" for ch row
    by (rule float_order.best_of_least [OF assms(1) that])
       (simp add: rows float_order.num_key_def [OF assms(1)], rule assms(3), simp_all)
  have key: "row_channel tr row = Inr ch" if "best_of F (rows_at ch) = Inr (Some row)" for ch row
    using least [OF that] by (simp add: rows)
  from present_results [OF bests [folded rows_at_def], of "row_channel tr", OF key]
  have res: "map (row_channel tr) best = map Inr ?cs" "set best = {row. \<exists>ch \<in> set (map fst tagged). best_of F (rows_at ch) = Inr (Some row)}"
    by (simp_all add: best)
  have present: "ch \<in> set ?cs \<longleftrightarrow> (\<exists>r \<in> set (rows_at ch). row_field r ''signal_fraction'' \<noteq> JNull)" for ch
  proof (cases "ch \<in> set (map fst tagged)")
    case True
    then obtain i where "i < length (sort (remdups (map fst tagged)))" "sort (remdups (map fst tagged)) ! i = ch"
      by (metis in_set_conv_nth set_remdups set_sort)
    then have b: "best_of F (rows_at ch) = Inr (bests ! i)" using list_all2_nthD [OF bests, of i] by (simp add: rows_at_def)
    with True show ?thesis using float_order.best_of_some [OF assms(1) b] by auto
  next
    case False
    then have "rows_at ch = []" by (auto simp: rows_at_def filter_empty_conv)
    with False show ?thesis by auto
  qed
  show ?thesis
  proof (intro exI [of _ ?cs] conjI ballI impI)
    show "sorted_wrt (<) ?cs" by (simp add: strict_sorted_iff sorted_wrt_filter)
    show "map (row_channel tr) best = map Inr ?cs" by (rule res)
  next
    show "set ?cs = {ch. \<exists>r \<in> set point_rows. row_channel tr r = Inr ch \<and> row_field r ''signal_fraction'' \<noteq> JNull}"
      using present by (auto simp: rows)
  next
    fix row assume "row \<in> set best"
    then obtain ch where ch: "best_of F (rows_at ch) = Inr (Some row)" using res(2) by auto
    show "row \<in> set point_rows" using least [OF ch] by (simp add: rows)
    fix r assume "r \<in> set point_rows" "row_channel tr r = row_channel tr row" "row_field r ''signal_fraction'' \<noteq> JNull"
    then show "\<exists>k k'. best_key F row = Inr k \<and> best_key F r = Inr k' \<and> \<not> key_less F k' k"
      using least [OF ch] key [OF ch] by (auto simp: rows)
  qed
qed

section \<open>A scan of one point\<close>

definition ref_sc :: "(string list \<Rightarrow> int) \<Rightarrow> (string list list, int) sc_env" where
  "ref_sc rc_of = \<lparr>
     sc_rt = \<lparr>run_prog = (\<lambda>cmd s. (Inr (rc_of cmd, [], []), s @ [cmd])), write_file = (\<lambda>p t. m_ret ()), loads = (\<lambda>t. None), dumps = (\<lambda>v. []),
       exc_str = (\<lambda>e. []), expanduser = (\<lambda>p. p), client_dir = ''client'', daphne_root = ''.''\<rparr>,
     sc_np = int_np, sc_python = ''python3'', utc_now_iso = m_ret ''now'', mkdir = (\<lambda>p. m_ret ()), sleep_s = (\<lambda>d. m_ret ()),
     read_dat = (\<lambda>s p. Inr []), read_text = (\<lambda>s p. Inl (OSError 2)), float_int = (\<lambda>r. Inl (ValueError r)),
     save_csv = (\<lambda>p ks rs. m_ret ()), save_plot = (\<lambda>p. m_ret ()), print_err = (\<lambda>l. m_ret ()), resolve_path = (\<lambda>p. p)\<rparr>"

interpretation ref_log: program_log "ref_sc rc_of" "\<lambda>s. s"
  for rc_of
  by unfold_locales (auto simp: ref_sc_def py_run)

interpretation int_order: float_order int_np "\<lambda>_. True"
  by unfold_locales (auto simp: int_np_def)

definition test_sa :: "int sa" where
  "test_sa = \<lparr>sa_output_dir = ''run'', sa_channels = ''4'', sa_host = ''127.0.0.1'', sa_port = 9876, sa_route = ''mezz/0'', sa_waveforms = 2,
     sa_calibration_waveforms = 2, sa_waveform_len = 8, sa_timeout_ms = 1000, sa_software_trigger = False, sa_scan_wavelength = ''270'',
     sa_intensity_start = 50, sa_intensity_stop = 50, sa_intensity_step = 50, sa_calibration_intensity = 1500, sa_target_signal_fraction = 1,
     sa_led_client = ''led_run'', sa_led_stop_client = ''led_stop'', sa_led_config = ''led.json'',
     sa_link = \<lparr>led_host = ''127.0.0.1'', led_port = 55001, led_ssh_tunnel = [], led_ssh_tunnel_remote_host = [], led_ssh_tunnel_remote_port = 55002,
       led_timeout_s = ''5.0''\<rparr>,
     sa_led_channel_mask = 1, sa_led_number_channels = 12, sa_pulse_width_ticks = 1, sa_fixed_bias_270nm = 0, sa_fixed_bias_367nm = 0,
     sa_settle_s = 0, sa_bias_monitor_afes = ''0'', sa_bias_monitor_board = [], sa_bias_monitor_timeout_ms = 4000, sa_charge_windows_json = [],
     sa_calib = test_calib, sa_charge_window_anchor = ''peak'', sa_charge_pre_samples = 4, sa_charge_post_samples = 12,
     sa_charge_clip_negative = False, sa_charge_hist_bins = 120, sa_interp = ''signed'', sa_skip_fe_readback = True, sa_dry_run = False\<rparr>"

text \<open>The LED command of the calibration fails.\<close>

theorem scan_programs_witness:
  "fst (scan_main (ref_sc (\<lambda>cmd. 1)) test_sa []) = Inr 1 \<and>
   (\<exists>cal. point_run (ref_sc (\<lambda>cmd. 1)) test_sa [4] [0] 2 1500 cal \<and> snd (scan_main (ref_sc (\<lambda>cmd. 1)) test_sa []) = cal)"
proof -
  have parse: "parse_channels (sa_channels test_sa) = Inr [4]" "parse_channels (sa_bias_monitor_afes test_sa) = Inr [0]"
    "inclusive_range (sa_intensity_start test_sa) (sa_intensity_stop test_sa) (sa_intensity_step test_sa) = Inr [50]"
    by code_simp+
  have args: "\<not> sa_dry_run test_sa" "sa_skip_fe_readback test_sa" "sa_charge_windows_json test_sa = []" by (simp_all add: test_sa_def)
  have run: "run_and_report (sc_rt (ref_sc (\<lambda>cmd. 1))) cmd log False s =
      (Inr [(''command'', JList (map JStr cmd)), (''returncode'', JInt 1), (''output'', JStr (py_strip []))], s @ [cmd])" for cmd log s
    by (simp add: run_and_report_def run_cmd_def ref_sc_def py_run combine_output_def)
  have quiet: "mkdir (ref_sc rc_of) p s = (Inr (), s)" "utc_now_iso (ref_sc rc_of) s = (Inr ''now'', s)" "print_err (ref_sc rc_of) p s = (Inr (), s)"
    "write_json (ref_sc rc_of) p v s = (Inr (), s)" for rc_of p s v
    by (simp_all add: ref_sc_def write_json_def py_run)
  have rc: "fst (scan_main (ref_sc (\<lambda>cmd. 1)) test_sa []) = Inr 1"
    by (simp add: scan_main_def parse read_back_def args charge_windows_def calibration_run_def led_start_def run_led_def run info_rc_def
        Let_def py_run quiet)
  then have "scan_main (ref_sc (\<lambda>cmd. 1)) test_sa [] = (Inr 1, snd (scan_main (ref_sc (\<lambda>cmd. 1)) test_sa []))"
    by (metis prod.collapse)
  from scan_programs [OF ref_log.program_log_axioms _ parse this] rc show ?thesis
    by (auto simp: test_sa_def rb_commands_def)
qed

theorem scan_dry_run_inert_witness:
  "snd (scan_main (ref_sc (\<lambda>cmd. 1)) (test_sa\<lparr>sa_dry_run := True\<rparr>) []) = []"
  using scan_dry_run_inert [OF ref_log.program_log_axioms, of "test_sa\<lparr>sa_dry_run := True\<rparr>" "\<lambda>cmd. 1" "[]"] by simp

definition test_row :: "int \<Rightarrow> int \<Rightarrow> jobject" where
  "test_row ch err = [(''channel'', JInt ch), (''signal_fraction'', JInt 1), (''balance_error'', JInt err), (''snr_estimate'', JInt 2)]"

theorem best_rows_least_witness:
  "\<exists>chs. sorted_wrt (<) chs \<and> map (row_channel (\<lambda>r. Inl TypeError)) [test_row 4 2, test_row 5 1] = map Inr chs \<and>
     (\<exists>k k'. best_key int_np (test_row 5 1) = Inr k \<and> best_key int_np (test_row 5 3) = Inr k' \<and> \<not> key_less int_np k' k)"
proof -
  have best: "choose_best_by_channel int_np (\<lambda>r. Inl TypeError) [test_row 5 3, test_row 4 2, test_row 5 1] = Inr [test_row 4 2, test_row 5 1]"
    by code_simp
  have row: "row_channel (\<lambda>r. Inl TypeError) (test_row ch err) = Inr ch" "row_field (test_row ch err) ''signal_fraction'' \<noteq> JNull" for ch err
    by (simp_all add: test_row_def row_channel_def row_field_def)
  show ?thesis
    using best_rows_least [OF int_order.float_order_axioms best conjI [OF TrueI TrueI]] by (elim exE conjE) (auto simp: row)
qed

end
