(* ===== verification/Fe_Config.thy ===== *)
theory Fe_Config
  imports Afe_Function Py_Float "HOL-Library.AList"
begin

text \<open>
  The front-end configuration message and how \<open>client/configure_fe_min_v2.py\<close> builds it: the messages
  \<open>ConfigureRequest\<close>, \<open>ChannelConfig\<close> and \<open>AFEConfig\<close> of \<open>srcs/protobuf/daphneV3_high_level_confs.proto\<close>
  as records, \<open>make_default_config\<close> with the range checks that assigning an unsigned protobuf field makes,
  the parsers of the \<open>KEY:VALUE\<close> options, the conversions to DAC codes and the overrides. Floating-point
  arithmetic is the parameter \<open>'f float_ops\<close>.
\<close>

section \<open>Messages\<close>

record ADCConfig =
  adc_resolution :: bool
  adc_output_format :: bool
  adc_sb_first :: bool

record PGAConfig =
  pga_lpf_cut_frequency :: int
  pga_integrator_disable :: bool
  pga_gain :: bool

record LNAConfig =
  lna_clamp :: int
  lna_gain :: int
  lna_integrator_disable :: bool

record ChannelConfig =
  ch_id :: int
  ch_trim :: int
  ch_offset :: int
  ch_gain :: int

record AFEConfig =
  afe_id :: int
  attenuators :: int
  v_bias :: int
  adc :: ADCConfig
  pga :: PGAConfig
  lna :: LNAConfig

record ConfigureRequest =
  daphne_address :: string
  slot :: int
  req_timeout_ms :: int
  biasctrl :: int
  self_trigger_threshold :: int
  self_trigger_xcorr :: int
  tp_conf :: int
  compensator :: int
  inverters :: int
  channels :: "ChannelConfig list"
  afes :: "AFEConfig list"
  full_stream_channels :: "int list"

text \<open>Assigning an unsigned field of 32 or 64 bits.\<close>

definition uint_field :: "nat \<Rightarrow> int \<Rightarrow> int result" where
  "uint_field w v = (if 0 \<le> v \<and> v < 2 ^ w then Inr v else Inl (ValueError ''Value out of range''))"

lemma uint_field_ok [simp]: "uint_field w v = Inr x \<longleftrightarrow> x = v \<and> 0 \<le> v \<and> v < 2 ^ w"
  by (auto simp: uint_field_def)

section \<open>The default request\<close>

record cfg_params =
  p_ip :: string
  p_slot :: int
  p_timeout_ms :: int
  p_biasctrl :: int
  p_self_trigger_threshold :: int
  p_self_trigger_xcorr :: int
  p_tp_conf :: int
  p_compensator :: int
  p_inverters :: int
  p_per_ch_trim :: int
  p_per_ch_offset :: int
  p_vgain :: int
  p_lpf_cutoff :: int
  p_pga_clamp_level :: int
  p_pga_gain :: int
  p_lna_gain :: int
  p_lna_clamp :: int

definition default_params :: cfg_params where
  "default_params = \<lparr>p_ip = ''10.73.137.161'', p_slot = 0, p_timeout_ms = 500, p_biasctrl = 1300,
     p_self_trigger_threshold = 0xc, p_self_trigger_xcorr = 0x68, p_tp_conf = 0x0010DB35,
     p_compensator = 0xFFFFFFFFFF, p_inverters = 0xFF00000000, p_per_ch_trim = 0, p_per_ch_offset = 2275,
     p_vgain = 1600, p_lpf_cutoff = 4, p_pga_clamp_level = 2, p_pga_gain = 0, p_lna_gain = 2, p_lna_clamp = 0\<rparr>"

definition default_channel :: "cfg_params \<Rightarrow> int \<Rightarrow> ChannelConfig result" where
  "default_channel p ch =
     r_bind (uint_field 32 (p_per_ch_trim p)) (\<lambda>tr.
     r_bind (uint_field 32 (p_per_ch_offset p)) (\<lambda>off.
     Inr \<lparr>ch_id = ch, ch_trim = tr, ch_offset = off, ch_gain = 1\<rparr>))"

definition set_adc_fields :: "bool \<Rightarrow> bool \<Rightarrow> bool \<Rightarrow> ADCConfig \<Rightarrow> ADCConfig" where
  "set_adc_fields resolution output_format sb_first a =
     a\<lparr>adc_resolution := resolution, adc_output_format := output_format, adc_sb_first := sb_first\<rparr>"

definition empty_adc :: ADCConfig where
  "empty_adc = \<lparr>adc_resolution = False, adc_output_format = False, adc_sb_first = False\<rparr>"

definition default_afe :: "cfg_params \<Rightarrow> int \<Rightarrow> AFEConfig result" where
  "default_afe p a =
     r_bind (uint_field 32 (p_vgain p)) (\<lambda>att.
     r_bind (uint_field 32 (p_lpf_cutoff p)) (\<lambda>lpf.
     r_bind (uint_field 32 (p_lna_clamp p)) (\<lambda>clamp.
     r_bind (uint_field 32 (p_lna_gain p)) (\<lambda>gain.
     Inr \<lparr>afe_id = a, attenuators = att, v_bias = 0, adc = set_adc_fields True True False empty_adc,
        pga = \<lparr>pga_lpf_cut_frequency = lpf, pga_integrator_disable = True, pga_gain = (p_pga_gain p \<noteq> 0)\<rparr>,
        lna = \<lparr>lna_clamp = clamp, lna_gain = gain, lna_integrator_disable = True\<rparr>\<rparr>))))"

definition make_default_config :: "cfg_params \<Rightarrow> ConfigureRequest result" where
  "make_default_config p =
     r_bind (uint_field 32 (p_slot p)) (\<lambda>sl.
     r_bind (uint_field 32 (p_timeout_ms p)) (\<lambda>tmo.
     r_bind (uint_field 32 (p_biasctrl p)) (\<lambda>bc.
     r_bind (uint_field 64 (p_self_trigger_threshold p)) (\<lambda>thr.
     r_bind (uint_field 64 (p_self_trigger_xcorr p)) (\<lambda>xc.
     r_bind (uint_field 64 (p_tp_conf p)) (\<lambda>tp.
     r_bind (uint_field 64 (p_compensator p)) (\<lambda>comp.
     r_bind (uint_field 64 (p_inverters p)) (\<lambda>inv.
     r_bind (r_map (default_channel p) (py_range 40)) (\<lambda>chs.
     r_bind (r_map (default_afe p) (py_range 5)) (\<lambda>afs.
     Inr \<lparr>daphne_address = p_ip p, slot = sl, req_timeout_ms = tmo, biasctrl = bc, self_trigger_threshold = thr,
        self_trigger_xcorr = xc, tp_conf = tp, compensator = comp, inverters = inv, channels = chs, afes = afs,
        full_stream_channels = []\<rparr>))))))))))"

section \<open>Options\<close>

definition AFE_MIN :: int where "AFE_MIN = 0"
definition AFE_MAX :: int where "AFE_MAX = 4"
definition CH_MIN :: int where "CH_MIN = 0"
definition CH_MAX :: int where "CH_MAX = 39"
definition BIAS_DAC_MIN :: int where "BIAS_DAC_MIN = 0"
definition BIAS_DAC_MAX :: int where "BIAS_DAC_MAX = 4095"

definition bias_volts_to_dac :: "'f float_ops \<Rightarrow> 'f \<Rightarrow> int result" where
  "bias_volts_to_dac F volts =
     f_round F (f_mul F (f_mul F (f_div F (f_lit F ''26.1'') (f_add F (f_lit F ''26.1'') (f_lit F ''1000.0'')))
       (f_lit F ''1000.0'')) volts)"

definition bias_control_volts_to_dac :: "'f float_ops \<Rightarrow> 'f \<Rightarrow> int result" where
  "bias_control_volts_to_dac F volts =
     f_round F (f_mul F (f_mul F (f_div F (f_lit F ''1.0'') (f_lit F ''74.0'')) volts) (f_lit F ''1000.0''))"

definition parse_kv_item :: "'f float_ops \<Rightarrow> int \<Rightarrow> int \<Rightarrow> string \<Rightarrow> (int \<times> 'f) list result" where
  "parse_kv_item F lo hi raw =
     (let item = py_strip raw in
      if item = [] then Inr []
      else case split_once CHR '':'' item of
        None \<Rightarrow> Inl (ValueError ''expected KEY:VALUE'')
      | Some (key_s, value_s) \<Rightarrow>
          r_bind (r_of_option (ValueError ''invalid literal for int()'') (py_int0 (py_strip key_s))) (\<lambda>key.
          if key < lo \<or> key > hi then Inl (ValueError ''out of range'')
          else r_bind (r_of_option (ValueError ''could not convert string to float'') (f_parse F (py_strip value_s)))
            (\<lambda>value. Inr [(key, value)])))"

definition parse_kv_tokens :: "'f float_ops \<Rightarrow> int \<Rightarrow> int \<Rightarrow> string list \<Rightarrow> (int \<times> 'f) list result" where
  "parse_kv_tokens F lo hi tokens =
     r_bind (r_map (parse_kv_item F lo hi) (concat (map (split_on CHR '','') tokens))) (\<lambda>outs. Inr (concat outs))"

definition parse_afe_kv_tokens :: "'f float_ops \<Rightarrow> string list \<Rightarrow> (int \<times> 'f) list result" where
  "parse_afe_kv_tokens F = parse_kv_tokens F AFE_MIN AFE_MAX"

definition parse_channel_kv_tokens :: "'f float_ops \<Rightarrow> string list \<Rightarrow> (int \<times> 'f) list result" where
  "parse_channel_kv_tokens F = parse_kv_tokens F CH_MIN CH_MAX"

definition validate_dac_range :: "int \<Rightarrow> int result" where
  "validate_dac_range value =
     (if value < BIAS_DAC_MIN \<or> value > BIAS_DAC_MAX then Inl (ValueError ''DAC out of range'') else Inr value)"

text \<open>One pass over parsed pairs: convert, check, and set the entry of the dictionary.\<close>

definition set_overrides ::
  "('f \<Rightarrow> int result) \<Rightarrow> (int \<times> 'f) list \<Rightarrow> (int \<times> int) list \<Rightarrow> (int \<times> int) list result" where
  "set_overrides conv =
     r_fold (\<lambda>(key, value) d. r_bind (conv value) (\<lambda>n. r_bind (validate_dac_range n) (\<lambda>n. Inr (AList.update key n d))))"

record 'f fe_args =
  fa_host :: string
  fa_port :: int
  fa_route :: string
  fa_timeout :: int
  fa_cfg_timeout_ms :: "int option"
  fa_full :: bool
  fa_json :: bool
  fa_vgain :: int
  fa_ch_offset :: int
  fa_align_afes :: bool
  fa_lpf_cutoff :: int
  fa_pga_clamp_level :: string
  fa_pga_gain_control :: string
  fa_lna_gain_control :: string
  fa_lna_input_clamp :: string
  fa_adc_resolution :: int
  fa_biasctrl_dac :: int
  fa_biasctrl_volts :: "'f option"
  fa_afe_bias_dac :: "string list"
  fa_afe_bias_volts :: "string list"
  fa_ch_trim :: "string list"

definition fe_defaults :: "'f fe_args" where
  "fe_defaults = \<lparr>fa_host = ''127.0.0.1'', fa_port = 9876, fa_route = ''mezz/0'', fa_timeout = 6000, fa_cfg_timeout_ms = None,
     fa_full = False, fa_json = False, fa_vgain = 1600, fa_ch_offset = 2275, fa_align_afes = False, fa_lpf_cutoff = 10,
     fa_pga_clamp_level = ''0 dBFS'', fa_pga_gain_control = ''24 dB'', fa_lna_gain_control = ''12 dB'',
     fa_lna_input_clamp = ''auto'', fa_adc_resolution = 1, fa_biasctrl_dac = 1300, fa_biasctrl_volts = None,
     fa_afe_bias_dac = [], fa_afe_bias_volts = [], fa_ch_trim = []\<rparr>"

definition lookup :: "('k \<times> 'v) list \<Rightarrow> 'k \<Rightarrow> 'v result" where
  "lookup d k = r_of_option KeyError (map_of d k)"

definition biasctrl_code :: "'f float_ops \<Rightarrow> 'f fe_args \<Rightarrow> int result" where
  "biasctrl_code F args =
     r_bind (case fa_biasctrl_volts args of None \<Rightarrow> Inr (fa_biasctrl_dac args)
       | Some v \<Rightarrow> bias_control_volts_to_dac F v) validate_dac_range"

definition afe_bias_overrides :: "'f float_ops \<Rightarrow> 'f fe_args \<Rightarrow> (int \<times> int) list result" where
  "afe_bias_overrides F args =
     r_bind (parse_afe_kv_tokens F (fa_afe_bias_dac args)) (\<lambda>dacs.
     r_bind (set_overrides (f_round F) dacs []) (\<lambda>d.
     r_bind (parse_afe_kv_tokens F (fa_afe_bias_volts args)) (\<lambda>volts.
     set_overrides (bias_volts_to_dac F) volts d)))"

definition channel_trim_overrides :: "'f float_ops \<Rightarrow> 'f fe_args \<Rightarrow> (int \<times> int) list result" where
  "channel_trim_overrides F args =
     r_bind (parse_channel_kv_tokens F (fa_ch_trim args)) (\<lambda>kvs. set_overrides (f_round F) kvs [])"

definition apply_afe :: "(int \<times> int) list \<Rightarrow> bool \<Rightarrow> AFEConfig \<Rightarrow> AFEConfig" where
  "apply_afe ov resolution a =
     (case map_of ov (afe_id a) of None \<Rightarrow> a | Some v \<Rightarrow> a\<lparr>v_bias := v\<rparr>)
       \<lparr>adc := adc a\<lparr>adc_resolution := resolution\<rparr>\<rparr>"

definition apply_channel :: "(int \<times> int) list \<Rightarrow> ChannelConfig \<Rightarrow> ChannelConfig" where
  "apply_channel ov c = (case map_of ov (ch_id c) of None \<Rightarrow> c | Some v \<Rightarrow> c\<lparr>ch_trim := v\<rparr>)"

text \<open>Everything \<open>main\<close> computes from its arguments before the first message.\<close>

definition fe_config :: "'f float_ops \<Rightarrow> 'f fe_args \<Rightarrow> (ConfigureRequest \<times> (int \<times> int) list) result" where
  "fe_config F args =
     r_bind (lookup lpf_dict (fa_lpf_cutoff args)) (\<lambda>lpf_val.
     r_bind (lookup pga_clamp_level_dict (fa_pga_clamp_level args)) (\<lambda>pga_clamp_val.
     r_bind (lookup pga_gain_control_dict (fa_pga_gain_control args)) (\<lambda>pga_gain_val.
     r_bind (lookup lna_gain_control_dict (fa_lna_gain_control args)) (\<lambda>lna_gain_val.
     r_bind (lookup lna_input_clamp_dict (fa_lna_input_clamp args)) (\<lambda>lna_clamp_val.
     r_bind (biasctrl_code F args) (\<lambda>biasctrl_dac.
     r_bind (afe_bias_overrides F args) (\<lambda>bias_ov.
     r_bind (channel_trim_overrides F args) (\<lambda>trim_ov.
     r_bind (make_default_config (default_params\<lparr>p_ip := fa_host args,
         p_timeout_ms := (case fa_cfg_timeout_ms args of None \<Rightarrow> fa_timeout args | Some t \<Rightarrow> t),
         p_biasctrl := biasctrl_dac, p_per_ch_offset := fa_ch_offset args, p_vgain := fa_vgain args,
         p_lpf_cutoff := lpf_val, p_pga_clamp_level := pga_clamp_val, p_pga_gain := pga_gain_val,
         p_lna_gain := lna_gain_val, p_lna_clamp := lna_clamp_val\<rparr>)) (\<lambda>cfg.
     Inr (cfg\<lparr>channels := map (apply_channel trim_ov) (channels cfg),
              afes := map (apply_afe bias_ov (fa_adc_resolution args \<noteq> 0)) (afes cfg)\<rparr>, bias_ov))))))))))"

section \<open>What the default request holds\<close>

definition params_ok :: "cfg_params \<Rightarrow> bool" where
  "params_ok p \<longleftrightarrow>
     list_all (\<lambda>v. 0 \<le> v \<and> v < 2 ^ 32)
       [p_slot p, p_timeout_ms p, p_biasctrl p, p_per_ch_trim p, p_per_ch_offset p, p_vgain p, p_lpf_cutoff p,
        p_lna_clamp p, p_lna_gain p] \<and>
     list_all (\<lambda>v. 0 \<le> v \<and> v < 2 ^ 64)
       [p_self_trigger_threshold p, p_self_trigger_xcorr p, p_tp_conf p, p_compensator p, p_inverters p]"

definition channel_of :: "cfg_params \<Rightarrow> int \<Rightarrow> ChannelConfig" where
  "channel_of p ch = \<lparr>ch_id = ch, ch_trim = p_per_ch_trim p, ch_offset = p_per_ch_offset p, ch_gain = 1\<rparr>"

definition afe_of :: "cfg_params \<Rightarrow> int \<Rightarrow> AFEConfig" where
  "afe_of p a = \<lparr>afe_id = a, attenuators = p_vgain p, v_bias = 0,
     adc = \<lparr>adc_resolution = True, adc_output_format = True, adc_sb_first = False\<rparr>,
     pga = \<lparr>pga_lpf_cut_frequency = p_lpf_cutoff p, pga_integrator_disable = True, pga_gain = (p_pga_gain p \<noteq> 0)\<rparr>,
     lna = \<lparr>lna_clamp = p_lna_clamp p, lna_gain = p_lna_gain p, lna_integrator_disable = True\<rparr>\<rparr>"

definition default_request :: "cfg_params \<Rightarrow> ConfigureRequest" where
  "default_request p = \<lparr>daphne_address = p_ip p, slot = p_slot p, req_timeout_ms = p_timeout_ms p, biasctrl = p_biasctrl p,
     self_trigger_threshold = p_self_trigger_threshold p, self_trigger_xcorr = p_self_trigger_xcorr p,
     tp_conf = p_tp_conf p, compensator = p_compensator p, inverters = p_inverters p,
     channels = map (channel_of p) (py_range 40), afes = map (afe_of p) (py_range 5), full_stream_channels = []\<rparr>"

lemma default_channel_ok:
  "default_channel p ch = Inr c \<longleftrightarrow>
     c = channel_of p ch \<and> list_all (\<lambda>v. 0 \<le> v \<and> v < 2 ^ 32) [p_per_ch_trim p, p_per_ch_offset p]"
  by (auto simp: default_channel_def channel_of_def r_bind_ok)

lemma default_afe_ok:
  "default_afe p a = Inr c \<longleftrightarrow>
     c = afe_of p a \<and> list_all (\<lambda>v. 0 \<le> v \<and> v < 2 ^ 32) [p_vgain p, p_lpf_cutoff p, p_lna_clamp p, p_lna_gain p]"
  by (auto simp: default_afe_def afe_of_def r_bind_ok set_adc_fields_def empty_adc_def)

lemma r_map_guarded:
  assumes "\<And>x y. f x = Inr y \<longleftrightarrow> y = g x \<and> P" and "xs \<noteq> []"
  shows "r_map f xs = Inr ys \<longleftrightarrow> ys = map g xs \<and> P"
proof
  assume a: "r_map f xs = Inr ys"
  then have all: "list_all2 (\<lambda>x y. y = g x \<and> P) xs ys" by (simp add: r_map_ok assms(1))
  then have "length ys = length xs" by (simp add: list_all2_lengthD)
  with all have "ys = map g xs" by (auto simp: list_all2_conv_all_nth intro: nth_equalityI)
  moreover have P using all assms(2) by (cases xs; cases ys) auto
  ultimately show "ys = map g xs \<and> P" by simp
next
  assume "ys = map g xs \<and> P"
  then show "r_map f xs = Inr ys" using assms(1) by (simp add: r_map_ret)
qed

lemma make_default_config_ok: "make_default_config p = Inr cfg \<longleftrightarrow> cfg = default_request p \<and> params_ok p"
proof -
  have ch: "r_map (default_channel p) (py_range 40) = Inr ys \<longleftrightarrow>
      ys = map (channel_of p) (py_range 40) \<and> list_all (\<lambda>v. 0 \<le> v \<and> v < 2 ^ 32) [p_per_ch_trim p, p_per_ch_offset p]" for ys
    by (rule r_map_guarded) (simp_all only: default_channel_ok, simp add: py_range_def)
  have af: "r_map (default_afe p) (py_range 5) = Inr ys \<longleftrightarrow>
      ys = map (afe_of p) (py_range 5) \<and>
      list_all (\<lambda>v. 0 \<le> v \<and> v < 2 ^ 32) [p_vgain p, p_lpf_cutoff p, p_lna_clamp p, p_lna_gain p]" for ys
    by (rule r_map_guarded) (simp_all only: default_afe_ok, simp add: py_range_def)
  show ?thesis
    unfolding make_default_config_def r_bind_ok ch af uint_field_ok params_ok_def default_request_def
    by auto
qed

section \<open>Overrides\<close>

lemma set_overrides_spec:
  assumes "set_overrides conv kvs d = Inr d'"
  shows "(case map_of (rev kvs) k of
      Some x \<Rightarrow> \<exists>n. conv x = Inr n \<and> map_of d' k = Some n \<and> 0 \<le> n \<and> n \<le> 4095
    | None \<Rightarrow> map_of d' k = map_of d k)"
  using assms
proof (induction kvs arbitrary: d)
  case Nil
  then show ?case by (simp add: set_overrides_def)
next
  case (Cons kv kvs)
  obtain key v where kv: "kv = (key, v)" by (cases kv)
  with Cons.prems obtain n where n: "conv v = Inr n" "0 \<le> n" "n \<le> 4095" and
    rest: "set_overrides conv kvs (AList.update key n d) = Inr d'"
    by (auto simp: set_overrides_def r_bind_ok validate_dac_range_def BIAS_DAC_MIN_def BIAS_DAC_MAX_def split: if_splits)
  from Cons.IH [OF rest] n kv show ?case
    by (auto simp: map_add_def update_conv' split: option.splits)
qed

lemma set_overrides_distinct:
  assumes "set_overrides conv kvs d = Inr d'" and "distinct (map fst d)"
  shows "distinct (map fst d')"
  by (rule r_fold_invariant [OF assms(1) [unfolded set_overrides_def], where I = "\<lambda>d. distinct (map fst d)"])
    (use assms(2) distinct_update in \<open>auto simp: r_bind_ok\<close>)

lemma parse_kv_item_keys: "parse_kv_item F lo hi raw = Inr kvs \<Longrightarrow> (k, v) \<in> set kvs \<Longrightarrow> lo \<le> k \<and> k \<le> hi"
  by (auto simp: parse_kv_item_def Let_def r_bind_ok split: if_splits option.splits)

lemma parse_kv_tokens_keys:
  assumes "parse_kv_tokens F lo hi ts = Inr kvs" and "(k, v) \<in> set kvs"
  shows "lo \<le> k \<and> k \<le> hi"
proof -
  from assms(1) obtain outs where outs: "list_all2 (\<lambda>x y. parse_kv_item F lo hi x = Inr y) (concat (map (split_on CHR '','') ts)) outs"
    "kvs = concat outs"
    by (auto simp: parse_kv_tokens_def r_bind_ok r_map_ok)
  with assms(2) obtain i where i: "i < length outs" "(k, v) \<in> set (outs ! i)"
    by (auto simp: in_set_conv_nth [where xs = outs])
  show ?thesis by (rule parse_kv_item_keys [OF list_all2_nthD2 [OF outs(1) i(1)] i(2)])
qed

lemma afe_bias_overrides_ok:
  assumes "afe_bias_overrides F args = Inr ov"
  shows "\<exists>dacs volts. parse_afe_kv_tokens F (fa_afe_bias_dac args) = Inr dacs \<and>
    parse_afe_kv_tokens F (fa_afe_bias_volts args) = Inr volts \<and> distinct (map fst ov) \<and>
    (\<forall>k. (case map_of ov k of None \<Rightarrow> Inr 0 | Some v \<Rightarrow> Inr v) =
       (case map_of (rev volts) k of Some x \<Rightarrow> bias_volts_to_dac F x
        | None \<Rightarrow> case map_of (rev dacs) k of Some x \<Rightarrow> f_round F x | None \<Rightarrow> Inr 0)) \<and>
    (\<forall>k v. map_of ov k = Some v \<longrightarrow> 0 \<le> v \<and> v \<le> 4095)"
proof -
  from assms obtain dacs d volts where p: "parse_afe_kv_tokens F (fa_afe_bias_dac args) = Inr dacs"
      "parse_afe_kv_tokens F (fa_afe_bias_volts args) = Inr volts" and
    d: "set_overrides (f_round F) dacs [] = Inr d" and ov: "set_overrides (bias_volts_to_dac F) volts d = Inr ov"
    by (auto simp: afe_bias_overrides_def r_bind_ok)
  have "distinct (map fst ov)"
    using set_overrides_distinct [OF ov set_overrides_distinct [OF d]] by simp
  moreover have "(case map_of ov k of None \<Rightarrow> Inr 0 | Some v \<Rightarrow> Inr v) =
       (case map_of (rev volts) k of Some x \<Rightarrow> bias_volts_to_dac F x
        | None \<Rightarrow> case map_of (rev dacs) k of Some x \<Rightarrow> f_round F x | None \<Rightarrow> Inr 0)" for k
    using set_overrides_spec [OF d, of k] set_overrides_spec [OF ov, of k] by (auto split: option.splits)
  moreover have "0 \<le> v \<and> v \<le> 4095" if "map_of ov k = Some v" for k v
    using that set_overrides_spec [OF d, of k] set_overrides_spec [OF ov, of k] by (auto split: option.splits)
  ultimately show ?thesis using p by blast
qed

lemma channel_trim_overrides_ok:
  assumes "channel_trim_overrides F args = Inr ov"
  shows "\<exists>kvs. parse_channel_kv_tokens F (fa_ch_trim args) = Inr kvs \<and>
    (\<forall>k. (case map_of ov k of None \<Rightarrow> Inr 0 | Some v \<Rightarrow> Inr v) =
       (case map_of (rev kvs) k of Some x \<Rightarrow> f_round F x | None \<Rightarrow> Inr 0)) \<and>
    (\<forall>k v. map_of ov k = Some v \<longrightarrow> 0 \<le> v \<and> v \<le> 4095)"
proof -
  from assms obtain kvs where p: "parse_channel_kv_tokens F (fa_ch_trim args) = Inr kvs" and
    d: "set_overrides (f_round F) kvs [] = Inr ov"
    by (auto simp: channel_trim_overrides_def r_bind_ok)
  have "(case map_of ov k of None \<Rightarrow> Inr 0 | Some v \<Rightarrow> Inr v) =
       (case map_of (rev kvs) k of Some x \<Rightarrow> f_round F x | None \<Rightarrow> Inr 0)" for k
    using set_overrides_spec [OF d, of k] by (auto split: option.splits)
  moreover have "0 \<le> v \<and> v \<le> 4095" if "map_of ov k = Some v" for k v
    using that set_overrides_spec [OF d, of k] by (auto split: option.splits)
  ultimately show ?thesis using p by blast
qed

lemma map_apply_ids [simp]:
  "map ch_id (map (apply_channel ov) cs) = map ch_id cs" "map afe_id (map (apply_afe bv r) as) = map afe_id as"
  by (auto simp: apply_channel_def apply_afe_def split: option.split)

lemma default_ids [simp]:
  "map (ch_id \<circ> channel_of p) xs = xs" "map (afe_id \<circ> afe_of p) xs = xs"
  by (simp_all add: channel_of_def afe_of_def comp_def)

lemma fe_config_ok:
  assumes "fe_config F args = Inr (cfg, ov)"
  shows "\<exists>p trim_ov. params_ok p \<and> p_vgain p = fa_vgain args \<and> p_per_ch_offset p = fa_ch_offset args \<and> p_per_ch_trim p = 0 \<and>
    p_ip p = fa_host args \<and> biasctrl_code F args = Inr (p_biasctrl p) \<and> afe_bias_overrides F args = Inr ov \<and>
    channel_trim_overrides F args = Inr trim_ov \<and>
    cfg = (default_request p)\<lparr>channels := map (apply_channel trim_ov) (channels (default_request p)),
              afes := map (apply_afe ov (fa_adc_resolution args \<noteq> 0)) (afes (default_request p))\<rparr>"
proof -
  from assms obtain p trim_ov cfg0 where "make_default_config p = Inr cfg0" and
    p: "p_vgain p = fa_vgain args" "p_per_ch_offset p = fa_ch_offset args" "p_per_ch_trim p = 0" "p_ip p = fa_host args"
      "biasctrl_code F args = Inr (p_biasctrl p)" and
    ov: "afe_bias_overrides F args = Inr ov" "channel_trim_overrides F args = Inr trim_ov" and
    cfg: "cfg0\<lparr>channels := map (apply_channel trim_ov) (channels cfg0),
              afes := map (apply_afe ov (fa_adc_resolution args \<noteq> 0)) (afes cfg0)\<rparr> = cfg"
    unfolding fe_config_def r_bind_ok
    by (elim exE conjE) (rule that, assumption, simp_all add: default_params_def)
  then have "params_ok p" "cfg0 = default_request p" by (simp_all add: make_default_config_ok)
  with p ov cfg show ?thesis by blast
qed

lemma biasctrl_code_range: "biasctrl_code F args = Inr b \<Longrightarrow> 0 \<le> b \<and> b \<le> 4095"
  by (auto simp: biasctrl_code_def r_bind_ok validate_dac_range_def BIAS_DAC_MIN_def BIAS_DAC_MAX_def split: if_splits)

text \<open>C15: The request built from any accepted command line configures exactly the forty channels and the
  five AFEs, each once and in order. The bias code of an AFE is the last voltage given for it, else the
  last DAC code given for it, else 0, and the trim of a channel is the last one given for it, else 0; these codes and
  the bias control are within the twelve bits of the converters.\<close>

theorem fe_config_request:
  assumes "fe_config F args = Inr (cfg, ov)"
  shows "map ch_id (channels cfg) = py_range 40 \<and> map afe_id (afes cfg) = py_range 5 \<and>
    0 \<le> biasctrl cfg \<and> biasctrl cfg \<le> 4095 \<and>
    (\<exists>dacs volts trims. parse_afe_kv_tokens F (fa_afe_bias_dac args) = Inr dacs \<and>
       parse_afe_kv_tokens F (fa_afe_bias_volts args) = Inr volts \<and>
       parse_channel_kv_tokens F (fa_ch_trim args) = Inr trims \<and>
       (\<forall>a \<in> set (afes cfg). attenuators a = fa_vgain args \<and> 0 \<le> v_bias a \<and> v_bias a \<le> 4095 \<and>
          Inr (v_bias a) = (case map_of (rev volts) (afe_id a) of Some x \<Rightarrow> bias_volts_to_dac F x
            | None \<Rightarrow> case map_of (rev dacs) (afe_id a) of Some x \<Rightarrow> f_round F x | None \<Rightarrow> Inr 0)) \<and>
       (\<forall>c \<in> set (channels cfg). ch_offset c = fa_ch_offset args \<and> 0 \<le> ch_trim c \<and> ch_trim c \<le> 4095 \<and>
          Inr (ch_trim c) = (case map_of (rev trims) (ch_id c) of Some x \<Rightarrow> f_round F x | None \<Rightarrow> Inr 0)))"
proof -
  from fe_config_ok [OF assms] obtain p trim_ov where
    p: "p_vgain p = fa_vgain args" "p_per_ch_offset p = fa_ch_offset args" "p_per_ch_trim p = 0"
      "biasctrl_code F args = Inr (p_biasctrl p)" and
    ov: "afe_bias_overrides F args = Inr ov" "channel_trim_overrides F args = Inr trim_ov" and
    cfg: "cfg = (default_request p)\<lparr>channels := map (apply_channel trim_ov) (channels (default_request p)),
              afes := map (apply_afe ov (fa_adc_resolution args \<noteq> 0)) (afes (default_request p))\<rparr>"
    by blast
  have ids: "map ch_id (channels cfg) = py_range 40" "map afe_id (afes cfg) = py_range 5"
    by (simp_all add: cfg default_request_def del: map_map) simp_all
  have bc: "0 \<le> biasctrl cfg \<and> biasctrl cfg \<le> 4095" using biasctrl_code_range [OF p(4)] by (simp add: cfg default_request_def)
  have afe: "v_bias a = (case map_of ov (afe_id a) of None \<Rightarrow> 0 | Some v \<Rightarrow> v) \<and> attenuators a = fa_vgain args"
    if "a \<in> set (afes cfg)" for a
    using that p by (auto simp: cfg default_request_def apply_afe_def afe_of_def split: option.splits)
  have ch: "ch_trim c = (case map_of trim_ov (ch_id c) of None \<Rightarrow> 0 | Some v \<Rightarrow> v) \<and> ch_offset c = fa_ch_offset args"
    if "c \<in> set (channels cfg)" for c
    using that p by (auto simp: cfg default_request_def apply_channel_def channel_of_def split: option.splits)
  from afe_bias_overrides_ok [OF ov(1)] obtain dacs volts where
    b: "parse_afe_kv_tokens F (fa_afe_bias_dac args) = Inr dacs" "parse_afe_kv_tokens F (fa_afe_bias_volts args) = Inr volts"
      "\<And>k. (case map_of ov k of None \<Rightarrow> Inr 0 | Some v \<Rightarrow> Inr v) =
       (case map_of (rev volts) k of Some x \<Rightarrow> bias_volts_to_dac F x
        | None \<Rightarrow> case map_of (rev dacs) k of Some x \<Rightarrow> f_round F x | None \<Rightarrow> Inr 0)"
      "\<And>k v. map_of ov k = Some v \<Longrightarrow> 0 \<le> v \<and> v \<le> 4095"
    by blast
  from channel_trim_overrides_ok [OF ov(2)] obtain trims where
    t: "parse_channel_kv_tokens F (fa_ch_trim args) = Inr trims"
      "\<And>k. (case map_of trim_ov k of None \<Rightarrow> Inr 0 | Some v \<Rightarrow> Inr v) =
       (case map_of (rev trims) k of Some x \<Rightarrow> f_round F x | None \<Rightarrow> Inr 0)"
      "\<And>k v. map_of trim_ov k = Some v \<Longrightarrow> 0 \<le> v \<and> v \<le> 4095"
    by blast
  have "attenuators a = fa_vgain args \<and> 0 \<le> v_bias a \<and> v_bias a \<le> 4095 \<and>
      Inr (v_bias a) = (case map_of (rev volts) (afe_id a) of Some x \<Rightarrow> bias_volts_to_dac F x
            | None \<Rightarrow> case map_of (rev dacs) (afe_id a) of Some x \<Rightarrow> f_round F x | None \<Rightarrow> Inr 0)"
    if "a \<in> set (afes cfg)" for a
    unfolding b(3) [symmetric] using afe [OF that] b(4) by (auto split: option.splits)
  moreover have "ch_offset c = fa_ch_offset args \<and> 0 \<le> ch_trim c \<and> ch_trim c \<le> 4095 \<and>
      Inr (ch_trim c) = (case map_of (rev trims) (ch_id c) of Some x \<Rightarrow> f_round F x | None \<Rightarrow> Inr 0)"
    if "c \<in> set (channels cfg)" for c
    unfolding t(2) [symmetric] using ch [OF that] t(3) by (auto split: option.splits)
  ultimately show ?thesis using ids bc b(1,2) t(1) by blast
qed

definition example_fe :: "int fe_args" where
  "example_fe = fe_defaults\<lparr>fa_afe_bias_dac := [''1:1000, 0x1:1100''], fa_ch_trim := [''12:5'']\<rparr>"

lemma int_floats_round: "f_round int_floats x = Inr x"
  by (simp add: int_floats_def)

lemma example_tokens:
  "parse_afe_kv_tokens int_floats [''1:1000, 0x1:1100''] = Inr [(1, 1000), (1, 1100)]"
  "parse_afe_kv_tokens int_floats [] = Inr []"
  "parse_channel_kv_tokens int_floats [''12:5''] = Inr [(12, 5)]"
  by code_simp+

lemma example_fe_config: "\<exists>cfg. fe_config int_floats example_fe = Inr (cfg, [(1, 1100)])"
proof -
  have "afe_bias_overrides int_floats example_fe = Inr [(1, 1100)]"
    "channel_trim_overrides int_floats example_fe = Inr [(12, 5)]" "biasctrl_code int_floats example_fe = Inr 1300"
    by (simp_all add: afe_bias_overrides_def channel_trim_overrides_def biasctrl_code_def example_fe_def fe_defaults_def
        example_tokens set_overrides_def validate_dac_range_def BIAS_DAC_MIN_def BIAS_DAC_MAX_def int_floats_round)
  then show ?thesis
    by (simp add: fe_config_def r_bind_ok make_default_config_ok lookup_def example_fe_def fe_defaults_def lpf_dict_def
        pga_clamp_level_dict_def pga_gain_control_dict_def lna_gain_control_dict_def lna_input_clamp_dict_def
        params_ok_def default_params_def)
qed

theorem fe_config_request_witness:
  "\<exists>cfg. fe_config int_floats example_fe = Inr (cfg, [(1, 1100)]) \<and> map ch_id (channels cfg) = py_range 40 \<and>
    map afe_id (afes cfg) = py_range 5 \<and> (\<forall>a \<in> set (afes cfg). v_bias a = (if afe_id a = 1 then 1100 else 0)) \<and>
    (\<forall>c \<in> set (channels cfg). ch_trim c = (if ch_id c = 12 then 5 else 0))"
proof -
  obtain cfg where cfg: "fe_config int_floats example_fe = Inr (cfg, [(1, 1100)])" using example_fe_config ..
  from fe_config_request [OF cfg] have
    "map ch_id (channels cfg) = py_range 40" "map afe_id (afes cfg) = py_range 5"
    "\<forall>a \<in> set (afes cfg). v_bias a = (if afe_id a = 1 then 1100 else 0)"
    "\<forall>c \<in> set (channels cfg). ch_trim c = (if ch_id c = 12 then 5 else 0)"
    by (auto simp: example_fe_def fe_defaults_def example_tokens int_floats_round)
  with cfg show ?thesis by blast
qed

end
