(* ===== verification/Fe_Main.thy ===== *)
theory Fe_Main
  imports Fe_Config Py_Json
begin

unbundle bit_operations_syntax

text \<open>
  \<open>main\<close> of \<open>client/configure_fe_min_v2.py\<close>: it sends the configuration, then one bias write per AFE given
  on the command line, then (on request) the alignment command, prints the transport metadata of every
  exchange and returns an exit status that tells the failures apart. ZeroMQ, the protobuf run time (with
  the names of its enumerations), the clock, the process identifier and the time format are environment.
\<close>

section \<open>Environment and messages\<close>

definition MT2_CONFIGURE_FE_REQ :: int where "MT2_CONFIGURE_FE_REQ = 202"
definition MT2_CONFIGURE_FE_RESP :: int where "MT2_CONFIGURE_FE_RESP = 203"
definition MT2_WRITE_AFE_BIAS_SET_REQ :: int where "MT2_WRITE_AFE_BIAS_SET_REQ = 208"
definition MT2_WRITE_AFE_BIAS_SET_RESP :: int where "MT2_WRITE_AFE_BIAS_SET_RESP = 209"
definition MT2_ALIGN_AFE_REQ :: int where "MT2_ALIGN_AFE_REQ = 258"
definition MT2_ALIGN_AFE_RESP :: int where "MT2_ALIGN_AFE_RESP = 259"

record ConfigureResponse =
  cr_success :: bool
  cr_message :: string

record bias_set_resp =
  bs_success :: bool
  bs_message :: string
  bs_biasValue :: int

record align_resp =
  al_success :: bool
  al_message :: string

text \<open>The serialisers of the three request payloads, the codecs of the replies and the environment of the
  process. \<open>get_seq\<close> and \<open>set_seq\<close> access the module variable \<open>_SEQ\<close>.\<close>

record ('s, 'w, 'p, 'f) fe_env =
  fe_sock :: "('s, 'w) zsock"
  fe_envc :: "('w, 'p ControlEnvelopeV2) codec"
  ser_cfg :: "ConfigureRequest \<Rightarrow> 'p"
  ser_bias :: "int \<Rightarrow> int \<Rightarrow> 'p"
  ser_align :: 'p
  outc :: "('p, ConfigureResponse) codec"
  biasc :: "('p, bias_set_resp) codec"
  alignc :: "('p, align_resp) codec"
  payload_len :: "'p \<Rightarrow> nat"
  fe_print :: "string \<Rightarrow> ('s, unit) py"
  fe_dumps :: "json \<Rightarrow> string"
  fe_floats :: "'f float_ops"
  dir_names :: "int \<Rightarrow> string option"
  type_names :: "int \<Rightarrow> string option"
  isoformat :: "int \<Rightarrow> string"
  fe_pid :: int
  fe_rand :: int
  get_seq :: "'s \<Rightarrow> int"
  set_seq :: "int \<Rightarrow> 's \<Rightarrow> 's"

section \<open>Helpers\<close>

definition fe_next_ids :: "('s, 'w, 'p, 'f) fe_env \<Rightarrow> ('s, int \<times> int) py" where
  "fe_next_ids env =
     m_then (m_modify (\<lambda>s. set_seq env (get_seq env s + 1) s))
     (m_bind (time_ns (fe_sock env)) (\<lambda>now_ns.
      m_bind (m_get (get_seq env)) (\<lambda>seq.
      m_ret ((push_bit 16 now_ns XOR push_bit 8 (fe_pid env) XOR (fe_rand env AND 0xFF)) AND id_mask,
             (push_bit 1 now_ns XOR seq) AND id_mask))))"

definition build_envelope :: "('s, 'w, 'p, 'f) fe_env \<Rightarrow> int \<Rightarrow> 'p \<Rightarrow> string \<Rightarrow> ('s, 'p ControlEnvelopeV2) py" where
  "build_envelope env ty body rt =
     m_bind (fe_next_ids env) (\<lambda>ids.
     m_bind (time_ns (fe_sock env)) (\<lambda>ts.
     m_ret (request_envelope ty body rt ids ts)))"

definition build_configure_v2_envelope ::
  "('s, 'w, 'p, 'f) fe_env \<Rightarrow> ConfigureRequest \<Rightarrow> string \<Rightarrow> ('s, 'p ControlEnvelopeV2) py" where
  "build_configure_v2_envelope env cfg rt = build_envelope env MT2_CONFIGURE_FE_REQ (ser_cfg env cfg) rt"

definition enum_name :: "(int \<Rightarrow> string option) \<Rightarrow> int \<Rightarrow> string" where
  "enum_name names v = (case names v of Some n \<Rightarrow> n | None \<Rightarrow> ''<unknown:'' @ int_to_str v @ ''>'')"

definition ns_to_iso :: "('s, 'w, 'p, 'f) fe_env \<Rightarrow> int \<Rightarrow> string" where
  "ns_to_iso env ns =
     (if ns = 0 \<or> ns < 10 ^ 12 then ''(monotonic or unset) '' @ int_to_str ns @ '' ns'' else isoformat env ns)"

definition short :: "int \<Rightarrow> string" where
  "short u = int_to_str u @ '' (0x'' @ fmt_hex 16 u @ '')''"

definition envelope_lines :: "('s, 'w, 'p, 'f) fe_env \<Rightarrow> string \<Rightarrow> bool \<Rightarrow> 'p ControlEnvelopeV2 \<Rightarrow> string list" where
  "envelope_lines env label show_payload_len e =
     [''['' @ label @ '']'',
      ''  version      : '' @ int_to_str (version e),
      ''  dir          : '' @ enum_name (dir_names env) (dir e) @ '' ('' @ int_to_str (dir e) @ '')'',
      ''  type         : '' @ enum_name (type_names env) (etype e) @ '' ('' @ int_to_str (etype e) @ '')'',
      ''  task_id      : '' @ short (task_id e),
      ''  msg_id       : '' @ short (msg_id e)]
     @ (if correl_id e \<noteq> 0 then [''  correl_id    : '' @ short (correl_id e)] else [])
     @ (if route e \<noteq> [] then [''  route        : '' @ route e] else [])
     @ (if timestamp_ns e \<noteq> 0 then
          [''  timestamp_ns : '' @ int_to_str (timestamp_ns e) @ ''  ->  '' @ ns_to_iso env (timestamp_ns e)] else [])
     @ (if show_payload_len then
          [''  payload_size : '' @ int_to_str (int (payload_len env (payload e))) @ '' bytes (''
             @ f_fix (fe_floats env) 1 (f_div (fe_floats env) (f_of_int (fe_floats env) (int (payload_len env (payload e))))
                 (f_of_int (fe_floats env) 1024)) @ '' KiB)''] else [])
     @ [[]]"

definition print_lines :: "('s, 'w, 'p, 'f) fe_env \<Rightarrow> string list \<Rightarrow> ('s, unit) py" where
  "print_lines env ls = m_for ls (fe_print env)"

definition print_envelope :: "('s, 'w, 'p, 'f) fe_env \<Rightarrow> string \<Rightarrow> bool \<Rightarrow> 'p ControlEnvelopeV2 \<Rightarrow> ('s, unit) py" where
  "print_envelope env label show_payload_len e = print_lines env (envelope_lines env label show_payload_len e)"

text \<open>\<open>str.splitlines\<close>: a line ends at any line boundary, CR LF counting as one.\<close>

definition is_linebreak :: "char \<Rightarrow> bool" where
  "is_linebreak c \<longleftrightarrow> (let n = (of_char c :: nat) in (10 \<le> n \<and> n \<le> 13) \<or> (28 \<le> n \<and> n \<le> 30))"

fun split_lines_from :: "bool \<Rightarrow> string \<Rightarrow> string \<Rightarrow> string list" where
  "split_lines_from cr line [] = (if line = [] then [] else [rev line])"
| "split_lines_from cr line (c # cs) =
     (if cr \<and> c = CHR 0x0A then split_lines_from False line cs
      else if is_linebreak c then rev line # split_lines_from (c = CHR 0x0D) [] cs
      else split_lines_from False (c # line) cs)"

definition splitlines :: "string \<Rightarrow> string list" where
  "splitlines s = split_lines_from False [] s"

definition summary_lines :: "ConfigureResponse \<Rightarrow> bool \<Rightarrow> string list" where
  "summary_lines resp full =
     (let lines = splitlines (cr_message resp);
          all_of = full \<or> length lines \<le> 20 in
      [''ConfigureResponse:'', ''  success : '' @ bool_str (cr_success resp), ''  message:'']
      @ map (\<lambda>ln. ''    '' @ ln) (if all_of then lines else take 20 lines)
      @ (if all_of then [] else [''    ... (truncated, total '' @ int_to_str (int (length lines)) @ '' lines)''])
      @ [[]])"

definition summarize_configure_response :: "('s, 'w, 'p, 'f) fe_env \<Rightarrow> ConfigureResponse \<Rightarrow> bool \<Rightarrow> ('s, unit) py" where
  "summarize_configure_response env resp full = print_lines env (summary_lines resp full)"

section \<open>One exchange\<close>

text \<open>A step of \<open>main\<close> that may return an exit status early: \<open>Inl\<close> the status, \<open>Inr\<close> a value.\<close>

definition m_early :: "('s, int + 'a) py \<Rightarrow> ('a \<Rightarrow> ('s, int + 'b) py) \<Rightarrow> ('s, int + 'b) py" where
  "m_early m k = m_bind m (\<lambda>r. case r of Inl status \<Rightarrow> m_ret (Inl status) | Inr a \<Rightarrow> k a)"

definition give_up :: "('s, 'w, 'p, 'f) fe_env \<Rightarrow> string list \<Rightarrow> int \<Rightarrow> ('s, int + 'a) py" where
  "give_up env msgs status = m_then (print_lines env msgs) (m_ret (Inl status))"

text \<open>\<open>try: m except zmq.Again: print(...); return status\<close>.\<close>

definition or_timeout ::
  "('s, 'w, 'p, 'f) fe_env \<Rightarrow> ('s, 'a) py \<Rightarrow> string list \<Rightarrow> int \<Rightarrow> ('s, int + 'a) py" where
  "or_timeout env m msgs status =
     m_try (m_bind m (\<lambda>a. m_ret (Inr a))) (\<lambda>e. if e = ZmqAgain then give_up env msgs status else m_raise e)"

text \<open>The texts and exit statuses in which the three exchanges of \<open>main\<close> differ.\<close>

record exchange_texts =
  x_request :: string
  x_send_timeout :: "string list"
  x_send_status :: int
  x_recv_timeout :: "string list"
  x_recv_status :: int
  x_parse_failure :: string
  x_parse_status :: int
  x_response :: string
  x_metrics :: string

record 'p exchanged =
  xe_reply :: "'p ControlEnvelopeV2"
  xe_send :: int
  xe_recv :: int

definition rtt :: "'f float_ops \<Rightarrow> int \<Rightarrow> int \<Rightarrow> 'f" where
  "rtt F t_send t_recv = f_div F (f_of_int F (t_recv - t_send)) (f_lit F ''1e6'')"

definition metrics_lines :: "('s, 'w, 'p, 'f) fe_env \<Rightarrow> string \<Rightarrow> 'p exchanged \<Rightarrow> string list" where
  "metrics_lines env head_line x =
     [head_line, ''  client_send_iso  : '' @ ns_to_iso env (xe_send x), ''  client_recv_iso  : '' @ ns_to_iso env (xe_recv x),
      ''  client_RTT_ms    : '' @ f_fix (fe_floats env) 2 (rtt (fe_floats env) (xe_send x) (xe_recv x))]
     @ (if timestamp_ns (xe_reply x) \<noteq> 0 then
          [''  server_ts_iso    : '' @ ns_to_iso env (timestamp_ns (xe_reply x))] else [])
     @ [[]]"

definition fe_exchange ::
  "('s, 'w, 'p, 'f) fe_env \<Rightarrow> exchange_texts \<Rightarrow> 'p ControlEnvelopeV2 \<Rightarrow> ('s, int + 'p exchanged) py" where
  "fe_exchange env x req =
     m_bind (time_ns (fe_sock env)) (\<lambda>t_send.
     m_then (print_envelope env (x_request x) True req)
     (m_early (or_timeout env (z_send (fe_sock env) (ser (fe_envc env) req)) (x_send_timeout x) (x_send_status x)) (\<lambda>_.
      m_early (or_timeout env (z_recv (fe_sock env)) (x_recv_timeout x) (x_recv_status x)) (\<lambda>frames.
      m_bind (time_ns (fe_sock env)) (\<lambda>t_recv.
      m_bind (m_lift (ParseFromString (fe_envc env) (last frames))) (\<lambda>(reply, n).
      if n = 0 then give_up env [x_parse_failure x] (x_parse_status x)
      else
        m_then (print_envelope env (x_response x) True reply)
        (m_then (print_lines env (metrics_lines env (x_metrics x) \<lparr>xe_reply = reply, xe_send = t_send, xe_recv = t_recv\<rparr>))
          (m_ret (Inr \<lparr>xe_reply = reply, xe_send = t_send, xe_recv = t_recv\<rparr>)))))))))"

section \<open>The phases of \<open>main\<close>\<close>

definition request_json :: "('s, 'w, 'p, 'f) fe_env \<Rightarrow> 'p ControlEnvelopeV2 \<Rightarrow> json" where
  "request_json env e = JObj [(''version'', JInt (version e)), (''dir'', JInt (dir e)), (''type'', JInt (etype e)),
     (''task_id'', JInt (task_id e)), (''msg_id'', JInt (msg_id e)), (''route'', JStr (route e)),
     (''timestamp_ns'', JInt (timestamp_ns e)), (''payload_size'', JInt (int (payload_len env (payload e))))]"

definition response_json :: "('s, 'w, 'p, 'f) fe_env \<Rightarrow> 'p ControlEnvelopeV2 \<Rightarrow> json" where
  "response_json env e = JObj [(''version'', JInt (version e)), (''dir'', JInt (dir e)), (''type'', JInt (etype e)),
     (''task_id'', JInt (task_id e)), (''msg_id'', JInt (msg_id e)), (''correl_id'', JInt (correl_id e)),
     (''timestamp_ns'', JInt (timestamp_ns e)), (''payload_size'', JInt (int (payload_len env (payload e))))]"

definition metrics_json :: "('s, 'w, 'p, 'f) fe_env \<Rightarrow> 'p exchanged \<Rightarrow> json" where
  "metrics_json env x = JObj [(''client_send_ns'', JInt (xe_send x)), (''client_recv_ns'', JInt (xe_recv x)),
     (''rtt_ms'', JFloat (f_str (fe_floats env) (rtt (fe_floats env) (xe_send x) (xe_recv x))))]"

text \<open>\<open>s.count\<close> of a line feed, and of the two characters backslash and n.\<close>

definition count_lf :: "string \<Rightarrow> int" where
  "count_lf s = int (length (filter (\<lambda>c. c = CHR 0x0A) s))"

fun count_pair :: "char \<Rightarrow> char \<Rightarrow> string \<Rightarrow> int" where
  "count_pair a b (x # y # s) = (if x = a \<and> y = b then 1 + count_pair a b s else count_pair a b (y # s))"
| "count_pair a b s = 0"

definition message_lines :: "int \<Rightarrow> string \<Rightarrow> json" where
  "message_lines breaks msg = JInt (breaks + (if msg \<noteq> [] then 1 else 0))"

definition mismatch :: "bool \<Rightarrow> string \<Rightarrow> int \<Rightarrow> string \<Rightarrow> string list" where
  "mismatch ok what got rest = (if ok then [] else [what @ '' mismatch: got '' @ int_to_str got @ rest])"

definition correlation_errors :: "int \<Rightarrow> 'p ControlEnvelopeV2 \<Rightarrow> 'p ControlEnvelopeV2 \<Rightarrow> string list" where
  "correlation_errors expected req reply =
     mismatch (dir reply = DIR_RESPONSE) ''dir'' (dir reply) []
     @ mismatch (etype reply = expected) ''type'' (etype reply) ('', expected '' @ int_to_str expected)
     @ mismatch (task_id reply = task_id req) ''task_id'' (task_id reply) ('', expected '' @ int_to_str (task_id req))
     @ mismatch (correl_id reply = msg_id req) ''correl_id'' (correl_id reply) ('', expected '' @ int_to_str (msg_id req))"

definition report_errors :: "('s, 'w, 'p, 'f) fe_env \<Rightarrow> string \<Rightarrow> string list \<Rightarrow> ('s, unit) py" where
  "report_errors env head_line errs =
     m_when (errs \<noteq> []) (print_lines env ([head_line] @ map (\<lambda>e. ''  - '' @ e) errs @ [[]]))"

definition endpoint :: "'f fe_args \<Rightarrow> string" where
  "endpoint args = ''tcp://'' @ fa_host args @ '':'' @ int_to_str (fa_port args)"

definition configure_texts :: "'f fe_args \<Rightarrow> exchange_texts" where
  "configure_texts args =
     (let ms = int_to_str (fa_timeout args); at = endpoint args @ '' route='' @ fa_route args in
      \<lparr>x_request = ''REQUEST'',
       x_send_timeout = [''[timeout] send timed out after '' @ ms @ '' ms to '' @ at], x_send_status = 3,
       x_recv_timeout = [''[timeout] no CONFIGURE_FE response after '' @ ms @ '' ms from '' @ at,
         ''Hint: try --timeout 30000 and validate route with client/testreg_v2.py''], x_recv_status = 4,
       x_parse_failure = ''Failed to parse ControlEnvelopeV2 reply'', x_parse_status = 2,
       x_response = ''RESPONSE'', x_metrics = ''[METRICS]''\<rparr>)"

definition configure_phase ::
  "('s, 'w, 'p, 'f) fe_env \<Rightarrow> 'f fe_args \<Rightarrow> ConfigureRequest \<Rightarrow> ('s, int + (ConfigureResponse \<times> jobject)) py" where
  "configure_phase env args cfg =
     m_bind (build_configure_v2_envelope env cfg (fa_route args)) (\<lambda>req.
     m_early (fe_exchange env (configure_texts args) req) (\<lambda>x.
     m_then (report_errors env ''Correlation/Type checks FAILED:'' (correlation_errors MT2_CONFIGURE_FE_RESP req (xe_reply x)))
     (m_bind (m_lift (ParseFromString (outc env) (payload (xe_reply x)))) (\<lambda>(out, n).
      if n = 0 then give_up env [''Failed to parse ConfigureResponse''] 6
      else
        m_then (summarize_configure_response env out (fa_full args))
        (m_ret (Inr (out, [(''endpoint'', JStr (endpoint args)), (''request'', request_json env req),
           (''response'', response_json env (xe_reply x)), (''metrics'', metrics_json env x),
           (''configure_response'', JObj [(''success'', JBool (cr_success out)),
              (''message_lines'', message_lines (count_lf (cr_message out)) (cr_message out))])])))))))"

definition bias_texts :: "'f fe_args \<Rightarrow> int \<Rightarrow> exchange_texts" where
  "bias_texts args afe =
     (let a = ''AFE'' @ int_to_str afe; ms = int_to_str (fa_timeout args) in
      \<lparr>x_request = ''BIAS REQUEST '' @ a,
       x_send_timeout = [''[timeout] bias write send timed out for '' @ a @ '' after '' @ ms @ '' ms''], x_send_status = 9,
       x_recv_timeout = [''[timeout] no bias write response for '' @ a @ '' after '' @ ms @ '' ms''], x_recv_status = 10,
       x_parse_failure = ''Failed to parse bias write reply envelope for '' @ a, x_parse_status = 11,
       x_response = ''BIAS RESPONSE '' @ a, x_metrics = ''[BIAS_METRICS '' @ a @ '']''\<rparr>)"

definition bias_write :: "('s, 'w, 'p, 'f) fe_env \<Rightarrow> 'f fe_args \<Rightarrow> int \<times> int \<Rightarrow> ('s, int + json) py" where
  "bias_write env args item = (case item of (afe, bias_dac) \<Rightarrow>
     let a = ''AFE'' @ int_to_str afe in
     m_bind (build_envelope env MT2_WRITE_AFE_BIAS_SET_REQ (ser_bias env afe bias_dac) (fa_route args)) (\<lambda>wenv.
     m_early (fe_exchange env (bias_texts args afe) wenv) (\<lambda>x.
     let wreply = xe_reply x in
     if dir wreply \<noteq> DIR_RESPONSE then
       give_up env [''Bias write dir mismatch for '' @ a @ '': got '' @ int_to_str (dir wreply)] 12
     else if etype wreply \<noteq> MT2_WRITE_AFE_BIAS_SET_RESP then
       give_up env [''Bias write type mismatch for '' @ a @ '': got '' @ int_to_str (etype wreply) @ '', expected ''
         @ int_to_str MT2_WRITE_AFE_BIAS_SET_RESP] 13
     else if task_id wreply \<noteq> task_id wenv \<or> correl_id wreply \<noteq> msg_id wenv then
       give_up env [''Bias write correlation mismatch for '' @ a @ '': task '' @ int_to_str (task_id wreply) @ ''/''
         @ int_to_str (task_id wenv) @ '', correl '' @ int_to_str (correl_id wreply) @ ''/'' @ int_to_str (msg_id wenv)] 14
     else
       m_bind (m_lift (ParseFromString (biasc env) (payload wreply))) (\<lambda>(wout, n).
       if n = 0 then give_up env [''Failed to parse cmd_writeAFEBiasSet_response for '' @ a] 15
       else
         m_then (fe_print env (''  '' @ a @ '': success='' @ bool_str (bs_success wout) @ '' biasValue=''
            @ int_to_str (bs_biasValue wout) @ '' message='' @ bs_message wout))
         (m_ret (Inr (JObj [(''afe'', JInt afe), (''requested_bias_dac'', JInt bias_dac), (''request'', request_json env wenv),
            (''response'', response_json env wreply), (''metrics'', metrics_json env x),
            (''write_response'', JObj [(''success'', JBool (bs_success wout)), (''message'', JStr (bs_message wout)),
               (''bias_value'', JInt (bs_biasValue wout))])])))))))"

fun bias_loop :: "('s, 'w, 'p, 'f) fe_env \<Rightarrow> 'f fe_args \<Rightarrow> (int \<times> int) list \<Rightarrow> ('s, int + json list) py" where
  "bias_loop env args [] = m_ret (Inr [])"
| "bias_loop env args (item # items) =
     m_early (bias_write env args item) (\<lambda>j.
     m_early (bias_loop env args items) (\<lambda>js. m_ret (Inr (j # js))))"

definition bias_phase :: "('s, 'w, 'p, 'f) fe_env \<Rightarrow> 'f fe_args \<Rightarrow> (int \<times> int) list \<Rightarrow> ('s, int + json list) py" where
  "bias_phase env args overrides =
     (if overrides = [] then m_ret (Inr [])
      else
        m_then (fe_print env ''[BIAS_WRITEBACK]'')
        (m_early (bias_loop env args (sort_key fst overrides)) (\<lambda>js.
         m_then (fe_print env []) (m_ret (Inr js)))))"

definition align_texts :: "'f fe_args \<Rightarrow> exchange_texts" where
  "align_texts args =
     (let ms = int_to_str (fa_timeout args); at = endpoint args @ '' route='' @ fa_route args in
      \<lparr>x_request = ''ALIGN REQUEST'',
       x_send_timeout = [''[timeout] align send timed out after '' @ ms @ '' ms to '' @ at], x_send_status = 7,
       x_recv_timeout = [''[timeout] no ALIGN_AFE response after '' @ ms @ '' ms from '' @ at, ''Hint: try --timeout 30000''],
       x_recv_status = 8, x_parse_failure = ''Failed to parse ControlEnvelopeV2 align reply'', x_parse_status = 7,
       x_response = ''ALIGN RESPONSE'', x_metrics = ''[ALIGN_METRICS]''\<rparr>)"

definition align_phase :: "('s, 'w, 'p, 'f) fe_env \<Rightarrow> 'f fe_args \<Rightarrow> ('s, int + json option) py" where
  "align_phase env args =
     (if \<not> fa_align_afes args then m_ret (Inr None)
      else
        m_bind (build_envelope env MT2_ALIGN_AFE_REQ (ser_align env) (fa_route args)) (\<lambda>align_env.
        m_early (fe_exchange env (align_texts args) align_env) (\<lambda>x.
        m_then (report_errors env ''Align correlation/type checks FAILED:''
           (correlation_errors MT2_ALIGN_AFE_RESP align_env (xe_reply x)))
        (m_bind (m_lift (ParseFromString (alignc env) (payload (xe_reply x)))) (\<lambda>(out, n).
         if n = 0 then give_up env [''Failed to parse cmd_alignAFEs_response''] 8
         else
           m_then (print_lines env ([''[ALIGN_RESULT]'', ''  success : '' @ bool_str (al_success out)]
             @ map (\<lambda>ln. ''  '' @ ln) (splitlines (al_message out)) @ [[]]))
           (m_ret (Inr (Some (JObj [(''request'', request_json env align_env), (''response'', response_json env (xe_reply x)),
              (''metrics'', metrics_json env x),
              (''align_response'', JObj [(''success'', JBool (al_success out)),
                 (''message_lines'', message_lines (count_pair (char_of (92 :: nat)) CHR ''n'' (al_message out)) (al_message out))])])))))))))"

text \<open>The exit status is the early one, or tells whether the configuration was reported successful.\<close>

definition fe_main :: "('s, 'w, 'p, 'f) fe_env \<Rightarrow> 'f fe_args \<Rightarrow> ('s, int) py" where
  "fe_main env args =
     m_bind (m_lift (fe_config (fe_floats env) args)) (\<lambda>(cfg, bias_ov).
     m_bind
       (m_early (configure_phase env args cfg) (\<lambda>(out, summary).
        m_early (bias_phase env args bias_ov) (\<lambda>bias_json.
        m_early (align_phase env args) (\<lambda>align_json.
        m_then (m_when (fa_json args) (fe_print env (fe_dumps env (JObj (summary
            @ (case align_json of None \<Rightarrow> [] | Some j \<Rightarrow> [(''align'', j)])
            @ (if bias_json \<noteq> [] then [(''bias_writes'', JList bias_json)] else []))))))
        (m_ret (Inr (if cr_success out then (0 :: int) else 1)))))))
       (\<lambda>r. m_ret (case r of Inl status \<Rightarrow> status | Inr status \<Rightarrow> status)))"

section \<open>A server that answers\<close>

text \<open>Rules for the constructs of this theory; \<open>Inl\<close> results leave \<open>main\<close> early.\<close>

lemma triple_early [wp]:
  assumes "\<And>a. triple ready view (R a) (k a) Q"
    and "triple ready view P m (\<lambda>r g. case r of Inl c \<Rightarrow> Q (Inl c) g | Inr a \<Rightarrow> R a g)"
  shows "triple ready view P (m_early m k) Q"
  unfolding m_early_def
proof (rule triple_bind [OF _ assms(2)])
  fix r :: "int + 'a"
  show "triple ready view (\<lambda>g. case r of Inl c \<Rightarrow> Q (Inl c) g | Inr a \<Rightarrow> R a g)
      (case r of Inl status \<Rightarrow> m_ret (Inl status) | Inr a \<Rightarrow> k a) Q"
    using assms(1) triple_ret [of ready view Q] by (cases r) simp_all
qed

lemma triple_prod [wp]:
  "(\<And>x y. triple ready view (R x y) (f x y) Q) \<Longrightarrow>
     triple ready view (\<lambda>g. case p of (x, y) \<Rightarrow> R x y g) (case p of (x, y) \<Rightarrow> f x y) Q"
  by (cases p) simp

lemma triple_lift [wp]: "triple ready view (\<lambda>g. \<exists>a. r = Inr a \<and> Q a g) (m_lift r) Q"
  by (auto simp: triple_def m_lift_def)

lemma triple_get [wp]: "triple ready view (\<lambda>g. \<forall>x. Q x g) (m_get f) Q"
  by (auto simp: triple_def m_get_def)

lemma triple_when [wp]:
  "triple ready view P m Q \<Longrightarrow> triple ready view (\<lambda>g. if c then P g else Q () g) (m_when c m) Q"
  using triple_ret [of ready view Q "()"] by (simp add: m_when_def)

lemma triple_or_timeout [wp]:
  assumes "triple ready view P m (\<lambda>a. Q (Inr a))"
  shows "triple ready view P (or_timeout env m msgs status) Q"
  unfolding triple_def
proof (intro allI impI)
  fix s assume "ready s" "P (view s)"
  then obtain a t where "m s = (Inr a, t)" "ready t" "Q (Inr a) (view t)" using tripleD [OF assms] by blast
  then show "\<exists>b u. or_timeout env m msgs status s = (Inr b, u) \<and> ready u \<and> Q b (view u)"
    by (simp add: or_timeout_def m_try_def m_bind_def m_ret_def)
qed

text \<open>A request frame of a given type and payload, whatever its identifiers and time stamp.\<close>

definition is_frame :: "('s, 'w, 'p, 'f) fe_env \<Rightarrow> string \<Rightarrow> int \<times> 'p \<Rightarrow> 'w \<Rightarrow> bool" where
  "is_frame env rt tp w \<longleftrightarrow>
     (\<exists>ids ts. w = ser (fe_envc env) (request_envelope (fst tp) (snd tp) rt ids ts))"

text \<open>
  A socket that a server answers: every request gets a decodable reply to the last frame sent, never an
  empty one; only sending changes the list of frames sent.
\<close>

locale served_socket =
  fixes env :: "('s, 'w, 'p, 'f) fe_env" and sent :: "'s \<Rightarrow> 'w list"
    and reply_of :: "'p ControlEnvelopeV2 \<Rightarrow> 'p ControlEnvelopeV2"
  assumes l_time: "\<exists>x t. time_ns (fe_sock env) s = (Inr x, t) \<and> sent t = sent s"
    and l_print: "\<exists>t. fe_print env l s = (Inr (), t) \<and> sent t = sent s"
    and l_seq: "sent (set_seq env n s) = sent s"
    and l_send: "\<exists>t. z_send (fe_sock env) w s = (Inr (), t) \<and> sent t = sent s @ [w]"
    and l_recv: "sent s \<noteq> [] \<Longrightarrow> last (sent s) = ser (fe_envc env) e \<Longrightarrow>
      \<exists>fs n t. z_recv (fe_sock env) s = (Inr fs, t) \<and> sent t = sent s \<and>
        ParseFromString (fe_envc env) (last fs) = Inr (reply_of e, Suc n)"
begin

abbreviation T :: "('w list \<Rightarrow> bool) \<Rightarrow> ('s, 'a) py \<Rightarrow> ('a \<Rightarrow> 'w list \<Rightarrow> bool) \<Rightarrow> bool" where
  "T \<equiv> triple (\<lambda>_. True) sent"

lemma time_t [wp]: "T (\<lambda>g. \<forall>x. Q x g) (time_ns (fe_sock env)) Q"
  unfolding triple_def using l_time by metis

lemma print_t [wp]: "T (\<lambda>g. Q () g) (fe_print env l) Q"
  unfolding triple_def using l_print by metis

lemma print_lines_t [wp]: "T (\<lambda>g. Q () g) (print_lines env ls) Q"
proof -
  have "T (\<lambda>g. Q () (fold (\<lambda>_ g. g) ls g)) (m_for ls (fe_print env)) Q"
    by (rule triple_for_fold) (rule print_t)
  moreover have "fold (\<lambda>_ g. g) ls g = g" for g :: "'w list" by (induction ls) auto
  ultimately show ?thesis by (simp add: print_lines_def)
qed

lemma send_t [wp]: "T (\<lambda>g. Q () (g @ [w])) (z_send (fe_sock env) w) Q"
  unfolding triple_def using l_send by metis

lemma recv_t [wp]:
  "T (\<lambda>g. \<exists>e. g \<noteq> [] \<and> last g = ser (fe_envc env) e \<and>
      (\<forall>fs n. ParseFromString (fe_envc env) (last fs) = Inr (reply_of e, Suc n) \<longrightarrow> Q fs g)) (z_recv (fe_sock env)) Q"
  unfolding triple_def
proof (intro allI impI, elim exE conjE)
  fix s e
  assume a: "sent s \<noteq> []" "last (sent s) = ser (fe_envc env) e"
    "\<forall>fs n. ParseFromString (fe_envc env) (last fs) = Inr (reply_of e, Suc n) \<longrightarrow> Q fs (sent s)"
  from l_recv [OF a(1,2)] obtain fs n t where
    t: "z_recv (fe_sock env) s = (Inr fs, t)" "sent t = sent s"
      "ParseFromString (fe_envc env) (last fs) = Inr (reply_of e, Suc n)" by blast
  moreover have "Q fs (sent t)" using a(3) t by simp
  ultimately show "\<exists>a t. z_recv (fe_sock env) s = (Inr a, t) \<and> True \<and> Q a (sent t)" by blast
qed

lemma seq_t [wp]: "T (\<lambda>g. Q () g) (m_modify (\<lambda>s. set_seq env (get_seq env s + 1) s)) Q"
  by (simp add: triple_def m_modify_def l_seq)

lemma build_envelope_t [wp]:
  "T (\<lambda>g. \<forall>ids ts. Q (request_envelope ty body rt ids ts) g) (build_envelope env ty body rt) Q"
  unfolding build_envelope_def fe_next_ids_def
  by (rule triple_weaken, (rule wp)+) auto

lemma exchange_t [wp]:
  "T (\<lambda>g. \<forall>a b. Q (Inr \<lparr>xe_reply = reply_of e, xe_send = a, xe_recv = b\<rparr>) (g @ [ser (fe_envc env) e])) (fe_exchange env x e) Q"
  unfolding fe_exchange_def print_envelope_def give_up_def
  by (rule triple_weaken, (rule wp)+) fastforce

end

text \<open>
  The server of the configuration client. Bias writes are answered with the type and the identifiers of the request. Nothing is assumed about
  the direction, the type and the identifiers of the replies to a configuration and to an alignment:
  \<open>main\<close> reports mismatches there but goes on. \<open>accepts\<close> is what the server reports about a configuration.
\<close>

locale fe_link = served_socket env sent reply_of
  for env :: "('s, 'w, 'p, 'f) fe_env" and sent :: "'s \<Rightarrow> 'w list"
    and reply_of :: "'p ControlEnvelopeV2 \<Rightarrow> 'p ControlEnvelopeV2" +
  fixes accepts :: "'p \<Rightarrow> bool"
  assumes l_configure: "etype e = MT2_CONFIGURE_FE_REQ \<Longrightarrow>
      \<exists>out n. ParseFromString (outc env) (payload (reply_of e)) = Inr (out, Suc n) \<and> cr_success out = accepts (payload e)"
    and l_bias: "etype e = MT2_WRITE_AFE_BIAS_SET_REQ \<Longrightarrow>
      dir (reply_of e) = DIR_RESPONSE \<and> etype (reply_of e) = MT2_WRITE_AFE_BIAS_SET_RESP \<and>
      task_id (reply_of e) = task_id e \<and> correl_id (reply_of e) = msg_id e \<and>
      (\<exists>out n. ParseFromString (biasc env) (payload (reply_of e)) = Inr (out, Suc n))"
    and l_align: "etype e = MT2_ALIGN_AFE_REQ \<Longrightarrow>
      \<exists>out n. ParseFromString (alignc env) (payload (reply_of e)) = Inr (out, Suc n)"
begin

lemma configure_phase_t:
  "T (\<lambda>g. g = g0) (configure_phase env args cfg) (\<lambda>r g. \<exists>out js w. r = Inr (out, js) \<and>
      cr_success out = accepts (ser_cfg env cfg) \<and> g = g0 @ [w] \<and>
      is_frame env (fa_route args) (MT2_CONFIGURE_FE_REQ, ser_cfg env cfg) w)"
proof -
  have out: "\<exists>out n. ParseFromString (outc env) (payload (reply_of (request_envelope MT2_CONFIGURE_FE_REQ p rt ids ts))) = Inr (out, Suc n)
      \<and> cr_success out = accepts p" for p rt ids ts
    using l_configure [of "request_envelope MT2_CONFIGURE_FE_REQ p rt ids ts"] by (simp add: request_envelope_def)
  show ?thesis
    unfolding configure_phase_def build_configure_v2_envelope_def summarize_configure_response_def report_errors_def give_up_def
    by (rule triple_weaken, (rule wp)+) (use out in \<open>fastforce simp: is_frame_def\<close>)
qed

lemma bias_write_t:
  "T (\<lambda>g. g = g0) (bias_write env args item) (\<lambda>r g. \<exists>j w. r = Inr j \<and> g = g0 @ [w] \<and>
      is_frame env (fa_route args) (MT2_WRITE_AFE_BIAS_SET_REQ, ser_bias env (fst item) (snd item)) w)"
proof -
  obtain afe v where item: "item = (afe, v)" by (cases item)
  have out: "dir (reply_of (request_envelope MT2_WRITE_AFE_BIAS_SET_REQ p rt ids ts)) = DIR_RESPONSE"
    "etype (reply_of (request_envelope MT2_WRITE_AFE_BIAS_SET_REQ p rt ids ts)) = MT2_WRITE_AFE_BIAS_SET_RESP"
    "task_id (reply_of (request_envelope MT2_WRITE_AFE_BIAS_SET_REQ p rt ids ts)) = task_id (request_envelope MT2_WRITE_AFE_BIAS_SET_REQ p rt ids ts)"
    "correl_id (reply_of (request_envelope MT2_WRITE_AFE_BIAS_SET_REQ p rt ids ts)) = msg_id (request_envelope MT2_WRITE_AFE_BIAS_SET_REQ p rt ids ts)"
    "\<exists>out n. ParseFromString (biasc env) (payload (reply_of (request_envelope MT2_WRITE_AFE_BIAS_SET_REQ p rt ids ts))) = Inr (out, Suc n)"
    for p rt ids ts
    using l_bias [of "request_envelope MT2_WRITE_AFE_BIAS_SET_REQ p rt ids ts"] by (simp_all add: request_envelope_def)
  show ?thesis
    unfolding bias_write_def item Let_def give_up_def prod.case fst_conv snd_conv
    by (rule triple_weaken, (rule wp)+) (use out in \<open>fastforce simp: is_frame_def\<close>)
qed

lemma bias_loop_run:
  "\<exists>js ws t. bias_loop env args items s = (Inr (Inr js), t) \<and> sent t = sent s @ ws \<and>
     list_all2 (is_frame env (fa_route args)) (map (\<lambda>i. (MT2_WRITE_AFE_BIAS_SET_REQ, ser_bias env (fst i) (snd i))) items) ws"
proof (induction items arbitrary: s)
  case (Cons i items)
  from tripleD [OF bias_write_t [of "sent s" args i] TrueI refl] obtain j w t where
    t: "bias_write env args i s = (Inr (Inr j), t)" "sent t = sent s @ [w]"
      "is_frame env (fa_route args) (MT2_WRITE_AFE_BIAS_SET_REQ, ser_bias env (fst i) (snd i)) w"
    by blast
  from Cons.IH [of t] obtain js ws u where
    "bias_loop env args items t = (Inr (Inr js), u)" "sent u = sent t @ ws"
     "list_all2 (is_frame env (fa_route args)) (map (\<lambda>i. (MT2_WRITE_AFE_BIAS_SET_REQ, ser_bias env (fst i) (snd i))) items) ws"
    by blast
  with t show ?case
    by (intro exI [of _ "j # js"] exI [of _ "w # ws"] exI [of _ u]) (simp add: m_early_def m_bind_def m_ret_def)
qed (simp add: m_ret_def)

lemma bias_phase_run:
  "\<exists>js ws t. bias_phase env args ov s = (Inr (Inr js), t) \<and> sent t = sent s @ ws \<and>
     list_all2 (is_frame env (fa_route args))
       (map (\<lambda>i. (MT2_WRITE_AFE_BIAS_SET_REQ, ser_bias env (fst i) (snd i))) (sort_key fst ov)) ws"
proof (cases "ov = []")
  case False
  obtain s1 where s1: "fe_print env ''[BIAS_WRITEBACK]'' s = (Inr (), s1)" "sent s1 = sent s" using l_print by blast
  obtain js ws s2 where s2: "bias_loop env args (sort_key fst ov) s1 = (Inr (Inr js), s2)" "sent s2 = sent s1 @ ws"
     "list_all2 (is_frame env (fa_route args))
       (map (\<lambda>i. (MT2_WRITE_AFE_BIAS_SET_REQ, ser_bias env (fst i) (snd i))) (sort_key fst ov)) ws"
    using bias_loop_run by blast
  obtain s3 where "fe_print env [] s2 = (Inr (), s3)" "sent s3 = sent s2" using l_print by blast
  with False s1 s2 show ?thesis
    by (simp add: bias_phase_def m_then_def m_bind_def m_early_def m_ret_def)
qed (simp add: bias_phase_def m_ret_def)

lemma align_phase_t:
  "T (\<lambda>g. g = g0) (align_phase env args) (\<lambda>r g. \<exists>j ws. r = Inr j \<and> g = g0 @ ws \<and>
      list_all2 (is_frame env (fa_route args)) (if fa_align_afes args then [(MT2_ALIGN_AFE_REQ, ser_align env)] else []) ws)"
proof -
  have out: "\<exists>out n. ParseFromString (alignc env) (payload (reply_of (request_envelope MT2_ALIGN_AFE_REQ p rt ids ts))) = Inr (out, Suc n)"
    for p rt ids ts
    using l_align [of "request_envelope MT2_ALIGN_AFE_REQ p rt ids ts"] by (simp add: request_envelope_def)
  show ?thesis
  proof (cases "fa_align_afes args")
    case True
    show ?thesis
      unfolding align_phase_def report_errors_def give_up_def
      by (simp only: True not_True_eq_False if_False if_True, rule triple_weaken, (rule wp)+)
        (use out in \<open>fastforce simp: is_frame_def list_all2_Cons1\<close>)
  qed (simp add: align_phase_def triple_def m_ret_def)
qed

lemma fe_main_run:
  assumes "fe_config (fe_floats env) args = Inr (cfg, ov)"
  shows "\<exists>ws t. fe_main env args s = (Inr (if accepts (ser_cfg env cfg) then 0 else 1), t) \<and> sent t = sent s @ ws \<and>
    list_all2 (is_frame env (fa_route args))
      ([(MT2_CONFIGURE_FE_REQ, ser_cfg env cfg)]
       @ map (\<lambda>i. (MT2_WRITE_AFE_BIAS_SET_REQ, ser_bias env (fst i) (snd i))) (sort_key fst ov)
       @ (if fa_align_afes args then [(MT2_ALIGN_AFE_REQ, ser_align env)] else [])) ws"
proof -
  from tripleD [OF configure_phase_t [of "sent s" args cfg] TrueI refl] obtain out js w s1 where
    s1: "configure_phase env args cfg s = (Inr (Inr (out, js)), s1)" "cr_success out = accepts (ser_cfg env cfg)"
      "sent s1 = sent s @ [w]" "is_frame env (fa_route args) (MT2_CONFIGURE_FE_REQ, ser_cfg env cfg) w"
    by blast
  from bias_phase_run obtain bj ws2 s2 where
    s2: "bias_phase env args ov s1 = (Inr (Inr bj), s2)" "sent s2 = sent s1 @ ws2"
      "list_all2 (is_frame env (fa_route args))
       (map (\<lambda>i. (MT2_WRITE_AFE_BIAS_SET_REQ, ser_bias env (fst i) (snd i))) (sort_key fst ov)) ws2"
    by blast
  from tripleD [OF align_phase_t [of "sent s2" args] TrueI refl] obtain aj ws3 s3 where
    s3: "align_phase env args s2 = (Inr (Inr aj), s3)" "sent s3 = sent s2 @ ws3"
      "list_all2 (is_frame env (fa_route args)) (if fa_align_afes args then [(MT2_ALIGN_AFE_REQ, ser_align env)] else []) ws3"
    by blast
  obtain s4 where s4: "m_when (fa_json args) (fe_print env l) s3 = (Inr (), s4) \<and> sent s4 = sent s3"
    if "l = fe_dumps env (JObj (js @ (case aj of None \<Rightarrow> [] | Some j \<Rightarrow> [(''align'', j)])
            @ (if bj \<noteq> [] then [(''bias_writes'', JList bj)] else [])))" for l
    using l_print by (cases "fa_json args") (auto simp: m_when_def m_ret_def)
  have "fe_main env args s = (Inr (if accepts (ser_cfg env cfg) then 0 else 1), s4)"
    using s4 assms s1(2)
    by (simp add: fe_main_def m_early_def m_then_def m_bind_def m_lift_def m_ret_def s1(1) s2(1) s3(1))
  moreover have "sent s4 = sent s @ ([w] @ ws2 @ ws3)" using s4 s1(3) s2(2) s3(2) by simp
  moreover have "list_all2 (is_frame env (fa_route args))
      ([(MT2_CONFIGURE_FE_REQ, ser_cfg env cfg)]
       @ map (\<lambda>i. (MT2_WRITE_AFE_BIAS_SET_REQ, ser_bias env (fst i) (snd i))) (sort_key fst ov)
       @ (if fa_align_afes args then [(MT2_ALIGN_AFE_REQ, ser_align env)] else [])) ([w] @ ws2 @ ws3)"
    by (intro list_all2_appendI s2(3) s3(3)) (simp add: s1(4))
  ultimately show ?thesis by blast
qed

end

text \<open>C16: On a link to an answering server the client sends exactly these frames in this order: the
  configuration, one bias write per AFE with a bias override in increasing AFE order, and the alignment
  request if asked for. Its exit status is 0 when the server reports the configuration successful and 1
  otherwise; direction, type and identifiers of the reply to the configuration do not influence it, and neither do
  failures that the bias and alignment responses report. A command line that is refused raises before
  anything is sent.\<close>

theorem fe_main_sends:
  assumes "fe_link env sent reply_of accepts"
  shows "case fe_config (fe_floats env) args of
      Inl e \<Rightarrow> fe_main env args s = (Inl e, s)
    | Inr (cfg, ov) \<Rightarrow>
        \<exists>ws t. fe_main env args s = (Inr (if accepts (ser_cfg env cfg) then 0 else 1), t) \<and> sent t = sent s @ ws \<and>
          list_all2 (is_frame env (fa_route args))
            ([(MT2_CONFIGURE_FE_REQ, ser_cfg env cfg)]
             @ map (\<lambda>i. (MT2_WRITE_AFE_BIAS_SET_REQ, ser_bias env (fst i) (snd i))) (sort_key fst ov)
             @ (if fa_align_afes args then [(MT2_ALIGN_AFE_REQ, ser_align env)] else [])) ws"
proof (cases "fe_config (fe_floats env) args")
  case (Inl e)
  then show ?thesis by (simp add: fe_main_def m_raise_def)
next
  case (Inr r)
  obtain cfg ov where "r = (cfg, ov)" by (cases r)
  with Inr fe_link.fe_main_run [OF assms] show ?thesis by simp
qed

text \<open>A concrete server: payloads are natural-number tags, the state is the list of frames sent, and the
  replies echo the identifiers of the last frame.\<close>

definition echo_reply :: "nat ControlEnvelopeV2 \<Rightarrow> nat ControlEnvelopeV2" where
  "echo_reply e = \<lparr>version = 2, dir = DIR_RESPONSE, etype = etype e + 1, payload = 1, task_id = task_id e, msg_id = 0,
     correl_id = msg_id e, route = route e, timestamp_ns = 0\<rparr>"

definition ref_fe :: "(nat ControlEnvelopeV2 list, nat ControlEnvelopeV2, nat, int) fe_env" where
  "ref_fe = \<lparr>fe_sock = \<lparr>z_timeout = (\<lambda>k. m_ret ()), z_send = (\<lambda>w. m_modify (\<lambda>l. l @ [w])),
       z_recv = (\<lambda>l. if l = [] then (Inl ZmqAgain, l) else (Inr [echo_reply (last l)], l)),
       z_close = m_ret (), time_ns = m_ret 1700000000000000000, randrange = (\<lambda>n. m_ret 0)\<rparr>,
     fe_envc = \<lparr>ser = (\<lambda>e. e), par = Some, blen = (\<lambda>_. 1)\<rparr>,
     ser_cfg = (\<lambda>c. 0), ser_bias = (\<lambda>a v. nat a), ser_align = 9,
     outc = \<lparr>ser = (\<lambda>_. 0), par = (\<lambda>_. Some \<lparr>cr_success = True, cr_message = ''ok''\<rparr>), blen = (\<lambda>_. 1)\<rparr>,
     biasc = \<lparr>ser = (\<lambda>_. 0), par = (\<lambda>_. Some \<lparr>bs_success = True, bs_message = '''', bs_biasValue = 0\<rparr>), blen = (\<lambda>_. 1)\<rparr>,
     alignc = \<lparr>ser = (\<lambda>_. 0), par = (\<lambda>_. Some \<lparr>al_success = True, al_message = ''''\<rparr>), blen = (\<lambda>_. 1)\<rparr>,
     payload_len = (\<lambda>_. 1), fe_print = (\<lambda>l. m_ret ()), fe_dumps = py_str, fe_floats = int_floats,
     dir_names = (\<lambda>_. None), type_names = (\<lambda>_. None), isoformat = int_to_str, fe_pid = 1, fe_rand = 2,
     get_seq = (\<lambda>l. int (length l)), set_seq = (\<lambda>n l. l)\<rparr>"

interpretation ref_fe: fe_link ref_fe "\<lambda>l. l" echo_reply "\<lambda>_. True"
  by unfold_locales
    (auto simp: ref_fe_def py_run ParseFromString_def echo_reply_def MT2_WRITE_AFE_BIAS_SET_REQ_def MT2_WRITE_AFE_BIAS_SET_RESP_def)

theorem fe_main_sends_witness:
  "\<exists>ws t. fe_main ref_fe example_fe [] = (Inr 0, t) \<and> t = [] @ ws \<and>
     list_all2 (is_frame ref_fe ''mezz/0'') [(MT2_CONFIGURE_FE_REQ, 0), (MT2_WRITE_AFE_BIAS_SET_REQ, 1)] ws"
proof -
  have e: "fe_floats ref_fe = int_floats" "\<And>c. ser_cfg ref_fe c = 0" "\<And>a v. ser_bias ref_fe a v = nat a"
    by (simp_all add: ref_fe_def)
  have a: "fa_route example_fe = ''mezz/0''" "\<not> fa_align_afes example_fe" by (simp_all add: example_fe_def fe_defaults_def)
  obtain cfg where "fe_config int_floats example_fe = Inr (cfg, [(1, 1100)])" using example_fe_config ..
  with fe_main_sends [OF ref_fe.fe_link_axioms, of example_fe "[]"] e a show ?thesis by simp
qed

end
