(* ===== verification/Pds_Config.thy ===== *)
theory Pds_Config
  imports Fe_Main
begin

unbundle bit_operations_syntax

text \<open>
  \<open>client/pds_configure_utils.py\<close> and its two clients \<open>configure_fe_from_output.py\<close> and
  \<open>configure_fe_from_detail.py\<close>: the packing of the trigger registers, the overlay of a seed
  configuration (a JSON object per board) on the default request, and sending it to every selected board.

  JSON values keep their dynamic types, so a seed with a wrong type raises where the code raises. The
  dictionaries of the two packing functions hold strings and integers, as the configuration files do.
  Reading files, \<open>pds.core.seed.generate_configuration\<close> (another repository) and the conversion of a JSON
  float to an integer are parameters.
\<close>

section \<open>Packing\<close>

definition bitmask :: "int list \<Rightarrow> int result" where
  "bitmask indices =
     r_fold (\<lambda>i mask. if i < 0 then Inl (ValueError ''negative shift count'') else Inr (mask OR push_bit (nat i) 1)) indices 0"

datatype conf_val = CStr string | CInt int

type_synonym conf = "(string \<times> conf_val) list"

definition conf_get :: "conf \<Rightarrow> string \<Rightarrow> conf_val \<Rightarrow> conf_val" where
  "conf_get d k v = (case map_of d k of None \<Rightarrow> v | Some x \<Rightarrow> x)"

text \<open>An integer operand; a string operand of \<open>&\<close>, \<open>//\<close> or \<open>min\<close> with an integer raises.\<close>

fun conf_int :: "conf_val \<Rightarrow> int result" where
  "conf_int (CInt n) = Inr n"
| "conf_int (CStr s) = Inl TypeError"

definition filter_mode :: "conf_val \<Rightarrow> int" where
  "filter_mode v = (case v of
       CInt n \<Rightarrow> 1
     | CStr s \<Rightarrow> (case map_of [(''compensated'', 0), (''inverted'', 1), (''xcorr'', 2), (''raw'', 3)] s of
           None \<Rightarrow> 1 | Some m \<Rightarrow> m))"

definition conf_str :: "conf_val \<Rightarrow> string" where
  "conf_str v = (case v of CStr s \<Rightarrow> s | CInt n \<Rightarrow> int_to_str n)"

definition pack_tp_conf :: "int \<Rightarrow> int \<Rightarrow> int \<Rightarrow> int \<Rightarrow> int \<Rightarrow> int" where
  "pack_tp_conf fmode slope_mode slope_threshold pedestal_code spy_code =
     (fmode AND 0x3) OR push_bit 8 (slope_mode AND 0x1) OR push_bit 9 (slope_threshold AND 0x7F)
       OR push_bit 16 (pedestal_code AND 0x1F) OR push_bit 21 (spy_code AND 0x3F)"

definition assemble_tp_conf :: "conf \<Rightarrow> int result" where
  "assemble_tp_conf trigger =
     (let fmode = filter_mode (conf_get trigger ''filter_mode'' (CStr ''inverted''));
          slope_mode = (if conf_str (conf_get trigger ''slope_mode'' (CStr ''16'')) = ''16'' then 0 else 1) in
      r_bind (conf_int (conf_get trigger ''pedestal_length'' (CInt 64))) (\<lambda>pedestal_length.
      r_bind (conf_int (conf_get trigger ''spybuffer_channel'' (CInt 63))) (\<lambda>spybuffer_channel.
      r_bind (conf_int (conf_get trigger ''slope_threshold'' (CInt 12))) (\<lambda>slope_threshold.
      Inr (pack_tp_conf fmode slope_mode slope_threshold (max 0 (min 31 (pedestal_length div 8)))
        (max 0 (min 63 spybuffer_channel)))))))"

definition pack_xcorr :: "int \<Rightarrow> int \<Rightarrow> int" where
  "pack_xcorr disc corr = push_bit 28 (disc AND 0x3FFF) OR (corr AND 0x0FFFFFFF)"

definition compute_self_trigger_xcorr :: "conf \<Rightarrow> int result" where
  "compute_self_trigger_xcorr xcorr_conf =
     r_bind (conf_int (conf_get xcorr_conf ''discrimination_threshold'' (CInt 0))) (\<lambda>disc.
     r_bind (conf_int (conf_get xcorr_conf ''correlation_threshold'' (CInt 0))) (\<lambda>corr.
     Inr (pack_xcorr disc corr)))"

section \<open>Dynamic values\<close>

text \<open>Assigning a JSON value to an unsigned field; \<open>bool\<close> is an integer type.\<close>

fun set_uint :: "nat \<Rightarrow> json \<Rightarrow> int result" where
  "set_uint w (JInt n) = uint_field w n"
| "set_uint w (JBool b) = Inr (if b then 1 else 0)"
| "set_uint w _ = Inl TypeError"

fun set_str :: "json \<Rightarrow> string result" where
  "set_str (JStr s) = Inr s"
| "set_str _ = Inl TypeError"

fun py_truth :: "json \<Rightarrow> bool" where
  "py_truth JNull = False"
| "py_truth (JBool b) = b"
| "py_truth (JInt n) = (n \<noteq> 0)"
| "py_truth (JFloat r) = (r \<notin> {''0.0'', ''-0.0''})"
| "py_truth (JStr s) = (s \<noteq> [])"
| "py_truth (JList xs) = (xs \<noteq> [])"
| "py_truth (JObj kvs) = (kvs \<noteq> [])"

text \<open>\<open>for x in value\<close>.\<close>

fun py_iter :: "json \<Rightarrow> json list result" where
  "py_iter (JList xs) = Inr xs"
| "py_iter (JObj kvs) = Inr (map (\<lambda>kv. JStr (fst kv)) kvs)"
| "py_iter (JStr s) = Inr (map (\<lambda>c. JStr [c]) s)"
| "py_iter _ = Inl TypeError"

fun maybe_get :: "json \<Rightarrow> nat \<Rightarrow> json \<Rightarrow> json result" where
  "maybe_get JNull idx dflt = Inr dflt"
| "maybe_get (JList xs) idx dflt = Inr (if idx < length xs then xs ! idx else dflt)"
| "maybe_get (JStr s) idx dflt = Inr (if idx < length s then JStr [s ! idx] else dflt)"
| "maybe_get (JObj kvs) idx dflt = Inl KeyError"
| "maybe_get _ idx dflt = Inl TypeError"

section \<open>Overlaying a seed\<close>

text \<open>The element of a repeated field with an identifier, as its position; appended when missing.\<close>

definition ensure_by :: "('a \<Rightarrow> int) \<Rightarrow> (int \<Rightarrow> 'a) \<Rightarrow> int \<Rightarrow> 'a list \<Rightarrow> ('a list \<times> nat) result" where
  "ensure_by key fresh i xs =
     (let k = length (takeWhile (\<lambda>x. key x \<noteq> i) xs) in
      if k < length xs then Inr (xs, k)
      else r_bind (uint_field 32 i) (\<lambda>i. Inr (xs @ [fresh i], length xs)))"

definition empty_channel :: "int \<Rightarrow> ChannelConfig" where
  "empty_channel i = \<lparr>ch_id = i, ch_trim = 0, ch_offset = 0, ch_gain = 0\<rparr>"

definition empty_afe :: "int \<Rightarrow> AFEConfig" where
  "empty_afe i = \<lparr>afe_id = i, attenuators = 0, v_bias = 0, adc = empty_adc,
     pga = \<lparr>pga_lpf_cut_frequency = 0, pga_integrator_disable = False, pga_gain = False\<rparr>,
     lna = \<lparr>lna_clamp = 0, lna_gain = 0, lna_integrator_disable = False\<rparr>\<rparr>"

definition ensure_channel :: "int \<Rightarrow> ChannelConfig list \<Rightarrow> (ChannelConfig list \<times> nat) result" where
  "ensure_channel = ensure_by ch_id empty_channel"

definition ensure_afe :: "int \<Rightarrow> AFEConfig list \<Rightarrow> (AFEConfig list \<times> nat) result" where
  "ensure_afe = ensure_by afe_id empty_afe"

text \<open>\<open>field = _maybe_get(values, idx, field)\<close> for an unsigned field and for a Boolean one.\<close>

definition take_uint :: "json \<Rightarrow> nat \<Rightarrow> int \<Rightarrow> int result" where
  "take_uint values idx cur = r_bind (maybe_get values idx (JInt cur)) (set_uint 32)"

definition take_bool :: "json \<Rightarrow> nat \<Rightarrow> bool \<Rightarrow> bool result" where
  "take_bool values idx cur = r_bind (maybe_get values idx (JBool cur)) (\<lambda>v. Inr (py_truth v))"

text \<open>\<open>if values is not None: ...\<close>.\<close>

definition if_given :: "json \<Rightarrow> 'a \<Rightarrow> 'a result \<Rightarrow> 'a result" where
  "if_given values cur r = (if values = JNull then Inr cur else r)"

definition overlay_channel ::
  "(string \<Rightarrow> int result) \<Rightarrow> json \<Rightarrow> json \<Rightarrow> json \<Rightarrow> nat \<times> json \<Rightarrow> ChannelConfig list \<Rightarrow> ChannelConfig list result" where
  "overlay_channel tr offsets trims gains item cs = (case item of (idx, raw_id) \<Rightarrow>
     r_bind (json_int tr raw_id) (\<lambda>i.
     r_bind (ensure_channel i cs) (\<lambda>(cs, k).
     let ch = cs ! k in
     r_bind (take_uint offsets idx (ch_offset ch)) (\<lambda>off.
     r_bind (take_uint trims idx (ch_trim ch)) (\<lambda>tri.
     r_bind (take_uint gains idx (ch_gain ch)) (\<lambda>gai.
     Inr (cs[k := ch\<lparr>ch_offset := off, ch_trim := tri, ch_gain := gai\<rparr>])))))))"

text \<open>The lists of the section \<open>afes\<close> of a seed.\<close>

record afe_lists =
  al_attenuators :: json
  al_v_biases :: json
  al_adc_res :: json
  al_adc_fmt :: json
  al_adc_sb :: json
  al_pga_cut :: json
  al_pga_int :: json
  al_pga_gain :: json
  al_lna_clamp :: json
  al_lna_gain :: json
  al_lna_int :: json

definition overlay_common :: "afe_lists \<Rightarrow> nat \<Rightarrow> AFEConfig \<Rightarrow> AFEConfig result" where
  "overlay_common l idx a =
     r_bind (if_given (al_adc_res l) (adc_resolution (adc a)) (take_bool (al_adc_res l) idx (adc_resolution (adc a)))) (\<lambda>ar.
     r_bind (if_given (al_adc_fmt l) (adc_output_format (adc a)) (take_bool (al_adc_fmt l) idx (adc_output_format (adc a)))) (\<lambda>af.
     r_bind (if_given (al_adc_sb l) (adc_sb_first (adc a)) (take_bool (al_adc_sb l) idx (adc_sb_first (adc a)))) (\<lambda>asb.
     r_bind (if_given (al_pga_cut l) (pga_lpf_cut_frequency (pga a)) (take_uint (al_pga_cut l) idx (pga_lpf_cut_frequency (pga a)))) (\<lambda>pc.
     r_bind (if_given (al_pga_int l) (pga_integrator_disable (pga a)) (take_bool (al_pga_int l) idx (pga_integrator_disable (pga a)))) (\<lambda>pint.
     r_bind (if_given (al_pga_gain l) (pga_gain (pga a)) (take_bool (al_pga_gain l) idx (pga_gain (pga a)))) (\<lambda>pg.
     r_bind (if_given (al_lna_clamp l) (lna_clamp (lna a)) (take_uint (al_lna_clamp l) idx (lna_clamp (lna a)))) (\<lambda>lc.
     r_bind (if_given (al_lna_gain l) (lna_gain (lna a)) (take_uint (al_lna_gain l) idx (lna_gain (lna a)))) (\<lambda>lg.
     r_bind (if_given (al_lna_int l) (lna_integrator_disable (lna a)) (take_bool (al_lna_int l) idx (lna_integrator_disable (lna a)))) (\<lambda>li.
     Inr (a\<lparr>adc := \<lparr>adc_resolution = ar, adc_output_format = af, adc_sb_first = asb\<rparr>,
        pga := \<lparr>pga_lpf_cut_frequency = pc, pga_integrator_disable = pint, pga_gain = pg\<rparr>,
        lna := \<lparr>lna_clamp = lc, lna_gain = lg, lna_integrator_disable = li\<rparr>\<rparr>))))))))))"

definition overlay_afe ::
  "(string \<Rightarrow> int result) \<Rightarrow> afe_lists \<Rightarrow> bool \<Rightarrow> nat \<times> json \<Rightarrow> AFEConfig list \<Rightarrow> AFEConfig list result" where
  "overlay_afe tr l prefer_seed_common item as = (case item of (idx, raw_id) \<Rightarrow>
     r_bind (json_int tr raw_id) (\<lambda>i.
     r_bind (ensure_afe i as) (\<lambda>(as, k).
     let a = as ! k in
     r_bind (take_uint (al_attenuators l) idx (attenuators a)) (\<lambda>att.
     r_bind (take_uint (al_v_biases l) idx (v_bias a)) (\<lambda>vb.
     let a = a\<lparr>attenuators := att, v_bias := vb\<rparr> in
     r_bind (if prefer_seed_common then overlay_common l idx a else Inr a) (\<lambda>a.
     Inr (as[k := a])))))))"

definition seed_channels ::
  "(string \<Rightarrow> int result) \<Rightarrow> json \<Rightarrow> ChannelConfig list \<Rightarrow> ChannelConfig list result" where
  "seed_channels tr seed_cfg cs =
     r_bind (py_get seed_cfg ''channel_analog_conf'' (JObj [])) (\<lambda>chan_cfg.
     r_bind (py_get chan_cfg ''ids'' (JList [])) (\<lambda>ch_ids.
     r_bind (py_get chan_cfg ''offsets'' (JList [])) (\<lambda>offsets.
     r_bind (py_get chan_cfg ''trims'' (JList [])) (\<lambda>trims.
     r_bind (py_get chan_cfg ''gains'' (JList [])) (\<lambda>gains.
     r_bind (py_iter ch_ids) (\<lambda>ids.
     r_fold (overlay_channel tr offsets trims gains) (enumerate 0 ids) cs))))))"

definition seed_afe_lists :: "json \<Rightarrow> afe_lists result" where
  "seed_afe_lists afes_cfg =
     r_bind (py_get afes_cfg ''attenuators'' (JList [])) (\<lambda>atts.
     r_bind (py_get afes_cfg ''v_biases'' (JList [])) (\<lambda>vbs.
     r_bind (py_get afes_cfg ''adcs'' (JObj [])) (\<lambda>adcs.
     r_bind (py_get afes_cfg ''pgas'' (JObj [])) (\<lambda>pgas.
     r_bind (py_get afes_cfg ''lnas'' (JObj [])) (\<lambda>lnas.
     r_bind (py_get adcs ''resolution'' JNull) (\<lambda>adc_res.
     r_bind (py_get adcs ''output_format'' JNull) (\<lambda>adc_fmt.
     r_bind (py_get adcs ''SB_first'' JNull) (\<lambda>sb_upper.
     r_bind (if py_truth sb_upper then Inr sb_upper else py_get adcs ''sb_first'' JNull) (\<lambda>adc_sb.
     r_bind (py_get pgas ''lpf_cut_frequency'' JNull) (\<lambda>pga_cut.
     r_bind (py_get pgas ''integrator_disable'' JNull) (\<lambda>pga_int.
     r_bind (py_get pgas ''gain'' JNull) (\<lambda>pgain.
     r_bind (py_get lnas ''clamp'' JNull) (\<lambda>lclamp.
     r_bind (py_get lnas ''gain'' JNull) (\<lambda>lgain.
     r_bind (py_get lnas ''integrator_disable'' JNull) (\<lambda>lna_int.
     Inr \<lparr>al_attenuators = atts, al_v_biases = vbs, al_adc_res = adc_res, al_adc_fmt = adc_fmt, al_adc_sb = adc_sb,
       al_pga_cut = pga_cut, al_pga_int = pga_int, al_pga_gain = pgain, al_lna_clamp = lclamp, al_lna_gain = lgain,
       al_lna_int = lna_int\<rparr>)))))))))))))))"

definition seed_afes ::
  "(string \<Rightarrow> int result) \<Rightarrow> json \<Rightarrow> bool \<Rightarrow> AFEConfig list \<Rightarrow> AFEConfig list result" where
  "seed_afes tr seed_cfg prefer_seed_common as =
     r_bind (py_get seed_cfg ''afes'' (JObj [])) (\<lambda>afes_cfg.
     r_bind (py_get afes_cfg ''ids'' (JList [])) (\<lambda>afe_ids.
     r_bind (seed_afe_lists afes_cfg) (\<lambda>l.
     r_bind (py_iter afe_ids) (\<lambda>ids.
     r_fold (overlay_afe tr l prefer_seed_common) (enumerate 0 ids) as))))"

definition seed_uint :: "nat \<Rightarrow> json \<Rightarrow> string \<Rightarrow> int \<Rightarrow> int result" where
  "seed_uint w seed_cfg key cur = r_bind (py_get seed_cfg key (JInt cur)) (set_uint w)"

definition build_request_from_seed ::
  "(string \<Rightarrow> int result) \<Rightarrow> json \<Rightarrow> ConfigureRequest \<Rightarrow> bool \<Rightarrow> ConfigureRequest result" where
  "build_request_from_seed tr seed_cfg cfg prefer_seed_common =
     r_bind (seed_uint 32 seed_cfg ''slot_id'' (slot cfg)) (\<lambda>sl.
     r_bind (seed_uint 32 seed_cfg ''bias_ctrl'' (biasctrl cfg)) (\<lambda>bc.
     r_bind (seed_uint 64 seed_cfg ''self_trigger_threshold'' (self_trigger_threshold cfg)) (\<lambda>thr.
     r_bind (seed_uint 64 seed_cfg ''self_trigger_xcorr'' (self_trigger_xcorr cfg)) (\<lambda>xc.
     r_bind (seed_uint 64 seed_cfg ''tp_conf'' (tp_conf cfg)) (\<lambda>tp.
     r_bind (seed_uint 64 seed_cfg ''compensator'' (compensator cfg)) (\<lambda>comp.
     r_bind (py_get seed_cfg ''inverters'' (JInt (inverters cfg))) (\<lambda>inv0.
     r_bind (py_get seed_cfg ''inverter'' inv0) (\<lambda>inv1.
     r_bind (set_uint 64 inv1) (\<lambda>inv.
     r_bind (py_get seed_cfg ''full_stream_channels'' (JList [])) (\<lambda>fs.
     r_bind (py_iter fs) (\<lambda>fs.
     r_bind (r_map (set_uint 32) fs) (\<lambda>fs.
     r_bind (seed_channels tr seed_cfg (channels cfg)) (\<lambda>chs.
     r_bind (seed_afes tr seed_cfg prefer_seed_common (afes cfg)) (\<lambda>afs.
     Inr (cfg\<lparr>slot := sl, biasctrl := bc, self_trigger_threshold := thr, self_trigger_xcorr := xc, tp_conf := tp,
        compensator := comp, inverters := inv, full_stream_channels := fs, channels := chs, afes := afs\<rparr>)))))))))))))))"

section \<open>Sending\<close>

text \<open>\<open>send_configure_request\<close>; timeouts propagate as exceptions here.\<close>

definition send_configure_request ::
  "('s, 'w, 'p, 'f) fe_env \<Rightarrow> string \<Rightarrow> string \<Rightarrow> ConfigureRequest \<Rightarrow> ('s, json) py" where
  "send_configure_request env ep rt cfg =
     m_bind (build_configure_v2_envelope env cfg rt) (\<lambda>req_env.
     m_bind (time_ns (fe_sock env)) (\<lambda>t_send.
     m_then (print_envelope env ''REQUEST'' True req_env)
     (m_then (z_send (fe_sock env) (ser (fe_envc env) req_env))
     (m_bind (z_recv (fe_sock env)) (\<lambda>frames.
      m_bind (time_ns (fe_sock env)) (\<lambda>t_recv.
      m_bind (m_lift (ParseFromString (fe_envc env) (last frames))) (\<lambda>(reply, n).
      if n = 0 then m_raise (RuntimeError ''Failed to parse ControlEnvelopeV2 reply'')
      else
        let x = \<lparr>xe_reply = reply, xe_send = t_send, xe_recv = t_recv\<rparr> in
        m_then (print_envelope env ''RESPONSE'' True reply)
        (m_then (print_lines env (metrics_lines env ''[METRICS]'' x))
        (m_bind (m_lift (ParseFromString (outc env) (payload reply))) (\<lambda>(out, k).
         if k = 0 then m_raise (RuntimeError ''Failed to parse ConfigureResponse'')
         else
           m_then (summarize_configure_response env out True)
           (m_ret (JObj [(''endpoint'', JStr ep), (''request'', request_json env req_env), (''response'', response_json env reply),
              (''metrics'', metrics_json env x),
              (''configure_response'', JObj [(''success'', JBool (cr_success out)),
                 (''message_lines'', message_lines (count_lf (cr_message out)) (cr_message out))])]))))))))))))"

section \<open>The clients\<close>

record pds_args =
  pa_board_id :: string
  pa_host :: string
  pa_port :: int
  pa_route :: string
  pa_timeout :: int
  pa_prefer_cli_common :: bool
  pa_json :: bool
  pa_vgain :: int
  pa_ch_offset :: int
  pa_lpf_cutoff :: int
  pa_pga_gain_control :: string
  pa_lna_gain_control :: string
  pa_lna_input_clamp :: string

text \<open>Missing string options are the empty string: the code only tests their truth value.\<close>

definition pds_defaults :: pds_args where
  "pds_defaults = \<lparr>pa_board_id = [], pa_host = [], pa_port = 9876, pa_route = ''mezz/0'', pa_timeout = 6000,
     pa_prefer_cli_common = False, pa_json = False, pa_vgain = 1600, pa_ch_offset = 2275, pa_lpf_cutoff = 10,
     pa_pga_gain_control = ''24 dB'', pa_lna_gain_control = ''12 dB'', pa_lna_input_clamp = ''auto''\<rparr>"

definition target_ip :: "pds_args \<Rightarrow> json \<Rightarrow> json result" where
  "target_ip args seed_cfg =
     (if pa_host args \<noteq> [] then Inr (JStr (pa_host args)) else py_get seed_cfg ''ip'' (JStr ''127.0.0.1''))"

definition build_defaults_from_args :: "pds_args \<Rightarrow> json \<Rightarrow> json \<Rightarrow> ConfigureRequest result" where
  "build_defaults_from_args args ip slot_id =
     r_bind (lookup lpf_dict (pa_lpf_cutoff args)) (\<lambda>lpf.
     r_bind (lookup pga_gain_control_dict (pa_pga_gain_control args)) (\<lambda>pg.
     r_bind (lookup lna_gain_control_dict (pa_lna_gain_control args)) (\<lambda>lg.
     r_bind (lookup lna_input_clamp_dict (pa_lna_input_clamp args)) (\<lambda>lc.
     r_bind (set_str ip) (\<lambda>ip.
     r_bind (set_uint 32 slot_id) (\<lambda>sl.
     make_default_config (default_params\<lparr>p_ip := ip, p_slot := sl, p_per_ch_offset := pa_ch_offset args,
       p_vgain := pa_vgain args, p_lpf_cutoff := lpf, p_pga_gain := pg, p_lna_gain := lg, p_lna_clamp := lc\<rparr>)))))))"

definition board_request :: "(string \<Rightarrow> int result) \<Rightarrow> pds_args \<Rightarrow> json \<Rightarrow> (json \<times> ConfigureRequest) result" where
  "board_request tr args seed_cfg =
     r_bind (target_ip args seed_cfg) (\<lambda>ip.
     r_bind (py_get seed_cfg ''slot_id'' (JInt 0)) (\<lambda>slot_id.
     r_bind (build_defaults_from_args args ip slot_id) (\<lambda>defaults.
     r_bind (build_request_from_seed tr seed_cfg defaults (\<not> pa_prefer_cli_common args)) (\<lambda>cfg.
     r_bind (r_bind (py_get seed_cfg ''ip'' ip) set_str) (\<lambda>addr.
     r_bind (uint_field 32 (pa_timeout args)) (\<lambda>tmo.
     Inr (ip, cfg\<lparr>daphne_address := addr, req_timeout_ms := tmo\<rparr>)))))))"

definition pds_endpoint :: "pds_args \<Rightarrow> json \<Rightarrow> string" where
  "pds_endpoint args ip = ''tcp://'' @ py_str ip @ '':'' @ int_to_str (pa_port args)"

definition selected :: "pds_args \<Rightarrow> string \<Rightarrow> bool" where
  "selected args board_id \<longleftrightarrow> pa_board_id args = [] \<or> pa_board_id args = board_id"

text \<open>\<open>sock_for\<close> gives the socket connected to an endpoint.\<close>

definition configure_board ::
  "('s, 'w, 'p, 'f) fe_env \<Rightarrow> (string \<Rightarrow> ('s, 'w) zsock) \<Rightarrow> (string \<Rightarrow> int result) \<Rightarrow> pds_args \<Rightarrow>
   string \<times> json \<Rightarrow> jobject \<Rightarrow> ('s, jobject) py" where
  "configure_board env sock_for tr args item summaries = (case item of (board_id, seed_cfg) \<Rightarrow>
     if \<not> selected args board_id then m_ret summaries
     else
       m_bind (m_lift (board_request tr args seed_cfg)) (\<lambda>(ip, cfg).
       m_bind (send_configure_request (env\<lparr>fe_sock := sock_for (pds_endpoint args ip)\<rparr>) (pds_endpoint args ip) (pa_route args) cfg) (\<lambda>summary.
       m_ret (AList.update board_id summary summaries))))"

definition seed_items :: "json \<Rightarrow> jobject result" where
  "seed_items v = (case v of JObj kvs \<Rightarrow> Inr kvs | _ \<Rightarrow> Inl AttributeError)"

definition configure_boards ::
  "('s, 'w, 'p, 'f) fe_env \<Rightarrow> (string \<Rightarrow> ('s, 'w) zsock) \<Rightarrow> (string \<Rightarrow> int result) \<Rightarrow> pds_args \<Rightarrow> json \<Rightarrow> ('s, jobject) py" where
  "configure_boards env sock_for tr args seed_cfgs =
     m_bind (m_lift (seed_items seed_cfgs)) (\<lambda>items.
     m_bind (m_fold (configure_board env sock_for tr args) items []) (\<lambda>summaries.
     m_then (m_when (pa_json args \<and> summaries \<noteq> []) (fe_print env (fe_dumps env (JObj summaries))))
       (m_ret summaries)))"

definition looks_like_detail :: "json \<Rightarrow> bool" where
  "looks_like_detail v = (case v of
       JObj kvs \<Rightarrow> list_all (\<lambda>k. map_of kvs k \<noteq> None) [''metadata'', ''common_conf'', ''devices'']
     | _ \<Rightarrow> False)"

definition output_main ::
  "('s, 'w, 'p, 'f) fe_env \<Rightarrow> (string \<Rightarrow> ('s, 'w) zsock) \<Rightarrow> (string \<Rightarrow> int result) \<Rightarrow> ('s, json) py \<Rightarrow> string \<Rightarrow> pds_args \<Rightarrow> ('s, int) py" where
  "output_main env sock_for tr load_seed output_path args =
     m_bind load_seed (\<lambda>seed_cfgs.
     if looks_like_detail seed_cfgs then m_raise (SystemExit 1)
     else
       m_bind (configure_boards env sock_for tr args seed_cfgs) (\<lambda>summaries.
       if pa_board_id args \<noteq> [] \<and> summaries = [] then
         m_then (fe_print env (''ERROR: no boards matched --board-id '' @ pa_board_id args @ '' in '' @ output_path)) (m_ret 2)
       else m_ret 0))"

definition detail_main ::
  "('s, 'w, 'p, 'f) fe_env \<Rightarrow> (string \<Rightarrow> ('s, 'w) zsock) \<Rightarrow> (string \<Rightarrow> int result) \<Rightarrow> ('s, json) py \<Rightarrow> pds_args \<Rightarrow> ('s, int) py" where
  "detail_main env sock_for tr load_seed args =
     m_bind load_seed (\<lambda>seed_cfgs.
     m_bind (configure_boards env sock_for tr args seed_cfgs) (\<lambda>summaries. m_ret 0))"

section \<open>The trigger word\<close>

lemma pack_tp_conf_bits:
  "pack_tp_conf f s t p y =
     take_bit 2 f OR push_bit 8 (take_bit 1 s) OR push_bit 9 (take_bit 7 t) OR push_bit 16 (take_bit 5 p)
       OR push_bit 21 (take_bit 6 y)"
  by (simp add: pack_tp_conf_def take_bit_eq_mask mask_numeral)

lemma pack_tp_conf_fields:
  "take_bit 2 (pack_tp_conf f s t p y) = take_bit 2 f"
  "take_bit 6 (drop_bit 2 (pack_tp_conf f s t p y)) = 0"
  "take_bit 1 (drop_bit 8 (pack_tp_conf f s t p y)) = take_bit 1 s"
  "take_bit 7 (drop_bit 9 (pack_tp_conf f s t p y)) = take_bit 7 t"
  "take_bit 5 (drop_bit 16 (pack_tp_conf f s t p y)) = take_bit 5 p"
  "take_bit 6 (drop_bit 21 (pack_tp_conf f s t p y)) = take_bit 6 y"
  "take_bit 27 (pack_tp_conf f s t p y) = pack_tp_conf f s t p y"
  unfolding pack_tp_conf_bits
  by (rule bit_eqI, simp only: bit_take_bit_iff bit_drop_bit_eq bit_or_iff bit_push_bit_iff_int comp_apply bit_0_eq
      bot_apply bot_bool_def, force)+

lemma pack_tp_conf_range: "0 \<le> pack_tp_conf f s t p y \<and> pack_tp_conf f s t p y < 2 ^ 27"
  using pack_tp_conf_fields(7) [of f s t p y] take_bit_int_less_exp [of 27 "pack_tp_conf f s t p y"]
    take_bit_nonnegative [of 27 "pack_tp_conf f s t p y"] by simp

lemma filter_mode_range: "0 \<le> filter_mode v \<and> filter_mode v < 4"
  by (auto simp: filter_mode_def split: conf_val.split option.split)

text \<open>A trigger word occupies 27 bits with its fields in disjoint positions: the filter mode in
  bits 0 and 1, six zero bits, the slope mode in bit 8, the low seven bits of the slope threshold, the pedestal
  length in units of eight saturated to five bits, and the spy-buffer channel saturated to six bits.\<close>

theorem tp_conf_fields:
  assumes "assemble_tp_conf trigger = Inr w"
  shows "0 \<le> w \<and> w < 2 ^ 27 \<and>
    take_bit 2 w = filter_mode (conf_get trigger ''filter_mode'' (CStr ''inverted'')) \<and>
    take_bit 6 (drop_bit 2 w) = 0 \<and>
    take_bit 1 (drop_bit 8 w) = (if conf_str (conf_get trigger ''slope_mode'' (CStr ''16'')) = ''16'' then 0 else 1) \<and>
    (\<exists>th. conf_int (conf_get trigger ''slope_threshold'' (CInt 12)) = Inr th \<and> take_bit 7 (drop_bit 9 w) = th mod 128) \<and>
    (\<exists>ped. conf_int (conf_get trigger ''pedestal_length'' (CInt 64)) = Inr ped \<and>
       take_bit 5 (drop_bit 16 w) = clamp 0 31 (ped div 8)) \<and>
    (\<exists>spy. conf_int (conf_get trigger ''spybuffer_channel'' (CInt 63)) = Inr spy \<and>
       take_bit 6 (drop_bit 21 w) = clamp 0 63 spy)"
proof -
  let ?f = "filter_mode (conf_get trigger ''filter_mode'' (CStr ''inverted''))"
  let ?s = "if conf_str (conf_get trigger ''slope_mode'' (CStr ''16'')) = ''16'' then 0 else 1 :: int"
  from assms obtain ped spy th where
    v: "conf_int (conf_get trigger ''pedestal_length'' (CInt 64)) = Inr ped"
      "conf_int (conf_get trigger ''spybuffer_channel'' (CInt 63)) = Inr spy"
      "conf_int (conf_get trigger ''slope_threshold'' (CInt 12)) = Inr th" and
    w: "w = pack_tp_conf ?f ?s th (clamp 0 31 (ped div 8)) (clamp 0 63 spy)"
    unfolding assemble_tp_conf_def Let_def r_bind_ok sum.inject clamp_def [symmetric]
    by (elim exE conjE) (rule that, assumption+, rule sym, assumption)
  have "take_bit 2 ?f = ?f" using filter_mode_range by (simp add: take_bit_int_eq_self_iff)
  moreover have "take_bit 1 ?s = ?s" by simp
  moreover have "take_bit 5 (clamp 0 31 (ped div 8)) = clamp 0 31 (ped div 8)" "take_bit 6 (clamp 0 63 spy) = clamp 0 63 spy"
    using clamp_bounds [of 0 31 "ped div 8"] clamp_bounds [of 0 63 spy] by (simp_all add: take_bit_int_eq_self_iff)
  moreover have "take_bit 7 th = th mod 128" by (simp add: take_bit_eq_mod)
  ultimately show ?thesis
    using v pack_tp_conf_range [of ?f ?s th "clamp 0 31 (ped div 8)" "clamp 0 63 spy"]
    unfolding w pack_tp_conf_fields by (intro conjI) (simp_all only:, blast+)
qed

theorem tp_conf_fields_witness:
  "\<exists>w. assemble_tp_conf [(''slope_threshold'', CInt 140), (''spybuffer_channel'', CInt 99)] = Inr w \<and>
    take_bit 7 (drop_bit 9 w) = 12 \<and> take_bit 6 (drop_bit 21 w) = 63"
proof -
  let ?t = "[(''slope_threshold'', CInt 140), (''spybuffer_channel'', CInt 99)]"
  obtain w where w: "assemble_tp_conf ?t = Inr w"
    by (simp add: assemble_tp_conf_def conf_get_def Let_def)
  with tp_conf_fields [OF w] show ?thesis by (auto simp: conf_get_def clamp_def)
qed

section \<open>Repeated fields with identifiers\<close>

text \<open>The contract of \<open>_ensure_channel\<close> and \<open>_ensure_afe\<close>: a fresh element has the identifier it was made for.\<close>

locale keyed =
  fixes key :: "'a \<Rightarrow> int" and fresh :: "int \<Rightarrow> 'a"
  assumes key_fresh: "key (fresh i) = i"
begin

definition at :: "'a list \<Rightarrow> int \<Rightarrow> 'a option" where
  "at xs i = find (\<lambda>x. key x = i) xs"

definition ins :: "int \<Rightarrow> int list \<Rightarrow> int list" where
  "ins i ks = (if i \<in> set ks then ks else ks @ [i])"

lemma at_update:
  "k < length xs \<Longrightarrow> k = length (takeWhile (\<lambda>x. key x \<noteq> i) xs) \<Longrightarrow> key x = i \<Longrightarrow>
     at (xs[k := x]) j = (if j = i then Some x else at xs j)"
proof (induction xs arbitrary: k)
  case (Cons y ys)
  then show ?case by (cases k) (auto simp: at_def split: if_splits)
qed simp

lemma at_append: "at (xs @ ys) i = (case at xs i of Some x \<Rightarrow> Some x | None \<Rightarrow> at ys i)"
  by (induction xs) (auto simp: at_def)

lemma at_None: "at xs i = None \<longleftrightarrow> i \<notin> key ` set xs"
  by (auto simp: at_def find_None_iff)

lemma first_at:
  "k = length (takeWhile (\<lambda>x. key x \<noteq> i) xs) \<Longrightarrow> k < length xs \<Longrightarrow> at xs i = Some (xs ! k) \<and> key (xs ! k) = i"
proof (induction xs arbitrary: k)
  case (Cons y ys)
  then show ?case by (cases k) (auto simp: at_def split: if_splits)
qed simp

lemma ensure_then_put:
  assumes "0 \<le> i" "i < 2 ^ 32"
  shows "\<exists>ys k. ensure_by key fresh i xs = Inr (ys, k) \<and> ys ! k = (case at xs i of Some x \<Rightarrow> x | None \<Rightarrow> fresh i) \<and>
    (\<forall>x. key x = i \<longrightarrow> (\<forall>j. at (ys[k := x]) j = (if j = i then Some x else at xs j)) \<and>
       map key (ys[k := x]) = ins i (map key xs))"
proof -
  define k where "k = length (takeWhile (\<lambda>x. key x \<noteq> i) xs)"
  show ?thesis
  proof (cases "k < length xs")
    case True
    have at: "at xs i = Some (xs ! k)" "key (xs ! k) = i" using first_at [OF k_def True] by simp_all
    have "map key (xs[k := x]) = ins i (map key xs)" if "key x = i" for x
    proof -
      have "i \<in> set (map key xs)" using at(2) True by (metis length_map nth_map nth_mem)
      moreover have "map key (xs[k := x]) = map key xs"
        using that at(2) True by (simp add: map_update list_update_same_conv)
      ultimately show ?thesis by (simp add: ins_def)
    qed
    with at True at_update [OF True k_def] show ?thesis
      by (intro exI [of _ xs] exI [of _ k]) (simp add: ensure_by_def k_def [symmetric])
  next
    case False
    have "takeWhile (\<lambda>x. key x \<noteq> i) xs = xs"
      using False unfolding k_def by (metis length_takeWhile_le le_neq_implies_less takeWhile_eq_take take_all_iff)
    then have none: "i \<notin> key ` set xs" by (auto simp: takeWhile_eq_all_conv)
    then have "at xs i = None" by (simp add: at_None)
    moreover have "at ((xs @ [fresh i])[length xs := x]) j = (if j = i then Some x else at xs j)" if "key x = i" for x j
      using that none at_None [of xs i] by (auto simp: at_append at_def [of "[x]"] split: option.split)
    moreover have "map key ((xs @ [fresh i])[length xs := x]) = ins i (map key xs)" if "key x = i" for x
      using that none by (simp add: ins_def)
    moreover have "ensure_by key fresh i xs = Inr (xs @ [fresh i], length xs)"
      using False assms by (simp add: ensure_by_def k_def [symmetric] uint_field_def)
    ultimately show ?thesis by (intro exI [of _ "xs @ [fresh i]"] exI [of _ "length xs"]) simp
  qed
qed

text \<open>A loop over identifiers whose step replaces the element of its identifier.\<close>

lemma overlay_loop:
  assumes step: "\<And>n xs. n < length ids \<Longrightarrow> \<exists>ys. step (n, JInt (ids ! n)) xs = Inr ys \<and>
      (\<forall>j. at ys j = (if j = ids ! n then Some (val n (case at xs j of Some x \<Rightarrow> x | None \<Rightarrow> fresh j)) else at xs j)) \<and>
      map key ys = ins (ids ! n) (map key xs)"
    and dist: "distinct ids"
  shows "\<exists>ys. r_fold step (enumerate 0 (map JInt ids)) xs = Inr ys \<and>
      (\<forall>n < length ids. at ys (ids ! n) = Some (val n (case at xs (ids ! n) of Some x \<Rightarrow> x | None \<Rightarrow> fresh (ids ! n)))) \<and>
      (\<forall>i. i \<notin> set ids \<longrightarrow> at ys i = at xs i) \<and> map key ys = fold ins ids (map key xs)"
proof -
  have "\<exists>ys. r_fold step (enumerate 0 (map JInt (take m ids))) xs = Inr ys \<and>
      (\<forall>n < m. at ys (ids ! n) = Some (val n (case at xs (ids ! n) of Some x \<Rightarrow> x | None \<Rightarrow> fresh (ids ! n)))) \<and>
      (\<forall>i. i \<notin> set (take m ids) \<longrightarrow> at ys i = at xs i) \<and> map key ys = fold ins (take m ids) (map key xs)"
    if "m \<le> length ids" for m
    using that
  proof (induction m)
    case (Suc m)
    then obtain ys where ys: "r_fold step (enumerate 0 (map JInt (take m ids))) xs = Inr ys"
      "\<And>n. n < m \<Longrightarrow> at ys (ids ! n) = Some (val n (case at xs (ids ! n) of Some x \<Rightarrow> x | None \<Rightarrow> fresh (ids ! n)))"
      "\<And>i. i \<notin> set (take m ids) \<Longrightarrow> at ys i = at xs i" "map key ys = fold ins (take m ids) (map key xs)"
      by auto
    have m: "m < length ids" using Suc.prems by simp
    then obtain zs where zs: "step (m, JInt (ids ! m)) ys = Inr zs"
      "\<And>j. at zs j = (if j = ids ! m then Some (val m (case at ys j of Some x \<Rightarrow> x | None \<Rightarrow> fresh j)) else at ys j)"
      "map key zs = ins (ids ! m) (map key ys)"
      using step [of m ys] by blast
    have t: "take (Suc m) ids = take m ids @ [ids ! m]" using m by (simp add: take_Suc_conv_app_nth)
    have fresh_m: "ids ! m \<notin> set (take m ids)"
      using dist m by (auto simp: in_set_conv_nth nth_eq_iff_index_eq)
    have "r_fold step (enumerate 0 (map JInt (take (Suc m) ids))) xs = Inr zs"
      using ys(1) zs(1) m by (simp add: t enumerate_append_eq r_fold_append)
    moreover have "at zs (ids ! n) = Some (val n (case at xs (ids ! n) of Some x \<Rightarrow> x | None \<Rightarrow> fresh (ids ! n)))"
      if "n < Suc m" for n
    proof (cases "n = m")
      case True
      show ?thesis unfolding True using zs(2) [of "ids ! m"] ys(3) [OF fresh_m] by simp
    next
      case False
      with that m dist have "n < m" "ids ! n \<noteq> ids ! m" by (auto simp: nth_eq_iff_index_eq)
      then show ?thesis using zs(2) ys(2) by simp
    qed
    moreover have "at zs i = at xs i" if "i \<notin> set (take (Suc m) ids)" for i
      using that zs(2) ys(3) by (auto simp: t)
    ultimately show ?case using zs(3) ys(4) by (auto simp: t)
  qed simp
  from this [of "length ids"] show ?thesis by simp
qed

text \<open>A list with distinct identifiers is determined by what it holds at each of them.\<close>

lemma at_nth: "distinct (map key xs) \<Longrightarrow> n < length xs \<Longrightarrow> at xs (key (xs ! n)) = Some (xs ! n)"
proof (induction xs arbitrary: n)
  case (Cons x xs)
  show ?case
  proof (cases n)
    case (Suc m)
    with Cons.prems have "key (xs ! m) \<noteq> key x" by (metis Suc_less_eq distinct.simps(2) length_Cons length_map list.map(2) nth_map nth_mem)
    with Cons Suc show ?thesis by (simp add: at_def)
  qed (simp add: at_def)
qed simp

lemma list_by_at:
  assumes "map key xs = ks" "distinct ks" "\<And>k. k \<in> set ks \<Longrightarrow> at xs k = Some (f k)"
  shows "xs = map f ks"
proof (rule nth_equalityI)
  show len: "length xs = length (map f ks)" using assms(1) by auto
  fix n assume n: "n < length xs"
  then have "ks ! n = key (xs ! n)" "n < length ks" using assms(1) by auto
  moreover from this have "at xs (ks ! n) = Some (f (ks ! n))" using assms(3) nth_mem by blast
  ultimately show "xs ! n = map f ks ! n" using at_nth [of xs n] n assms(1,2) by simp
qed

lemma fold_ins_known: "set ids \<subseteq> set ks \<Longrightarrow> fold ins ids ks = ks"
  by (induction ids) (auto simp: ins_def)

end

interpretation chan: keyed ch_id empty_channel
  by unfold_locales (simp add: empty_channel_def)

interpretation afe: keyed afe_id empty_afe
  by unfold_locales (simp add: empty_afe_def)

section \<open>Seeds with integer lists\<close>

definition ints :: "int list \<Rightarrow> json" where
  "ints xs = JList (map JInt xs)"

definition u32_list :: "int list \<Rightarrow> bool" where
  "u32_list xs \<longleftrightarrow> list_all (\<lambda>x. 0 \<le> x \<and> x < 2 ^ 32) xs"

lemma u32_nth: "u32_list xs \<Longrightarrow> n < length xs \<Longrightarrow> 0 \<le> xs ! n \<and> xs ! n < 2 ^ 32"
  by (simp add: u32_list_def list_all_length)

lemma take_uint_ints: "u32_list xs \<Longrightarrow> n < length xs \<Longrightarrow> take_uint (ints xs) n cur = Inr (xs ! n)"
  using u32_nth [of xs n] by (simp add: take_uint_def ints_def uint_field_def)

lemma overlay_channel_step:
  assumes "n < length ids" "length offs = length ids" "length trims = length ids" "length gains = length ids"
    "u32_list ids" "u32_list offs" "u32_list trims" "u32_list gains"
  shows "\<exists>ys. overlay_channel tr (ints offs) (ints trims) (ints gains) (n, JInt (ids ! n)) xs = Inr ys \<and>
      (\<forall>j. chan.at ys j = (if j = ids ! n then
          Some ((case chan.at xs j of Some x \<Rightarrow> x | None \<Rightarrow> empty_channel j)
            \<lparr>ch_id := ids ! n, ch_offset := offs ! n, ch_trim := trims ! n, ch_gain := gains ! n\<rparr>) else chan.at xs j)) \<and>
      map ch_id ys = chan.ins (ids ! n) (map ch_id xs)"
proof -
  let ?i = "ids ! n"
  have "0 \<le> ?i \<and> ?i < 2 ^ 32" using assms u32_nth by blast
  then obtain ys k where e: "ensure_by ch_id empty_channel ?i xs = Inr (ys, k)"
    "ys ! k = (case chan.at xs ?i of Some x \<Rightarrow> x | None \<Rightarrow> empty_channel ?i)"
    "\<And>x. ch_id x = ?i \<Longrightarrow> (\<forall>j. chan.at (ys[k := x]) j = (if j = ?i then Some x else chan.at xs j)) \<and>
       map ch_id (ys[k := x]) = chan.ins ?i (map ch_id xs)"
    using chan.ensure_then_put [of ?i xs] by blast
  have id: "ch_id (ys ! k) = ?i"
    unfolding e(2) by (auto simp: chan.at_def find_Some_iff empty_channel_def split: option.split)
  let ?c = "(ys ! k)\<lparr>ch_offset := offs ! n, ch_trim := trims ! n, ch_gain := gains ! n\<rparr>"
  have c: "ch_id ?c = ?i" "?c = (ys ! k)\<lparr>ch_id := ?i, ch_offset := offs ! n, ch_trim := trims ! n, ch_gain := gains ! n\<rparr>"
    using id by (simp_all flip: id)
  have "overlay_channel tr (ints offs) (ints trims) (ints gains) (n, JInt ?i) xs = Inr (ys[k := ?c])"
    using assms by (simp add: overlay_channel_def ensure_channel_def e(1) take_uint_ints Let_def)
  moreover have "chan.at (ys[k := ?c]) j = (if j = ?i then
      Some ((case chan.at xs j of Some x \<Rightarrow> x | None \<Rightarrow> empty_channel j)
        \<lparr>ch_id := ?i, ch_offset := offs ! n, ch_trim := trims ! n, ch_gain := gains ! n\<rparr>) else chan.at xs j)" for j
    using e(3) [OF c(1)] c(2) e(2) by simp
  ultimately show ?thesis using e(3) [OF c(1)] by blast
qed

text \<open>C17: Overlaying a seed with equally long integer lists succeeds and sets, for every channel it
  names, offset, trim and gain to the entries at the position of the channel's identifier; a
  channel the request does not have yet is added, and channels the seed does not name keep their settings.\<close>

theorem seed_channels_overlay:
  assumes "map_of kvs ''channel_analog_conf'' = Some (JObj cc)"
    and "map_of cc ''ids'' = Some (ints ids)" "map_of cc ''offsets'' = Some (ints offs)"
      "map_of cc ''trims'' = Some (ints trims)" "map_of cc ''gains'' = Some (ints gains)"
    and "length offs = length ids" "length trims = length ids" "length gains = length ids"
    and "u32_list ids" "u32_list offs" "u32_list trims" "u32_list gains" and "distinct ids"
  shows "\<exists>cs'. seed_channels tr (JObj kvs) cs = Inr cs' \<and>
    (\<forall>n < length ids. find (\<lambda>c. ch_id c = ids ! n) cs' =
       Some \<lparr>ch_id = ids ! n, ch_trim = trims ! n, ch_offset = offs ! n, ch_gain = gains ! n\<rparr>) \<and>
    (\<forall>i. i \<notin> set ids \<longrightarrow> find (\<lambda>c. ch_id c = i) cs' = find (\<lambda>c. ch_id c = i) cs) \<and>
    map ch_id cs' = fold (\<lambda>i ks. if i \<in> set ks then ks else ks @ [i]) ids (map ch_id cs)"
proof -
  have run: "seed_channels tr (JObj kvs) cs =
      r_fold (overlay_channel tr (ints offs) (ints trims) (ints gains)) (enumerate 0 (map JInt ids)) cs"
    using assms(1-5) by (simp add: seed_channels_def ints_def [of ids])
  let ?val = "\<lambda>n c. c\<lparr>ch_id := ids ! n, ch_offset := offs ! n, ch_trim := trims ! n, ch_gain := gains ! n\<rparr>"
  from chan.overlay_loop [where val = ?val and step = "overlay_channel tr (ints offs) (ints trims) (ints gains)" and xs = cs,
      OF overlay_channel_step [OF _ assms(6-12)] assms(13)]
  obtain cs' where cs': "seed_channels tr (JObj kvs) cs = Inr cs'"
    "\<And>n. n < length ids \<Longrightarrow> chan.at cs' (ids ! n) =
       Some (?val n (case chan.at cs (ids ! n) of Some x \<Rightarrow> x | None \<Rightarrow> empty_channel (ids ! n)))"
    "\<And>i. i \<notin> set ids \<Longrightarrow> chan.at cs' i = chan.at cs i" "map ch_id cs' = fold chan.ins ids (map ch_id cs)"
    unfolding run by blast
  have "find (\<lambda>c. ch_id c = ids ! n) cs' = Some \<lparr>ch_id = ids ! n, ch_trim = trims ! n, ch_offset = offs ! n, ch_gain = gains ! n\<rparr>"
    if "n < length ids" for n
    using cs'(2) [OF that] by (simp add: chan.at_def)
  moreover have "chan.ins = (\<lambda>i ks. if i \<in> set ks then ks else ks @ [i])"
    by (intro ext) (simp add: chan.ins_def)
  ultimately show ?thesis using cs' unfolding chan.at_def by auto
qed

theorem seed_channels_overlay_witness:
  "\<exists>cs'. seed_channels (\<lambda>r. Inl TypeError)
      (JObj [(''channel_analog_conf'', JObj [(''ids'', ints [7]), (''offsets'', ints [100]), (''trims'', ints [5]), (''gains'', ints [1])])])
      (map empty_channel [6, 7]) = Inr cs' \<and>
    find (\<lambda>c. ch_id c = 7) cs' = Some \<lparr>ch_id = 7, ch_trim = 5, ch_offset = 100, ch_gain = 1\<rparr> \<and>
    find (\<lambda>c. ch_id c = 6) cs' = Some (empty_channel 6)"
proof -
  let ?cc = "[(''ids'', ints [7]), (''offsets'', ints [100]), (''trims'', ints [5]), (''gains'', ints [1])]"
  have "\<exists>cs'. seed_channels (\<lambda>r. Inl TypeError) (JObj [(''channel_analog_conf'', JObj ?cc)]) (map empty_channel [6, 7]) = Inr cs' \<and>
    (\<forall>n < length [7 :: int]. find (\<lambda>c. ch_id c = [7] ! n) cs' =
       Some \<lparr>ch_id = [7] ! n, ch_trim = [5] ! n, ch_offset = [100] ! n, ch_gain = [1] ! n\<rparr>) \<and>
    (\<forall>i. i \<notin> set [7] \<longrightarrow> find (\<lambda>c. ch_id c = i) cs' = find (\<lambda>c. ch_id c = i) (map empty_channel [6, 7])) \<and>
    map ch_id cs' = fold (\<lambda>i ks. if i \<in> set ks then ks else ks @ [i]) [7] (map ch_id (map empty_channel [6, 7]))"
    by (rule seed_channels_overlay [where cc = ?cc]) (simp_all add: u32_list_def)
  then obtain cs' where c: "seed_channels (\<lambda>r. Inl TypeError) (JObj [(''channel_analog_conf'', JObj ?cc)]) (map empty_channel [6, 7]) = Inr cs'"
    "\<forall>n < length [7 :: int]. find (\<lambda>c. ch_id c = [7] ! n) cs' =
       Some \<lparr>ch_id = [7] ! n, ch_trim = [5] ! n, ch_offset = [100] ! n, ch_gain = [1] ! n\<rparr>"
    "\<forall>i. i \<notin> set [7] \<longrightarrow> find (\<lambda>c. ch_id c = i) cs' = find (\<lambda>c. ch_id c = i) (map empty_channel [6, 7])"
    by blast
  have "find (\<lambda>c. ch_id c = 7) cs' = Some \<lparr>ch_id = 7, ch_trim = 5, ch_offset = 100, ch_gain = 1\<rparr>"
    using c(2) [rule_format, of 0] by simp
  moreover have "find (\<lambda>c. ch_id c = 6) cs' = Some (empty_channel 6)"
    using c(3) [rule_format, of 6] by (simp add: empty_channel_def)
  ultimately show ?thesis using c(1) by blast
qed

section \<open>Configuring the selected boards\<close>

text \<open>The sockets of all endpoints log the frames they send in one list and are served as in \<open>fe_link\<close>.\<close>

locale pds_link =
  fixes env :: "('s, 'w, 'p, 'f) fe_env" and sock_for :: "string \<Rightarrow> ('s, 'w) zsock" and sent :: "'s \<Rightarrow> 'w list"
    and reply_of :: "'p ControlEnvelopeV2 \<Rightarrow> 'p ControlEnvelopeV2" and accepts :: "'p \<Rightarrow> bool"
  assumes served: "fe_link (env\<lparr>fe_sock := sock_for ep\<rparr>) sent reply_of accepts"
begin

lemma send_configure_t:
  "triple (\<lambda>_. True) sent (\<lambda>g. g = g0) (send_configure_request (env\<lparr>fe_sock := sock_for ep\<rparr>) ep rt cfg)
     (\<lambda>j g. \<exists>w. g = g0 @ [w] \<and> is_frame env rt (MT2_CONFIGURE_FE_REQ, ser_cfg env cfg) w)"
proof -
  let ?e = "env\<lparr>fe_sock := sock_for ep\<rparr>"
  note served_ep = served [of ep]
  note sock = fe_link.axioms(1) [OF served_ep]
  note rules = served_socket.time_t [OF sock] served_socket.print_t [OF sock] served_socket.print_lines_t [OF sock]
    served_socket.send_t [OF sock] served_socket.recv_t [OF sock] served_socket.build_envelope_t [OF sock]
  have out: "\<exists>out n. ParseFromString (outc ?e) (payload (reply_of (request_envelope MT2_CONFIGURE_FE_REQ p rt ids ts))) = Inr (out, Suc n)"
    for p rt ids ts
    using fe_link.l_configure [OF served_ep, of "request_envelope MT2_CONFIGURE_FE_REQ p rt ids ts"]
    by (auto simp: request_envelope_def)
  show ?thesis
    unfolding send_configure_request_def build_configure_v2_envelope_def print_envelope_def summarize_configure_response_def Let_def
    by (rule triple_weaken, (rule wp rules)+) (use out in \<open>fastforce simp: is_frame_def\<close>)
qed

lemma quiet_print: "\<exists>t. fe_print env l s = (Inr (), t) \<and> sent t = sent s"
  using served_socket.l_print [OF fe_link.axioms(1) [OF served], of undefined l s] by simp

lemma boards_run:
  "list_all2 (\<lambda>item r. board_request tr args (snd item) = Inr r) (filter (\<lambda>item. selected args (fst item)) items) reqs \<Longrightarrow>
   \<exists>ws out t. m_fold (configure_board env sock_for tr args) items summaries s = (Inr out, t) \<and> sent t = sent s @ ws \<and>
     list_all2 (\<lambda>r. is_frame env (pa_route args) (MT2_CONFIGURE_FE_REQ, ser_cfg env (snd r))) reqs ws \<and>
     (out = [] \<longleftrightarrow> summaries = [] \<and> reqs = [])"
proof (induction items arbitrary: reqs summaries s)
  case Nil
  then show ?case by (simp add: m_ret_def)
next
  case (Cons item items)
  obtain b seed where item: "item = (b, seed)" by (cases item)
  show ?case
  proof (cases "selected args b")
    case False
    with Cons.IH [of reqs summaries s] Cons.prems item show ?thesis
      by (simp add: configure_board_def m_bind_def m_ret_def)
  next
    case True
    with Cons.prems item obtain r rs where reqs: "reqs = r # rs" "board_request tr args seed = Inr r"
      "list_all2 (\<lambda>item r. board_request tr args (snd item) = Inr r) (filter (\<lambda>item. selected args (fst item)) items) rs"
      by (auto simp: list_all2_Cons1)
    obtain ip cfg where r: "r = (ip, cfg)" by (cases r)
    from tripleD [OF send_configure_t [of "sent s" "pds_endpoint args ip" "pa_route args" cfg] TrueI refl]
    obtain j t w where t: "send_configure_request (env\<lparr>fe_sock := sock_for (pds_endpoint args ip)\<rparr>) (pds_endpoint args ip)
        (pa_route args) cfg s = (Inr j, t)" "sent t = sent s @ [w]"
      "is_frame env (pa_route args) (MT2_CONFIGURE_FE_REQ, ser_cfg env cfg) w"
      by blast
    from Cons.IH [OF reqs(3), of "AList.update b j summaries" t] obtain ws out u where
      u: "m_fold (configure_board env sock_for tr args) items (AList.update b j summaries) t = (Inr out, u)" "sent u = sent t @ ws"
        "list_all2 (\<lambda>r. is_frame env (pa_route args) (MT2_CONFIGURE_FE_REQ, ser_cfg env (snd r))) rs ws" "out \<noteq> []"
      by auto
    have "configure_board env sock_for tr args item summaries s = (Inr (AList.update b j summaries), t)"
      using True t(1) reqs(2) by (simp add: configure_board_def item r m_bind_def m_lift_def m_ret_def)
    with u t(2,3) reqs(1) r show ?thesis
      by (intro exI [of _ "w # ws"] exI [of _ out] exI [of _ u]) (simp add: m_bind_def)
  qed
qed

lemma configure_boards_run:
  assumes "list_all2 (\<lambda>item r. board_request tr args (snd item) = Inr r) (filter (\<lambda>item. selected args (fst item)) items) reqs"
  shows "\<exists>ws out t. configure_boards env sock_for tr args (JObj items) s = (Inr out, t) \<and> sent t = sent s @ ws \<and>
     list_all2 (\<lambda>r. is_frame env (pa_route args) (MT2_CONFIGURE_FE_REQ, ser_cfg env (snd r))) reqs ws \<and> (out = [] \<longleftrightarrow> reqs = [])"
proof -
  from boards_run [OF assms, of "[]" s] obtain ws out t where
    t: "m_fold (configure_board env sock_for tr args) items [] s = (Inr out, t)" "sent t = sent s @ ws"
     "list_all2 (\<lambda>r. is_frame env (pa_route args) (MT2_CONFIGURE_FE_REQ, ser_cfg env (snd r))) reqs ws" "out = [] \<longleftrightarrow> reqs = []"
    by auto
  obtain u where "fe_print env (fe_dumps env (JObj out)) t = (Inr (), u)" "sent u = sent t" using quiet_print by blast
  then have "\<exists>u. configure_boards env sock_for tr args (JObj items) s = (Inr out, u) \<and> sent u = sent t"
    using t(1) by (cases "pa_json args \<and> out \<noteq> []")
      (auto simp: configure_boards_def seed_items_def m_then_def m_bind_def m_lift_def m_ret_def m_when_def)
  with t(2-4) show ?thesis by fastforce
qed

end

text \<open>C18: The seed client sends exactly one configuration per selected board, in the order of the file and
  each built from its own seed, whatever the servers report, and returns 0; when a board was asked for
  and none matched it sends nothing and returns 2.\<close>

theorem output_main_configures:
  assumes "pds_link env sock_for sent reply_of accepts"
    and "load_seed s = (Inr (JObj items), s0)" "sent s0 = sent s" and "\<not> looks_like_detail (JObj items)"
    and "list_all2 (\<lambda>item r. board_request tr args (snd item) = Inr r) (filter (\<lambda>item. selected args (fst item)) items) reqs"
  shows "\<exists>ws t. output_main env sock_for tr load_seed output_path args s =
      (Inr (if pa_board_id args \<noteq> [] \<and> reqs = [] then 2 else 0), t) \<and> sent t = sent s @ ws \<and>
    list_all2 (\<lambda>r. is_frame env (pa_route args) (MT2_CONFIGURE_FE_REQ, ser_cfg env (snd r))) reqs ws"
proof -
  from pds_link.configure_boards_run [OF assms(1,5), of s0] obtain ws out t where
    t: "configure_boards env sock_for tr args (JObj items) s0 = (Inr out, t)" "sent t = sent s0 @ ws"
     "list_all2 (\<lambda>r. is_frame env (pa_route args) (MT2_CONFIGURE_FE_REQ, ser_cfg env (snd r))) reqs ws" "out = [] \<longleftrightarrow> reqs = []"
    by blast
  obtain u where u: "fe_print env (''ERROR: no boards matched --board-id '' @ pa_board_id args @ '' in '' @ output_path) t = (Inr (), u)"
    "sent u = sent t"
    using pds_link.quiet_print [OF assms(1)] by blast
  show ?thesis
  proof (cases "pa_board_id args \<noteq> [] \<and> reqs = []")
    case True
    have "output_main env sock_for tr load_seed output_path args s = (Inr 2, u)"
      using True t(4) u(1) assms(4) unfolding output_main_def by (simp add: m_bind_def m_then_def m_ret_def assms(2) t(1))
    with True t(2,3) u(2) assms(3) show ?thesis by simp
  next
    case False
    have "output_main env sock_for tr load_seed output_path args s = (Inr 0, t)"
      using False t(4) assms(4) unfolding output_main_def by (auto simp: m_bind_def m_ret_def assms(2) t(1))
    with False t(2,3) assms(3) show ?thesis by auto
  qed
qed

interpretation ref_pds: pds_link ref_fe "\<lambda>ep. fe_sock ref_fe" "\<lambda>l. l" echo_reply "\<lambda>_. True"
proof (rule pds_link.intro)
  have "ref_fe\<lparr>fe_sock := fe_sock ref_fe\<rparr> = ref_fe" by (simp add: ref_fe_def)
  then show "fe_link (ref_fe\<lparr>fe_sock := fe_sock ref_fe\<rparr>) (\<lambda>l. l) echo_reply (\<lambda>_. True)"
    using ref_fe.fe_link_axioms by simp
qed

theorem output_main_configures_witness:
  "\<exists>ws t. output_main ref_fe (\<lambda>ep. fe_sock ref_fe) (\<lambda>r. Inl TypeError) (m_ret (JObj [(''13'', JObj []), (''14'', JObj [])]))
      ''seed.json'' (pds_defaults\<lparr>pa_board_id := ''14''\<rparr>) [] = (Inr 0, t) \<and> t = [] @ ws \<and> length ws = 1"
proof -
  let ?a = "pds_defaults\<lparr>pa_board_id := ''14''\<rparr>"
  let ?items = "[(''13'', JObj []), (''14'', JObj [])]"
  have "\<exists>r. board_request (\<lambda>r. Inl TypeError) ?a (JObj []) = Inr r"
    by (simp add: board_request_def target_ip_def pds_defaults_def build_defaults_from_args_def r_bind_ok make_default_config_ok
        lookup_def lpf_dict_def pga_gain_control_dict_def lna_gain_control_dict_def lna_input_clamp_dict_def params_ok_def
        default_params_def build_request_from_seed_def seed_uint_def seed_channels_def seed_afes_def seed_afe_lists_def
        default_request_def)
  then obtain r where "board_request (\<lambda>r. Inl TypeError) ?a (JObj []) = Inr r" ..
  then have "list_all2 (\<lambda>item r. board_request (\<lambda>r. Inl TypeError) ?a (snd item) = Inr r)
      (filter (\<lambda>item. selected ?a (fst item)) ?items) [r]"
    by (simp add: selected_def pds_defaults_def)
  from output_main_configures [OF ref_pds.pds_link_axioms _ _ _ this, where s = "[]" and load_seed = "m_ret (JObj ?items)" and output_path = "''seed.json''"]
  show ?thesis by (fastforce simp: m_ret_def looks_like_detail_def list_all2_Cons1)
qed

section \<open>Requests are well typed\<close>

definition in_uint :: "nat \<Rightarrow> int \<Rightarrow> bool" where
  "in_uint w v \<longleftrightarrow> 0 \<le> v \<and> v < 2 ^ w"

definition channel_typed :: "ChannelConfig \<Rightarrow> bool" where
  "channel_typed c \<longleftrightarrow> list_all (in_uint 32) [ch_id c, ch_trim c, ch_offset c, ch_gain c]"

definition afe_typed :: "AFEConfig \<Rightarrow> bool" where
  "afe_typed a \<longleftrightarrow> list_all (in_uint 32) [afe_id a, attenuators a, v_bias a, pga_lpf_cut_frequency (pga a), lna_clamp (lna a), lna_gain (lna a)]"

definition request_typed :: "ConfigureRequest \<Rightarrow> bool" where
  "request_typed cfg \<longleftrightarrow>
     list_all (in_uint 32) ([slot cfg, req_timeout_ms cfg, biasctrl cfg] @ full_stream_channels cfg) \<and>
     list_all (in_uint 64) [self_trigger_threshold cfg, self_trigger_xcorr cfg, tp_conf cfg, compensator cfg, inverters cfg] \<and>
     list_all channel_typed (channels cfg) \<and> distinct (map ch_id (channels cfg)) \<and>
     list_all afe_typed (afes cfg) \<and> distinct (map afe_id (afes cfg))"

lemma set_uint_typed: "set_uint w v = Inr n \<Longrightarrow> 0 < w \<Longrightarrow> in_uint w n"
  by (cases v) (auto simp: in_uint_def split: if_splits)

lemma take_uint_typed: "take_uint values idx cur = Inr n \<Longrightarrow> in_uint 32 n"
  by (auto simp: take_uint_def r_bind_ok intro: set_uint_typed)

context keyed
begin

definition table :: "('a \<Rightarrow> bool) \<Rightarrow> 'a list \<Rightarrow> bool" where
  "table T xs \<longleftrightarrow> list_all T xs \<and> distinct (map key xs)"

lemma ensure_table:
  assumes "ensure_by key fresh i xs = Inr (ys, k)" "table T xs" "in_uint 32 i \<Longrightarrow> T (fresh i)"
  shows "table T ys \<and> k < length ys"
proof (cases "length (takeWhile (\<lambda>x. key x \<noteq> i) xs) < length xs")
  case True
  with assms show ?thesis by (auto simp: ensure_by_def Let_def)
next
  case False
  then have "takeWhile (\<lambda>x. key x \<noteq> i) xs = xs"
    by (metis length_takeWhile_le le_neq_implies_less takeWhile_eq_take take_all_iff)
  then have "\<forall>x \<in> set xs. key x \<noteq> i" by (simp add: takeWhile_eq_all_conv)
  with False assms show ?thesis
    by (auto simp: ensure_by_def Let_def r_bind_ok table_def key_fresh in_uint_def)
qed

lemma table_put: "table T ys \<Longrightarrow> k < length ys \<Longrightarrow> T x \<Longrightarrow> key x = key (ys ! k) \<Longrightarrow> table T (ys[k := x])"
  by (auto simp: table_def list_all_iff map_update dest!: set_update_subset_insert [THEN subsetD])
     (metis length_map list_update_id nth_map)

end

lemma overlay_channel_table:
  assumes "overlay_channel tr offsets trims gains item cs = Inr cs'" "chan.table channel_typed cs"
  shows "chan.table channel_typed cs'"
proof -
  from assms(1) obtain i ys k off tri gai where
    e: "ensure_by ch_id empty_channel i cs = Inr (ys, k)" and
    v: "take_uint offsets (fst item) (ch_offset (ys ! k)) = Inr off" "take_uint trims (fst item) (ch_trim (ys ! k)) = Inr tri"
      "take_uint gains (fst item) (ch_gain (ys ! k)) = Inr gai" and
    cs': "cs' = ys[k := (ys ! k)\<lparr>ch_offset := off, ch_trim := tri, ch_gain := gai\<rparr>]"
    by (auto simp: overlay_channel_def ensure_channel_def r_bind_ok Let_def split: prod.splits)
  have ys: "chan.table channel_typed ys" "k < length ys"
    using chan.ensure_table [OF e assms(2)] by (simp_all add: channel_typed_def empty_channel_def in_uint_def)
  then have "channel_typed (ys ! k)" by (simp add: chan.table_def list_all_length)
  with v [THEN take_uint_typed] show ?thesis unfolding cs' by (intro chan.table_put ys) (simp_all add: channel_typed_def)
qed

lemma if_given_ok: "if_given values cur r = Inr x \<Longrightarrow> P cur \<Longrightarrow> (r = Inr x \<Longrightarrow> P x) \<Longrightarrow> P x"
  by (auto simp: if_given_def split: if_splits)

lemma overlay_common_typed: "overlay_common l idx a = Inr b \<Longrightarrow> afe_typed a \<Longrightarrow> afe_typed b \<and> afe_id b = afe_id a"
  by (auto simp: overlay_common_def r_bind_ok afe_typed_def intro: if_given_ok [where P = "in_uint 32"] take_uint_typed)

lemma overlay_afe_table:
  assumes "overlay_afe tr l common item as = Inr as'" "afe.table afe_typed as"
  shows "afe.table afe_typed as'"
proof -
  from assms(1) obtain i ys k att vb b where
    e: "ensure_by afe_id empty_afe i as = Inr (ys, k)" and
    v: "take_uint (al_attenuators l) (fst item) (attenuators (ys ! k)) = Inr att" "take_uint (al_v_biases l) (fst item) (v_bias (ys ! k)) = Inr vb" and
    b: "overlay_common l (fst item) ((ys ! k)\<lparr>attenuators := att, v_bias := vb\<rparr>) = Inr b
         \<or> b = (ys ! k)\<lparr>attenuators := att, v_bias := vb\<rparr>" and
    as': "as' = ys[k := b]"
    by (auto simp: overlay_afe_def ensure_afe_def r_bind_ok Let_def split: prod.splits if_splits) blast+
  have ys: "afe.table afe_typed ys" "k < length ys"
    using afe.ensure_table [OF e assms(2)] by (simp_all add: afe_typed_def empty_afe_def in_uint_def)
  then have "afe_typed (ys ! k)" by (simp add: afe.table_def list_all_length)
  with v [THEN take_uint_typed] have "afe_typed ((ys ! k)\<lparr>attenuators := att, v_bias := vb\<rparr>)" by (simp add: afe_typed_def)
  with b overlay_common_typed have "afe_typed b \<and> afe_id b = afe_id (ys ! k)" by fastforce
  then show ?thesis unfolding as' by (intro afe.table_put ys) simp_all
qed

lemma seed_tables:
  "seed_channels tr seed cs = Inr cs' \<Longrightarrow> chan.table channel_typed cs \<Longrightarrow> chan.table channel_typed cs'"
  "seed_afes tr seed common as = Inr as' \<Longrightarrow> afe.table afe_typed as \<Longrightarrow> afe.table afe_typed as'"
  unfolding seed_channels_def seed_afes_def r_bind_ok
  by (elim exE conjE, rule r_fold_invariant, assumption+, erule (1) overlay_channel_table overlay_afe_table)+

lemma build_request_typed:
  assumes "build_request_from_seed tr seed cfg common = Inr cfg'" "request_typed cfg"
  shows "request_typed cfg'"
proof -
  from assms(1) obtain sl bc thr xc tp comp inv inv1 fs fs0 chs afs where
    u32: "\<exists>v. set_uint 32 v = Inr sl" "\<exists>v. set_uint 32 v = Inr bc" "r_map (set_uint 32) fs0 = Inr fs" and
    u64: "\<exists>v. set_uint 64 v = Inr thr" "\<exists>v. set_uint 64 v = Inr xc" "\<exists>v. set_uint 64 v = Inr tp" "\<exists>v. set_uint 64 v = Inr comp"
      "\<exists>v. set_uint 64 v = Inr inv" and
    ch: "seed_channels tr seed (channels cfg) = Inr chs" and af: "seed_afes tr seed common (afes cfg) = Inr afs" and
    cfg': "cfg' = cfg\<lparr>slot := sl, biasctrl := bc, self_trigger_threshold := thr, self_trigger_xcorr := xc, tp_conf := tp,
        compensator := comp, inverters := inv, full_stream_channels := fs, channels := chs, afes := afs\<rparr>"
    unfolding build_request_from_seed_def seed_uint_def r_bind_ok by blast
  have "list_all (in_uint 32) fs"
    using u32(3) by (auto simp: r_map_ok list_all2_conv_all_nth list_all_length intro!: set_uint_typed)
  moreover have "chan.table channel_typed chs" "afe.table afe_typed afs"
    using seed_tables(1) [OF ch] seed_tables(2) [OF af] assms(2) by (simp_all add: request_typed_def chan.table_def afe.table_def)
  ultimately show ?thesis
    using u32(1,2) u64 set_uint_typed assms(2) by (auto simp: cfg' request_typed_def chan.table_def afe.table_def)
qed

lemma default_request_typed: "make_default_config p = Inr cfg \<Longrightarrow> request_typed cfg"
  by (auto simp: make_default_config_ok params_ok_def default_request_def request_typed_def list_all_iff channel_typed_def
      afe_typed_def channel_of_def afe_of_def in_uint_def comp_def py_range_def distinct_map)

lemma board_request_typed: "board_request tr args seed = Inr (ip, cfg) \<Longrightarrow> request_typed cfg"
  unfolding board_request_def build_defaults_from_args_def r_bind_ok
  by (elim exE conjE) (drule default_request_typed, drule (1) build_request_typed, auto simp: request_typed_def in_uint_def)

text \<open>The overrides of the command line are codes of twelve bits.\<close>

lemma fe_config_typed:
  assumes "fe_config F args = Inr (cfg, ov)"
  shows "request_typed cfg"
proof -
  from fe_config_ok [OF assms] obtain p trim_ov where p: "params_ok p" and
    ov: "afe_bias_overrides F args = Inr ov" "channel_trim_overrides F args = Inr trim_ov" and
    cfg: "cfg = (default_request p)\<lparr>channels := map (apply_channel trim_ov) (channels (default_request p)),
              afes := map (apply_afe ov (fa_adc_resolution args \<noteq> 0)) (afes (default_request p))\<rparr>"
    by blast
  from p have d: "request_typed (default_request p)" using default_request_typed by (simp add: make_default_config_ok)
  have codes: "map_of ov k = Some v \<Longrightarrow> in_uint 32 v" "map_of trim_ov k = Some v \<Longrightarrow> in_uint 32 v" for k v
    using afe_bias_overrides_ok [OF ov(1)] channel_trim_overrides_ok [OF ov(2)] by (fastforce simp: in_uint_def)+
  have "channel_typed c \<Longrightarrow> channel_typed (apply_channel trim_ov c)" "afe_typed a \<Longrightarrow> afe_typed (apply_afe ov b a)" for c a b
    using codes by (auto simp: channel_typed_def apply_channel_def afe_typed_def apply_afe_def split: option.split)
  with d show ?thesis by (simp add: cfg request_typed_def list_all_iff del: map_map)
qed

end
