(* ===== verification/Fe_State.thy ===== *)
theory Fe_State
  imports Pds_Config Scan_Runtime
begin

text \<open>
  \<open>client/read_fe_state_v2.py\<close>: it queries trims, offsets, gains, biases, the bias monitors and optional AFE
  registers, and prints a snapshot in the format of a seed. The theorems: what it sends is a
  prefix of the planned reads, each with the message type the protocol file gives that read, on every path and
  whatever the board does; and on a board that answers, the snapshot holds what the board answered. That a
  snapshot restores the settings through \<open>build_request_from_seed\<close> is proved in the root theory.
\<close>

section \<open>Requests\<close>

datatype read_req =
    ReadTrimAll
  | ReadOffsetAll
  | ReadVgain int
  | ReadBiasSet int
  | ReadBiasMonitor int
  | ReadVbiasControl
  | ReadAfeReg int int

text \<open>The values of a response: the repeated field of the two list reads, the value field of the others.\<close>

record read_resp =
  rr_success :: bool
  rr_message :: string
  rr_value :: int
  rr_values :: "int list"

fun read_req_type :: "read_req \<Rightarrow> int" where
  "read_req_type ReadTrimAll = 230"
| "read_req_type ReadOffsetAll = 236"
| "read_req_type (ReadVgain afe) = 226"
| "read_req_type (ReadBiasSet afe) = 228"
| "read_req_type (ReadBiasMonitor afe) = 246"
| "read_req_type ReadVbiasControl = 242"
| "read_req_type (ReadAfeReg afe reg) = 224"

definition read_resp_type :: "read_req \<Rightarrow> int" where
  "read_resp_type r = read_req_type r + 1"

fun upper_hex :: "string \<Rightarrow> string" where
  "upper_hex [] = []"
| "upper_hex (c # cs) = (let n = (of_char c :: nat) in if 97 \<le> n \<and> n \<le> 122 then char_of (n - 32) else c) # upper_hex cs"

fun read_label :: "read_req \<Rightarrow> string" where
  "read_label ReadTrimAll = ''READ_TRIM_ALL_CH''"
| "read_label ReadOffsetAll = ''READ_OFFSET_ALL_CH''"
| "read_label (ReadVgain afe) = ''READ_AFE_VGAIN[afe='' @ int_to_str afe @ '']''"
| "read_label (ReadBiasSet afe) = ''READ_AFE_BIAS_SET[afe='' @ int_to_str afe @ '']''"
| "read_label (ReadBiasMonitor afe) = ''READ_BIAS_VOLTAGE_MONITOR[afe='' @ int_to_str afe @ '']''"
| "read_label ReadVbiasControl = ''READ_VBIAS_CONTROL''"
| "read_label (ReadAfeReg afe reg) =
     ''READ_AFE_REG[afe='' @ int_to_str afe @ '',reg=0x'' @ upper_hex (fmt_hex 1 reg) @ '']''"

text \<open>Constructing a request message checks its unsigned fields.\<close>

fun check_req :: "read_req \<Rightarrow> read_req result" where
  "check_req (ReadVgain afe) = r_bind (uint_field 32 afe) (\<lambda>afe. Inr (ReadVgain afe))"
| "check_req (ReadBiasSet afe) = r_bind (uint_field 32 afe) (\<lambda>afe. Inr (ReadBiasSet afe))"
| "check_req (ReadBiasMonitor afe) = r_bind (uint_field 32 afe) (\<lambda>afe. Inr (ReadBiasMonitor afe))"
| "check_req (ReadAfeReg afe reg) =
     r_bind (uint_field 32 afe) (\<lambda>afe. r_bind (uint_field 32 reg) (\<lambda>reg. Inr (ReadAfeReg afe reg)))"
| "check_req r = Inr r"

record ('s, 'w, 'p, 'f) st_env =
  st_fe :: "('s, 'w, 'p, 'f) fe_env"
  ser_read :: "read_req \<Rightarrow> 'p"
  readc :: "read_req \<Rightarrow> ('p, read_resp) codec"
  dumps_sorted :: "json \<Rightarrow> string"

section \<open>One read\<close>

definition read_envelope :: "('s, 'w, 'p, 'f) st_env \<Rightarrow> 'p \<Rightarrow> int \<Rightarrow> string \<Rightarrow> ('s, 'p ControlEnvelopeV2) py" where
  "read_envelope env body msg_type rt =
     m_bind (fe_next_ids (st_fe env)) (\<lambda>ids.
     m_bind (time_ns (fe_sock (st_fe env))) (\<lambda>ts.
     m_ret (request_envelope msg_type body rt ids ts)))"

definition metrics_line :: "('s, 'w, 'p, 'f) fe_env \<Rightarrow> int \<Rightarrow> int \<Rightarrow> string" where
  "metrics_line fe t_send t_recv =
     ''[METRICS] send='' @ ns_to_iso fe t_send @ '' recv='' @ ns_to_iso fe t_recv @ '' rtt_ms=''
       @ f_fix (fe_floats fe) 2 (rtt (fe_floats fe) t_send t_recv) @ [CHR 0x0A]"

definition check_read :: "'p ControlEnvelopeV2 \<Rightarrow> int \<Rightarrow> 'p ControlEnvelopeV2 \<Rightarrow> 'p ControlEnvelopeV2 result" where
  "check_read e expected_type reply =
     (if etype reply \<noteq> expected_type then Inl (RuntimeError ''Unexpected response type'')
      else if correl_id reply \<noteq> 0 \<and> correl_id reply \<noteq> msg_id e then Inl (RuntimeError ''Correlation mismatch'')
      else Inr reply)"

definition send_and_recv ::
  "('s, 'w, 'p, 'f) st_env \<Rightarrow> 'p ControlEnvelopeV2 \<Rightarrow> int \<Rightarrow> bool \<Rightarrow> ('s, 'p ControlEnvelopeV2) py" where
  "send_and_recv env e expected_type verbose =
     (let fe = st_fe env in
      m_bind (time_ns (fe_sock fe)) (\<lambda>t_send.
      m_then (m_when verbose (print_envelope fe ''REQUEST'' False e))
      (m_then (z_send (fe_sock fe) (ser (fe_envc fe) e))
      (m_bind (z_recv (fe_sock fe)) (\<lambda>frames.
       m_bind (time_ns (fe_sock fe)) (\<lambda>t_recv.
       m_bind (m_lift (ParseFromString (fe_envc fe) (last frames))) (\<lambda>(reply, n).
       if n = 0 then m_raise (RuntimeError ''Failed to parse ControlEnvelopeV2 reply'')
       else
         m_then (m_when verbose (m_then (print_envelope fe ''RESPONSE'' False reply) (fe_print fe (metrics_line fe t_send t_recv))))
           (m_lift (check_read e expected_type reply)))))))))"

definition do_op :: "('s, 'w, 'p, 'f) st_env \<Rightarrow> string \<Rightarrow> bool \<Rightarrow> read_req \<Rightarrow> ('s, read_resp) py" where
  "do_op env rt verbose req =
     m_bind (m_lift (check_req req)) (\<lambda>req.
     m_bind (read_envelope env (ser_read env req) (read_req_type req) rt) (\<lambda>req_env.
     m_bind (send_and_recv env req_env (read_resp_type req) verbose) (\<lambda>reply_env.
     m_bind (m_lift (ParseFromString (readc env req) (payload reply_env))) (\<lambda>(resp, n).
     if n = 0 then m_raise (RuntimeError (''Failed to parse response for '' @ read_label req))
     else
       m_then (m_when verbose (fe_print (st_fe env) (''['' @ read_label req @ ''] success='' @ bool_str (rr_success resp)
          @ '' message='' @ py_strip (rr_message resp))))
         (m_ret resp)))))"

section \<open>The snapshot\<close>

record st_args =
  sa_host :: string
  sa_port :: int
  sa_route :: string
  sa_afe_count :: int
  sa_skip_bias_monitor :: bool
  sa_json :: bool
  sa_afe_reg :: "(string \<times> string) list"

definition st_defaults :: st_args where
  "st_defaults = \<lparr>sa_host = ''127.0.0.1'', sa_port = 9876, sa_route = ''mezz/0'', sa_afe_count = 5,
     sa_skip_bias_monitor = False, sa_json = False, sa_afe_reg = []\<rparr>"

record afe_entry =
  ae_id :: int
  ae_attenuators :: int
  ae_v_bias :: int
  ae_monitor :: "int option"

definition read_afe :: "('s, 'w, 'p, 'f) st_env \<Rightarrow> st_args \<Rightarrow> bool \<Rightarrow> int \<Rightarrow> ('s, afe_entry) py" where
  "read_afe env args verbose afe =
     m_bind (do_op env (sa_route args) verbose (ReadVgain afe)) (\<lambda>resp_vg.
     m_bind (do_op env (sa_route args) verbose (ReadBiasSet afe)) (\<lambda>resp_bias.
     m_bind (if sa_skip_bias_monitor args then m_ret None
       else m_bind (do_op env (sa_route args) verbose (ReadBiasMonitor afe)) (\<lambda>resp_mon.
         m_ret (if rr_success resp_mon then Some (rr_value resp_mon) else None))) (\<lambda>mon.
     m_ret \<lparr>ae_id = afe, ae_attenuators = rr_value resp_vg, ae_v_bias = rr_value resp_bias, ae_monitor = mon\<rparr>)))"

definition read_reg :: "('s, 'w, 'p, 'f) st_env \<Rightarrow> st_args \<Rightarrow> bool \<Rightarrow> string \<times> string \<Rightarrow> ('s, unit) py" where
  "read_reg env args verbose item = (case item of (afe_str, reg_str) \<Rightarrow>
     m_bind (m_lift (r_of_option (ValueError ''invalid literal for int()'') (py_int afe_str))) (\<lambda>afe.
     m_bind (m_lift (r_of_option (ValueError ''invalid literal for int()'') (py_int0 reg_str))) (\<lambda>reg_addr.
     m_bind (do_op env (sa_route args) verbose (ReadAfeReg afe reg_addr)) (\<lambda>_. m_ret ()))))"

definition opt_json :: "int option \<Rightarrow> json" where
  "opt_json x = (case x of None \<Rightarrow> JNull | Some n \<Rightarrow> JInt n)"

definition snapshot :: "int list \<Rightarrow> int list \<Rightarrow> afe_entry list \<Rightarrow> int \<Rightarrow> json" where
  "snapshot offsets trims entries bias_ctrl =
     JObj [(''channel_analog_conf'', JObj [(''ids'', ints (py_range 40)), (''gains'', ints (replicate 40 1)),
              (''offsets'', ints offsets), (''trims'', ints trims)]),
           (''afes'', JObj [(''ids'', ints (map ae_id entries)), (''attenuators'', ints (map ae_attenuators entries)),
              (''v_biases'', ints (map ae_v_bias entries)), (''bias_monitors_mV'', JList (map (\<lambda>e. opt_json (ae_monitor e)) entries))]),
           (''bias_ctrl'', JInt bias_ctrl)]"

definition snapshot_lines :: "('s, 'w, 'p, 'f) fe_env \<Rightarrow> json \<Rightarrow> string list" where
  "snapshot_lines fe config = [[CHR 0x0A] @ ''=== FE STATE SNAPSHOT (read-only) ==='', fe_dumps fe config]"

definition read_all :: "('s, 'w, 'p, 'f) st_env \<Rightarrow> st_args \<Rightarrow> bool \<Rightarrow> ('s, json) py" where
  "read_all env args verbose =
     m_bind (do_op env (sa_route args) verbose ReadTrimAll) (\<lambda>trim_all.
     m_bind (do_op env (sa_route args) verbose ReadOffsetAll) (\<lambda>offset_all.
     m_bind (m_map (read_afe env args verbose) (py_range (nat (sa_afe_count args)))) (\<lambda>entries.
     m_bind (do_op env (sa_route args) verbose ReadVbiasControl) (\<lambda>ctrl.
     m_then (m_for (sa_afe_reg args) (read_reg env args verbose))
     (let config = snapshot (rr_values offset_all) (rr_values trim_all) entries (rr_value ctrl) in
      m_then (m_when verbose (print_lines (st_fe env) (snapshot_lines (st_fe env) config)))
        (m_ret config))))))"

definition read_state_main :: "('s, 'w, 'p, 'f) st_env \<Rightarrow> st_args \<Rightarrow> ('s, unit) py" where
  "read_state_main env args =
     m_then (m_when (\<not> sa_json args) (fe_print (st_fe env) (''Connected to tcp://'' @ sa_host args @ '':''
        @ int_to_str (sa_port args) @ '' route='' @ sa_route args)))
     (m_bind (read_all env args (\<not> sa_json args)) (\<lambda>snap.
      m_when (sa_json args) (fe_print (st_fe env) (dumps_sorted env snap))))"

section \<open>Read only\<close>

text \<open>The request types of \<open>MessageTypeV2\<close> in \<open>daphneV3_high_level_confs.proto\<close>.\<close>

definition mt2_requests :: "(string \<times> int) list" where
  "mt2_requests =
    [(''MT2_CONFIGURE_CLKS_REQ'', 200), (''MT2_CONFIGURE_FE_REQ'', 202),
     (''MT2_WRITE_AFE_REG_REQ'', 204), (''MT2_WRITE_AFE_VGAIN_REQ'', 206),
     (''MT2_WRITE_AFE_BIAS_SET_REQ'', 208), (''MT2_WRITE_TRIM_ALL_CH_REQ'', 210),
     (''MT2_WRITE_TRIM_ALL_AFE_REQ'', 212), (''MT2_WRITE_TRIM_CH_REQ'', 214),
     (''MT2_WRITE_OFFSET_ALL_CH_REQ'', 216), (''MT2_WRITE_OFFSET_ALL_AFE_REQ'', 218),
     (''MT2_WRITE_OFFSET_CH_REQ'', 220), (''MT2_WRITE_VBIAS_CONTROL_REQ'', 222),
     (''MT2_READ_AFE_REG_REQ'', 224), (''MT2_READ_AFE_VGAIN_REQ'', 226),
     (''MT2_READ_AFE_BIAS_SET_REQ'', 228), (''MT2_READ_TRIM_ALL_CH_REQ'', 230),
     (''MT2_READ_TRIM_ALL_AFE_REQ'', 232), (''MT2_READ_TRIM_CH_REQ'', 234),
     (''MT2_READ_OFFSET_ALL_CH_REQ'', 236), (''MT2_READ_OFFSET_ALL_AFE_REQ'', 238),
     (''MT2_READ_OFFSET_CH_REQ'', 240), (''MT2_READ_VBIAS_CONTROL_REQ'', 242),
     (''MT2_READ_CURRENT_MONITOR_REQ'', 244), (''MT2_READ_BIAS_VOLTAGE_MONITOR_REQ'', 246),
     (''MT2_SET_AFE_RESET_REQ'', 248), (''MT2_DO_AFE_RESET_REQ'', 250),
     (''MT2_SET_AFE_POWERSTATE_REQ'', 252), (''MT2_WRITE_AFE_ATTENUATION_REQ'', 254),
     (''MT2_DUMP_SPYBUFFER_REQ'', 256), (''MT2_ALIGN_AFE_REQ'', 258),
     (''MT2_WRITE_AFE_FUNCTION_REQ'', 260), (''MT2_DO_SOFTWARE_TRIGGER_REQ'', 262),
     (''MT2_DUMP_SPYBUFFER_CHUNK_REQ'', 300), (''MT2_READ_TEST_REG_REQ'', 304),
     (''MT2_READ_TRIGGER_COUNTERS_REQ'', 320), (''MT2_READ_GENERAL_INFO_REQ'', 322),
     (''MT2_SET_HDMEZZ_BLOCK_ENABLE_REQ'', 400), (''MT2_CONFIGURE_HDMEZZ_BLOCK_REQ'', 402),
     (''MT2_READ_HDMEZZ_BLOCK_CONFIG_REQ'', 404), (''MT2_SET_HDMEZZ_POWER_STATES_REQ'', 406),
     (''MT2_READ_HDMEZZ_STATUS_REQ'', 408), (''MT2_CLEAR_HDMEZZ_ALERT_FLAG_REQ'', 410)]"

text \<open>The operation a label names: the label up to its arguments.\<close>

definition op_name :: "read_req \<Rightarrow> string" where
  "op_name req = takeWhile (\<lambda>c. c \<noteq> CHR ''['') (read_label req)"

text \<open>A frame that carries the read \<open>req\<close>: the type of its envelope is the number the protocol file gives to
  the operation of the label, and that operation is a read.\<close>

definition read_frame :: "('s, 'w, 'p, 'f) st_env \<Rightarrow> string \<Rightarrow> read_req \<Rightarrow> 'w \<Rightarrow> bool" where
  "read_frame env rt req w \<longleftrightarrow>
     (\<exists>e. w = ser (fe_envc (st_fe env)) e \<and> version e = 2 \<and> dir e = DIR_REQUEST \<and> route e = rt
        \<and> payload e = ser_read env req \<and> take 5 (op_name req) = ''READ_''
        \<and> map_of mt2_requests (''MT2_'' @ op_name req @ ''_REQ'') = Some (etype e))"

text \<open>The reads in the order of the code. A register item that is not a pair of integers ends the program.\<close>

definition reg_req :: "string \<times> string \<Rightarrow> read_req option" where
  "reg_req item = (case item of (afe_str, reg_str) \<Rightarrow>
     case py_int afe_str of None \<Rightarrow> None | Some afe \<Rightarrow>
     case py_int0 reg_str of None \<Rightarrow> None | Some reg \<Rightarrow> Some (ReadAfeReg afe reg))"

fun reg_plan :: "(string \<times> string) list \<Rightarrow> read_req list" where
  "reg_plan [] = []"
| "reg_plan (item # items) = (case reg_req item of None \<Rightarrow> [] | Some req \<Rightarrow> req # reg_plan items)"

definition afe_plan :: "st_args \<Rightarrow> int \<Rightarrow> read_req list" where
  "afe_plan args afe =
     [ReadVgain afe, ReadBiasSet afe] @ (if sa_skip_bias_monitor args then [] else [ReadBiasMonitor afe])"

definition state_plan :: "st_args \<Rightarrow> read_req list" where
  "state_plan args =
     [ReadTrimAll, ReadOffsetAll] @ concat (map (afe_plan args) (py_range (nat (sa_afe_count args))))
     @ [ReadVbiasControl] @ reg_plan (sa_afe_reg args)"

text \<open>\<open>m\<close> sends frames for the reads of \<open>plan\<close>, in this order: all of them when it returns, the first ones
  when it raises.\<close>

definition sends :: "('s, 'w, 'p, 'f) st_env \<Rightarrow> ('s \<Rightarrow> 'w list) \<Rightarrow> string \<Rightarrow> read_req list \<Rightarrow> ('s, 'a) py \<Rightarrow> bool" where
  "sends env sent rt plan m \<longleftrightarrow>
     (\<forall>s. \<exists>reqs rest ws. plan = reqs @ rest \<and> sent (snd (m s)) = sent s @ ws
        \<and> list_all2 (read_frame env rt) reqs ws \<and> (isl (fst (m s)) \<or> rest = []))"

lemma sends_bind:
  assumes "sends env sent rt p m" "\<And>a. sends env sent rt q (f a)"
  shows "sends env sent rt (p @ q) (m_bind m f)"
  unfolding sends_def
proof
  fix s
  obtain r t where m: "m s = (r, t)" by fastforce
  from assms(1) [unfolded sends_def, rule_format, of s] m
  obtain reqs rest ws where p: "p = reqs @ rest" "sent t = sent s @ ws" "list_all2 (read_frame env rt) reqs ws"
      "isl r \<or> rest = []" by auto
  show "\<exists>reqs rest ws. p @ q = reqs @ rest \<and> sent (snd (m_bind m f s)) = sent s @ ws
      \<and> list_all2 (read_frame env rt) reqs ws \<and> (isl (fst (m_bind m f s)) \<or> rest = [])"
  proof (cases r)
    case (Inl e)
    with m p show ?thesis
      by (intro exI [of _ reqs] exI [of _ "rest @ q"] exI [of _ ws]) (simp add: m_bind_def)
  next
    case (Inr a)
    from assms(2) [of a, unfolded sends_def, rule_format, of t]
    obtain reqs' rest' vs where "q = reqs' @ rest'" "sent (snd (f a t)) = sent t @ vs"
      "list_all2 (read_frame env rt) reqs' vs" "isl (fst (f a t)) \<or> rest' = []" by blast
    with m p Inr show ?thesis
      by (intro exI [of _ "reqs @ reqs'"] exI [of _ rest'] exI [of _ "ws @ vs"])
         (auto simp: m_bind_def list_all2_appendI)
  qed
qed

lemma sends_quiet: "(\<And>g. preserves (\<lambda>s. sent s = g) m) \<Longrightarrow> sends env sent rt [] m"
  by (auto simp: sends_def preserves_def)

text \<open>Operations that send nothing before or after those that do.\<close>

lemma sends_pre: "sends env sent rt [] m \<Longrightarrow> (\<And>a. sends env sent rt q (f a)) \<Longrightarrow> sends env sent rt q (m_bind m f)"
  using sends_bind [of env sent rt "[]" m q f] by simp

lemma sends_post: "sends env sent rt p m \<Longrightarrow> (\<And>a. sends env sent rt [] (f a)) \<Longrightarrow> sends env sent rt p (m_bind m f)"
  using sends_bind [of env sent rt p m "[]" f] by simp

lemma sends_raise: "sends env sent rt p (m_raise e)"
  by (auto simp: sends_def m_raise_def)

lemma sends_lift: "(\<And>a. x = Inr a \<Longrightarrow> sends env sent rt p (f a)) \<Longrightarrow> sends env sent rt p (m_bind (m_lift x) f)"
  by (cases x) (auto simp: sends_def m_bind_def m_lift_def m_raise_def m_ret_def)

lemma sends_map:
  "(\<And>x. sends env sent rt (plan x) (f x)) \<Longrightarrow> sends env sent rt (concat (map plan xs)) (m_map f xs)"
proof (induction xs)
  case Nil
  show ?case by (simp, rule sends_quiet, rule preserves_basic)
next
  case (Cons x xs)
  show ?case
    by (simp, rule sends_bind, rule Cons.prems, rule sends_post, rule Cons.IH, rule Cons.prems, rule sends_quiet, rule preserves_basic)
qed

text \<open>A process whose only way to send is \<open>z_send\<close>: a send that returns has queued its frame. Nothing is
  promised about what any operation returns or whether it raises.\<close>

locale sending_log =
  fixes env :: "('s, 'w, 'p, 'f) st_env" and sent :: "'s \<Rightarrow> 'w list"
  assumes q_time: "sent (snd (time_ns (fe_sock (st_fe env)) s)) = sent s"
    and q_print: "sent (snd (fe_print (st_fe env) l s)) = sent s"
    and q_recv: "sent (snd (z_recv (fe_sock (st_fe env)) s)) = sent s"
    and q_seq: "sent (set_seq (st_fe env) n s) = sent s"
    and q_send: "sent (snd (z_send (fe_sock (st_fe env)) w s)) = sent s @ [w]
      \<or> isl (fst (z_send (fe_sock (st_fe env)) w s)) \<and> sent (snd (z_send (fe_sock (st_fe env)) w s)) = sent s"
begin

lemma quiet [py_preserves]:
  "preserves (\<lambda>s. sent s = g) (time_ns (fe_sock (st_fe env)))"
  "preserves (\<lambda>s. sent s = g) (fe_print (st_fe env) l)"
  "preserves (\<lambda>s. sent s = g) (z_recv (fe_sock (st_fe env)))"
  "preserves (\<lambda>s. sent s = g) (m_modify (\<lambda>s. set_seq (st_fe env) (get_seq (st_fe env) s + 1) s))"
  by (simp_all add: preserves_def q_time q_print q_recv q_seq m_modify_def)

lemma print_lines_quiet [py_preserves]: "preserves (\<lambda>s. sent s = g) (print_lines (st_fe env) ls)"
  unfolding print_lines_def by (intro py_preserves)

lemma next_ids_quiet [py_preserves]: "preserves (\<lambda>s. sent s = g) (fe_next_ids (st_fe env))"
  unfolding fe_next_ids_def by (intro py_preserves)

lemma send_read:
  assumes "read_frame env rt req w"
  shows "sends env sent rt [req] (z_send (fe_sock (st_fe env)) w)"
  unfolding sends_def
proof
  fix s
  show "\<exists>reqs rest ws. [req] = reqs @ rest \<and> sent (snd (z_send (fe_sock (st_fe env)) w s)) = sent s @ ws
      \<and> list_all2 (read_frame env rt) reqs ws \<and> (isl (fst (z_send (fe_sock (st_fe env)) w s)) \<or> rest = [])"
    using q_send [of w s]
  proof (elim disjE conjE)
    assume "sent (snd (z_send (fe_sock (st_fe env)) w s)) = sent s @ [w]"
    with assms show ?thesis by (intro exI [of _ "[req]"] exI [of _ "[]"] exI [of _ "[w]"]) simp
  next
    assume "isl (fst (z_send (fe_sock (st_fe env)) w s))" "sent (snd (z_send (fe_sock (st_fe env)) w s)) = sent s"
    then show ?thesis by (intro exI [of _ "[]"] exI [of _ "[req]"]) simp
  qed
qed

lemma send_and_recv_reads:
  assumes "read_frame env rt req (ser (fe_envc (st_fe env)) e)"
  shows "sends env sent rt [req] (send_and_recv env e ty verbose)"
  unfolding send_and_recv_def print_envelope_def Let_def m_then_def
  by (intro sends_pre sends_post send_read [OF assms] sends_quiet) (auto intro!: py_preserves split: prod.split)

lemma check_req_same: "check_req r = Inr r' \<Longrightarrow> r' = r"
  by (cases r) (auto simp: r_bind_ok uint_field_def split: if_splits)

lemma request_read_frame:
  "read_frame env rt req (ser (fe_envc (st_fe env)) (request_envelope (read_req_type req) (ser_read env req) rt ids ts))"
  by (cases req) (auto simp: read_frame_def request_envelope_def op_name_def mt2_requests_def)

lemma do_op_reads: "sends env sent rt [req] (do_op env rt verbose req)"
  unfolding do_op_def read_envelope_def m_bind_assoc m_bind_ret
proof (rule sends_lift)
  fix r assume "check_req req = Inr r"
  then have [simp]: "r = req" by (rule check_req_same)
  show "sends env sent rt [req] (m_bind (fe_next_ids (st_fe env)) (\<lambda>ids.
      m_bind (time_ns (fe_sock (st_fe env))) (\<lambda>ts.
      m_bind (send_and_recv env (request_envelope (read_req_type r) (ser_read env r) rt ids ts) (read_resp_type r) verbose) (\<lambda>reply_env.
      m_bind (m_lift (ParseFromString (readc env r) (payload reply_env))) (\<lambda>(resp, n).
       if n = 0 then m_raise (RuntimeError (''Failed to parse response for '' @ read_label r))
       else m_then (m_when verbose (fe_print (st_fe env) (''['' @ read_label r @ ''] success='' @ bool_str (rr_success resp)
          @ '' message='' @ py_strip (rr_message resp)))) (m_ret resp))))))"
    by (intro sends_pre sends_post send_and_recv_reads sends_quiet)
       (auto intro!: py_preserves request_read_frame split: prod.split)
qed

lemma read_afe_reads: "sends env sent (sa_route args) (afe_plan args afe) (read_afe env args verbose afe)"
proof -
  have "sends env sent (sa_route args) ([ReadVgain afe] @ [ReadBiasSet afe] @ (if sa_skip_bias_monitor args then [] else [ReadBiasMonitor afe]))
      (read_afe env args verbose afe)"
    unfolding read_afe_def
    by (intro sends_bind do_op_reads sends_post)
       (auto intro!: sends_post do_op_reads sends_quiet py_preserves)
  then show ?thesis by (simp add: afe_plan_def)
qed

lemma read_reg_reads:
  "sends env sent (sa_route args) (case reg_req item of None \<Rightarrow> [] | Some req \<Rightarrow> [req]) (read_reg env args verbose item)"
  unfolding read_reg_def
  by (cases item; cases "py_int (fst item)"; cases "py_int0 (snd item)")
     (auto simp: reg_req_def r_of_option_def intro!: sends_lift sends_post do_op_reads sends_quiet py_preserves)

lemma read_regs_reads: "sends env sent (sa_route args) (reg_plan items) (m_for items (read_reg env args verbose))"
proof (induction items)
  case Nil
  show ?case by (simp, rule sends_quiet, rule preserves_basic)
next
  case (Cons item items)
  show ?case
  proof (cases "reg_req item")
    case None
    have "\<exists>e. read_reg env args verbose item s = (Inl e, s)" for s
      using None by (cases item) (auto simp: read_reg_def reg_req_def r_of_option_def py_run split: option.splits)
    then have "\<exists>e. m_then (read_reg env args verbose item) k s = (Inl e, s)" for k :: "('s, unit) py" and s
      by (simp add: m_then_def m_bind_def) (metis (mono_tags, lifting) old.sum.simps(5) split_conv)
    then have "sends env sent (sa_route args) [] (m_then (read_reg env args verbose item) k)" for k :: "('s, unit) py"
      by (intro sends_quiet preservesI) (metis snd_conv)
    with None show ?thesis by simp
  next
    case (Some req)
    with sends_bind [OF read_reg_reads [of args item verbose] Cons.IH] show ?thesis
      by (simp add: m_then_def)
  qed
qed

lemma read_state_main_reads: "sends env sent (sa_route args) (state_plan args) (read_state_main env args)"
  unfolding read_state_main_def read_all_def Let_def m_then_def m_bind_assoc
proof (rule sends_pre, rule sends_quiet)
  have plan: "state_plan args = [ReadTrimAll] @ [ReadOffsetAll]
      @ concat (map (afe_plan args) (py_range (nat (sa_afe_count args)))) @ [ReadVbiasControl] @ reg_plan (sa_afe_reg args)"
    by (simp add: state_plan_def)
  show "sends env sent (sa_route args) (state_plan args)
     (m_bind (do_op env (sa_route args) (\<not> sa_json args) ReadTrimAll) (\<lambda>trim_all.
      m_bind (do_op env (sa_route args) (\<not> sa_json args) ReadOffsetAll) (\<lambda>offset_all.
      m_bind (m_map (read_afe env args (\<not> sa_json args)) (py_range (nat (sa_afe_count args)))) (\<lambda>entries.
      m_bind (do_op env (sa_route args) (\<not> sa_json args) ReadVbiasControl) (\<lambda>ctrl.
      m_bind (m_for (sa_afe_reg args) (read_reg env args (\<not> sa_json args))) (\<lambda>_.
      m_bind (m_when (\<not> sa_json args) (print_lines (st_fe env) (snapshot_lines (st_fe env)
          (snapshot (rr_values offset_all) (rr_values trim_all) entries (rr_value ctrl))))) (\<lambda>_.
      m_bind (m_ret (snapshot (rr_values offset_all) (rr_values trim_all) entries (rr_value ctrl))) (\<lambda>snap.
      m_when (sa_json args) (fe_print (st_fe env) (dumps_sorted env snap))))))))))"
    unfolding plan
    by (rule sends_bind, rule do_op_reads, rule sends_bind, rule do_op_reads, rule sends_bind, rule sends_map,
        rule read_afe_reads, rule sends_bind, rule do_op_reads, rule sends_post, rule read_regs_reads, rule sends_quiet)
       (intro py_preserves)
qed (intro py_preserves)

end

text \<open>C19: Whatever the server, the clock and the terminal do, and however the program ends, what reading the
  front-end state sends is an initial part of the planned sequence of reads (all of it when the program returns),
  on the configured route; the type of each envelope is the one the protocol file assigns to the read
  operation named by the label of the step.\<close>

theorem read_state_read_only:
  assumes "sending_log env sent"
  shows "\<exists>reqs rest ws. state_plan args = reqs @ rest
    \<and> sent (snd (read_state_main env args s)) = sent s @ ws
    \<and> list_all2 (read_frame env (sa_route args)) reqs ws
    \<and> (fst (read_state_main env args s) = Inr () \<longrightarrow> rest = [])"
proof -
  from sending_log.read_state_main_reads [OF assms, of args, unfolded sends_def, rule_format, of s]
  obtain reqs rest ws where "state_plan args = reqs @ rest" "sent (snd (read_state_main env args s)) = sent s @ ws"
    "list_all2 (read_frame env (sa_route args)) reqs ws" "isl (fst (read_state_main env args s)) \<or> rest = []" by blast
  then show ?thesis by (intro exI [of _ reqs] exI [of _ rest] exI [of _ ws]) auto
qed

section \<open>A board that answers\<close>

text \<open>\<open>answer\<close> is what the board answers to a read; a reply carries the type of its request, and either the
  identifier of the request or none.\<close>

definition board_entry :: "st_args \<Rightarrow> (read_req \<Rightarrow> read_resp) \<Rightarrow> int \<Rightarrow> afe_entry" where
  "board_entry args answer afe =
     \<lparr>ae_id = afe, ae_attenuators = rr_value (answer (ReadVgain afe)), ae_v_bias = rr_value (answer (ReadBiasSet afe)),
      ae_monitor = (if sa_skip_bias_monitor args \<or> \<not> rr_success (answer (ReadBiasMonitor afe)) then None
         else Some (rr_value (answer (ReadBiasMonitor afe))))\<rparr>"

definition board_snapshot :: "st_args \<Rightarrow> (read_req \<Rightarrow> read_resp) \<Rightarrow> json" where
  "board_snapshot args answer =
     snapshot (rr_values (answer ReadOffsetAll)) (rr_values (answer ReadTrimAll))
       (map (board_entry args answer) (py_range (nat (sa_afe_count args)))) (rr_value (answer ReadVbiasControl))"

locale readable_board = served_socket "st_fe env" sent reply_of
  for env :: "('s, 'w, 'p, 'f) st_env" and sent :: "'s \<Rightarrow> 'w list"
    and reply_of :: "'p ControlEnvelopeV2 \<Rightarrow> 'p ControlEnvelopeV2" +
  fixes answer :: "read_req \<Rightarrow> read_resp"
  assumes l_read: "etype e = read_req_type req \<Longrightarrow> payload e = ser_read env req \<Longrightarrow>
      etype (reply_of e) = read_resp_type req \<and> correl_id (reply_of e) \<in> {0, msg_id e} \<and>
      (\<exists>n. ParseFromString (readc env req) (payload (reply_of e)) = Inr (answer req, Suc n))"
begin

lemma do_op_t:
  assumes "check_req req = Inr req"
  shows "T (\<lambda>g. \<forall>w. Q (answer req) (g @ [w])) (do_op env rt verbose req) Q"
proof -
  have out: "etype (reply_of (request_envelope (read_req_type req) (ser_read env req) rt ids ts)) = read_resp_type req"
    "correl_id (reply_of (request_envelope (read_req_type req) (ser_read env req) rt ids ts)) = 0 \<or>
     correl_id (reply_of (request_envelope (read_req_type req) (ser_read env req) rt ids ts)) =
       msg_id (request_envelope (read_req_type req) (ser_read env req) rt ids ts)"
    "\<exists>n. ParseFromString (readc env req) (payload (reply_of (request_envelope (read_req_type req) (ser_read env req) rt ids ts)))
        = Inr (answer req, Suc n)" for ids ts
    using l_read [of "request_envelope (read_req_type req) (ser_read env req) rt ids ts" req] by (auto simp: request_envelope_def)
  show ?thesis
    unfolding do_op_def assms m_bind_lift send_and_recv_def read_envelope_def fe_next_ids_def print_envelope_def Let_def check_read_def
    by (rule triple_weaken, (rule wp)+) (use out in \<open>fastforce\<close>)
qed

lemma read_afe_t:
  assumes "0 \<le> afe" "afe < 2 ^ 32"
  shows "T (\<lambda>g. \<forall>ws. Q (board_entry args answer afe) (g @ ws)) (read_afe env args verbose afe) Q"
proof -
  have ok: "check_req (ReadVgain afe) = Inr (ReadVgain afe)" "check_req (ReadBiasSet afe) = Inr (ReadBiasSet afe)"
    "check_req (ReadBiasMonitor afe) = Inr (ReadBiasMonitor afe)"
    using assms by (simp_all add: uint_field_def)
  show ?thesis
    unfolding read_afe_def by (rule triple_weaken, (rule wp do_op_t ok)+) (auto simp: board_entry_def)
qed

lemma read_afes_run:
  "list_all (\<lambda>a. 0 \<le> a \<and> a < 2 ^ 32) blocks \<Longrightarrow>
   \<exists>t. m_map (read_afe env args verbose) blocks s = (Inr (map (board_entry args answer) blocks), t)"
proof (induction blocks arbitrary: s)
  case (Cons a blocks)
  have "T (\<lambda>g. True) (read_afe env args verbose a) (\<lambda>x g. x = board_entry args answer a)"
    by (rule triple_weaken [OF read_afe_t]) (use Cons.prems in auto)
  then obtain t where t: "read_afe env args verbose a s = (Inr (board_entry args answer a), t)" by (auto simp: triple_def)
  obtain u where "m_map (read_afe env args verbose) blocks t = (Inr (map (board_entry args answer) blocks), u)"
    using Cons by force
  with t show ?case by (simp add: m_bind_def m_ret_def)
qed (simp add: m_ret_def)

text \<open>Without extra registers, the result is the snapshot of the answers, and printing it is the last thing done.\<close>

lemma read_all_ends:
  assumes "sa_afe_reg args = []" "sa_afe_count args \<le> 2 ^ 32"
  shows "\<exists>u t. read_all env args verbose s = (Inr (board_snapshot args answer), t) \<and>
    m_when verbose (print_lines (st_fe env) (snapshot_lines (st_fe env) (board_snapshot args answer))) u = (Inr (), t)"
proof -
  have op: "\<exists>u. do_op env (sa_route args) verbose req s = (Inr (answer req), u)" if "check_req req = Inr req" for req s
    using tripleD [OF do_op_t [OF that, where Q = "\<lambda>x g. x = answer req" and rt = "sa_route args" and verbose = verbose] TrueI,
        where s = s] by auto
  obtain s1 where s1: "do_op env (sa_route args) verbose ReadTrimAll s = (Inr (answer ReadTrimAll), s1)" using op by force
  obtain s2 where s2: "do_op env (sa_route args) verbose ReadOffsetAll s1 = (Inr (answer ReadOffsetAll), s2)" using op by force
  have "list_all (\<lambda>a. 0 \<le> a \<and> a < 2 ^ 32) (py_range (nat (sa_afe_count args)))"
    using assms(2) by (auto simp: list_all_iff)
  from read_afes_run [OF this, of args verbose s2] obtain s3 where
    s3: "m_map (read_afe env args verbose) (py_range (nat (sa_afe_count args))) s2 =
      (Inr (map (board_entry args answer) (py_range (nat (sa_afe_count args)))), s3)" by blast
  obtain s4 where s4: "do_op env (sa_route args) verbose ReadVbiasControl s3 = (Inr (answer ReadVbiasControl), s4)" using op by force
  have pr: "\<exists>u. m_when verbose (print_lines (st_fe env) ls) s4 = (Inr (), u)" for ls
    using tripleD [OF print_lines_t [where Q = "\<lambda>_ _. True" and ls = ls] TrueI TrueI, where s = s4] by (cases verbose) (auto simp: m_when_def m_ret_def)
  obtain u where u: "m_when verbose (print_lines (st_fe env) (snapshot_lines (st_fe env) (board_snapshot args answer))) s4 = (Inr (), u)"
    using pr by blast
  then have "read_all env args verbose s = (Inr (board_snapshot args answer), u)"
    by (simp add: read_all_def m_bind_def m_then_def m_ret_def Let_def s1 s2 s3 s4 assms(1) board_snapshot_def [symmetric])
  with u show ?thesis by blast
qed

lemma read_state_main_ends:
  assumes "sa_afe_reg args = []" "sa_afe_count args \<le> 2 ^ 32" "\<not> sa_json args"
  shows "\<exists>u t. read_state_main env args s = (Inr (), t) \<and>
    print_lines (st_fe env) (snapshot_lines (st_fe env) (board_snapshot args answer)) u = (Inr (), t)"
proof -
  obtain s1 where s1: "fe_print (st_fe env) (''Connected to tcp://'' @ sa_host args @ '':'' @ int_to_str (sa_port args)
      @ '' route='' @ sa_route args) s = (Inr (), s1)" using l_print by blast
  from read_all_ends [OF assms(1,2), of True s1] obtain u t where
    "read_all env args True s1 = (Inr (board_snapshot args answer), t)"
    "print_lines (st_fe env) (snapshot_lines (st_fe env) (board_snapshot args answer)) u = (Inr (), t)"
    by (auto simp: m_when_def)
  with s1 assms(3) show ?thesis
    by (auto simp: read_state_main_def m_then_def m_bind_def m_when_def m_ret_def)
qed

end

section \<open>A snapshot as a seed\<close>

definition no_common :: "afe_lists \<Rightarrow> bool" where
  "no_common l \<longleftrightarrow> list_all (\<lambda>j. j = JNull)
     [al_adc_res l, al_adc_fmt l, al_adc_sb l, al_pga_cut l, al_pga_int l, al_pga_gain l, al_lna_clamp l, al_lna_gain l, al_lna_int l]"

lemma overlay_common_none: "no_common l \<Longrightarrow> overlay_common l idx a = Inr a"
  by (simp add: no_common_def overlay_common_def if_given_def)

lemma overlay_afe_step:
  assumes "n < length ids" "length atts = length ids" "length vbs = length ids"
    "u32_list ids" "u32_list atts" "u32_list vbs"
    "no_common l" "al_attenuators l = ints atts" "al_v_biases l = ints vbs"
  shows "\<exists>ys. overlay_afe tr l common (n, JInt (ids ! n)) xs = Inr ys \<and>
      (\<forall>j. afe.at ys j = (if j = ids ! n then
          Some ((case afe.at xs j of Some x \<Rightarrow> x | None \<Rightarrow> empty_afe j)
            \<lparr>afe_id := ids ! n, attenuators := atts ! n, v_bias := vbs ! n\<rparr>) else afe.at xs j)) \<and>
      map afe_id ys = afe.ins (ids ! n) (map afe_id xs)"
proof -
  let ?i = "ids ! n"
  have "0 \<le> ?i \<and> ?i < 2 ^ 32" using assms u32_nth by blast
  then obtain ys k where e: "ensure_by afe_id empty_afe ?i xs = Inr (ys, k)"
    "ys ! k = (case afe.at xs ?i of Some x \<Rightarrow> x | None \<Rightarrow> empty_afe ?i)"
    "\<And>x. afe_id x = ?i \<Longrightarrow> (\<forall>j. afe.at (ys[k := x]) j = (if j = ?i then Some x else afe.at xs j)) \<and>
       map afe_id (ys[k := x]) = afe.ins ?i (map afe_id xs)"
    using afe.ensure_then_put [of ?i xs] by blast
  have id: "afe_id (ys ! k) = ?i"
    unfolding e(2) by (auto simp: afe.at_def find_Some_iff empty_afe_def split: option.split)
  let ?a = "(ys ! k)\<lparr>attenuators := atts ! n, v_bias := vbs ! n\<rparr>"
  have c: "afe_id ?a = ?i" "?a = (ys ! k)\<lparr>afe_id := ?i, attenuators := atts ! n, v_bias := vbs ! n\<rparr>"
    using id by (simp_all flip: id)
  have "overlay_afe tr l common (n, JInt ?i) xs = Inr (ys[k := ?a])"
    using assms by (simp add: overlay_afe_def ensure_afe_def e(1) take_uint_ints Let_def overlay_common_none)
  moreover have "afe.at (ys[k := ?a]) j = (if j = ?i then
      Some ((case afe.at xs j of Some x \<Rightarrow> x | None \<Rightarrow> empty_afe j)
        \<lparr>afe_id := ?i, attenuators := atts ! n, v_bias := vbs ! n\<rparr>) else afe.at xs j)" for j
    using e(3) [OF c(1)] c(2) e(2) by (cases "j = ?i") auto
  ultimately show ?thesis using e(3) [OF c(1)] by blast
qed

lemma distinct_py_range [simp]: "distinct (py_range n)"
  by (simp add: py_range_def distinct_map)

lemma u32_py_range [simp]: "n \<le> 2 ^ 32 \<Longrightarrow> u32_list (py_range n)"
  by (auto simp: u32_list_def list_all_iff)

lemma at_map_default:
  "0 \<le> i \<Longrightarrow> i < int n \<Longrightarrow> chan.at (map (channel_of p) (py_range n)) i = Some (channel_of p i)"
  "0 \<le> i \<Longrightarrow> i < int n \<Longrightarrow> afe.at (map (afe_of p) (py_range n)) i = Some (afe_of p i)"
  using chan.at_nth [of "map (channel_of p) (py_range n)" "nat i"] afe.at_nth [of "map (afe_of p) (py_range n)" "nat i"]
  by (simp_all add: comp_def channel_of_def afe_of_def)

lemma snapshot_channels:
  assumes "length offsets = 40" "length trims = 40" "u32_list offsets" "u32_list trims"
  shows "seed_channels tr (snapshot offsets trims entries bc) (map (channel_of p) (py_range 40)) =
    Inr (map (\<lambda>i. \<lparr>ch_id = i, ch_trim = trims ! nat i, ch_offset = offsets ! nat i, ch_gain = 1\<rparr>) (py_range 40))"
proof -
  let ?ids = "py_range 40" let ?gains = "replicate 40 1 :: int list"
  let ?val = "\<lambda>n c. c\<lparr>ch_id := ?ids ! n, ch_offset := offsets ! n, ch_trim := trims ! n, ch_gain := ?gains ! n\<rparr>"
  have g: "u32_list ?gains" "length ?gains = length ?ids" by (auto simp: u32_list_def list_all_iff)
  have run: "seed_channels tr (snapshot offsets trims entries bc) cs =
      r_fold (overlay_channel tr (ints offsets) (ints trims) (ints ?gains)) (enumerate 0 (map JInt ?ids)) cs" for cs
    by (simp add: seed_channels_def snapshot_def ints_def [of ?ids])
  have "\<exists>ys. overlay_channel tr (ints offsets) (ints trims) (ints ?gains) (n, JInt (?ids ! n)) xs = Inr ys \<and>
      (\<forall>j. chan.at ys j = (if j = ?ids ! n then Some (?val n (case chan.at xs j of Some x \<Rightarrow> x | None \<Rightarrow> empty_channel j)) else chan.at xs j)) \<and>
      map ch_id ys = chan.ins (?ids ! n) (map ch_id xs)" if "n < length ?ids" for n xs
    by (rule overlay_channel_step [OF that]) (use assms g in \<open>simp_all only: length_py_range u32_py_range\<close>, simp_all)
  from chan.overlay_loop [where val = ?val and ids = ?ids and xs = "map (channel_of p) ?ids", OF this distinct_py_range]
  obtain ys where ys: "seed_channels tr (snapshot offsets trims entries bc) (map (channel_of p) ?ids) = Inr ys"
    "\<And>n. n < length ?ids \<Longrightarrow> chan.at ys (?ids ! n) = Some (?val n (case chan.at (map (channel_of p) ?ids) (?ids ! n) of Some x \<Rightarrow> x | None \<Rightarrow> empty_channel (?ids ! n)))"
    "map ch_id ys = fold chan.ins ?ids (map ch_id (map (channel_of p) ?ids))"
    unfolding run by blast
  have ids: "map ch_id ys = ?ids"
    using ys(3) by (simp add: chan.fold_ins_known comp_def channel_of_def)
  have "chan.at ys i = Some \<lparr>ch_id = i, ch_trim = trims ! nat i, ch_offset = offsets ! nat i, ch_gain = 1\<rparr>" if "i \<in> set ?ids" for i
  proof -
    have "nat i < length ?ids" using that by auto
    from ys(2) [OF this] that show ?thesis by (auto simp: at_map_default channel_of_def)
  qed
  from chan.list_by_at [OF ids distinct_py_range this] ys(1) show ?thesis by simp
qed

lemma snapshot_afes:
  assumes "map ae_id entries = py_range 5" "u32_list (map ae_attenuators entries)" "u32_list (map ae_v_bias entries)"
  shows "seed_afes tr (snapshot offsets trims entries bc) common (map (afe_of p) (py_range 5)) =
    Inr (map (\<lambda>i. (afe_of p i)\<lparr>attenuators := ae_attenuators (entries ! nat i), v_bias := ae_v_bias (entries ! nat i)\<rparr>) (py_range 5))"
proof -
  let ?ids = "py_range 5" let ?atts = "map ae_attenuators entries" let ?vbs = "map ae_v_bias entries"
  let ?val = "\<lambda>n a. a\<lparr>afe_id := ?ids ! n, attenuators := ?atts ! n, v_bias := ?vbs ! n\<rparr>"
  have len: "length entries = 5" using assms(1) by (metis length_map length_py_range)
  define l where "l = \<lparr>al_attenuators = ints ?atts, al_v_biases = ints ?vbs, al_adc_res = JNull, al_adc_fmt = JNull, al_adc_sb = JNull,
    al_pga_cut = JNull, al_pga_int = JNull, al_pga_gain = JNull, al_lna_clamp = JNull, al_lna_gain = JNull, al_lna_int = JNull\<rparr>"
  have l: "no_common l" "al_attenuators l = ints ?atts" "al_v_biases l = ints ?vbs" by (simp_all add: l_def no_common_def)
  have run: "seed_afes tr (snapshot offsets trims entries bc) common as =
      r_fold (overlay_afe tr l common) (enumerate 0 (map JInt ?ids)) as" for as
    by (simp add: seed_afes_def seed_afe_lists_def snapshot_def ints_def [of ?ids] assms(1) l_def)
  have "\<exists>ys. overlay_afe tr l common (n, JInt (?ids ! n)) xs = Inr ys \<and>
      (\<forall>j. afe.at ys j = (if j = ?ids ! n then Some (?val n (case afe.at xs j of Some x \<Rightarrow> x | None \<Rightarrow> empty_afe j)) else afe.at xs j)) \<and>
      map afe_id ys = afe.ins (?ids ! n) (map afe_id xs)" if "n < length ?ids" for n xs
    by (rule overlay_afe_step [OF that]) (use assms(2,3) l len in simp_all)
  from afe.overlay_loop [where val = ?val and ids = ?ids and xs = "map (afe_of p) ?ids", OF this distinct_py_range]
  obtain ys where ys: "seed_afes tr (snapshot offsets trims entries bc) common (map (afe_of p) ?ids) = Inr ys"
    "\<And>n. n < length ?ids \<Longrightarrow> afe.at ys (?ids ! n) = Some (?val n (case afe.at (map (afe_of p) ?ids) (?ids ! n) of Some x \<Rightarrow> x | None \<Rightarrow> empty_afe (?ids ! n)))"
    "map afe_id ys = fold afe.ins ?ids (map afe_id (map (afe_of p) ?ids))"
    unfolding run by blast
  have ids: "map afe_id ys = ?ids"
    using ys(3) by (simp add: afe.fold_ins_known comp_def afe_of_def)
  have "afe.at ys i = Some ((afe_of p i)\<lparr>attenuators := ae_attenuators (entries ! nat i), v_bias := ae_v_bias (entries ! nat i)\<rparr>)"
    if "i \<in> set ?ids" for i
  proof -
    have "nat i < length ?ids" using that by auto
    from ys(2) [OF this] that len show ?thesis by (auto simp: at_map_default afe_of_def)
  qed
  from afe.list_by_at [OF ids distinct_py_range this] ys(1) show ?thesis by simp
qed

lemma snapshot_request:
  assumes "params_ok p" "length offsets = 40" "length trims = 40" "u32_list offsets" "u32_list trims"
    "map ae_id entries = py_range 5" "u32_list (map ae_attenuators entries)" "u32_list (map ae_v_bias entries)"
    "0 \<le> bc" "bc < 2 ^ 32"
  shows "build_request_from_seed tr (snapshot offsets trims entries bc) (default_request p) common =
    Inr ((default_request p)\<lparr>biasctrl := bc,
      channels := map (\<lambda>i. \<lparr>ch_id = i, ch_trim = trims ! nat i, ch_offset = offsets ! nat i, ch_gain = 1\<rparr>) (py_range 40),
      afes := map (\<lambda>i. (afe_of p i)\<lparr>attenuators := ae_attenuators (entries ! nat i), v_bias := ae_v_bias (entries ! nat i)\<rparr>) (py_range 5)\<rparr>)"
proof -
  let ?s = "snapshot offsets trims entries bc"
  have keep: "seed_uint w ?s k v = Inr v" if "0 \<le> v" "v < 2 ^ w" "k \<notin> {''channel_analog_conf'', ''afes'', ''bias_ctrl''}" for w k v
    using that by (simp add: seed_uint_def snapshot_def uint_field_def)
  have "seed_uint 32 ?s ''bias_ctrl'' v = Inr bc" for v
    using assms(9,10) by (simp add: seed_uint_def snapshot_def uint_field_def)
  moreover have "seed_uint 32 ?s ''slot_id'' (slot (default_request p)) = Inr (slot (default_request p))"
    "seed_uint 64 ?s ''self_trigger_threshold'' (self_trigger_threshold (default_request p)) = Inr (self_trigger_threshold (default_request p))"
    "seed_uint 64 ?s ''self_trigger_xcorr'' (self_trigger_xcorr (default_request p)) = Inr (self_trigger_xcorr (default_request p))"
    "seed_uint 64 ?s ''tp_conf'' (tp_conf (default_request p)) = Inr (tp_conf (default_request p))"
    "seed_uint 64 ?s ''compensator'' (compensator (default_request p)) = Inr (compensator (default_request p))"
    using assms(1) by (simp_all add: keep default_request_def params_ok_def)
  moreover have "py_get ?s ''inverters'' v = Inr v" "py_get ?s ''inverter'' v = Inr v" "py_get ?s ''full_stream_channels'' v = Inr v" for v
    by (simp_all add: snapshot_def)
  moreover have "uint_field 64 (inverters (default_request p)) = Inr (inverters (default_request p))"
    using assms(1) by (simp add: default_request_def params_ok_def)
  moreover have "channels (default_request p) = map (channel_of p) (py_range 40)" "afes (default_request p) = map (afe_of p) (py_range 5)"
    "full_stream_channels (default_request p) = []" by (simp_all add: default_request_def)
  ultimately show ?thesis
    using assms(2-8) by (simp add: build_request_from_seed_def snapshot_channels snapshot_afes uint_field_def default_request_def)
qed

section \<open>A concrete board\<close>

fun test_answer :: "read_req \<Rightarrow> read_resp" where
  "test_answer ReadTrimAll = \<lparr>rr_success = True, rr_message = '''', rr_value = 0, rr_values = replicate 40 7\<rparr>"
| "test_answer ReadOffsetAll = \<lparr>rr_success = True, rr_message = '''', rr_value = 0, rr_values = replicate 40 2275\<rparr>"
| "test_answer (ReadBiasSet afe) = \<lparr>rr_success = True, rr_message = '''', rr_value = 1000, rr_values = []\<rparr>"
| "test_answer r = \<lparr>rr_success = True, rr_message = '''', rr_value = 1300, rr_values = []\<rparr>"

definition read_reply :: "read_req ControlEnvelopeV2 \<Rightarrow> read_req ControlEnvelopeV2" where
  "read_reply e = \<lparr>version = 2, dir = DIR_RESPONSE, etype = etype e + 1, payload = payload e, task_id = task_id e, msg_id = 0,
     correl_id = msg_id e, route = route e, timestamp_ns = 0\<rparr>"

text \<open>The state holds the frames sent and the text printed.\<close>

definition ref_st :: "(read_req ControlEnvelopeV2 list \<times> string, read_req ControlEnvelopeV2, read_req, int) st_env" where
  "ref_st = \<lparr>st_fe = \<lparr>fe_sock = \<lparr>z_timeout = (\<lambda>k. m_ret ()), z_send = (\<lambda>w. m_modify (\<lambda>(l, txt). (l @ [w], txt))),
       z_recv = (\<lambda>s. if fst s = [] then (Inl ZmqAgain, s) else (Inr [read_reply (last (fst s))], s)),
       z_close = m_ret (), time_ns = m_ret 1700000000000000000, randrange = (\<lambda>n. m_ret 0)\<rparr>,
     fe_envc = \<lparr>ser = (\<lambda>e. e), par = Some, blen = (\<lambda>_. 1)\<rparr>,
     ser_cfg = (\<lambda>c. ReadTrimAll), ser_bias = (\<lambda>a v. ReadTrimAll), ser_align = ReadTrimAll,
     outc = \<lparr>ser = (\<lambda>_. ReadTrimAll), par = (\<lambda>_. None), blen = (\<lambda>_. 1)\<rparr>,
     biasc = \<lparr>ser = (\<lambda>_. ReadTrimAll), par = (\<lambda>_. None), blen = (\<lambda>_. 1)\<rparr>,
     alignc = \<lparr>ser = (\<lambda>_. ReadTrimAll), par = (\<lambda>_. None), blen = (\<lambda>_. 1)\<rparr>,
     payload_len = (\<lambda>_. 1), fe_print = (\<lambda>l. m_modify (\<lambda>(fs, txt). (fs, txt @ l @ lf))), fe_dumps = (\<lambda>j. ''{}''), fe_floats = int_floats,
     dir_names = (\<lambda>_. None), type_names = (\<lambda>_. None), isoformat = int_to_str, fe_pid = 1, fe_rand = 2,
     get_seq = (\<lambda>s. int (length (fst s))), set_seq = (\<lambda>n s. s)\<rparr>,
     ser_read = (\<lambda>r. r), readc = (\<lambda>r. \<lparr>ser = (\<lambda>_. r), par = (\<lambda>p. Some (test_answer p)), blen = (\<lambda>_. 1)\<rparr>), dumps_sorted = py_str\<rparr>"

interpretation ref_log: sending_log ref_st fst
  by unfold_locales (auto simp: ref_st_def py_run split: prod.split)

interpretation ref_board: readable_board ref_st fst read_reply test_answer
  by unfold_locales (auto simp: ref_st_def py_run split_beta ParseFromString_def read_reply_def read_resp_type_def)

theorem read_state_read_only_witness:
  "\<exists>reqs rest ws. state_plan st_defaults = reqs @ rest \<and> fst (snd (read_state_main ref_st st_defaults ([], []))) = [] @ ws
    \<and> list_all2 (read_frame ref_st ''mezz/0'') reqs ws"
  using read_state_read_only [OF ref_log.sending_log_axioms, of st_defaults "([], [])"] by (auto simp: st_defaults_def)

end
