(* ===== verification/Vgain_Scan.thy ===== *)
theory Vgain_Scan
  imports Complex_Main Led_Scan Pds_Config Fe_State
begin

text \<open>
  \<open>client/dynamic_range_led/scan_led_vgain_sweep.py\<close>: the sweep over AFE gains at a fixed LED setting. For every
  gain the channel offsets are interpolated between calibrated anchors, the front end is configured with a seed built
  from them (through \<open>Pds_Config\<close>), and the waveforms are acquired by the programs of \<open>Scan_Runtime\<close>. The LED is
  started before the sweep and stopped in a \<open>finally\<close> block.

  The rows of the anchor file are what \<open>csv.DictReader\<close> delivers. Environment and conventions are those of \<open>Led_Scan\<close>;
  \<open>sock_for\<close> opens the socket of a configuration request.
\<close>

section \<open>Offsets\<close>

definition CHANNEL_ORDER :: "int list" where "CHANNEL_ORDER = [4, 5, 6, 7, 12, 13, 14, 15, 18, 19, 21]"
definition AFE_IDS :: "int list" where "AFE_IDS = [0, 1, 2, 3, 4]"
definition AFE_BIAS_DAC :: "int list" where "AFE_BIAS_DAC = [1195, 916, 0, 0, 0]"
definition ADC_RESOLUTION :: int where "ADC_RESOLUTION = 0"
definition ADC_OUTPUT_FORMAT :: int where "ADC_OUTPUT_FORMAT = 1"
definition ADC_SB_FIRST :: int where "ADC_SB_FIRST = 0"
definition LPF_CUTOFF_CODE :: int where "LPF_CUTOFF_CODE = 4"
definition PGA_GAIN_CODE :: int where "PGA_GAIN_CODE = 0"
definition LNA_GAIN_CODE :: int where "LNA_GAIN_CODE = 2"
definition LNA_CLAMP_CODE :: int where "LNA_CLAMP_CODE = 0"
definition BOARD_ID :: string where "BOARD_ID = ''61''"

type_synonym anchors = "(int \<times> (int \<times> int) list) list"

definition csv_int :: "(string \<times> string) list \<Rightarrow> string \<Rightarrow> int result" where
  "csv_int row k = r_bind (r_of_option KeyError (map_of row k)) int_of"

definition anchor_row :: "(string \<times> string) list \<Rightarrow> anchors \<Rightarrow> anchors result" where
  "anchor_row row out =
     r_bind (csv_int row ''vgain'') (\<lambda>vgain.
     r_bind (csv_int row ''channel'') (\<lambda>ch.
     r_bind (csv_int row ''closest_offset_to_2000'') (\<lambda>offset.
     let points = (case map_of out ch of Some ps \<Rightarrow> ps | None \<Rightarrow> []) in
     Inr (AList.update ch (AList.update vgain offset points) out))))"

definition load_anchor_offsets :: "(string \<times> string) list list \<Rightarrow> anchors result" where
  "load_anchor_offsets csv_rows =
     r_bind (r_fold anchor_row csv_rows []) (\<lambda>out.
     if filter (\<lambda>ch. map_of out ch = None) CHANNEL_ORDER \<noteq> [] then Inl (ValueError ''Missing anchor channels'') else Inr out)"

text \<open>The value between two neighbouring anchors; \<open>None\<close> when no pair encloses the gain. A value is an integer
  (an anchor) or a float.\<close>

fun enclosing :: "int \<Rightarrow> (int \<times> int) list \<Rightarrow> ((int \<times> int) \<times> (int \<times> int)) option" where
  "enclosing v (p # q # ps) = (if fst p \<le> v \<and> v \<le> fst q then Some (p, q) else enclosing v (q # ps))"
| "enclosing v ps = None"

definition between :: "'f float_ops \<Rightarrow> int \<Rightarrow> (int \<times> int) \<times> (int \<times> int) \<Rightarrow> int result" where
  "between F v pq = (case pq of ((lv, lo), (rv, ro)) \<Rightarrow>
     let span = rv - lv;
         frac = (if span \<noteq> 0 then f_div F (f_of_int F (v - lv)) (f_of_int F span) else f_lit F ''0.0'') in
     f_round F (f_add F (f_of_int F lo) (f_mul F frac (f_of_int F (ro - lo)))))"

definition interpolate_channel_offset :: "'f float_ops \<Rightarrow> int \<Rightarrow> int \<Rightarrow> anchors \<Rightarrow> int \<Rightarrow> int \<Rightarrow> int \<Rightarrow> int result" where
  "interpolate_channel_offset F ch vgain anchor_offsets offset_subtract offset_min offset_max =
     r_bind (r_of_option KeyError (map_of anchor_offsets ch)) (\<lambda>ps.
     let points = sort_key fst ps in
     if points = [] then Inl IndexError
     else
       r_bind
         (if vgain \<le> fst (hd points) then Inr (snd (hd points))
          else if vgain \<ge> fst (last points) then Inr (snd (last points))
          else case enclosing vgain points of None \<Rightarrow> Inr (snd (hd points)) | Some pq \<Rightarrow> between F vgain pq) (\<lambda>value.
       let adjusted = value - offset_subtract in
       Inr (max offset_min (min offset_max adjusted))))"

section \<open>The configuration of a gain\<close>

definition build_seed_config :: "int \<Rightarrow> (int \<times> int) list \<Rightarrow> json result" where
  "build_seed_config vgain offsets_by_channel =
     (let n = length CHANNEL_ORDER; m = length AFE_IDS; same = (\<lambda>k v. JList (replicate k (JInt v))) in
      r_bind (r_map (\<lambda>ch. r_of_option KeyError (map_of offsets_by_channel ch)) CHANNEL_ORDER) (\<lambda>offs.
      Inr (JObj [(BOARD_ID, JObj
        [(''bias_ctrl'', JInt 1300),
         (''channel_analog_conf'', JObj
            [(''ids'', JList (map JInt CHANNEL_ORDER)), (''gains'', same n 1), (''offsets'', JList (map JInt offs)), (''trims'', same n 0)]),
         (''afes'', JObj
            [(''ids'', JList (map JInt AFE_IDS)), (''attenuators'', same m vgain), (''v_biases'', JList (map JInt AFE_BIAS_DAC)),
             (''adcs'', JObj [(''resolution'', same m ADC_RESOLUTION), (''output_format'', same m ADC_OUTPUT_FORMAT), (''SB_first'', same m ADC_SB_FIRST)]),
             (''pgas'', JObj [(''lpf_cut_frequency'', same m LPF_CUTOFF_CODE), (''integrator_disable'', same m 1), (''gain'', same m PGA_GAIN_CODE)]),
             (''lnas'', JObj [(''clamp'', same m LNA_CLAMP_CODE), (''integrator_disable'', same m 1), (''gain'', same m LNA_GAIN_CODE)])])])])))"

definition make_config_request :: "(string \<Rightarrow> int result) \<Rightarrow> string \<Rightarrow> int \<Rightarrow> json \<Rightarrow> ConfigureRequest result" where
  "make_config_request tr host timeout_ms seed_cfg =
     r_bind (r_bind (py_get seed_cfg ''slot_id'' (JInt 1)) (json_int tr)) (\<lambda>sl.
     r_bind (make_default_config (default_params\<lparr>p_ip := host, p_slot := sl, p_timeout_ms := timeout_ms, p_per_ch_offset := 2275,
        p_vgain := 1600, p_lpf_cutoff := LPF_CUTOFF_CODE, p_pga_gain := PGA_GAIN_CODE, p_lna_gain := LNA_GAIN_CODE, p_lna_clamp := LNA_CLAMP_CODE\<rparr>)) (\<lambda>defaults.
     r_bind (build_request_from_seed tr seed_cfg defaults True) (\<lambda>cfg.
     r_bind (uint_field 32 timeout_ms) (\<lambda>tmo.
     Inr (cfg\<lparr>daphne_address := host, req_timeout_ms := tmo\<rparr>)))))"

definition configure_succeeded :: "json \<Rightarrow> bool result" where
  "configure_succeeded summary =
     r_bind (py_get summary ''success'' (JBool False)) (\<lambda>top.
     if py_truth top then Inr True
     else
       r_bind (py_get summary ''configure_response'' JNull) (\<lambda>resp.
       r_bind (py_get (if py_truth resp then resp else JObj []) ''success'' (JBool False)) (\<lambda>v. Inr (py_truth v))))"

section \<open>The sweep\<close>

record ('s, 'w, 'p, 'f) vg_env =
  vg_sc :: "('s, 'f) sc_env"
  vg_fe :: "('s, 'w, 'p, 'f) fe_env"
  sock_for :: "string \<Rightarrow> ('s, 'w) zsock"
  read_csv :: "'s \<Rightarrow> string \<Rightarrow> (string \<times> string) list list result"

record 'f vg_args =
  va_anchor_csv :: string
  va_output_dir :: string
  va_host :: string
  va_port :: int
  va_route :: string
  va_vgain_start :: int
  va_vgain_stop :: int
  va_vgain_step :: int
  va_offset_subtract :: int
  va_offset_min :: int
  va_offset_max :: int
  va_waveforms :: int
  va_waveform_len :: int
  va_timeout_ms :: int
  va_bias_monitor_timeout_ms :: int
  va_settle_s :: 'f
  va_software_trigger :: bool
  va_bias_monitor_afes :: string
  va_python_exe :: string
  va_no_led_start :: bool
  va_led_client :: string
  va_led_stop_client :: string
  va_led_config :: string
  va_link :: led_link
  va_led :: led_settings
  va_skip_fe_readback :: bool
  va_dry_run :: bool

definition vg_settle :: "('s, 'w, 'p, 'f) vg_env \<Rightarrow> 'f vg_args \<Rightarrow> ('s, unit) py" where
  "vg_settle env args = m_when (\<not> va_dry_run args \<and> np_less (sc_np (vg_sc env)) (np_lit (sc_np (vg_sc env)) ''0'') (va_settle_s args))
     (sleep_s (vg_sc env) (va_settle_s args))"

definition channel_offsets :: "('s, 'w, 'p, 'f) vg_env \<Rightarrow> 'f vg_args \<Rightarrow> anchors \<Rightarrow> int \<Rightarrow> (int \<times> int) list result" where
  "channel_offsets env args anchor_offsets vgain =
     r_map (\<lambda>ch. r_bind (interpolate_channel_offset (fe_floats (vg_fe env)) ch vgain anchor_offsets (va_offset_subtract args)
        (va_offset_min args) (va_offset_max args)) (\<lambda>v. Inr (ch, v))) CHANNEL_ORDER"

text \<open>The configuration of one point: its report and whether it succeeded.\<close>

definition configure_point :: "('s, 'w, 'p, 'f) vg_env \<Rightarrow> 'f vg_args \<Rightarrow> ConfigureRequest \<Rightarrow> ('s, json \<times> bool) py" where
  "configure_point env args cfg =
     (if va_dry_run args then
        m_ret (JObj [(''dry_run'', JBool True), (''summary'', JObj [(''host'', JStr (va_host args)), (''port'', JInt (va_port args)),
          (''route'', JStr (va_route args)), (''timeout_ms'', JInt (va_timeout_ms args))])], True)
      else
        let ep = ''tcp://'' @ va_host args @ '':'' @ int_to_str (va_port args) in
        m_bind (send_configure_request ((vg_fe env)\<lparr>fe_sock := sock_for env ep\<rparr>) ep (va_route args) cfg) (\<lambda>summary.
        m_bind (m_lift (configure_succeeded summary)) (\<lambda>ok.
        m_ret (JObj [(''summary'', summary)], ok))))"

definition vg_readback :: "('s, 'w, 'p, 'f) vg_env \<Rightarrow> 'f vg_args \<Rightarrow> string \<Rightarrow> ('s, json) py" where
  "vg_readback env args folder =
     (if va_skip_fe_readback args then m_ret (JObj [(''skipped'', JBool True)])
      else m_bind (run_fe_state_readback (sc_rt (vg_sc env)) (va_python_exe args) (va_host args) (va_port args) (va_route args) (va_timeout_ms args)
          (sub_path folder ''fe_state_readback.log'') (sub_path folder ''fe_state_readback.json'') (va_dry_run args))
        (\<lambda>info. m_ret (JObj info)))"

definition vg_monitors :: "('s, 'w, 'p, 'f) vg_env \<Rightarrow> 'f vg_args \<Rightarrow> int list \<Rightarrow> string \<Rightarrow> ('s, json list) py" where
  "vg_monitors env args afe_list folder =
     m_map (\<lambda>afe. m_bind (run_bias_monitor (sc_rt (vg_sc env)) (va_python_exe args) [] (va_host args) (va_port args) afe
         (va_bias_monitor_timeout_ms args) (sub_path folder (''bias_monitor_afe'' @ int_to_str afe @ ''.log'')) (va_dry_run args))
       (\<lambda>info. m_ret (JObj info))) afe_list"

definition vg_acquire :: "('s, 'w, 'p, 'f) vg_env \<Rightarrow> 'f vg_args \<Rightarrow> string \<Rightarrow> string \<Rightarrow> ('s, int \<times> string list) py" where
  "vg_acquire env args raw_dir folder =
     run_acquire (sc_rt (vg_sc env)) (va_python_exe args)
       \<lparr>aq_host = va_host args, aq_port = va_port args, aq_route = va_route args, aq_raw_dir = raw_dir, aq_channels = CHANNEL_ORDER,
        aq_waveforms = va_waveforms args, aq_waveform_len = va_waveform_len args, aq_timeout_ms = va_timeout_ms args,
        aq_software_trigger = va_software_trigger args\<rparr> (sub_path folder ''acquire.log'') (va_dry_run args)"

definition vg_meta :: "string \<Rightarrow> int \<Rightarrow> (int \<times> int) list \<Rightarrow> string \<Rightarrow> json \<Rightarrow> json \<Rightarrow> json \<Rightarrow> json list \<Rightarrow> json \<Rightarrow> string \<Rightarrow> json" where
  "vg_meta created vgain offs seed_path readback led conf monitors acq status = JObj
     [(''created_utc'', JStr created), (''vgain'', JInt vgain),
      (''offsets_by_channel'', JObj (map (\<lambda>(ch, v). (int_to_str ch, JInt v)) offs)), (''config_applied_json'', JStr seed_path),
      (''fe_state_readback'', readback), (''led_start'', led), (''configure'', conf), (''bias_monitor'', JList monitors),
      (''acquire'', acq), (''status'', JStr status)]"

definition vg_point ::
  "('s, 'w, 'p, 'f) vg_env \<Rightarrow> 'f vg_args \<Rightarrow> anchors \<Rightarrow> int list \<Rightarrow> string \<Rightarrow> json \<Rightarrow> int \<Rightarrow> ('s, json) py" where
  "vg_point env args anchor_offsets afe_list points_dir led vgain =
     (let sc = vg_sc env; point_dir = sub_path points_dir (''vgain_'' @ fmt_04d vgain); raw_dir = sub_path point_dir ''raw'';
          seed_path = sub_path point_dir ''config_applied.json''; meta_path = sub_path point_dir ''metadata.json'' in
      m_bind (m_lift (channel_offsets env args anchor_offsets vgain)) (\<lambda>offs.
      m_then (mkdir sc point_dir) (m_then (mkdir sc raw_dir)
      (m_bind (m_lift (build_seed_config vgain offs)) (\<lambda>seed_cfg.
       m_then (write_json sc seed_path seed_cfg)
      (m_bind (utc_now_iso sc) (\<lambda>created.
       m_then (write_json sc meta_path (vg_meta created vgain offs seed_path (JObj []) led (JObj []) [] (JObj []) ''started''))
      (m_bind (m_lift (r_bind (py_index seed_cfg BOARD_ID) (make_config_request (float_int sc) (va_host args) (va_timeout_ms args)))) (\<lambda>cfg.
       m_bind (configure_point env args cfg) (\<lambda>(conf, ok).
       m_then (write_json sc (sub_path point_dir ''configure.json'') conf)
       (if \<not> ok then
          m_then (write_json sc meta_path (vg_meta created vgain offs seed_path (JObj []) led conf [] (JObj []) ''configure_failed''))
            (m_ret (JObj [(''vgain'', JInt vgain), (''status'', JStr ''configure_failed''), (''output_dir'', JStr point_dir)]))
        else
          m_then (vg_settle env args)
          (m_bind (vg_readback env args point_dir) (\<lambda>readback.
           m_bind (vg_monitors env args afe_list point_dir) (\<lambda>monitors.
           m_bind (vg_acquire env args raw_dir point_dir) (\<lambda>(rc, cmd).
           let status = (if va_dry_run args then ''dry_run'' else if rc = 0 then ''captured'' else ''acquire_failed'') in
           m_then (write_json sc meta_path (vg_meta created vgain offs seed_path readback led conf monitors
              (JObj [(''command'', JList (map JStr cmd)), (''returncode'', JInt rc)]) status))
             (m_ret (JObj [(''vgain'', JInt vgain), (''status'', JStr status), (''output_dir'', JStr point_dir),
                (''min_offset'', JInt (Min (set (map snd offs)))), (''max_offset'', JInt (Max (set (map snd offs))))])))))))))))))))))"

definition vg_manifest :: "('s, 'w, 'p, 'f) vg_env \<Rightarrow> 'f vg_args \<Rightarrow> string \<Rightarrow> int list \<Rightarrow> int list \<Rightarrow> jobject \<Rightarrow> json" where
  "vg_manifest env args created vgains afe_list rest = JObj
     ([(''created_utc'', JStr created), (''anchor_csv'', JStr (resolve_path (vg_sc env) (va_anchor_csv args))), (''host'', JStr (va_host args)),
       (''port'', JInt (va_port args)), (''route'', JStr (va_route args)), (''vgain_values'', JList (map JInt vgains)),
       (''channels'', JList (map JInt CHANNEL_ORDER)), (''offset_subtract'', JInt (va_offset_subtract args)),
       (''offset_min'', JInt (va_offset_min args)), (''offset_max'', JInt (va_offset_max args)), (''waveforms'', JInt (va_waveforms args)),
       (''waveform_len'', JInt (va_waveform_len args)), (''settle_s'', jfloat (sc_np (vg_sc env)) (va_settle_s args)),
       (''software_trigger'', JBool (va_software_trigger args)), (''bias_monitor_afes'', JList (map JInt afe_list)),
       (''led_auto_start'', JBool (\<not> va_no_led_start args)),
       (''led_settings'', JObj [(''client'', JStr (va_led_client args)), (''stop_client'', JStr (va_led_stop_client args)),
          (''config'', JStr (va_led_config args)), (''host'', JStr (led_host (va_link args))), (''port'', JInt (led_port (va_link args))),
          (''ssh_tunnel'', JStr (led_ssh_tunnel (va_link args))),
          (''ssh_tunnel_remote_host'', JStr (led_ssh_tunnel_remote_host (va_link args))),
          (''ssh_tunnel_remote_port'', JInt (led_ssh_tunnel_remote_port (va_link args))),
          (''channel_mask'', JInt (led_channel_mask (va_led args))), (''number_channels'', JInt (led_number_channels (va_led args))),
          (''pulse_width_ticks'', JInt (led_pulse_width_ticks (va_led args))),
          (''pulse_bias_percent_270nm'', JInt (led_intensity_270nm (va_led args))),
          (''pulse_bias_percent_367nm'', JInt (led_intensity_367nm (va_led args)))]),
       (''fe_state_readback'', JObj [(''mode'', JStr ''per_point''), (''skipped'', JBool (va_skip_fe_readback args))]),
       (''dry_run'', JBool (va_dry_run args)), (''notes'', JStr ''No AFE align after configure.'')] @ rest)"

text \<open>The sweep with the LED: the start, and the loop inside the \<open>finally\<close> block that stops it.\<close>

definition vg_led_sweep :: "('s, 'w, 'p, 'f) vg_env \<Rightarrow> 'f vg_args \<Rightarrow> string \<Rightarrow> (jobject \<Rightarrow> json) \<Rightarrow> (json \<Rightarrow> ('s, json list) py) \<Rightarrow> ('s, json list) py" where
  "vg_led_sweep env args out_dir manifest sweep =
     (let sc = vg_sc env; manifest_path = sub_path out_dir ''scan_manifest.json'' in
      if va_no_led_start args then sweep (JObj [])
      else
        m_bind (run_led (sc_rt sc) (va_led_client args) (va_led_config args) (va_link args) (va_led args) (sub_path out_dir ''led_start.log'') (va_dry_run args)) (\<lambda>info.
        m_then (write_json sc manifest_path (manifest [(''led_start'', JObj info)]))
        (m_bind (m_lift (info_rc info)) (\<lambda>rc.
         if rc \<noteq> 0 then m_raise (RuntimeError ''Failed to start SSP LED'')
         else
           m_finally (m_then (vg_settle env args) (sweep (JObj info)))
             (m_bind (run_led_stop (sc_rt sc) (va_led_stop_client args) (va_link args) (sub_path out_dir ''led_stop.log'') (va_dry_run args)) (\<lambda>stop.
              write_json sc manifest_path (manifest [(''led_start'', JObj info), (''led_stop'', JObj stop)])))))))"

definition vg_main :: "('s, 'w, 'p, 'f) vg_env \<Rightarrow> 'f vg_args \<Rightarrow> ('s, int) py" where
  "vg_main env args =
     (let sc = vg_sc env; out_dir = resolve_path sc (va_output_dir args); points_dir = sub_path out_dir ''points'' in
      m_then (mkdir sc out_dir) (m_then (mkdir sc points_dir)
      (m_bind (m_get (\<lambda>s. r_bind (read_csv env s (resolve_path sc (va_anchor_csv args))) load_anchor_offsets)) (\<lambda>r.
       m_bind (m_lift r) (\<lambda>anchor_offsets.
       m_bind (m_lift (r_map int_of (filter (\<lambda>t. t \<noteq> []) (map py_strip (split_on CHR '','' (va_bias_monitor_afes args)))))) (\<lambda>afe_list.
       m_bind (m_lift (inclusive_range (va_vgain_start args) (va_vgain_stop args) (va_vgain_step args))) (\<lambda>vgains.
       m_bind (utc_now_iso sc) (\<lambda>created.
       let manifest = vg_manifest env args created vgains afe_list in
       m_then (write_json sc (sub_path out_dir ''scan_manifest.json'') (manifest []))
       (m_bind (vg_led_sweep env args out_dir manifest (\<lambda>led. m_map (vg_point env args anchor_offsets afe_list points_dir led) vgains)) (\<lambda>summary_rows.
        m_then (save_csv sc (sub_path out_dir ''scan_summary.csv'') [''vgain'', ''status'', ''output_dir'', ''min_offset'', ''max_offset''] summary_rows)
          (m_ret 0)))))))))))"

section \<open>The LED is stopped\<close>

text \<open>A program that cannot be launched is not in the log, and neither the socket nor the console adds to it.\<close>

locale sweep_log = program_log "vg_sc env" runs
  for env :: "('s, 'w, 'p, 'f) vg_env" and runs :: "'s \<Rightarrow> string list list" +
  assumes no_launch: "run_prog (sc_rt (vg_sc env)) cmd s = (Inl e, t) \<Longrightarrow> runs t = runs s"
    and sock_quiet: "runs (snd (z_send (sock_for env ep) w s)) = runs s" "runs (snd (z_recv (sock_for env ep) s)) = runs s"
      "runs (snd (time_ns (sock_for env ep) s)) = runs s" "runs (snd (fe_print (vg_fe env) l s)) = runs s"
      "runs (set_seq (vg_fe env) n s) = runs s"
begin

abbreviation since :: "string list list \<Rightarrow> 's \<Rightarrow> bool" where
  "since g s \<equiv> \<exists>mid. runs s = g @ mid"

lemma quiet_since [py_preserves]:
  "preserves (since g) (write_file (sc_rt (vg_sc env)) p x)" "preserves (since g) (utc_now_iso (vg_sc env))"
  "preserves (since g) (mkdir (vg_sc env) p)" "preserves (since g) (sleep_s (vg_sc env) d)" "preserves (since g) (save_csv (vg_sc env) p ks rs)"
  "preserves (since g) (z_send (sock_for env ep) w)" "preserves (since g) (z_recv (sock_for env ep))"
  "preserves (since g) (time_ns (sock_for env ep))" "preserves (since g) (fe_print (vg_fe env) l)"
  "preserves (since g) (m_modify (\<lambda>s. set_seq (vg_fe env) (f s) s))"
  by (simp_all add: preserves_def p_quiet sock_quiet m_modify_def)

lemma run_prog_since [py_preserves]: "preserves (since g) (run_prog (sc_rt (vg_sc env)) cmd)"
proof (rule preservesI)
  fix s assume "since g s"
  moreover obtain r t where "run_prog (sc_rt (vg_sc env)) cmd s = (r, t)" by fastforce
  ultimately show "since g (snd (run_prog (sc_rt (vg_sc env)) cmd s))"
    using p_run [of cmd s _ t] no_launch [of cmd s _ t] by (cases r) auto
qed

lemma run_cmd_since [py_preserves]: "preserves (since g) (run_cmd (sc_rt (vg_sc env)) cmd lg dry)"
  unfolding run_cmd_def Let_def by (intro py_preserves)

lemma configure_since [py_preserves]: "preserves (since g) (configure_point env args cfg)"
  by (auto simp: configure_point_def send_configure_request_def build_configure_v2_envelope_def build_envelope_def
      fe_next_ids_def print_envelope_def print_lines_def summarize_configure_response_def Let_def intro!: py_preserves)

lemma point_since [py_preserves]: "preserves (since g) (vg_point env args anchor_offsets afe_list points_dir led vgain)"
  unfolding vg_point_def vg_settle_def vg_readback_def vg_monitors_def vg_acquire_def write_json_def run_acquire_def
    run_fe_state_readback_def run_bias_monitor_def Let_def
  by (intro py_preserves)

lemma report_runs:
  assumes "run_prog (sc_rt (vg_sc env)) cmd s = (Inr (rc, out, err), t)"
    and "\<And>x s. \<exists>t. write_file (sc_rt (vg_sc env)) lg x s = (Inr (), t)"
  shows "\<exists>txt u. run_and_report (sc_rt (vg_sc env)) cmd lg False s =
      (Inr [(''command'', JList (map JStr cmd)), (''returncode'', JInt rc), (''output'', JStr txt)], u) \<and> runs u = runs s @ [cmd]"
proof -
  obtain u where u: "write_file (sc_rt (vg_sc env)) lg (combine_output out err) t = (Inr (), u)" using assms(2) by blast
  then have "runs u = runs s @ [cmd]" using p_run [OF assms(1)] p_quiet(1) by (metis snd_conv)
  with u assms(1) show ?thesis by (simp add: run_and_report_def run_cmd_def Let_def py_run)
qed

text \<open>A program that could be launched is in the log, also when its log file cannot be written.\<close>

lemma report_logs:
  assumes "run_prog (sc_rt (vg_sc env)) cmd s = (Inr x, t)"
  shows "runs (snd (run_and_report (sc_rt (vg_sc env)) cmd lg False s)) = runs s @ [cmd]"
proof -
  obtain rc out err where x: "x = (rc, out, err)" by (cases x) auto
  obtain r u where u: "write_file (sc_rt (vg_sc env)) lg (combine_output out err) t = (r, u)" by fastforce
  then have "runs u = runs s @ [cmd]" using p_run [OF assms [unfolded x]] p_quiet(1) by (metis snd_conv)
  with u assms x show ?thesis by (cases r) (simp_all add: run_and_report_def run_cmd_def Let_def py_run)
qed

lemma led_sweep_stops:
  fixes args :: "'f vg_args"
  defines "led \<equiv> led_command (sc_rt (vg_sc env)) (va_led_client args) (va_led_config args) (va_link args) (va_led args)"
    and "stop \<equiv> led_stop_command (sc_rt (vg_sc env)) (va_led_stop_client args) (va_link args)"
  assumes "\<not> va_dry_run args" "\<not> va_no_led_start args"
    and led: "\<And>s. \<exists>out err t. run_prog (sc_rt (vg_sc env)) led s = (Inr (0, out, err), t)"
    and stop: "\<And>s. \<exists>x t. run_prog (sc_rt (vg_sc env)) stop s = (Inr x, t)"
    and writes: "\<And>p x s. p \<in> {sub_path out_dir ''led_start.log'', sub_path out_dir ''scan_manifest.json''} \<Longrightarrow>
      \<exists>t. write_file (sc_rt (vg_sc env)) p x s = (Inr (), t)"
    and sweep: "\<And>g v. preserves (since g) (sweep v)"
  shows "\<exists>mid. runs (snd (vg_led_sweep env args out_dir manifest sweep s)) = runs s @ led # mid @ [stop]"
proof -
  let ?w = "write_json (vg_sc env) (sub_path out_dir ''scan_manifest.json'')"
  have wj: "\<exists>t. ?w v s = (Inr (), t) \<and> runs t = runs s" for v s
    unfolding write_json_def using writes [of "sub_path out_dir ''scan_manifest.json''"] p_quiet(1)
    by (metis insertI1 insertI2 snd_conv)
  obtain info u where u: "run_and_report (sc_rt (vg_sc env)) led (sub_path out_dir ''led_start.log'') False s = (Inr info, u)"
    "runs u = runs s @ [led]" "info_rc info = Inr 0"
    using led [of s] report_runs [OF _ writes [OF insertI1], of led s 0] by (fastforce simp: info_rc_def)
  obtain u' where u': "?w (manifest [(''led_start'', JObj info)]) u = (Inr (), u')" "runs u' = runs u" using wj by blast
  obtain r t where body: "m_then (vg_settle env args) (sweep (JObj info)) u' = (r, t)" by fastforce
  have "preserves (since (runs s @ [led])) (m_then (vg_settle env args) (sweep (JObj info)))"
    unfolding vg_settle_def by (intro py_preserves sweep)
  then have "since (runs s @ [led]) t" by (rule preservesD) (use u(2) u'(2) body in simp_all)
  then obtain mid where mid: "runs t = runs s @ led # mid" by auto
  let ?fin = "m_bind (run_and_report (sc_rt (vg_sc env)) stop (sub_path out_dir ''led_stop.log'') False)
      (\<lambda>stop. ?w (manifest [(''led_start'', JObj info), (''led_stop'', JObj stop)]))"
  obtain r' w where w: "run_and_report (sc_rt (vg_sc env)) stop (sub_path out_dir ''led_stop.log'') False t = (r', w)" by fastforce
  have rw: "runs w = runs t @ [stop]" using stop [of t] report_logs [of stop t] w by (metis snd_conv)
  have fin: "runs (snd (?fin t)) = runs t @ [stop]"
    using w rw wj by (cases r') (simp_all add: m_bind_def, metis snd_conv)
  have "snd (vg_led_sweep env args out_dir manifest sweep s) = snd (?fin t)"
    using assms(3,4) u u'(1) body
    by (cases "?fin t"; cases "fst (?fin t)")
       (simp_all add: vg_led_sweep_def run_led_def run_led_stop_def led_def stop_def Let_def py_run m_finally_def)
  then show ?thesis using fin mid by simp
qed

lemma main_stops:
  fixes args :: "'f vg_args"
  defines "led \<equiv> led_command (sc_rt (vg_sc env)) (va_led_client args) (va_led_config args) (va_link args) (va_led args)"
    and "stop \<equiv> led_stop_command (sc_rt (vg_sc env)) (va_led_stop_client args) (va_link args)"
  assumes "\<not> va_dry_run args" "\<not> va_no_led_start args"
    and led: "\<And>s. \<exists>out err t. run_prog (sc_rt (vg_sc env)) led s = (Inr (0, out, err), t)"
    and stop: "\<And>s. \<exists>x t. run_prog (sc_rt (vg_sc env)) stop s = (Inr x, t)"
    and writes: "\<And>p x s. p \<in> {sub_path (resolve_path (vg_sc env) (va_output_dir args)) ''led_start.log'',
        sub_path (resolve_path (vg_sc env) (va_output_dir args)) ''scan_manifest.json''} \<Longrightarrow>
      \<exists>t. write_file (sc_rt (vg_sc env)) p x s = (Inr (), t)"
  shows "(\<exists>e. fst (vg_main env args s) = Inl e) \<and> runs (snd (vg_main env args s)) = runs s \<or>
     (\<exists>mid. runs (snd (vg_main env args s)) = runs s @ led # mid @ [stop])"
proof -
  let ?R = "\<lambda>raised g. raised \<and> g = runs s \<or> (\<exists>mid. g = runs s @ led # mid @ [stop])"
  have sweep: "?R b (runs (snd (vg_led_sweep env args (resolve_path (vg_sc env) (va_output_dir args)) manifest
      (\<lambda>led. m_map (vg_point env args anchor_offsets afe_list points_dir led) vgains) t)))" if "runs t = runs s"
    for b manifest anchor_offsets afe_list points_dir vgains t
    unfolding that [symmetric] led_def stop_def
    by (rule disjI2, rule led_sweep_stops) (use assms in \<open>simp_all add: py_preserves\<close>)
  have "?R (isl (fst (vg_main env args s))) (runs (snd (vg_main env args s)))"
    unfolding vg_main_def m_then_def write_json_def Let_def
    by (rule m_bind_quiet_first [of runs, where R = ?R] m_bind_quiet_last [of ?R _ _ runs] sweep py_preserves | simp)+
  then show ?thesis by (auto simp: isl_def)
qed

end

section \<open>Properties\<close>

text \<open>C29: Once the LED has been started the sweep stops it. Assume that the LED client succeeds, that the stop
  client can be launched, and that the log of the LED client and the manifest can be written (the code marks the LED
  as started only after these two writes). Then every exit of the sweep, by a return or by an exception of any point
  (a configuration that times out, an acquisition that cannot be launched, any other file that cannot be written, the
  log of the stop client included), has the LED stop as the last program it ran; the only other exit is an exception
  before the LED start, with no program run.\<close>

theorem sweep_stops_led:
  assumes "sweep_log env runs" and "\<not> va_dry_run args" "\<not> va_no_led_start args"
    and "led = led_command (sc_rt (vg_sc env)) (va_led_client args) (va_led_config args) (va_link args) (va_led args)"
    and "stop = led_stop_command (sc_rt (vg_sc env)) (va_led_stop_client args) (va_link args)"
    and "\<And>s. \<exists>out err t. run_prog (sc_rt (vg_sc env)) led s = (Inr (0, out, err), t)"
    and "\<And>s. \<exists>x t. run_prog (sc_rt (vg_sc env)) stop s = (Inr x, t)"
    and "\<And>p x s. p \<in> {sub_path (resolve_path (vg_sc env) (va_output_dir args)) ''led_start.log'',
        sub_path (resolve_path (vg_sc env) (va_output_dir args)) ''scan_manifest.json''} \<Longrightarrow>
      \<exists>t. write_file (sc_rt (vg_sc env)) p x s = (Inr (), t)"
  shows "(\<exists>e. fst (vg_main env args s) = Inl e) \<and> runs (snd (vg_main env args s)) = runs s \<or>
     (\<exists>mid. runs (snd (vg_main env args s)) = runs s @ led # mid @ [stop])"
  using sweep_log.main_stops [OF assms(1-3)] assms(6-8) unfolding assms(4,5) by blast

section \<open>Interpolation\<close>

text \<open>Floating-point numbers as the code uses them here: every operation rounds its exact result, rounding is monotone and
  keeps the integers of up to 53 bits, and \<open>round\<close> of a number gives an integer at distance one half at most.\<close>

locale ieee =
  fixes F :: "'f float_ops" and val :: "'f \<Rightarrow> rat" and rd :: "rat \<Rightarrow> rat"
  assumes rd_mono: "x \<le> y \<Longrightarrow> rd x \<le> rd y"
    and rd_int: "\<bar>n\<bar> \<le> 2 ^ 53 \<Longrightarrow> rd (of_int n) = of_int n"
    and val_int: "\<bar>n\<bar> \<le> 2 ^ 53 \<Longrightarrow> val (f_of_int F n) = of_int n"
    and val_div: "val b \<noteq> 0 \<Longrightarrow> val (f_div F a b) = rd (val a / val b)"
    and val_mul: "val (f_mul F a b) = rd (val a * val b)"
    and val_add: "val (f_add F a b) = rd (val a + val b)"
    and round_near: "\<exists>n. f_round F a = Inr n \<and> \<bar>of_int n - val a\<bar> \<le> 1 / 2"
begin

lemma rd_between: "of_int a \<le> x \<Longrightarrow> x \<le> of_int b \<Longrightarrow> \<bar>a\<bar> \<le> 2 ^ 53 \<Longrightarrow> \<bar>b\<bar> \<le> 2 ^ 53 \<Longrightarrow> of_int a \<le> rd x \<and> rd x \<le> of_int b"
  by (metis rd_int rd_mono)

lemma round_between:
  assumes "of_int a \<le> val x" "val x \<le> of_int b"
  shows "\<exists>n. f_round F x = Inr n \<and> a \<le> n \<and> n \<le> b"
proof -
  obtain n where n: "f_round F x = Inr n" "\<bar>of_int n - val x\<bar> \<le> 1 / 2" using round_near by blast
  have "(of_int a :: rat) < of_int (n + 1)" "(of_int n :: rat) < of_int (b + 1)" using assms n(2) unfolding of_int_add of_int_1 by linarith+
  then have "a \<le> n" "n \<le> b" unfolding of_int_less_iff by simp_all
  with n(1) show ?thesis by blast
qed

lemma between_range:
  assumes "lv < rv" "lv \<le> v" "v \<le> rv" "\<bar>rv - lv\<bar> \<le> 2 ^ 53" "\<bar>lo\<bar> \<le> 2 ^ 53" "\<bar>ro\<bar> \<le> 2 ^ 53" "\<bar>ro - lo\<bar> \<le> 2 ^ 53"
  shows "\<exists>n. between F v ((lv, lo), (rv, ro)) = Inr n \<and> min lo ro \<le> n \<and> n \<le> max lo ro \<and> (v = rv \<longrightarrow> n = ro)"
proof -
  let ?frac = "f_div F (f_of_int F (v - lv)) (f_of_int F (rv - lv))"
  let ?sum = "f_add F (f_of_int F lo) (f_mul F ?frac (f_of_int F (ro - lo)))"
  have i: "val (f_of_int F (v - lv)) = of_int (v - lv)" "val (f_of_int F (rv - lv)) = of_int (rv - lv)"
    "val (f_of_int F (ro - lo)) = of_int (ro - lo)" "val (f_of_int F lo) = of_int lo"
    using assms by (simp_all only: val_int abs_le_iff) (simp_all add: val_int)
  have frac: "val ?frac = rd (of_int (v - lv) / of_int (rv - lv))" using assms(1) by (simp add: val_div i)
  have q: "of_int 0 \<le> of_int (v - lv) / (of_int (rv - lv) :: rat)" "of_int (v - lv) / (of_int (rv - lv) :: rat) \<le> of_int 1"
    using assms(1-3) by (simp_all add: divide_le_eq)
  have f01: "0 \<le> val ?frac" "val ?frac \<le> 1" using rd_between [OF q] unfolding frac by simp_all
  have prod: "of_int (min 0 (ro - lo)) \<le> val ?frac * of_int (ro - lo)" "val ?frac * of_int (ro - lo) \<le> of_int (max 0 (ro - lo))"
    using f01 mult_right_mono [OF f01(2), of "of_int (ro - lo)"] mult_right_mono_neg [OF f01(2), of "of_int (ro - lo)"]
    by (auto simp: min_def max_def mult_le_0_iff zero_le_mult_iff)
  have m: "of_int (min 0 (ro - lo)) \<le> val (f_mul F ?frac (f_of_int F (ro - lo)))"
    "val (f_mul F ?frac (f_of_int F (ro - lo))) \<le> of_int (max 0 (ro - lo))"
    using rd_between [OF prod] assms(7) unfolding val_mul i by (auto simp: min_def max_def)
  have "of_int (min lo ro) \<le> of_int lo + val (f_mul F ?frac (f_of_int F (ro - lo)))"
    "of_int lo + val (f_mul F ?frac (f_of_int F (ro - lo))) \<le> of_int (max lo ro)"
    using m by (auto simp: min_def max_def split: if_splits)
  from rd_between [OF this] have "of_int (min lo ro) \<le> val ?sum" "val ?sum \<le> of_int (max lo ro)"
    using assms(5,6) unfolding val_add i by (auto simp: min_def max_def)
  from round_between [OF this] obtain n where n: "f_round F ?sum = Inr n" "min lo ro \<le> n" "n \<le> max lo ro" by blast
  have "n = ro" if "v = rv"
  proof -
    have "rd 1 = 1" using rd_int [of 1] by simp
    then have "val ?frac = 1" unfolding frac using that assms(1) by simp
    then have "val ?sum = of_int ro"
      unfolding val_add val_mul i using assms(6,7) rd_int [of "ro - lo"] rd_int [of ro] by simp
    then show ?thesis using round_between [of ro ?sum ro] n(1) by auto
  qed
  with n assms(1) show ?thesis by (auto simp: between_def Let_def)
qed

end

text \<open>In anchors with increasing gains the search finds the neighbours of a gain inside their range.\<close>

lemma enclosing_neighbours:
  "sorted_wrt (\<lambda>a b. fst a < fst b) (p # ps) \<Longrightarrow> fst p < v \<Longrightarrow> v \<le> fst (last (p # ps)) \<Longrightarrow>
   \<exists>l r. enclosing v (p # ps) = Some (l, r) \<and> fst l < v \<and> v \<le> fst r \<and> l \<in> set (p # ps) \<and> r \<in> set (p # ps) \<and>
     (\<forall>x \<in> set (p # ps). fst x \<le> fst l \<or> fst r \<le> fst x)"
proof (induction ps arbitrary: p)
  case (Cons q ps)
  show ?case
  proof (cases "v \<le> fst q")
    case True
    with Cons.prems show ?thesis by (auto intro!: exI [of _ p] exI [of _ q])
  next
    case False
    with Cons.IH [of q] Cons.prems obtain l r where
      "enclosing v (q # ps) = Some (l, r)" "fst l < v" "v \<le> fst r" "l \<in> set (q # ps)" "r \<in> set (q # ps)"
      "\<forall>x \<in> set (q # ps). fst x \<le> fst l \<or> fst r \<le> fst x" by auto
    with False Cons.prems show ?thesis by (intro exI [of _ l] exI [of _ r]) auto
  qed
qed simp

text \<open>A dictionary of anchors holds a gain once, and every channel of it has one at least.\<close>

lemma load_anchor_offsets_ok:
  assumes "load_anchor_offsets csv_rows = Inr anchors" "ch \<in> set CHANNEL_ORDER"
  shows "\<exists>ps. map_of anchors ch = Some ps \<and> ps \<noteq> [] \<and> distinct (map fst ps)"
proof -
  let ?I = "\<lambda>out :: anchors. \<forall>c ps. map_of out c = Some ps \<longrightarrow> ps \<noteq> [] \<and> distinct (map fst ps)"
  from assms have fold: "r_fold anchor_row csv_rows [] = Inr anchors" and "map_of anchors ch \<noteq> None"
    by (auto simp: load_anchor_offsets_def r_bind_ok filter_empty_conv split: if_splits)
  moreover have "?I anchors"
  proof (rule r_fold_invariant [OF fold, where I = ?I])
    fix row a a' assume "?I a" "anchor_row row a = Inr a'"
    then show "?I a'"
      by (auto simp: anchor_row_def r_bind_ok Let_def update_conv' distinct_update split: if_splits option.splits)
        (metis distinct_update distinct.simps(1) list.simps(8) update_Some_unfold update_conv' update_nonempty)+
  qed simp
  ultimately show ?thesis by auto
qed

lemma sorted_ends:
  "sorted_wrt (\<lambda>a b. fst a < (fst b :: int)) xs \<Longrightarrow> r \<in> set xs \<Longrightarrow> fst (hd xs) \<le> fst r \<and> fst r \<le> fst (last xs)"
proof (induction xs)
  case (Cons x xs)
  then show ?case by (cases "xs = []") (auto intro: less_imp_le order_trans)
qed simp

lemma sorted_anchors:
  "distinct (map fst ps) \<Longrightarrow> sorted_wrt (\<lambda>a b. fst a < (fst b :: int)) (sort_key fst ps)"
  using sorted_sort_key [of fst ps] by (simp add: strict_sorted_iff distinct_map flip: sorted_wrt_map)

context ieee
begin

lemma enclosing_between:
  assumes "sorted_wrt (\<lambda>a b. fst a < fst b) xs" "xs \<noteq> []" "fst (hd xs) < v" "v < fst (last xs)"
    and "\<And>p. p \<in> set xs \<Longrightarrow> \<bar>fst p\<bar> \<le> 2 ^ 52 \<and> \<bar>snd p\<bar> \<le> 2 ^ 52"
  shows "\<exists>l \<in> set xs. \<exists>r \<in> set xs. \<exists>n. enclosing v xs = Some (l, r) \<and> between F v (l, r) = Inr n \<and>
    min (snd l) (snd r) \<le> n \<and> n \<le> max (snd l) (snd r) \<and> (fst r = v \<longrightarrow> n = snd r) \<and>
    fst l < v \<and> v \<le> fst r \<and> (\<forall>x \<in> set xs. fst x \<le> fst l \<or> fst r \<le> fst x)"
proof -
  obtain l r where lr: "enclosing v xs = Some (l, r)" "fst l < v" "v \<le> fst r" "l \<in> set xs" "r \<in> set xs"
    "\<forall>x \<in> set xs. fst x \<le> fst l \<or> fst r \<le> fst x"
    using enclosing_neighbours [of "hd xs" "tl xs" v] assms(1-4) by auto
  have b: "\<bar>fst l\<bar> \<le> 2 ^ 52" "\<bar>fst r\<bar> \<le> 2 ^ 52" "\<bar>snd l\<bar> \<le> 2 ^ 52" "\<bar>snd r\<bar> \<le> 2 ^ 52" using assms(5) lr(4,5) by blast+
  have "\<exists>n. between F v ((fst l, snd l), (fst r, snd r)) = Inr n \<and> min (snd l) (snd r) \<le> n \<and> n \<le> max (snd l) (snd r) \<and>
      (v = fst r \<longrightarrow> n = snd r)"
    by (rule between_range) (use lr(2,3) b in auto)
  with lr show ?thesis by (metis prod.collapse)
qed

end

text \<open>A value fits a gain between anchors: it is the anchor's at the gain of an anchor, and lies between the values of the nearest ones.\<close>

definition fits_anchors :: "(int \<times> int) list \<Rightarrow> int \<Rightarrow> int \<Rightarrow> bool" where
  "fits_anchors ps v n \<longleftrightarrow> (\<forall>p \<in> set ps. fst p = v \<longrightarrow> n = snd p) \<and>
    (\<exists>p \<in> set ps. \<exists>q \<in> set ps. min (snd p) (snd q) \<le> n \<and> n \<le> max (snd p) (snd q) \<and>
       (\<forall>r \<in> set ps. fst r < v \<longrightarrow> fst r \<le> fst p) \<and> (\<forall>r \<in> set ps. v < fst r \<longrightarrow> fst q \<le> fst r))"

lemma fits_anchor:
  assumes "distinct (map fst ps)" "x \<in> set ps" "\<And>r. r \<in> set ps \<Longrightarrow> fst r \<le> v \<Longrightarrow> fst r \<le> fst x" "\<And>r. r \<in> set ps \<Longrightarrow> v \<le> fst r \<Longrightarrow> fst x \<le> fst r"
  shows "fits_anchors ps v (snd x)"
proof -
  have "snd x = snd p" if "p \<in> set ps" "fst p = v" for p
    using assms(3) [OF that(1)] assms(4) [OF that(1)] that assms(1,2) by (metis distinct_map inj_onD order_antisym order_refl)
  then show ?thesis using assms(2-4) unfolding fits_anchors_def by (intro conjI ballI impI bexI [of _ x]) auto
qed

lemma fits_neighbours:
  assumes "distinct (map fst ps)" "l \<in> set ps" "r \<in> set ps" "fst l < v" "v \<le> fst r" "\<forall>x \<in> set ps. fst x \<le> fst l \<or> fst r \<le> fst x"
    and "min (snd l) (snd r) \<le> n" "n \<le> max (snd l) (snd r)" "fst r = v \<Longrightarrow> n = snd r"
  shows "fits_anchors ps v n"
proof -
  have "n = snd p" if p: "p \<in> set ps" "fst p = v" for p
  proof -
    have "fst r = v" using assms(4,5,6) p by fastforce
    moreover then have "p = r" using assms(1,3) p by (metis distinct_map inj_onD)
    ultimately show ?thesis using assms(9) by simp
  qed
  moreover have "\<forall>x \<in> set ps. fst x < v \<longrightarrow> fst x \<le> fst l" "\<forall>x \<in> set ps. v < fst x \<longrightarrow> fst r \<le> fst x"
    using assms(4-6) by fastforce+
  ultimately show ?thesis using assms(2,3,7,8) unfolding fits_anchors_def by blast
qed

lemma interpolate_run:
  assumes "map_of anchors ch = Some ps" "ps \<noteq> []"
  shows "interpolate_channel_offset F ch vgain anchors sub lo hi = (let xs = sort_key fst ps in
      r_bind (if vgain \<le> fst (hd xs) then Inr (snd (hd xs))
          else if vgain \<ge> fst (last xs) then Inr (snd (last xs))
          else case enclosing vgain xs of None \<Rightarrow> Inr (snd (hd xs)) | Some pq \<Rightarrow> between F vgain pq)
        (\<lambda>n. Inr (clamp lo hi (n - sub))))"
proof -
  have "sort_key fst ps \<noteq> []" using assms(2) by (metis set_empty set_sort)
  then show ?thesis
    unfolding interpolate_channel_offset_def assms(1) r_of_option_simps r_bind_simps Let_def clamp_def by simp
qed

text \<open>C30: The offset a sweep applies to a channel at a gain is an anchor's offset, or a value between those of the two
  anchors nearest to the gain, less the subtraction and clamped to the limits: at the gain of an anchor it is that
  anchor's offset, below or above all anchors that of the first or last one. It never fails for a loaded
  anchor file.\<close>

theorem interpolated_offset:
  assumes "ieee F val rd" and "load_anchor_offsets csv_rows = Inr anchors" and "ch \<in> set CHANNEL_ORDER"
    and "map_of anchors ch = Some ps" and "\<And>p. p \<in> set ps \<Longrightarrow> \<bar>fst p\<bar> \<le> 2 ^ 52 \<and> \<bar>snd p\<bar> \<le> 2 ^ 52"
  shows "\<exists>n. interpolate_channel_offset F ch vgain anchors sub lo hi = Inr (clamp lo hi (n - sub)) \<and>
    (\<forall>p \<in> set ps. fst p = vgain \<longrightarrow> n = snd p) \<and>
    (\<exists>p \<in> set ps. \<exists>q \<in> set ps. min (snd p) (snd q) \<le> n \<and> n \<le> max (snd p) (snd q) \<and>
       (\<forall>r \<in> set ps. fst r < vgain \<longrightarrow> fst r \<le> fst p) \<and> (\<forall>r \<in> set ps. vgain < fst r \<longrightarrow> fst q \<le> fst r))"
proof -
  define xs where "xs = sort_key fst ps"
  have ps: "ps \<noteq> []" "distinct (map fst ps)" using load_anchor_offsets_ok [OF assms(2,3)] assms(4) by auto
  have set: "set xs = set ps" by (simp add: xs_def)
  have xs: "xs \<noteq> []" using ps(1) unfolding xs_def by (metis set_empty set_sort)
  note sorted = sorted_anchors [OF ps(2), folded xs_def] and run = interpolate_run [OF assms(4) ps(1), folded xs_def, unfolded Let_def]
  have first: "fst (hd xs) \<le> fst r" "fst r \<le> fst (last xs)" if "r \<in> set ps" for r
    using sorted_ends [OF sorted] that unfolding set by blast+
  have ends: "hd xs \<in> set ps" "last xs \<in> set ps" using hd_in_set [OF xs] last_in_set [OF xs] by (simp_all only: set)
  consider "vgain \<le> fst (hd xs)" | "fst (hd xs) < vgain" "fst (last xs) \<le> vgain" | "fst (hd xs) < vgain" "vgain < fst (last xs)" by linarith
  then have "\<exists>n. interpolate_channel_offset F ch vgain anchors sub lo hi = Inr (clamp lo hi (n - sub)) \<and> fits_anchors ps vgain n"
  proof cases
    case 1
    have "fits_anchors ps vgain (snd (hd xs))" by (rule fits_anchor [OF ps(2) ends(1)]) (use 1 first(1) in auto)
    with 1 show ?thesis by (auto simp: run)
  next
    case 2
    have "fits_anchors ps vgain (snd (last xs))" by (rule fits_anchor [OF ps(2) ends(2)]) (use 2 first(2) in auto)
    with 2 show ?thesis by (auto simp: run)
  next
    case 3
    obtain l r n where lr: "enclosing vgain xs = Some (l, r)" "fst l < vgain" "vgain \<le> fst r" "l \<in> set ps" "r \<in> set ps"
      "\<forall>x \<in> set ps. fst x \<le> fst l \<or> fst r \<le> fst x" and
      n: "between F vgain (l, r) = Inr n" "min (snd l) (snd r) \<le> n" "n \<le> max (snd l) (snd r)" "fst r = vgain \<Longrightarrow> n = snd r"
      using ieee.enclosing_between [OF assms(1) sorted xs 3] assms(5) unfolding set by blast
    have "fits_anchors ps vgain n" by (rule fits_neighbours [OF ps(2) lr(4,5,2,3,6) n(2-4)])
    with 3 lr(1) n(1) show ?thesis by (auto simp: run)
  qed
  then show ?thesis unfolding fits_anchors_def .
qed

section \<open>Instances\<close>

definition rat_floats :: "rat float_ops" where
  "rat_floats = \<lparr>f_lit = (\<lambda>t. 0), f_parse = (\<lambda>t. None), f_str = (\<lambda>x. []), f_fix = (\<lambda>n x. []), f_round = (\<lambda>x. Inr (round x)),
     f_trunc = (\<lambda>x. Inr \<lfloor>x\<rfloor>), f_of_int = of_int, f_add = (+), f_mul = (*), f_div = (/), f_abs = abs, f_less = (<)\<rparr>"

interpretation exact: ieee rat_floats "\<lambda>x. x" "\<lambda>x. x"
proof
  show "\<exists>n. f_round rat_floats a = Inr n \<and> \<bar>of_int n - a\<bar> \<le> 1 / 2" for a
    by (simp only: rat_floats_def float_ops.simps) (intro exI [of _ "round a"] conjI refl of_int_round_abs_le)
qed (simp_all add: rat_floats_def)

text \<open>An anchor file: the same two anchors for every channel.\<close>

definition test_rows :: "(string \<times> string) list list" where
  "test_rows = concat (map (\<lambda>ch. [[(''vgain'', ''500''), (''channel'', ch), (''closest_offset_to_2000'', ''1000'')],
     [(''vgain'', ''700''), (''channel'', ch), (''closest_offset_to_2000'', ''1100'')]])
     [''4'', ''5'', ''6'', ''7'', ''12'', ''13'', ''14'', ''15'', ''18'', ''19'', ''21''])"

definition test_anchors :: anchors where
  "test_anchors = map (\<lambda>ch. (ch, [(500, 1000), (700, 1100)])) CHANNEL_ORDER"

lemma load_test_rows: "load_anchor_offsets test_rows = Inr test_anchors"
  by code_simp

theorem interpolated_offset_witness:
  "(\<exists>n. interpolate_channel_offset rat_floats 4 600 test_anchors 100 0 2550 = Inr (clamp 0 2550 (n - 100)) \<and> 1000 \<le> n \<and> n \<le> 1100) \<and>
   interpolate_channel_offset rat_floats 4 700 test_anchors 100 0 2550 = Inr 1000"
proof -
  have ch: "4 \<in> set CHANNEL_ORDER" "map_of test_anchors 4 = Some [(500, 1000), (700, 1100)]"
    by (simp_all add: CHANNEL_ORDER_def test_anchors_def)
  have "\<bar>fst p\<bar> \<le> 2 ^ 52 \<and> \<bar>snd p\<bar> \<le> 2 ^ 52" if "p \<in> set [(500, 1000), (700, 1100)]" for p :: "int \<times> int" using that by auto
  note at = interpolated_offset [OF exact.ieee_axioms load_test_rows ch this]
  show ?thesis using at [of 600 100 0 2550] at [of 700 100 0 2550] by (auto simp: clamp_def)
qed

text \<open>A site where every program succeeds and the board never answers: the state is the log of the programs.\<close>

definition mute_sock :: "(string list list, unit) zsock" where
  "mute_sock = \<lparr>z_timeout = (\<lambda>k. m_ret ()), z_send = (\<lambda>w. m_ret ()), z_recv = m_raise ZmqAgain, z_close = m_ret (),
     time_ns = m_ret 1700000000000000000, randrange = (\<lambda>n. m_ret 0)\<rparr>"

definition ref_vg :: "(string list list, unit, unit, int) vg_env" where
  "ref_vg = \<lparr>vg_sc = ref_sc (\<lambda>cmd. 0),
     vg_fe = \<lparr>fe_sock = mute_sock, fe_envc = \<lparr>ser = (\<lambda>e. ()), par = (\<lambda>b. None), blen = (\<lambda>b. 0)\<rparr>, ser_cfg = (\<lambda>c. ()), ser_bias = (\<lambda>a v. ()),
       ser_align = (), outc = \<lparr>ser = (\<lambda>r. ()), par = (\<lambda>b. None), blen = (\<lambda>b. 0)\<rparr>, biasc = \<lparr>ser = (\<lambda>r. ()), par = (\<lambda>b. None), blen = (\<lambda>b. 0)\<rparr>,
       alignc = \<lparr>ser = (\<lambda>r. ()), par = (\<lambda>b. None), blen = (\<lambda>b. 0)\<rparr>, payload_len = (\<lambda>b. 0), fe_print = (\<lambda>l. m_ret ()), fe_dumps = (\<lambda>v. []),
       fe_floats = int_floats, dir_names = (\<lambda>n. None), type_names = (\<lambda>n. None), isoformat = int_to_str, fe_pid = 1, fe_rand = 2,
       get_seq = (\<lambda>l. int (length l)), set_seq = (\<lambda>n l. l)\<rparr>,
     sock_for = (\<lambda>ep. mute_sock), read_csv = (\<lambda>s p. Inr test_rows)\<rparr>"

interpretation ref_sweep: sweep_log ref_vg "\<lambda>s. s"
proof (rule sweep_log.intro)
  show "program_log (vg_sc ref_vg) (\<lambda>s. s)" using ref_log.program_log_axioms by (simp add: ref_vg_def)
qed (unfold_locales, auto simp: ref_vg_def ref_sc_def mute_sock_def py_run)

definition test_va :: "int vg_args" where
  "test_va = \<lparr>va_anchor_csv = ''anchors.csv'', va_output_dir = ''run'', va_host = ''127.0.0.1'', va_port = 9876, va_route = ''mezz/0'',
     va_vgain_start = 500, va_vgain_stop = 600, va_vgain_step = 50, va_offset_subtract = 100, va_offset_min = 0, va_offset_max = 2550,
     va_waveforms = 64, va_waveform_len = 2048, va_timeout_ms = 30000, va_bias_monitor_timeout_ms = 4000, va_settle_s = 0,
     va_software_trigger = False, va_bias_monitor_afes = ''0'', va_python_exe = ''python3'', va_no_led_start = False,
     va_led_client = ''led_run'', va_led_stop_client = ''led_stop'', va_led_config = ''led.json'', va_link = sa_link test_sa,
     va_led = \<lparr>led_channel_mask = 7, led_number_channels = 12, led_pulse_width_ticks = 100, led_intensity_270nm = 4094, led_intensity_367nm = 0\<rparr>,
     va_skip_fe_readback = False, va_dry_run = False\<rparr>"

theorem sweep_stops_led_witness:
  "\<exists>mid. snd (vg_main ref_vg test_va []) =
     led_command (sc_rt (vg_sc ref_vg)) ''led_run'' ''led.json'' (va_link test_va) (va_led test_va) # mid @
     [led_stop_command (sc_rt (vg_sc ref_vg)) ''led_stop'' (va_link test_va)]"
proof -
  have args: "\<not> va_dry_run test_va" "\<not> va_no_led_start test_va" by (simp_all add: test_va_def)
  have rt: "run_prog (sc_rt (vg_sc ref_vg)) cmd s = (Inr (0, [], []), s @ [cmd])" "write_file (sc_rt (vg_sc ref_vg)) p x s = (Inr (), s)"
    for cmd s p x
    by (simp_all add: ref_vg_def ref_sc_def py_run)
  note stops = sweep_stops_led [OF ref_sweep.sweep_log_axioms args refl refl, unfolded rt, simplified, of "[]"]
  have afs: "r_map int_of (filter (\<lambda>t. t \<noteq> []) (map py_strip (split_on CHR '','' (va_bias_monitor_afes test_va)))) = Inr [0]" by code_simp
  have "inclusive_range (va_vgain_start test_va) (va_vgain_stop test_va) (va_vgain_step test_va) = Inr [500, 550, 600]" by code_simp
  then obtain vs where vs: "inclusive_range (va_vgain_start test_va) (va_vgain_stop test_va) (va_vgain_step test_va) = Inr vs" by blast
  have quiet: "mkdir (vg_sc ref_vg) p s = (Inr (), s)" "utc_now_iso (vg_sc ref_vg) s = (Inr ''now'', s)" "read_csv ref_vg s p = Inr test_rows"
    "write_json (vg_sc ref_vg) p v s = (Inr (), s)" for p s v
    by (simp_all add: ref_vg_def ref_sc_def write_json_def py_run)
  have "snd (vg_led_sweep ref_vg test_va d man (\<lambda>led. m_map (vg_point ref_vg test_va anch afs pd led) vs) []) \<noteq> []"
    for d man anch afs pd vs
    using ref_sweep.led_sweep_stops [OF args, of d "\<lambda>led. m_map (vg_point ref_vg test_va anch afs pd led) vs" man "[]"]
    by (auto simp: rt py_preserves)
  then have "snd (vg_main ref_vg test_va []) \<noteq> []"
    using ref_sweep.quiet_keeps(5)
    by (simp add: vg_main_def load_test_rows afs vs quiet Let_def py_run)
      (rule m_bind_quiet_last [of "\<lambda>_ g. g \<noteq> []" _ _ "\<lambda>s. s"], auto intro!: py_preserves)
  with stops show ?thesis by (auto simp: test_va_def)
qed

section \<open>The request of a gain\<close>

definition swept_channel :: "(int \<times> int) list \<Rightarrow> int \<Rightarrow> ChannelConfig" where
  "swept_channel offs ch = \<lparr>ch_id = ch, ch_trim = 0,
     ch_offset = (if ch \<in> set CHANNEL_ORDER then the (map_of offs ch) else 2275), ch_gain = 1\<rparr>"

definition swept_afe :: "int \<Rightarrow> int \<Rightarrow> AFEConfig" where
  "swept_afe vgain i = \<lparr>afe_id = i, attenuators = vgain, v_bias = AFE_BIAS_DAC ! nat i,
     adc = \<lparr>adc_resolution = False, adc_output_format = True, adc_sb_first = False\<rparr>,
     pga = \<lparr>pga_lpf_cut_frequency = 4, pga_integrator_disable = True, pga_gain = False\<rparr>,
     lna = \<lparr>lna_clamp = 0, lna_gain = 2, lna_integrator_disable = True\<rparr>\<rparr>"

lemma py_range_5: "py_range 5 = [0, 1, 2, 3, 4]"
  by (simp add: py_range_def upt_rec)

definition swept_lists :: "int \<Rightarrow> afe_lists" where
  "swept_lists vgain = \<lparr>al_attenuators = ints (replicate 5 vgain), al_v_biases = ints AFE_BIAS_DAC, al_adc_res = ints (replicate 5 0),
     al_adc_fmt = ints (replicate 5 1), al_adc_sb = ints (replicate 5 0), al_pga_cut = ints (replicate 5 4), al_pga_int = ints (replicate 5 1),
     al_pga_gain = ints (replicate 5 0), al_lna_clamp = ints (replicate 5 0), al_lna_gain = ints (replicate 5 2), al_lna_int = ints (replicate 5 1)\<rparr>"

lemma take_bool_ints: "n < length xs \<Longrightarrow> take_bool (ints xs) n cur = Inr (xs ! n \<noteq> 0)"
  by (simp add: take_bool_def ints_def)

lemma first_id: "map key xs = map int [0..<m] \<Longrightarrow> n < m \<Longrightarrow> length (takeWhile (\<lambda>x. key x \<noteq> int n) xs) = n"
proof -
  assume a: "map key xs = map int [0..<m]" "n < m"
  then have len: "length xs = m" by (metis diff_zero length_map length_upt)
  have key: "key (xs ! i) = int i" if "i < m" for i using a(1) that len by (metis add_0 diff_zero length_upt nth_map nth_upt)
  have "takeWhile (\<lambda>x. key x \<noteq> int n) xs = take n xs"
    by (rule takeWhile_eq_take_P_nth) (use key len a(2) in auto)
  then show ?thesis using len a(2) by simp
qed

lemma overlay_swept:
  assumes "0 \<le> vgain" "vgain < 2 ^ 32" "map afe_id as = py_range 5" "n < 5"
  shows "overlay_afe tr (swept_lists vgain) True (n, JInt (int n)) as = Inr (as[n := swept_afe vgain (int n)])"
proof -
  have len: "length as = 5" using assms(3) by (metis length_map length_py_range)
  have id: "afe_id (as ! n) = int n" using assms(3,4) len by (metis nth_map py_range_nth)
  have e: "ensure_by afe_id empty_afe (int n) as = Inr (as, n)"
    using first_id [of afe_id as 5 n] assms(3,4) len by (simp add: ensure_by_def py_range_def Let_def)
  have u: "u32_list (replicate 5 vgain)" "u32_list AFE_BIAS_DAC" "u32_list (replicate 5 0)" "u32_list (replicate 5 2)" "u32_list (replicate 5 4)"
    using assms(1,2) by (simp_all add: u32_list_def AFE_BIAS_DAC_def list_all_iff)
  have l: "length AFE_BIAS_DAC = 5" by (simp add: AFE_BIAS_DAC_def)
  have "(as ! n)\<lparr>attenuators := vgain, v_bias := AFE_BIAS_DAC ! n, adc := adc (swept_afe vgain n), pga := pga (swept_afe vgain n),
      lna := lna (swept_afe vgain n)\<rparr> = swept_afe vgain n"
    by (rule AFEConfig.equality) (simp_all add: id swept_afe_def)
  then show ?thesis
    using assms(4)
    by (simp add: overlay_afe_def ensure_afe_def e overlay_common_def swept_lists_def if_given_def take_uint_ints take_bool_ints u l
        swept_afe_def Let_def) (simp add: ints_def)
qed

lemma swept_afes:
  assumes "0 \<le> vgain" "vgain < 2 ^ 32"
  shows "r_fold (overlay_afe tr (swept_lists vgain) True) (enumerate 0 (map JInt AFE_IDS)) (map (afe_of p) (py_range 5)) =
    Inr (map (swept_afe vgain) (py_range 5))"
proof -
  have step: "overlay_afe tr (swept_lists vgain) True (n, JInt i) as = Inr (as[n := swept_afe vgain i])"
    if "i = int n" "map afe_id as = py_range 5" "n < 5" for n i as
    using overlay_swept [OF assms that(2,3)] that(1) by simp
  have id: "afe_id (afe_of p i) = i" "afe_id (swept_afe vgain i) = i" for i by (simp_all add: afe_of_def swept_afe_def)
  show ?thesis by (simp add: AFE_IDS_def py_range_5 step id)
qed

lemma swept_channels:
  assumes offs: "\<And>ch. ch \<in> set CHANNEL_ORDER \<Longrightarrow> \<exists>v. map_of offs ch = Some v \<and> 0 \<le> v \<and> v < 2 ^ 32"
    and p: "p_per_ch_trim p = 0" "p_per_ch_offset p = 2275"
  shows "r_fold (overlay_channel tr (ints (map (the \<circ> map_of offs) CHANNEL_ORDER)) (ints (replicate 11 0)) (ints (replicate 11 1)))
      (enumerate 0 (map JInt CHANNEL_ORDER)) (map (channel_of p) (py_range 40)) = Inr (map (swept_channel offs) (py_range 40))"
proof -
  let ?ids = CHANNEL_ORDER and ?offs = "map (the \<circ> map_of offs) CHANNEL_ORDER" and ?all = "py_range 40"
  let ?val = "\<lambda>n c. c\<lparr>ch_id := ?ids ! n, ch_offset := ?offs ! n, ch_trim := replicate 11 0 ! n, ch_gain := replicate 11 1 ! n\<rparr>"
  have len: "length ?ids = 11" "distinct ?ids" "set ?ids \<subseteq> set ?all" by (simp_all add: CHANNEL_ORDER_def)
  have "u32_list ?offs" using offs by (fastforce simp: u32_list_def list_all_iff)
  moreover have "u32_list ?ids" "u32_list (replicate 11 0)" "u32_list (replicate 11 1)" by (simp_all add: u32_list_def CHANNEL_ORDER_def list_all_iff)
  ultimately have u: "u32_list ?ids" "u32_list ?offs" "u32_list (replicate 11 0)" "u32_list (replicate 11 1)" by simp_all
  have "\<exists>ys. overlay_channel tr (ints ?offs) (ints (replicate 11 0)) (ints (replicate 11 1)) (n, JInt (?ids ! n)) xs = Inr ys \<and>
      (\<forall>j. chan.at ys j = (if j = ?ids ! n then Some (?val n (case chan.at xs j of Some x \<Rightarrow> x | None \<Rightarrow> empty_channel j)) else chan.at xs j)) \<and>
      map ch_id ys = chan.ins (?ids ! n) (map ch_id xs)" if "n < length ?ids" for n xs
    by (rule overlay_channel_step [OF that]) (use u len in simp_all)
  from chan.overlay_loop [where val = ?val and xs = "map (channel_of p) ?all", OF this len(2)]
  obtain ys where ys: "r_fold (overlay_channel tr (ints ?offs) (ints (replicate 11 0)) (ints (replicate 11 1))) (enumerate 0 (map JInt ?ids))
      (map (channel_of p) ?all) = Inr ys"
    "\<And>n. n < length ?ids \<Longrightarrow> chan.at ys (?ids ! n) =
       Some (?val n (case chan.at (map (channel_of p) ?all) (?ids ! n) of Some x \<Rightarrow> x | None \<Rightarrow> empty_channel (?ids ! n)))"
    "\<And>i. i \<notin> set ?ids \<Longrightarrow> chan.at ys i = chan.at (map (channel_of p) ?all) i" "map ch_id ys = fold chan.ins ?ids (map ch_id (map (channel_of p) ?all))"
    by blast
  have ids: "map ch_id ys = ?all" using ys(4) len(3) by (simp add: chan.fold_ins_known comp_def channel_of_def)
  have "chan.at ys i = Some (swept_channel offs i)" if i: "i \<in> set ?all" for i
  proof (cases "i \<in> set ?ids")
    case True
    then obtain n where n: "n < length ?ids" "?ids ! n = i" by (auto simp: in_set_conv_nth)
    from ys(2) [OF n(1)] n i True len(1) show ?thesis by (auto simp: swept_channel_def at_map_default channel_of_def)
  next
    case False
    with ys(3) [OF False] i p show ?thesis by (auto simp: swept_channel_def at_map_default channel_of_def)
  qed
  from chan.list_by_at [OF ids distinct_py_range this] ys(1) show ?thesis by simp
qed

text \<open>C31: The request of a gain: for offsets of all swept channels the configuration of a gain is always built; it
  addresses the host, sets all five attenuators to the gain and the AFE biases to the fixed codes, gives every
  swept channel its offset, and leaves the other channels of the forty at the default offset.\<close>

theorem sweep_request:
  assumes "0 \<le> vgain" "vgain < 2 ^ 32" "0 \<le> tmo" "tmo < 2 ^ 32"
    and "\<And>ch. ch \<in> set CHANNEL_ORDER \<Longrightarrow> \<exists>v. map_of offs ch = Some v \<and> 0 \<le> v \<and> v < 2 ^ 32"
  shows "\<exists>seed cfg. build_seed_config vgain offs = Inr (JObj [(BOARD_ID, seed)]) \<and> make_config_request tr host tmo seed = Inr cfg \<and>
    daphne_address cfg = host \<and> slot cfg = 1 \<and> biasctrl cfg = 1300 \<and>
    channels cfg = map (swept_channel offs) (py_range 40) \<and> afes cfg = map (swept_afe vgain) (py_range 5)"
proof -
  let ?n = "length CHANNEL_ORDER"
  have n: "?n = 11" "length AFE_IDS = 5" by (simp_all add: CHANNEL_ORDER_def AFE_IDS_def)
  have "r_map (\<lambda>ch. r_of_option KeyError (map_of offs ch)) CHANNEL_ORDER = Inr (map (the \<circ> map_of offs) CHANNEL_ORDER)"
    by (rule r_map_ret) (use assms(5) in fastforce)
  then obtain seed where seed: "build_seed_config vgain offs = Inr (JObj [(BOARD_ID, JObj seed)])"
    "map_of seed ''channel_analog_conf'' = Some (JObj [(''ids'', JList (map JInt CHANNEL_ORDER)), (''gains'', ints (replicate 11 1)),
       (''offsets'', ints (map (the \<circ> map_of offs) CHANNEL_ORDER)), (''trims'', ints (replicate 11 0))])"
    "seed_afes tr (JObj seed) True as = r_fold (overlay_afe tr (swept_lists vgain) True) (enumerate 0 (map JInt AFE_IDS)) as"
    "map_of seed ''bias_ctrl'' = Some (JInt 1300)" "set (map fst seed) = {''bias_ctrl'', ''channel_analog_conf'', ''afes''}" for as
    by (simp add: build_seed_config_def Let_def n ints_def seed_afes_def seed_afe_lists_def swept_lists_def
        LPF_CUTOFF_CODE_def PGA_GAIN_CODE_def LNA_GAIN_CODE_def LNA_CLAMP_CODE_def ADC_RESOLUTION_def ADC_OUTPUT_FORMAT_def ADC_SB_FIRST_def)
  have absent: "map_of seed k = None" if "k \<notin> {''bias_ctrl'', ''channel_analog_conf'', ''afes''}" for k
    using that seed(5) by (simp add: map_of_eq_None_iff flip: set_map)
  define p where "p = default_params\<lparr>p_ip := host, p_slot := 1, p_timeout_ms := tmo, p_per_ch_offset := 2275,
        p_vgain := 1600, p_lpf_cutoff := LPF_CUTOFF_CODE, p_pga_gain := PGA_GAIN_CODE, p_lna_gain := LNA_GAIN_CODE, p_lna_clamp := LNA_CLAMP_CODE\<rparr>"
  have "params_ok p"
    using assms(3,4) by (simp add: p_def params_ok_def default_params_def LPF_CUTOFF_CODE_def LNA_GAIN_CODE_def LNA_CLAMP_CODE_def)
  then have d: "make_default_config p = Inr (default_request p)" by (simp add: make_default_config_ok)
  have pf: "p_ip p = host" "p_slot p = 1" "p_timeout_ms p = tmo" "p_self_trigger_threshold p = 12" "p_self_trigger_xcorr p = 104"
    "p_tp_conf p = 0x0010DB35" "p_compensator p = 0xFFFFFFFFFF" "p_inverters p = 0xFF00000000"
    by (simp_all add: p_def default_params_def)
  have chs: "seed_channels tr (JObj seed) (map (channel_of p) (py_range 40)) = Inr (map (swept_channel offs) (py_range 40))"
    using swept_channels [OF assms(5), of p tr] by (simp add: seed_channels_def seed(2) p_def default_params_def)
  show ?thesis
    using assms(3,4)
    by (simp add: seed(1) make_config_request_def absent d flip: p_def)
      (simp add: build_request_from_seed_def seed_uint_def absent seed(3,4) swept_afes [OF assms(1,2)] chs default_request_def uint_field_def pf)
qed

theorem sweep_request_witness:
  "\<exists>seed cfg. build_seed_config 500 (map (\<lambda>ch. (ch, 900)) CHANNEL_ORDER) = Inr (JObj [(BOARD_ID, seed)]) \<and>
     make_config_request (\<lambda>r. Inl TypeError) ''10.0.0.1'' 30000 seed = Inr cfg \<and>
     channels cfg = map (swept_channel (map (\<lambda>ch. (ch, 900)) CHANNEL_ORDER)) (py_range 40)"
proof -
  have "\<exists>v. map_of (map (\<lambda>ch. (ch, 900)) CHANNEL_ORDER) ch = Some v \<and> 0 \<le> v \<and> v < (2 :: int) ^ 32" if "ch \<in> set CHANNEL_ORDER" for ch
    using that by (auto simp: CHANNEL_ORDER_def)
  then show ?thesis using sweep_request [of 500 30000 "map (\<lambda>ch. (ch, 900)) CHANNEL_ORDER"] by fastforce
qed

lemma make_config_request_typed: "make_config_request tr host tmo seed = Inr cfg \<Longrightarrow> request_typed cfg"
  unfolding make_config_request_def r_bind_ok
  by (elim exE conjE) (drule default_request_typed, drule (1) build_request_typed, auto simp: request_typed_def in_uint_def)

end
