(* ===== verification/Merge_Runs.thy ===== *)
theory Merge_Runs
  imports Led_Scan Pds_Config
begin

text \<open>
  \<open>client/dynamic_range_led/merge_led_intensity_runs.py\<close>: several intensity scans become one run directory whose points
  are symbolic links to the complete points of the sources.

  The environment is that of \<open>Led_Scan\<close> with the queries on the file tree: \<open>has_path\<close> is \<open>Path.exists\<close> and
  \<open>glob_points\<close> gives the names that match \<open>intensity_*\<close> in a directory. Queries do not change the state. A manifest
  is a JSON object, as the scan writes it.
\<close>

record ('s, 'f) mg_env =
  mg_sc :: "('s, 'f) sc_env"
  has_path :: "'s \<Rightarrow> string \<Rightarrow> bool"
  glob_points :: "'s \<Rightarrow> string \<Rightarrow> string list"
  symlink :: "string \<Rightarrow> string \<Rightarrow> ('s, unit) py"
  mg_print :: "string \<Rightarrow> ('s, unit) py"

section \<open>Comparing manifests\<close>

text \<open>\<open>==\<close> of decoded values: numbers and Booleans compare by value, lists element by element, objects
  regardless of the order of their members.\<close>

definition num_json :: "'f np_ops \<Rightarrow> json \<Rightarrow> 'f option" where
  "num_json F v = (case v of JInt n \<Rightarrow> Some (np_int F n) | JBool b \<Rightarrow> Some (np_int F (if b then 1 else 0)) | JFloat r \<Rightarrow> Some (np_lit F r) | _ \<Rightarrow> None)"

fun int_json :: "json \<Rightarrow> int option" where
  "int_json (JInt n) = Some n"
| "int_json (JBool b) = Some (if b then 1 else 0)"
| "int_json _ = None"

definition num_eq :: "'f np_ops \<Rightarrow> json \<Rightarrow> json \<Rightarrow> bool" where
  "num_eq F v w = (case (int_json v, int_json w) of
       (Some m, Some n) \<Rightarrow> m = n
     | _ \<Rightarrow> (case (num_json F v, num_json F w) of (Some x, Some y) \<Rightarrow> np_eq F x y | _ \<Rightarrow> False))"

function json_eq :: "'f np_ops \<Rightarrow> json \<Rightarrow> json \<Rightarrow> bool" where
  "json_eq F v w =
     (case v of
        JNull \<Rightarrow> w = JNull
      | JStr s \<Rightarrow> w = JStr s
      | JList xs \<Rightarrow> (case w of JList ys \<Rightarrow> length xs = length ys \<and> (\<forall>i \<in> set [0..<length xs]. json_eq F (xs ! i) (ys ! i)) | _ \<Rightarrow> False)
      | JObj kvs \<Rightarrow> (case w of
            JObj lvs \<Rightarrow> length kvs = length lvs \<and>
              (\<forall>kv \<in> set kvs. case map_of lvs (fst kv) of None \<Rightarrow> False | Some y \<Rightarrow> json_eq F (snd kv) y)
          | _ \<Rightarrow> False)
      | _ \<Rightarrow> num_eq F v w)"
  by pat_completeness auto
termination
proof (relation "measure (\<lambda>(F, v, w). size v)", goal_cases)
  case (2 F v w xs ys i)
  then have "xs ! i \<in> set xs" by simp
  with 2 show ?case using size_list_estimation' [of "xs ! i" xs "size (xs ! i)" size] by fastforce
next
  case (3 F v w kvs lvs kv y)
  have "size (snd kv) \<le> size_prod (\<lambda>_. 0) size kv" by (cases kv) simp
  with 3 show ?case using size_list_estimation' [of kv kvs "size (snd kv)" "size_prod (\<lambda>_. 0) size"] by fastforce
qed simp

declare json_eq.simps [simp del]

definition same_keys :: "string list" where
  "same_keys = [''channels'', ''scan_wavelength'', ''waveforms'', ''waveform_len'', ''led_channel_mask'', ''pulse_width_ticks'', ''host'', ''port'', ''route'']"

definition mismatches :: "'f np_ops \<Rightarrow> json \<Rightarrow> json \<Rightarrow> string list result" where
  "mismatches F base manifest =
     r_bind (r_map (\<lambda>key.
        r_bind (py_get manifest key JNull) (\<lambda>v.
        r_bind (py_get base key JNull) (\<lambda>b. Inr (key, \<not> json_eq F v b)))) same_keys) (\<lambda>flags.
     Inr (map fst (filter snd flags)))"

definition ensure_same_config :: "'f np_ops \<Rightarrow> json list \<Rightarrow> unit result" where
  "ensure_same_config F manifests =
     (case manifests of
        [] \<Rightarrow> Inl IndexError
      | base # rest \<Rightarrow>
          r_bind (r_map (\<lambda>manifest. r_bind (mismatches F base manifest) (\<lambda>bad.
            if bad \<noteq> [] then Inl (ValueError ''Run has incompatible manifest fields'') else Inr ())) rest) (\<lambda>_.
          Inr ()))"

section \<open>Selecting points\<close>

definition load_json :: "('s, 'f) mg_env \<Rightarrow> 's \<Rightarrow> string \<Rightarrow> json result" where
  "load_json env s path = r_bind (read_text (mg_sc env) s path) (\<lambda>t. r_of_option JSONDecodeError (loads (sc_rt (mg_sc env)) t))"

definition is_complete_point :: "('s, 'f) mg_env \<Rightarrow> 's \<Rightarrow> string \<Rightarrow> bool" where
  "is_complete_point env s point_dir \<longleftrightarrow>
     has_path env s (sub_path point_dir ''metadata.json'') \<and> has_path env s (sub_path point_dir ''analysis.json'')"

text \<open>\<open>int(name.split("_", 1)[1])\<close>.\<close>

definition name_intensity :: "string \<Rightarrow> int result" where
  "name_intensity name = (case split_once CHR ''_'' name of None \<Rightarrow> Inl IndexError | Some (a, b) \<Rightarrow> int_of b)"

text \<open>The dictionaries \<open>selected_points\<close> and \<open>selected_sources\<close> as one, and the list of summaries.\<close>

type_synonym selection = "(int \<times> string \<times> string) list"

definition select_point ::
  "(string \<Rightarrow> bool) \<Rightarrow> string \<Rightarrow> string \<Rightarrow> selection \<times> int list \<Rightarrow> (selection \<times> int list) result" where
  "select_point complete_at run_dir point_name acc = (case acc of (sel, complete) \<Rightarrow>
     r_bind (name_intensity point_name) (\<lambda>intensity.
     let point_dir = sub_path (sub_path run_dir ''points'') point_name in
     Inr (if complete_at point_dir then (AList.update intensity (point_dir, run_dir) sel, complete @ [intensity]) else (sel, complete))))"

definition select_run ::
  "(string \<Rightarrow> string list) \<Rightarrow> (string \<Rightarrow> bool) \<Rightarrow> string \<Rightarrow> selection \<times> json list \<Rightarrow> (selection \<times> json list) result" where
  "select_run names complete_at run_dir acc = (case acc of (sel, summaries) \<Rightarrow>
     r_bind (r_fold (select_point complete_at run_dir) (sort (names (sub_path run_dir ''points''))) (sel, [])) (\<lambda>(sel, complete).
     Inr (sel, summaries @ [JObj [(''run_dir'', JStr run_dir), (''complete_intensities'', JList (map JInt complete))]])))"

definition select_runs ::
  "(string \<Rightarrow> string list) \<Rightarrow> (string \<Rightarrow> bool) \<Rightarrow> string list \<Rightarrow> (selection \<times> json list) result" where
  "select_runs names complete_at run_dirs = r_fold (select_run names complete_at) run_dirs ([], [])"

section \<open>Rows of the merged run\<close>

definition SUMMARY_FIELDS :: "string list" where
  "SUMMARY_FIELDS = [''channel'', ''intensity'', ''scan_wavelength'', ''signal_fraction'', ''balance_error'', ''snr_estimate'',
     ''threshold_charge'', ''integrate_start'', ''integrate_stop'', ''peak_index'', ''onset_index'', ''output_dir'']"

definition point_row :: "string \<Rightarrow> string \<Rightarrow> int \<Rightarrow> json \<Rightarrow> json \<Rightarrow> jobject result" where
  "point_row point_dir scan_wavelength intensity analysis ch =
     r_bind (py_index analysis (py_str ch)) (\<lambda>ch_data.
     r_bind (py_index ch_data ''metrics'') (\<lambda>metrics.
     r_bind (py_get metrics ''signal_fraction'' JNull) (\<lambda>frac.
     r_bind (py_get metrics ''balance_error'' JNull) (\<lambda>err.
     r_bind (py_get metrics ''snr_estimate'' JNull) (\<lambda>snr.
     r_bind (py_get metrics ''threshold_charge'' JNull) (\<lambda>thr.
     r_bind (py_index ch_data ''integrate_start'') (\<lambda>i0.
     r_bind (py_index ch_data ''integrate_stop'') (\<lambda>i1.
     r_bind (py_index ch_data ''peak_index'') (\<lambda>peak.
     r_bind (py_index ch_data ''onset_index'') (\<lambda>onset.
     Inr [(''channel'', ch), (''intensity'', JInt intensity), (''scan_wavelength'', JStr scan_wavelength), (''signal_fraction'', frac),
       (''balance_error'', err), (''snr_estimate'', snr), (''threshold_charge'', thr), (''integrate_start'', i0), (''integrate_stop'', i1),
       (''peak_index'', peak), (''onset_index'', onset), (''output_dir'', JStr point_dir)]))))))))))"

definition build_point_rows :: "('s, 'f) mg_env \<Rightarrow> 's \<Rightarrow> string \<Rightarrow> json list \<Rightarrow> string \<Rightarrow> jobject list result" where
  "build_point_rows env s merged_points_dir chans scan_wavelength =
     r_fold (\<lambda>name prs.
       let point_dir = sub_path merged_points_dir name in
       if \<not> is_complete_point env s point_dir then Inr prs
       else
         r_bind (name_intensity name) (\<lambda>intensity.
         r_bind (r_bind (load_json env s (sub_path point_dir ''analysis.json'')) (\<lambda>doc. py_index doc ''analysis'')) (\<lambda>analysis.
         r_bind (r_map (point_row point_dir scan_wavelength intensity analysis) chans) (\<lambda>new.
         Inr (prs @ new))))) (sort (glob_points env s merged_points_dir)) []"

definition write_csv :: "('s, 'f) mg_env \<Rightarrow> string \<Rightarrow> jobject list \<Rightarrow> ('s, unit) py" where
  "write_csv env path prs = save_csv (mg_sc env) path SUMMARY_FIELDS (map JObj prs)"

section \<open>Merging\<close>

definition point_link :: "string \<Rightarrow> int \<Rightarrow> string" where
  "point_link points_dir intensity = sub_path points_dir (''intensity_'' @ fmt_04d intensity)"

definition link_points :: "('s, 'f) mg_env \<Rightarrow> string \<Rightarrow> selection \<Rightarrow> ('s, unit) py" where
  "link_points env points_dir sel =
     m_for (sort_key fst sel) (\<lambda>(intensity, source_point, run_dir). symlink env source_point (point_link points_dir intensity))"

definition merged_manifest :: "jobject \<Rightarrow> string \<Rightarrow> int list \<Rightarrow> string list \<Rightarrow> jobject" where
  "merged_manifest base created intensities run_dirs =
     AList.update ''merged_complete_intensities'' (JList (map JInt intensities))
       (AList.update ''merged_from_runs'' (JList (map JStr run_dirs))
         (AList.update ''created_utc'' (JStr created) (AList.update ''intensity_values'' (JList (map JInt intensities)) base)))"

definition merge_info :: "string \<Rightarrow> string \<Rightarrow> json list \<Rightarrow> selection \<Rightarrow> json" where
  "merge_info created output_dir summaries sel = JObj
     [(''created_utc'', JStr created), (''output_dir'', JStr output_dir), (''sources'', JList summaries),
      (''selected_sources'', JObj (map (\<lambda>(i, p, rd). (int_to_str i, JStr rd)) (sort_key fst sel)))]"

text \<open>The links to the read-back of the first run and to the last \<open>led_stop.log\<close>.\<close>

definition link_logs :: "('s, 'f) mg_env \<Rightarrow> string \<Rightarrow> string list \<Rightarrow> ('s, unit) py" where
  "link_logs env output_dir run_dirs =
     m_then (m_for [''fe_state_readback.json'', ''fe_state_readback.log''] (\<lambda>name.
        let src = sub_path (hd run_dirs) name in
        m_bind (m_get (\<lambda>s. has_path env s src)) (\<lambda>there. m_when there (symlink env src (sub_path output_dir name)))))
     (m_bind (m_get (\<lambda>s. List.find (\<lambda>rd. has_path env s (sub_path rd ''led_stop.log'')) (rev run_dirs))) (\<lambda>stop.
      case stop of None \<Rightarrow> m_ret () | Some rd \<Rightarrow> symlink env (sub_path rd ''led_stop.log'') (sub_path output_dir ''led_stop.log'')))"

definition write_rows :: "('s, 'f) mg_env \<Rightarrow> string \<Rightarrow> jobject list \<Rightarrow> ('s, unit) py" where
  "write_rows env output_dir prs =
     m_when (prs \<noteq> [])
       (m_then (write_csv env (sub_path output_dir ''summary_by_point.csv'') prs)
       (m_bind (m_lift (choose_best_by_channel (sc_np (mg_sc env)) (float_int (mg_sc env)) prs)) (\<lambda>best.
        write_csv env (sub_path output_dir ''best_by_channel.csv'') best)))"

definition merge_main :: "('s, 'f) mg_env \<Rightarrow> string \<Rightarrow> string list \<Rightarrow> ('s, int) py" where
  "merge_main env out_arg run_args =
     (let sc = mg_sc env; output_dir = resolve_path sc out_arg; run_dirs = map (resolve_path sc) run_args;
          points_dir = sub_path output_dir ''points'' in
      m_bind (m_get (\<lambda>s. r_map (\<lambda>rd. load_json env s (sub_path rd ''scan_manifest.json'')) run_dirs)) (\<lambda>r.
      m_bind (m_lift r) (\<lambda>manifests.
      m_then (m_lift (ensure_same_config (sc_np sc) manifests))
      (m_bind (m_get (\<lambda>s. has_path env s output_dir)) (\<lambda>taken.
       if taken then m_raise FileExistsError
       else
         m_then (mkdir sc output_dir) (m_then (mkdir sc points_dir)
         (m_bind (m_lift (case hd manifests of JObj kvs \<Rightarrow> Inr kvs | _ \<Rightarrow> Inl TypeError)) (\<lambda>base.
          m_bind (m_get (\<lambda>s. select_runs (glob_points env s) (is_complete_point env s) run_dirs)) (\<lambda>r.
          m_bind (m_lift r) (\<lambda>(sel, summaries).
          m_then (link_points env points_dir sel)
          (m_bind (utc_now_iso sc) (\<lambda>created.
           let manifest = merged_manifest base created (sort (map fst sel)) run_dirs in
           m_then (write_json sc (sub_path output_dir ''scan_manifest.json'') (JObj manifest))
          (m_bind (utc_now_iso sc) (\<lambda>created.
           m_then (write_json sc (sub_path output_dir ''merge_info.json'') (merge_info created output_dir summaries sel))
           (m_then (link_logs env output_dir run_dirs)
           (m_bind (m_lift (r_bind (py_index (JObj manifest) ''channels'') py_iter)) (\<lambda>chs.
            m_bind (m_lift (py_index (JObj manifest) ''scan_wavelength'')) (\<lambda>wl.
            m_bind (m_get (\<lambda>s. build_point_rows env s points_dir chs (py_str wl))) (\<lambda>rr.
            m_bind (m_lift rr) (\<lambda>prs.
            m_then (write_rows env output_dir prs)
           (m_then (mg_print env output_dir)
            (m_ret 0))))))))))))))))))))))"

section \<open>What is merged\<close>

text \<open>The complete points of the runs in the order in which they are visited; \<open>names\<close> and \<open>complete\<close> describe the
  points of a run.\<close>

definition run_points :: "(string \<Rightarrow> string list) \<Rightarrow> (string \<Rightarrow> string \<Rightarrow> bool) \<Rightarrow> string \<Rightarrow> (int \<times> string \<times> string) list" where
  "run_points names complete rd =
     concat (map (\<lambda>n. case name_intensity n of
         Inl e \<Rightarrow> []
       | Inr i \<Rightarrow> if complete rd n then [(i, sub_path (sub_path rd ''points'') n, rd)] else []) (sort (names rd)))"

definition visited :: "(string \<Rightarrow> string list) \<Rightarrow> (string \<Rightarrow> string \<Rightarrow> bool) \<Rightarrow> string list \<Rightarrow> (int \<times> string \<times> string) list" where
  "visited names complete run_dirs = concat (map (run_points names complete) run_dirs)"

definition put_all :: "(int \<times> string \<times> string) list \<Rightarrow> selection \<Rightarrow> selection" where
  "put_all kvs sel = fold (\<lambda>kv. AList.update (fst kv) (snd kv)) kvs sel"

lemma map_of_put_all: "map_of (put_all kvs sel) = map_of sel ++ map_of (rev kvs)"
  by (induction kvs arbitrary: sel) (auto simp: put_all_def update_conv' map_add_def fun_eq_iff split: option.splits)

lemma distinct_put_all: "distinct (map fst sel) \<Longrightarrow> distinct (map fst (put_all kvs sel))"
  by (induction kvs arbitrary: sel) (auto simp: put_all_def distinct_update)

lemma select_points_put:
  assumes "r_fold (select_point c rd) ns (sel, cs) = Inr (sel', cs')"
    and "\<And>n. n \<in> set ns \<Longrightarrow> c (sub_path (sub_path rd ''points'') n) = complete rd n"
  shows "sel' = put_all (concat (map (\<lambda>n. case name_intensity n of
         Inl e \<Rightarrow> []
       | Inr i \<Rightarrow> if complete rd n then [(i, sub_path (sub_path rd ''points'') n, rd)] else []) ns)) sel"
  using assms
proof (induction ns arbitrary: sel cs)
  case (Cons n ns)
  obtain i where i: "name_intensity n = Inr i" using Cons.prems(1) by (auto simp: select_point_def r_bind_ok)
  show ?case
  proof (cases "complete rd n")
    case True
    with Cons i show ?thesis by (auto simp: select_point_def put_all_def Let_def)
  next
    case False
    with Cons i show ?thesis by (auto simp: select_point_def put_all_def Let_def)
  qed
qed (simp add: put_all_def)

lemma select_runs_put:
  assumes "r_fold (select_run ns c) run_dirs (sel, ss) = Inr (sel', ss')"
    and "\<And>rd. rd \<in> set run_dirs \<Longrightarrow> ns (sub_path rd ''points'') = names rd"
    and "\<And>rd n. rd \<in> set run_dirs \<Longrightarrow> n \<in> set (names rd) \<Longrightarrow> c (sub_path (sub_path rd ''points'') n) = complete rd n"
  shows "sel' = put_all (visited names complete run_dirs) sel"
  using assms
proof (induction run_dirs arbitrary: sel ss)
  case (Cons rd rds)
  from Cons.prems(1,2) obtain sel1 cs1 ss1 where
    one: "r_fold (select_point c rd) (sort (names rd)) (sel, []) = Inr (sel1, cs1)" and
    rest: "r_fold (select_run ns c) rds (sel1, ss1) = Inr (sel', ss')"
    by (auto simp: select_run_def [where run_dir = rd] r_bind_ok)
  have "sel1 = put_all (run_points names complete rd) sel"
    unfolding run_points_def by (rule select_points_put [OF one]) (use Cons.prems(3) in simp)
  moreover have "sel' = put_all (visited names complete rds) sel1"
    using Cons.IH [OF rest] Cons.prems(2,3) by simp
  ultimately show ?case by (simp add: visited_def put_all_def)
qed (simp add: visited_def put_all_def)

text \<open>The links of the merged points: one per intensity, in increasing order, to the last point visited.\<close>

definition merged_links :: "string \<Rightarrow> (int \<times> string \<times> string) list \<Rightarrow> (string \<times> string) list" where
  "merged_links points_dir vis =
     map (\<lambda>i. (fst (the (map_of (rev vis) i)), point_link points_dir i)) (sort (remdups (map fst vis)))"

lemma sorted_selection:
  assumes "sel = put_all vis []"
  shows "map (\<lambda>(i, p, rd). (p, point_link points_dir i)) (sort_key fst sel) = merged_links points_dir vis"
proof -
  have d: "distinct (map fst sel)" and m: "map_of sel = map_of (rev vis)"
    by (simp_all add: assms distinct_put_all map_of_put_all)
  have "set (map fst sel) = set (map fst vis)"
    using m by (metis dom_map_of_conv_image_fst map_of_eq_dom set_map set_rev rev_map)
  then have "map fst (sort_key fst sel) = sort (remdups (map fst vis))"
    by (intro sorted_distinct_set_unique) (use d in \<open>auto simp: distinct_map\<close>)
  moreover have "map (\<lambda>(i, p, rd). (p, point_link points_dir i)) (sort_key fst sel) =
      map ((\<lambda>i. (fst (the (map_of (rev vis) i)), point_link points_dir i)) \<circ> fst) (sort_key fst sel)"
    using d by (auto simp: m [symmetric] map_of_is_SomeI)
  ultimately show ?thesis by (simp add: merged_links_def flip: map_map)
qed

section \<open>The links that are made\<close>

text \<open>The other links are those of three log files.\<close>

definition log_link :: "string \<Rightarrow> string \<times> string \<Rightarrow> bool" where
  "log_link output_dir l \<longleftrightarrow> snd l \<in> sub_path output_dir ` {''fe_state_readback.json'', ''fe_state_readback.log'', ''led_stop.log''}"

text \<open>A log of the symbolic links: only making a link adds to it.\<close>

locale link_log =
  fixes env :: "('s, 'f) mg_env" and links :: "'s \<Rightarrow> (string \<times> string) list"
  assumes l_link: "symlink env src dst s = (Inr x, t) \<Longrightarrow> links t = links s @ [(src, dst)]"
    and l_quiet: "links (snd (write_file (sc_rt (mg_sc env)) p txt s)) = links s" "links (snd (utc_now_iso (mg_sc env) s)) = links s"
      "links (snd (mkdir (mg_sc env) p s)) = links s" "links (snd (save_csv (mg_sc env) p ks js s)) = links s"
      "links (snd (mg_print env p s)) = links s"
begin

abbreviation P :: "((string \<times> string) list \<Rightarrow> bool) \<Rightarrow> ('s, 'a) py \<Rightarrow> ('a \<Rightarrow> (string \<times> string) list \<Rightarrow> bool) \<Rightarrow> bool" where
  "P \<equiv> ptriple links"

lemma quiet_p [pwp]:
  "P (\<lambda>g. Q () g) (write_file (sc_rt (mg_sc env)) p txt) Q" "P (\<lambda>g. \<forall>x. R x g) (utc_now_iso (mg_sc env)) R"
  "P (\<lambda>g. Q () g) (mkdir (mg_sc env) p) Q" "P (\<lambda>g. Q () g) (save_csv (mg_sc env) p ks js) Q" "P (\<lambda>g. Q () g) (mg_print env p) Q"
  unfolding ptriple_def using l_quiet by (metis old.unit.exhaust snd_conv)+

lemma link_p [pwp]: "P (\<lambda>g. Q () (g @ [(src, dst)])) (symlink env src dst) Q"
  unfolding ptriple_def using l_link by (metis old.unit.exhaust)

lemma get_p [pwp]: "P (\<lambda>g. \<forall>s. Q (f s) g) (m_get f) Q"
  by (auto simp: ptriple_def py_run)

lemma link_points_p [pwp]:
  "P (\<lambda>g. Q () (g @ map (\<lambda>(i, p, rd). (p, point_link d i)) (sort_key fst sel))) (link_points env d sel) Q"
proof -
  have "P (\<lambda>g. Q () (g @ map (\<lambda>(i, p, rd). (p, point_link d i)) xs))
      (m_for xs (\<lambda>(i, p, rd). symlink env p (point_link d i))) Q" for xs
  proof (induction xs)
    case Nil
    show ?case by (rule ptriple_weaken, simp, rule pwp) simp
  next
    case (Cons x xs)
    obtain i p rd where x: "x = (i, p, rd)" by (cases x)
    show ?case by (simp add: x) (rule ptriple_weaken, (rule ptriple_then Cons.IH link_p)+, simp)
  qed
  then show ?thesis by (simp add: link_points_def)
qed

lemma link_logs_p [pwp]: "P (\<lambda>g. \<forall>logs. list_all (log_link d) logs \<longrightarrow> Q () (g @ logs)) (link_logs env d rds) Q"
  unfolding link_logs_def Let_def m_for.simps
  by (rule ptriple_weaken, (rule ptriple_option pwp)+) (auto simp: log_link_def split: option.split dest: spec [of _ "[]"])

lemma merge_main_p:
  assumes "\<And>u rd. rd \<in> set run_dirs \<Longrightarrow> glob_points env u (sub_path rd ''points'') = names rd"
    and "\<And>u rd n. rd \<in> set run_dirs \<Longrightarrow> n \<in> set (names rd) \<Longrightarrow> is_complete_point env u (sub_path (sub_path rd ''points'') n) = complete rd n"
    and "run_dirs = map (resolve_path (mg_sc env)) run_args" "d = resolve_path (mg_sc env) out_arg"
  shows "P (\<lambda>g. g = g0) (merge_main env out_arg run_args) (\<lambda>rc g. \<exists>logs. list_all (log_link d) logs \<and>
      g = g0 @ merged_links (sub_path d ''points'') (visited names complete run_dirs) @ logs)"
proof -
  have sel: "map (\<lambda>(i, p, rd). (p, point_link (sub_path d ''points'') i)) (sort_key fst sel) =
      merged_links (sub_path d ''points'') (visited names complete run_dirs)"
    if "select_runs (glob_points env u) (is_complete_point env u) run_dirs = Inr (sel, ss)" for u sel ss
    by (rule sorted_selection, rule select_runs_put [OF that [unfolded select_runs_def]]) (use assms(1,2) in auto)
  show ?thesis
    unfolding merge_main_def write_json_def write_rows_def write_csv_def Let_def assms(3,4) [symmetric]
    by (rule ptriple_weaken, (rule pwp)+) (auto simp: sel)
qed

end

text \<open>Which point is linked when several runs have a complete one: that of the last run named. The help text of the command calls
  the order of the runs a preference order without saying which end is preferred.\<close>

lemma merge_links_last:
  assumes "link_log env links"
    and "\<And>u rd. rd \<in> set run_dirs \<Longrightarrow> glob_points env u (sub_path rd ''points'') = names rd"
    and "\<And>u rd n. rd \<in> set run_dirs \<Longrightarrow> n \<in> set (names rd) \<Longrightarrow> is_complete_point env u (sub_path (sub_path rd ''points'') n) = complete rd n"
    and "run_dirs = map (resolve_path (mg_sc env)) run_args" "d = resolve_path (mg_sc env) out_arg"
    and "merge_main env out_arg run_args s = (Inr rc, t)"
  shows "\<exists>logs. list_all (log_link d) logs \<and>
    links t = links s @ merged_links (sub_path d ''points'') (visited names complete run_dirs) @ logs"
proof -
  note p = link_log.merge_main_p [OF assms(1) _ _ assms(4,5), of names complete "links s"]
  have "ptriple links (\<lambda>g. g = links s) (merge_main env out_arg run_args) (\<lambda>rc g. \<exists>logs. list_all (log_link d) logs \<and>
      g = links s @ merged_links (sub_path d ''points'') (visited names complete run_dirs) @ logs)"
    by (rule p) (use assms(2,3) in auto)
  from ptripleD [OF this refl assms(6)] show ?thesis .
qed

lemma visited_iff:
  "(i, p, rd) \<in> set (visited names complete run_dirs) \<longleftrightarrow> rd \<in> set run_dirs \<and>
     (\<exists>n \<in> set (names rd). name_intensity n = Inr i \<and> complete rd n \<and> p = sub_path (sub_path rd ''points'') n)"
proof
  assume "(i, p, rd) \<in> set (visited names complete run_dirs)"
  then show "rd \<in> set run_dirs \<and>
     (\<exists>n \<in> set (names rd). name_intensity n = Inr i \<and> complete rd n \<and> p = sub_path (sub_path rd ''points'') n)"
    by (auto simp: visited_def run_points_def split: sum.splits if_splits)
next
  assume r: "rd \<in> set run_dirs \<and>
     (\<exists>n \<in> set (names rd). name_intensity n = Inr i \<and> complete rd n \<and> p = sub_path (sub_path rd ''points'') n)"
  then have "(i, p, rd) \<in> set (run_points names complete rd)"
    by (auto simp: run_points_def intro!: rev_bexI)
  with r show "(i, p, rd) \<in> set (visited names complete run_dirs)" by (auto simp: visited_def)
qed

lemma merged_links_points:
  "\<exists>pts. merged_links d vis = map (\<lambda>(i, p). (p, point_link d i)) pts \<and> sorted (map fst pts) \<and> distinct (map fst pts)
     \<and> fst ` set pts = fst ` set vis \<and> (\<forall>(i, p) \<in> set pts. \<exists>rd. (i, p, rd) \<in> set vis)"
proof -
  define pts where "pts = map (\<lambda>i. (i, fst (the (map_of (rev vis) i)))) (sort (remdups (map fst vis)))"
  have fsts: "map fst pts = sort (remdups (map fst vis))" by (simp add: pts_def comp_def)
  have "\<exists>rd. (i, p, rd) \<in> set vis" if "(i, p) \<in> set pts" for i p
  proof -
    have "i \<in> fst ` set (rev vis)" "p = fst (the (map_of (rev vis) i))" using that by (auto simp: pts_def)
    then obtain y where "map_of (rev vis) i = Some y" "p = fst y" by (metis domD dom_map_of_conv_image_fst option.sel)
    then show ?thesis using map_of_SomeD [of "rev vis" i y] by (cases y) auto
  qed
  moreover have "fst ` set pts = fst ` set vis" using arg_cong [OF fsts, of set] by simp
  moreover have "merged_links d vis = map (\<lambda>(i, p). (p, point_link d i)) pts"
    by (simp add: merged_links_def pts_def comp_def)
  moreover have "sorted (map fst pts)" "distinct (map fst pts)" unfolding fsts by simp_all
  ultimately show ?thesis by blast
qed

text \<open>C33: A merge that returns has linked, for every intensity that has a complete point in some source run and for no other, exactly
  one point, in increasing order of the intensities; each link leads to a complete point of that intensity in one of the source runs (so
  to the point of the only run that has one, when there is only one). Besides these it makes only the links of the three log files.\<close>

theorem merge_links_complete:
  assumes "link_log env links"
    and "\<And>u rd. rd \<in> set run_dirs \<Longrightarrow> glob_points env u (sub_path rd ''points'') = names rd"
    and "\<And>u rd n. rd \<in> set run_dirs \<Longrightarrow> n \<in> set (names rd) \<Longrightarrow> is_complete_point env u (sub_path (sub_path rd ''points'') n) = complete rd n"
    and "run_dirs = map (resolve_path (mg_sc env)) run_args" "d = resolve_path (mg_sc env) out_arg"
    and "merge_main env out_arg run_args s = (Inr rc, t)"
  shows "\<exists>pts logs. links t = links s @ map (\<lambda>(i, p). (p, point_link (sub_path d ''points'') i)) pts @ logs \<and> list_all (log_link d) logs
    \<and> sorted (map fst pts) \<and> distinct (map fst pts)
    \<and> (\<forall>i. i \<in> fst ` set pts \<longleftrightarrow> (\<exists>rd \<in> set run_dirs. \<exists>n \<in> set (names rd). name_intensity n = Inr i \<and> complete rd n))
    \<and> (\<forall>(i, p) \<in> set pts. \<exists>rd \<in> set run_dirs. \<exists>n \<in> set (names rd).
          name_intensity n = Inr i \<and> complete rd n \<and> p = sub_path (sub_path rd ''points'') n)"
proof -
  let ?vis = "visited names complete run_dirs"
  obtain logs where l: "list_all (log_link d) logs" "links t = links s @ merged_links (sub_path d ''points'') ?vis @ logs"
    using merge_links_last [OF assms(1) _ _ assms(4-6), of names complete] assms(2,3) by blast
  obtain pts where p: "merged_links (sub_path d ''points'') ?vis = map (\<lambda>(i, p). (p, point_link (sub_path d ''points'') i)) pts"
      "sorted (map fst pts)" "distinct (map fst pts)" "fst ` set pts = fst ` set ?vis"
      "\<forall>(i, p) \<in> set pts. \<exists>rd. (i, p, rd) \<in> set ?vis"
    using merged_links_points by blast
  have "i \<in> fst ` set ?vis \<longleftrightarrow> (\<exists>rd \<in> set run_dirs. \<exists>n \<in> set (names rd). name_intensity n = Inr i \<and> complete rd n)" for i
    by (auto simp: image_iff Bex_def visited_iff split_paired_Ex)
  then show ?thesis
    using l p by (intro exI [of _ pts] exI [of _ logs]) (fastforce simp: visited_iff)
qed

text \<open>Two runs with the point 50 in both and the point 100 in the second.\<close>

definition two_runs :: "string \<Rightarrow> string list" where
  "two_runs rd = (if rd = ''a'' then [''intensity_0050''] else if rd = ''b'' then [''intensity_0100'', ''intensity_0050''] else [])"

definition ref_mg :: "((string \<times> string) list, int) mg_env" where
  "ref_mg = \<lparr>mg_sc = \<lparr>
     sc_rt = \<lparr>run_prog = (\<lambda>cmd. m_ret (0, [], [])), write_file = (\<lambda>p t. m_ret ()),
       loads = (\<lambda>t. Some (JObj [(''channels'', JList [JInt 4]), (''scan_wavelength'', JStr ''270'')])), dumps = (\<lambda>v. []),
       exc_str = (\<lambda>e. []), expanduser = (\<lambda>p. p), client_dir = ''client'', daphne_root = ''.''\<rparr>,
     sc_np = int_np, sc_python = ''python3'', utc_now_iso = m_ret ''now'', mkdir = (\<lambda>p. m_ret ()), sleep_s = (\<lambda>d. m_ret ()),
     read_dat = (\<lambda>s p. Inr []), read_text = (\<lambda>s p. Inr []), float_int = (\<lambda>r. Inl (ValueError r)),
     save_csv = (\<lambda>p ks js. m_ret ()), save_plot = (\<lambda>p. m_ret ()), print_err = (\<lambda>l. m_ret ()), resolve_path = (\<lambda>p. p)\<rparr>,
     has_path = (\<lambda>s p. p \<noteq> ''out''), glob_points = (\<lambda>s p. if p = ''a/points'' then two_runs ''a'' else if p = ''b/points'' then two_runs ''b'' else []),
     symlink = (\<lambda>src dst. m_modify (\<lambda>l. l @ [(src, dst)])), mg_print = (\<lambda>l. m_ret ())\<rparr>"

interpretation ref_links: link_log ref_mg "\<lambda>s. s"
  by unfold_locales (auto simp: ref_mg_def py_run)

lemma two_runs_merged:
  "merged_links ''out/points'' (visited two_runs (\<lambda>rd n. True) [''a'', ''b'']) =
     [(''b/points/intensity_0050'', ''out/points/intensity_0050''), (''b/points/intensity_0100'', ''out/points/intensity_0100'')]"
  by code_simp

theorem merge_links_complete_witness:
  "\<exists>pts logs t. merge_main ref_mg ''out'' [''a'', ''b''] [] = (Inr 0, t) \<and> t = map (\<lambda>(i, p). (p, point_link ''out/points'' i)) pts @ logs
    \<and> sorted (map fst pts) \<and> 100 \<in> fst ` set pts"
proof -
  have "fst (merge_main ref_mg ''out'' [''a'', ''b''] []) = Inr 0" by code_simp
  then obtain t where t: "merge_main ref_mg ''out'' [''a'', ''b''] [] = (Inr 0, t)" by (metis prod.collapse)
  have env: "resolve_path (mg_sc ref_mg) p = p" "has_path ref_mg u p = (p \<noteq> ''out'')" for p u by (simp_all add: ref_mg_def)
  have "\<exists>pts logs. t = [] @ map (\<lambda>(i, p). (p, point_link (sub_path ''out'' ''points'') i)) pts @ logs \<and> list_all (log_link ''out'') logs
    \<and> sorted (map fst pts) \<and> distinct (map fst pts)
    \<and> (\<forall>i. i \<in> fst ` set pts \<longleftrightarrow> (\<exists>rd \<in> set [''a'', ''b'']. \<exists>n \<in> set (two_runs rd). name_intensity n = Inr i \<and> True))
    \<and> (\<forall>(i, p) \<in> set pts. \<exists>rd \<in> set [''a'', ''b'']. \<exists>n \<in> set (two_runs rd).
          name_intensity n = Inr i \<and> True \<and> p = sub_path (sub_path rd ''points'') n)"
    by (rule merge_links_complete [OF ref_links.link_log_axioms _ _ _ _ t])
      (auto simp: env is_complete_point_def sub_path_def ref_mg_def)
  then obtain pts logs where p: "t = map (\<lambda>(i, p). (p, point_link (sub_path ''out'' ''points'') i)) pts @ logs" "sorted (map fst pts)"
      "\<And>i. i \<in> fst ` set pts \<longleftrightarrow> (\<exists>rd \<in> set [''a'', ''b'']. \<exists>n \<in> set (two_runs rd). name_intensity n = Inr i)"
    by (elim exE conjE) simp
  have n: "name_intensity ''intensity_0100'' = Inr 100" by code_simp
  have "100 \<in> fst ` set pts" unfolding p(3) using n by (intro bexI [of _ "''b''"] bexI [of _ "''intensity_0100''"]) (auto simp: two_runs_def)
  moreover have "sub_path ''out'' ''points'' = ''out/points''" by (simp add: sub_path_def)
  ultimately show ?thesis using t p(1,2) by auto
qed

end
