(* ===== verification/Smoketest.thy ===== *)
theory Smoketest
  imports Fe_State Pds_Config
begin

text \<open>
  \<open>client/protobuf_full_smoketest_v2.py\<close>: it exercises all handlers of the server. Reads run by default; with
  \<open>--do-writes\<close> the values that were read are written back, and single options enable intrusive commands.

  A request is a value of the datatype \<open>sm_req\<close>, one constructor per message the script builds, and a response the
  record of the fields the script looks at. The dictionaries of \<open>main\<close> are the record \<open>sm_vals\<close>, and its list
  of failures is passed from step to step. \<open>json.load\<close>, \<open>uuid4\<close>, \<open>poll\<close> and the protobuf run time are parameters.
  A message object is always true in a condition.
\<close>

section \<open>Requests and responses\<close>

datatype sm_req =
    TestReg | GeneralInfo | TriggerCounters "int list" | CurrentMonitor int
  | TrimAllCh | OffsetAllCh | TrimAllAfe int | OffsetAllAfe int | TrimCh int | OffsetCh int
  | VbiasControl | AfeReg int int | AfeVgain int | AfeBias int | BiasMonitor int
  | WriteTrimCh int int bool | WriteOffsetCh int int bool | WriteVgain int int | WriteBias int int | WriteReg int int int
  | WriteTrimAllCh int bool | WriteOffsetAllCh int bool | WriteTrimAllAfe int int bool | WriteOffsetAllAfe int int bool
  | WriteAttenuation int int | WriteVbiasControl int bool
  | ConfigureClks int bool bool bool | ConfigureFe ConfigureRequest | AlignAfe | SetAfeReset bool | DoAfeReset
  | SetAfePowerstate bool | SoftwareTrigger | DumpSpybuffer "int list" int int bool
  | DumpSpybufferChunk "int list" int int bool string int

fun sm_type :: "sm_req \<Rightarrow> int" where
  "sm_type TestReg = 304" | "sm_type GeneralInfo = 322" | "sm_type (TriggerCounters chs) = 320" | "sm_type (CurrentMonitor ch) = 244"
| "sm_type TrimAllCh = 230" | "sm_type OffsetAllCh = 236" | "sm_type (TrimAllAfe a) = 232" | "sm_type (OffsetAllAfe a) = 238"
| "sm_type (TrimCh ch) = 234" | "sm_type (OffsetCh ch) = 240" | "sm_type VbiasControl = 242" | "sm_type (AfeReg a r) = 224"
| "sm_type (AfeVgain a) = 226" | "sm_type (AfeBias a) = 228" | "sm_type (BiasMonitor a) = 246"
| "sm_type (WriteTrimCh ch v g) = 214" | "sm_type (WriteOffsetCh ch v g) = 220" | "sm_type (WriteVgain a v) = 206"
| "sm_type (WriteBias a v) = 208" | "sm_type (WriteReg a r v) = 204" | "sm_type (WriteTrimAllCh v g) = 210"
| "sm_type (WriteOffsetAllCh v g) = 216" | "sm_type (WriteTrimAllAfe a v g) = 212" | "sm_type (WriteOffsetAllAfe a v g) = 218"
| "sm_type (WriteAttenuation a v) = 254" | "sm_type (WriteVbiasControl v e) = 222"
| "sm_type (ConfigureClks i a b c) = 200" | "sm_type (ConfigureFe cfg) = 202" | "sm_type AlignAfe = 258" | "sm_type (SetAfeReset b) = 248"
| "sm_type DoAfeReset = 250" | "sm_type (SetAfePowerstate b) = 252" | "sm_type SoftwareTrigger = 262"
| "sm_type (DumpSpybuffer chs w n t) = 256" | "sm_type (DumpSpybufferChunk chs w n t i c) = 300"

definition hex_up :: "int \<Rightarrow> string" where
  "hex_up n = (if n < 0 then ''-'' @ upper_hex (fmt_hex 1 (- n)) else upper_hex (fmt_hex 1 n))"

definition at_index :: "string \<Rightarrow> int \<Rightarrow> string" where
  "at_index name i = name @ ''['' @ int_to_str i @ '']''"

fun sm_label :: "sm_req \<Rightarrow> string" where
  "sm_label TestReg = ''READ_TEST_REG''" | "sm_label GeneralInfo = ''READ_GENERAL_INFO''"
| "sm_label (TriggerCounters chs) = ''READ_TRIGGER_COUNTERS''" | "sm_label (CurrentMonitor ch) = ''READ_CURRENT_MONITOR''"
| "sm_label TrimAllCh = ''READ_TRIM_ALL_CH''" | "sm_label OffsetAllCh = ''READ_OFFSET_ALL_CH''"
| "sm_label (TrimAllAfe a) = at_index ''READ_TRIM_ALL_AFE'' a" | "sm_label (OffsetAllAfe a) = at_index ''READ_OFFSET_ALL_AFE'' a"
| "sm_label (TrimCh ch) = at_index ''READ_TRIM_CH'' ch" | "sm_label (OffsetCh ch) = at_index ''READ_OFFSET_CH'' ch"
| "sm_label VbiasControl = ''READ_VBIAS_CONTROL''"
| "sm_label (AfeReg a r) = ''READ_AFE_REG['' @ int_to_str a @ '',0x'' @ hex_up r @ '']''"
| "sm_label (AfeVgain a) = at_index ''READ_AFE_VGAIN'' a" | "sm_label (AfeBias a) = at_index ''READ_AFE_BIAS_SET'' a"
| "sm_label (BiasMonitor a) = at_index ''READ_BIAS_VOLTAGE_MONITOR'' a"
| "sm_label (WriteTrimCh ch v g) = at_index ''WRITE_TRIM_CH'' ch" | "sm_label (WriteOffsetCh ch v g) = at_index ''WRITE_OFFSET_CH'' ch"
| "sm_label (WriteVgain a v) = at_index ''WRITE_AFE_VGAIN'' a" | "sm_label (WriteBias a v) = at_index ''WRITE_AFE_BIAS_SET'' a"
| "sm_label (WriteReg a r v) = ''WRITE_AFE_REG['' @ int_to_str a @ '',0x'' @ hex_up r @ '']''"
| "sm_label (WriteTrimAllCh v g) = ''WRITE_TRIM_ALL_CH''" | "sm_label (WriteOffsetAllCh v g) = ''WRITE_OFFSET_ALL_CH''"
| "sm_label (WriteTrimAllAfe a v g) = at_index ''WRITE_TRIM_ALL_AFE'' a" | "sm_label (WriteOffsetAllAfe a v g) = at_index ''WRITE_OFFSET_ALL_AFE'' a"
| "sm_label (WriteAttenuation a v) = at_index ''WRITE_AFE_ATTENUATION'' a" | "sm_label (WriteVbiasControl v e) = ''WRITE_VBIAS_CONTROL''"
| "sm_label (ConfigureClks i a b c) = ''CONFIGURE_CLKS''" | "sm_label (ConfigureFe cfg) = ''CONFIGURE_FE''" | "sm_label AlignAfe = ''ALIGN_AFE''"
| "sm_label (SetAfeReset b) = ''SET_AFE_RESET''" | "sm_label DoAfeReset = ''DO_AFE_RESET''" | "sm_label (SetAfePowerstate b) = ''SET_AFE_POWERSTATE''"
| "sm_label SoftwareTrigger = ''DO_SOFTWARE_TRIGGER''" | "sm_label (DumpSpybuffer chs w n t) = ''DUMP_SPYBUFFER''"
| "sm_label (DumpSpybufferChunk chs w n t i c) = ''DUMP_SPYBUFFER_CHUNK''"

text \<open>The constructors of the messages check their unsigned fields.\<close>

definition all_uint :: "int list \<Rightarrow> 'a \<Rightarrow> 'a result" where
  "all_uint vs x = r_bind (r_map (uint_field 32) vs) (\<lambda>_. Inr x)"

fun sm_check :: "sm_req \<Rightarrow> sm_req result" where
  "sm_check (TriggerCounters chs) = all_uint chs (TriggerCounters chs)"
| "sm_check (CurrentMonitor ch) = all_uint [ch] (CurrentMonitor ch)"
| "sm_check (TrimAllAfe a) = all_uint [a] (TrimAllAfe a)" | "sm_check (OffsetAllAfe a) = all_uint [a] (OffsetAllAfe a)"
| "sm_check (TrimCh ch) = all_uint [ch] (TrimCh ch)" | "sm_check (OffsetCh ch) = all_uint [ch] (OffsetCh ch)"
| "sm_check (AfeReg a r) = all_uint [a, r] (AfeReg a r)" | "sm_check (AfeVgain a) = all_uint [a] (AfeVgain a)"
| "sm_check (AfeBias a) = all_uint [a] (AfeBias a)" | "sm_check (BiasMonitor a) = all_uint [a] (BiasMonitor a)"
| "sm_check (WriteTrimCh ch v g) = all_uint [ch, v] (WriteTrimCh ch v g)" | "sm_check (WriteOffsetCh ch v g) = all_uint [ch, v] (WriteOffsetCh ch v g)"
| "sm_check (WriteVgain a v) = all_uint [a, v] (WriteVgain a v)" | "sm_check (WriteBias a v) = all_uint [a, v] (WriteBias a v)"
| "sm_check (WriteReg a r v) = all_uint [a, r, v] (WriteReg a r v)"
| "sm_check (WriteTrimAllCh v g) = all_uint [v] (WriteTrimAllCh v g)" | "sm_check (WriteOffsetAllCh v g) = all_uint [v] (WriteOffsetAllCh v g)"
| "sm_check (WriteTrimAllAfe a v g) = all_uint [a, v] (WriteTrimAllAfe a v g)"
| "sm_check (WriteOffsetAllAfe a v g) = all_uint [a, v] (WriteOffsetAllAfe a v g)"
| "sm_check (WriteAttenuation a v) = all_uint [a, v] (WriteAttenuation a v)" | "sm_check (WriteVbiasControl v e) = all_uint [v] (WriteVbiasControl v e)"
| "sm_check (ConfigureClks i a b c) = all_uint [i] (ConfigureClks i a b c)"
| "sm_check (DumpSpybuffer chs w n t) = all_uint (chs @ [w, n]) (DumpSpybuffer chs w n t)"
| "sm_check (DumpSpybufferChunk chs w n t i c) = all_uint (chs @ [w, n, c]) (DumpSpybufferChunk chs w n t i c)"
| "sm_check r = Inr r"

text \<open>The fields of the responses: the value field, the repeated field, the numbers of waveforms and samples, the
  Boolean field, and the voltages and the temperature. A message without a field \<open>success\<close> has \<open>None\<close> there.\<close>

record 'f sm_resp =
  rs_success :: "bool option"
  rs_message :: string
  rs_value :: int
  rs_values :: "int list"
  rs_waveforms :: int
  rs_samples :: int
  rs_flag :: bool
  rs_v_bias_0 :: 'f
  rs_v_bias_1 :: 'f
  rs_temperature :: 'f

definition value_extra :: "int \<Rightarrow> string" where
  "value_extra v = ''value='' @ int_to_str v"

definition count_extra :: "int list \<Rightarrow> string" where
  "count_extra vs = ''n='' @ int_to_str (int (length vs))"

fun sm_extra :: "'f float_ops \<Rightarrow> sm_req \<Rightarrow> 'f sm_resp \<Rightarrow> string" where
  "sm_extra F TestReg r = ''value=0x'' @ upper_hex (fmt_hex 8 (rs_value r))"
| "sm_extra F GeneralInfo r = ''vbias0='' @ f_fix F 3 (rs_v_bias_0 r) @ '' vbias1='' @ f_fix F 3 (rs_v_bias_1 r) @ '' temp='' @ f_fix F 2 (rs_temperature r)"
| "sm_extra F (TriggerCounters chs) r = ''channels='' @ int_to_str (int (length (rs_values r)))"
| "sm_extra F (CurrentMonitor ch) r = ''ch='' @ int_to_str (rs_value r)"
| "sm_extra F TrimAllCh r = count_extra (rs_values r)" | "sm_extra F OffsetAllCh r = count_extra (rs_values r)"
| "sm_extra F (TrimAllAfe a) r = count_extra (rs_values r)" | "sm_extra F (OffsetAllAfe a) r = count_extra (rs_values r)"
| "sm_extra F (AfeReg a g) r = ''value=0x'' @ hex_up (rs_value r)" | "sm_extra F (WriteReg a g v) r = ''value=0x'' @ hex_up (rs_value r)"
| "sm_extra F (ConfigureClks i a b c) r = ''''" | "sm_extra F (ConfigureFe cfg) r = ''''" | "sm_extra F AlignAfe r = ''''"
| "sm_extra F DoAfeReset r = ''''" | "sm_extra F SoftwareTrigger r = ''''"
| "sm_extra F (SetAfeReset b) r = ''value='' @ bool_str (rs_flag r)" | "sm_extra F (SetAfePowerstate b) r = ''value='' @ bool_str (rs_flag r)"
| "sm_extra F (DumpSpybuffer chs w n t) r = ''wf='' @ int_to_str (rs_waveforms r) @ '' samples='' @ int_to_str (rs_samples r)"
| "sm_extra F (DumpSpybufferChunk chs w n t i c) r = ''wf='' @ int_to_str (rs_waveforms r) @ '' samples='' @ int_to_str (rs_samples r)"
| "sm_extra F _ r = value_extra (rs_value r)"

section \<open>One exchange\<close>

record ('s, 'w, 'p, 'f) sm_env =
  sm_sock :: "('s, 'w) zsock"
  sm_poll :: "int \<Rightarrow> ('s, bool) py"
  sm_envc :: "('w, 'p ControlEnvelopeV2) codec"
  ser_sm :: "sm_req \<Rightarrow> 'p"
  respc_sm :: "sm_req \<Rightarrow> ('p, 'f sm_resp) codec"
  sm_print :: "string \<Rightarrow> ('s, unit) py"
  sm_floats :: "'f float_ops"
  sm_exc :: "exn \<Rightarrow> string"
  sm_uuid :: "('s, string) py"
  sm_json :: "'s \<Rightarrow> string \<Rightarrow> json result"
  sm_trunc :: "string \<Rightarrow> int result"

definition sm_exchange :: "('s, 'w, 'p, 'f) sm_env \<Rightarrow> 'w \<Rightarrow> int \<Rightarrow> ('s, 'w list) py" where
  "sm_exchange env frame timeout_ms =
     m_then (z_send (sm_sock env) frame)
     (m_bind (sm_poll env timeout_ms) (\<lambda>ready.
      if ready then z_recv (sm_sock env) else m_raise (TimeoutError ''Timeout waiting for response'')))"

definition sm_accept :: "int \<Rightarrow> 'p ControlEnvelopeV2 \<times> nat \<Rightarrow> 'p ControlEnvelopeV2 result" where
  "sm_accept mid reply = (case reply of (rep, n) \<Rightarrow>
     if n = 0 then Inl (RuntimeError ''Failed to parse ControlEnvelopeV2 reply'')
     else if dir rep \<noteq> DIR_RESPONSE then Inl (RuntimeError ''Unexpected dir'')
     else if correl_id rep \<noteq> 0 \<and> correl_id rep \<noteq> mid then Inl (RuntimeError ''Correlation mismatch'')
     else Inr rep)"

definition sm_rpc :: "('s, 'w, 'p, 'f) sm_env \<Rightarrow> sm_req \<Rightarrow> string \<Rightarrow> int \<Rightarrow> ('s, 'p ControlEnvelopeV2) py" where
  "sm_rpc env req rt timeout_ms =
     m_bind (next_ids (sm_sock env)) (\<lambda>ids.
     m_bind (time_ns (sm_sock env)) (\<lambda>ts.
     m_bind (sm_exchange env (ser (sm_envc env) (request_envelope (sm_type req) (ser_sm env req) rt ids ts)) timeout_ms) (\<lambda>frames.
     m_bind (m_lift (ParseFromString (sm_envc env) (last frames))) (\<lambda>reply.
     m_lift (sm_accept (snd ids) reply)))))"

definition print_status :: "('s, 'w, 'p, 'f) sm_env \<Rightarrow> sm_req \<Rightarrow> 'f sm_resp \<Rightarrow> ('s, unit) py" where
  "print_status env req resp =
     (let status = (if rs_success resp = Some False then ''FAIL'' else ''OK'');
          msg = py_strip (rs_message resp); extra = sm_extra (sm_floats env) req resp;
          suffix = (if msg \<noteq> [] then '' :: '' @ msg else []) in
      sm_print env (''['' @ status @ ''] '' @ sm_label req @ (if extra \<noteq> [] then py_strip (suffix @ '' '' @ extra) else suffix)))"

definition parse_resp :: "('s, 'w, 'p, 'f) sm_env \<Rightarrow> sm_req \<Rightarrow> 'p ControlEnvelopeV2 \<Rightarrow> ('s, 'f sm_resp) py" where
  "parse_resp env req rep =
     m_bind (m_lift (ParseFromString (respc_sm env req) (payload rep))) (\<lambda>(resp, n).
     m_then (print_status env req resp) (m_ret resp))"

text \<open>The body of the functions \<open>do_*\<close>, \<open>read_*\<close> and \<open>write_*\<close>.\<close>

definition perform :: "('s, 'w, 'p, 'f) sm_env \<Rightarrow> string \<Rightarrow> int \<Rightarrow> sm_req \<Rightarrow> ('s, 'f sm_resp) py" where
  "perform env rt timeout_ms req =
     m_bind (m_lift (sm_check req)) (\<lambda>req.
     m_bind (sm_rpc env req rt timeout_ms) (\<lambda>rep.
     if etype rep \<noteq> sm_type req + 1 then m_raise (RuntimeError ''type mismatch'')
     else parse_resp env req rep))"

definition run_step :: "('s, 'w, 'p, 'f) sm_env \<Rightarrow> string \<Rightarrow> ('s, 'a) py \<Rightarrow> string list \<Rightarrow> ('s, 'a option \<times> string list) py" where
  "run_step env label fn failures =
     m_except (m_bind fn (\<lambda>r. m_ret (Some r, failures)))
       (\<lambda>exc. m_then (sm_print env (''[FAIL] '' @ label @ '': '' @ sm_exc env exc))
          (m_ret (None, failures @ [label @ '': '' @ sm_exc env exc])))"

section \<open>Arguments\<close>

definition int0_of :: "string \<Rightarrow> int result" where
  "int0_of t = r_of_option (ValueError ''invalid literal for int()'') (py_int0 t)"

definition parse_int_tokens :: "string list \<Rightarrow> int list result" where
  "parse_int_tokens tokens =
     r_map int0_of (filter (\<lambda>p. p \<noteq> []) (map py_strip (concat (map (split_on CHR '','') tokens))))"

definition parse_kv_list :: "string list \<Rightarrow> (int \<times> int) list result" where
  "parse_kv_list items =
     r_fold (\<lambda>item out. case split_once CHR '':'' item of
         None \<Rightarrow> Inl (ValueError ''Expected AFE:VALUE'')
       | Some (afe_str, val_str) \<Rightarrow>
           r_bind (int0_of val_str) (\<lambda>v. r_bind (int0_of afe_str) (\<lambda>a. Inr (AList.update a v out)))) items []"

record sm_args =
  sm_route :: string
  sm_timeout_ms :: int
  sm_channels :: "string list"
  sm_counter_channels :: "string list"
  sm_afes :: "string list"
  sm_afe_count :: int
  sm_skip_bias_monitor :: bool
  sm_current_monitor_channel :: int
  sm_afe_reg :: "(string \<times> string) list"
  sm_do_writes :: bool
  sm_force_trim_all :: "int option"
  sm_force_offset_all :: "int option"
  sm_force_trim_afe :: "string list"
  sm_force_offset_afe :: "string list"
  sm_attenuation :: "int option"
  sm_vbias_control :: "int option"
  sm_vbias_enable :: bool
  sm_configure_json :: string
  sm_configure_clks :: bool
  sm_clks_id :: int
  sm_ctrl_ep_clk :: bool
  sm_reset_mmcm1 :: bool
  sm_reset_endpoint :: bool
  sm_align_afes :: bool
  sm_set_afe_reset :: "bool option"
  sm_do_afe_reset :: bool
  sm_set_afe_powerstate :: "bool option"
  sm_do_software_trigger :: bool
  sm_spybuffer :: bool
  sm_spybuffer_waveforms :: int
  sm_spybuffer_samples :: int
  sm_spybuffer_software_trigger :: bool

definition sm_defaults :: sm_args where
  "sm_defaults = \<lparr>sm_route = ''mezz/0'', sm_timeout_ms = 5000, sm_channels = [''0''], sm_counter_channels = [], sm_afes = [], sm_afe_count = 5,
     sm_skip_bias_monitor = False, sm_current_monitor_channel = 0, sm_afe_reg = [], sm_do_writes = False, sm_force_trim_all = None,
     sm_force_offset_all = None, sm_force_trim_afe = [], sm_force_offset_afe = [], sm_attenuation = None, sm_vbias_control = None,
     sm_vbias_enable = False, sm_configure_json = [], sm_configure_clks = False, sm_clks_id = 0, sm_ctrl_ep_clk = False, sm_reset_mmcm1 = False,
     sm_reset_endpoint = False, sm_align_afes = False, sm_set_afe_reset = None, sm_do_afe_reset = False, sm_set_afe_powerstate = None,
     sm_do_software_trigger = False, sm_spybuffer = False, sm_spybuffer_waveforms = 1, sm_spybuffer_samples = 32,
     sm_spybuffer_software_trigger = False\<rparr>"

section \<open>Reading\<close>

record sm_vals =
  vl_trim_single :: "(int \<times> int) list"
  vl_offset_single :: "(int \<times> int) list"
  vl_trim_all_afe :: "(int \<times> int list) list"
  vl_offset_all_afe :: "(int \<times> int list) list"
  vl_afe_vgain :: "(int \<times> int) list"
  vl_afe_bias :: "(int \<times> int) list"
  vl_afe_reg :: "((int \<times> int) \<times> int) list"
  vl_trim_values :: "int list"
  vl_offset_values :: "int list"

type_synonym sm_acc = "sm_vals \<times> string list"

definition no_vals :: sm_vals where
  "no_vals = \<lparr>vl_trim_single = [], vl_offset_single = [], vl_trim_all_afe = [], vl_offset_all_afe = [], vl_afe_vgain = [], vl_afe_bias = [],
     vl_afe_reg = [], vl_trim_values = [], vl_offset_values = []\<rparr>"

text \<open>\<open>resp = run(label, ...); if resp: ...\<close>.\<close>

definition step_into :: "('s, 'w, 'p, 'f) sm_env \<Rightarrow> sm_args \<Rightarrow> sm_req \<Rightarrow> ('f sm_resp \<Rightarrow> sm_vals \<Rightarrow> sm_vals) \<Rightarrow> sm_acc \<Rightarrow> ('s, sm_acc) py" where
  "step_into env args req upd acc = (case acc of (vals, failures) \<Rightarrow>
     m_bind (run_step env (sm_label req) (perform env (sm_route args) (sm_timeout_ms args) req) failures) (\<lambda>(resp, failures).
     m_ret (case resp of None \<Rightarrow> vals | Some r \<Rightarrow> upd r vals, failures)))"

definition step :: "('s, 'w, 'p, 'f) sm_env \<Rightarrow> sm_args \<Rightarrow> sm_req \<Rightarrow> sm_acc \<Rightarrow> ('s, sm_acc) py" where
  "step env args req = step_into env args req (\<lambda>r v. v)"

definition step_if :: "bool \<Rightarrow> (sm_acc \<Rightarrow> ('s, sm_acc) py) \<Rightarrow> sm_acc \<Rightarrow> ('s, sm_acc) py" where
  "step_if b m acc = (if b then m acc else m_ret acc)"

text \<open>Sequences of such steps.\<close>

definition in_turn :: "(sm_acc \<Rightarrow> ('s, sm_acc) py) list \<Rightarrow> sm_acc \<Rightarrow> ('s, sm_acc) py" where
  "in_turn steps = m_fold (\<lambda>m. m) steps"

definition read_afe_steps :: "('s, 'w, 'p, 'f) sm_env \<Rightarrow> sm_args \<Rightarrow> int \<Rightarrow> (sm_acc \<Rightarrow> ('s, sm_acc) py) list" where
  "read_afe_steps env args afe =
     [step_into env args (TrimAllAfe afe) (\<lambda>r v. v\<lparr>vl_trim_all_afe := AList.update afe (rs_values r) (vl_trim_all_afe v)\<rparr>),
      step_into env args (OffsetAllAfe afe) (\<lambda>r v. v\<lparr>vl_offset_all_afe := AList.update afe (rs_values r) (vl_offset_all_afe v)\<rparr>),
      step_into env args (AfeVgain afe) (\<lambda>r v. v\<lparr>vl_afe_vgain := AList.update afe (rs_value r) (vl_afe_vgain v)\<rparr>),
      step_into env args (AfeBias afe) (\<lambda>r v. v\<lparr>vl_afe_bias := AList.update afe (rs_value r) (vl_afe_bias v)\<rparr>),
      step_if (\<not> sm_skip_bias_monitor args) (step env args (BiasMonitor afe))]"

definition read_channel_steps :: "('s, 'w, 'p, 'f) sm_env \<Rightarrow> sm_args \<Rightarrow> int \<Rightarrow> (sm_acc \<Rightarrow> ('s, sm_acc) py) list" where
  "read_channel_steps env args ch =
     [step_into env args (TrimCh ch) (\<lambda>r v. v\<lparr>vl_trim_single := AList.update ch (rs_value r) (vl_trim_single v)\<rparr>),
      step_into env args (OffsetCh ch) (\<lambda>r v. v\<lparr>vl_offset_single := AList.update ch (rs_value r) (vl_offset_single v)\<rparr>)]"

definition read_afe_reg :: "('s, 'w, 'p, 'f) sm_env \<Rightarrow> sm_args \<Rightarrow> string \<times> string \<Rightarrow> sm_acc \<Rightarrow> ('s, sm_acc) py" where
  "read_afe_reg env args item acc =
     m_bind (m_lift (int0_of (fst item))) (\<lambda>afe.
     m_bind (m_lift (int0_of (snd item))) (\<lambda>reg.
     step_into env args (AfeReg afe reg) (\<lambda>r v. v\<lparr>vl_afe_reg := AList.update (afe, reg) (rs_value r) (vl_afe_reg v)\<rparr>) acc))"

definition read_steps :: "('s, 'w, 'p, 'f) sm_env \<Rightarrow> sm_args \<Rightarrow> int list \<Rightarrow> int list \<Rightarrow> int list \<Rightarrow> (sm_acc \<Rightarrow> ('s, sm_acc) py) list" where
  "read_steps env args chs counter_channels afe_list =
     [step env args TestReg, step env args GeneralInfo, step env args (TriggerCounters counter_channels),
      step env args (CurrentMonitor (sm_current_monitor_channel args)),
      step_into env args TrimAllCh (\<lambda>r v. v\<lparr>vl_trim_values := rs_values r\<rparr>),
      step_into env args OffsetAllCh (\<lambda>r v. v\<lparr>vl_offset_values := rs_values r\<rparr>)]
     @ concat (map (read_afe_steps env args) afe_list)
     @ concat (map (read_channel_steps env args) chs)
     @ [step env args VbiasControl]
     @ map (read_afe_reg env args) (sm_afe_reg args)"

section \<open>Writing back\<close>

text \<open>\<open>if key in table: run(...)\<close>.\<close>

definition write_known :: "('s, 'w, 'p, 'f) sm_env \<Rightarrow> sm_args \<Rightarrow> (sm_vals \<Rightarrow> ('k \<times> int) list) \<Rightarrow> 'k \<Rightarrow> (int \<Rightarrow> sm_req) \<Rightarrow> sm_acc \<Rightarrow> ('s, sm_acc) py" where
  "write_known env args table k req acc =
     (case map_of (table (fst acc)) k of None \<Rightarrow> m_ret acc | Some v \<Rightarrow> step env args (req v) acc)"

definition write_channel_steps :: "('s, 'w, 'p, 'f) sm_env \<Rightarrow> sm_args \<Rightarrow> int \<Rightarrow> (sm_acc \<Rightarrow> ('s, sm_acc) py) list" where
  "write_channel_steps env args ch =
     [write_known env args vl_trim_single ch (\<lambda>v. WriteTrimCh ch v False), write_known env args vl_offset_single ch (\<lambda>v. WriteOffsetCh ch v False)]"

definition write_afe_steps :: "('s, 'w, 'p, 'f) sm_env \<Rightarrow> sm_args \<Rightarrow> int \<Rightarrow> (sm_acc \<Rightarrow> ('s, sm_acc) py) list" where
  "write_afe_steps env args afe =
     [write_known env args vl_afe_vgain afe (WriteVgain afe), write_known env args vl_afe_bias afe (WriteBias afe)]"

definition write_regs :: "('s, 'w, 'p, 'f) sm_env \<Rightarrow> sm_args \<Rightarrow> sm_acc \<Rightarrow> ('s, sm_acc) py" where
  "write_regs env args acc = m_fold (\<lambda>((afe, reg), v). step env args (WriteReg afe reg v)) (vl_afe_reg (fst acc)) acc"

text \<open>A command for many channels: forced, or with the value all of them have.\<close>

definition uniform :: "int list \<Rightarrow> int option" where
  "uniform vs = (if vs \<noteq> [] \<and> length (remdups vs) = 1 then Some (hd vs) else None)"

definition write_all :: "('s, 'w, 'p, 'f) sm_env \<Rightarrow> sm_args \<Rightarrow> int option \<Rightarrow> (sm_vals \<Rightarrow> int list) \<Rightarrow> (int \<Rightarrow> sm_req) \<Rightarrow> string \<Rightarrow> sm_acc \<Rightarrow> ('s, sm_acc) py" where
  "write_all env args forced values req skip acc =
     (case (case forced of Some v \<Rightarrow> Some v | None \<Rightarrow> uniform (values (fst acc))) of
        Some v \<Rightarrow> step env args (req v) acc
      | None \<Rightarrow> m_then (sm_print env (''[SKIP] '' @ skip)) (m_ret acc))"

definition of_afe :: "(int \<times> int list) list \<Rightarrow> int \<Rightarrow> int list" where
  "of_afe table afe = (case map_of table afe of None \<Rightarrow> [] | Some vs \<Rightarrow> vs)"

definition write_all_afe_steps ::
  "('s, 'w, 'p, 'f) sm_env \<Rightarrow> sm_args \<Rightarrow> (int \<times> int) list \<Rightarrow> (int \<times> int) list \<Rightarrow> int \<Rightarrow> (sm_acc \<Rightarrow> ('s, sm_acc) py) list" where
  "write_all_afe_steps env args force_trim force_offset afe =
     [write_all env args (map_of force_trim afe) (\<lambda>v. of_afe (vl_trim_all_afe v) afe) (\<lambda>v. WriteTrimAllAfe afe v False)
        (at_index ''WRITE_TRIM_ALL_AFE'' afe @ '' (not uniform; use --force-trim-afe AFE:VAL)''),
      write_all env args (map_of force_offset afe) (\<lambda>v. of_afe (vl_offset_all_afe v) afe) (\<lambda>v. WriteOffsetAllAfe afe v False)
        (at_index ''WRITE_OFFSET_ALL_AFE'' afe @ '' (not uniform; use --force-offset-afe AFE:VAL)'')]"

text \<open>The last two writes are not wrapped in \<open>run\<close>: their exceptions end the script, and a reply of another type is
  only printed.\<close>

definition write_plain :: "('s, 'w, 'p, 'f) sm_env \<Rightarrow> sm_args \<Rightarrow> sm_req \<Rightarrow> ('s, unit) py" where
  "write_plain env args req =
     m_bind (m_lift (sm_check req)) (\<lambda>req.
     m_bind (sm_rpc env req (sm_route args) (sm_timeout_ms args)) (\<lambda>rep.
     if etype rep \<noteq> sm_type req + 1 then sm_print env (''[FAIL] '' @ sm_label req @ '' type mismatch '' @ int_to_str (etype rep))
     else m_then (parse_resp env req rep) (m_ret ())))"

definition write_attenuation :: "('s, 'w, 'p, 'f) sm_env \<Rightarrow> sm_args \<Rightarrow> int list \<Rightarrow> sm_acc \<Rightarrow> ('s, sm_acc) py" where
  "write_attenuation env args afe_list acc =
     m_then (case sm_attenuation args of
         Some v \<Rightarrow> m_for afe_list (\<lambda>afe. write_plain env args (WriteAttenuation afe v))
       | None \<Rightarrow> sm_print env ''[SKIP] WRITE_AFE_ATTENUATION (requires --attenuation)'')
     (m_ret acc)"

definition write_vbias :: "('s, 'w, 'p, 'f) sm_env \<Rightarrow> sm_args \<Rightarrow> sm_acc \<Rightarrow> ('s, sm_acc) py" where
  "write_vbias env args acc =
     m_then (case sm_vbias_control args of
         Some v \<Rightarrow> write_plain env args (WriteVbiasControl v (sm_vbias_enable args))
       | None \<Rightarrow> sm_print env ''[SKIP] WRITE_VBIAS_CONTROL (requires --vbias-control)'')
     (m_ret acc)"

definition write_steps ::
  "('s, 'w, 'p, 'f) sm_env \<Rightarrow> sm_args \<Rightarrow> int list \<Rightarrow> int list \<Rightarrow> (int \<times> int) list \<Rightarrow> (int \<times> int) list \<Rightarrow> (sm_acc \<Rightarrow> ('s, sm_acc) py) list" where
  "write_steps env args chs afe_list force_trim force_offset =
     concat (map (write_channel_steps env args) chs)
     @ concat (map (write_afe_steps env args) afe_list)
     @ [write_regs env args,
        write_all env args (sm_force_trim_all args) vl_trim_values (\<lambda>v. WriteTrimAllCh v False) ''WRITE_TRIM_ALL_CH (not uniform; use --force-trim-all to override)'',
        write_all env args (sm_force_offset_all args) vl_offset_values (\<lambda>v. WriteOffsetAllCh v False)
          ''WRITE_OFFSET_ALL_CH (not uniform; use --force-offset-all to override)'']
     @ concat (map (write_all_afe_steps env args force_trim force_offset) afe_list)
     @ [write_attenuation env args afe_list, write_vbias env args]"

section \<open>Intrusive commands\<close>

text \<open>\<open>load_config_request\<close>. Assigning to a Boolean field takes an integer of the C type \<open>long\<close>.\<close>

fun set_bool :: "json \<Rightarrow> bool result" where
  "set_bool (JBool b) = Inr b"
| "set_bool (JInt n) = (if - (2 ^ 63) \<le> n \<and> n < 2 ^ 63 then Inr (n \<noteq> 0) else Inl OverflowError)"
| "set_bool _ = Inl TypeError"

fun first_value :: "json \<Rightarrow> json result" where
  "first_value (JObj []) = Inl StopIteration"
| "first_value (JObj (kv # kvs)) = Inr (snd kv)"
| "first_value _ = Inl AttributeError"

definition at_uint :: "json \<Rightarrow> string \<Rightarrow> int result" where
  "at_uint j k = r_bind (py_index j k) (set_uint 32)"

definition at_int64 :: "(string \<Rightarrow> int result) \<Rightarrow> json \<Rightarrow> string \<Rightarrow> int result" where
  "at_int64 tr j k = r_bind (r_bind (py_index j k) (json_int tr)) (uint_field 64)"

definition at_bool :: "json \<Rightarrow> string \<Rightarrow> bool result" where
  "at_bool j k = r_bind (py_index j k) set_bool"

text \<open>\<open>zip(conf[k], ...)\<close>: all lists are looked up, then all iterators made, then tuples up to the shortest.\<close>

fun zip_rows :: "'a list list \<Rightarrow> 'a list list" where
  "zip_rows [] = []"
| "zip_rows [xs] = map (\<lambda>x. [x]) xs"
| "zip_rows (xs # xss) = map (\<lambda>(x, r). x # r) (zip xs (zip_rows xss))"

definition zip_lists :: "json \<Rightarrow> string list \<Rightarrow> json list list result" where
  "zip_lists conf keys = r_bind (r_map (py_index conf) keys) (\<lambda>vs. r_bind (r_map py_iter vs) (\<lambda>xss. Inr (zip_rows xss)))"

definition load_channel :: "json list \<Rightarrow> ChannelConfig result" where
  "load_channel row = r_bind (r_map (set_uint 32) row) (\<lambda>vs.
     Inr \<lparr>ch_id = vs ! 0, ch_trim = vs ! 3, ch_offset = vs ! 2, ch_gain = vs ! 1\<rparr>)"

definition load_adc :: "json \<Rightarrow> ADCConfig result" where
  "load_adc j =
     r_bind (at_bool j ''resolution'') (\<lambda>res.
     r_bind (at_bool j ''output_format'') (\<lambda>fmt.
     r_bind (py_get j ''sb_first'' (JBool False)) (\<lambda>d.
     r_bind (py_get j ''SB_first'' d) (\<lambda>sb.
     r_bind (set_bool sb) (\<lambda>sb.
     Inr \<lparr>adc_resolution = res, adc_output_format = fmt, adc_sb_first = sb\<rparr>)))))"

definition load_pga :: "json \<Rightarrow> PGAConfig result" where
  "load_pga j =
     r_bind (at_uint j ''lpf_cut_frequency'') (\<lambda>lpf.
     r_bind (at_bool j ''integrator_disable'') (\<lambda>di.
     r_bind (at_bool j ''gain'') (\<lambda>g.
     Inr \<lparr>pga_lpf_cut_frequency = lpf, pga_integrator_disable = di, pga_gain = g\<rparr>)))"

definition load_lna :: "json \<Rightarrow> LNAConfig result" where
  "load_lna j =
     r_bind (at_uint j ''clamp'') (\<lambda>cl.
     r_bind (at_bool j ''integrator_disable'') (\<lambda>di.
     r_bind (at_uint j ''gain'') (\<lambda>g.
     Inr \<lparr>lna_clamp = cl, lna_gain = g, lna_integrator_disable = di\<rparr>)))"

definition load_afe :: "json list \<Rightarrow> AFEConfig result" where
  "load_afe row =
     r_bind (r_map (set_uint 32) (take 3 row)) (\<lambda>vs.
     r_bind (load_adc (row ! 3)) (\<lambda>ad.
     r_bind (load_pga (row ! 4)) (\<lambda>pg.
     r_bind (load_lna (row ! 5)) (\<lambda>ln.
     Inr \<lparr>afe_id = vs ! 0, attenuators = vs ! 1, v_bias = vs ! 2, adc = ad, pga = pg, lna = ln\<rparr>))))"

definition load_config_request :: "(string \<Rightarrow> int result) \<Rightarrow> json \<Rightarrow> ConfigureRequest result" where
  "load_config_request tr doc =
     r_bind (first_value doc) (\<lambda>first.
     r_bind (r_bind (py_get first ''daphne_address'' (JStr ''0.0.0.0'')) set_str) (\<lambda>addr.
     r_bind (at_uint first ''slot'') (\<lambda>sl.
     r_bind (r_bind (r_bind (py_get first ''timeout_ms'' (JInt 500)) (json_int tr)) (uint_field 32)) (\<lambda>tmo.
     r_bind (at_uint first ''bias_ctrl'') (\<lambda>bc.
     r_bind (at_int64 tr first ''self_trigger_threshold'') (\<lambda>thr.
     r_bind (at_int64 tr first ''self_trigger_xcorr'') (\<lambda>xc.
     r_bind (at_int64 tr first ''tp_conf'') (\<lambda>tp.
     r_bind (at_int64 tr first ''compensator'') (\<lambda>comp.
     r_bind (at_int64 tr first ''inverter'') (\<lambda>inv.
     r_bind (py_index first ''channel_analog_conf'') (\<lambda>ch_conf.
     r_bind (zip_lists ch_conf [''ids'', ''gains'', ''offsets'', ''trims'']) (\<lambda>ch_rows.
     r_bind (r_map load_channel ch_rows) (\<lambda>chs.
     r_bind (py_index first ''afes'') (\<lambda>afe_conf.
     r_bind (zip_lists afe_conf [''ids'', ''attenuators'', ''v_biases'', ''adcs'', ''pgas'', ''lnas'']) (\<lambda>afe_rows.
     r_bind (r_map load_afe afe_rows) (\<lambda>afs.
     r_bind (py_in ''full_stream_channels'' first) (\<lambda>given.
     r_bind (if given then r_bind (r_bind (py_index first ''full_stream_channels'') py_iter) (r_map (set_uint 32)) else Inr []) (\<lambda>fs.
     Inr \<lparr>daphne_address = addr, slot = sl, req_timeout_ms = tmo, biasctrl = bc, self_trigger_threshold = thr, self_trigger_xcorr = xc,
       tp_conf = tp, compensator = comp, inverters = inv, channels = chs, afes = afs, full_stream_channels = fs\<rparr>))))))))))))))))))"

text \<open>A command whose exchange is wrapped in \<open>run\<close>, while the request and the response are handled outside it. A reply of another type is ignored.\<close>

definition intrusive :: "('s, 'w, 'p, 'f) sm_env \<Rightarrow> sm_args \<Rightarrow> int \<Rightarrow> sm_req \<Rightarrow> sm_acc \<Rightarrow> ('s, sm_acc) py" where
  "intrusive env args timeout_ms req acc = (case acc of (vals, failures) \<Rightarrow>
     m_bind (m_lift (sm_check req)) (\<lambda>req.
     m_bind (run_step env (sm_label req) (sm_rpc env req (sm_route args) timeout_ms) failures) (\<lambda>(rep, failures).
     case rep of None \<Rightarrow> m_ret (vals, failures)
     | Some rep \<Rightarrow>
         if etype rep = sm_type req + 1 then m_then (parse_resp env req rep) (m_ret (vals, failures))
         else m_ret (vals, failures))))"

definition configure_fe :: "('s, 'w, 'p, 'f) sm_env \<Rightarrow> sm_args \<Rightarrow> sm_acc \<Rightarrow> ('s, sm_acc) py" where
  "configure_fe env args acc =
     m_bind (m_get (\<lambda>s. sm_json env s (sm_configure_json args))) (\<lambda>doc.
     m_bind (m_lift (r_bind doc (load_config_request (sm_trunc env)))) (\<lambda>cfg.
     intrusive env args (max (sm_timeout_ms args) 20000) (ConfigureFe cfg) acc))"

definition dump_spybuffer :: "('s, 'w, 'p, 'f) sm_env \<Rightarrow> sm_args \<Rightarrow> int list \<Rightarrow> sm_acc \<Rightarrow> ('s, sm_acc) py" where
  "dump_spybuffer env args chs acc =
     (let one = (if chs \<noteq> [] then take 1 chs else [0]); wfs = sm_spybuffer_waveforms args; n = sm_spybuffer_samples args;
          trg = sm_spybuffer_software_trigger args in
      m_bind (intrusive env args (max (sm_timeout_ms args) 20000) (DumpSpybuffer one wfs n trg) acc) (\<lambda>acc.
      m_bind (sm_uuid env) (\<lambda>i.
      intrusive env args (max (sm_timeout_ms args) 30000) (DumpSpybufferChunk one wfs n trg (''full-'' @ i) (max 1 wfs)) acc)))"

definition intrusive_if :: "bool option \<Rightarrow> (bool \<Rightarrow> sm_acc \<Rightarrow> ('s, sm_acc) py) \<Rightarrow> sm_acc \<Rightarrow> ('s, sm_acc) py" where
  "intrusive_if v m acc = (case v of None \<Rightarrow> m_ret acc | Some b \<Rightarrow> m b acc)"

definition intrusive_steps :: "('s, 'w, 'p, 'f) sm_env \<Rightarrow> sm_args \<Rightarrow> int list \<Rightarrow> (sm_acc \<Rightarrow> ('s, sm_acc) py) list" where
  "intrusive_steps env args chs =
     (let t = sm_timeout_ms args; cmd = intrusive env args t in
      [step_if (sm_configure_clks args)
         (cmd (ConfigureClks (sm_clks_id args) (sm_ctrl_ep_clk args) (sm_reset_mmcm1 args) (sm_reset_endpoint args))),
       step_if (sm_configure_json args \<noteq> []) (configure_fe env args),
       step_if (sm_align_afes args) (intrusive env args (max t 20000) AlignAfe),
       intrusive_if (sm_set_afe_reset args) (\<lambda>b. cmd (SetAfeReset b)),
       step_if (sm_do_afe_reset args) (cmd DoAfeReset),
       intrusive_if (sm_set_afe_powerstate args) (\<lambda>b. cmd (SetAfePowerstate b)),
       step_if (sm_do_software_trigger args) (cmd SoftwareTrigger),
       step_if (sm_spybuffer args) (dump_spybuffer env args chs)])"

section \<open>The script\<close>

definition sm_afe_list :: "sm_args \<Rightarrow> int list result" where
  "sm_afe_list args = (if sm_afes args \<noteq> [] then parse_int_tokens (sm_afes args) else Inr (py_range (nat (sm_afe_count args))))"

definition all_steps ::
  "('s, 'w, 'p, 'f) sm_env \<Rightarrow> sm_args \<Rightarrow> int list \<Rightarrow> int list \<Rightarrow> int list \<Rightarrow> (int \<times> int) list \<Rightarrow> (int \<times> int) list \<Rightarrow> (sm_acc \<Rightarrow> ('s, sm_acc) py) list" where
  "all_steps env args chs counter_channels afe_list force_trim force_offset =
     read_steps env args chs counter_channels afe_list
     @ (if sm_do_writes args then write_steps env args chs afe_list force_trim force_offset else [])
     @ intrusive_steps env args chs"

definition report_failures :: "('s, 'w, 'p, 'f) sm_env \<Rightarrow> string list \<Rightarrow> ('s, int) py" where
  "report_failures env failures =
     (if failures = [] then m_ret 0
      else m_then (sm_print env (CHR 0x0A # ''Failures:''))
        (m_then (m_for failures (\<lambda>item. sm_print env (''- '' @ item))) (m_ret 1)))"

definition smoketest_main :: "('s, 'w, 'p, 'f) sm_env \<Rightarrow> sm_args \<Rightarrow> ('s, int) py" where
  "smoketest_main env args =
     m_bind (m_lift (parse_int_tokens (sm_channels args))) (\<lambda>chs.
     m_bind (m_lift (parse_int_tokens (sm_counter_channels args))) (\<lambda>counter_channels.
     m_bind (m_lift (sm_afe_list args)) (\<lambda>afe_list.
     m_bind (m_lift (parse_kv_list (sm_force_trim_afe args))) (\<lambda>force_trim.
     m_bind (m_lift (parse_kv_list (sm_force_offset_afe args))) (\<lambda>force_offset.
     m_bind (in_turn (all_steps env args chs counter_channels afe_list force_trim force_offset) (no_vals, [])) (\<lambda>(vals, failures).
     m_then (z_close (sm_sock env)) (report_failures env failures)))))))"

end
