(* ===== verification/Smoke_Board.thy ===== *)
theory Smoke_Board
  imports Smoketest
begin

text \<open>
  What a run of \<open>client/protobuf_full_smoketest_v2.py\<close> does to the board.

  The registers the write-backs concern are the record \<open>board_regs\<close>; \<open>register_write\<close> is what the commands on them
  mean (\<open>writeChannelTrim\<close> and its siblings in \<open>srcs/server_controller/handlers.cpp\<close>). The locale \<open>register_board\<close> is a
  board that executes only requests it was sent, now, later, more than once or never, and that answers a read with
  the values it holds. From it: a run without write and intrusive options only reads, and the write-backs leave every
  register as it was, on every exit of the script.
\<close>

section \<open>The registers\<close>

record board_regs =
  b_trim :: "int \<Rightarrow> int \<times> bool"
  b_offset :: "int \<Rightarrow> int \<times> bool"
  b_vgain :: "int \<Rightarrow> int"
  b_bias :: "int \<Rightarrow> int"
  b_reg :: "int \<times> int \<Rightarrow> int"

fun is_read :: "sm_req \<Rightarrow> bool" where
  "is_read TestReg = True" | "is_read GeneralInfo = True" | "is_read (TriggerCounters chs) = True" | "is_read (CurrentMonitor ch) = True"
| "is_read TrimAllCh = True" | "is_read OffsetAllCh = True" | "is_read (TrimAllAfe a) = True" | "is_read (OffsetAllAfe a) = True"
| "is_read (TrimCh ch) = True" | "is_read (OffsetCh ch) = True" | "is_read VbiasControl = True" | "is_read (AfeReg a r) = True"
| "is_read (AfeVgain a) = True" | "is_read (AfeBias a) = True" | "is_read (BiasMonitor a) = True" | "is_read _ = False"

definition set_on :: "int set \<Rightarrow> 'v \<Rightarrow> (int \<Rightarrow> 'v) \<Rightarrow> int \<Rightarrow> 'v" where
  "set_on S v f = (\<lambda>i. if i \<in> S then v else f i)"

definition board_channels :: "int set" where
  "board_channels = {0..<40}"

definition afe_channels :: "int \<Rightarrow> int set" where
  "afe_channels a = {8 * a..<8 * a + 8}"

text \<open>Commands that are not about these registers (attenuation, bias control, configuration, alignment, reset, power) are
  left open. A read, a trigger and a dump of a buffer write nothing.\<close>

fun register_write :: "sm_req \<Rightarrow> board_regs \<Rightarrow> board_regs option" where
  "register_write (WriteTrimCh ch v g) r = Some (r\<lparr>b_trim := set_on {ch} (v, g) (b_trim r)\<rparr>)"
| "register_write (WriteOffsetCh ch v g) r = Some (r\<lparr>b_offset := set_on {ch} (v, g) (b_offset r)\<rparr>)"
| "register_write (WriteVgain a v) r = Some (r\<lparr>b_vgain := (b_vgain r)(a := v)\<rparr>)"
| "register_write (WriteBias a v) r = Some (r\<lparr>b_bias := (b_bias r)(a := v)\<rparr>)"
| "register_write (WriteReg a g v) r = Some (r\<lparr>b_reg := (b_reg r)((a, g) := v)\<rparr>)"
| "register_write (WriteTrimAllCh v g) r = Some (r\<lparr>b_trim := set_on board_channels (v, g) (b_trim r)\<rparr>)"
| "register_write (WriteOffsetAllCh v g) r = Some (r\<lparr>b_offset := set_on board_channels (v, g) (b_offset r)\<rparr>)"
| "register_write (WriteTrimAllAfe a v g) r = Some (r\<lparr>b_trim := set_on (afe_channels a) (v, g) (b_trim r)\<rparr>)"
| "register_write (WriteOffsetAllAfe a v g) r = Some (r\<lparr>b_offset := set_on (afe_channels a) (v, g) (b_offset r)\<rparr>)"
| "register_write SoftwareTrigger r = Some r"
| "register_write (DumpSpybuffer chs w n t) r = Some r"
| "register_write (DumpSpybufferChunk chs w n t i c) r = Some r"
| "register_write q r = (if is_read q then Some r else None)"

text \<open>A list of values, if there are any, holds the values of a set of channels.\<close>

definition covers :: "int list \<Rightarrow> (int \<Rightarrow> int \<times> bool) \<Rightarrow> int set \<Rightarrow> bool" where
  "covers vs f S \<longleftrightarrow> vs = [] \<or> fst ` f ` S = set vs"

fun truthful :: "sm_req \<Rightarrow> 'f sm_resp \<Rightarrow> board_regs \<Rightarrow> bool" where
  "truthful (TrimCh ch) p r \<longleftrightarrow> fst (b_trim r ch) = rs_value p"
| "truthful (OffsetCh ch) p r \<longleftrightarrow> fst (b_offset r ch) = rs_value p"
| "truthful (AfeVgain a) p r \<longleftrightarrow> b_vgain r a = rs_value p"
| "truthful (AfeBias a) p r \<longleftrightarrow> b_bias r a = rs_value p"
| "truthful (AfeReg a g) p r \<longleftrightarrow> b_reg r (a, g) = rs_value p"
| "truthful TrimAllCh p r \<longleftrightarrow> covers (rs_values p) (b_trim r) board_channels"
| "truthful OffsetAllCh p r \<longleftrightarrow> covers (rs_values p) (b_offset r) board_channels"
| "truthful (TrimAllAfe a) p r \<longleftrightarrow> covers (rs_values p) (b_trim r) (afe_channels a)"
| "truthful (OffsetAllAfe a) p r \<longleftrightarrow> covers (rs_values p) (b_offset r) (afe_channels a)"
| "truthful q p r \<longleftrightarrow> True"

text \<open>The executions of requests out of a set, in any order and number.\<close>

inductive runs :: "(sm_req \<Rightarrow> board_regs \<Rightarrow> board_regs) \<Rightarrow> sm_req set \<Rightarrow> board_regs \<Rightarrow> board_regs \<Rightarrow> bool"
  for exec Q r where
  runs_none: "runs exec Q r r"
| runs_one: "runs exec Q r r' \<Longrightarrow> q \<in> Q \<Longrightarrow> runs exec Q r (exec q r')"

lemma runs_fixed: "runs exec Q r r' \<Longrightarrow> (\<And>q. q \<in> Q \<Longrightarrow> exec q r = r) \<Longrightarrow> r' = r"
  by (induction rule: runs.induct) auto

lemma read_writes_nothing: "is_read q \<Longrightarrow> register_write q r = Some r"
  by (cases q) simp_all

lemma sm_check_same: "sm_check q = Inr q' \<Longrightarrow> q' = q"
  by (cases q) (auto simp: all_uint_def r_bind_ok)

text \<open>The values a run has collected are those of the registers.\<close>

definition table_of :: "('k \<Rightarrow> 'v) \<Rightarrow> ('k \<times> 'v) list \<Rightarrow> bool" where
  "table_of f t \<longleftrightarrow> (\<forall>kv \<in> set t. f (fst kv) = snd kv)"

definition lists_of :: "(int \<Rightarrow> int \<times> bool) \<Rightarrow> (int \<times> int list) list \<Rightarrow> bool" where
  "lists_of f t \<longleftrightarrow> (\<forall>kv \<in> set t. covers (snd kv) f (afe_channels (fst kv)))"

definition vals_true :: "board_regs \<Rightarrow> sm_vals \<Rightarrow> bool" where
  "vals_true r v \<longleftrightarrow>
     table_of (\<lambda>ch. fst (b_trim r ch)) (vl_trim_single v) \<and> table_of (\<lambda>ch. fst (b_offset r ch)) (vl_offset_single v) \<and>
     lists_of (b_trim r) (vl_trim_all_afe v) \<and> lists_of (b_offset r) (vl_offset_all_afe v) \<and>
     table_of (b_vgain r) (vl_afe_vgain v) \<and> table_of (b_bias r) (vl_afe_bias v) \<and> table_of (b_reg r) (vl_afe_reg v) \<and>
     covers (vl_trim_values v) (b_trim r) board_channels \<and> covers (vl_offset_values v) (b_offset r) board_channels"

lemma set_update_subset: "set (AList.update k v t) \<subseteq> insert (k, v) (set t)"
  by (induction t) auto

lemma table_update: "table_of f t \<Longrightarrow> f k = v \<Longrightarrow> table_of f (AList.update k v t)"
  by (auto simp: table_of_def dest!: subsetD [OF set_update_subset])

lemma lists_update: "lists_of f t \<Longrightarrow> covers vs f (afe_channels a) \<Longrightarrow> lists_of f (AList.update a vs t)"
  by (auto simp: lists_of_def dest!: subsetD [OF set_update_subset])

lemma table_lookup: "table_of f t \<Longrightarrow> map_of t k = Some v \<Longrightarrow> f k = v"
  by (auto simp: table_of_def dest!: map_of_SomeD)

lemma lists_lookup: "lists_of f t \<Longrightarrow> covers (of_afe t a) f (afe_channels a)"
  by (cases "map_of t a") (auto simp: of_afe_def lists_of_def covers_def [of "[]"] dest!: map_of_SomeD)

lemma no_vals_true: "vals_true r no_vals"
  by (simp add: vals_true_def no_vals_def table_of_def lists_of_def covers_def)

section \<open>Writing the same value again\<close>

definition gains_off :: "board_regs \<Rightarrow> bool" where
  "gains_off r \<longleftrightarrow> (\<forall>ch. \<not> snd (b_trim r ch) \<and> \<not> snd (b_offset r ch))"

lemma set_on_same: "(\<And>i. i \<in> S \<Longrightarrow> fst (f i) = v) \<Longrightarrow> (\<And>i. \<not> snd (f i)) \<Longrightarrow> set_on S (v, False) f = f"
  by (rule ext) (auto simp: set_on_def prod_eq_iff)

lemma uniform_covers: "uniform vs = Some v \<Longrightarrow> covers vs f S \<Longrightarrow> i \<in> S \<Longrightarrow> fst (f i) = v"
proof -
  assume u: "uniform vs = Some v" and c: "covers vs f S" and i: "i \<in> S"
  have "card (set vs) = 1" "vs \<noteq> []" "v = hd vs"
    using u by (auto simp: uniform_def length_remdups_card_conv split: if_splits)
  then have "set vs = {v}" by (metis card_1_singletonE hd_in_set singletonD)
  with c i \<open>vs \<noteq> []\<close> show ?thesis unfolding covers_def by blast
qed

lemma same_trim: "gains_off r \<Longrightarrow> (\<And>i. i \<in> S \<Longrightarrow> fst (b_trim r i) = v) \<Longrightarrow> r\<lparr>b_trim := set_on S (v, False) (b_trim r)\<rparr> = r"
  by (simp add: set_on_same gains_off_def)

lemma same_offset: "gains_off r \<Longrightarrow> (\<And>i. i \<in> S \<Longrightarrow> fst (b_offset r i) = v) \<Longrightarrow> r\<lparr>b_offset := set_on S (v, False) (b_offset r)\<rparr> = r"
  by (simp add: set_on_same gains_off_def)

section \<open>Options\<close>

definition no_intrusive :: "sm_args \<Rightarrow> bool" where
  "no_intrusive args \<longleftrightarrow> \<not> sm_configure_clks args \<and> sm_configure_json args = [] \<and> \<not> sm_align_afes args \<and> sm_set_afe_reset args = None \<and>
     \<not> sm_do_afe_reset args \<and> sm_set_afe_powerstate args = None"

definition no_forced :: "sm_args \<Rightarrow> bool" where
  "no_forced args \<longleftrightarrow> sm_force_trim_all args = None \<and> sm_force_offset_all args = None \<and> sm_force_trim_afe args = [] \<and>
     sm_force_offset_afe args = [] \<and> sm_attenuation args = None \<and> sm_vbias_control args = None"

section \<open>A board\<close>

locale register_board =
  fixes env :: "('s, 'w, 'p, 'f) sm_env" and regs :: "'s \<Rightarrow> board_regs" and sent :: "'s \<Rightarrow> sm_req list"
    and exec :: "sm_req \<Rightarrow> board_regs \<Rightarrow> board_regs"
  assumes l_exec: "register_write q r = Some r' \<Longrightarrow> exec q r = r' \<or> exec q r = r"
    and l_time: "sent (snd (time_ns (sm_sock env) s)) = sent s \<and> runs exec (set (sent s)) (regs s) (regs (snd (time_ns (sm_sock env) s)))"
    and l_random: "sent (snd (randrange (sm_sock env) n s)) = sent s \<and> runs exec (set (sent s)) (regs s) (regs (snd (randrange (sm_sock env) n s)))"
    and l_print: "sent (snd (sm_print env l s)) = sent s \<and> runs exec (set (sent s)) (regs s) (regs (snd (sm_print env l s)))"
    and l_uuid: "sent (snd (sm_uuid env s)) = sent s \<and> runs exec (set (sent s)) (regs s) (regs (snd (sm_uuid env s)))"
    and l_close: "sent (snd (z_close (sm_sock env) s)) = sent s \<and> runs exec (set (sent s)) (regs s) (regs (snd (z_close (sm_sock env) s)))"
    and l_exchange: "sm_exchange env (ser (sm_envc env) (request_envelope (sm_type q) (ser_sm env q) rt ids ts)) tmo s = (x, t) \<Longrightarrow>
      (sent t = sent s \<or> sent t = sent s @ [q]) \<and> runs exec (insert q (set (sent s))) (regs s) (regs t)"
    and l_answer: "sm_exchange env (ser (sm_envc env) (request_envelope (sm_type q) (ser_sm env q) rt ids ts)) tmo s = (Inr frames, t) \<Longrightarrow>
      ParseFromString (sm_envc env) (last frames) = Inr reply \<Longrightarrow> sm_accept (snd ids) reply = Inr rep \<Longrightarrow> etype rep = sm_type q + 1 \<Longrightarrow>
      ParseFromString (respc_sm env q) (payload rep) = Inr (p, k) \<Longrightarrow>
      \<exists>r'. runs exec (insert q (set (sent s))) (regs s) r' \<and> truthful q p r'"
begin

definition inert :: "sm_req set \<Rightarrow> board_regs \<Rightarrow> bool" where
  "inert A r \<longleftrightarrow> (\<forall>q \<in> A. exec q r = r)"

definition calm :: "sm_req set \<Rightarrow> board_regs \<Rightarrow> 's \<Rightarrow> bool" where
  "calm A r s \<longleftrightarrow> set (sent s) \<subseteq> A \<and> regs s = r"

lemma settles: "inert A r \<Longrightarrow> calm A r s \<Longrightarrow> Q \<subseteq> A \<Longrightarrow> runs exec Q (regs s) r' \<Longrightarrow> r' = r"
  using runs_fixed [of exec Q "regs s" r'] unfolding inert_def calm_def by blast

lemma quiet_keeps:
  assumes "inert A r" "\<And>s. sent (snd (m s)) = sent s \<and> runs exec (set (sent s)) (regs s) (regs (snd (m s)))"
  shows "keeps (calm A r) m (\<lambda>_. True)"
  unfolding keeps_def using assms settles [OF assms(1)] by (metis calm_def)

lemma quiet_ops:
  assumes "inert A r"
  shows "keeps (calm A r) (time_ns (sm_sock env)) (\<lambda>_. True)" "keeps (calm A r) (randrange (sm_sock env) n) (\<lambda>_. True)"
    "keeps (calm A r) (sm_print env l) (\<lambda>_. True)" "keeps (calm A r) (sm_uuid env) (\<lambda>_. True)"
    "keeps (calm A r) (z_close (sm_sock env)) (\<lambda>_. True)"
  by (rule quiet_keeps [OF assms], rule l_time l_random l_print l_uuid l_close)+

lemma ids_keeps:
  assumes "inert A r"
  shows "keeps (calm A r) (next_ids (sm_sock env)) (\<lambda>_. True)"
  unfolding next_ids_def
  by (rule keeps_bind [OF quiet_ops(1) [OF assms]], rule keeps_bind [OF quiet_ops(2) [OF assms]], rule keeps_bind [OF quiet_ops(2) [OF assms]])
    (simp add: keeps_basic)

lemma exchange_keeps:
  assumes "inert A r" "q \<in> A"
  shows "keeps (calm A r) (sm_exchange env (ser (sm_envc env) (request_envelope (sm_type q) (ser_sm env q) rt ids ts)) tmo)
    (\<lambda>frames. \<forall>reply rep p k. ParseFromString (sm_envc env) (last frames) = Inr reply \<longrightarrow> sm_accept (snd ids) reply = Inr rep \<longrightarrow>
       etype rep = sm_type q + 1 \<longrightarrow> ParseFromString (respc_sm env q) (payload rep) = Inr (p, k) \<longrightarrow> truthful q p r)"
    (is "keeps _ ?m ?Q")
  unfolding keeps_def
proof (intro allI impI conjI)
  fix s assume c: "calm A r s"
  then have sub: "insert q (set (sent s)) \<subseteq> A" using assms(2) by (auto simp: calm_def)
  obtain x t where m: "?m s = (x, t)" by fastforce
  show "calm A r (snd (?m s))"
    using l_exchange [OF m] settles [OF assms(1) c sub] sub c unfolding m by (auto simp: calm_def)
  fix frames t reply rep p k
  assume "?m s = (Inr frames, t)" "ParseFromString (sm_envc env) (last frames) = Inr reply" "sm_accept (snd ids) reply = Inr rep"
    "etype rep = sm_type q + 1" "ParseFromString (respc_sm env q) (payload rep) = Inr (p, k)"
  from l_answer [OF this] show "truthful q p r" using settles [OF assms(1) c sub] by blast
qed

lemma rpc_keeps:
  assumes "inert A r" "q \<in> A"
  shows "keeps (calm A r) (sm_rpc env q rt tmo)
    (\<lambda>rep. \<forall>p k. etype rep = sm_type q + 1 \<longrightarrow> ParseFromString (respc_sm env q) (payload rep) = Inr (p, k) \<longrightarrow> truthful q p r)"
proof -
  note ops = quiet_ops [OF assms(1)]
  show ?thesis
    unfolding sm_rpc_def m_bind_lift_lift
    by (rule keeps_bind [OF ids_keeps [OF assms(1)]], rule keeps_bind [OF ops(1)], rule keeps_bind [OF exchange_keeps [OF assms]], rule keeps_basic(3))
      (auto simp: r_bind_ok)
qed

lemma print_keeps: "inert A r \<Longrightarrow> keeps (calm A r) (print_status env q p) (\<lambda>_. True)"
  unfolding print_status_def Let_def by (rule quiet_ops)

lemma parse_keeps:
  assumes "inert A r" "\<And>p k. ParseFromString (respc_sm env q) (payload rep) = Inr (p, k) \<Longrightarrow> truthful q p r"
  shows "keeps (calm A r) (parse_resp env q rep) (\<lambda>p. truthful q p r)"
  unfolding parse_resp_def
  by (rule keeps_bind [where R = "\<lambda>pk. truthful q (fst pk) r"])
    (auto intro!: keeps_basic keeps_then print_keeps [OF assms(1)] dest: assms(2))

lemma perform_keeps:
  assumes "inert A r" "q \<in> A"
  shows "keeps (calm A r) (perform env rt tmo q) (\<lambda>p. truthful q p r)"
proof -
  have "keeps (calm A r) (m_lift (sm_check q)) (\<lambda>q'. q' = q)"
    by (auto intro!: keeps_basic dest: sm_check_same)
  then show ?thesis
    unfolding perform_def
    by (rule keeps_bind)
      (use assms in \<open>auto intro!: keeps_bind [OF rpc_keeps [OF assms]] keeps_basic parse_keeps\<close>)
qed

lemma run_step_keeps:
  assumes "inert A r" "keeps (calm A r) m Q"
  shows "keeps (calm A r) (run_step env l m failures) (\<lambda>(x, _). \<forall>a. x = Some a \<longrightarrow> Q a)"
  unfolding run_step_def
  by (intro keeps_except keeps_bind [OF assms(2)] keeps_then quiet_ops [OF assms(1)] keeps_basic) auto

text \<open>A step that keeps the board as it is and the collected values true.\<close>

definition good :: "sm_req set \<Rightarrow> board_regs \<Rightarrow> (sm_acc \<Rightarrow> ('s, sm_acc) py) \<Rightarrow> bool" where
  "good A r m \<longleftrightarrow> (\<forall>acc. vals_true r (fst acc) \<longrightarrow> keeps (calm A r) (m acc) (\<lambda>acc'. vals_true r (fst acc')))"

lemma good_into:
  assumes "inert A r" "q \<in> A" "\<And>p v. truthful q p r \<Longrightarrow> vals_true r v \<Longrightarrow> vals_true r (upd p v)"
  shows "good A r (step_into env args q upd)"
  unfolding good_def step_into_def
  by (auto split: prod.split option.splits intro!: keeps_bind [OF run_step_keeps [OF assms(1) perform_keeps [OF assms(1,2)]]] keeps_basic assms(3))

lemma good_step: "inert A r \<Longrightarrow> q \<in> A \<Longrightarrow> good A r (step env args q)"
  unfolding step_def by (rule good_into) auto

lemma good_if: "(b \<Longrightarrow> good A r m) \<Longrightarrow> good A r (step_if b m)"
  by (auto simp: good_def step_if_def intro: keeps_basic)

lemma good_in_turn: "(\<And>m. m \<in> set ms \<Longrightarrow> good A r m) \<Longrightarrow> good A r (in_turn ms)"
  unfolding good_def in_turn_def by (auto intro!: keeps_fold)

subsection \<open>The reads\<close>

lemma good_read_afe_reg:
  assumes "inert A r" "\<And>q. is_read q \<Longrightarrow> q \<in> A"
  shows "good A r (read_afe_reg env args item)"
proof -
  have "good A r (step_into env args (AfeReg a g) (\<lambda>p v. v\<lparr>vl_afe_reg := AList.update (a, g) (rs_value p) (vl_afe_reg v)\<rparr>))" for a g
    by (rule good_into) (use assms in \<open>auto simp: vals_true_def table_update\<close>)
  then show ?thesis unfolding good_def read_afe_reg_def
    by (auto intro!: keeps_bind [where R = "\<lambda>_. True"] keeps_basic)
qed

lemma good_reads:
  assumes "inert A r" "\<And>q. is_read q \<Longrightarrow> q \<in> A" "m \<in> set (read_steps env args chs counter_channels afe_list)"
  shows "good A r m"
  using assms(3) unfolding read_steps_def read_afe_steps_def read_channel_steps_def
  by (auto intro!: good_into good_step good_if good_read_afe_reg assms(1,2) simp: vals_true_def table_update lists_update)

subsection \<open>The intrusive commands that write no register\<close>

lemma good_intrusive:
  assumes "inert A r" "q \<in> A"
  shows "good A r (intrusive env args tmo q)"
proof -
  note rpc = run_step_keeps [OF assms(1) rpc_keeps [OF assms]]
  have "keeps (calm A r) (parse_resp env q rep) (\<lambda>_. True)"
    if "\<forall>p k. ParseFromString (respc_sm env q) (payload rep) = Inr (p, k) \<longrightarrow> truthful q p r" for rep
    by (rule keeps_weaken [OF parse_keeps [OF assms(1)]]) (use that in auto)
  moreover have "keeps (calm A r) (m_lift (sm_check q)) (\<lambda>q'. q' = q)"
    by (auto intro!: keeps_basic dest: sm_check_same)
  ultimately show ?thesis
    unfolding good_def intrusive_def
    by (auto split: option.split intro!: keeps_bind [where R = "\<lambda>q'. q' = q"] keeps_bind [OF rpc] keeps_then keeps_basic)
qed

lemma good_spybuffer:
  assumes "inert A r" "\<And>chs w n t. DumpSpybuffer chs w n t \<in> A" "\<And>chs w n t i c. DumpSpybufferChunk chs w n t i c \<in> A"
  shows "good A r (dump_spybuffer env args chs)"
proof -
  note cmd = good_intrusive [OF assms(1), unfolded good_def, rule_format]
  show ?thesis
    unfolding good_def dump_spybuffer_def Let_def
    by (intro allI impI keeps_bind [OF cmd] keeps_bind [OF quiet_ops(4) [OF assms(1)]] cmd assms(2,3)) simp_all
qed

lemma good_intrusives:
  assumes "inert A r" "no_intrusive args"
    and "sm_do_software_trigger args \<Longrightarrow> SoftwareTrigger \<in> A"
    and "\<And>chs w n t. sm_spybuffer args \<Longrightarrow> DumpSpybuffer chs w n t \<in> A"
    and "\<And>chs w n t i c. sm_spybuffer args \<Longrightarrow> DumpSpybufferChunk chs w n t i c \<in> A"
    and m: "m \<in> set (intrusive_steps env args chs)"
  shows "good A r m"
  using m assms(2) unfolding intrusive_steps_def no_intrusive_def intrusive_if_def Let_def
  by (auto intro!: good_if good_intrusive good_spybuffer assms(1,3-5)) (auto simp: good_def intro: keeps_basic)

subsection \<open>The write-backs\<close>

lemma good_known:
  assumes "inert A r" "\<And>v x. vals_true r v \<Longrightarrow> map_of (table v) k = Some x \<Longrightarrow> req x \<in> A"
  shows "good A r (write_known env args table k req)"
  unfolding good_def write_known_def
  by (auto split: option.split intro: keeps_basic good_step [OF assms(1) assms(2), unfolded good_def, rule_format])

lemma good_note: "inert A r \<Longrightarrow> good A r (\<lambda>acc. m_then (sm_print env l) (m_ret acc))"
  unfolding good_def by (intro allI impI keeps_then quiet_ops) (auto intro: keeps_basic)

lemma good_all:
  assumes "inert A r" "\<And>v x. vals_true r v \<Longrightarrow> uniform (values v) = Some x \<Longrightarrow> req x \<in> A"
  shows "good A r (write_all env args None values req skip)"
proof -
  note steps = good_note [OF assms(1), unfolded good_def, rule_format] good_step [OF assms(1) assms(2), unfolded good_def, rule_format]
  show ?thesis
    unfolding good_def write_all_def option.case by (intro allI impI) (split option.split, use steps in blast)
qed

lemma good_regs:
  assumes "inert A r" "\<And>a g. WriteReg a g (b_reg r (a, g)) \<in> A"
  shows "good A r (write_regs env args)"
  unfolding good_def write_regs_def
proof (intro allI impI keeps_fold)
  fix acc x and a :: sm_acc
  assume v: "vals_true r (fst acc)" and x: "x \<in> set (vl_afe_reg (fst acc))" and a: "vals_true r (fst a)"
  obtain af g y where [simp]: "x = ((af, g), y)" by (metis surj_pair)
  have "y = b_reg r (af, g)" using v x by (force simp: vals_true_def table_of_def)
  then show "keeps (calm A r) ((case x of (xa, xb) \<Rightarrow> (case xa of (afe, reg) \<Rightarrow> \<lambda>v. step env args (WriteReg afe reg v)) xb) a) (\<lambda>acc'. vals_true r (fst acc'))"
    using good_step [OF assms(1,2), unfolded good_def, rule_format, OF a] by simp
qed

lemma good_writes:
  assumes "gains_off r" "no_forced args" "A = {q. exec q r = r}" "m \<in> set (write_steps env args chs afe_list [] [])"
  shows "good A r m"
proof -
  have inert: "inert A r" by (simp add: inert_def assms(3))
  have A: "q \<in> A" if "register_write q r = Some r" for q using l_exec [OF that] assms(3) by auto
  note same = same_trim [OF assms(1)] same_offset [OF assms(1)]
  have chs: "good A r (write_known env args vl_trim_single ch (\<lambda>v. WriteTrimCh ch v False))"
    "good A r (write_known env args vl_offset_single ch (\<lambda>v. WriteOffsetCh ch v False))" for ch
    by (rule good_known [OF inert A], auto simp: vals_true_def intro!: same dest: table_lookup)+
  have afs: "good A r (write_known env args vl_afe_vgain a (WriteVgain a))" "good A r (write_known env args vl_afe_bias a (WriteBias a))" for a
    by (rule good_known [OF inert A], auto simp: vals_true_def fun_upd_idem dest: table_lookup)+
  have alls: "good A r (write_all env args None vl_trim_values (\<lambda>v. WriteTrimAllCh v False) l)"
    "good A r (write_all env args None vl_offset_values (\<lambda>v. WriteOffsetAllCh v False) l)"
    "good A r (write_all env args None (\<lambda>v. of_afe (vl_trim_all_afe v) a) (\<lambda>v. WriteTrimAllAfe a v False) l)"
    "good A r (write_all env args None (\<lambda>v. of_afe (vl_offset_all_afe v) a) (\<lambda>v. WriteOffsetAllAfe a v False) l)" for l a
    by (rule good_all [OF inert A], auto simp: vals_true_def intro!: same uniform_covers lists_lookup)+
  have regs: "good A r (write_regs env args)"
    by (rule good_regs [OF inert A]) simp
  show ?thesis
    using assms(2,4) chs afs alls regs good_note [OF inert]
    unfolding write_steps_def write_channel_steps_def write_afe_steps_def write_all_afe_steps_def no_forced_def
      write_attenuation_def [abs_def] write_vbias_def [abs_def]
    by auto
qed

subsection \<open>The script\<close>

lemma good_main:
  assumes "inert A r" "calm A r s"
    and "\<And>m chs cs afl. m \<in> set (all_steps env args chs cs afl [] []) \<Longrightarrow> good A r m"
    and "sm_force_trim_afe args = []" "sm_force_offset_afe args = []"
  shows "calm A r (snd (smoketest_main env args s))"
proof -
  note ops = quiet_ops [OF assms(1)]
  have report: "keeps (calm A r) (report_failures env fs) (\<lambda>_. True)" for fs
    unfolding report_failures_def by (auto intro!: keeps_basic keeps_then keeps_for ops)
  have body: "keeps (calm A r) (in_turn (all_steps env args chs cs afl [] []) (no_vals, [])) (\<lambda>_. True)" for chs cs afl
    by (rule keeps_weaken [OF good_in_turn [OF assms(3), unfolded good_def, rule_format]]) (simp_all add: no_vals_true)
  have "keeps (calm A r) (smoketest_main env args) (\<lambda>_. True)"
    unfolding smoketest_main_def assms(4,5) parse_kv_list_def r_fold.simps m_bind_lift
    by (intro keeps_bind [OF keeps_basic(3) [OF TrueI]] keeps_bind [OF body]) (auto intro!: keeps_then ops report)
  then show ?thesis using assms(2) by (rule keepsD)
qed

text \<open>What a run sends, and what it leaves.\<close>

lemma reads_only:
  assumes "no_intrusive args" "no_forced args" "\<not> sm_do_writes args" "\<not> sm_do_software_trigger args" "\<not> sm_spybuffer args" "sent s = []"
  shows "list_all is_read (sent (snd (smoketest_main env args s))) \<and> regs (snd (smoketest_main env args s)) = regs s"
proof -
  let ?A = "{q. is_read q}"
  have inert: "inert ?A (regs s)"
    unfolding inert_def using l_exec [OF read_writes_nothing] by blast
  have "calm ?A (regs s) (snd (smoketest_main env args s))"
    by (rule good_main [OF inert])
      (use assms in \<open>auto simp: calm_def all_steps_def no_forced_def intro: good_reads [OF inert] good_intrusives [OF inert assms(1)]\<close>)
  then show ?thesis by (auto simp: calm_def list_all_iff)
qed

lemma write_back:
  assumes "no_intrusive args" "no_forced args" "gains_off (regs s)" "sent s = []"
  shows "regs (snd (smoketest_main env args s)) = regs s"
proof -
  let ?A = "{q. exec q (regs s) = regs s}"
  have inert: "inert ?A (regs s)" by (simp add: inert_def)
  have A: "q \<in> ?A" if "register_write q (regs s) = Some (regs s)" for q using l_exec [OF that] by auto
  have "good ?A (regs s) m" if "m \<in> set (all_steps env args chs cs afl [] [])" for m chs cs afl
    using that good_reads [OF inert A [OF read_writes_nothing]] good_writes [OF assms(3,2) refl]
      good_intrusives [OF inert assms(1) A A A] unfolding all_steps_def by (auto split: if_splits)
  then have "calm ?A (regs s) (snd (smoketest_main env args s))"
    by (rule good_main [OF inert, rotated]) (use assms(2,4) in \<open>auto simp: calm_def no_forced_def\<close>)
  then show ?thesis by (simp add: calm_def)
qed

end

section \<open>A board that answers at once\<close>

datatype bench_payload = BReq sm_req | BResp "int sm_resp"

record bench =
  be_regs :: board_regs
  be_sent :: "sm_req list"
  be_last :: "bench_payload ControlEnvelopeV2 option"
  be_out :: "string list"
  be_clock :: int

definition bench_exec :: "sm_req \<Rightarrow> board_regs \<Rightarrow> board_regs" where
  "bench_exec q r = (case register_write q r of None \<Rightarrow> r | Some r' \<Rightarrow> r')"

fun bench_value :: "sm_req \<Rightarrow> board_regs \<Rightarrow> int" where
  "bench_value (TrimCh ch) r = fst (b_trim r ch)" | "bench_value (OffsetCh ch) r = fst (b_offset r ch)"
| "bench_value (AfeVgain a) r = b_vgain r a" | "bench_value (AfeBias a) r = b_bias r a" | "bench_value (AfeReg a g) r = b_reg r (a, g)"
| "bench_value q r = 0"

fun bench_values :: "sm_req \<Rightarrow> board_regs \<Rightarrow> int list" where
  "bench_values TrimAllCh r = map (\<lambda>ch. fst (b_trim r ch)) [0..39]" | "bench_values OffsetAllCh r = map (\<lambda>ch. fst (b_offset r ch)) [0..39]"
| "bench_values (TrimAllAfe a) r = map (\<lambda>ch. fst (b_trim r ch)) [8 * a..8 * a + 7]"
| "bench_values (OffsetAllAfe a) r = map (\<lambda>ch. fst (b_offset r ch)) [8 * a..8 * a + 7]"
| "bench_values q r = []"

definition bench_resp :: "sm_req \<Rightarrow> board_regs \<Rightarrow> int sm_resp" where
  "bench_resp q r = \<lparr>rs_success = Some True, rs_message = [], rs_value = bench_value q r, rs_values = bench_values q r, rs_waveforms = 0,
     rs_samples = 0, rs_flag = False, rs_v_bias_0 = 0, rs_v_bias_1 = 0, rs_temperature = 0\<rparr>"

definition bench_reply :: "bench_payload ControlEnvelopeV2 \<Rightarrow> board_regs \<Rightarrow> bench_payload ControlEnvelopeV2" where
  "bench_reply e r = e\<lparr>dir := DIR_RESPONSE, etype := etype e + 1, correl_id := msg_id e,
     payload := (case payload e of BReq q \<Rightarrow> BResp (bench_resp q r) | p \<Rightarrow> p)\<rparr>"

definition bench_send :: "bench_payload ControlEnvelopeV2 \<Rightarrow> bench \<Rightarrow> bench" where
  "bench_send e s = (case payload e of
     BReq q \<Rightarrow> s\<lparr>be_regs := bench_exec q (be_regs s), be_sent := be_sent s @ [q], be_last := Some e\<rparr> | _ \<Rightarrow> s)"

definition bench_sock :: "(bench, bench_payload ControlEnvelopeV2) zsock" where
  "bench_sock = \<lparr>z_timeout = (\<lambda>_. m_ret ()), z_send = (\<lambda>e. m_modify (bench_send e)),
     z_recv = (\<lambda>s. case be_last s of None \<Rightarrow> (Inl ZmqAgain, s) | Some e \<Rightarrow> (Inr [bench_reply e (be_regs s)], s\<lparr>be_last := None\<rparr>)),
     z_close = m_ret (), time_ns = (\<lambda>s. (Inr (be_clock s), s\<lparr>be_clock := be_clock s + 1\<rparr>)), randrange = (\<lambda>_. m_ret 4)\<rparr>"

definition bench_env :: "(bench, bench_payload ControlEnvelopeV2, bench_payload, int) sm_env" where
  "bench_env = \<lparr>sm_sock = bench_sock, sm_poll = (\<lambda>_. m_ret True), sm_envc = \<lparr>ser = (\<lambda>e. e), par = Some, blen = (\<lambda>_. 1)\<rparr>,
     ser_sm = BReq, respc_sm = (\<lambda>_. \<lparr>ser = BResp, par = (\<lambda>p. case p of BResp r \<Rightarrow> Some r | _ \<Rightarrow> None), blen = (\<lambda>_. 1)\<rparr>),
     sm_print = (\<lambda>l. m_modify (\<lambda>s. s\<lparr>be_out := be_out s @ [l]\<rparr>)), sm_floats = int_floats, sm_exc = (\<lambda>_. ''error''),
     sm_uuid = m_ret ''0'', sm_json = (\<lambda>_ _. Inl (OSError 2)), sm_trunc = (\<lambda>_. Inl (ValueError []))\<rparr>"

lemma bench_truthful: "truthful q (bench_resp q r) r"
  by (cases q) (auto simp: bench_resp_def covers_def board_channels_def afe_channels_def)

lemma bench_exchange:
  "sm_exchange bench_env (ser (sm_envc bench_env) (request_envelope (sm_type q) (ser_sm bench_env q) rt ids ts)) tmo s =
     (Inr [bench_reply (request_envelope (sm_type q) (BReq q) rt ids ts) (bench_exec q (be_regs s))],
      s\<lparr>be_regs := bench_exec q (be_regs s), be_sent := be_sent s @ [q], be_last := None\<rparr>)"
  by (simp add: sm_exchange_def bench_env_def bench_sock_def bench_send_def request_envelope_def m_then_def m_bind_def py_run)

interpretation bench: register_board bench_env be_regs be_sent bench_exec
proof
  fix q r r'
  show "register_write q r = Some r' \<Longrightarrow> bench_exec q r = r' \<or> bench_exec q r = r" by (simp add: bench_exec_def)
next
  fix s n l
  note quiet = bench_env_def bench_sock_def py_run runs_none
  show "be_sent (snd (time_ns (sm_sock bench_env) s)) = be_sent s \<and>
      runs bench_exec (set (be_sent s)) (be_regs s) (be_regs (snd (time_ns (sm_sock bench_env) s)))"
    "be_sent (snd (randrange (sm_sock bench_env) n s)) = be_sent s \<and>
      runs bench_exec (set (be_sent s)) (be_regs s) (be_regs (snd (randrange (sm_sock bench_env) n s)))"
    "be_sent (snd (sm_print bench_env l s)) = be_sent s \<and> runs bench_exec (set (be_sent s)) (be_regs s) (be_regs (snd (sm_print bench_env l s)))"
    "be_sent (snd (sm_uuid bench_env s)) = be_sent s \<and> runs bench_exec (set (be_sent s)) (be_regs s) (be_regs (snd (sm_uuid bench_env s)))"
    "be_sent (snd (z_close (sm_sock bench_env) s)) = be_sent s \<and>
      runs bench_exec (set (be_sent s)) (be_regs s) (be_regs (snd (z_close (sm_sock bench_env) s)))"
    by (simp_all add: quiet)
next
  fix q rt ids ts tmo x t and s :: bench
  have one: "runs bench_exec (insert q (set (be_sent s))) (be_regs s) (bench_exec q (be_regs s))"
    by (rule runs_one [OF runs_none]) simp
  assume "sm_exchange bench_env (ser (sm_envc bench_env) (request_envelope (sm_type q) (ser_sm bench_env q) rt ids ts)) tmo s = (x, t)"
  with one show "(be_sent t = be_sent s \<or> be_sent t = be_sent s @ [q]) \<and> runs bench_exec (insert q (set (be_sent s))) (be_regs s) (be_regs t)"
    unfolding bench_exchange by auto
next
  fix q rt ids ts tmo frames t reply rep p k and s :: bench
  have one: "runs bench_exec (insert q (set (be_sent s))) (be_regs s) (bench_exec q (be_regs s))"
    by (rule runs_one [OF runs_none]) simp
  assume "sm_exchange bench_env (ser (sm_envc bench_env) (request_envelope (sm_type q) (ser_sm bench_env q) rt ids ts)) tmo s = (Inr frames, t)"
    "ParseFromString (sm_envc bench_env) (last frames) = Inr reply" "sm_accept (snd ids) reply = Inr rep" "etype rep = sm_type q + 1"
    "ParseFromString (respc_sm bench_env q) (payload rep) = Inr (p, k)"
  then have "p = bench_resp q (bench_exec q (be_regs s))"
    unfolding bench_exchange
    by (auto simp: ParseFromString_def bench_env_def bench_reply_def request_envelope_def sm_accept_def split: if_splits)
  with one bench_truthful show "\<exists>r'. runs bench_exec (insert q (set (be_sent s))) (be_regs s) r' \<and> truthful q p r'" by blast
qed

definition bench0 :: bench where
  "bench0 = \<lparr>be_regs = \<lparr>b_trim = (\<lambda>ch. (ch + 5, False)), b_offset = (\<lambda>ch. (2275, False)), b_vgain = (\<lambda>a. 1000 + a), b_bias = (\<lambda>a. 800),
     b_reg = (\<lambda>_. 3)\<rparr>, be_sent = [], be_last = None, be_out = [], be_clock = 0\<rparr>"

section \<open>What a run does to the board\<close>

text \<open>C35: Without \<open>--do-writes\<close>, forced values and intrusive options, every request a run of the smoke test sends is a read request,
  and the registers are afterwards as before, on every exit of the script.\<close>

theorem default_run_reads_only:
  assumes "register_board env regs sent exec"
    and "no_intrusive args" "no_forced args" "\<not> sm_do_writes args" "\<not> sm_do_software_trigger args" "\<not> sm_spybuffer args"
    and "sent s = []"
  shows "list_all is_read (sent (snd (smoketest_main env args s))) \<and> regs (snd (smoketest_main env args s)) = regs s"
  using assms by (rule register_board.reads_only)

theorem default_run_reads_only_witness:
  "list_all is_read (be_sent (snd (smoketest_main bench_env sm_defaults bench0))) \<and>
   be_regs (snd (smoketest_main bench_env sm_defaults bench0)) = be_regs bench0"
  by (rule default_run_reads_only [OF bench.register_board_axioms]) (simp_all add: sm_defaults_def no_intrusive_def no_forced_def bench0_def)

text \<open>C34: The write-backs of \<open>--do-writes\<close> are safe: on a board that answers reads with the values it holds and has no gain bit
  set, a run without forced values and intrusive options leaves every trim, offset, gain, bias and AFE register as it was, even
  if requests are executed late, twice or never and the script stops at any point. (The write-backs send the gain bits as false.)\<close>

theorem write_back_restores:
  assumes "register_board env regs sent exec" and "no_intrusive args" "no_forced args" and "gains_off (regs s)" and "sent s = []"
  shows "regs (snd (smoketest_main env args s)) = regs s"
  using assms by (rule register_board.write_back)

theorem write_back_restores_witness:
  "be_regs (snd (smoketest_main bench_env (sm_defaults\<lparr>sm_do_writes := True, sm_afe_reg := [(''0'', ''51'')]\<rparr>) bench0)) = be_regs bench0"
  by (rule write_back_restores [OF bench.register_board_axioms])
    (simp_all add: sm_defaults_def no_intrusive_def no_forced_def gains_off_def bench0_def)

end
