(* ===== verification/Vbias_Monitor.thy ===== *)
theory Vbias_Monitor
  imports Scan_Runtime Fe_Config V2_Rpc
begin

text \<open>
  The small monitoring clients: \<open>client/vbias_monitor_once.py\<close>, \<open>client/vbias_monitor_all.py\<close>, \<open>client/testreg_v2.py\<close> and
  \<open>client/read_general_info_v2.py\<close>.

  The histories of \<open>vbias_monitor_all\<close> are an association list from names to bounded queues. Its endless loop is \<open>vb_rounds n\<close>,
  the first \<open>n\<close> rounds, after which the user interrupts it. The regular expression of \<open>parse_rails\<close> is the matcher \<open>match_rail\<close>
  with the scan \<open>findall_rails\<close>; every part of the expression is determined by the next character, so the matcher does not
  backtrack. Drawing is the parameter \<open>vb_plot\<close>.
\<close>

section \<open>Requests\<close>

definition MT2_READ_BIAS_VOLTAGE_MONITOR_REQ :: int where "MT2_READ_BIAS_VOLTAGE_MONITOR_REQ = 246"
definition MT2_READ_BIAS_VOLTAGE_MONITOR_RESP :: int where "MT2_READ_BIAS_VOLTAGE_MONITOR_RESP = 247"
definition MT2_READ_TEST_REG_REQ :: int where "MT2_READ_TEST_REG_REQ = 304"
definition MT2_READ_TEST_REG_RESP :: int where "MT2_READ_TEST_REG_RESP = 305"
definition MT2_READ_GENERAL_INFO_REQ :: int where "MT2_READ_GENERAL_INFO_REQ = 322"
definition MT2_READ_GENERAL_INFO_RESP :: int where "MT2_READ_GENERAL_INFO_RESP = 323"

text \<open>An envelope whose identifiers have one value and whose clock is not set.\<close>

definition plain_envelope :: "int \<Rightarrow> 'p \<Rightarrow> string \<Rightarrow> int \<Rightarrow> 'p ControlEnvelopeV2" where
  "plain_envelope mt body rt i = request_envelope mt body rt (i, i) 0"

text \<open>One request and the frames of its reply.\<close>

definition ask :: "('s, 'w) zsock \<Rightarrow> ('w, 'p ControlEnvelopeV2) codec \<Rightarrow> 'p ControlEnvelopeV2 \<Rightarrow> ('s, 'w list) py" where
  "ask zs envc env = m_then (z_send zs (ser envc env)) (z_recv zs)"

record vb_resp =
  vr_success :: bool
  vr_message :: string
  vr_afeBlock :: int
  vr_value :: int

type_synonym 'f vb_history = "(string \<times> 'f list) list"

record ('s, 'w, 'p, 'f) vb_env =
  vb_sock :: "('s, 'w) zsock"
  vb_envc :: "('w, 'p ControlEnvelopeV2) codec"
  vb_ser :: "int \<Rightarrow> 'p"
  vb_respc :: "('p, vb_resp) codec"
  vb_print :: "string \<Rightarrow> ('s, unit) py"
  vb_write :: "string \<Rightarrow> ('s, unit) py"
  vb_columns :: "('s, int) py"
  vb_time :: "('s, 'f) py"
  vb_sleep :: "'f \<Rightarrow> ('s, unit) py"
  vb_floats :: "'f float_ops"
  vb_sub :: "'f \<Rightarrow> 'f \<Rightarrow> 'f"
  vb_exc :: "exn \<Rightarrow> string"
  vb_matplotlib :: bool
  vb_plot :: "'f vb_history \<Rightarrow> bool \<Rightarrow> ('s, unit) py"

definition bias_envelope :: "('s, 'w, 'p, 'f) vb_env \<Rightarrow> string \<Rightarrow> int \<Rightarrow> 'p ControlEnvelopeV2" where
  "bias_envelope env rt afe = plain_envelope MT2_READ_BIAS_VOLTAGE_MONITOR_REQ (vb_ser env afe) rt 0"

definition read_one :: "('s, 'w, 'p, 'f) vb_env \<Rightarrow> string \<Rightarrow> int \<Rightarrow> ('s, vb_resp) py" where
  "read_one env rt afe =
     m_bind (m_lift (uint_field 32 afe)) (\<lambda>afe.
     m_bind (ask (vb_sock env) (vb_envc env) (bias_envelope env rt afe)) (\<lambda>frames.
     m_bind (m_lift (ParseFromString (vb_envc env) (last frames))) (\<lambda>(rep, n).
     if etype rep \<noteq> MT2_READ_BIAS_VOLTAGE_MONITOR_RESP then m_raise (RuntimeError ''Unexpected reply type'')
     else m_bind (m_lift (ParseFromString (vb_respc env) (payload rep))) (\<lambda>(out, k). m_ret out))))"

section \<open>\<open>vbias_monitor_once\<close>\<close>

definition milli :: "'f float_ops \<Rightarrow> int \<Rightarrow> 'f" where
  "milli F mv = f_div F (f_of_int F mv) (f_lit F ''1000.0'')"

definition once_reply :: "('s, 'w, 'p, 'f) vb_env \<Rightarrow> 'w list \<Rightarrow> ('s, int) py" where
  "once_reply env frames =
     m_bind (m_lift (ParseFromString (vb_envc env) (last frames))) (\<lambda>(rep, n).
     if etype rep \<noteq> MT2_READ_BIAS_VOLTAGE_MONITOR_RESP
     then m_then (vb_print env (''[error] unexpected reply type '' @ int_to_str (etype rep))) (m_ret 2)
     else m_bind (m_lift (ParseFromString (vb_respc env) (payload rep))) (\<lambda>(out, k).
       if \<not> vr_success out then m_then (vb_print env (''[server error] '' @ vr_message out)) (m_ret 2)
       else m_then (vb_print env (''AFE '' @ int_to_str (vr_afeBlock out) @ '' bias = '' @ f_fix (vb_floats env) 3 (milli (vb_floats env) (vr_value out)) @
              '' V ('' @ int_to_str (vr_value out) @ '' mV)   message='' @ [tick] @ vr_message out @ [tick])) (m_ret 0)))"

definition vbias_once_main :: "('s, 'w, 'p, 'f) vb_env \<Rightarrow> string \<Rightarrow> int \<Rightarrow> ('s, int) py" where
  "vbias_once_main env rt afe =
     m_bind (m_lift (uint_field 32 afe)) (\<lambda>afe.
     m_bind (m_try (m_bind (ask (vb_sock env) (vb_envc env) (bias_envelope env rt afe)) (\<lambda>frames. m_ret (Some frames)))
       (\<lambda>e. if e = ZmqAgain then m_then (vb_print env ''[timeout] no reply'') (m_ret None) else m_raise e)) (\<lambda>got.
     case got of None \<Rightarrow> m_ret 2 | Some frames \<Rightarrow> once_reply env frames))"

section \<open>The rails in a message\<close>

definition is_digit :: "char \<Rightarrow> bool" where
  "is_digit c \<longleftrightarrow> 48 \<le> (of_char c :: nat) \<and> (of_char c :: nat) \<le> 57"

definition is_name_char :: "char \<Rightarrow> bool" where
  "is_name_char c \<longleftrightarrow> is_digit c \<or> (65 \<le> (of_char c :: nat) \<and> (of_char c :: nat) \<le> 90)"

text \<open>\<open>(?:\.\d+)?\<close> after the digits, \<open>[-]?\d+(?:\.\d+)?\<close>, and the whole expression at the head of a text.\<close>

definition match_fraction :: "string \<Rightarrow> string \<times> string" where
  "match_fraction s = (case s of c # t \<Rightarrow>
       if c = CHR ''.'' \<and> takeWhile is_digit t \<noteq> [] then (CHR ''.'' # takeWhile is_digit t, dropWhile is_digit t) else ([], s)
     | [] \<Rightarrow> ([], s))"

definition match_unsigned :: "string \<Rightarrow> (string \<times> string) option" where
  "match_unsigned s =
     (let ds = takeWhile is_digit s in
      if ds = [] then None
      else case match_fraction (dropWhile is_digit s) of (fr, rest) \<Rightarrow> Some (ds @ fr, rest))"

definition match_number :: "string \<Rightarrow> (string \<times> string) option" where
  "match_number s = (case s of
       c # t \<Rightarrow> if c = CHR ''-'' then map_option (\<lambda>(v, rest). (CHR ''-'' # v, rest)) (match_unsigned t) else match_unsigned s
     | [] \<Rightarrow> None)"

definition match_rail :: "string \<Rightarrow> (string \<times> string \<times> string) option" where
  "match_rail s =
     (let name = takeWhile is_name_char s in
      if name = [] then None
      else case dropWhile is_name_char s of
        c # t \<Rightarrow> if c = CHR '':'' then map_option (\<lambda>(v, rest). (name, v, rest)) (match_number (dropWhile is_space t)) else None
      | [] \<Rightarrow> None)"

lemma length_dropWhile_tl: "dropWhile P s = c # t \<Longrightarrow> length t < length s"
  by (metis Suc_le_eq length_Cons length_dropWhile_le)

lemma match_fraction_shorter: "match_fraction s = (v, rest) \<Longrightarrow> length rest \<le> length s"
  by (auto simp: match_fraction_def split: list.splits if_splits intro: le_SucI length_dropWhile_le)

lemma match_unsigned_shorter: "match_unsigned s = Some (v, rest) \<Longrightarrow> length rest \<le> length s"
  by (auto simp: match_unsigned_def Let_def split: if_splits prod.splits dest!: match_fraction_shorter intro: order_trans [OF _ length_dropWhile_le])

lemma match_number_shorter: "match_number s = Some (v, rest) \<Longrightarrow> length rest \<le> length s"
  by (auto simp: match_number_def split: list.splits if_splits dest!: match_unsigned_shorter)

lemma match_rail_shorter: "match_rail s = Some (n, v, rest) \<Longrightarrow> length rest < length s"
proof -
  assume "match_rail s = Some (n, v, rest)"
  then obtain t where t: "dropWhile is_name_char s = CHR '':'' # t" "match_number (dropWhile is_space t) = Some (v, rest)"
    by (auto simp: match_rail_def Let_def split: if_splits list.splits)
  have "length rest \<le> length (dropWhile is_space t)" using t(2) by (rule match_number_shorter)
  also have "\<dots> \<le> length t" by (rule length_dropWhile_le)
  also have "\<dots> < length s" using t(1) by (rule length_dropWhile_tl)
  finally show ?thesis .
qed

text \<open>\<open>re.findall\<close>: the matches from left to right, each search going on after the last match.\<close>

function findall_rails :: "string \<Rightarrow> (string \<times> string) list" where
  "findall_rails [] = []"
| "findall_rails (c # s) = (case match_rail (c # s) of None \<Rightarrow> findall_rails s | Some (n, v, rest) \<Rightarrow> (n, v) # findall_rails rest)"
  by pat_completeness auto
termination
  by (relation "measure length") (auto dest: match_rail_shorter)

definition py_float :: "'f float_ops \<Rightarrow> string \<Rightarrow> 'f result" where
  "py_float F t = r_of_option (ValueError ''could not convert string to float'') (f_parse F t)"

definition parse_rails :: "'f float_ops \<Rightarrow> string \<Rightarrow> (string \<times> 'f) list result" where
  "parse_rails F msg =
     r_fold (\<lambda>(name, val) rails.
       r_bind (py_float F val) (\<lambda>x. Inr (AList.update (if name = ''-5VA'' then ''5VA'' else name) x rails))) (findall_rails msg) []"

section \<open>\<open>vbias_monitor_all\<close>\<close>

record 'f vb_args =
  vb_route :: string
  vb_afe_expr :: string
  vb_interval :: 'f
  vb_max_points :: int
  vb_no_plot :: bool
  vb_status :: bool

text \<open>The queues by name, and \<open>append\<close> to one of them.\<close>

definition queue_of :: "'f vb_history \<Rightarrow> string \<Rightarrow> 'f list" where
  "queue_of h k = (case map_of h k of None \<Rightarrow> [] | Some q \<Rightarrow> q)"

definition push :: "nat \<Rightarrow> string \<Rightarrow> 'f \<Rightarrow> 'f vb_history \<Rightarrow> 'f vb_history" where
  "push n k x h = AList.update k (deque_push n (queue_of h k) x) h"

definition names_rails :: "string list" where
  "names_rails = [''3V3PDS'', ''1V8PDS'', ''3V3A'', ''1V8A'', ''5VA'']"

definition bias_name :: "int \<Rightarrow> string" where
  "bias_name i = ''BIAS'' @ int_to_str i"

definition empty_history :: "int list \<Rightarrow> 'f vb_history" where
  "empty_history afl = fold (\<lambda>k. AList.update k []) (names_rails @ map bias_name afl @ [''t'']) []"

definition push_rail :: "nat \<Rightarrow> (string \<times> 'f) list \<Rightarrow> string \<Rightarrow> 'f vb_history \<Rightarrow> 'f vb_history" where
  "push_rail n rails name h = (case map_of rails name of None \<Rightarrow> h | Some x \<Rightarrow> push n name x h)"

definition record_reading :: "'f float_ops \<Rightarrow> nat \<Rightarrow> vb_resp \<Rightarrow> 'f vb_history \<times> bool \<Rightarrow> ('f vb_history \<times> bool) result" where
  "record_reading F n out acc = (case acc of (h, rails_read) \<Rightarrow>
     let h = push n (bias_name (vr_afeBlock out)) (milli F (vr_value out)) h in
     if rails_read then Inr (h, True)
     else r_bind (parse_rails F (vr_message out)) (\<lambda>rails. Inr (fold (push_rail n rails) names_rails h, True)))"

text \<open>One AFE: a timeout, an exception and a reply that reports a failure are printed and skipped.\<close>

definition reading :: "('s, 'w, 'p, 'f) vb_env \<Rightarrow> string \<Rightarrow> int \<Rightarrow> ('s, vb_resp option) py" where
  "reading env rt afe =
     m_bind (m_except (m_bind (read_one env rt afe) (\<lambda>out. m_ret (Some out)))
       (\<lambda>e. m_then (vb_print env (if e = ZmqAgain then ''[timeout] afe='' @ int_to_str afe @ '' no reply''
                else ''[error] afe='' @ int_to_str afe @ '' '' @ vb_exc env e)) (m_ret None))) (\<lambda>got.
     case got of None \<Rightarrow> m_ret None
     | Some out \<Rightarrow>
         if vr_success out then m_ret (Some out)
         else m_then (vb_print env (''[server error] afe='' @ int_to_str afe @ '' message='' @ [tick] @ vr_message out @ [tick])) (m_ret None))"

definition poll_afe :: "('s, 'w, 'p, 'f) vb_env \<Rightarrow> 'f vb_args \<Rightarrow> int \<Rightarrow> 'f vb_history \<times> bool \<Rightarrow> ('s, 'f vb_history \<times> bool) py" where
  "poll_afe env args afe acc =
     m_bind (reading env (vb_route args) afe) (\<lambda>got.
     case got of None \<Rightarrow> m_ret acc | Some out \<Rightarrow> m_lift (record_reading (vb_floats env) (nat (vb_max_points args)) out acc))"

definition slice_to :: "int \<Rightarrow> 'a list \<Rightarrow> 'a list" where
  "slice_to n xs = (if 0 \<le> n then take (nat n) xs else take (length xs - nat (- n)) xs)"

definition vb_print_status :: "('s, 'w, 'p, 'f) vb_env \<Rightarrow> 'f vb_args \<Rightarrow> string \<Rightarrow> ('s, unit) py" where
  "vb_print_status env args line =
     (if \<not> vb_status args then m_ret ()
      else m_bind (vb_columns env) (\<lambda>cols.
        vb_write env ([CHR 0x0D, CHR 0x1B] @ ''[K'' @ (if cols \<le> int (length line) then slice_to (cols - 1) line else line))))"

definition latest :: "'f float_ops \<Rightarrow> 'f vb_history \<Rightarrow> string list \<Rightarrow> string" where
  "latest F h names = join_with '' '' (map (\<lambda>n. n @ ''='' @ f_fix F 3 (last (queue_of h n))) (filter (\<lambda>n. queue_of h n \<noteq> []) names))"

definition status_line :: "'f float_ops \<Rightarrow> int list \<Rightarrow> 'f vb_history \<Rightarrow> bool \<Rightarrow> string" where
  "status_line F afl h rails_read =
     join_with '' | '' ((if rails_read then [''Rails: '' @ latest F h names_rails] else []) @ [''Biases: '' @ latest F h (map bias_name afl)])"

definition vb_round :: "('s, 'w, 'p, 'f) vb_env \<Rightarrow> 'f vb_args \<Rightarrow> int list \<Rightarrow> 'f \<Rightarrow> 'f vb_history \<Rightarrow> ('s, 'f vb_history) py" where
  "vb_round env args afl start h =
     m_bind (vb_time env) (\<lambda>t.
     m_bind (m_fold (poll_afe env args) afl (h, False)) (\<lambda>(h, rails_read).
     let h = push (nat (vb_max_points args)) ''t'' (vb_sub env t start) h in
     m_then (vb_print_status env args (status_line (vb_floats env) afl h rails_read))
     (m_then (m_when (\<not> vb_no_plot args \<and> vb_matplotlib env) (vb_plot env h rails_read))
     (m_then (vb_sleep env (vb_interval args)) (m_ret h)))))"

fun vb_rounds :: "nat \<Rightarrow> ('s, 'w, 'p, 'f) vb_env \<Rightarrow> 'f vb_args \<Rightarrow> int list \<Rightarrow> 'f \<Rightarrow> 'f vb_history \<Rightarrow> ('s, 'f vb_history) py" where
  "vb_rounds 0 env args afl start h = m_ret h"
| "vb_rounds (Suc n) env args afl start h = m_bind (vb_round env args afl start h) (vb_rounds n env args afl start)"

definition vbias_all_main :: "nat \<Rightarrow> ('s, 'w, 'p, 'f) vb_env \<Rightarrow> 'f vb_args \<Rightarrow> ('s, 'f vb_history) py" where
  "vbias_all_main n env args =
     m_bind (m_lift (parse_channels (vb_afe_expr args))) (\<lambda>afl.
     m_bind (m_lift (if vb_max_points args < 0 then Inl (ValueError ''maxlen must be non-negative'') else Inr ())) (\<lambda>_.
     m_bind (vb_time env) (\<lambda>start.
     m_bind (vb_rounds n env args afl start (empty_history afl)) (\<lambda>h.
     m_then (vb_print env (CHR 0x0A # ''Stopped by user.'')) (m_ret h)))))"

section \<open>\<open>testreg_v2\<close> and \<open>read_general_info_v2\<close>\<close>

text \<open>The payloads are the request and the fields the scripts print.\<close>

definition testreg_main ::
  "('s, 'w) zsock \<Rightarrow> ('w, 'p ControlEnvelopeV2) codec \<Rightarrow> 'p \<Rightarrow> ('p, int \<times> string) codec \<Rightarrow> (string \<Rightarrow> ('s, unit) py) \<Rightarrow> string \<Rightarrow> ('s, int) py" where
  "testreg_main zs envc req respc pr rt =
     m_bind (ask zs envc (plain_envelope MT2_READ_TEST_REG_REQ req rt 0)) (\<lambda>frames.
     m_bind (m_lift (ParseFromString envc (last frames))) (\<lambda>(rep, n).
     if etype rep \<noteq> MT2_READ_TEST_REG_RESP then m_then (pr (''[FAIL] unexpected type '' @ int_to_str (etype rep))) (m_ret 2)
     else m_bind (m_lift (ParseFromString respc (payload rep))) (\<lambda>(out, k).
       m_then (pr (''[OK] test-reg value = 0x'' @ fmt_hex 8 (fst out) @ ''  ('' @ snd out @ '')'')) (m_ret 0))))"

record 'f GeneralInfo =
  gi_v_bias :: "'f list"
  gi_power_minus5v :: 'f
  gi_power_plus2p5v :: 'f
  gi_power_ce :: 'f
  gi_temperature :: 'f

text \<open>The field \<open>temperature\<close> has no presence, so it is always printed. \<open>gi_v_bias\<close> lists \<open>v_bias_0\<close> to \<open>v_bias_4\<close>.\<close>

definition info_lines :: "'f float_ops \<Rightarrow> 'f GeneralInfo \<Rightarrow> string list" where
  "info_lines F g =
     [''GeneralInfo:'']
     @ map (\<lambda>(i, v). ''  v_bias_'' @ int_to_str (int i) @ '':     '' @ f_fix F 5 v @ '' V'') (enumerate 0 (gi_v_bias g))
     @ [''  power_minus5v:'' @ f_fix F 5 (gi_power_minus5v g) @ '' V (rail)'', ''  power_plus2p5v:'' @ f_fix F 5 (gi_power_plus2p5v g) @ '' V (rail)'',
        ''  power_ce:     '' @ f_fix F 5 (gi_power_ce g) @ '' V (rail)'', ''  temperature:  '' @ f_fix F 5 (gi_temperature g) @ '' C'']"

definition general_info_main ::
  "('s, 'w) zsock \<Rightarrow> ('w, 'p ControlEnvelopeV2) codec \<Rightarrow> (int \<Rightarrow> 'p) \<Rightarrow> ('p, 'f GeneralInfo) codec \<Rightarrow> 'f float_ops \<Rightarrow> (string \<Rightarrow> ('s, unit) py) \<Rightarrow>
   string \<Rightarrow> int \<Rightarrow> ('s, unit) py" where
  "general_info_main zs envc req respc F pr rt level =
     m_bind (m_lift (uint_field 32 level)) (\<lambda>level.
     m_bind (ask zs envc (plain_envelope MT2_READ_GENERAL_INFO_REQ (req level) rt 1)) (\<lambda>frames.
     m_bind (m_lift (ParseFromString envc (last frames))) (\<lambda>(rep, n).
     if etype rep \<noteq> MT2_READ_GENERAL_INFO_RESP then m_raise (RuntimeError ''Unexpected reply type'')
     else m_bind (m_lift (ParseFromString respc (payload rep))) (\<lambda>(g, k). m_for (info_lines F g) pr))))"

section \<open>Numbers and queues\<close>

text \<open>The texts the expression matches as a number; \<open>float\<close> reads them all.\<close>

definition decimal :: "string \<Rightarrow> bool" where
  "decimal v \<longleftrightarrow> match_number v = Some (v, [])"

lemma takeWhile_all [simp]: "takeWhile P (takeWhile P xs) = takeWhile P xs" "dropWhile P (takeWhile P xs) = []"
  by (induction xs) auto

lemma takeWhile_stop: "\<not> P c \<Longrightarrow> takeWhile P (takeWhile P xs @ c # ys) = takeWhile P xs \<and> dropWhile P (takeWhile P xs @ c # ys) = c # ys"
  by (induction xs) auto

lemma match_unsigned_whole: "match_unsigned s = Some (v, rest) \<Longrightarrow> match_unsigned v = Some (v, []) \<and> v \<noteq> [] \<and> hd v \<noteq> CHR ''-''"
proof -
  have dot: "\<not> is_digit CHR ''.''" and minus: "\<not> is_digit CHR ''-''" by (simp_all add: is_digit_def)
  assume m: "match_unsigned s = Some (v, rest)"
  let ?ds = "takeWhile is_digit s"
  obtain fr where v: "v = ?ds @ fr" "match_fraction (dropWhile is_digit s) = (fr, rest)" and ds: "?ds \<noteq> []"
    using m by (auto simp: match_unsigned_def Let_def split: if_splits prod.splits)
  have "hd ?ds \<noteq> CHR ''-''" using ds minus by (metis hd_in_set set_takeWhileD)
  moreover have "fr = [] \<or> (\<exists>t. fr = CHR ''.'' # takeWhile is_digit t \<and> takeWhile is_digit t \<noteq> [])"
    using v(2) by (auto simp: match_fraction_def split: list.splits if_splits)
  ultimately show ?thesis
    using v(1) ds dot by (auto simp: match_unsigned_def match_fraction_def takeWhile_stop Let_def)
qed

lemma match_number_decimal: "match_number s = Some (v, rest) \<Longrightarrow> decimal v"
proof -
  assume m: "match_number s = Some (v, rest)"
  then obtain c t where s: "s = c # t" by (cases s) (auto simp: match_number_def)
  show ?thesis
  proof (cases "c = CHR ''-''")
    case True
    with m s obtain w where "v = CHR ''-'' # w" "match_unsigned t = Some (w, rest)" by (auto simp: match_number_def)
    then show ?thesis using match_unsigned_whole by (fastforce simp: decimal_def match_number_def)
  next
    case False
    with m s have "match_unsigned s = Some (v, rest)" by (simp add: match_number_def)
    from match_unsigned_whole [OF this] show ?thesis by (cases v) (auto simp: decimal_def match_number_def)
  qed
qed

lemma findall_decimal: "(n, v) \<in> set (findall_rails s) \<Longrightarrow> decimal v"
proof (induction s rule: findall_rails.induct)
  case (2 c s)
  have "decimal w" if "match_rail (c # s) = Some (m, w, rest)" for m w rest
    using that by (auto simp: match_rail_def Let_def split: if_splits list.splits dest: match_number_decimal)
  then show ?case using 2 by (auto split: option.splits)
qed simp

lemma parse_rails_returns:
  assumes "\<And>v. decimal v \<Longrightarrow> f_parse F v \<noteq> None"
  shows "\<exists>rails. parse_rails F msg = Inr rails"
  unfolding parse_rails_def
proof (rule r_fold_returns)
  fix x acc assume "x \<in> set (findall_rails msg)"
  then have "f_parse F (snd x) \<noteq> None" using assms findall_decimal by (metis prod.collapse)
  then show "\<exists>b. (case x of (name, val) \<Rightarrow> \<lambda>rails. r_bind (py_float F val) (\<lambda>x. Inr (AList.update (if name = ''-5VA'' then ''5VA'' else name) x rails))) acc = Inr b"
    by (cases x) (auto simp: py_float_def)
qed

lemma queue_of_push: "queue_of (push n k x h) k' = (if k' = k then deque_push n (queue_of h k) x else queue_of h k')"
  by (simp add: queue_of_def push_def update_conv')

lemma queue_of_rails: "k \<notin> set names \<Longrightarrow> queue_of (fold (push_rail n rails) names h) k = queue_of h k"
  by (induction names arbitrary: h) (auto simp: push_rail_def queue_of_push split: option.split)

lemma bias_name_simps [simp]: "bias_name a = bias_name b \<longleftrightarrow> a = b" "bias_name a \<noteq> ''t''" "''t'' \<noteq> bias_name a" "bias_name a \<notin> set names_rails" "''t'' \<notin> set names_rails"
  by (simp_all add: bias_name_def names_rails_def)

lemma queue_of_empty: "queue_of (empty_history afl) k = ([] :: 'f list)"
proof -
  have "queue_of (fold (\<lambda>k. AList.update k []) ks h) k = []" if "queue_of h k = []" for ks and h :: "'f vb_history"
    using that by (induction ks arbitrary: h) (auto simp: queue_of_def update_conv')
  moreover have "queue_of [] k = ([] :: 'f list)" by (simp add: queue_of_def)
  ultimately show ?thesis unfolding empty_history_def by blast
qed

text \<open>The values of one AFE in a list of readings, and how a reading extends the queues.\<close>

definition volts :: "'f float_ops \<Rightarrow> int \<Rightarrow> vb_resp list \<Rightarrow> 'f list" where
  "volts F a outs = map (\<lambda>o1. milli F (vr_value o1)) (filter (\<lambda>o1. vr_afeBlock o1 = a) outs)"

lemma record_queues:
  assumes "record_reading F n out (h, rr) = Inr (h', rr')"
  shows "queue_of h' ''t'' = queue_of h ''t''"
    and "queue_of h (bias_name a) = last_n n vs \<Longrightarrow> queue_of h' (bias_name a) = last_n n (vs @ volts F a [out])"
  using assms
  by (auto simp: record_reading_def Let_def r_bind_ok queue_of_rails queue_of_push volts_def deque_push_last_n split: if_splits)

lemma record_returns:
  assumes "\<And>v. decimal v \<Longrightarrow> f_parse F v \<noteq> None"
  shows "\<exists>h' rr'. record_reading F n out (h, rr) = Inr (h', rr')"
proof -
  obtain rails where "parse_rails F (vr_message out) = Inr rails" using parse_rails_returns [OF assms] by blast
  then show ?thesis by (cases rr) (auto simp: record_reading_def Let_def)
qed

section \<open>A board that is read\<close>

text \<open>What one read makes of the frames of a reply: a buffer that does not parse, a reply of another type and a payload
  that does not parse are errors.\<close>

definition decode_reply :: "('s, 'w, 'p, 'f) vb_env \<Rightarrow> 'w list \<Rightarrow> vb_resp result" where
  "decode_reply env frames =
     r_bind (ParseFromString (vb_envc env) (last frames)) (\<lambda>(rep, n).
     if etype rep \<noteq> MT2_READ_BIAS_VOLTAGE_MONITOR_RESP then Inl (RuntimeError ''Unexpected reply type'')
     else r_bind (ParseFromString (vb_respc env) (payload rep)) (\<lambda>(out, k). Inr out))"

text \<open>The reading of AFE \<open>a\<close> in round \<open>k\<close> when the exchange ends with \<open>wire k a\<close>, an exception or the frames received:
  the decoded response when it reports success, and nothing in all other cases.\<close>

definition success_of :: "('s, 'w, 'p, 'f) vb_env \<Rightarrow> (nat \<Rightarrow> int \<Rightarrow> 'w list result) \<Rightarrow> nat \<Rightarrow> int \<Rightarrow> vb_resp list" where
  "success_of env wire k a = (case r_bind (wire k a) (decode_reply env) of
     Inr out \<Rightarrow> if vr_success out then [out] else [] | Inl e \<Rightarrow> [])"

text \<open>In every round the exchange for an AFE ends in some way: with frames, whatever they hold, or with any exception that
  the handler of the monitor catches (all but an interrupt). A round ends with the pause.\<close>

locale monitor_board =
  fixes env :: "('s, 'w, 'p, 'f) vb_env" and clock :: "'s \<Rightarrow> nat" and now :: "nat \<Rightarrow> 'f" and wire :: "nat \<Rightarrow> int \<Rightarrow> 'w list result"
  assumes l_ask: "\<exists>t. ask (vb_sock env) (vb_envc env) (bias_envelope env rt a) s = (wire (clock s) a, t) \<and> clock t = clock s"
    and l_wire: "wire k a = Inl e \<Longrightarrow> \<not> is_exit e"
    and l_print: "\<exists>t. vb_print env l s = (Inr (), t) \<and> clock t = clock s"
    and l_write: "\<exists>t. vb_write env l s = (Inr (), t) \<and> clock t = clock s"
    and l_columns: "\<exists>c t. vb_columns env s = (Inr c, t) \<and> clock t = clock s"
    and l_time: "\<exists>t. vb_time env s = (Inr (now (clock s)), t) \<and> clock t = clock s"
    and l_sleep: "\<exists>t. vb_sleep env x s = (Inr (), t) \<and> clock t = Suc (clock s)"
    and l_decimal: "decimal v \<Longrightarrow> f_parse (vb_floats env) v \<noteq> None"
begin

lemma note_run: "\<exists>u. m_then (vb_print env l) (m_ret x) t = (Inr x, u) \<and> clock u = clock t"
  using l_print [of l t] by (auto simp: py_run)

lemma read_one_run:
  assumes "0 \<le> a \<and> a < 2 ^ 32"
  shows "\<exists>t. read_one env rt a s = (r_bind (wire (clock s) a) (decode_reply env), t) \<and> clock t = clock s"
proof -
  obtain t where "ask (vb_sock env) (vb_envc env) (bias_envelope env rt a) s = (wire (clock s) a, t)" "clock t = clock s"
    using l_ask by blast
  with assms show ?thesis
    by (cases "wire (clock s) a")
       (auto simp: read_one_def decode_reply_def uint_field_def m_bind_def m_lift_def m_raise_def m_ret_def r_bind_def split: sum.splits)
qed

lemma read_failure_caught:
  assumes "r_bind (wire k a) (decode_reply env) = Inl e"
  shows "\<not> is_exit e"
  using assms l_wire [of k a]
  by (auto simp: r_bind_def decode_reply_def ParseFromString_def split: sum.splits option.splits if_splits)

lemma reading_run:
  assumes "0 \<le> a \<and> a < 2 ^ 32"
  shows "\<exists>t. reading env rt a s = (Inr (case success_of env wire (clock s) a of [] \<Rightarrow> None | out # _ \<Rightarrow> Some out), t) \<and> clock t = clock s"
proof -
  obtain t where t: "read_one env rt a s = (r_bind (wire (clock s) a) (decode_reply env), t)" "clock t = clock s"
    using read_one_run [OF assms] by blast
  show ?thesis
  proof (cases "r_bind (wire (clock s) a) (decode_reply env)")
    case (Inl e)
    have "\<not> is_exit e" by (rule read_failure_caught [OF Inl])
    moreover obtain u where "m_then (vb_print env (if e = ZmqAgain then ''[timeout] afe='' @ int_to_str a @ '' no reply''
          else ''[error] afe='' @ int_to_str a @ '' '' @ vb_exc env e)) (m_ret None) t = (Inr (None :: vb_resp option), u)" "clock u = clock t"
      by (atomize_elim, rule note_run)
    ultimately show ?thesis using Inl t
      by (simp add: reading_def m_bind_def [of "m_except _ _"] m_bind_def [of "read_one env rt a"] py_run success_of_def m_except_def m_try_def )
  next
    case (Inr out)
    moreover obtain u where "m_then (vb_print env (''[server error] afe='' @ int_to_str a @ '' message='' @ [tick] @ vr_message out @ [tick])) (m_ret None) t =
        (Inr (None :: vb_resp option), u)" "clock u = clock t" by (atomize_elim, rule note_run)
    ultimately show ?thesis using t
      by (simp add: reading_def m_bind_def [of "m_except _ _"] m_bind_def [of "read_one env rt a"] py_run success_of_def m_except_def m_try_def)
  qed
qed

lemma poll_run:
  assumes "0 \<le> a \<and> a < 2 ^ 32"
  shows "\<exists>h' rr' t. poll_afe env args a (h, rr) s = (Inr (h', rr'), t) \<and> clock t = clock s \<and> queue_of h' ''t'' = queue_of h ''t'' \<and>
    (\<forall>b vs. queue_of h (bias_name b) = last_n (nat (vb_max_points args)) vs \<longrightarrow>
       queue_of h' (bias_name b) = last_n (nat (vb_max_points args)) (vs @ volts (vb_floats env) b (success_of env wire (clock s) a)))"
proof -
  obtain t where t: "reading env (vb_route args) a s = (Inr (case success_of env wire (clock s) a of [] \<Rightarrow> None | out # _ \<Rightarrow> Some out), t)" "clock t = clock s"
    using reading_run [OF assms] by blast
  show ?thesis
  proof (cases "success_of env wire (clock s) a")
    case Nil
    with t show ?thesis by (simp add: poll_afe_def py_run volts_def)
  next
    case (Cons out outs)
    then have one: "success_of env wire (clock s) a = [out]" by (auto simp: success_of_def split: sum.splits if_splits)
    obtain h' rr' where r: "record_reading (vb_floats env) (nat (vb_max_points args)) out (h, rr) = Inr (h', rr')"
      using record_returns [OF l_decimal] by blast
    then have "poll_afe env args a (h, rr) s = (Inr (h', rr'), t)" using t one by (simp add: poll_afe_def py_run)
    then show ?thesis using record_queues [OF r] t(2) one by auto
  qed
qed

lemma polls_run:
  assumes "list_all (\<lambda>a. 0 \<le> a \<and> a < 2 ^ 32) afl"
  shows "\<exists>h' rr' t. m_fold (poll_afe env args) afl (h, rr) s = (Inr (h', rr'), t) \<and> clock t = clock s \<and> queue_of h' ''t'' = queue_of h ''t'' \<and>
    (\<forall>b vs. queue_of h (bias_name b) = last_n (nat (vb_max_points args)) vs \<longrightarrow>
       queue_of h' (bias_name b) = last_n (nat (vb_max_points args)) (vs @ volts (vb_floats env) b (concat (map (success_of env wire (clock s)) afl))))"
  using assms
proof (induction afl arbitrary: h rr s)
  case Nil
  then show ?case by (simp add: py_run volts_def)
next
  case (Cons a afl)
  obtain h1 rr1 t1 where 1: "poll_afe env args a (h, rr) s = (Inr (h1, rr1), t1)" "clock t1 = clock s" "queue_of h1 ''t'' = queue_of h ''t''"
    "\<And>b vs. queue_of h (bias_name b) = last_n (nat (vb_max_points args)) vs \<Longrightarrow>
       queue_of h1 (bias_name b) = last_n (nat (vb_max_points args)) (vs @ volts (vb_floats env) b (success_of env wire (clock s) a))"
    using poll_run [of a args h rr s] Cons.prems by auto
  obtain h2 rr2 t2 where 2: "m_fold (poll_afe env args) afl (h1, rr1) t1 = (Inr (h2, rr2), t2)" "clock t2 = clock t1" "queue_of h2 ''t'' = queue_of h1 ''t''"
    "\<And>b vs. queue_of h1 (bias_name b) = last_n (nat (vb_max_points args)) vs \<Longrightarrow>
       queue_of h2 (bias_name b) = last_n (nat (vb_max_points args)) (vs @ volts (vb_floats env) b (concat (map (success_of env wire (clock s)) afl)))"
    using Cons.IH [of h1 rr1 t1] Cons.prems 1(2) by auto
  show ?case using 1 2 by (auto simp: py_run volts_def)
qed

lemma status_run: "\<exists>t. vb_print_status env args line s = (Inr (), t) \<and> clock t = clock s"
proof (cases "vb_status args")
  case True
  obtain c t where c: "vb_columns env s = (Inr c, t)" "clock t = clock s" using l_columns by blast
  show ?thesis using True c l_write [of _ t] by (simp add: vb_print_status_def m_bind_def)
qed (simp add: vb_print_status_def py_run)

lemma round_run:
  assumes "list_all (\<lambda>a. 0 \<le> a \<and> a < 2 ^ 32) afl" "vb_no_plot args \<or> \<not> vb_matplotlib env"
  shows "\<exists>h' t. vb_round env args afl start h s = (Inr h', t) \<and> clock t = Suc (clock s) \<and>
    queue_of h' ''t'' = deque_push (nat (vb_max_points args)) (queue_of h ''t'') (vb_sub env (now (clock s)) start) \<and>
    (\<forall>b vs. queue_of h (bias_name b) = last_n (nat (vb_max_points args)) vs \<longrightarrow>
       queue_of h' (bias_name b) = last_n (nat (vb_max_points args)) (vs @ volts (vb_floats env) b (concat (map (success_of env wire (clock s)) afl))))"
proof -
  obtain t0 where 0: "vb_time env s = (Inr (now (clock s)), t0)" "clock t0 = clock s" using l_time by blast
  obtain h1 rr t1 where 1: "m_fold (poll_afe env args) afl (h, False) t0 = (Inr (h1, rr), t1)" "clock t1 = clock t0" "queue_of h1 ''t'' = queue_of h ''t''"
    "\<forall>b vs. queue_of h (bias_name b) = last_n (nat (vb_max_points args)) vs \<longrightarrow>
       queue_of h1 (bias_name b) = last_n (nat (vb_max_points args)) (vs @ volts (vb_floats env) b (concat (map (success_of env wire (clock s)) afl)))"
    using polls_run [OF assms(1), of args h False t0] 0(2) by auto
  let ?h = "push (nat (vb_max_points args)) ''t'' (vb_sub env (now (clock s)) start) h1"
  obtain t2 where 2: "vb_print_status env args (status_line (vb_floats env) afl ?h rr) t1 = (Inr (), t2)" "clock t2 = clock t1"
    using status_run by blast
  obtain t3 where 3: "vb_sleep env (vb_interval args) t2 = (Inr (), t3)" "clock t3 = Suc (clock t2)" using l_sleep by blast
  have "vb_round env args afl start h s = (Inr ?h, t3)"
    using 0 1 2 3 assms(2) by (auto simp: vb_round_def m_bind_def m_then_def py_run m_when_def Let_def)
  then show ?thesis using 0 1 2 3 by (auto simp: queue_of_push)
qed

lemma rounds_run:
  assumes "list_all (\<lambda>a. 0 \<le> a \<and> a < 2 ^ 32) afl" "vb_no_plot args \<or> \<not> vb_matplotlib env"
    and "queue_of h ''t'' = last_n (nat (vb_max_points args)) ts"
    and "\<And>b. queue_of h (bias_name b) = last_n (nat (vb_max_points args)) (vs b)"
  shows "\<exists>h' t. vb_rounds n env args afl start h s = (Inr h', t) \<and> clock t = clock s + n \<and>
    queue_of h' ''t'' = last_n (nat (vb_max_points args)) (ts @ map (\<lambda>k. vb_sub env (now k) start) [clock s..<clock s + n]) \<and>
    (\<forall>b. queue_of h' (bias_name b) = last_n (nat (vb_max_points args))
       (vs b @ volts (vb_floats env) b (concat (map (\<lambda>k. concat (map (success_of env wire k) afl)) [clock s..<clock s + n]))))"
  using assms(3,4)
proof (induction n arbitrary: h s ts vs)
  case 0
  then show ?case by (simp add: py_run volts_def)
next
  case (Suc n)
  let ?N = "nat (vb_max_points args)"
  obtain h1 t1 where 1: "vb_round env args afl start h s = (Inr h1, t1)" "clock t1 = Suc (clock s)"
    "queue_of h1 ''t'' = deque_push ?N (queue_of h ''t'') (vb_sub env (now (clock s)) start)"
    "\<forall>b vs. queue_of h (bias_name b) = last_n ?N vs \<longrightarrow>
       queue_of h1 (bias_name b) = last_n ?N (vs @ volts (vb_floats env) b (concat (map (success_of env wire (clock s)) afl)))"
    using round_run [OF assms(1,2)] by blast
  have t1: "queue_of h1 ''t'' = last_n ?N (ts @ [vb_sub env (now (clock s)) start])"
    using 1(3) Suc.prems(1) by (simp add: deque_push_last_n)
  have b1: "queue_of h1 (bias_name b) = last_n ?N (vs b @ volts (vb_floats env) b (concat (map (success_of env wire (clock s)) afl)))" for b
    using 1(4) Suc.prems(2) by blast
  have range: "[clock s..<clock s + Suc n] = clock s # [clock t1..<clock t1 + n]"
    using 1(2) by (simp add: upt_conv_Cons)
  obtain h' t where r: "vb_rounds n env args afl start h1 t1 = (Inr h', t)" "clock t = clock t1 + n"
    "queue_of h' ''t'' = last_n ?N ((ts @ [vb_sub env (now (clock s)) start]) @ map (\<lambda>k. vb_sub env (now k) start) [clock t1..<clock t1 + n])"
    "\<forall>b. queue_of h' (bias_name b) = last_n ?N ((vs b @ volts (vb_floats env) b (concat (map (success_of env wire (clock s)) afl))) @
       volts (vb_floats env) b (concat (map (\<lambda>k. concat (map (success_of env wire k) afl)) [clock t1..<clock t1 + n])))"
    using Suc.IH [OF t1 b1, of t1] by blast
  have "vb_rounds (Suc n) env args afl start h s = (Inr h', t)" using 1(1) r(1) by (simp add: py_run)
  with r 1(2) show ?case unfolding range by (simp add: volts_def del: upt_Suc)
qed

lemma monitor_run:
  assumes "parse_channels (vb_afe_expr args) = Inr afl" "list_all (\<lambda>a. 0 \<le> a \<and> a < 2 ^ 32) afl" "vb_no_plot args \<or> \<not> vb_matplotlib env" "0 \<le> vb_max_points args" "clock s = 0"
  shows "\<exists>h t. vbias_all_main n env args s = (Inr h, t) \<and>
    queue_of h ''t'' = last_n (nat (vb_max_points args)) (map (\<lambda>k. vb_sub env (now k) (now 0)) [0..<n]) \<and>
    (\<forall>b. queue_of h (bias_name b) = last_n (nat (vb_max_points args))
       (volts (vb_floats env) b (concat (map (\<lambda>k. concat (map (success_of env wire k) afl)) [0..<n]))))"
proof -
  obtain t0 where 0: "vb_time env s = (Inr (now 0), t0)" "clock t0 = 0" using l_time assms(5) by metis
  obtain h t where 1: "vb_rounds n env args afl (now 0) (empty_history afl) t0 = (Inr h, t)"
    "queue_of h ''t'' = last_n (nat (vb_max_points args)) (map (\<lambda>k. vb_sub env (now k) (now 0)) [0..<n])"
    "\<forall>b. queue_of h (bias_name b) = last_n (nat (vb_max_points args))
       (volts (vb_floats env) b (concat (map (\<lambda>k. concat (map (success_of env wire k) afl)) [0..<n])))"
    using rounds_run [OF assms(2,3), of "empty_history afl" "[]" "\<lambda>_. []" n "now 0" t0] 0(2) by (auto simp: queue_of_empty)
  obtain u where "m_then (vb_print env (CHR 0x0A # ''Stopped by user.'')) (m_ret h) t = (Inr h, u)" "clock u = clock t"
    by (atomize_elim, rule note_run)
  with 0 1 assms(1,4) have "vbias_all_main n env args s = (Inr h, u)" by (simp add: vbias_all_main_def m_bind_def [of "vb_time env"] m_bind_def [of "vb_rounds n env args afl _ _"] py_run)
  with 1 show ?thesis by blast
qed

end

section \<open>A bench\<close>

record vb_bench =
  vbb_clock :: nat
  vbb_asked :: "int option"

definition bench_floats :: "int float_ops" where
  "bench_floats = int_floats\<lparr>f_parse := (\<lambda>t. Some (f_lit int_floats t))\<rparr>"

text \<open>AFE 3 does not answer in round 1, and AFE 0 answers with a reply of another type in round 2.\<close>

definition bench_wire :: "nat \<Rightarrow> int \<Rightarrow> (int + vb_resp) ControlEnvelopeV2 list result" where
  "bench_wire k a =
     (if k = 1 \<and> a = 3 then Inl ZmqAgain
      else Inr [plain_envelope (if k = 2 \<and> a = 0 then 205 else MT2_READ_BIAS_VOLTAGE_MONITOR_RESP)
        (Inr \<lparr>vr_success = True, vr_message = ''3V3A: 3'', vr_afeBlock = a, vr_value = 1000 * (40 + a + int k)\<rparr>) [] 0])"

definition bench_ask :: "(vb_bench, (int + vb_resp) ControlEnvelopeV2) zsock" where
  "bench_ask = \<lparr>z_timeout = (\<lambda>_. m_ret ()), z_send = (\<lambda>e. m_modify (\<lambda>s. s\<lparr>vbb_asked := (case payload e of Inl a \<Rightarrow> Some a | Inr _ \<Rightarrow> None)\<rparr>)),
     z_recv = (\<lambda>s. case vbb_asked s of None \<Rightarrow> (Inl ZmqAgain, s)
       | Some a \<Rightarrow> (bench_wire (vbb_clock s) a, s)),
     z_close = m_ret (), time_ns = m_ret 0, randrange = (\<lambda>_. m_ret 0)\<rparr>"

definition vb_bench_env :: "(vb_bench, (int + vb_resp) ControlEnvelopeV2, int + vb_resp, int) vb_env" where
  "vb_bench_env = \<lparr>vb_sock = bench_ask, vb_envc = \<lparr>ser = (\<lambda>e. e), par = Some, blen = (\<lambda>_. 1)\<rparr>, vb_ser = Inl,
     vb_respc = \<lparr>ser = Inr, par = (\<lambda>p. case p of Inl _ \<Rightarrow> None | Inr r \<Rightarrow> Some r), blen = (\<lambda>_. 1)\<rparr>, vb_print = (\<lambda>_. m_ret ()), vb_write = (\<lambda>_. m_ret ()),
     vb_columns = m_ret 120, vb_time = m_get (\<lambda>s. int (vbb_clock s)), vb_sleep = (\<lambda>_. m_modify (\<lambda>s. s\<lparr>vbb_clock := Suc (vbb_clock s)\<rparr>)),
     vb_floats = bench_floats, vb_sub = (-), vb_exc = (\<lambda>_. ''error''), vb_matplotlib = False, vb_plot = (\<lambda>_ _. m_ret ())\<rparr>"

interpretation vbb: monitor_board vb_bench_env vbb_clock int bench_wire
  by unfold_locales
    (auto simp: vb_bench_env_def bench_ask_def ask_def bias_envelope_def plain_envelope_def request_envelope_def m_then_def m_bind_def py_run
      bench_wire_def bench_floats_def split: if_splits)

section \<open>What the monitor keeps\<close>

text \<open>C36: In text mode (without plots: \<open>--no-plot\<close>, or no matplotlib) the bias monitor goes through its rounds whatever the
  exchanges with the board come to: a timeout or any other exception that is not an interrupt, a reply that does not parse or has another type,
  a response that reports a failure. It keeps of every AFE the last \<open>max_points\<close> voltages that were reported for it with success, in order,
  and of the clock the last \<open>max_points\<close> times of the rounds. (So after a failed read the two queues have different lengths.)\<close>

theorem monitor_history:
  assumes "monitor_board env clock now wire"
    and "parse_channels (vb_afe_expr args) = Inr afl" "list_all (\<lambda>a. 0 \<le> a \<and> a < 2 ^ 32) afl"
    and "vb_no_plot args \<or> \<not> vb_matplotlib env" "0 \<le> vb_max_points args" "clock s = 0"
  shows "\<exists>h t. vbias_all_main n env args s = (Inr h, t) \<and>
    queue_of h ''t'' = last_n (nat (vb_max_points args)) (map (\<lambda>k. vb_sub env (now k) (now 0)) [0..<n]) \<and>
    (\<forall>b. queue_of h (bias_name b) = last_n (nat (vb_max_points args))
       (volts (vb_floats env) b (concat (map (\<lambda>k. concat (map (success_of env wire k) afl)) [0..<n]))))"
  using assms by (rule monitor_board.monitor_run)

theorem monitor_history_witness:
  "\<exists>h t. vbias_all_main 3 vb_bench_env
      \<lparr>vb_route = ''mezz/0'', vb_afe_expr = ''3,0'', vb_interval = 1, vb_max_points = 300, vb_no_plot = True, vb_status = True\<rparr>
      \<lparr>vbb_clock = 0, vbb_asked = None\<rparr> = (Inr h, t) \<and>
    queue_of h ''t'' = [0, 1, 2] \<and> queue_of h (bias_name 0) = [40, 41] \<and> queue_of h (bias_name 3) = [43, 45]"
proof -
  let ?args = "\<lparr>vb_route = ''mezz/0'', vb_afe_expr = ''3,0'', vb_interval = 1 :: int, vb_max_points = 300, vb_no_plot = True, vb_status = True\<rparr>"
  have p: "parse_channels (vb_afe_expr ?args) = Inr [0, 3]" by code_simp
  have "volts bench_floats 0 (concat (map (\<lambda>k. concat (map (success_of vb_bench_env bench_wire k) [0, 3])) [0..<3])) = [40, 41]"
    "volts bench_floats 3 (concat (map (\<lambda>k. concat (map (success_of vb_bench_env bench_wire k) [0, 3])) [0..<3])) = [43, 45]"
    by code_simp+
  then show ?thesis
    using monitor_history [OF vbb.monitor_board_axioms p, of "\<lparr>vbb_clock = 0, vbb_asked = None\<rparr>" 3]
    by (fastforce simp: vb_bench_env_def last_n_def upt_rec)
qed

end
