(* ===== verification/Slow_Smoketest.thy ===== *)
theory Slow_Smoketest
  imports Smoke_Board Scan_Runtime
begin

text \<open>
  \<open>client/slowcontrol_smoketest.py\<close>: a test register read, the general information and the trigger counters, and on request the
  alignment, a configuration and one chunk of the spy buffers.

  The requests are those of \<open>Smoketest\<close>, and \<open>load_config_request\<close> is the same function; \<open>send_v2\<close> does not look at the number of parsed
  bytes, and no action looks at the type of the reply or records a failure. On a \<open>register_board\<close> a run without the options only reads.
\<close>

section \<open>The generated modules\<close>

text \<open>The first build directory that holds the generated module goes to the front of the search path, unless it is in it.\<close>

definition build_names :: "string list" where
  "build_names = [''build-test'', ''build-petalinux'', ''build'', ''build-local'', ''build-local2'']"

definition pb2_path :: "string \<Rightarrow> string" where
  "pb2_path build_dir = build_dir @ ''/srcs/protobuf/daphneV3_high_level_confs_pb2.py''"

definition build_candidates :: "string \<Rightarrow> string option \<Rightarrow> string list" where
  "build_candidates repo_root env_build =
     (case env_build of Some d \<Rightarrow> if d \<noteq> [] then [d] else [] | None \<Rightarrow> []) @ map (\<lambda>n. repo_root @ ''/'' @ n) build_names"

definition maybe_prefer_build_pb2 :: "(string \<Rightarrow> bool) \<Rightarrow> string \<Rightarrow> string option \<Rightarrow> string list \<Rightarrow> string list" where
  "maybe_prefer_build_pb2 isfile repo_root env_build sys_path =
     (case find (\<lambda>d. isfile (pb2_path d)) (build_candidates repo_root env_build) of
        None \<Rightarrow> sys_path
      | Some d \<Rightarrow> if d \<in> set sys_path then sys_path else d # sys_path)"

section \<open>Exchanges\<close>

record 'f sl_resp =
  sl_success :: bool
  sl_message :: string
  sl_value :: int
  sl_info :: "'f list"
  sl_snapshots :: "(int \<times> int \<times> int) list"
  sl_delay :: "int list"
  sl_bitslip :: "int list"
  sl_waveforms :: int
  sl_total :: int
  sl_channels :: "int list"
  sl_samples :: int

text \<open>The reply to the general information carries \<open>GeneralInfo\<close>; an empty payload is parsed again as \<open>InfoResponse\<close>. \<open>sl_info\<close> lists
  \<open>v_bias_0\<close>, \<open>v_bias_1\<close>, \<open>temperature\<close>, \<open>power_minus5v\<close> and \<open>power_plus2p5v\<close>.\<close>

record ('s, 'w, 'p, 'f) sl_env =
  sl_base :: "('s, 'w, 'p, 'f) sm_env"
  sl_respc :: "sm_req \<Rightarrow> ('p, 'f sl_resp) codec"
  sl_legacyc :: "('p, 'f sl_resp) codec"

definition sl_accept :: "int \<Rightarrow> 'p ControlEnvelopeV2 \<Rightarrow> 'p ControlEnvelopeV2 result" where
  "sl_accept mid rep =
     (if dir rep \<noteq> DIR_RESPONSE then Inl (RuntimeError ''Unexpected dir'')
      else if correl_id rep \<noteq> 0 \<and> correl_id rep \<noteq> mid then Inl (RuntimeError ''Correlation mismatch'')
      else Inr rep)"

definition sl_send_v2 :: "('s, 'w, 'p, 'f) sm_env \<Rightarrow> sm_req \<Rightarrow> string \<Rightarrow> int \<Rightarrow> ('s, 'p ControlEnvelopeV2) py" where
  "sl_send_v2 env req rt timeout_ms =
     m_bind (next_ids (sm_sock env)) (\<lambda>ids.
     m_bind (time_ns (sm_sock env)) (\<lambda>ts.
     m_bind (sm_exchange env (ser (sm_envc env) (request_envelope (sm_type req) (ser_sm env req) rt ids ts)) timeout_ms) (\<lambda>frames.
     m_bind (m_lift (ParseFromString (sm_envc env) (last frames))) (\<lambda>(rep, n).
     m_lift (sl_accept (snd ids) rep)))))"

definition pretty_status :: "('s, 'w, 'p, 'f) sm_env \<Rightarrow> string \<Rightarrow> bool \<Rightarrow> string \<Rightarrow> ('s, unit) py" where
  "pretty_status env name ok message = sm_print env (''['' @ (if ok then ''OK'' else ''FAIL'') @ ''] '' @ name @ '': '' @ message)"

definition sl_parse :: "('s, 'w, 'p, 'f) sl_env \<Rightarrow> sm_req \<Rightarrow> 'p \<Rightarrow> 'f sl_resp result" where
  "sl_parse env req body =
     r_bind (ParseFromString (sl_respc env req) body) (\<lambda>(resp, n).
     if req = GeneralInfo \<and> n = 0 then r_bind (ParseFromString (sl_legacyc env) body) (\<lambda>(legacy, k). Inr legacy) else Inr resp)"

section \<open>Actions\<close>

fun sl_report :: "'f float_ops \<Rightarrow> sm_req \<Rightarrow> 'f sl_resp \<Rightarrow> string \<times> bool \<times> string" where
  "sl_report F TestReg p = (''test_reg'', True, ''value=0x'' @ upper_hex (fmt_hex 8 (sl_value p)) @ '' msg='' @ quoted_msg (sl_message p))"
| "sl_report F GeneralInfo p = (''general_info'', True,
     ''vbias0='' @ f_fix F 3 (sl_info p ! 0) @ '' vbias1='' @ f_fix F 3 (sl_info p ! 1) @ '' temp='' @ f_fix F 2 (sl_info p ! 2) @ ''C p(-5V)='' @
       f_fix F 3 (sl_info p ! 3) @ '' p(2p5V)='' @ f_fix F 3 (sl_info p ! 4))"
| "sl_report F (TriggerCounters chs) p = (''trigger_counters'', sl_success p, sl_message p @
     (case sl_snapshots p of [] \<Rightarrow> []
      | (ch, rec, bsy) # _ \<Rightarrow> '' first channel '' @ int_to_str ch @ '' trig='' @ int_to_str rec @ '' busy='' @ int_to_str bsy))"
| "sl_report F AlignAfe p = (''align_afe'', sl_success p,
     ''delays='' @ int_list_str (sl_delay p) @ '' bitslip='' @ int_list_str (sl_bitslip p) @ '' msg='' @ quoted_msg (sl_message p))"
| "sl_report F (ConfigureFe cfg) p = (''configure_fe'', sl_success p, sl_message p)"
| "sl_report F _ p = (''spybuffer_chunk'', sl_success p,
     sl_message p @ '' waveforms='' @ int_to_str (sl_waveforms p) @ ''/'' @ int_to_str (sl_total p) @ '' channels='' @ int_list_str (sl_channels p) @
       '' samples='' @ int_to_str (sl_samples p))"

text \<open>The body of the functions \<open>do_*\<close>.\<close>

definition sl_do :: "('s, 'w, 'p, 'f) sl_env \<Rightarrow> string \<Rightarrow> int \<Rightarrow> sm_req \<Rightarrow> ('s, unit) py" where
  "sl_do env rt timeout_ms req =
     m_bind (m_lift (sm_check req)) (\<lambda>req.
     m_bind (sl_send_v2 (sl_base env) req rt timeout_ms) (\<lambda>rep.
     m_bind (m_lift (sl_parse env req (payload rep))) (\<lambda>p.
     case sl_report (sm_floats (sl_base env)) req p of (name, ok, message) \<Rightarrow> pretty_status (sl_base env) name ok message)))"

definition do_configure :: "('s, 'w, 'p, 'f) sl_env \<Rightarrow> string \<Rightarrow> int \<Rightarrow> string \<Rightarrow> ('s, unit) py" where
  "do_configure env rt timeout_ms json_path =
     m_bind (m_get (\<lambda>s. sm_json (sl_base env) s json_path)) (\<lambda>doc.
     m_bind (m_lift (r_bind doc (load_config_request (sm_trunc (sl_base env))))) (\<lambda>cfg.
     sl_do env rt timeout_ms (ConfigureFe cfg)))"

definition do_spybuffer :: "('s, 'w, 'p, 'f) sl_env \<Rightarrow> string \<Rightarrow> int \<Rightarrow> string list \<Rightarrow> int \<Rightarrow> int \<Rightarrow> ('s, unit) py" where
  "do_spybuffer env rt timeout_ms chs n_waveforms n_samples =
     m_bind (m_lift (r_map int_of chs)) (\<lambda>cs.
     m_bind (m_lift (r_map (uint_field 32) (cs @ [n_samples, n_waveforms]))) (\<lambda>_.
     m_bind (sm_uuid (sl_base env)) (\<lambda>i.
     sl_do env rt timeout_ms (DumpSpybufferChunk cs n_waveforms n_samples False (''smoke-'' @ i) (max 1 n_waveforms)))))"

section \<open>The script\<close>

record sl_args =
  sl_route :: string
  sl_timeout_ms :: int
  sl_run_align :: bool
  sl_run_configure :: string
  sl_run_spybuffer :: bool
  sl_spybuffer_channels :: "string list"
  sl_spybuffer_waveforms :: int
  sl_spybuffer_samples :: int
  sl_counter_channels :: "int list"

definition slow_main :: "('s, 'w, 'p, 'f) sl_env \<Rightarrow> sl_args \<Rightarrow> ('s, unit) py" where
  "slow_main env args =
     (let rt = sl_route args; tmo = sl_timeout_ms args in
      m_then (sl_do env rt tmo TestReg)
      (m_then (sl_do env rt tmo GeneralInfo)
      (m_then (sl_do env rt tmo (TriggerCounters (sl_counter_channels args)))
      (m_then (m_when (sl_run_align args) (sl_do env rt (max tmo 20000) AlignAfe))
      (m_then (m_when (sl_run_configure args \<noteq> []) (do_configure env rt (max tmo 20000) (sl_run_configure args)))
      (m_then (m_when (sl_run_spybuffer args)
         (do_spybuffer env rt (max tmo 30000) (sl_spybuffer_channels args) (sl_spybuffer_waveforms args) (sl_spybuffer_samples args)))
      (z_close (sm_sock (sl_base env)))))))))"

section \<open>Non-destructive by default\<close>

context register_board
begin

lemma slow_rpc_keeps:
  assumes "inert A r" "q \<in> A"
  shows "keeps (calm A r) (sl_send_v2 env q rt tmo) (\<lambda>_. True)"
proof -
  note ops = quiet_ops [OF assms(1)]
  show ?thesis
    unfolding sl_send_v2_def
    by (rule keeps_bind [OF ids_keeps [OF assms(1)]], rule keeps_bind [OF ops(1)], rule keeps_bind [OF exchange_keeps [OF assms]], rule keeps_bind [OF keeps_basic(3)])
      (auto intro!: keeps_basic split: prod.split)
qed

lemma slow_do_keeps:
  assumes "inert A r" "q \<in> A" "sl_base senv = env"
  shows "keeps (calm A r) (sl_do senv rt tmo q) (\<lambda>_. True)"
proof -
  have "keeps (calm A r) (m_lift (sm_check q)) (\<lambda>q'. q' = q)"
    by (auto intro!: keeps_basic dest: sm_check_same)
  then show ?thesis
    unfolding sl_do_def pretty_status_def assms(3)
    by (rule keeps_bind)
      (auto split: prod.split intro!: keeps_bind [OF slow_rpc_keeps [OF assms(1,2)]] keeps_bind [OF keeps_basic(3) [where Q = "\<lambda>_. True"]] quiet_ops [OF assms(1)])
qed

lemma slow_reads_only:
  assumes "sl_base senv = env" "\<not> sl_run_align args" "sl_run_configure args = []" "\<not> sl_run_spybuffer args" "sent s = []"
  shows "list_all is_read (sent (snd (slow_main senv args s))) \<and> regs (snd (slow_main senv args s)) = regs s"
proof -
  let ?A = "{q. is_read q}"
  have inert: "inert ?A (regs s)"
    unfolding inert_def using l_exec [OF read_writes_nothing] by blast
  have "keeps (calm ?A (regs s)) (slow_main senv args) (\<lambda>_. True)"
    unfolding slow_main_def Let_def m_when_def using assms(2-4)
    by (auto simp: assms(1) intro!: keeps_then slow_do_keeps [OF inert _ assms(1)] keeps_basic quiet_ops [OF inert])
  then have "calm ?A (regs s) (snd (slow_main senv args s))"
    by (rule keepsD) (simp add: calm_def assms(5))
  then show ?thesis by (auto simp: calm_def list_all_iff)
qed

end

definition slow_bench_env :: "(bench, bench_payload ControlEnvelopeV2, bench_payload, int) sl_env" where
  "slow_bench_env = (let none = \<lparr>sl_success = True, sl_message = [], sl_value = 0, sl_info = [0, 0, 0, 0, 0], sl_snapshots = [], sl_delay = [], sl_bitslip = [],
       sl_waveforms = 0, sl_total = 0, sl_channels = [], sl_samples = 0\<rparr>; c = \<lparr>ser = (\<lambda>_. BReq TestReg), par = (\<lambda>_. Some none), blen = (\<lambda>_. 1)\<rparr> in
     \<lparr>sl_base = bench_env, sl_respc = (\<lambda>_. c), sl_legacyc = c\<rparr>)"

text \<open>C37: The slow-control smoke test is non-destructive by default: without the alignment, configuration and spy-buffer options it sends only
  read requests and leaves the registers of the board as they were, on every exit.\<close>

theorem slow_default_reads_only:
  assumes "register_board (sl_base env) regs sent exec"
    and "\<not> sl_run_align args" "sl_run_configure args = []" "\<not> sl_run_spybuffer args" "sent s = []"
  shows "list_all is_read (sent (snd (slow_main env args s))) \<and> regs (snd (slow_main env args s)) = regs s"
  using register_board.slow_reads_only [OF assms(1) refl] assms(2-) by blast

theorem slow_default_reads_only_witness:
  "list_all is_read (be_sent (snd (slow_main slow_bench_env
      \<lparr>sl_route = ''mezz/0'', sl_timeout_ms = 5000, sl_run_align = False, sl_run_configure = [], sl_run_spybuffer = False, sl_spybuffer_channels = [''0''],
       sl_spybuffer_waveforms = 1, sl_spybuffer_samples = 32, sl_counter_channels = [3]\<rparr> bench0))) \<and>
   be_regs (snd (slow_main slow_bench_env
      \<lparr>sl_route = ''mezz/0'', sl_timeout_ms = 5000, sl_run_align = False, sl_run_configure = [], sl_run_spybuffer = False, sl_spybuffer_channels = [''0''],
       sl_spybuffer_waveforms = 1, sl_spybuffer_samples = 32, sl_counter_channels = [3]\<rparr> bench0)) = be_regs bench0"
  by (rule slow_default_reads_only [where sent = be_sent and exec = bench_exec])
    (simp_all add: slow_bench_env_def Let_def bench.register_board_axioms bench0_def)

end
