(* ===== verification/Compare_Envelopes.thy ===== *)
theory Compare_Envelopes
  imports Pds_Config
begin

text \<open>
  \<open>client/compare_configure_envelopes.py\<close>: it builds one configuration request from the command line and one from a seed file, writes both,
  prints the difference of their texts and sends both.

  The options it shares with the seed clients are a \<open>pds_args\<close>. \<open>json.load\<close>, the texts of the messages, the difference of two texts and the
  file system are parameters. With an empty seed the two requests differ at most in the bias control and the trigger words.
\<close>

section \<open>The two requests\<close>

record cmp_args =
  cp_pds :: pds_args
  cp_json_path :: string
  cp_out_dir :: string
  cp_pga_clamp_level :: string
  cp_biasctrl :: int
  cp_self_trigger_threshold :: int
  cp_self_trigger_xcorr :: int
  cp_tp_conf :: int
  cp_compensator :: int
  cp_inverters :: int

definition cmp_defaults :: cmp_args where
  "cmp_defaults = \<lparr>cp_pds = pds_defaults\<lparr>pa_board_id := ''60'', pa_host := ''127.0.0.1'', pa_vgain := 2300\<rparr>,
     cp_json_path = ''pds/configs/vd_coldbox/daphne_mezz.json'', cp_out_dir = ''client/envelope_dumps'', cp_pga_clamp_level = ''0 dBFS'',
     cp_biasctrl = 1300, cp_self_trigger_threshold = 0, cp_self_trigger_xcorr = 0, cp_tp_conf = 0, cp_compensator = 0, cp_inverters = 0\<rparr>"

definition build_cli_cfg :: "cmp_args \<Rightarrow> ConfigureRequest result" where
  "build_cli_cfg args = (let a = cp_pds args in
     r_bind (lookup lpf_dict (pa_lpf_cutoff a)) (\<lambda>lpf.
     r_bind (lookup pga_clamp_level_dict (cp_pga_clamp_level args)) (\<lambda>pga_clamp.
     r_bind (lookup pga_gain_control_dict (pa_pga_gain_control a)) (\<lambda>pg.
     r_bind (lookup lna_gain_control_dict (pa_lna_gain_control a)) (\<lambda>lg.
     r_bind (lookup lna_input_clamp_dict (pa_lna_input_clamp a)) (\<lambda>lc.
     make_default_config (default_params\<lparr>p_ip := pa_host a, p_slot := 0, p_timeout_ms := pa_timeout a, p_biasctrl := cp_biasctrl args,
       p_self_trigger_threshold := cp_self_trigger_threshold args, p_self_trigger_xcorr := cp_self_trigger_xcorr args, p_tp_conf := cp_tp_conf args,
       p_compensator := cp_compensator args, p_inverters := cp_inverters args, p_per_ch_trim := 0, p_per_ch_offset := pa_ch_offset a,
       p_vgain := pa_vgain a, p_lpf_cutoff := lpf, p_pga_clamp_level := pga_clamp, p_pga_gain := pg, p_lna_gain := lg, p_lna_clamp := lc\<rparr>)))))))"

definition build_seed_cfg :: "(string \<Rightarrow> int result) \<Rightarrow> cmp_args \<Rightarrow> json \<Rightarrow> ConfigureRequest result" where
  "build_seed_cfg tr args seed_cfgs = (let a = cp_pds args in
     r_bind (py_index seed_cfgs (pa_board_id a)) (\<lambda>seed_cfg.
     r_bind (target_ip a seed_cfg) (\<lambda>ip.
     r_bind (py_get seed_cfg ''slot_id'' (JInt 0)) (\<lambda>slot_id.
     r_bind (build_defaults_from_args a ip slot_id) (\<lambda>defaults.
     r_bind (build_request_from_seed tr seed_cfg defaults (\<not> pa_prefer_cli_common a)) (\<lambda>cfg.
     r_bind (r_bind (py_get seed_cfg ''ip'' (JStr (pa_host a))) set_str) (\<lambda>addr.
     r_bind (uint_field 32 (pa_timeout a)) (\<lambda>tmo.
     Inr (cfg\<lparr>daphne_address := addr, req_timeout_ms := tmo\<rparr>)))))))))"

section \<open>The script\<close>

text \<open>\<open>cp_socket label\<close> is the socket with the identity \<open>compare-<label>\<close>.\<close>

record ('s, 'w) cmp_env =
  cp_load :: "'s \<Rightarrow> string \<Rightarrow> json result"
  cp_socket :: "string \<Rightarrow> ('s, 'w) zsock"
  cp_write_bytes :: "string \<Rightarrow> 'w \<Rightarrow> ('s, unit) py"
  cp_write_text :: "string \<Rightarrow> string \<Rightarrow> ('s, unit) py"
  cp_sorted_json :: "ConfigureRequest \<Rightarrow> string"
  cp_diff :: "string list \<Rightarrow> string list \<Rightarrow> string list"

definition send_envelope :: "('s, 'w, 'p, 'f) fe_env \<Rightarrow> ('s, 'w) cmp_env \<Rightarrow> 'p ControlEnvelopeV2 \<Rightarrow> string \<Rightarrow> ('s, unit) py" where
  "send_envelope env ce e label =
     m_then (z_send (cp_socket ce label) (ser (fe_envc env) e))
     (m_bind (z_recv (cp_socket ce label)) (\<lambda>frames.
      m_bind (m_lift (ParseFromString (fe_envc env) (last frames))) (\<lambda>(reply, n).
      m_bind (m_lift (ParseFromString (outc env) (payload reply))) (\<lambda>(resp, k).
      m_then (fe_print env (''['' @ label @ ''] reply type='' @ int_to_str (etype reply) @ '' success='' @ bool_str (cr_success resp)))
        (summarize_configure_response env resp True)))))"

definition save_requests :: "('s, 'w, 'p, 'f) fe_env \<Rightarrow> ('s, 'w) cmp_env \<Rightarrow> string \<Rightarrow> ConfigureRequest \<Rightarrow> ConfigureRequest \<Rightarrow> 'p ControlEnvelopeV2 \<Rightarrow> 'p ControlEnvelopeV2 \<Rightarrow> ('s, unit) py" where
  "save_requests env ce out_dir cfg_cli cfg_seed env_cli env_seed =
     m_then (cp_write_bytes ce (out_dir @ ''/cli_configure_env.bin'') (ser (fe_envc env) env_cli))
     (m_then (cp_write_bytes ce (out_dir @ ''/seed_configure_env.bin'') (ser (fe_envc env) env_seed))
     (m_then (cp_write_text ce (out_dir @ ''/cli_configure_request.json'') (cp_sorted_json ce cfg_cli))
       (cp_write_text ce (out_dir @ ''/seed_configure_request.json'') (cp_sorted_json ce cfg_seed))))"

definition print_diff :: "('s, 'w, 'p, 'f) fe_env \<Rightarrow> ('s, 'w) cmp_env \<Rightarrow> ConfigureRequest \<Rightarrow> ConfigureRequest \<Rightarrow> ('s, unit) py" where
  "print_diff env ce cfg_cli cfg_seed =
     print_lines env ((CHR 0x0A # ''=== REQUEST DIFF (cli vs seed) ==='') #
       cp_diff ce (splitlines (cp_sorted_json ce cfg_cli)) (splitlines (cp_sorted_json ce cfg_seed)))"

definition compare_main :: "('s, 'w, 'p, 'f) fe_env \<Rightarrow> ('s, 'w) cmp_env \<Rightarrow> (string \<Rightarrow> int result) \<Rightarrow> cmp_args \<Rightarrow> ('s, int) py" where
  "compare_main env ce tr args = (let rt = pa_route (cp_pds args) in
     m_bind (m_lift (build_cli_cfg args)) (\<lambda>cfg_cli.
     m_bind (m_get (\<lambda>s. cp_load ce s (cp_json_path args))) (\<lambda>doc.
     m_bind (m_lift (r_bind doc (build_seed_cfg tr args))) (\<lambda>cfg_seed.
     m_bind (build_configure_v2_envelope env cfg_cli rt) (\<lambda>env_cli.
     m_bind (build_configure_v2_envelope env cfg_seed rt) (\<lambda>env_seed.
     m_then (save_requests env ce (cp_out_dir args) cfg_cli cfg_seed env_cli env_seed)
     (m_then (print_diff env ce cfg_cli cfg_seed)
     (m_then (fe_print env (CHR 0x0A # ''=== SENDING CLI REQUEST ===''))
     (m_then (send_envelope env ce env_cli ''cli'')
     (m_then (fe_print env (CHR 0x0A # ''=== SENDING SEED REQUEST ===''))
     (m_then (send_envelope env ce env_seed ''seed'')
     (m_then (fe_print env (CHR 0x0A # ''Saved envelopes/requests under: '' @ cp_out_dir args))
       (m_ret 0)))))))))))))"

section \<open>An empty seed\<close>

lemma empty_seed_keeps:
  assumes "request_typed cfg"
  shows "build_request_from_seed tr (JObj []) cfg b = Inr (cfg\<lparr>full_stream_channels := []\<rparr>)"
  using assms
  by (simp add: build_request_from_seed_def seed_uint_def uint_field_def request_typed_def in_uint_def seed_channels_def seed_afes_def seed_afe_lists_def Let_def)

lemma default_request_seedable:
  assumes "params_ok p"
  shows "build_request_from_seed tr (JObj []) (default_request p) b = Inr (default_request p)"
proof -
  have "request_typed (default_request p)" using assms by (intro default_request_typed [of p]) (simp add: make_default_config_ok)
  from empty_seed_keeps [OF this] show ?thesis by (simp add: default_request_def)
qed

text \<open>C38: For a seed that sets nothing, the request built from the seed is the one built from the command line, except that the bias control
  and the trigger words have the defaults of \<open>make_default_config\<close> in place of the options: the printed difference shows nothing else.\<close>

theorem empty_seed_request:
  assumes "build_cli_cfg args = Inr cfg"
  shows "build_seed_cfg tr args (JObj [(pa_board_id (cp_pds args), JObj [])]) =
    Inr (cfg\<lparr>biasctrl := 1300, self_trigger_threshold := 0xc, self_trigger_xcorr := 0x68, tp_conf := 0x0010DB35, compensator := 0xFFFFFFFFFF,
      inverters := 0xFF00000000\<rparr>)"
proof -
  let ?a = "cp_pds args"
  obtain lpf cl pg lg lc where l: "lookup lpf_dict (pa_lpf_cutoff ?a) = Inr lpf" "lookup pga_clamp_level_dict (cp_pga_clamp_level args) = Inr cl"
    "lookup pga_gain_control_dict (pa_pga_gain_control ?a) = Inr pg" "lookup lna_gain_control_dict (pa_lna_gain_control ?a) = Inr lg"
    "lookup lna_input_clamp_dict (pa_lna_input_clamp ?a) = Inr lc"
    and m: "make_default_config (default_params\<lparr>p_ip := pa_host ?a, p_slot := 0, p_timeout_ms := pa_timeout ?a, p_biasctrl := cp_biasctrl args,
       p_self_trigger_threshold := cp_self_trigger_threshold args, p_self_trigger_xcorr := cp_self_trigger_xcorr args, p_tp_conf := cp_tp_conf args,
       p_compensator := cp_compensator args, p_inverters := cp_inverters args, p_per_ch_trim := 0, p_per_ch_offset := pa_ch_offset ?a,
       p_vgain := pa_vgain ?a, p_lpf_cutoff := lpf, p_pga_clamp_level := cl, p_pga_gain := pg, p_lna_gain := lg, p_lna_clamp := lc\<rparr>) = Inr cfg"
    using assms by (auto simp: build_cli_cfg_def Let_def r_bind_ok)
  define ip where "ip = (if pa_host ?a \<noteq> [] then pa_host ?a else ''127.0.0.1'')"
  let ?p = "default_params\<lparr>p_ip := ip, p_slot := 0, p_per_ch_offset := pa_ch_offset ?a, p_vgain := pa_vgain ?a, p_lpf_cutoff := lpf, p_pga_gain := pg,
       p_lna_gain := lg, p_lna_clamp := lc\<rparr>"
  have ok: "params_ok ?p" "0 \<le> pa_timeout ?a" "pa_timeout ?a < 2 ^ 32"
    using m unfolding make_default_config_ok by (auto simp: params_ok_def default_params_def)
  have "build_defaults_from_args ?a (JStr ip) (JInt 0) = Inr (default_request ?p)"
    using l ok(1) by (simp add: build_defaults_from_args_def uint_field_def make_default_config_ok)
  moreover have "target_ip ?a (JObj []) = Inr (JStr ip)" by (simp add: target_ip_def ip_def)
  ultimately have "build_seed_cfg tr args (JObj [(pa_board_id ?a, JObj [])]) =
      Inr ((default_request ?p)\<lparr>daphne_address := pa_host ?a, req_timeout_ms := pa_timeout ?a\<rparr>)"
    using ok by (simp add: build_seed_cfg_def Let_def default_request_seedable uint_field_def)
  then show ?thesis
    using m unfolding make_default_config_ok
    by (simp add: default_request_def default_params_def channel_of_def [abs_def] afe_of_def [abs_def])
qed

theorem empty_seed_request_witness:
  "\<exists>cfg. build_cli_cfg cmp_defaults = Inr cfg \<and> build_seed_cfg (\<lambda>_. Inl TypeError) cmp_defaults (JObj [(''60'', JObj [])]) =
    Inr (cfg\<lparr>biasctrl := 1300, self_trigger_threshold := 0xc, self_trigger_xcorr := 0x68, tp_conf := 0x0010DB35, compensator := 0xFFFFFFFFFF,
      inverters := 0xFF00000000\<rparr>)"
proof -
  obtain cfg where c: "build_cli_cfg cmp_defaults = Inr cfg"
    by (simp add: build_cli_cfg_def cmp_defaults_def pds_defaults_def Let_def lookup_def lpf_dict_def pga_clamp_level_dict_def pga_gain_control_dict_def
        lna_gain_control_dict_def lna_input_clamp_dict_def make_default_config_ok params_ok_def default_params_def)
  with empty_seed_request [OF c] show ?thesis by (simp add: cmp_defaults_def)
qed

end
