(* ===== verification/Daphne_Scripts.thy ===== *)
theory Daphne_Scripts
  imports Legacy_Scripts Fe_Main
begin

text \<open>
  The scripts that configure a whole board command by command: \<open>client/protobuf_configure_daphne.py\<close> over the deprecated envelope,
  \<open>client/protobuf_configure_daphne_v2.py\<close> over \<open>ControlEnvelopeV2\<close>, \<open>client/protobuf_client_spybuffer_dump.py\<close>, and
  \<open>client/configure_fe_min.py\<close>, which sends one configuration in the deprecated envelope.

  A script is its plan, the list of commands, and the loop that runs it. The abstract effect of a plan is a map from the settings of the
  board (\<open>target\<close>) to their values; the plans of the first two scripts differ in order and length and have the same effect.
\<close>

section \<open>Commands\<close>

text \<open>The checks of the unsigned fields a command sets.\<close>

fun low_check :: "low_request \<Rightarrow> low_request result" where
  "low_check (WriteOFFSETSingleChannel ch v g) = r_bind (u32 v) (\<lambda>v. Inr (WriteOFFSETSingleChannel ch v g))"
| "low_check (WriteAFEVGAIN a v) = r_bind (u32 v) (\<lambda>v. Inr (WriteAFEVGAIN a v))"
| "low_check (WriteAFEFunction a f v) = r_bind (u32 v) (\<lambda>v. Inr (WriteAFEFunction a f v))"
| "low_check r = Inr r"

fun legacy_type :: "low_request \<Rightarrow> int" where
  "legacy_type (WriteAFEVGAIN a v) = WRITE_AFE_VGAIN" | "legacy_type (WriteOFFSETSingleChannel ch v g) = WRITE_OFFSET_CH"
| "legacy_type (WriteVbiasControl v b) = WRITE_VBIAS_CONTROL" | "legacy_type (WriteAFEBiasSet a v) = WRITE_AFE_BIAS_SET"
| "legacy_type (WriteTrimSingleChannel ch v g) = WRITE_TRIM_CH" | "legacy_type (WriteAFEFunction a f v) = WRITE_AFE_FUNCTION"
| "legacy_type DoAFEReset = DO_AFE_RESET" | "legacy_type (SetAFEPowerState b) = SET_AFE_POWERSTATE" | "legacy_type AlignAFEs = ALIGN_AFE"
| "legacy_type DoSoftwareTrigger = DO_SOFTWARE_TRIGGER"

fun legacy_class :: "low_request \<Rightarrow> string" where
  "legacy_class (WriteAFEVGAIN a v) = ''cmd_writeAFEVGAIN_response'' "
| "legacy_class (WriteOFFSETSingleChannel ch v g) = ''cmd_writeOFFSET_singleChannel_response''"
| "legacy_class (WriteVbiasControl v b) = ''cmd_writeVbiasControl_response''" | "legacy_class (WriteAFEBiasSet a v) = ''cmd_writeAFEBiasSet_response''"
| "legacy_class (WriteTrimSingleChannel ch v g) = ''cmd_writeTrim_singleChannel_response''"
| "legacy_class (WriteAFEFunction a f v) = ''cmd_writeAFEFunction_response''" | "legacy_class DoAFEReset = ''cmd_doAFEReset_response''"
| "legacy_class (SetAFEPowerState b) = ''cmd_setAFEPowerState_response''" | "legacy_class AlignAFEs = ''cmd_alignAFEs_response''"
| "legacy_class DoSoftwareTrigger = ''cmd_doSoftwareTrigger_response''"

fun v2_type :: "low_request \<Rightarrow> int" where
  "v2_type (WriteAFEVGAIN a v) = 206" | "v2_type (WriteOFFSETSingleChannel ch v g) = 220"
| "v2_type (WriteVbiasControl v b) = 222" | "v2_type (WriteAFEBiasSet a v) = 208"
| "v2_type (WriteTrimSingleChannel ch v g) = 214" | "v2_type (WriteAFEFunction a f v) = 260"
| "v2_type DoAFEReset = 250" | "v2_type (SetAFEPowerState b) = 252" | "v2_type AlignAFEs = 258"
| "v2_type DoSoftwareTrigger = 262"

section \<open>\<open>protobuf_configure_daphne\<close>\<close>

record dc_args =
  dc_vgain :: int
  dc_ch_offset :: int
  dc_align_afes :: bool
  dc_enable_integrators :: bool
  dc_lpf_cutoff :: int
  dc_pga_clamp_level :: string
  dc_pga_gain_control :: string
  dc_lna_gain_control :: string
  dc_lna_input_clamp :: string

record dc_codes =
  cd_lpf :: int
  cd_pga_clamp :: int
  cd_pga_gain :: int
  cd_lna_gain :: int
  cd_lna_clamp :: int

definition daphne_codes :: "dc_args \<Rightarrow> dc_codes result" where
  "daphne_codes args =
     r_bind (lookup lpf_dict (dc_lpf_cutoff args)) (\<lambda>lpf.
     r_bind (lookup pga_clamp_level_dict (dc_pga_clamp_level args)) (\<lambda>pc.
     r_bind (lookup pga_gain_control_dict (dc_pga_gain_control args)) (\<lambda>pg.
     r_bind (lookup lna_gain_control_dict (dc_lna_gain_control args)) (\<lambda>lg.
     r_bind (lookup lna_input_clamp_dict (dc_lna_input_clamp args)) (\<lambda>lc.
     Inr \<lparr>cd_lpf = lpf, cd_pga_clamp = pc, cd_pga_gain = pg, cd_lna_gain = lg, cd_lna_clamp = lc\<rparr>)))))"

definition no_integrators :: "dc_args \<Rightarrow> int" where
  "no_integrators args = (if dc_enable_integrators args then 0 else 1)"

definition offsets_and_gains :: "dc_args \<Rightarrow> low_request list" where
  "offsets_and_gains args =
     map (\<lambda>ch. WriteOFFSETSingleChannel ch (dc_ch_offset args) False) (py_range 40) @ map (\<lambda>a. WriteAFEVGAIN a (dc_vgain args)) (py_range 5)"

definition legacy_functions :: "dc_args \<Rightarrow> dc_codes \<Rightarrow> int \<Rightarrow> low_request list" where
  "legacy_functions args c a = map (\<lambda>(f, v). WriteAFEFunction a f v)
     [(''SERIALIZED_DATA_RATE'', 1), (''ADC_OUTPUT_FORMAT'', 1), (''LPF_PROGRAMMABILITY'', cd_lpf c), (''PGA_INTEGRATOR_DISABLE'', no_integrators args),
      (''PGA_CLAMP_LEVEL'', cd_pga_clamp c), (''ACTIVE_TERMINATION_ENABLE'', 0), (''LNA_INPUT_CLAMP_SETTING'', cd_lna_clamp c),
      (''LNA_INTEGRATOR_DISABLE'', no_integrators args), (''LNA_GAIN'', cd_lna_gain c)]"

definition legacy_plan :: "dc_args \<Rightarrow> dc_codes \<Rightarrow> low_request list" where
  "legacy_plan args c =
     offsets_and_gains args @ [DoAFEReset, SetAFEPowerState True] @ concat (map (legacy_functions args c) (py_range 5)) @ [SetAFEPowerState True]
     @ (if dc_align_afes args then [AlignAFEs] else [])"

definition legacy_run :: "('s, 'w, 'p) legacy_env \<Rightarrow> low_request list \<Rightarrow> ('s, unit) py" where
  "legacy_run env plan =
     m_for plan (\<lambda>q. m_bind (m_lift (low_check q)) (\<lambda>q. legacy_request env (legacy_type q) q (legacy_class q)))"

definition configure_daphne_script :: "('s, 'w, 'p) legacy_env \<Rightarrow> dc_args \<Rightarrow> ('s, unit) py" where
  "configure_daphne_script env args =
     m_bind (m_lift (daphne_codes args)) (\<lambda>c.
     m_then (legacy_run env (legacy_plan args c)) (z_close (le_sock env)))"

section \<open>\<open>protobuf_configure_daphne_v2\<close>\<close>

record ('s, 'w, 'p, 'f) dv_env =
  dv_fe :: "('s, 'w, 'p, 'f) fe_env"
  dv_ser :: "low_request \<Rightarrow> 'p"
  dv_respc :: "('p, legacy_resp) codec"

definition dv_accept :: "int \<Rightarrow> 'p ControlEnvelopeV2 \<times> nat \<Rightarrow> 'p ControlEnvelopeV2 result" where
  "dv_accept mid reply = (case reply of (rep, n) \<Rightarrow>
     if n = 0 then Inl (RuntimeError ''Bad V2 reply'')
     else if dir rep \<noteq> DIR_RESPONSE \<or> correl_id rep \<noteq> mid then Inl (RuntimeError ''V2 correlation/type mismatch'')
     else Inr rep)"

definition dv_rpc :: "('s, 'w, 'p, 'f) dv_env \<Rightarrow> low_request \<Rightarrow> ('s, 'p ControlEnvelopeV2) py" where
  "dv_rpc env q = (let zs = fe_sock (dv_fe env) in
     m_bind (build_envelope (dv_fe env) (v2_type q) (dv_ser env q) ''mezz/0'') (\<lambda>e.
     m_then (z_timeout zs 60000)
     (m_then (z_send zs (ser (fe_envc (dv_fe env)) e))
     (m_bind (z_recv zs) (\<lambda>frames.
      m_bind (m_lift (ParseFromString (fe_envc (dv_fe env)) (last frames))) (\<lambda>reply.
      m_lift (dv_accept (msg_id e) reply)))))))"

fun dv_label :: "low_request \<Rightarrow> string" where
  "dv_label (WriteOFFSETSingleChannel ch v g) = ''OFFSET ch'' @ fmt_dec 2 ch"
| "dv_label (WriteAFEVGAIN a v) = ''VGAIN AFE'' @ int_to_str a"
| "dv_label DoAFEReset = ''AFE DO_RESET''"
| "dv_label (SetAFEPowerState b) = ''AFE POWER''"
| "dv_label (WriteAFEFunction a f v) = f @ '' AFE'' @ int_to_str a"
| "dv_label q = ''ALIGN''"

definition dv_step :: "('s, 'w, 'p, 'f) dv_env \<Rightarrow> low_request \<Rightarrow> ('s, unit) py" where
  "dv_step env q =
     m_bind (m_lift (low_check q)) (\<lambda>q.
     m_bind (dv_rpc env q) (\<lambda>rep.
     m_bind (m_lift (ParseFromString (dv_respc env) (payload rep))) (\<lambda>(msg, k).
     fe_print (dv_fe env) (''['' @ dv_label q @ ''] success='' @ bool_str (lr_success msg) @ '' :: '' @ lr_message msg))))"

definition v2_functions :: "dc_args \<Rightarrow> dc_codes \<Rightarrow> int \<Rightarrow> low_request list" where
  "v2_functions args c a = map (\<lambda>(f, v). WriteAFEFunction a f v)
     [(''SERIALIZED_DATA_RATE'', 1), (''ADC_OUTPUT_FORMAT'', 1), (''LPF_PROGRAMMABILITY'', cd_lpf c), (''PGA_INTEGRATOR_DISABLE'', no_integrators args),
      (''PGA_CLAMP_LEVEL'', cd_pga_clamp c), (''ACTIVE_TERMINATION_ENABLE'', 0), (''LNA_INPUT_CLAMP_SETTING'', cd_lna_clamp c),
      (''LNA_GAIN'', cd_lna_gain c), (''LNA_INTEGRATOR_DISABLE'', no_integrators args)]"

definition v2_plan :: "dc_args \<Rightarrow> dc_codes \<Rightarrow> low_request list" where
  "v2_plan args c =
     offsets_and_gains args @ [DoAFEReset, SetAFEPowerState True] @ concat (map (v2_functions args c) (py_range 5))
     @ (if dc_align_afes args then [AlignAFEs] else [])"

definition configure_daphne_v2_main :: "('s, 'w, 'p, 'f) dv_env \<Rightarrow> dc_args \<Rightarrow> ('s, unit) py" where
  "configure_daphne_v2_main env args =
     m_bind (m_lift (daphne_codes args)) (\<lambda>c.
     m_then (m_for (v2_plan args c) (dv_step env)) (z_close (fe_sock (dv_fe env))))"

section \<open>\<open>protobuf_client_spybuffer_dump\<close>\<close>

text \<open>Every command goes over a socket of its own, which is closed after the reply; only its first frame is read. The class of the gain
  response does not exist, and neither does the field \<open>channel\<close> of the dump request.\<close>

fun spy_class :: "low_request \<Rightarrow> string" where
  "spy_class (WriteAFEVGAIN a v) = ''cmd_writeAFEVgain_response''"
| "spy_class q = legacy_class q"

definition spy_request :: "('s, 'w, 'p) legacy_env \<Rightarrow> low_request \<Rightarrow> ('s, unit) py" where
  "spy_request env q =
     m_then (z_send (le_sock env) (legacy_frame env (legacy_type q) q))
     (m_bind (z_recv (le_sock env)) (\<lambda>frames.
      m_bind (m_lift (ParseFromString (le_envc env) (hd frames))) (\<lambda>(reply, n).
      m_then (if l_type reply = legacy_type q
         then m_then (m_lift (pb_attr (spy_class q)))
           (m_bind (m_lift (ParseFromString (le_respc env) (l_payload reply))) (\<lambda>(response, k). print_response env response))
         else m_ret ())
       (z_close (le_sock env)))))"

definition spy_functions :: "int \<Rightarrow> low_request list" where
  "spy_functions a = map (\<lambda>(f, v). WriteAFEFunction a f v)
     [(''SERIALIZED_DATA_RATE'', 1), (''ADC_OUTPUT_FORMAT'', 1), (''LPF_PROGRAMMABILITY'', 4), (''PGA_INTEGRATOR_DISABLE'', 1), (''PGA_CLAMP_LEVEL'', 2),
      (''ACTIVE_TERMINATION_ENABLE'', 0), (''LNA_INPUT_CLAMP_SETTING'', 2), (''LNA_INTEGRATOR_DISABLE'', 1), (''LNA_GAIN'', 2)]"

definition spy_plan :: "low_request list" where
  "spy_plan =
     map (\<lambda>ch. WriteOFFSETSingleChannel ch 2275 False) (py_range 40) @ map (\<lambda>a. WriteAFEVGAIN a 1600) (py_range 5)
     @ [DoAFEReset, SetAFEPowerState False] @ concat (map spy_functions (py_range 5)) @ [SetAFEPowerState True, AlignAFEs, DoSoftwareTrigger]"

definition dump_request_fields :: "string list" where
  "dump_request_fields = [''channelList'', ''numberOfSamples'', ''numberOfWaveforms'', ''softwareTrigger'']"

text \<open>The script up to the assignment to the field of the dump request; \<open>rest\<close> is what follows it.\<close>

definition spybuffer_dump_script :: "('s, 'w, 'p) legacy_env \<Rightarrow> ('s, unit) py \<Rightarrow> ('s, unit) py" where
  "spybuffer_dump_script env rest =
     m_then (m_for spy_plan (spy_request env))
     (m_then (m_lift (if ''channel'' \<in> set dump_request_fields then Inr () else Inl AttributeError)) rest)"

section \<open>\<open>configure_fe_min\<close>\<close>

definition fe_min_params :: "string \<Rightarrow> cfg_params" where
  "fe_min_params host = \<lparr>p_ip = host, p_slot = 0, p_timeout_ms = 500, p_biasctrl = 0, p_self_trigger_threshold = 0x1F40, p_self_trigger_xcorr = 0x68,
     p_tp_conf = 0x0010DB35, p_compensator = 0xFFFFFFFFFF, p_inverters = 0xFF00000000, p_per_ch_trim = 0, p_per_ch_offset = 2275, p_vgain = 1600,
     p_lpf_cutoff = 4, p_pga_clamp_level = 2, p_pga_gain = 0, p_lna_gain = 2, p_lna_clamp = 0\<rparr>"

definition CONFIGURE_FE :: int where "CONFIGURE_FE = 2"

definition fe_min_main ::
  "('s, 'w) zsock \<Rightarrow> ('w, 'p ControlEnvelope) codec \<Rightarrow> (ConfigureRequest \<Rightarrow> 'p) \<Rightarrow> ('p, ConfigureResponse) codec \<Rightarrow> (string \<Rightarrow> ('s, unit) py) \<Rightarrow>
   string \<Rightarrow> ('s, int) py" where
  "fe_min_main zs envc sercfg outcodec pr host =
     m_bind (m_lift (make_default_config (fe_min_params host))) (\<lambda>cfg.
     m_then (z_send zs (ser envc \<lparr>l_type = CONFIGURE_FE, l_payload = sercfg cfg\<rparr>))
     (m_bind (z_recv zs) (\<lambda>frames.
      m_bind (m_lift (ParseFromString envc (last frames))) (\<lambda>(reply, n).
      if l_type reply \<noteq> CONFIGURE_FE then m_then (pr (''Unexpected reply type: '' @ int_to_str (l_type reply))) (m_ret 1)
      else m_bind (m_lift (ParseFromString outcodec (l_payload reply))) (\<lambda>(out, k).
        m_then (pr (''Success: '' @ bool_str (cr_success out)))
        (m_then (pr (''Message:'' @ [CHR 0x0A, CHR '' ''] @ cr_message out)) (m_ret 0)))))))"

section \<open>The effect of a plan\<close>

datatype setting = Offset int | Vgain int | Function int string | Power

fun effect :: "low_request \<Rightarrow> (setting \<rightharpoonup> int) \<Rightarrow> (setting \<rightharpoonup> int)" where
  "effect (WriteOFFSETSingleChannel ch v g) m = m(Offset ch \<mapsto> v)"
| "effect (WriteAFEVGAIN a v) m = m(Vgain a \<mapsto> v)"
| "effect (WriteAFEFunction a f v) m = m(Function a f \<mapsto> v)"
| "effect (SetAFEPowerState b) m = m(Power \<mapsto> (if b then 1 else 0))"
| "effect DoAFEReset m = (\<lambda>k. case k of Function a f \<Rightarrow> None | _ \<Rightarrow> m k)"
| "effect q m = m"

lemma functions_same: "fold effect (legacy_functions args c a) m = fold effect (v2_functions args c a) m"
  by (simp add: legacy_functions_def v2_functions_def fun_upd_twist [of "Function a ''LNA_GAIN''"])

lemma functions_power: "fold effect (v2_functions args c a) m Power = m Power"
  by (simp add: v2_functions_def)

lemma all_functions_same:
  "fold effect (concat (map (legacy_functions args c) as)) m = fold effect (concat (map (v2_functions args c) as)) m"
  "fold effect (concat (map (v2_functions args c) as)) m Power = m Power"
  by (induction as arbitrary: m) (simp_all add: functions_same functions_power)

lemma plans_same: "fold effect (legacy_plan args c) m = fold effect (v2_plan args c) m"
proof -
  let ?m = "fold effect (concat (map (v2_functions args c) (py_range 5))) (fold effect (offsets_and_gains args @ [DoAFEReset, SetAFEPowerState True]) m)"
  have "?m Power = Some 1" by (simp add: all_functions_same(2))
  then have "?m(Power \<mapsto> 1) = ?m" by (simp add: fun_upd_idem)
  then show ?thesis by (simp add: legacy_plan_def v2_plan_def all_functions_same(1))
qed

section \<open>Running a plan\<close>

lemma class_exists: "pb_attr (legacy_class q) = Inr ()"
  by (cases q) (simp_all add: pb_attr_def low_messages_def)

lemma lookup_range: "lookup d k = Inr v \<Longrightarrow> list_all (\<lambda>kv. 0 \<le> snd kv \<and> snd kv < 2 ^ 32) d \<Longrightarrow> 0 \<le> v \<and> v < (2 :: int) ^ 32"
  by (auto simp: lookup_def list_all_iff dest!: map_of_SomeD)

lemma dictionaries_fit:
  "list_all (\<lambda>kv. 0 \<le> snd kv \<and> snd kv < (2 :: int) ^ 32) lpf_dict" "list_all (\<lambda>kv. 0 \<le> snd kv \<and> snd kv < (2 :: int) ^ 32) pga_clamp_level_dict"
  "list_all (\<lambda>kv. 0 \<le> snd kv \<and> snd kv < (2 :: int) ^ 32) lna_gain_control_dict" "list_all (\<lambda>kv. 0 \<le> snd kv \<and> snd kv < (2 :: int) ^ 32) lna_input_clamp_dict"
  by (simp_all add: lpf_dict_def pga_clamp_level_dict_def lna_gain_control_dict_def lna_input_clamp_dict_def)

lemma dictionary_codes:
  assumes "daphne_codes args = Inr c"
  shows "list_all (\<lambda>v. 0 \<le> v \<and> v < 2 ^ 32) [cd_lpf c, cd_pga_clamp c, cd_lna_gain c, cd_lna_clamp c]"
  using assms by (auto simp: daphne_codes_def r_bind_ok dest!: lookup_range [OF _ dictionaries_fit(1)] lookup_range [OF _ dictionaries_fit(2)]
      lookup_range [OF _ dictionaries_fit(3)] lookup_range [OF _ dictionaries_fit(4)])

lemma plan_checked:
  assumes "daphne_codes args = Inr c" "0 \<le> dc_vgain args \<and> dc_vgain args < 2 ^ 32" "0 \<le> dc_ch_offset args \<and> dc_ch_offset args < 2 ^ 32"
    and "q \<in> set (legacy_plan args c) \<union> set (v2_plan args c)"
  shows "low_check q = Inr q"
  using assms(2-4) dictionary_codes [OF assms(1)]
  unfolding legacy_plan_def v2_plan_def offsets_and_gains_def legacy_functions_def v2_functions_def no_integrators_def
  by (auto simp: u32_def split: if_splits)

context legacy_link
begin

lemma plan_run:
  assumes "\<And>q. q \<in> set plan \<Longrightarrow> low_check q = Inr q"
  shows "\<exists>t. legacy_run env plan s = (Inr (), t) \<and> sent t = sent s @ map (\<lambda>q. legacy_frame env (legacy_type q) q) plan"
  using assms
proof (induction plan arbitrary: s)
  case (Cons q plan)
  obtain t where t: "legacy_request env (legacy_type q) q (legacy_class q) s = (Inr (), t)" "sent t = sent s @ [legacy_frame env (legacy_type q) q]"
    using request_ok [OF class_exists] by blast
  obtain u where "legacy_run env plan t = (Inr (), u)" "sent u = sent t @ map (\<lambda>q. legacy_frame env (legacy_type q) q) plan"
    using Cons.IH Cons.prems by (meson list.set_intros(2))
  with t Cons.prems show ?case by (simp add: legacy_run_def py_run)
qed (simp add: legacy_run_def py_run)

end

locale command_link = served_socket "dv_fe env" sent reply_of
  for env :: "('s, 'w, 'p, 'f) dv_env" and sent :: "'s \<Rightarrow> 'w list" and reply_of :: "'p ControlEnvelopeV2 \<Rightarrow> 'p ControlEnvelopeV2" +
  assumes l_correlated: "dir (reply_of e) = DIR_RESPONSE \<and> correl_id (reply_of e) = msg_id e"
    and l_decodes: "\<exists>msg k. ParseFromString (dv_respc env) (payload (reply_of e)) = Inr (msg, k)"
    and l_timeout: "\<exists>t. z_timeout (fe_sock (dv_fe env)) ms s = (Inr (), t) \<and> sent t = sent s"
    and l_close: "\<exists>t. z_close (fe_sock (dv_fe env)) s = (Inr (), t) \<and> sent t = sent s"
begin

lemma timeout_t: "triple (\<lambda>_. True) sent (\<lambda>g. Q () g) (z_timeout (fe_sock (dv_fe env)) ms) Q"
  unfolding triple_def using l_timeout by metis

lemma close_t: "triple (\<lambda>_. True) sent (\<lambda>g. Q () g) (z_close (fe_sock (dv_fe env))) Q"
  unfolding triple_def using l_close by metis

lemma dv_rpc_t:
  "triple (\<lambda>_. True) sent (\<lambda>g. g = g0) (dv_rpc env q)
     (\<lambda>rep g. \<exists>e w. rep = reply_of e \<and> g = g0 @ [w] \<and> is_frame (dv_fe env) ''mezz/0'' (v2_type q, dv_ser env q) w)"
  unfolding dv_rpc_def Let_def
  by (rule triple_weaken, (rule wp timeout_t)+) (auto simp: is_frame_def dv_accept_def l_correlated)

lemma dv_step_t:
  assumes "low_check q = Inr q"
  shows "triple (\<lambda>_. True) sent (\<lambda>g. g = g0) (dv_step env q)
     (\<lambda>_ g. \<exists>w. g = g0 @ [w] \<and> is_frame (dv_fe env) ''mezz/0'' (v2_type q, dv_ser env q) w)"
  unfolding dv_step_def assms m_bind_lift(1)
proof (rule triple_bind [OF _ dv_rpc_t])
  fix rep :: "'p ControlEnvelopeV2"
  let ?k = "m_bind (m_lift (ParseFromString (dv_respc env) (payload rep))) (\<lambda>(msg, k).
     fe_print (dv_fe env) (''['' @ dv_label q @ ''] success='' @ bool_str (lr_success msg) @ '' :: '' @ lr_message msg))"
  have quiet: "\<exists>t. ?k s = (Inr (), t) \<and> sent t = sent s" if rep: "rep = reply_of e" for e s
  proof -
    obtain msg k where "ParseFromString (dv_respc env) (payload rep) = Inr (msg, k)" using l_decodes rep by blast
    then have "?k = fe_print (dv_fe env) (''['' @ dv_label q @ ''] success='' @ bool_str (lr_success msg) @ '' :: '' @ lr_message msg)" by simp
    then show ?thesis using l_print by metis
  qed
  show "triple (\<lambda>_. True) sent (\<lambda>g. \<exists>e w. rep = reply_of e \<and> g = g0 @ [w] \<and> is_frame (dv_fe env) ''mezz/0'' (v2_type q, dv_ser env q) w) ?k
     (\<lambda>_ g. \<exists>w. g = g0 @ [w] \<and> is_frame (dv_fe env) ''mezz/0'' (v2_type q, dv_ser env q) w)"
    unfolding triple_def using quiet by fastforce
qed

lemma dv_plan_run:
  assumes "\<And>q. q \<in> set plan \<Longrightarrow> low_check q = Inr q"
  shows "\<exists>ws t. m_for plan (dv_step env) s = (Inr (), t) \<and> sent t = sent s @ ws \<and>
    list_all2 (\<lambda>q. is_frame (dv_fe env) ''mezz/0'' (v2_type q, dv_ser env q)) plan ws"
  using assms
proof (induction plan arbitrary: s)
  case (Cons q plan)
  obtain w t where t: "dv_step env q s = (Inr (), t)" "sent t = sent s @ [w]" "is_frame (dv_fe env) ''mezz/0'' (v2_type q, dv_ser env q) w"
    using tripleD [OF dv_step_t [of q "sent s"], of s] Cons.prems by auto
  obtain ws u where "m_for plan (dv_step env) t = (Inr (), u)" "sent u = sent t @ ws"
    "list_all2 (\<lambda>q. is_frame (dv_fe env) ''mezz/0'' (v2_type q, dv_ser env q)) plan ws"
    using Cons.IH [of t] Cons.prems by auto
  with t show ?case by (intro exI [of _ "w # ws"]) (auto simp: py_run)
qed (simp add: py_run)

lemma dv_main_run:
  assumes "daphne_codes args = Inr c" "\<And>q. q \<in> set (v2_plan args c) \<Longrightarrow> low_check q = Inr q"
  shows "\<exists>ws t. configure_daphne_v2_main env args s = (Inr (), t) \<and> sent t = sent s @ ws \<and>
    list_all2 (\<lambda>q. is_frame (dv_fe env) ''mezz/0'' (v2_type q, dv_ser env q)) (v2_plan args c) ws"
proof -
  obtain ws t where t: "m_for (v2_plan args c) (dv_step env) s = (Inr (), t)" "sent t = sent s @ ws"
    "list_all2 (\<lambda>q. is_frame (dv_fe env) ''mezz/0'' (v2_type q, dv_ser env q)) (v2_plan args c) ws"
    using dv_plan_run assms(2) by blast
  obtain u where "z_close (fe_sock (dv_fe env)) t = (Inr (), u)" "sent u = sent t" using l_close by blast
  with t assms(1) show ?thesis by (auto simp: configure_daphne_v2_main_def py_run)
qed

end

section \<open>The scripts\<close>

definition ref_dv :: "(nat ControlEnvelopeV2 list, nat ControlEnvelopeV2, nat, int) dv_env" where
  "ref_dv = \<lparr>dv_fe = ref_fe, dv_ser = (\<lambda>q. nat (v2_type q)),
     dv_respc = \<lparr>ser = (\<lambda>_. 0), par = (\<lambda>_. Some \<lparr>lr_success = True, lr_message = []\<rparr>), blen = (\<lambda>_. 1)\<rparr>\<rparr>"

interpretation ref_dv: command_link ref_dv "\<lambda>l. l" echo_reply
proof -
  have "served_socket (dv_fe ref_dv) (\<lambda>l. l) echo_reply"
    using ref_fe.served_socket_axioms by (simp add: ref_dv_def)
  then show "command_link ref_dv (\<lambda>l. l) echo_reply"
    by (rule command_link.intro) (unfold_locales, auto simp: ref_dv_def ref_fe_def echo_reply_def ParseFromString_def py_run)
qed

definition daphne_defaults :: dc_args where
  "daphne_defaults = \<lparr>dc_vgain = 1600, dc_ch_offset = 2275, dc_align_afes = False, dc_enable_integrators = False, dc_lpf_cutoff = 10,
     dc_pga_clamp_level = ''0 dBFS'', dc_pga_gain_control = ''24 dB'', dc_lna_gain_control = ''12 dB'', dc_lna_input_clamp = ''auto''\<rparr>"

text \<open>C39: The board configuration script over the deprecated envelope and its successor over \<open>ControlEnvelopeV2\<close> agree: on servers that
  answer, each sends exactly the commands of its plan, one request each and in order, and the two plans leave every offset, gain, AFE
  function and the power state with the same value, whatever they were before.\<close>

theorem daphne_scripts_agree:
  assumes "legacy_link lenv lsent" and "command_link env sent reply_of"
    and "daphne_codes args = Inr c" "0 \<le> dc_vgain args \<and> dc_vgain args < 2 ^ 32" "0 \<le> dc_ch_offset args \<and> dc_ch_offset args < 2 ^ 32"
  shows "(\<exists>t. configure_daphne_script lenv args s = (Inr (), t) \<and>
        lsent t = lsent s @ map (\<lambda>q. legacy_frame lenv (legacy_type q) q) (legacy_plan args c)) \<and>
     (\<exists>ws t. configure_daphne_v2_main env args s' = (Inr (), t) \<and> sent t = sent s' @ ws \<and>
        list_all2 (\<lambda>q. is_frame (dv_fe env) ''mezz/0'' (v2_type q, dv_ser env q)) (v2_plan args c) ws) \<and>
     fold effect (legacy_plan args c) m = fold effect (v2_plan args c) m"
proof (intro conjI)
  note ok = plan_checked [OF assms(3-5)]
  obtain t where t: "legacy_run lenv (legacy_plan args c) s = (Inr (), t)"
    "lsent t = lsent s @ map (\<lambda>q. legacy_frame lenv (legacy_type q) q) (legacy_plan args c)"
    using legacy_link.plan_run [OF assms(1)] ok by blast
  obtain u where "z_close (le_sock lenv) t = (Inr (), u)" "lsent u = lsent t" using legacy_link.b_close [OF assms(1)] by blast
  with t assms(3) show "\<exists>t. configure_daphne_script lenv args s = (Inr (), t) \<and>
        lsent t = lsent s @ map (\<lambda>q. legacy_frame lenv (legacy_type q) q) (legacy_plan args c)"
    by (auto simp: configure_daphne_script_def py_run)
  show "\<exists>ws t. configure_daphne_v2_main env args s' = (Inr (), t) \<and> sent t = sent s' @ ws \<and>
        list_all2 (\<lambda>q. is_frame (dv_fe env) ''mezz/0'' (v2_type q, dv_ser env q)) (v2_plan args c) ws"
    by (rule command_link.dv_main_run [OF assms(2,3)]) (use ok in blast)
  show "fold effect (legacy_plan args c) m = fold effect (v2_plan args c) m" by (rule plans_same)
qed

theorem daphne_scripts_agree_witness:
  "\<exists>c. (\<exists>t. configure_daphne_script ref_legacy daphne_defaults [] = (Inr (), t) \<and>
        t = [] @ map (\<lambda>q. legacy_frame ref_legacy (legacy_type q) q) (legacy_plan daphne_defaults c)) \<and>
     (\<exists>ws t. configure_daphne_v2_main ref_dv daphne_defaults [] = (Inr (), t) \<and> t = [] @ ws \<and>
        list_all2 (\<lambda>q. is_frame (dv_fe ref_dv) ''mezz/0'' (v2_type q, dv_ser ref_dv q)) (v2_plan daphne_defaults c) ws) \<and>
     fold effect (legacy_plan daphne_defaults c) Map.empty = fold effect (v2_plan daphne_defaults c) Map.empty"
proof -
  obtain c where "daphne_codes daphne_defaults = Inr c"
    by (simp add: daphne_codes_def daphne_defaults_def lookup_def lpf_dict_def pga_clamp_level_dict_def pga_gain_control_dict_def
        lna_gain_control_dict_def lna_input_clamp_dict_def)
  moreover have "0 \<le> dc_vgain daphne_defaults \<and> dc_vgain daphne_defaults < 2 ^ 32"
    "0 \<le> dc_ch_offset daphne_defaults \<and> dc_ch_offset daphne_defaults < 2 ^ 32" by (simp_all add: daphne_defaults_def)
  ultimately show ?thesis
    by (intro exI [of _ c]) (rule daphne_scripts_agree [OF ref_legacy.legacy_link_axioms ref_dv.command_link_axioms])
qed

text \<open>The gain of the PGA is looked up by both scripts and has no influence on what they do.\<close>

lemma pga_gain_unused:
  "legacy_plan args (c\<lparr>cd_pga_gain := g\<rparr>) = legacy_plan args c" "v2_plan args (c\<lparr>cd_pga_gain := g\<rparr>) = v2_plan args c"
  by (simp_all add: legacy_plan_def v2_plan_def legacy_functions_def [abs_def] v2_functions_def [abs_def])

text \<open>The dump script never dumps: whatever the server answers, it ends with an exception before the dump request is built.\<close>

lemma spy_script_raises: "isl (fst (spybuffer_dump_script env rest s))"
  by (auto simp: spybuffer_dump_script_def dump_request_fields_def m_then_def m_bind_def m_lift_def m_raise_def split: prod.split sum.split)

end
