(* ===== verification/Acquire_Channel.thy ===== *)
theory Acquire_Channel
  imports Acquire
begin

text \<open>
  \<open>client/protobuf_acquire_channel.py\<close>: the acquisition of one channel over the deprecated envelope, in one reply or as a stream of
  chunks. Unlike the client of \<open>Acquire\<close> it writes the words of a reply as they come, without a check of their number, and it
  puts the file into the parent of the folder it creates. The receive loop takes fuel; the progress bar, the empty plot and the debug
  printouts are left out.
\<close>

section \<open>File names\<close>

text \<open>\<open>os.path.dirname\<close>.\<close>

definition dirname :: "string \<Rightarrow> string" where
  "dirname p =
     (let base = rev (dropWhile (\<lambda>c. c \<noteq> CHR ''/'') (rev p)) in
      if list_all (\<lambda>c. c = CHR ''/'') base then base else rev (dropWhile (\<lambda>c. c = CHR ''/'') (rev base)))"

record ac_args =
  ac_channel :: int
  ac_foldername :: string
  ac_N :: int
  ac_L :: int
  ac_software_trigger :: bool
  ac_append_data :: bool
  ac_compress :: bool
  ac_compression_format :: string
  ac_compression_level :: int
  ac_legacy :: bool
  ac_chunk :: int

definition ac_filename :: "ac_args \<Rightarrow> string" where
  "ac_filename args = os_path_join (dirname (ac_foldername args)) (''channel_'' @ int_to_str (ac_channel args) @ ''.dat'')"

section \<open>The script\<close>

record ('s, 'w, 'p) ac_env =
  ac_sock :: "('s, 'w) zsock"
  ac_envc :: "('w, 'p ControlEnvelope) codec"
  ac_ser_dump :: "dump_req \<Rightarrow> 'p"
  ac_dumpc :: "('p, dump_resp) codec"
  ac_ser_chunk :: "chunk_req \<Rightarrow> 'p"
  ac_chunkc :: "('p, chunk_resp) codec"
  ac_open :: "bool \<Rightarrow> string \<Rightarrow> ('s, unit) py"
  ac_write :: "string \<Rightarrow> 8 word list \<Rightarrow> ('s, unit) py"
  ac_close :: "string \<Rightarrow> ('s, unit) py"
  ac_exists :: "string \<Rightarrow> ('s, bool) py"
  ac_makedirs :: "string \<Rightarrow> ('s, unit) py"
  ac_remove :: "string \<Rightarrow> ('s, unit) py"
  ac_system :: "string \<Rightarrow> ('s, int) py"
  ac_uuid :: "('s, string) py"
  ac_print :: "string \<Rightarrow> ('s, unit) py"

text \<open>The progress texts.\<close>

definition dump_text :: "ac_args \<Rightarrow> string" where
  "dump_text args = ''Requesting '' @ int_to_str (ac_N args) @ '' waveforms (L='' @ int_to_str (ac_L args) @ '') on ch'' @
     int_to_str (ac_channel args) @ ''; SW_TRG='' @ bool_str (ac_software_trigger args)"

definition chunks_text :: "ac_args \<Rightarrow> chunk_req \<Rightarrow> string" where
  "chunks_text args creq = ''Streaming request id='' @ cq_requestID creq @ '' N='' @ int_to_str (ac_N args) @ '' L='' @ int_to_str (ac_L args) @
     '' chunk='' @ int_to_str (cq_chunkSize creq) @ '' ch='' @ int_to_str (ac_channel args) @ '' SW_TRG='' @ bool_str (ac_software_trigger args)"

definition ac_recv :: "('s, 'w, 'p) ac_env \<Rightarrow> ('s, 'p ControlEnvelope) py" where
  "ac_recv env =
     m_bind (z_recv (ac_sock env)) (\<lambda>frames.
     m_bind (m_lift (ParseFromString (ac_envc env) (last frames))) (\<lambda>(e, n). m_ret e))"

definition single_dump :: "('s, 'w, 'p) ac_env \<Rightarrow> ac_args \<Rightarrow> ('s, unit) py" where
  "single_dump env args =
     m_bind (m_lift (dump_request [ac_channel args] (ac_N args) (ac_L args) (ac_software_trigger args))) (\<lambda>req.
     m_then (ac_print env (dump_text args))
     (m_then (z_send (ac_sock env) (ser (ac_envc env) \<lparr>l_type = DUMP_SPYBUFFER, l_payload = ac_ser_dump env req\<rparr>))
     (m_bind (ac_recv env) (\<lambda>resp_env.
      if l_type resp_env \<noteq> DUMP_SPYBUFFER then m_raise AssertionError
      else m_bind (m_lift (ParseFromString (ac_dumpc env) (l_payload resp_env))) (\<lambda>(resp, n).
        m_then (ac_open env (ac_append_data args) (ac_filename args))
          (m_finally (ac_write env (ac_filename args) (u16_bytes (dr_data resp))) (ac_close env (ac_filename args))))))))"

fun chunk_loop :: "('s, 'w, 'p) ac_env \<Rightarrow> string \<Rightarrow> nat \<Rightarrow> nat \<Rightarrow> ('s, nat option) py" where
  "chunk_loop env f 0 wf_written = m_ret None"
| "chunk_loop env f (Suc fuel) wf_written =
     m_bind (ac_recv env) (\<lambda>resp_env.
     if l_type resp_env \<noteq> DUMP_SPYBUFFER_CHUNK then chunk_loop env f fuel wf_written
     else
       m_bind (m_lift (ParseFromString (ac_chunkc env) (l_payload resp_env))) (\<lambda>(chunk, n).
       if \<not> ck_success chunk then
         m_then (ac_print env (''Server reported error: '' @ ck_message chunk)) (m_ret (Some wf_written))
       else
         m_then (m_when (ck_data chunk \<noteq> []) (ac_write env f (u16_bytes (ck_data chunk))))
         (if ck_isFinal chunk then m_ret (Some (wf_written + ck_waveformCount chunk))
          else chunk_loop env f fuel (wf_written + ck_waveformCount chunk))))"

definition single_chunk_request :: "ac_args \<Rightarrow> string \<Rightarrow> chunk_req result" where
  "single_chunk_request args rid =
     r_bind (u32 (ac_N args)) (\<lambda>n. r_bind (u32 (ac_L args)) (\<lambda>l. r_bind (u32 (max 1 (min (ac_chunk args) (ac_N args)))) (\<lambda>k.
     Inr \<lparr>cq_channelList = [ac_channel args], cq_numberOfSamples = l, cq_numberOfWaveforms = n, cq_softwareTrigger = ac_software_trigger args,
        cq_requestID = rid, cq_chunkSize = k\<rparr>)))"

definition single_stream :: "('s, 'w, 'p) ac_env \<Rightarrow> ac_args \<Rightarrow> nat \<Rightarrow> ('s, nat option) py" where
  "single_stream env args fuel =
     m_bind (ac_uuid env) (\<lambda>rid.
     m_bind (m_lift (single_chunk_request args rid)) (\<lambda>creq.
     m_then (ac_print env (chunks_text args creq))
     (m_then (ac_open env (ac_append_data args) (ac_filename args))
       (m_finally
         (m_then (z_send (ac_sock env) (ser (ac_envc env) \<lparr>l_type = DUMP_SPYBUFFER_CHUNK, l_payload = ac_ser_chunk env creq\<rparr>))
           (chunk_loop env (ac_filename args) fuel 0))
         (ac_close env (ac_filename args))))))"

text \<open>Packing the file; the name ends in \<open>.dat\<close>.\<close>

definition ac_pack :: "('s, 'w, 'p) ac_env \<Rightarrow> ac_args \<Rightarrow> ('s, unit) py" where
  "ac_pack env args =
     (let filename = ac_filename args; filename_c = take (length filename - 4) filename in
      if ac_compression_format args = ''7z'' then
        m_bind (ac_system env (''7z a -mx='' @ int_to_str (ac_compression_level args) @ '' '' @ filename_c @ ''.7z '' @ filename @ '' -y'')) (\<lambda>_.
        m_bind (ac_exists env (filename_c @ ''.7z'')) (\<lambda>ok. m_when ok (ac_remove env filename)))
      else if ac_compression_format args = ''tar'' then
        m_bind (ac_system env (''tar -czvf '' @ filename_c @ ''.tar.gz '' @ filename)) (\<lambda>_.
        m_bind (ac_exists env (filename_c @ ''.tar.gz'')) (\<lambda>ok. m_when ok (ac_remove env filename)))
      else m_ret ())"

definition acquire_channel_script :: "('s, 'w, 'p) ac_env \<Rightarrow> ac_args \<Rightarrow> nat \<Rightarrow> ('s, unit option) py" where
  "acquire_channel_script env args fuel =
     m_bind (ac_exists env (ac_foldername args)) (\<lambda>ex.
     m_then (m_when (\<not> ex) (ac_makedirs env (ac_foldername args)))
     (if ac_legacy args then m_then (single_dump env args) (m_raise (SystemExit 0))
      else m_bind (single_stream env args fuel) (\<lambda>r.
        case r of None \<Rightarrow> m_ret None
        | Some written \<Rightarrow> m_then (m_when (ac_compress args) (ac_pack env args)) (m_ret (Some ())))))"

section \<open>Where the samples go\<close>

text \<open>A folder given without a slash at its end is not where the file is put: folders with the same parent share one file per channel,
  so without \<open>-append_data\<close> the second acquisition overwrites the first.\<close>

lemma dirname_below:
  assumes "parent \<noteq> []" "last parent \<noteq> CHR ''/''" "CHR ''/'' \<notin> set name"
  shows "dirname (parent @ ''/'' @ name) = parent"
proof -
  have "dropWhile (\<lambda>c. c \<noteq> CHR ''/'') (rev name @ CHR ''/'' # rev parent) = CHR ''/'' # rev parent"
    using assms(3) by (subst dropWhile_append2) auto
  moreover have "dropWhile (\<lambda>c. c = CHR ''/'') (rev parent) = rev parent"
    using assms(1,2) by (cases parent rule: rev_cases) simp_all
  moreover have "\<not> list_all (\<lambda>c. c = CHR ''/'') (parent @ [CHR ''/''])"
    using assms(1,2) by (auto simp: list_all_iff dest: last_in_set)
  ultimately show ?thesis by (simp add: dirname_def)
qed

lemma folders_share_file:
  assumes "parent \<noteq> []" "last parent \<noteq> CHR ''/''" "CHR ''/'' \<notin> set a" "CHR ''/'' \<notin> set b"
  shows "ac_filename (args\<lparr>ac_foldername := parent @ ''/'' @ a\<rparr>) = ac_filename (args\<lparr>ac_foldername := parent @ ''/'' @ b\<rparr>)"
  using dirname_below [OF assms(1,2,3)] dirname_below [OF assms(1,2,4)] by (simp add: ac_filename_def)

section \<open>A disk and a server\<close>

definition brings_chunk :: "('s, 'w, 'p) ac_env \<Rightarrow> 'w \<Rightarrow> chunk_resp \<Rightarrow> bool" where
  "brings_chunk env w c \<longleftrightarrow>
     (\<exists>p. par (ac_envc env) w = Some \<lparr>l_type = DUMP_SPYBUFFER_CHUNK, l_payload = p\<rparr> \<and> par (ac_chunkc env) p = Some c)"

definition brings_dump :: "('s, 'w, 'p) ac_env \<Rightarrow> 'w \<Rightarrow> 32 word list \<Rightarrow> bool" where
  "brings_dump env w d \<longleftrightarrow>
     (\<exists>p r. par (ac_envc env) w = Some \<lparr>l_type = DUMP_SPYBUFFER, l_payload = p\<rparr> \<and> par (ac_dumpc env) p = Some r \<and> dr_data r = d)"

locale sample_disk =
  fixes env :: "('s, 'w, 'p) ac_env" and files :: "'s \<Rightarrow> string \<Rightarrow> 8 word list" and inbox :: "'s \<Rightarrow> 'w list" and served :: "'w \<Rightarrow> 'w list"
  assumes d_open: "\<exists>t. ac_open env ap f s = (Inr (), t) \<and> files t = (files s)(f := if ap then files s f else []) \<and> inbox t = inbox s"
    and d_write: "\<exists>t. ac_write env f bs s = (Inr (), t) \<and> files t = (files s)(f := files s f @ bs) \<and> inbox t = inbox s"
    and d_close: "\<exists>t. ac_close env f s = (Inr (), t) \<and> files t = files s \<and> inbox t = inbox s"
    and d_exists: "\<exists>b t. ac_exists env f s = (Inr b, t) \<and> files t = files s \<and> inbox t = inbox s"
    and d_makedirs: "\<exists>t. ac_makedirs env f s = (Inr (), t) \<and> files t = files s \<and> inbox t = inbox s"
    and d_uuid: "\<exists>i t. ac_uuid env s = (Inr i, t) \<and> files t = files s \<and> inbox t = inbox s"
    and d_print: "\<exists>t. ac_print env l s = (Inr (), t) \<and> files t = files s \<and> inbox t = inbox s"
    and d_send: "\<exists>t. z_send (ac_sock env) w s = (Inr (), t) \<and> files t = files s \<and> inbox t = inbox s @ served w"
    and d_recv: "inbox s = w # ws \<Longrightarrow> \<exists>fs t. z_recv (ac_sock env) s = (Inr (fs @ [w]), t) \<and> files t = files s \<and> inbox t = ws"
begin

lemma ac_receive:
  assumes "inbox s = w # ws" "par (ac_envc env) w = Some e"
  shows "\<exists>t. ac_recv env s = (Inr e, t) \<and> files t = files s \<and> inbox t = ws"
  using d_recv [OF assms(1)] assms(2) by (auto simp: ac_recv_def py_run ParseFromString_def)

lemma chunk_stored:
  "\<exists>t. m_when (d \<noteq> []) (ac_write env f (u16_bytes d)) s = (Inr (), t) \<and> files t = (files s)(f := files s f @ u16_bytes d) \<and> inbox t = inbox s"
  using d_write [of f "u16_bytes d" s] by (cases "d = []") (auto simp: m_when_def m_ret_def u16_bytes_def)

text \<open>A stream whose last chunk, and no other, is final: the words of all chunks are added to the file.\<close>

lemma chunks_stored:
  assumes "list_all2 (brings_chunk env) (inbox s) (cs @ [c])" "list_all (\<lambda>c. ck_success c \<and> \<not> ck_isFinal c) cs" "ck_success c" "ck_isFinal c"
    and "length cs < fuel"
  shows "\<exists>n t. chunk_loop env f fuel m s = (Inr (Some n), t) \<and> files t = (files s)(f := files s f @ u16_bytes (concat (map ck_data (cs @ [c]))))"
  using assms
proof (induction cs arbitrary: s fuel m)
  case Nil
  then obtain w p k where w: "inbox s = [w]" "par (ac_envc env) w = Some \<lparr>l_type = DUMP_SPYBUFFER_CHUNK, l_payload = p\<rparr>"
    "par (ac_chunkc env) p = Some c" "fuel = Suc k"
    by (cases fuel) (auto simp: list_all2_Cons2 brings_chunk_def)
  obtain s1 where s1: "ac_recv env s = (Inr \<lparr>l_type = DUMP_SPYBUFFER_CHUNK, l_payload = p\<rparr>, s1)" "files s1 = files s"
    using ac_receive [OF w(1,2)] by blast
  obtain s2 where "m_when (ck_data c \<noteq> []) (ac_write env f (u16_bytes (ck_data c))) s1 = (Inr (), s2)"
    "files s2 = (files s1)(f := files s1 f @ u16_bytes (ck_data c))" using chunk_stored by blast
  with s1 w(3,4) Nil.prems(3,4) show ?case by (simp add: py_run ParseFromString_def fun_eq_iff)
next
  case (Cons b cs)
  then obtain w ws k where w0: "inbox s = w # ws" "brings_chunk env w b" "fuel = Suc k" "list_all2 (brings_chunk env) ws (cs @ [c])"
    by (cases fuel) (auto simp: list_all2_Cons2)
  then obtain p where w: "inbox s = w # ws" "par (ac_envc env) w = Some \<lparr>l_type = DUMP_SPYBUFFER_CHUNK, l_payload = p\<rparr>"
    "par (ac_chunkc env) p = Some b" by (auto simp: brings_chunk_def)
  obtain s1 where s1: "ac_recv env s = (Inr \<lparr>l_type = DUMP_SPYBUFFER_CHUNK, l_payload = p\<rparr>, s1)" "files s1 = files s" "inbox s1 = ws"
    using ac_receive [OF w(1,2)] by blast
  obtain s2 where s2: "m_when (ck_data b \<noteq> []) (ac_write env f (u16_bytes (ck_data b))) s1 = (Inr (), s2)"
    "files s2 = (files s1)(f := files s1 f @ u16_bytes (ck_data b))" "inbox s2 = ws" using chunk_stored s1(3) by metis
  obtain n t where "chunk_loop env f k (m + ck_waveformCount b) s2 = (Inr (Some n), t)"
    "files t = (files s2)(f := files s2 f @ u16_bytes (concat (map ck_data (cs @ [c]))))"
  proof -
    have "list_all2 (brings_chunk env) (inbox s2) (cs @ [c])" "list_all (\<lambda>c. ck_success c \<and> \<not> ck_isFinal c) cs" "length cs < k"
      using Cons.prems(2,5) w0(3,4) s2(3) by simp_all
    from Cons.IH [OF this(1,2) Cons.prems(3,4) this(3), of "m + ck_waveformCount b"] that show ?thesis by blast
  qed
  with s1(1,2) s2(1,2) w(3) w0(3) Cons.prems(2) show ?case by (simp add: py_run ParseFromString_def fun_eq_iff)
qed

lemma dump_stored:
  assumes "u32 (ac_N args) = Inr (ac_N args)" "u32 (ac_L args) = Inr (ac_L args)" "inbox s = []"
    and "\<And>body. \<exists>w. served (ser (ac_envc env) \<lparr>l_type = DUMP_SPYBUFFER, l_payload = body\<rparr>) = [w] \<and> brings_dump env w d"
  shows "\<exists>t. single_dump env args s = (Inr (), t) \<and>
    files t = (files s)(ac_filename args := (if ac_append_data args then files s (ac_filename args) else []) @ u16_bytes d)"
proof -
  let ?f = "ac_filename args" and ?ap = "ac_append_data args"
  obtain req where req: "dump_request [ac_channel args] (ac_N args) (ac_L args) (ac_software_trigger args) = Inr req"
    using assms(1,2) by (simp add: dump_request_def)
  let ?w = "ser (ac_envc env) \<lparr>l_type = DUMP_SPYBUFFER, l_payload = ac_ser_dump env req\<rparr>"
  obtain w where "served ?w = [w]" "brings_dump env w d" using assms(4) by blast
  then obtain p r where w: "served ?w = [w]" "par (ac_envc env) w = Some \<lparr>l_type = DUMP_SPYBUFFER, l_payload = p\<rparr>"
    "par (ac_dumpc env) p = Some r" "dr_data r = d" by (auto simp: brings_dump_def)
  obtain s1 where s1: "ac_print env (dump_text args) s = (Inr (), s1)" "files s1 = files s" "inbox s1 = []"
    using d_print [of "dump_text args" s] assms(3) by auto
  obtain s2 where s2: "z_send (ac_sock env) ?w s1 = (Inr (), s2)" "files s2 = files s" "inbox s2 = [w]"
    using d_send [of ?w s1] s1(2,3) w(1) by auto
  obtain s3 where s3: "ac_recv env s2 = (Inr \<lparr>l_type = DUMP_SPYBUFFER, l_payload = p\<rparr>, s3)" "files s3 = files s"
    using ac_receive [OF s2(3) w(2)] s2(2) by auto
  obtain s4 where s4: "ac_open env ?ap ?f s3 = (Inr (), s4)" "files s4 = (files s)(?f := if ?ap then files s ?f else [])"
    using d_open [of ?ap ?f s3] s3(2) by auto
  obtain s5 where s5: "ac_write env ?f (u16_bytes d) s4 = (Inr (), s5)" "files s5 = (files s4)(?f := files s4 ?f @ u16_bytes d)"
    using d_write by blast
  obtain s6 where s6: "ac_close env ?f s5 = (Inr (), s6)" "files s6 = files s5" using d_close by blast
  have "single_dump env args s = (Inr (), s6)"
    by (simp add: single_dump_def req py_run s1(1) s2(1) s3(1) ParseFromString_def w(3,4) s4(1) s5(1) s6(1))
  then show ?thesis using s6(2) s5(2) s4(2) by (simp add: fun_eq_iff)
qed

lemma stream_stored:
  assumes "u32 (ac_N args) = Inr (ac_N args)" "u32 (ac_L args) = Inr (ac_L args)" "inbox s = []"
    and "\<And>body. list_all2 (brings_chunk env) (served (ser (ac_envc env) \<lparr>l_type = DUMP_SPYBUFFER_CHUNK, l_payload = body\<rparr>)) (cs @ [c])"
    and "list_all (\<lambda>c. ck_success c \<and> \<not> ck_isFinal c) cs" "ck_success c" "ck_isFinal c" "length cs < fuel"
  shows "\<exists>n t. single_stream env args fuel s = (Inr (Some n), t) \<and>
    files t = (files s)(ac_filename args :=
      (if ac_append_data args then files s (ac_filename args) else []) @ u16_bytes (concat (map ck_data (cs @ [c]))))"
proof -
  let ?f = "ac_filename args" and ?ap = "ac_append_data args"
  obtain rid s1 where s1: "ac_uuid env s = (Inr rid, s1)" "files s1 = files s" "inbox s1 = []" using d_uuid [of s] assms(3) by auto
  have "u32 (max 1 (min (ac_chunk args) (ac_N args))) = Inr (max 1 (min (ac_chunk args) (ac_N args)))"
    using assms(1) by (auto simp: u32_def split: if_splits)
  then obtain creq where creq: "single_chunk_request args rid = Inr creq" using assms(1,2) by (simp add: single_chunk_request_def)
  let ?w = "ser (ac_envc env) \<lparr>l_type = DUMP_SPYBUFFER_CHUNK, l_payload = ac_ser_chunk env creq\<rparr>"
  obtain s2 where s2: "ac_print env (chunks_text args creq) s1 = (Inr (), s2)" "files s2 = files s" "inbox s2 = []"
    using d_print [of "chunks_text args creq" s1] s1(2,3) by auto
  obtain s3 where s3: "ac_open env ?ap ?f s2 = (Inr (), s3)" "files s3 = (files s)(?f := if ?ap then files s ?f else [])" "inbox s3 = []"
    using d_open [of ?ap ?f s2] s2(2,3) by auto
  obtain s4 where s4: "z_send (ac_sock env) ?w s3 = (Inr (), s4)" "files s4 = files s3" "inbox s4 = served ?w"
    using d_send [of ?w s3] s3(3) by auto
  obtain n s5 where s5: "chunk_loop env ?f fuel 0 s4 = (Inr (Some n), s5)"
    "files s5 = (files s4)(?f := files s4 ?f @ u16_bytes (concat (map ck_data (cs @ [c]))))"
    using chunks_stored [OF assms(4) [of "ac_ser_chunk env creq", folded s4(3)] assms(5-8)] by blast
  obtain s6 where s6: "ac_close env ?f s5 = (Inr (), s6)" "files s6 = files s5" using d_close by blast
  have "single_stream env args fuel s = (Inr (Some n), s6)"
    by (simp add: single_stream_def py_run s1(1) creq s2(1) s3(1) s4(1) s5(1) s6(1))
  then show ?thesis using s6(2) s5(2) s4(2) s3(2) by (simp add: fun_eq_iff)
qed

lemma script_runs:
  "\<exists>u. files u = files s \<and> inbox u = inbox s \<and> acquire_channel_script env args fuel s =
     (if ac_legacy args then m_then (single_dump env args) (m_raise (SystemExit 0))
      else m_bind (single_stream env args fuel) (\<lambda>r.
        case r of None \<Rightarrow> m_ret None
        | Some written \<Rightarrow> m_then (m_when (ac_compress args) (ac_pack env args)) (m_ret (Some ())))) u"
proof -
  obtain b s1 where s1: "ac_exists env (ac_foldername args) s = (Inr b, s1)" "files s1 = files s" "inbox s1 = inbox s" using d_exists by blast
  obtain u where "m_when (\<not> b) (ac_makedirs env (ac_foldername args)) s1 = (Inr (), u)" "files u = files s1" "inbox u = inbox s1"
    using d_makedirs [of "ac_foldername args" s1] by (cases b) (auto simp: m_when_def m_ret_def)
  with s1 show ?thesis by (intro exI [of _ u]) (simp add: acquire_channel_script_def py_run)
qed

end

section \<open>The two modes\<close>

text \<open>The acquisition of one channel leaves the same file in both modes: the words the server sends, truncated to sixteen bits, after what
  was there before or instead of it, in the parent of the folder, and no other file changes.\<close>

theorem channel_modes_agree:
  assumes "sample_disk env files inbox served" and "u32 (ac_N args) = Inr (ac_N args)" "u32 (ac_L args) = Inr (ac_L args)"
    and "inbox s = []" "\<not> ac_compress args"
    and "\<And>body. \<exists>w. served (ser (ac_envc env) \<lparr>l_type = DUMP_SPYBUFFER, l_payload = body\<rparr>) = [w] \<and>
      brings_dump env w (concat (map ck_data (cs @ [c])))"
    and "\<And>body. list_all2 (brings_chunk env) (served (ser (ac_envc env) \<lparr>l_type = DUMP_SPYBUFFER_CHUNK, l_payload = body\<rparr>)) (cs @ [c])"
    and "list_all (\<lambda>c. ck_success c \<and> \<not> ck_isFinal c) cs" "ck_success c" "ck_isFinal c" "length cs < fuel"
  shows "\<exists>r t. acquire_channel_script env args fuel s = (r, t) \<and> r = (if ac_legacy args then Inl (SystemExit 0) else Inr (Some ())) \<and>
    files t = (files s)(ac_filename args :=
      (if ac_append_data args then files s (ac_filename args) else []) @ u16_bytes (concat (map ck_data (cs @ [c]))))"
proof -
  obtain u where u: "files u = files s" "inbox u = inbox s" "acquire_channel_script env args fuel s =
     (if ac_legacy args then m_then (single_dump env args) (m_raise (SystemExit 0))
      else m_bind (single_stream env args fuel) (\<lambda>r.
        case r of None \<Rightarrow> m_ret None
        | Some written \<Rightarrow> m_then (m_when (ac_compress args) (ac_pack env args)) (m_ret (Some ())))) u"
    using sample_disk.script_runs [OF assms(1)] by blast
  note i = assms(4) [folded u(2)]
  show ?thesis
  proof (cases "ac_legacy args")
    case True
    from sample_disk.dump_stored [OF assms(1-3) i assms(6)] obtain t where
      "single_dump env args u = (Inr (), t)" "files t = (files s)(ac_filename args :=
        (if ac_append_data args then files s (ac_filename args) else []) @ u16_bytes (concat (map ck_data (cs @ [c]))))"
      unfolding u(1) by blast
    with True u(3) show ?thesis by (auto simp: py_run m_raise_def)
  next
    case False
    from sample_disk.stream_stored [OF assms(1-3) i assms(7-11)] obtain n t where
      "single_stream env args fuel u = (Inr (Some n), t)" "files t = (files s)(ac_filename args :=
        (if ac_append_data args then files s (ac_filename args) else []) @ u16_bytes (concat (map ck_data (cs @ [c]))))"
      unfolding u(1) by blast
    with False u(3) assms(5) show ?thesis by (auto simp: py_run m_when_def m_ret_def)
  qed
qed

section \<open>A server with two chunks\<close>

definition two_chunks :: "chunk_resp list" where
  "two_chunks = [\<lparr>ck_success = True, ck_isFinal = False, ck_waveformCount = 1, ck_data = [1, 2], ck_message = []\<rparr>,
     \<lparr>ck_success = True, ck_isFinal = True, ck_waveformCount = 1, ck_data = [65539], ck_message = []\<rparr>]"

definition one_served :: "aq_body ControlEnvelope \<Rightarrow> aq_body ControlEnvelope list" where
  "one_served e =
     (if l_type e = DUMP_SPYBUFFER then
        [\<lparr>l_type = DUMP_SPYBUFFER, l_payload = DumpR \<lparr>dr_success = True, dr_channelList = [], dr_numberOfSamples = 0,
           dr_numberOfWaveforms = 0, dr_data = [1, 2, 65539], dr_message = []\<rparr>\<rparr>]
      else map (\<lambda>c. \<lparr>l_type = DUMP_SPYBUFFER_CHUNK, l_payload = ChunkR c\<rparr>) two_chunks)"

definition ref_ac :: "((string \<Rightarrow> 8 word list) \<times> aq_body ControlEnvelope list, aq_body ControlEnvelope, aq_body) ac_env" where
  "ref_ac = \<lparr>
     ac_sock = \<lparr>z_timeout = \<lambda>n. m_ret (), z_send = \<lambda>w. m_modify (\<lambda>(c, q). (c, q @ one_served w)),
       z_recv = (\<lambda>(c, q). case q of [] \<Rightarrow> (Inl ZmqAgain, (c, [])) | w # ws \<Rightarrow> (Inr [w], (c, ws))),
       z_close = m_ret (), time_ns = m_ret 7, randrange = \<lambda>n. m_ret 0\<rparr>,
     ac_envc = \<lparr>ser = \<lambda>e. e, par = Some, blen = \<lambda>w. 1\<rparr>,
     ac_ser_dump = DumpQ, ac_dumpc = \<lparr>ser = DumpR, par = \<lambda>p. case p of DumpR r \<Rightarrow> Some r | _ \<Rightarrow> None, blen = \<lambda>p. 1\<rparr>,
     ac_ser_chunk = ChunkQ, ac_chunkc = \<lparr>ser = ChunkR, par = \<lambda>p. case p of ChunkR r \<Rightarrow> Some r | _ \<Rightarrow> None, blen = \<lambda>p. 1\<rparr>,
     ac_open = \<lambda>ap f. m_modify (\<lambda>(c, q). (c(f := if ap then c f else []), q)),
     ac_write = \<lambda>f bs. m_modify (\<lambda>(c, q). (c(f := c f @ bs), q)), ac_close = \<lambda>f. m_ret (), ac_exists = \<lambda>f. m_ret True,
     ac_makedirs = \<lambda>f. m_ret (), ac_remove = \<lambda>f. m_ret (), ac_system = \<lambda>c. m_ret 0, ac_uuid = m_ret ''id'', ac_print = \<lambda>l. m_ret ()\<rparr>"

interpretation ref_ac: sample_disk ref_ac fst snd one_served
  by unfold_locales (auto simp: ref_ac_def py_run split: prod.split)

definition test_ac :: ac_args where
  "test_ac = \<lparr>ac_channel = 7, ac_foldername = ''data/run1'', ac_N = 2, ac_L = 2, ac_software_trigger = True, ac_append_data = False,
     ac_compress = False, ac_compression_format = ''tar'', ac_compression_level = 1, ac_legacy = False, ac_chunk = 10\<rparr>"

theorem channel_modes_agree_witness:
  "\<exists>r t. acquire_channel_script ref_ac test_ac 2 (\<lambda>_. [], []) = (r, t) \<and> r = Inr (Some ()) \<and>
    fst t ''data/channel_7.dat'' = [1, 0, 2, 0, 3, 0]"
proof -
  have name: "ac_filename test_ac = ''data/channel_7.dat''" by code_simp
  have word: "u16_bytes (concat (map ck_data ([two_chunks ! 0] @ [two_chunks ! 1]))) = [1, 0, 2, 0, 3, 0]" by code_simp
  have chunks: "list_all2 (brings_chunk ref_ac) (one_served (ser (ac_envc ref_ac) \<lparr>l_type = DUMP_SPYBUFFER_CHUNK, l_payload = body\<rparr>))
      ([two_chunks ! 0] @ [two_chunks ! 1])" for body
    by (simp add: one_served_def ref_ac_def brings_chunk_def two_chunks_def DUMP_SPYBUFFER_def DUMP_SPYBUFFER_CHUNK_def)
  have dump: "\<exists>w. one_served (ser (ac_envc ref_ac) \<lparr>l_type = DUMP_SPYBUFFER, l_payload = body\<rparr>) = [w] \<and>
      brings_dump ref_ac w (concat (map ck_data ([two_chunks ! 0] @ [two_chunks ! 1])))" for body
    by (simp add: one_served_def ref_ac_def brings_dump_def two_chunks_def)
  show ?thesis
    using channel_modes_agree [OF ref_ac.sample_disk_axioms _ _ _ _ dump chunks, where args = test_ac and s = "(\<lambda>_. [], [])" and fuel = 2] name word
    by (auto simp: test_ac_def u32_def two_chunks_def)
qed

end
