(* ===== verification/Run_Monitor.thy ===== *)
theory Run_Monitor
  imports Merge_Runs
begin

text \<open>
  \<open>client/dynamic_range_led/monitor_led_run.py\<close>: the progress of a run, from the metadata file of every point directory.

  The environment is that of \<open>Merge_Runs\<close> with two more queries: \<open>point_names\<close> gives the names of the directories that \<open>glob("*")\<close> finds
  and \<open>mtime\<close> the time of change of a file. Without \<open>--once\<close> the program runs until it is interrupted: the model takes fuel and returns
  \<open>None\<close> when it is used up.
\<close>

section \<open>Collecting\<close>

record ('s, 'f) rm_env =
  rm_mg :: "('s, 'f) mg_env"
  rm_floats :: "'f float_ops"
  point_names :: "'s \<Rightarrow> string \<Rightarrow> string list"
  mtime :: "'s \<Rightarrow> string \<Rightarrow> 'f"
  clear_screen :: "('s, unit) py"
  rm_dumps :: "json \<Rightarrow> string"

fun first_list :: "json \<Rightarrow> string list \<Rightarrow> nat option result" where
  "first_list manifest [] = Inr None"
| "first_list manifest (key # keys) =
     r_bind (py_get manifest key JNull) (\<lambda>v. case v of JList xs \<Rightarrow> Inr (Some (length xs)) | _ \<Rightarrow> first_list manifest keys)"

definition planned_points :: "json \<Rightarrow> nat option result" where
  "planned_points manifest = first_list manifest [''intensity_values'', ''vgain_values'', ''offset_values'', ''points'']"

definition maxsize :: int where "maxsize = 2 ^ 63 - 1"

text \<open>The number at the end of the name; the pairs of number and name are compared in that order, so the names are sorted by name first
  and then, stably, by number.\<close>

definition point_number :: "string \<Rightarrow> int" where
  "point_number name = (case int_of (last (split_on CHR ''_'' name)) of Inl e \<Rightarrow> maxsize | Inr n \<Rightarrow> n)"

definition sorted_points :: "string list \<Rightarrow> string list" where
  "sorted_points names = sort_key point_number (sort names)"

text \<open>\<open>Counter\<close>: the counts in the order in which the keys came.\<close>

definition bump :: "string \<Rightarrow> (string \<times> nat) list \<Rightarrow> (string \<times> nat) list" where
  "bump k counts = AList.update k (case map_of counts k of None \<Rightarrow> 1 | Some n \<Rightarrow> n + 1) counts"

definition count_of :: "(string \<times> nat) list \<Rightarrow> string \<Rightarrow> nat" where
  "count_of counts k = (case map_of counts k of None \<Rightarrow> 0 | Some n \<Rightarrow> n)"

record 'f scan_progress =
  pr_counts :: "(string \<times> nat) list"
  pr_point :: string
  pr_status :: string
  pr_mtime :: 'f
  pr_file :: string

definition point_status :: "('s, 'f) rm_env \<Rightarrow> 's \<Rightarrow> string \<Rightarrow> string result" where
  "point_status env s metadata_path =
     (if has_path (rm_mg env) s metadata_path then
        r_bind (load_json (rm_mg env) s metadata_path) (\<lambda>data.
        r_bind (py_get data ''status'' (JStr ''unknown'')) (\<lambda>v. Inr (py_str v)))
      else Inr ''no_metadata'')"

definition visit_point :: "('s, 'f) rm_env \<Rightarrow> 's \<Rightarrow> string \<Rightarrow> string \<Rightarrow> 'f scan_progress \<Rightarrow> 'f scan_progress result" where
  "visit_point env s points_dir name pr =
     (let metadata_path = sub_path (sub_path points_dir name) ''metadata.json'' in
      r_bind (point_status env s metadata_path) (\<lambda>status.
      let pr = pr\<lparr>pr_counts := bump status (pr_counts pr), pr_point := name, pr_status := status\<rparr>; t = mtime env s metadata_path in
      Inr (if has_path (rm_mg env) s metadata_path \<and> f_less (rm_floats env) (pr_mtime pr) t then pr\<lparr>pr_mtime := t, pr_file := name\<rparr> else pr)))"

record run_snapshot =
  sn_run_dir :: string
  sn_planned :: "nat option"
  sn_seen :: nat
  sn_done :: nat
  sn_active :: nat
  sn_failed :: nat
  sn_status_counts :: "(string \<times> nat) list"
  sn_latest_point :: string
  sn_latest_status :: string
  sn_recent :: string
  sn_created_utc :: json
  sn_scan_type :: json
  sn_active_statuses :: "string list"

definition collect :: "('s, 'f) rm_env \<Rightarrow> 's \<Rightarrow> string \<Rightarrow> run_snapshot result" where
  "collect env s run_dir =
     (let manifest_path = sub_path run_dir ''scan_manifest.json''; points_dir = sub_path run_dir ''points'' in
      r_bind (if has_path (rm_mg env) s manifest_path then load_json (rm_mg env) s manifest_path else Inr (JObj [])) (\<lambda>manifest.
      r_bind (r_fold (visit_point env s points_dir) (sorted_points (point_names env s points_dir))
        \<lparr>pr_counts = [], pr_point = ''-'', pr_status = ''-'', pr_mtime = f_lit (rm_floats env) ''0.0'', pr_file = ''-''\<rparr>) (\<lambda>pr.
      r_bind (planned_points manifest) (\<lambda>planned.
      r_bind (py_get manifest ''created_utc'' JNull) (\<lambda>created.
      r_bind (py_get manifest ''scan_wavelength'' JNull) (\<lambda>wavelength.
      r_bind (py_get manifest ''type'' JNull) (\<lambda>ty.
      let counts = pr_counts pr in
      Inr \<lparr>sn_run_dir = run_dir, sn_planned = planned, sn_seen = sum_list (map snd counts), sn_done = count_of counts ''analyzed'',
        sn_active = count_of counts ''started'' + count_of counts ''captured'',
        sn_failed = sum_list (map snd (filter (\<lambda>kv. fst kv \<notin> {''analyzed'', ''started'', ''captured''}) counts)),
        sn_status_counts = sort_key fst counts, sn_latest_point = pr_point pr, sn_latest_status = pr_status pr, sn_recent = pr_file pr,
        sn_created_utc = created,
        sn_scan_type = (if py_truth wavelength then wavelength else if py_truth ty then ty else JStr ''unknown''),
        sn_active_statuses = sort (filter (\<lambda>k. k \<in> {''started'', ''captured''}) (map fst counts))\<rparr>)))))))"

section \<open>Showing\<close>

definition rjust :: "nat \<Rightarrow> string \<Rightarrow> string" where
  "rjust n t = replicate (n - length t) CHR '' '' @ t"

definition percent :: "'f float_ops \<Rightarrow> nat \<Rightarrow> nat option \<Rightarrow> string" where
  "percent F dn planned = (case planned of
     None \<Rightarrow> []
   | Some n \<Rightarrow> if n = 0 then []
       else '' ('' @ rjust 5 (f_fix F 1 (f_div F (f_mul F (f_lit F ''100.0'') (f_of_int F (int dn))) (f_of_int F (int n)))) @ ''%)'')"

definition render_text :: "'f float_ops \<Rightarrow> run_snapshot \<Rightarrow> string" where
  "render_text F sn = join_with lf
     ([''run_dir: '' @ sn_run_dir sn,
       ''planned: '' @ (case sn_planned sn of None \<Rightarrow> ''-'' | Some n \<Rightarrow> int_to_str (int n)),
       ''seen:    '' @ int_to_str (int (sn_seen sn)),
       ''done:    '' @ int_to_str (int (sn_done sn)) @ percent F (sn_done sn) (sn_planned sn),
       ''active:  '' @ int_to_str (int (sn_active sn)),
       ''failed:  '' @ int_to_str (int (sn_failed sn)),
       ''latest:  '' @ sn_latest_point sn @ '' ['' @ sn_latest_status sn @ '']'',
       ''recent:  '' @ sn_recent sn,
       ''statuses:'']
      @ (if sn_status_counts sn = [] then [''  (no points yet)'']
         else map (\<lambda>kv. ''  '' @ rjust 12 (fst kv) @ '': '' @ int_to_str (int (snd kv))) (sn_status_counts sn)))"

definition snapshot_json :: "run_snapshot \<Rightarrow> json" where
  "snapshot_json sn = (let n = \<lambda>k. JInt (int k) in JObj
     [(''run_dir'', JStr (sn_run_dir sn)), (''planned_points'', case sn_planned sn of None \<Rightarrow> JNull | Some k \<Rightarrow> n k),
      (''seen_points'', n (sn_seen sn)), (''done_points'', n (sn_done sn)), (''active_points'', n (sn_active sn)), (''failed_points'', n (sn_failed sn)),
      (''status_counts'', JObj (map (\<lambda>kv. (fst kv, n (snd kv))) (sn_status_counts sn))), (''latest_point'', JStr (sn_latest_point sn)),
      (''latest_status'', JStr (sn_latest_status sn)), (''most_recent_metadata_point'', JStr (sn_recent sn)), (''created_utc'', sn_created_utc sn),
      (''scan_type'', sn_scan_type sn), (''active_statuses'', JList (map JStr (sn_active_statuses sn)))])"

record 'f rm_args =
  rm_run_dir :: string
  rm_interval :: 'f
  rm_once :: bool
  rm_json :: bool

definition show_snapshot :: "('s, 'f) rm_env \<Rightarrow> 'f rm_args \<Rightarrow> run_snapshot \<Rightarrow> ('s, unit) py" where
  "show_snapshot env args sn =
     (if rm_json args then mg_print (rm_mg env) (rm_dumps env (sort_keys (snapshot_json sn)))
      else m_then (m_when (\<not> rm_once args) (clear_screen env)) (mg_print (rm_mg env) (render_text (rm_floats env) sn)))"

fun monitor_rounds :: "('s, 'f) rm_env \<Rightarrow> 'f rm_args \<Rightarrow> string \<Rightarrow> nat \<Rightarrow> ('s, int option) py" where
  "monitor_rounds env args run_dir 0 = m_ret None"
| "monitor_rounds env args run_dir (Suc fuel) =
     m_bind (m_get (\<lambda>s. collect env s run_dir)) (\<lambda>r.
     m_bind (m_lift r) (\<lambda>sn.
     m_then (show_snapshot env args sn)
     (if rm_once args then m_ret (Some 0)
      else let F = rm_floats env; pause = f_lit F ''0.2'' in
        m_then (sleep_s (mg_sc (rm_mg env)) (if f_less F (rm_interval args) pause then pause else rm_interval args))
          (monitor_rounds env args run_dir fuel))))"

definition monitor_run_main :: "('s, 'f) rm_env \<Rightarrow> 'f rm_args \<Rightarrow> nat \<Rightarrow> ('s, int option) py" where
  "monitor_run_main env args fuel =
     (let run_dir = resolve_path (mg_sc (rm_mg env)) (expanduser (sc_rt (mg_sc (rm_mg env))) (rm_run_dir args)) in
      m_bind (m_get (\<lambda>s. has_path (rm_mg env) s run_dir)) (\<lambda>ex.
      if \<not> ex then m_then (print_err (mg_sc (rm_mg env)) (''run directory not found: '' @ run_dir)) (m_ret (Some 2))
      else monitor_rounds env args run_dir fuel))"

section \<open>The counts\<close>

lemma count_of_bump: "count_of (bump k counts) x = count_of counts x + (if x = k then 1 else 0)"
  by (simp add: count_of_def bump_def update_conv' split: option.split)

lemma keys_bump: "set (map fst (bump k counts)) = insert k (set (map fst counts))"
  by (simp add: bump_def dom_update)

lemma distinct_bump: "distinct (map fst counts) \<Longrightarrow> distinct (map fst (bump k counts))"
  by (simp add: bump_def distinct_update)

text \<open>The abstract counter: what a list of statuses adds up to.\<close>

definition counts_of :: "string list \<Rightarrow> (string \<times> nat) list \<Rightarrow> bool" where
  "counts_of sts counts \<longleftrightarrow> distinct (map fst counts) \<and> set (map fst counts) = set sts \<and> (\<forall>k. count_of counts k = count_list sts k)"

lemma counts_of_bump: "counts_of sts counts \<Longrightarrow> counts_of (sts @ [k]) (bump k counts)"
  by (auto simp: counts_of_def count_of_bump keys_bump distinct_bump simp del: set_map)

text \<open>Reading the points one after the other: the counter holds the statuses, the last point and its status are those of the last name.\<close>

lemma visits:
  assumes "r_fold (visit_point env s d) names pr = Inr pr'" "counts_of sts (pr_counts pr)"
  shows "\<exists>new. r_map (\<lambda>n. point_status env s (sub_path (sub_path d n) ''metadata.json'')) names = Inr new \<and>
    counts_of (sts @ new) (pr_counts pr') \<and>
    pr_point pr' = (if names = [] then pr_point pr else last names) \<and> pr_status pr' = (if new = [] then pr_status pr else last new)"
  using assms
proof (induction names arbitrary: pr sts)
  case (Cons n names)
  from Cons.prems(1) obtain pr1 where one: "visit_point env s d n pr = Inr pr1" and rest: "r_fold (visit_point env s d) names pr1 = Inr pr'"
    by (auto simp: r_bind_ok)
  obtain st where st: "point_status env s (sub_path (sub_path d n) ''metadata.json'') = Inr st"
    using one by (auto simp: r_bind_ok visit_point_def Let_def)
  have pr1: "pr_counts pr1 = bump st (pr_counts pr)" "pr_point pr1 = n" "pr_status pr1 = st"
    using one st by (auto simp: visit_point_def Let_def split: if_splits)
  have "counts_of (sts @ [st]) (pr_counts pr1)" using counts_of_bump [OF Cons.prems(2)] by (simp add: pr1(1))
  from Cons.IH [OF rest this] obtain new where new: "r_map (\<lambda>n. point_status env s (sub_path (sub_path d n) ''metadata.json'')) names = Inr new"
    "counts_of ((sts @ [st]) @ new) (pr_counts pr')" "pr_point pr' = (if names = [] then pr_point pr1 else last names)"
    "pr_status pr' = (if new = [] then pr_status pr1 else last new)" by (elim exE conjE)
  show ?case
    by (rule exI [of _ "st # new"]) (use new(2) in \<open>simp add: st new(1,3,4) pr1(2,3)\<close>)
qed simp

lemma sum_counts:
  assumes "counts_of sts counts"
  shows "sum_list (map snd (filter (\<lambda>kv. P (fst kv)) counts)) = length (filter P sts)"
proof -
  have d: "distinct (map fst counts)" and k: "set (map fst counts) = set sts" using assms by (simp_all add: counts_of_def)
  have "snd kv = count_list sts (fst kv)" if "kv \<in> set counts" for kv
  proof -
    have "map_of counts (fst kv) = Some (snd kv)" using that d by simp
    moreover have "count_of counts (fst kv) = count_list sts (fst kv)" using assms by (simp add: counts_of_def)
    ultimately show ?thesis by (simp add: count_of_def)
  qed
  then have "sum_list (map snd (filter (\<lambda>kv. P (fst kv)) counts)) = sum_list (map (count_list sts \<circ> fst) (filter (\<lambda>kv. P (fst kv)) counts))"
    by (intro arg_cong [where f = sum_list] map_cong) auto
  also have "\<dots> = sum_list (map (count_list sts) (filter P (map fst counts)))"
    by (simp add: filter_map comp_def)
  also have "\<dots> = sum (count_list sts) {x \<in> set sts. P x}"
    using d k by (subst sum_list_distinct_conv_sum_set) auto
  also have "\<dots> = sum (count_list (filter P sts)) (set (filter P sts))"
    by (rule sum.cong) (auto simp: count_list_eq_length_filter intro!: arg_cong [where f = length] filter_cong)
  also have "\<dots> = length (filter P sts)" by (rule sum_count_set) simp_all
  finally show ?thesis .
qed

lemma split_statuses:
  "length sts = count_list sts ''analyzed'' + (count_list sts ''started'' + count_list sts ''captured'') +
     length (filter (\<lambda>x. x \<notin> {''analyzed'', ''started'', ''captured''}) sts)"
  by (induction sts) auto

lemma counts_of_sorted: "counts_of sts counts \<Longrightarrow> counts_of sts (sort_key fst counts)"
  by (simp add: counts_of_def count_of_def map_of_sorted distinct_keys_sort)

text \<open>C40: What the monitor of a run shows adds up: every point directory is seen once, in the order of the numbers of the points; the seen
  points are the done, the active and the failed ones, where a point is done when its status is analyzed, active when it is started or
  captured, and failed otherwise, a missing metadata file included; every status is listed with its number of points, in order, and the
  latest status is that of the last point.\<close>

theorem collect_counts:
  assumes "collect env s run_dir = Inr sn"
  shows "\<exists>sts. r_map (\<lambda>n. point_status env s (sub_path (sub_path (sub_path run_dir ''points'') n) ''metadata.json''))
        (sorted_points (point_names env s (sub_path run_dir ''points''))) = Inr sts \<and>
    sn_seen sn = length (point_names env s (sub_path run_dir ''points'')) \<and> sn_seen sn = sn_done sn + sn_active sn + sn_failed sn \<and>
    sn_done sn = count_list sts ''analyzed'' \<and> sn_active sn = count_list sts ''started'' + count_list sts ''captured'' \<and>
    sorted (map fst (sn_status_counts sn)) \<and> counts_of sts (sn_status_counts sn) \<and>
    sn_latest_status sn = (if sts = [] then ''-'' else last sts)"
proof -
  let ?d = "sub_path run_dir ''points''"
  obtain pr where fold: "r_fold (visit_point env s ?d) (sorted_points (point_names env s ?d))
        \<lparr>pr_counts = [], pr_point = ''-'', pr_status = ''-'', pr_mtime = f_lit (rm_floats env) ''0.0'', pr_file = ''-''\<rparr> = Inr pr"
    and sn: "sn_seen sn = sum_list (map snd (pr_counts pr))" "sn_done sn = count_of (pr_counts pr) ''analyzed''"
      "sn_active sn = count_of (pr_counts pr) ''started'' + count_of (pr_counts pr) ''captured''"
      "sn_failed sn = sum_list (map snd (filter (\<lambda>kv. fst kv \<notin> {''analyzed'', ''started'', ''captured''}) (pr_counts pr)))"
      "sn_status_counts sn = sort_key fst (pr_counts pr)" "sn_latest_status sn = pr_status pr"
    using assms by (clarsimp simp: collect_def Let_def r_bind_ok)
  have "counts_of [] []" by (simp add: counts_of_def count_of_def)
  with visits [OF fold, of "[]"] obtain sts where
    sts: "r_map (\<lambda>n. point_status env s (sub_path (sub_path ?d n) ''metadata.json'')) (sorted_points (point_names env s ?d)) = Inr sts"
      "counts_of sts (pr_counts pr)" "pr_status pr = (if sts = [] then ''-'' else last sts)" by auto
  have len: "length sts = length (point_names env s ?d)" using sts(1) by (auto simp: r_map_ok sorted_points_def dest: list_all2_lengthD)
  have all: "sn_seen sn = length sts" using sum_counts [OF sts(2), of "\<lambda>_. True"] by (simp add: sn(1))
  have cnt: "sn_done sn = count_list sts ''analyzed''" "sn_active sn = count_list sts ''started'' + count_list sts ''captured''"
    using sts(2) by (simp_all only: sn counts_of_def)
  have "sn_seen sn = sn_done sn + sn_active sn + sn_failed sn"
    unfolding all cnt sn(4) sum_counts [OF sts(2), of "\<lambda>x. x \<notin> {''analyzed'', ''started'', ''captured''}"] by (rule split_statuses)
  moreover have "counts_of sts (sn_status_counts sn)" unfolding sn(5) by (rule counts_of_sorted [OF sts(2)])
  ultimately show ?thesis using sts(1,3) cnt sn(5,6) all len by (intro exI [of _ sts] conjI) simp_all
qed

section \<open>A run with four points\<close>

definition test_run_files :: "string \<Rightarrow> json option" where
  "test_run_files = map_of
     [(''r/scan_manifest.json'', JObj [(''intensity_values'', JList [JInt 1, JInt 2, JInt 3, JInt 10, JInt 11]), (''scan_wavelength'', JStr ''270'')]),
      (''r/points/intensity_1/metadata.json'', JObj [(''status'', JStr ''analyzed'')]),
      (''r/points/intensity_2/metadata.json'', JObj [(''status'', JStr ''analyze_failed'')]),
      (''r/points/intensity_10/metadata.json'', JObj [(''status'', JStr ''captured'')])]"

definition ref_rm :: "((string \<times> string) list, int) rm_env" where
  "ref_rm = \<lparr>rm_mg = ref_mg\<lparr>mg_sc := (mg_sc ref_mg)\<lparr>read_text := \<lambda>s p. Inr p, sc_rt := (sc_rt (mg_sc ref_mg))\<lparr>loads := test_run_files\<rparr>\<rparr>,
       has_path := \<lambda>s p. test_run_files p \<noteq> None\<rparr>,
     rm_floats = int_floats, point_names = \<lambda>s p. [''intensity_3'', ''intensity_10'', ''intensity_2'', ''intensity_1''],
     mtime = \<lambda>s p. int (length p), clear_screen = m_ret (), rm_dumps = py_str\<rparr>"

theorem collect_counts_witness:
  "\<exists>sn. collect ref_rm [] ''r'' = Inr sn \<and> sn_seen sn = 4 \<and> sn_seen sn = sn_done sn + sn_active sn + sn_failed sn \<and>
     sn_latest_point sn = ''intensity_10'' \<and> sn_latest_status sn = ''captured'' \<and> sn_planned sn = Some 5"
proof -
  have "case collect ref_rm [] ''r'' of Inl e \<Rightarrow> False
      | Inr sn \<Rightarrow> sn_latest_point sn = ''intensity_10'' \<and> sn_latest_status sn = ''captured'' \<and> sn_planned sn = Some 5" by code_simp
  then obtain sn where sn: "collect ref_rm [] ''r'' = Inr sn" "sn_latest_point sn = ''intensity_10''" "sn_latest_status sn = ''captured''"
    "sn_planned sn = Some 5" by (cases "collect ref_rm [] ''r''") simp_all
  have "length (point_names ref_rm [] (sub_path ''r'' ''points'')) = 4" by (simp add: ref_rm_def)
  with collect_counts [OF sn(1)] sn show ?thesis by (metis (no_types, lifting))
qed

end
