(* ===== verification/V2_Probe.thy ===== *)
theory V2_Probe
  imports Vbias_Monitor
begin

text \<open>
  \<open>client/v2_dual_probe.py\<close>: a probe that sends a test-register and a trigger-counter request, prints the raw bytes and tries to decode
  each reply. Messages are byte lists here, since the probe prints them. The test-register message is tried first and \<open>ParseFromString\<close>
  returns the number of bytes it read, so the branch for the counters is never reached.
\<close>

section \<open>Printing bytes and messages\<close>

fun byte_rows :: "nat \<Rightarrow> 8 word list \<Rightarrow> 8 word list list" where
  "byte_rows w bs = (if bs = [] \<or> w = 0 then [] else take w bs # byte_rows w (drop w bs))"

declare byte_rows.simps [simp del]

definition hex_dump :: "string \<Rightarrow> 8 word list \<Rightarrow> string list" where
  "hex_dump label data =
     (label @ '': '' @ int_to_str (int (length data)) @ '' bytes'')
     # map (\<lambda>bs. ''  '' @ join_with '' '' (map (\<lambda>b. fmt_hex 2 (uint b)) bs)) (byte_rows 32 data)"

record counter_snapshot =
  cs_channel :: int
  cs_threshold :: int
  cs_record_count :: int
  cs_busy_count :: int
  cs_full_count :: int

record counters_resp =
  co_success :: bool
  co_message :: string
  co_snapshots :: "counter_snapshot list"

record 's pv_env =
  pv_sock :: "('s, 8 word list) zsock"
  pv_envc :: "(8 word list, 8 word list ControlEnvelopeV2) codec"
  pv_testc :: "(8 word list, int \<times> string) codec"
  pv_countersc :: "(8 word list, counters_resp) codec"
  pv_ser_test :: "8 word list"
  pv_ser_counters :: "int \<Rightarrow> int list \<Rightarrow> 8 word list"
  pv_renew :: "('s, unit) py"
  pv_print :: "string \<Rightarrow> ('s, unit) py"

definition ellipsis :: string where "ellipsis = [CHR 0xE2, CHR 0x80, CHR 0xA6]"

definition counters_lines :: "counters_resp \<Rightarrow> string list" where
  "counters_lines c =
     [''  [CountersResp] success='' @ bool_str (co_success c) @ '' message='' @ quoted_msg (co_message c) @
        '' snaps='' @ int_to_str (int (length (co_snapshots c)))]
     @ map (\<lambda>s. ''    ch='' @ int_to_str (cs_channel s) @ '' thr='' @ int_to_str (cs_threshold s) @ '' rec='' @ int_to_str (cs_record_count s) @
         '' bsy='' @ int_to_str (cs_busy_count s) @ '' ful='' @ int_to_str (cs_full_count s)) (take 10 (co_snapshots c))
     @ (if length (co_snapshots c) > 10 then [''    '' @ ellipsis @ '' ('' @ int_to_str (int (length (co_snapshots c)) - 10) @ '' more)''] else [])"

definition body_lines :: "'s pv_env \<Rightarrow> 8 word list \<Rightarrow> string list result" where
  "body_lines env body =
     (if body = [] then Inr [''  [V2] empty payload'']
      else r_bind (ParseFromString (pv_testc env) body) (\<lambda>(t, n).
        if n \<noteq> 0 then Inr [''  [TestRegResp] value=0x'' @ fmt_hex 0 (fst t) @ '' message='' @ quoted_msg (snd t)]
        else r_bind (ParseFromString (pv_countersc env) body) (\<lambda>(c, k).
          if k \<noteq> 0 then Inr (counters_lines c) else Inr [''  [V2] payload present but not TestReg/Counters''])))"

definition parse_v2_lines :: "'s pv_env \<Rightarrow> 8 word list \<Rightarrow> string list result \<times> string list" where
  "parse_v2_lines env data = (case ParseFromString (pv_envc env) data of
     Inl e \<Rightarrow> (Inl e, [])
   | Inr (e, n) \<Rightarrow>
       if n = 0 then (Inr [''  [parse] Not a V2 ControlEnvelope''], [])
       else (body_lines env (payload e),
         [''  [V2] ver='' @ int_to_str (version e) @ '' dir='' @ int_to_str (dir e) @ '' type='' @ int_to_str (etype e) @ '' msg_id='' @
            int_to_str (msg_id e) @ '' task_id='' @ int_to_str (task_id e) @ '' correl_id='' @ int_to_str (correl_id e) @ '' route='' @ quoted_msg (route e)]))"

text \<open>The line of the envelope is printed before its payload is decoded, which may raise.\<close>

definition parse_v2_and_print :: "'s pv_env \<Rightarrow> 8 word list \<Rightarrow> ('s, unit) py" where
  "parse_v2_and_print env data = (case parse_v2_lines env data of (r, pre) \<Rightarrow>
     m_then (m_for pre (pv_print env)) (m_bind (m_lift r) (\<lambda>ls. m_for ls (pv_print env))))"

section \<open>The probe\<close>

definition MT2_READ_TRIGGER_COUNTERS_REQ :: int where "MT2_READ_TRIGGER_COUNTERS_REQ = 320"

definition pv_send_and_recv :: "'s pv_env \<Rightarrow> 8 word list \<Rightarrow> string \<Rightarrow> ('s, bool) py" where
  "pv_send_and_recv env frame tag =
     m_then (pv_print env (CHR 0x0A # ''[send:'' @ tag @ ''] '' @ int_to_str (int (length frame)) @ '' bytes''))
     (m_then (m_for (hex_dump ''out'' frame) (pv_print env))
     (m_then (z_send (pv_sock env) frame)
     (m_try
       (m_bind (z_recv (pv_sock env)) (\<lambda>frames. let data = hd frames in
        m_then (pv_print env (''[recv:'' @ tag @ ''] '' @ int_to_str (int (length data)) @ '' bytes''))
        (m_then (m_for (hex_dump ''in'' data) (pv_print env))
        (m_then (parse_v2_and_print env data) (m_ret True)))))
       (\<lambda>e. if e = ZmqAgain then m_then (pv_print env (''[recv:'' @ tag @ ''] timeout'')) (m_ret False) else m_raise e))))"

definition pv_envelope :: "'s pv_env \<Rightarrow> int \<Rightarrow> 8 word list \<Rightarrow> string \<Rightarrow> ('s, 8 word list ControlEnvelopeV2) py" where
  "pv_envelope env ty body rt =
     m_bind (time_ns (pv_sock env)) (\<lambda>now. let i = now AND 0x7FFFFFFF in
     m_bind (time_ns (pv_sock env)) (\<lambda>ts. m_ret (request_envelope ty body rt (i, i) ts)))"

record pv_args =
  pv_endpoint :: string
  pv_route :: string
  pv_identity :: string
  pv_channels :: string
  pv_base :: "string option"

definition counters_request :: "pv_args \<Rightarrow> (int \<times> int list) result" where
  "counters_request args =
     r_bind (case pv_base args of None \<Rightarrow> Inr 0 | Some t \<Rightarrow> r_bind (r_of_option (ValueError t) (py_int0 t)) (uint_field 32)) (\<lambda>base.
     r_bind (r_map parse_token (split_on CHR '','' (pv_channels args))) (\<lambda>chs.
     r_bind (r_map (uint_field 32) (concat chs)) (\<lambda>chs. Inr (base, chs))))"

definition probe_main :: "'s pv_env \<Rightarrow> pv_args \<Rightarrow> ('s, unit) py" where
  "probe_main env args =
     m_then (pv_print env (''[connect] '' @ pv_endpoint args @ ''  identity='' @ quoted_msg (pv_identity args)))
     (m_bind (pv_envelope env MT2_READ_TEST_REG_REQ (pv_ser_test env) (pv_route args)) (\<lambda>e.
      m_bind (pv_send_and_recv env (ser (pv_envc env) e) ''test-reg'') (\<lambda>ok.
      m_then (m_when (\<not> ok) (m_then (z_close (pv_sock env)) (pv_renew env)))
      (m_bind (m_lift (counters_request args)) (\<lambda>(base, chs).
       m_bind (pv_envelope env MT2_READ_TRIGGER_COUNTERS_REQ (pv_ser_counters env base chs) (pv_route args)) (\<lambda>e2.
       m_bind (pv_send_and_recv env (ser (pv_envc env) e2) ''counters'') (\<lambda>_.
       pv_print env (CHR 0x0A # ''[done]''))))))))"

section \<open>What the probe shows\<close>

text \<open>Every byte of a message is printed, in rows of 32.\<close>

lemma byte_rows_all: "0 < w \<Longrightarrow> concat (byte_rows w bs) = bs \<and> list_all (\<lambda>r. r \<noteq> [] \<and> length r \<le> w) (byte_rows w bs)"
proof (induction w bs rule: byte_rows.induct)
  case (1 w bs)
  then show ?case by (subst (1 2) byte_rows.simps) auto
qed

text \<open>Decoding a reply does not depend on the decoder of the counters: a payload is shown as a test register or it raises.\<close>

lemma counters_never_shown:
  assumes "\<And>p. blen (pv_testc env) p = length p"
  shows "body_lines env body = (if body = [] then Inr [''  [V2] empty payload'']
    else case par (pv_testc env) body of
      None \<Rightarrow> Inl DecodeError
    | Some t \<Rightarrow> Inr [''  [TestRegResp] value=0x'' @ fmt_hex 0 (fst t) @ '' message='' @ quoted_msg (snd t)])"
  using assms by (simp add: body_lines_def ParseFromString_def split: option.split)

end
