(* ===== verification/Spec2Isabelle.thy ===== *)
theory Spec2Isabelle
  imports Ssp_Safety Ssp_Main Afe_Align Gpio_Board Gpio_Remote Hdmezz_Panel Afe_Function Legacy_Scripts Scan_Runtime Acquire Led_Charge Led_Scan
    Vgain_Scan Merge_Runs Smoke_Board Vbias_Monitor Slow_Smoketest Compare_Envelopes Daphne_Scripts Acquire_Channel Run_Monitor
    V2_Probe
    Fe_Config Fe_Main Pds_Config Fe_State
begin

text \<open>
  Verification of the Python programs that control the DAPHNE photon-detection front end and its LED
  calibration pulser (directories \<open>src/client\<close> and \<open>src/utils\<close>).

  \<^bold>\<open>The system.\<close> A DAPHNE board runs a slow-control server (C++, outside this development) that answers
  protobuf messages over ZeroMQ, in the legacy \<open>ControlEnvelope\<close> or in \<open>ControlEnvelopeV2\<close>. The Python clients
  configure the front end (channels, AFEs, biases), read its state back, acquire waveforms from the spy
  buffers and watch the HD mezzanines. A second device, the SSP, drives the LED over its own register
  protocol. Two board-side tools work on the local hardware: the alignment of the AFE deserialisers and the
  PS MIO GPIO helper, which a remote wrapper starts over ssh. The LED scan composes these programs: it runs
  the LED, bias-monitor, read-back and acquisition clients as sub-programs and analyses the charges.

  \<^bold>\<open>Conventions.\<close> A function that may raise returns \<open>exn + 'a\<close>; code with effects is a function
  \<open>'s \<Rightarrow> (exn + 'a) \<times> 's\<close> over a state the environment defines, so effects before an exception stay visible.
  \<open>Py_Prelude\<close> holds this monad, total and partial-correctness triples with their rule collections (\<open>wp\<close>, \<open>pwp\<close>),
  preservation on every exit (\<open>py_preserves\<close>, \<open>keeps\<close>) and bounded queues; \<open>Py_Text\<close> integers, splitting and stripping of
  text; \<open>Py_Json\<close> decoded JSON values with their dynamic types; \<open>Py_Float\<close> and the record \<open>np_ops\<close> of \<open>Led_Charge\<close> the
  floating-point operations, which are parameters. ZeroMQ, the protobuf run time, argparse, numpy reductions,
  Qt, the JSON text format, files and sub-programs are parameters as well; what a theorem needs of them is a locale,
  and every locale is interpreted on an executable instance beside the model. Texts of exceptions are shortened.

  \<^bold>\<open>Theories and sources.\<close>
  \<^item> \<open>Ssp_Wire\<close>, \<open>Ssp_Regs\<close>, \<open>Ssp_Client\<close>, \<open>Ssp_Config\<close>, \<open>Ssp_Control\<close>, \<open>Ssp_Main\<close>: \<open>client/ssp_led_control.py\<close>, packets and registers,
    the socket client, the run configuration and its validation, the control sequences and the command line.
    \<open>Ssp_Safety\<close>: the registers after configuring and stopping, independence of the receive schedule, verified
    writes, the packed timing word, synchronisation with its bounded retries. Of the device only the control registers
    are assumed to keep their values; its status registers may show anything at any read.
  \<^item> \<open>Afe_Align\<close>: \<open>utils/align_all_afes.py\<close>; the tap ends in the middle of the longest window of equal words.
  \<^item> \<open>Gpio_Board\<close>, \<open>Shell_Quote\<close>, \<open>Gpio_Remote\<close>: \<open>client/ps_mio_spi_gpio_board.py\<close> and \<open>client/ps_mio_spi_gpio_remote.py\<close>; the state of lines and overlay
    after each command, roll-back of a failed overlay, and the words a POSIX shell reads from the command line sent.
  \<^item> \<open>V2_Rpc\<close>, \<open>Hdmezz\<close>, \<open>Hdmezz_Panel\<close>: \<open>client/hdmezz_control_v2.py\<close>; one EnvelopeV2 exchange on an idle link, any sequence of
    exchanges on one that holds a stale reply, the client methods, the control window as a step relation with its invariant.
  \<^item> \<open>Afe_Function\<close>, \<open>Legacy_Scripts\<close>: the AFE function tables and client, and four scripts of the legacy envelope.
  \<^item> \<open>Fe_Config\<close>, \<open>Fe_Main\<close>: \<open>client/configure_fe_min_v2.py\<close>; the request a command line stands for and the three phases of
    main with their exit statuses. \<open>Pds_Config\<close>: \<open>client/pds_configure_utils.py\<close> and its two clients; packed trigger
    words and the overlay of a seed on the defaults, which refines an update of maps.
  \<^item> \<open>Fe_State\<close>: \<open>client/read_fe_state_v2.py\<close>; what it sends is an initial part of the planned reads, typed as in
    the protocol file.
  \<^item> \<open>Scan_Runtime\<close>: \<open>client/dynamic_range_led/scan_runtime.py\<close>; channel expressions, ranges, command lines, the read-back.
  \<^item> \<open>Acquire\<close>: \<open>client/protobuf_acquire_list_channels.py\<close> and \<open>client/waveparse.py\<close>; the one-shot and the streamed mode
    write the same files, and the default EnvelopeV2 stream never accepts a chunk. \<open>Acquire_Channel\<close>: \<open>client/protobuf_acquire_channel.py\<close>, whose
    two modes agree as well, and where its file goes.
  \<^item> \<open>Led_Charge\<close>: \<open>client/led_charge.py\<close>; the ranges of charge windows and their file, charges, summaries, the monitor.
  \<^item> \<open>Led_Scan\<close>: \<open>client/dynamic_range_led/scan_led_intensity_charge.py\<close>; the programs a scan runs and the best points.
    \<open>Vgain_Scan\<close>: \<open>scan_led_vgain_sweep.py\<close> beside it; interpolated offsets, the request of a gain, and the LED stop on every exit after its start has been recorded.
    \<open>Merge_Runs\<close>: \<open>merge_led_intensity_runs.py\<close>; one link per intensity, to a complete point of a source run. \<open>Run_Monitor\<close>: \<open>monitor_led_run.py\<close>; the counts add up.
  \<^item> \<open>Smoketest\<close>, \<open>Smoke_Board\<close>: \<open>client/protobuf_full_smoketest_v2.py\<close>, its commands, and their effect on a board that may execute
    requests late, twice or never: the write-backs restore the registers, the default run only reads. \<open>Slow_Smoketest\<close>:
    \<open>client/slowcontrol_smoketest.py\<close> on the same board.
  \<^item> \<open>Vbias_Monitor\<close>: \<open>client/vbias_monitor_once.py\<close>, \<open>vbias_monitor_all.py\<close>, \<open>testreg_v2.py\<close> and \<open>read_general_info_v2.py\<close>; the histories the monitor keeps in
    text mode, whatever the exchanges come to.
    \<open>V2_Probe\<close>: \<open>client/v2_dual_probe.py\<close>; it never shows the counters it asks for.
  \<^item> \<open>Compare_Envelopes\<close>: \<open>client/compare_configure_envelopes.py\<close>; how the two requests differ for a seed that sets nothing.
  \<^item> \<open>Daphne_Scripts\<close>: \<open>client/protobuf_configure_daphne.py\<close>, \<open>protobuf_configure_daphne_v2.py\<close>, \<open>protobuf_client_spybuffer_dump.py\<close> and
    \<open>configure_fe_min.py\<close>; the first two have the same effect on a board.

  This theory adds the properties that span components: a snapshot read by \<open>Fe_State\<close> restores the board through
  \<open>Pds_Config\<close>, the read-back of \<open>Scan_Runtime\<close> returns the snapshot its sub-program \<open>Fe_State\<close> printed, the files of \<open>Acquire\<close> load in
  \<open>Led_Charge\<close> as the waveforms that were sent, and every request of the configuration clients is well-typed.

  \<^bold>\<open>Loops and fuel.\<close> Loops over lists are recursion on the list; the receive loop of the SSP client and \<open>range\<close>
  have termination proofs. The streams of \<open>Acquire\<close> and \<open>Acquire_Channel\<close> have no bound in the code: their loops take fuel and return \<open>None\<close>
  when that is used up, and the theorems state that as many rounds as there are frames (one more for the
  time-out) are enough. The bias monitor runs until it is interrupted: the number of rounds is an argument, and its theorem holds for
  every number. The retry loops of the SSP synchronisation have the bounds of the code.

  \<^bold>\<open>Not modelled.\<close> Plots and contact sheets (matplotlib), the oscilloscope and analysis windows (\<open>osc.py\<close>, Qt), the
  fits and noise studies, which are floating-point numerics in numpy and scipy, the generated protobuf classes,
  re-execution under sudo, argparse itself (its parsed arguments are records) and the C++ server, kernel
  modules and shell scripts of the repository. \<open>endpoint.py\<close> uses fields that no message type has.
\<close>

section \<open>Reading and restoring the front-end state\<close>

text \<open>C20: A snapshot read from a board restores it: the request that the seed client builds from the
  snapshot of an answering board carries the trims, offsets, gains, biases and the bias control the
  board answered, channel by channel and AFE by AFE, and the defaults for everything a snapshot does not hold.\<close>

theorem snapshot_restores:
  assumes "readable_board env sent reply_of answer"
    and "sa_afe_reg args = []" "sa_afe_count args = 5" and "params_ok p"
    and "length (rr_values (answer ReadTrimAll)) = 40" "u32_list (rr_values (answer ReadTrimAll))"
    and "length (rr_values (answer ReadOffsetAll)) = 40" "u32_list (rr_values (answer ReadOffsetAll))"
    and "u32_list (map (\<lambda>a. rr_value (answer (ReadVgain a))) (py_range 5))"
    and "u32_list (map (\<lambda>a. rr_value (answer (ReadBiasSet a))) (py_range 5))"
    and "u32_list [rr_value (answer ReadVbiasControl)]"
  shows "\<exists>snap t. read_all env args verbose s = (Inr snap, t) \<and>
    build_request_from_seed tr snap (default_request p) common = Inr ((default_request p)
      \<lparr>biasctrl := rr_value (answer ReadVbiasControl),
       channels := map (\<lambda>i. \<lparr>ch_id = i, ch_trim = rr_values (answer ReadTrimAll) ! nat i,
          ch_offset = rr_values (answer ReadOffsetAll) ! nat i, ch_gain = 1\<rparr>) (py_range 40),
       afes := map (\<lambda>i. (afe_of p i)\<lparr>attenuators := rr_value (answer (ReadVgain i)),
          v_bias := rr_value (answer (ReadBiasSet i))\<rparr>) (py_range 5)\<rparr>)"
proof -
  obtain t where t: "read_all env args verbose s = (Inr (board_snapshot args answer), t)"
    using readable_board.read_all_ends [OF assms(1,2)] assms(3) by force
  let ?es = "map (board_entry args answer) (py_range 5)"
  have snap: "board_snapshot args answer =
      snapshot (rr_values (answer ReadOffsetAll)) (rr_values (answer ReadTrimAll)) ?es (rr_value (answer ReadVbiasControl))"
    using assms(3) by (simp add: board_snapshot_def)
  have es: "map ae_id ?es = py_range 5" "u32_list (map ae_attenuators ?es)" "u32_list (map ae_v_bias ?es)"
    using assms(9,10) by (simp_all add: comp_def board_entry_def)
  have nth: "map (\<lambda>i. (afe_of p i)\<lparr>attenuators := ae_attenuators (?es ! nat i), v_bias := ae_v_bias (?es ! nat i)\<rparr>) (py_range 5) =
      map (\<lambda>i. (afe_of p i)\<lparr>attenuators := rr_value (answer (ReadVgain i)), v_bias := rr_value (answer (ReadBiasSet i))\<rparr>) (py_range 5)"
    by (rule map_cong) (auto simp: board_entry_def)
  have "0 \<le> rr_value (answer ReadVbiasControl)" "rr_value (answer ReadVbiasControl) < 2 ^ 32"
    using assms(11) by (simp_all add: u32_list_def)
  from snapshot_request [OF assms(4,7,5,8,6) es this, of tr common] t show ?thesis
    unfolding snap nth by blast
qed

theorem snapshot_restores_witness:
  "\<exists>snap t. read_all ref_st st_defaults False ([], []) = (Inr snap, t) \<and>
    build_request_from_seed (\<lambda>r. Inl TypeError) snap (default_request default_params) True = Inr ((default_request default_params)
      \<lparr>biasctrl := 1300,
       channels := map (\<lambda>i. \<lparr>ch_id = i, ch_trim = replicate 40 7 ! nat i,
          ch_offset = replicate 40 2275 ! nat i, ch_gain = 1\<rparr>) (py_range 40),
       afes := map (\<lambda>i. (afe_of default_params i)\<lparr>attenuators := 1300, v_bias := 1000\<rparr>) (py_range 5)\<rparr>)"
proof -
  have u: "u32_list (replicate 40 7)" "u32_list (replicate 40 2275)" "u32_list (map (\<lambda>a. c) xs)" if "0 \<le> c \<and> c < 2 ^ 32" for c :: int and xs :: "int list"
    using that by (auto simp: u32_list_def list_all_iff)
  show ?thesis
    using snapshot_restores [OF ref_board.readable_board_axioms, where args = st_defaults and p = default_params
        and verbose = False and s = "([], [])" and tr = "\<lambda>r. Inl TypeError" and common = True] u [of 1300] u [of 1000]
    by (simp add: st_defaults_def params_ok_def default_params_def u32_list_def [of "[_]"])
qed

section \<open>The read-back of the scans\<close>

lemma after_last_append: "after_last m x = Some r \<Longrightarrow> after_last m (pre @ x) = Some r"
  by (induction pre) auto

lemma lf_char: "lf = [CHR 0x0A]"
  by (simp add: lf_def char_of_def bit_0)

lemma print_two:
  assumes "\<And>l s. printed (snd (fe_print fe l s)) = printed s @ l @ lf" and "print_lines fe [a, b] u = (Inr (), t)"
  shows "printed t = printed u @ a @ lf @ b @ lf"
proof -
  obtain v where "fe_print fe a u = (Inr (), v)" "fe_print fe b v = (Inr (), t)"
    using assms(2) by (auto simp: print_lines_def py_ok)
  with assms(1) [of a u] assms(1) [of b v] show ?thesis by simp
qed

lemma marker_text:
  assumes "after_last fe_marker (lf @ d) = None"
  shows "after_last fe_marker (pre @ fe_marker @ lf @ d) = Some (lf @ d)"
proof (rule after_last_append)
  have "after_last fe_marker (fe_marker @ lf @ d) = Some (lf @ d)"
    using assms by (simp add: fe_marker_def lf_char)
  then show "after_last fe_marker (fe_marker @ lf @ d) = Some (lf @ d)" .
qed

text \<open>The options with which the scans start the reader: everything not on the command line is at its default.\<close>

definition reader_args :: "string \<Rightarrow> int \<Rightarrow> string \<Rightarrow> st_args" where
  "reader_args host port rt = st_defaults\<lparr>sa_host := host, sa_port := port, sa_route := rt\<rparr>"

lemma reader_args_simps [simp]:
  "sa_afe_reg (reader_args host port rt) = []" "sa_afe_count (reader_args host port rt) = 5"
  "\<not> sa_json (reader_args host port rt)"
  by (simp_all add: reader_args_def st_defaults_def)

lemma reader_output:
  assumes "readable_board env sent reply_of answer"
    and "sa_afe_reg args = []" "sa_afe_count args \<le> 2 ^ 32" "\<not> sa_json args"
    and "\<And>l s. printed (snd (fe_print (st_fe env) l s)) = printed s @ l @ lf"
    and "after_last fe_marker (lf @ fe_dumps (st_fe env) (board_snapshot args answer) @ lf) = None"
    and "py_strip (lf @ fe_dumps (st_fe env) (board_snapshot args answer) @ lf) = txt" "txt \<noteq> []"
    and "loads scan txt = Some (board_snapshot args answer)"
  shows "\<exists>t. read_state_main env args s = (Inr (), t) \<and>
    extract_fe_state_json scan (printed t) = Inr (board_snapshot args answer)"
proof -
  let ?d = "fe_dumps (st_fe env) (board_snapshot args answer)"
  from readable_board.read_state_main_ends [OF assms(1-4)] obtain u t where
    t: "read_state_main env args s = (Inr (), t)"
      "print_lines (st_fe env) (snapshot_lines (st_fe env) (board_snapshot args answer)) u = (Inr (), t)" by blast
  have "printed t = (printed u @ [CHR 0x0A]) @ fe_marker @ lf @ ?d @ lf"
    using print_two [OF assms(5) t(2) [unfolded snapshot_lines_def]] by (simp add: fe_marker_def)
  then have "after_last fe_marker (printed t) = Some (lf @ ?d @ lf)"
    using marker_text [OF assms(6)] by (simp only:)
  then have "extract_fe_state_json scan (printed t) = Inr (board_snapshot args answer)"
    using assms(7-9) by (simp add: extract_fe_state_json_def Let_def)
  with t(1) show ?thesis by blast
qed

text \<open>C21: What the reader prints is what the scans' read-back returns. Suppose the board answers; the
  sub-program started by \<open>run_fe_state_readback\<close> is the reader with the options of its command line, ends with
  code 0 when the reader returns, and what it wrote to standard output is what the reader printed, with nothing
  on standard error; the log and JSON files can be written; and the printed form of the snapshot reads back and
  holds no marker itself. Then the read-back returns the snapshot of the board as its \<open>config\<close>, the log file
  holds the reader's text and the JSON file the snapshot.\<close>

theorem readback_extracts_snapshot:
  assumes "readable_board env sent reply_of answer" and "args = reader_args host port rt"
    and "\<And>l s. printed (snd (fe_print (st_fe env) l s)) = printed s @ l @ lf"
    and "after_last fe_marker (lf @ fe_dumps (st_fe env) (board_snapshot args answer) @ lf) = None"
    and "py_strip (lf @ fe_dumps (st_fe env) (board_snapshot args answer) @ lf) = txt" "txt \<noteq> []"
    and "loads scan txt = Some (board_snapshot args answer)"
    and "\<And>t. read_state_main env args s = (Inr (), t) \<Longrightarrow>
      run_prog scan (readback_command scan python host port rt timeout) v = (Inr (0, printed t, []), v1)"
    and "\<And>path text w. \<exists>w'. write_file scan path text w = (Inr (), w')"
  shows "\<exists>t payload v2 w. read_state_main env args s = (Inr (), t)
    \<and> run_fe_state_readback scan python host port rt timeout log_path json_path False v = (Inr payload, w)
    \<and> map_of payload ''config'' = Some (board_snapshot args answer) \<and> map_of payload ''returncode'' = Some (JInt 0)
    \<and> write_file scan log_path (printed t) v1 = (Inr (), v2)
    \<and> write_file scan json_path (dumps scan (board_snapshot args answer) @ lf) v2 = (Inr (), w)"
proof -
  obtain t where t: "read_state_main env args s = (Inr (), t)"
      "extract_fe_state_json scan (printed t) = Inr (board_snapshot args answer)"
    using reader_output [OF assms(1) _ _ _ assms(3-7)] assms(2) by auto
  obtain v2 where v2: "write_file scan log_path (printed t) v1 = (Inr (), v2)" using assms(9) by blast
  obtain w where w: "write_file scan json_path (dumps scan (board_snapshot args answer) @ lf) v2 = (Inr (), w)"
    using assms(9) by blast
  define payload where "payload = [(''command'', JList (map JStr (readback_command scan python host port rt timeout))),
            (''returncode'', JInt 0), (''json_path'', JStr json_path), (''config'', board_snapshot args answer)]"
  have pay: "map_of payload ''config'' = Some (board_snapshot args answer)" "map_of payload ''returncode'' = Some (JInt 0)"
    by (simp_all add: payload_def)
  have "combine_output (printed t) [] = printed t" by (simp add: combine_output_def)
  then have "run_fe_state_readback scan python host port rt timeout log_path json_path False v = (Inr payload, w)"
    unfolding payload_def using assms(8) [OF t(1)] v2 w t(2) by (simp add: run_fe_state_readback_def py_run Let_def)
  with t(1) v2 w pay show ?thesis
    by (intro exI [of _ t] exI [of _ payload] exI [of _ v2] exI [of _ w] conjI)
qed

text \<open>A scan whose sub-program is the reader on the concrete board; files are a map.\<close>

definition ref_scan :: "(string \<rightharpoonup> string) scan_env" where
  "ref_scan = \<lparr>run_prog = (\<lambda>cmd. m_ret (0, snd (snd (read_state_main ref_st (reader_args ''h'' 40001 ''mezz/0'') ([], []))), [])), write_file = (\<lambda>p txt. m_modify (\<lambda>fs. fs(p \<mapsto> txt))),
     loads = (\<lambda>t. if t = ''{}'' then Some (board_snapshot (reader_args ''h'' 40001 ''mezz/0'') test_answer) else None), dumps = (\<lambda>j. ''{}''),
     exc_str = (\<lambda>e. []), expanduser = (\<lambda>p. p), client_dir = ''client'', daphne_root = ''.''\<rparr>"

theorem readback_extracts_snapshot_witness:
  "\<exists>t payload w. read_state_main ref_st (reader_args ''h'' 40001 ''mezz/0'') ([], []) = (Inr (), t)
    \<and> run_fe_state_readback ref_scan ''python3'' ''h'' 40001 ''mezz/0'' 3000 ''l'' ''j'' False Map.empty = (Inr payload, w)
    \<and> map_of payload ''config'' = Some (board_snapshot (reader_args ''h'' 40001 ''mezz/0'') test_answer)"
proof -
  let ?args = "reader_args ''h'' 40001 ''mezz/0''"
  have "\<exists>t payload v2 w. read_state_main ref_st ?args ([], []) = (Inr (), t)
    \<and> run_fe_state_readback ref_scan ''python3'' ''h'' 40001 ''mezz/0'' 3000 ''l'' ''j'' False Map.empty = (Inr payload, w)
    \<and> map_of payload ''config'' = Some (board_snapshot ?args test_answer) \<and> map_of payload ''returncode'' = Some (JInt 0)
    \<and> write_file ref_scan ''l'' (snd t) Map.empty = (Inr (), v2)
    \<and> write_file ref_scan ''j'' (dumps ref_scan (board_snapshot ?args test_answer) @ lf) v2 = (Inr (), w)"
  proof (rule readback_extracts_snapshot [OF ref_board.readable_board_axioms refl])
    show "snd (snd (fe_print (st_fe ref_st) l s)) = snd s @ l @ lf" for l s
      by (simp add: ref_st_def m_modify_def split_beta)
    have d: "fe_dumps (st_fe ref_st) c = ''{}''" for c by (simp add: ref_st_def)
    show "after_last fe_marker (lf @ fe_dumps (st_fe ref_st) (board_snapshot ?args test_answer) @ lf) = None"
      unfolding d by (simp add: fe_marker_def lf_char)
    show "py_strip (lf @ fe_dumps (st_fe ref_st) (board_snapshot ?args test_answer) @ lf) = ''{}''"
      unfolding d by (simp add: lf_char py_strip_def is_space_def)
    show "run_prog ref_scan (readback_command ref_scan ''python3'' ''h'' 40001 ''mezz/0'' 3000) Map.empty =
        (Inr (0, snd t, []), Map.empty)" if "read_state_main ref_st ?args ([], []) = (Inr (), t)" for t
      using that by (simp add: ref_scan_def m_ret_def)
  qed (simp_all add: ref_scan_def m_modify_def)
  then show ?thesis by (elim exE conjE) (intro exI conjI)
qed

section \<open>Acquiring and loading waveforms\<close>

text \<open>C24: Acquired waveforms load back: after a streamed acquisition into fresh files, loading the file of a
  listed channel returns that channel's samples of every waveform in order (of the first \<open>max_waves\<close> when given),
  each reduced to sixteen bits and read as signed or unsigned.\<close>

theorem acquired_waveforms_load:
  assumes "spool env files inbox served" and "inbox s = []"
    and "distinct chs" and "\<not> ar_v2 args" "\<not> ar_append_data args"
    and "u32 (ar_N args) = Inr (ar_N args)" "u32 (ar_L args) = Inr (ar_L args)" "ar_L args \<noteq> 0"
    and "list_all (shaped (length chs) (nat (ar_L args))) ys" "ys \<noteq> []" "length ys \<le> fuel"
    and "\<And>body. list_all2 (carries_chunk env) (served (ser (aq_envc1 env) \<lparr>l_type = DUMP_SPYBUFFER_CHUNK, l_payload = body\<rparr>)) (stream_of ys)"
    and "sample_value interp = Inr val" and "i < length chs"
  shows "\<exists>n t. stream_acquire env args chs fuel s = (Inr (Some n), t) \<and>
    load_channel_waves (files t (chs ! i)) (nat (ar_L args)) max_waves interp =
      Inr \<lparr>w_len = nat (ar_L args), w_rows = map (\<lambda>wv. map (\<lambda>x. val (ucast x)) (wv ! i))
        (if max_waves \<le> 0 then concat ys else take (nat max_waves) (concat ys))\<rparr>"
proof -
  obtain n t where t: "stream_acquire env args chs fuel s = (Inr (Some n), t)" "files t = stored (ar_append_data args) chs (concat ys) (files s)"
    using spool.stream_stores [OF assms(1,3) _ assms(2,6,7,9,10,11,12)] assms(4) by (auto simp: streaming_v2_def)
  have "files t (chs ! i) = u16_bytes (column i (concat ys))"
    using assms(3,5,14) by (simp add: t(2) stored_def each_channel_nth)
  moreover have "0 < nat (ar_L args)" using assms(7,8) by (auto simp: u32_def split: if_splits)
  ultimately show ?thesis
    using t(1) load_stored [OF shaped_concat [OF assms(9)] assms(14) _ assms(13), of max_waves] by simp
qed

theorem acquired_waveforms_load_witness:
  "\<exists>n t. stream_acquire (ref_aq [[[[1], [2]]], [[[3], [0x1FFFF]]]]) (test_aq\<lparr>ar_v2 := False\<rparr>) [3, 5] 2 (\<lambda>_. [], []) = (Inr (Some n), t) \<and>
     load_channel_waves (fst t 5) 1 0 ''signed'' = Inr \<lparr>w_len = 1, w_rows = [[2], [- 1]]\<rparr>"
  using acquired_waveforms_load [OF ref_spool.spool_axioms [of "[[[[1], [2]]], [[[3], [0x1FFFF]]]]"], where s = "(\<lambda>_. [], [])" and chs = "[3, 5]"
      and args = "test_aq\<lparr>ar_v2 := False\<rparr>" and ys = "[[[[1], [2]]], [[[3], [0x1FFFF]]]]" and fuel = 2 and interp = "''signed''" and val = sint
      and i = 1 and max_waves = 0, OF _ _ _ _ _ _ _ _ _ _ ref_carries(1)]
  by (simp add: test_aq_def u32_def shaped_def sample_value_def)

section \<open>Configuration requests\<close>

text \<open>C32: Every configuration request that one of the clients builds is well typed, whatever its command line or seed
  file holds: from the options of the configuration client, from a seed with values of any JSON type, or in the gain
  sweep, each field fits the unsigned field of the message, and no channel and no AFE occurs twice.\<close>

theorem requests_typed:
  assumes "(\<exists>args ov. fe_config (F :: 'f float_ops) args = Inr (cfg, ov)) \<or> (\<exists>args seed ip. board_request tr args seed = Inr (ip, cfg)) \<or>
    (\<exists>host tmo seed. make_config_request tr host tmo seed = Inr cfg)"
  shows "request_typed cfg"
  using assms fe_config_typed board_request_typed make_config_request_typed by blast

theorem requests_typed_witness:
  "\<exists>cfg. fe_config int_floats example_fe = Inr (cfg, [(1, 1100)]) \<and> request_typed cfg"
proof -
  obtain cfg where "fe_config int_floats example_fe = Inr (cfg, [(1, 1100)])" using example_fe_config by blast
  with requests_typed [of int_floats cfg] show ?thesis by blast
qed

end
